(* ===== verification/Prelude.thy ===== *)
theory Prelude
  imports Complex_Main "HOL-Library.Word" "HOL-Library.Signed_Division"
begin

text \<open>
  What every component of the development shares: the values a C++ operation can end with
  (a result, a CORBA system exception, a failed assertion, undefined behaviour), the sequencing of
  such operations, the conversions between C++ integer types, decimal digit lists, and the generic
  lemmas on lists that the component proofs use.
\<close>

named_theorems err_simps \<open>unfolding and inverting sequences of fallible operations\<close>
named_theorems dig_simps \<open>values of decimal digit lists\<close>

section \<open>Errors as values\<close>

text \<open>
  The system exceptions and minor codes raised by the modelled code, named as in
  \<^verbatim>\<open>include/omniORB4/minorCode.h\<close>.
\<close>

datatype sysex =
    DATA_CONVERSION | MARSHAL | BAD_PARAM | BAD_INV_ORDER | TRANSIENT | OBJ_ADAPTER | INITIALIZE | TIMEOUT

datatype minor =
    DATA_CONVERSION_RangeError
  | DATA_CONVERSION_BadInput
  | DATA_CONVERSION_CannotMapChar
  | MARSHAL_InvalidFixedValue
  | MARSHAL_PassEndOfMessage
  | MARSHAL_AttemptToWriteToReadOnlyBuf
  | MARSHAL_StringNotEndWithNull
  | MARSHAL_StringIsTooLong
  | MARSHAL_InvalidCharacterSize
  | MARSHAL_SequenceIsTooLong
  | MARSHAL_WStringIsTooLong
  | MARSHAL_InvalidWCharSize
  | MARSHAL_MessageSizeExceedLimitOnClient
  | MARSHAL_MessageSizeExceedLimitOnServer
  | MARSHAL_MessageSizeExceedLimit
  | MARSHAL_InvalidVariableLenComponentSize
  | BAD_PARAM_InvalidInitialSize
  | BAD_PARAM_WCharTCSNotKnown
  | BAD_PARAM_WCharOutOfRange
  | BAD_INV_ORDER_WouldDeadLock
  | BAD_INV_ORDER_CodeSetNotKnownYet
  | BAD_PARAM_BadSchemeSpecificPart
  | BAD_PARAM_BadSchemeName
  | BAD_PARAM_BadAddress
  | BAD_PARAM_IndexOutOfRange
  | INITIALIZE_TransportError
  | TRANSIENT_POANoResource
  | TRANSIENT_ObjDeactivatedWhileHolding
  | TRANSIENT_CallTimedout
  | TIMEOUT_CallTimedOutOnServer
  | OBJ_ADAPTER_POAUnknownAdapter
  | OBJ_ADAPTER_BiDirNotAllowed

text \<open>
  \<open>AssertFail\<close> is \<^verbatim>\<open>omni::assertFail\<close>, called by \<^verbatim>\<open>OMNIORB_ASSERT\<close>; \<open>UserCheckFail\<close> is
  \<^verbatim>\<open>omni::ucheckFail\<close>, called by \<^verbatim>\<open>OMNIORB_USER_CHECK\<close> (both are always compiled in); \<open>Undefined\<close>
  stands for a read or a write outside an array, or a value that C++ leaves undefined; \<open>NoReturn\<close>
  for a loop that does not end, or has used up the fuel the model gives it; \<open>CommFailure\<close> is
  \<^verbatim>\<open>giopStream::CommFailure\<close>, raised when the transport fails or a message breaks the protocol;
  \<open>TerminateProcessing\<close> is \<^verbatim>\<open>GIOP_S::terminateProcessing\<close>, thrown when a request is cancelled;
  \<open>SystemException\<close> is the one that a reply carries, with its name, minor code and completion status.
\<close>

datatype error =
    Throw sysex minor
  | UserException string
  | AssertFail
  | UserCheckFail
  | Undefined
  | NoReturn
  | CommFailure
  | TerminateProcessing
  | SystemException string "32 word" "32 word"

type_synonym 'a result = "error + 'a"

definition ebind :: "'a result \<Rightarrow> ('a \<Rightarrow> 'b result) \<Rightarrow> 'b result" where
  "ebind m f = (case m of Inl e \<Rightarrow> Inl e | Inr x \<Rightarrow> f x)"

definition oassert :: "bool \<Rightarrow> unit result" where
  "oassert P = (if P then Inr () else Inl AssertFail)"

lemma ebind_Inl [simp, err_simps]: "ebind (Inl e) f = Inl e"
  by (simp add: ebind_def)

lemma ebind_Inr [simp, err_simps]: "ebind (Inr x) f = f x"
  by (simp add: ebind_def)

lemma ebind_eq_Inr [err_simps]: "ebind m f = Inr y \<longleftrightarrow> (\<exists>x. m = Inr x \<and> f x = Inr y)"
  by (cases m) auto

lemma ebind_eq_Inl [err_simps]:
  "ebind m f = Inl e \<longleftrightarrow> m = Inl e \<or> (\<exists>x. m = Inr x \<and> f x = Inl e)"
  by (cases m) auto

lemma ebind_cong [fundef_cong]:
  "m = m' \<Longrightarrow> (\<And>x. m' = Inr x \<Longrightarrow> f x = g x) \<Longrightarrow> ebind m f = ebind m' g"
  by (cases m') auto

lemma ebind_assoc: "ebind (ebind m f) g = ebind m (\<lambda>x. ebind (f x) g)"
  by (cases m) auto

lemma oassert_True [simp, err_simps]: "oassert True = Inr ()"
  by (simp add: oassert_def)

lemma oassert_False [simp, err_simps]: "oassert False = Inl AssertFail"
  by (simp add: oassert_def)

lemma oassert_eq_Inr [simp, err_simps]: "oassert P = Inr u \<longleftrightarrow> P"
  by (simp add: oassert_def)

lemma oassert_eq_Inl [simp, err_simps]: "oassert P = Inl e \<longleftrightarrow> \<not> P \<and> e = AssertFail"
  by (auto simp: oassert_def)

text \<open>Reading an array element; an index outside the array is undefined.\<close>

definition arr_get :: "'a list \<Rightarrow> nat \<Rightarrow> 'a result" where
  "arr_get xs i = (if i < length xs then Inr (xs ! i) else Inl Undefined)"

lemma arr_get_eq_Inr [err_simps]: "arr_get xs i = Inr x \<longleftrightarrow> i < length xs \<and> xs ! i = x"
  by (auto simp: arr_get_def)

lemma arr_get_in [simp]: "i < length xs \<Longrightarrow> arr_get xs i = Inr (xs ! i)"
  by (simp add: arr_get_def)

definition arr_set :: "'a list \<Rightarrow> nat \<Rightarrow> 'a \<Rightarrow> 'a list result" where
  "arr_set xs i x = (if i < length xs then Inr (xs[i := x]) else Inl Undefined)"

lemma arr_set_in [simp]: "i < length xs \<Longrightarrow> arr_set xs i x = Inr (xs[i := x])"
  by (simp add: arr_set_def)

section \<open>C++ integer conversions\<close>

text \<open>The conversion of an \<^verbatim>\<open>int\<close> to an octet (\<^verbatim>\<open>unsigned char\<close>) keeps the low eight bits.\<close>

definition octet :: "int \<Rightarrow> nat" where
  "octet v = nat (v mod 256)"

lemma octet_small [simp]: "0 \<le> v \<Longrightarrow> v < 256 \<Longrightarrow> octet v = nat v"
  by (simp add: octet_def)

lemma octet_bound: "octet v < 256"
proof -
  have "v mod 256 < (256::int)" by simp
  then show ?thesis unfolding octet_def by linarith
qed

section \<open>Alignment\<close>

text \<open>\<^verbatim>\<open>omni::align_to\<close> (\<^verbatim>\<open>omniInternal.h\<close>) on addresses: the masking with \<^verbatim>\<open>~(align - 1)\<close> clears the
  low bits. \<^verbatim>\<open>alignment_t\<close> has the four values below.\<close>

definition align_to :: "nat \<Rightarrow> nat \<Rightarrow> nat" where
  "align_to p align = (p + (align - 1)) - (p + (align - 1)) mod align"

definition alignment :: "nat \<Rightarrow> bool" where
  "alignment a \<longleftrightarrow> a = 1 \<or> a = 2 \<or> a = 4 \<or> a = 8"

lemma align_to_ge: "alignment a \<Longrightarrow> p \<le> align_to p a"
  unfolding alignment_def align_to_def by auto

lemma align_to_less: "alignment a \<Longrightarrow> align_to p a < p + a"
  unfolding alignment_def align_to_def by auto

lemma align_to_1 [simp]: "align_to p 1 = p" "align_to p (Suc 0) = p"
  by (simp_all add: align_to_def)

lemma align_to_dvd: "a dvd align_to p a"
  unfolding align_to_def by (simp add: dvd_minus_mod)

lemma align_to_add:
  assumes "alignment a" and "b mod 8 = 0"
  shows "align_to (b + p) a = b + align_to p a"
proof -
  have "8 dvd b" using assms(2) by auto
  moreover have "a dvd 8" using assms(1) by (auto simp: alignment_def)
  ultimately obtain k where b: "b = a * k" by (meson dvd_def dvd_trans)
  have "(b + p + (a - 1)) mod a = (p + (a - 1)) mod a"
    unfolding b by (simp only: add.assoc mod_mult_self4)
  moreover have "(p + (a - 1)) mod a \<le> p + (a - 1)" by (rule mod_less_eq_dividend)
  ultimately show ?thesis unfolding align_to_def by linarith
qed

section \<open>Lists\<close>

lemma last_take_nth: "0 < d \<Longrightarrow> d \<le> length xs \<Longrightarrow> last (take d xs) = xs ! (d - 1)"
  by (subst last_conv_nth) auto

lemma diff_bounds_10:
  fixes x y Q :: int
  assumes "0 \<le> x" "x < Q" "0 \<le> y" "y < Q" and "P = 10 * Q"
  shows "- P < 10 * (x - y)" and "10 * (x - y) < P"
  using assms by auto

lemma sgn_of_int_rat: "sgn (of_int z :: rat) = of_int (sgn z)"
  by (simp add: sgn_if)

section \<open>Decimal digit lists, least significant digit first\<close>

primrec dval :: "nat list \<Rightarrow> nat" where
  "dval [] = 0"
| "dval (x # xs) = x + 10 * dval xs"

definition digs :: "nat list \<Rightarrow> bool" where
  "digs xs \<longleftrightarrow> (\<forall>x \<in> set xs. x < 10)"

lemma digs_simps [simp, dig_simps]:
  "digs []"
  "digs (x # xs) \<longleftrightarrow> x < 10 \<and> digs xs"
  "digs (xs @ ys) \<longleftrightarrow> digs xs \<and> digs ys"
  "digs (replicate n 0)"
  by (auto simp: digs_def)

lemma digs_take [intro]: "digs xs \<Longrightarrow> digs (take n xs)"
  by (auto simp: digs_def dest: in_set_takeD)

lemma digs_drop [intro]: "digs xs \<Longrightarrow> digs (drop n xs)"
  by (auto simp: digs_def dest: in_set_dropD)

lemma digs_nth: "digs xs \<Longrightarrow> i < length xs \<Longrightarrow> xs ! i < 10"
  by (auto simp: digs_def)

lemma digs_rev [simp]: "digs (rev xs) = digs xs"
  by (simp add: digs_def)

lemma dval_append [dig_simps]: "dval (xs @ ys) = dval xs + 10 ^ length xs * dval ys"
  by (induction xs) (auto simp: algebra_simps)

lemma dval_replicate_0 [simp, dig_simps]: "dval (replicate n 0) = 0"
  by (induction n) auto

lemma dval_less: "digs xs \<Longrightarrow> dval xs < 10 ^ length xs"
  by (induction xs) auto

lemma dval_eq_0: "dval xs = 0 \<longleftrightarrow> (\<forall>x \<in> set xs. x = 0)"
  by (induction xs) auto

lemma dval_rev_pos: "xs \<noteq> [] \<Longrightarrow> last xs \<noteq> 0 \<Longrightarrow> dval (rev xs) \<noteq> 0"
  by (simp add: dval_eq_0) (meson last_in_set)

lemma dval_take_drop: "dval xs = dval (take n xs) + 10 ^ min n (length xs) * dval (drop n xs)"
  using dval_append [of "take n xs" "drop n xs"] by (simp add: min.commute)

lemma dval_last_pos:
  assumes "xs \<noteq> []" and "last xs \<noteq> 0"
  shows "10 ^ (length xs - 1) \<le> dval xs"
proof -
  have "dval xs = dval (butlast xs) + 10 ^ (length xs - 1) * last xs"
    using dval_append [of "butlast xs" "[last xs]"] assms(1) by simp
  moreover have "10 ^ (length xs - 1) * 1 \<le> 10 ^ (length xs - 1) * last xs"
    using assms(2) by (intro mult_le_mono2) simp
  ultimately show ?thesis by linarith
qed

lemma dval_inj:
  "digs xs \<Longrightarrow> digs ys \<Longrightarrow> length xs = length ys \<Longrightarrow> dval xs = dval ys \<Longrightarrow> xs = ys"
proof (induction xs arbitrary: ys)
  case Nil
  then show ?case by simp
next
  case (Cons x xs)
  then obtain y zs where ys: "ys = y # zs" by (cases ys) auto
  from Cons.prems ys have le: "x < 10" "y < 10" and eq: "x + 10 * dval xs = y + 10 * dval zs"
    by auto
  then have "x = y" by presburger
  with Cons ys eq show ?case by auto
qed

lemma dval_drop: "digs xs \<Longrightarrow> dval (drop k xs) = dval xs div 10 ^ k"
proof (induction xs arbitrary: k)
  case Nil
  then show ?case by simp
next
  case (Cons x xs)
  then show ?case
    by (cases k) (auto simp: div_mult2_eq)
qed

lemma dval_nth: "digs xs \<Longrightarrow> i < length xs \<Longrightarrow> xs ! i = dval xs div 10 ^ i mod 10"
proof (induction xs arbitrary: i)
  case Nil
  then show ?case by simp
next
  case (Cons x xs)
  then show ?case by (cases i) (auto simp: div_mult2_eq)
qed

lemma dval_take: "digs xs \<Longrightarrow> k \<le> length xs \<Longrightarrow> dval (take k xs) = dval xs mod 10 ^ k"
proof -
  assume d: "digs xs" and k: "k \<le> length xs"
  have "dval xs = dval (take k xs) + 10 ^ k * dval (drop k xs)"
    using dval_take_drop [of xs k] k by (simp add: min_def)
  moreover have "dval (take k xs) < 10 ^ k"
    using dval_less [OF digs_take [OF d], of k] k by (simp add: min_absorb2)
  ultimately show ?thesis by simp
qed

lemma dval_drop_zero: "dval (drop k xs) = 0 \<Longrightarrow> dval (take k xs) = dval xs"
  using dval_take_drop [of xs k] by simp

text \<open>Rounding half up of a decimal number, in terms of the first digit that is cut off.\<close>

lemma round_div_10:
  fixes N :: nat
  assumes "0 < p"
  shows "\<lfloor>(of_nat N :: rat) / 10 ^ p + 1 / 2\<rfloor> =
    int (N div 10 ^ p + (if 5 \<le> N div 10 ^ (p - 1) mod 10 then 1 else 0))"
proof -
  let ?q = "10 ^ (p - 1) :: nat"
  have p: "(10::rat) ^ p = 10 * 10 ^ (p - 1)" "(10::nat) ^ p = ?q * 10"
    using assms by (cases p; simp)+
  have "(of_nat N :: rat) / 10 ^ p + 1 / 2 = of_nat (N + 5 * ?q) / of_nat (?q * 10)"
    by (simp add: p field_simps)
  then have "\<lfloor>(of_nat N :: rat) / 10 ^ p + 1 / 2\<rfloor> = int ((N + 5 * ?q) div (?q * 10))"
    by (simp only: floor_divide_of_nat_eq)
  also have "(N + 5 * ?q) div (?q * 10) = (N div ?q + 5) div 10"
    by (simp add: div_mult2_eq)
  also have "\<dots> = N div ?q div 10 + (if 5 \<le> N div ?q mod 10 then 1 else 0)"
  proof -
    have "(m + 5) div 10 = m div 10 + (if 5 \<le> m mod 10 then 1 else 0)" for m :: nat
      using div_add1_eq [of m 5 10] by (auto simp: div_eq_dividend_iff)
    then show ?thesis .
  qed
  also have "N div ?q div 10 = N div 10 ^ p" by (simp only: p div_mult2_eq)
  finally show ?thesis by simp
qed

end
