(* ===== verification/Fixed_Type.thy ===== *)
theory Fixed_Type
  imports Prelude
begin

text \<open>
  The class \<^verbatim>\<open>CORBA::Fixed\<close> of \<^verbatim>\<open>orbcore/corbaFixed.cc\<close>: its data, constructors, conversions to
  integers, rounding, truncation, and the IDL limits. A fixed value keeps at most 31 decimal digits
  in an array, least significant digit first, with the position of the decimal point
  (\<open>pd_scale\<close>) and the sign. The invariant \<open>fixed_wf\<close> is what every constructor establishes.
\<close>

section \<open>Data\<close>

record fixed =
  pd_val :: "nat list"
  pd_digits :: nat
  pd_scale :: nat
  pd_negative :: bool
  pd_idl_digits :: nat
  pd_idl_scale :: nat

definition OMNI_FIXED_DIGITS :: nat where
  "OMNI_FIXED_DIGITS = 31"

text \<open>The digits in use, and the array made of given digits and zeros (the \<^verbatim>\<open>memset\<close>).\<close>

definition fdigits :: "fixed \<Rightarrow> nat list" where
  "fdigits f = take (pd_digits f) (pd_val f)"

definition pad31 :: "nat list \<Rightarrow> nat list" where
  "pad31 ds = ds @ replicate (OMNI_FIXED_DIGITS - length ds) 0"

definition fixed_zero :: fixed where
  "fixed_zero = \<lparr>pd_val = replicate 31 0, pd_digits = 0, pd_scale = 0, pd_negative = False,
                 pd_idl_digits = 0, pd_idl_scale = 0\<rparr>"

section \<open>Constructors\<close>

text \<open>
  The loop \<^verbatim>\<open>while (val) { pd_val[pd_digits++] = val % 10; val /= 10; }\<close>; \<^verbatim>\<open>%\<close> and \<^verbatim>\<open>/\<close> truncate
  towards zero.
\<close>

function int_digits :: "int \<Rightarrow> nat list" where
  "int_digits v = (if v = 0 then [] else octet (v smod 10) # int_digits (v sdiv 10))"
  by pat_completeness auto
termination
proof (relation "measure (\<lambda>v. nat \<bar>v\<bar>)")
  fix v :: int
  assume "v \<noteq> 0"
  then have "\<bar>v sdiv 10\<bar> < \<bar>v\<bar>"
    by (auto simp: signed_divide_int_def sgn_if abs_mult)
  then show "(v sdiv 10, v) \<in> measure (\<lambda>v. nat \<bar>v\<bar>)" by simp
qed simp

declare int_digits.simps [simp del]

definition Fixed_digits :: "nat list \<Rightarrow> bool \<Rightarrow> fixed" where
  "Fixed_digits ds neg =
     \<lparr>pd_val = pad31 ds, pd_digits = length ds, pd_scale = 0, pd_negative = neg,
      pd_idl_digits = 0, pd_idl_scale = 0\<rparr>"

text \<open>
  The signed constructors negate a negative argument at its own width: the most negative value
  stays negative (two's complement wrap-around).
\<close>

definition Fixed_signed :: "'a::len word \<Rightarrow> fixed" where
  "Fixed_signed val =
     (if val <s 0 then Fixed_digits (int_digits (sint (- val))) True
      else Fixed_digits (int_digits (sint val)) False)"

definition Fixed_unsigned :: "'a::len word \<Rightarrow> fixed" where
  "Fixed_unsigned val = Fixed_digits (int_digits (uint val)) False"

definition Fixed_int :: "32 word \<Rightarrow> fixed" where
  "Fixed_int = Fixed_signed"

definition Fixed_uint :: "32 word \<Rightarrow> fixed" where
  "Fixed_uint = Fixed_unsigned"

definition Fixed_LongLong :: "64 word \<Rightarrow> fixed" where
  "Fixed_LongLong = Fixed_signed"

definition Fixed_ULongLong :: "64 word \<Rightarrow> fixed" where
  "Fixed_ULongLong = Fixed_unsigned"

text \<open>The copy constructor forgets the IDL limits.\<close>

definition Fixed_copy :: "fixed \<Rightarrow> fixed" where
  "Fixed_copy val = val\<lparr>pd_idl_digits := 0, pd_idl_scale := 0\<rparr>"

text \<open>
  The constructor from a digit array: it drops trailing fractional zeros, then copies the digits.
  Reading the array outside its bounds is undefined.
\<close>

fun make_strip :: "nat list \<Rightarrow> nat \<Rightarrow> nat \<Rightarrow> (nat list \<times> nat \<times> nat) result" where
  "make_strip val digits scale =
     (if 0 < digits \<and> 0 < scale then
        (case val of
           [] \<Rightarrow> Inl Undefined
         | v # vs \<Rightarrow> if v = 0 then make_strip vs (digits - 1) (scale - 1)
                     else Inr (val, digits, scale))
      else Inr (val, digits, scale))"

declare make_strip.simps [simp del]

definition Fixed_make :: "nat list \<Rightarrow> nat \<Rightarrow> nat \<Rightarrow> bool \<Rightarrow> fixed result" where
  "Fixed_make val digits scale negative =
     ebind (oassert (digits \<le> OMNI_FIXED_DIGITS)) (\<lambda>_.
     ebind (oassert (scale \<le> digits)) (\<lambda>_.
     ebind (make_strip val digits scale) (\<lambda>(v, d, s).
       if length v < d then Inl Undefined
       else Inr \<lparr>pd_val = pad31 (take d v), pd_digits = d, pd_scale = s,
                 pd_negative = (if d = 0 then False else negative),
                 pd_idl_digits = 0, pd_idl_scale = 0\<rparr>)))"

section \<open>Conversion to an integer\<close>

text \<open>
  \<^verbatim>\<open>operator LongLong\<close>: the digits before the decimal point from the most significant one, in
  64-bit arithmetic with wrap-around and a signed comparison as the overflow check.
\<close>

fun to_int_loop :: "nat list \<Rightarrow> 'a::len word \<Rightarrow> 'a word result" where
  "to_int_loop [] r = Inr r"
| "to_int_loop (d # ds) r =
     (let s = r * 10 + of_nat d
      in if s <s r then Inl (Throw DATA_CONVERSION DATA_CONVERSION_RangeError)
         else to_int_loop ds s)"

definition Fixed_to_LongLong :: "fixed \<Rightarrow> 64 word result" where
  "Fixed_to_LongLong f =
     ebind (to_int_loop (rev (drop (pd_scale f) (fdigits f))) 0) (\<lambda>r.
       Inr (if pd_negative f then - r else r))"

definition Fixed_to_Long :: "fixed \<Rightarrow> 32 word result" where
  "Fixed_to_Long f =
     ebind (to_int_loop (rev (drop (pd_scale f) (fdigits f))) 0) (\<lambda>r.
       Inr (if pd_negative f then - r else r))"

section \<open>Rounding and truncation\<close>

text \<open>
  The carry loop of \<^verbatim>\<open>round\<close> over \<open>work\<close> from index \<open>cut\<close>: the new digits and how far past
  \<open>cut\<close> the loop stopped.
\<close>

fun round_carry :: "nat list \<Rightarrow> nat list \<times> nat" where
  "round_carry [] = ([], 0)"
| "round_carry (w # ws) =
     (let w' = octet (int w + 1)
      in if w' \<le> 9 then (w' # ws, 0)
         else (let (ws', n) = round_carry ws in (0 # ws', Suc n)))"

definition Fixed_round :: "fixed \<Rightarrow> nat \<Rightarrow> fixed result" where
  "Fixed_round f scale =
     (if pd_scale f \<le> scale then Inr (Fixed_copy f)
      else let pos = pd_scale f - scale in
        ebind (arr_get (pd_val f) (pos - 1)) (\<lambda>v.
          if 5 \<le> v then
            (let work = pd_val f @ [0];
                 (work', n) = round_carry (drop pos work);
                 i = pos + n;
                 new_digits = pd_digits f - pos + (if pd_digits f \<le> i then 1 else 0)
             in Fixed_make work' new_digits scale (pd_negative f))
          else Fixed_make (drop pos (pd_val f)) (pd_digits f - pos) scale (pd_negative f)))"

text \<open>The loop of \<^verbatim>\<open>truncate\<close>; it reads \<^verbatim>\<open>pd_val[cut]\<close> before it tests \<open>newscale\<close>.\<close>

fun trunc_loop :: "nat list \<Rightarrow> nat \<Rightarrow> nat \<Rightarrow> (nat \<times> nat) result" where
  "trunc_loop val pos newscale =
     (if length val \<le> pos then Inl Undefined
      else if val ! pos = 0 \<and> 0 < newscale then trunc_loop val (pos + 1) (newscale - 1)
      else Inr (pos, newscale))"

declare trunc_loop.simps [simp del]

definition Fixed_truncate :: "fixed \<Rightarrow> nat \<Rightarrow> fixed result" where
  "Fixed_truncate f scale =
     (if pd_scale f \<le> scale then Inr (Fixed_copy f)
      else ebind (trunc_loop (pd_val f) (pd_scale f - scale) scale) (\<lambda>(pos, newscale).
             Fixed_make (drop pos (pd_val f)) (pd_digits f - pos) newscale (pd_negative f)))"

section \<open>Limits and assignment\<close>

text \<open>
  The field copies of \<^verbatim>\<open>operator=\<close>; the IDL limits of the target stay. \<^verbatim>\<open>operator=\<close> and
  \<^verbatim>\<open>PR_checkLimits\<close> call each other: the second call finds the scale within its limit, so the
  scale decreases and the recursion ends.
\<close>

definition copy_fields :: "fixed \<Rightarrow> fixed \<Rightarrow> fixed" where
  "copy_fields this val =
     this\<lparr>pd_digits := pd_digits val, pd_scale := pd_scale val,
          pd_negative := pd_negative val, pd_val := pd_val val\<rparr>"

lemma make_strip_scale: "make_strip val digits scale = Inr (v, d, s) \<Longrightarrow> s \<le> scale"
  by (induction val digits scale rule: make_strip.induct)
     (subst (asm) (2) make_strip.simps, fastforce split: if_splits list.splits)


lemma trunc_loop_scale: "trunc_loop val pos ns = Inr (p, s) \<Longrightarrow> s \<le> ns"
  by (induction val pos ns rule: trunc_loop.induct)
     (subst (asm) (2) trunc_loop.simps, fastforce split: if_splits)

lemma Fixed_make_scale: "Fixed_make val d s n = Inr f \<Longrightarrow> pd_scale f \<le> s"
  by (auto simp: Fixed_make_def ebind_eq_Inr dest: make_strip_scale split: if_splits)

lemma Fixed_truncate_scale:
  assumes "Fixed_truncate f s = Inr g" and "s < pd_scale f"
  shows "pd_scale g \<le> s"
proof -
  from assms obtain p ns where tl: "trunc_loop (pd_val f) (pd_scale f - s) s = Inr (p, ns)"
    and mk: "Fixed_make (drop p (pd_val f)) (pd_digits f - p) ns (pd_negative f) = Inr g"
    by (auto simp: Fixed_truncate_def ebind_eq_Inr)
  from trunc_loop_scale [OF tl] Fixed_make_scale [OF mk] show ?thesis by simp
qed

function PR_checkLimits :: "fixed \<Rightarrow> (fixed \<times> bool) result" where
  "PR_checkLimits f =
     (if pd_idl_digits f = 0 then Inr (f, True)
      else if pd_idl_scale f < pd_scale f then
        (case Fixed_truncate f (pd_idl_scale f) of
           Inl e \<Rightarrow> Inl e
         | Inr t \<Rightarrow>
             (case PR_checkLimits (copy_fields f t) of
                Inl e \<Rightarrow> Inl e
              | Inr (f', _) \<Rightarrow> Inr (f', False)))
      else if int (pd_idl_digits f) - int (pd_idl_scale f) < int (pd_digits f) - int (pd_scale f)
        then Inl (Throw DATA_CONVERSION DATA_CONVERSION_RangeError)
      else Inr (f, True))"
  by pat_completeness auto
termination
  by (relation "measure pd_scale") (auto simp: copy_fields_def dest: Fixed_truncate_scale)

declare PR_checkLimits.simps [simp del]

definition Fixed_assign :: "fixed \<Rightarrow> fixed \<Rightarrow> fixed result" where
  "Fixed_assign this val = ebind (PR_checkLimits (copy_fields this val)) (\<lambda>(f, _). Inr f)"

definition PR_setLimits :: "fixed \<Rightarrow> nat \<Rightarrow> nat \<Rightarrow> fixed result" where
  "PR_setLimits this idl_digits idl_scale =
     ebind (oassert (idl_digits \<le> 31)) (\<lambda>_.
     ebind (oassert (idl_scale \<le> idl_digits)) (\<lambda>_.
     ebind (PR_checkLimits (this\<lparr>pd_idl_digits := idl_digits, pd_idl_scale := idl_scale\<rparr>))
       (\<lambda>(f, _). Inr f)))"

definition PR_changeScale :: "fixed \<Rightarrow> nat \<Rightarrow> fixed" where
  "PR_changeScale this new_scale =
     (let f = (if pd_digits this < new_scale then this\<lparr>pd_digits := new_scale\<rparr> else this)
      in f\<lparr>pd_scale := new_scale\<rparr>)"

definition Fixed_uplus :: "fixed \<Rightarrow> fixed" where
  "Fixed_uplus f = Fixed_copy f"

definition Fixed_uminus :: "fixed \<Rightarrow> fixed" where
  "Fixed_uminus f =
     (if pd_digits f = 0 then Fixed_copy f
      else (Fixed_copy f)\<lparr>pd_negative := \<not> pd_negative f\<rparr>)"

definition Fixed_not :: "fixed \<Rightarrow> bool" where
  "Fixed_not f \<longleftrightarrow> pd_digits f = 0"


section \<open>The invariant and the value\<close>

text \<open>
  \<open>fixed_wf\<close>: the digits are decimal, the array is zero above them, the scale is at most the number
  of digits, there is no trailing zero after the decimal point and no leading zero before it, and
  zero is not negative. \<open>fval\<close> is the number a fixed value stands for.
\<close>

definition fixed_wf :: "fixed \<Rightarrow> bool" where
  "fixed_wf f \<longleftrightarrow>
     pd_digits f \<le> 31 \<and> pd_scale f \<le> pd_digits f \<and> digs (fdigits f) \<and>
     length (fdigits f) = pd_digits f \<and> pd_val f = pad31 (fdigits f) \<and>
     (0 < pd_scale f \<longrightarrow> fdigits f ! 0 \<noteq> 0) \<and>
     (pd_scale f < pd_digits f \<longrightarrow> last (fdigits f) \<noteq> 0) \<and>
     (pd_digits f = 0 \<longrightarrow> \<not> pd_negative f)"

definition limits_ok :: "fixed \<Rightarrow> bool" where
  "limits_ok f \<longleftrightarrow> pd_idl_digits f \<le> 31 \<and> pd_idl_scale f \<le> pd_idl_digits f"

definition within_limits :: "fixed \<Rightarrow> bool" where
  "within_limits f \<longleftrightarrow>
     pd_idl_digits f = 0 \<or>
     pd_scale f \<le> pd_idl_scale f \<and>
     pd_digits f - pd_scale f \<le> pd_idl_digits f - pd_idl_scale f"

definition fmag :: "fixed \<Rightarrow> rat" where
  "fmag f = of_nat (dval (fdigits f)) / 10 ^ pd_scale f"

definition fval :: "fixed \<Rightarrow> rat" where
  "fval f = (if pd_negative f then - fmag f else fmag f)"

lemma pad31_length [simp]: "length ds \<le> 31 \<Longrightarrow> length (pad31 ds) = 31"
  by (simp add: pad31_def OMNI_FIXED_DIGITS_def)

lemma take_pad31 [simp]: "take (length ds) (pad31 ds) = ds"
  by (simp add: pad31_def)

lemma digs_pad31 [simp]: "digs (pad31 ds) = digs ds"
  by (simp add: pad31_def)

lemma fixed_wf_length [simp]: "fixed_wf f \<Longrightarrow> length (pd_val f) = 31"
  by (auto simp: fixed_wf_def)

lemma fixed_wf_fdigits_length [simp]: "fixed_wf f \<Longrightarrow> length (fdigits f) = pd_digits f"
  by (auto simp: fixed_wf_def)

lemma fixed_wf_digs: "fixed_wf f \<Longrightarrow> digs (fdigits f)" "fixed_wf f \<Longrightarrow> digs (pd_val f)"
  by (auto simp: fixed_wf_def)

lemma fixed_wf_bounds: "fixed_wf f \<Longrightarrow> pd_scale f \<le> pd_digits f" "fixed_wf f \<Longrightarrow> pd_digits f \<le> 31"
  by (auto simp: fixed_wf_def)

lemma fixed_wf_nth: "fixed_wf f \<Longrightarrow> i < pd_digits f \<Longrightarrow> pd_val f ! i = fdigits f ! i"
  by (simp add: fdigits_def)

lemma drop_pd_val:
  "fixed_wf f \<Longrightarrow> k \<le> pd_digits f \<Longrightarrow> take (pd_digits f - k) (drop k (pd_val f)) = drop k (fdigits f)"
  by (simp add: fdigits_def drop_take)

lemma fmag_nonneg [simp]: "0 \<le> fmag f"
  by (simp add: fmag_def)

lemma fixed_zero_wf [simp]: "fixed_wf fixed_zero" and fval_zero [simp]: "fval fixed_zero = 0"
  by (simp_all add: fixed_wf_def fixed_zero_def fdigits_def pad31_def OMNI_FIXED_DIGITS_def
      fval_def fmag_def)

lemma fixed_wf_pos_dval:
  assumes "fixed_wf f" and "pd_digits f \<noteq> 0"
  shows "0 < dval (fdigits f)"
proof (cases "pd_scale f = 0")
  case True
  with assms have "last (fdigits f) \<noteq> 0" and "fdigits f \<noteq> []" by (auto simp: fixed_wf_def)
  then have "last (fdigits f) \<in> set (fdigits f) \<and> last (fdigits f) \<noteq> 0" by simp
  then show ?thesis using dval_eq_0 [of "fdigits f"] by fastforce
next
  case False
  with assms have "fdigits f ! 0 \<noteq> 0" and "0 < length (fdigits f)" by (auto simp: fixed_wf_def)
  then have "fdigits f ! 0 \<in> set (fdigits f) \<and> fdigits f ! 0 \<noteq> 0" using nth_mem by blast
  then show ?thesis using dval_eq_0 [of "fdigits f"] by fastforce
qed

lemma fixed_wf_fval_0: "fixed_wf f \<Longrightarrow> fval f = 0 \<longleftrightarrow> pd_digits f = 0"
  using fixed_wf_pos_dval [of f]
  by (cases "pd_digits f = 0") (auto simp: fval_def fmag_def, simp add: fdigits_def)

section \<open>Constructing from a digit array\<close>

lemma make_strip_spec:
  assumes "digits \<le> length val"
  shows "\<exists>k \<le> min digits scale. make_strip val digits scale = Inr (drop k val, digits - k, scale - k) \<and>
    dval (take k val) = 0 \<and> (k < digits \<and> k < scale \<longrightarrow> val ! k \<noteq> 0)"
  using assms
proof (induction val digits scale rule: make_strip.induct)
  case (1 val digits scale)
  show ?case
  proof (cases "0 < digits \<and> 0 < scale \<and> hd val = 0")
    case False
    then have "make_strip val digits scale = Inr (val, digits, scale) \<and>
        (0 < digits \<and> 0 < scale \<longrightarrow> val ! 0 \<noteq> 0)"
      using "1.prems" by (auto simp: make_strip.simps [of val] split: list.splits)
    then show ?thesis by (intro exI [of _ 0]) simp
  next
    case True
    with "1.prems" obtain vs where val: "val = 0 # vs" by (cases val) auto
    have "\<exists>k \<le> min (digits - 1) (scale - 1).
        make_strip vs (digits - 1) (scale - 1) = Inr (drop k vs, digits - 1 - k, scale - 1 - k) \<and>
        dval (take k vs) = 0 \<and> (k < digits - 1 \<and> k < scale - 1 \<longrightarrow> vs ! k \<noteq> 0)"
      by (rule "1.IH" [OF _ val]) (use True "1.prems" val in auto)
    then obtain k where k: "k \<le> min (digits - 1) (scale - 1)"
      and "make_strip vs (digits - 1) (scale - 1) = Inr (drop k vs, digits - 1 - k, scale - 1 - k)"
      and "dval (take k vs) = 0" and "k < digits - 1 \<and> k < scale - 1 \<longrightarrow> vs ! k \<noteq> 0"
      by blast
    with True val show ?thesis
      by (intro exI [of _ "Suc k"]) (auto simp: make_strip.simps [of "0 # vs"])
  qed
qed

lemma Fixed_make_spec:
  assumes "digits \<le> 31" and "scale \<le> digits" and "digits \<le> length val"
    and "digs (take digits val)"
    and "scale < digits \<Longrightarrow> val ! (digits - 1) \<noteq> 0"
  obtains f where "Fixed_make val digits scale neg = Inr f" and "fixed_wf f"
    and "fmag f = of_nat (dval (take digits val)) / 10 ^ scale"
    and "pd_negative f = (neg \<and> dval (take digits val) \<noteq> 0)"
    and "pd_digits f - pd_scale f = digits - scale" and "pd_scale f \<le> scale"
    and "pd_idl_digits f = 0" and "pd_idl_scale f = 0"
proof -
  from make_strip_spec [OF assms(3), of scale] obtain k where k: "k \<le> min digits scale"
    and ms: "make_strip val digits scale = Inr (drop k val, digits - k, scale - k)"
    and z: "dval (take k val) = 0" and nz: "k < digits \<and> k < scale \<longrightarrow> val ! k \<noteq> 0" by blast
  let ?ds = "take (digits - k) (drop k val)"
  let ?f = "\<lparr>pd_val = pad31 ?ds, pd_digits = digits - k, pd_scale = scale - k,
             pd_negative = (if digits - k = 0 then False else neg),
             pd_idl_digits = 0, pd_idl_scale = 0\<rparr>"
  from k assms(3) have len: "length ?ds = digits - k" by simp
  then have fd: "fdigits ?f = ?ds" unfolding fdigits_def by (metis fixed.select_convs(1,2) take_pad31)
  have mk: "Fixed_make val digits scale neg = Inr ?f"
    using assms(1-3) k by (simp add: Fixed_make_def ms OMNI_FIXED_DIGITS_def)
  have split: "take digits val = take k val @ ?ds"
    using k by (metis add_diff_inverse_nat min.bounded_iff not_less take_add)
  have dv: "dval (take digits val) = 10 ^ k * dval ?ds"
    using k assms(3) z by (simp add: split dval_append)
  have mag: "fmag ?f = of_nat (dval (take digits val)) / 10 ^ scale"
  proof -
    from k have "(10::rat) ^ scale = 10 ^ k * 10 ^ (scale - k)" by (simp flip: power_add)
    then show ?thesis unfolding fmag_def fd dv by simp
  qed
  have last_ds: "last ?ds = val ! (digits - 1)" if "k < digits"
    using that len assms(3) by (subst last_conv_nth) auto
  have "digs ?ds" using assms(4) split by (metis digs_simps(3))
  then have wf: "fixed_wf ?f"
    unfolding fixed_wf_def fd
    using assms(1-3,5) k nz last_ds by auto
  have neg: "pd_negative ?f = (neg \<and> dval (take digits val) \<noteq> 0)"
    using fixed_wf_pos_dval [OF wf, unfolded fd] dv by auto
  show thesis
    by (rule that [OF mk wf mag neg]) (use k assms in auto)
qed


end
