(* ===== verification/Fixed_Round.thy ===== *)
theory Fixed_Round
  imports Fixed_Type
begin

text \<open>
  What the operations of \<^verbatim>\<open>Fixed_Type\<close> compute: \<^verbatim>\<open>truncate\<close> and \<^verbatim>\<open>round\<close> in terms of the value of
  the number, the IDL limits on assignment, and the conversions from and to integers.
\<close>

section \<open>Truncation and rounding compute the floor and the nearest value\<close>

lemma fmag_scaled:
  "s \<le> pd_scale f \<Longrightarrow> fmag f * 10 ^ s = of_nat (dval (fdigits f)) / 10 ^ (pd_scale f - s)"
proof -
  assume "s \<le> pd_scale f"
  then have "(10::rat) ^ pd_scale f = 10 ^ s * 10 ^ (pd_scale f - s)" by (simp flip: power_add)
  then show ?thesis by (simp add: fmag_def)
qed

lemma fmag_scaled_int:
  assumes "pd_scale f \<le> s"
  shows "fmag f * 10 ^ s = of_int (int (dval (fdigits f) * 10 ^ (s - pd_scale f)))"
proof -
  have "(10::rat) ^ s = 10 ^ pd_scale f * 10 ^ (s - pd_scale f)"
    using assms by (simp flip: power_add)
  then show ?thesis by (simp add: fmag_def)
qed

lemma floor_fmag:
  "s \<le> pd_scale f \<Longrightarrow> \<lfloor>fmag f * 10 ^ s\<rfloor> = int (dval (fdigits f) div 10 ^ (pd_scale f - s))"
  using floor_divide_of_nat_eq [of "dval (fdigits f)" "10 ^ (pd_scale f - s)", where ?'a = rat]
  by (simp add: fmag_scaled)

lemma round_fmag:
  assumes "s < pd_scale f"
  shows "round (fmag f * 10 ^ s) =
    int (dval (fdigits f) div 10 ^ (pd_scale f - s) +
      (if 5 \<le> dval (fdigits f) div 10 ^ (pd_scale f - s - 1) mod 10 then 1 else 0))"
  using assms round_div_10 [of "pd_scale f - s" "dval (fdigits f)"]
  by (simp add: fmag_scaled round_def)

lemma trunc_loop_spec:
  assumes "pos + ns < length val \<or> pos + ns \<le> length val \<and> dval (drop pos val) \<noteq> 0"
  shows "\<exists>k \<le> ns. trunc_loop val pos ns = Inr (pos + k, ns - k) \<and> dval (take k (drop pos val)) = 0"
  using assms
proof (induction val pos ns rule: trunc_loop.induct)
  case (1 val pos ns)
  have inb: "pos < length val"
  proof (rule ccontr)
    assume "\<not> pos < length val"
    then have "drop pos val = []" by simp
    with "1.prems" \<open>\<not> pos < length val\<close> show False by auto
  qed
  then have dp: "drop pos val = val ! pos # drop (pos + 1) val"
    by (simp add: Cons_nth_drop_Suc)
  show ?case
  proof (cases "val ! pos = 0 \<and> 0 < ns")
    case False
    with inb show ?thesis
      by (intro exI [of _ 0]) (auto simp: trunc_loop.simps [of val pos ns])
  next
    case True
    have "\<exists>k \<le> ns - 1. trunc_loop val (pos + 1) (ns - 1) = Inr (pos + 1 + k, ns - 1 - k) \<and>
        dval (take k (drop (pos + 1) val)) = 0"
      by (rule "1.IH") (use True inb "1.prems" dp in auto)
    then obtain k where k: "k \<le> ns - 1"
      and r: "trunc_loop val (pos + 1) (ns - 1) = Inr (pos + 1 + k, ns - 1 - k)"
      and z: "dval (take k (drop (pos + 1) val)) = 0" by blast
    from z True dp have "dval (take (Suc k) (drop pos val)) = 0" by simp
    moreover have "trunc_loop val pos ns = Inr (pos + Suc k, ns - Suc k)"
      using True inb r k by (simp add: trunc_loop.simps [of val pos ns])
    ultimately show ?thesis using k True by (intro exI [of _ "Suc k"]) auto
  qed
qed


lemma wf_top:
  assumes "fixed_wf f" and "pd_scale f < pd_digits f"
  shows "pd_val f ! (pd_digits f - 1) \<noteq> 0"
proof -
  have len: "length (fdigits f) = pd_digits f" and "last (fdigits f) \<noteq> 0"
    using assms by (auto simp: fixed_wf_def)
  then have "fdigits f ! (pd_digits f - 1) \<noteq> 0"
    using assms(2) last_conv_nth [of "fdigits f"] by fastforce
  then show ?thesis using assms fixed_wf_nth [of f "pd_digits f - 1"] by simp
qed

lemma Fixed_copy_fields [simp]:
  "pd_val (Fixed_copy f) = pd_val f" "pd_scale (Fixed_copy f) = pd_scale f"
  "pd_digits (Fixed_copy f) = pd_digits f" "pd_negative (Fixed_copy f) = pd_negative f"
  "pd_idl_digits (Fixed_copy f) = 0" "pd_idl_scale (Fixed_copy f) = 0"
  by (simp_all add: Fixed_copy_def)

lemma Fixed_copy_fdigits [simp]: "fdigits (Fixed_copy f) = fdigits f"
  by (simp add: fdigits_def)

lemma Fixed_copy_simps [simp]:
  "fixed_wf (Fixed_copy f) = fixed_wf f" "fmag (Fixed_copy f) = fmag f" "fval (Fixed_copy f) = fval f"
  by (simp_all only: fixed_wf_def fmag_def fval_def Fixed_copy_fields Fixed_copy_fdigits)

lemma wf_pd_val: "fixed_wf f \<Longrightarrow> pd_val f = fdigits f @ replicate (31 - pd_digits f) 0"
  unfolding fixed_wf_def pad31_def OMNI_FIXED_DIGITS_def by metis

lemma dval_drop_pd_val:
  assumes "fixed_wf f"
  shows "dval (drop k (pd_val f)) = dval (fdigits f) div 10 ^ k"
proof -
  have "dval (drop k (pd_val f)) = dval (drop k (fdigits f))"
    by (subst wf_pd_val [OF assms]) (simp add: dval_append)
  then show ?thesis by (simp add: dval_drop fixed_wf_digs(1) [OF assms])
qed

lemma Fixed_truncate_spec:
  assumes wf: "fixed_wf f" and range: "pd_scale f < 31 \<or> \<lfloor>fmag f * 10 ^ s\<rfloor> \<noteq> 0"
  obtains g where "Fixed_truncate f s = Inr g" and "fixed_wf g" and "pd_scale g \<le> s"
    and "fmag g = of_int \<lfloor>fmag f * 10 ^ s\<rfloor> / 10 ^ s"
    and "pd_negative g = (pd_negative f \<and> fmag g \<noteq> 0)"
    and "pd_digits g - pd_scale g = pd_digits f - pd_scale f"
proof (cases "pd_scale f \<le> s")
  case True
  show thesis
  proof (rule that [of "Fixed_copy f"])
    show "Fixed_truncate f s = Inr (Fixed_copy f)" using True by (simp add: Fixed_truncate_def)
    show "fmag (Fixed_copy f) = of_int \<lfloor>fmag f * 10 ^ s\<rfloor> / 10 ^ s"
      using fmag_scaled_int [OF True] by (simp add: field_simps)
    show "pd_negative (Fixed_copy f) = (pd_negative f \<and> fmag (Fixed_copy f) \<noteq> 0)"
      using fixed_wf_fval_0 [OF wf] wf by (auto simp: fval_def fixed_wf_def)
  qed (use wf True in auto)
next
  case False
  let ?pos = "pd_scale f - s"
  note b = fixed_wf_bounds [OF wf]
  have dpos: "dval (drop ?pos (fdigits f)) = dval (fdigits f) div 10 ^ ?pos"
    by (rule dval_drop [OF fixed_wf_digs(1) [OF wf]])
  have "dval (drop ?pos (pd_val f)) = dval (fdigits f) div 10 ^ ?pos"
    by (rule dval_drop_pd_val [OF wf])
  moreover have "\<lfloor>fmag f * 10 ^ s\<rfloor> = int (dval (fdigits f) div 10 ^ ?pos)"
    using False by (simp add: floor_fmag)
  ultimately have "?pos + s < length (pd_val f) \<or>
      ?pos + s \<le> length (pd_val f) \<and> dval (drop ?pos (pd_val f)) \<noteq> 0"
    using False range b wf by auto
  from trunc_loop_spec [OF this] obtain k where k: "k \<le> s"
    and tl: "trunc_loop (pd_val f) ?pos s = Inr (?pos + k, s - k)"
    and z: "dval (take k (drop ?pos (pd_val f))) = 0" by blast
  let ?d = "pd_digits f - (?pos + k)" and ?v = "drop (?pos + k) (pd_val f)"
  have tk: "take ?d ?v = drop (?pos + k) (fdigits f)"
    by (rule drop_pd_val [OF wf]) (use False b k in auto)
  have zk: "dval (drop ?pos (fdigits f)) = 10 ^ k * dval (take ?d ?v)"
  proof -
    have "take k (drop ?pos (fdigits f)) = take k (drop ?pos (pd_val f))"
      using k b False by (simp add: fdigits_def drop_take)
    then have "dval (drop ?pos (fdigits f)) =
        0 + 10 ^ min k (length (drop ?pos (fdigits f))) * dval (drop k (drop ?pos (fdigits f)))"
      using z dval_take_drop [of "drop ?pos (fdigits f)" k] by simp
    moreover have "min k (length (drop ?pos (fdigits f))) = k" using k b False wf by simp
    ultimately show ?thesis using tk by (simp add: add.commute)
  qed
  have m1: "?d \<le> 31" "s - k \<le> ?d" "?d \<le> length ?v" using b False k wf by auto
  have m2: "digs (take ?d ?v)" unfolding tk using fixed_wf_digs [OF wf] by auto
  have m3: "?v ! (?d - 1) \<noteq> 0" if "s - k < ?d"
    using wf_top [OF wf] that b False k wf by simp
  obtain g where mk: "Fixed_make ?v ?d (s - k) (pd_negative f) = Inr g"
    and gwf: "fixed_wf g" and mag: "fmag g = of_nat (dval (take ?d ?v)) / 10 ^ (s - k)"
    and neg: "pd_negative g = (pd_negative f \<and> dval (take ?d ?v) \<noteq> 0)"
    and id: "pd_digits g - pd_scale g = ?d - (s - k)" and sc: "pd_scale g \<le> s - k"
    by (rule Fixed_make_spec [OF m1 m2 m3, of "pd_negative f"]) auto
  show thesis
  proof (rule that [of g])
    show "Fixed_truncate f s = Inr g" using False tl mk by (simp add: Fixed_truncate_def)
    have "(10::rat) ^ s = 10 ^ k * 10 ^ (s - k)" using k by (simp flip: power_add)
    then have "fmag g = of_nat (10 ^ k * dval (take ?d ?v)) / 10 ^ s" using mag by simp
    also have "10 ^ k * dval (take ?d ?v) = dval (fdigits f) div 10 ^ ?pos"
      using zk dpos by simp
    also have "of_nat (dval (fdigits f) div 10 ^ ?pos) = of_int \<lfloor>fmag f * 10 ^ s\<rfloor>"
      using False by (simp add: floor_fmag)
    finally show "fmag g = of_int \<lfloor>fmag f * 10 ^ s\<rfloor> / 10 ^ s" .
    show "pd_negative g = (pd_negative f \<and> fmag g \<noteq> 0)" using neg mag by simp
    show "pd_digits g - pd_scale g = pd_digits f - pd_scale f" using id b False k by simp
  qed (use gwf sc in auto)
qed

text \<open>The carry of \<open>round\<close>: adding one to a digit list that is not all nines.\<close>

lemma round_carry_spec:
  assumes "digs ws" and "\<exists>w \<in> set ws. w \<noteq> 9"
  shows "\<exists>w' n. round_carry ws = (w', n) \<and> length w' = length ws \<and> digs w' \<and>
    dval w' = Suc (dval ws) \<and> n < length ws \<and> w' ! n \<noteq> 0 \<and> take n ws = replicate n 9 \<and>
    drop (Suc n) w' = drop (Suc n) ws"
  using assms
proof (induction ws)
  case Nil
  then show ?case by simp
next
  case (Cons w ws)
  show ?case
  proof (cases "w = 9")
    case False
    with Cons.prems have "round_carry (w # ws) = (Suc w # ws, 0)" by (simp add: nat_add_distrib)
    with False Cons.prems show ?thesis by auto
  next
    case True
    with Cons obtain w' n where "round_carry ws = (w', n) \<and> length w' = length ws \<and> digs w' \<and>
      dval w' = Suc (dval ws) \<and> n < length ws \<and> w' ! n \<noteq> 0 \<and> take n ws = replicate n 9 \<and>
      drop (Suc n) w' = drop (Suc n) ws" by auto
    then show ?thesis using True by auto
  qed
qed

text \<open>
  The three facts a digit window \<open>take nd w'\<close> needs for the constructor, when \<open>w'\<close> is the result of
  the carry over a digit list padded with zeros.
\<close>

lemma round_carry_window:
  assumes rc: "round_carry (D @ replicate z 0) = (w', n)" and "digs D" and z: "0 < z"
    and top: "s < length D \<Longrightarrow> last D \<noteq> 0" and s: "s \<le> length D"
    and nd: "nd = length D + (if length D \<le> n then 1 else 0)"
  shows "dval (take nd w') = Suc (dval D)" and "s < nd \<Longrightarrow> w' ! (nd - 1) \<noteq> 0"
    and "nd \<le> length w'" and "digs (take nd w')"
proof -
  let ?ws = "D @ replicate z 0"
  have "\<exists>w \<in> set ?ws. w \<noteq> 9" using z by auto
  with assms(2) rc have spec: "length w' = length ?ws" "digs w'" "dval w' = Suc (dval ?ws)"
    "n < length ?ws" "w' ! n \<noteq> 0" "take n ?ws = replicate n 9"
    "drop (Suc n) w' = drop (Suc n) ?ws"
    using round_carry_spec [of ?ws] by auto
  have n_le: "n \<le> length D"
  proof (rule ccontr)
    assume "\<not> n \<le> length D"
    then have "?ws ! length D = 9"
      using spec(6) by (metis linorder_not_le nth_replicate nth_take)
    with z show False by (simp add: nth_append)
  qed
  have nd_n: "Suc n \<le> nd" "nd \<le> length D + 1" using n_le nd by auto
  have "drop nd w' = drop (nd - Suc n) (drop (Suc n) w')" using nd_n by simp
  also have "\<dots> = drop nd ?ws" using nd_n by (simp only: spec(7)) simp
  also have "\<dots> = replicate (length ?ws - nd) 0" using nd by auto
  finally have zero: "dval (drop nd w') = 0" by simp
  show "dval (take nd w') = Suc (dval D)"
    using dval_drop_zero [OF zero] spec(3) by (simp add: dval_append)
  show "nd \<le> length w'" using spec(1) z nd by simp
  show "digs (take nd w')" using spec(2) by auto
  show "w' ! (nd - 1) \<noteq> 0" if "s < nd"
  proof (cases "nd - 1 = n")
    case True
    then show ?thesis using spec(5) by simp
  next
    case False
    with nd n_le have lt: "Suc n \<le> nd - 1" "nd = length D" by (auto split: if_splits)
    have "w' ! (Suc n + i) = ?ws ! (Suc n + i)" for i
      using spec(1,4,7) by (metis nth_drop Suc_leI)
    moreover have "Suc n + (nd - 1 - Suc n) = nd - 1" using lt(1) by simp
    ultimately have "w' ! (nd - 1) = ?ws ! (nd - 1)" by metis
    also have "\<dots> = last D"
      using lt by (cases "D = []") (auto simp: nth_append last_conv_nth)
    finally show ?thesis using top that lt by simp
  qed
qed

lemma Fixed_round_spec:
  assumes wf: "fixed_wf f"
  obtains g where "Fixed_round f s = Inr g" and "fixed_wf g" and "pd_scale g \<le> s"
    and "fmag g = of_int (round (fmag f * 10 ^ s)) / 10 ^ s"
    and "pd_negative g = (pd_negative f \<and> fmag g \<noteq> 0)"
proof (cases "pd_scale f \<le> s")
  case True
  show thesis
  proof (rule that [of "Fixed_copy f"])
    show "Fixed_round f s = Inr (Fixed_copy f)" using True by (simp add: Fixed_round_def)
    show "fmag (Fixed_copy f) = of_int (round (fmag f * 10 ^ s)) / 10 ^ s"
      using fmag_scaled_int [OF True] by (simp only: round_of_int) (simp add: field_simps)
    show "pd_negative (Fixed_copy f) = (pd_negative f \<and> fmag (Fixed_copy f) \<noteq> 0)"
      using fixed_wf_fval_0 [OF wf] wf by (auto simp: fval_def fixed_wf_def)
  qed (use wf True in auto)
next
  case False
  let ?pos = "pd_scale f - s" and ?D = "drop (pd_scale f - s) (fdigits f)"
  note b = fixed_wf_bounds [OF wf]
  have lenD: "length ?D = pd_digits f - ?pos" using wf by simp
  have topD: "last ?D \<noteq> 0" if "s < length ?D"
    using that wf lenD b False unfolding fixed_wf_def by (simp add: last_drop)
  have digsD: "digs ?D" using fixed_wf_digs(1) [OF wf] by auto
  have dvD: "dval ?D = dval (fdigits f) div 10 ^ ?pos"
    by (rule dval_drop [OF fixed_wf_digs(1) [OF wf]])
  have dpv: "drop ?pos (pd_val f) = ?D @ replicate (31 - pd_digits f) 0"
    by (subst wf_pd_val [OF wf]) (use b wf in simp)
  have get: "arr_get (pd_val f) (?pos - 1) = Inr (dval (fdigits f) div 10 ^ (?pos - 1) mod 10)"
    using b False wf dval_nth [OF fixed_wf_digs(1) [OF wf], of "?pos - 1"]
    by (simp add: fixed_wf_nth)
  note result = that
  have fin: thesis
    if mk: "Fixed_round f s = Fixed_make v d s (pd_negative f)"
      and m: "d \<le> 31" "s \<le> d" "d \<le> length v" "digs (take d v)" "s < d \<Longrightarrow> v ! (d - 1) \<noteq> 0"
      and val: "int (dval (take d v)) = round (fmag f * 10 ^ s)" for v d
  proof -
    obtain g where g: "Fixed_make v d s (pd_negative f) = Inr g" "fixed_wf g"
      "fmag g = of_nat (dval (take d v)) / 10 ^ s"
      "pd_negative g = (pd_negative f \<and> dval (take d v) \<noteq> 0)" "pd_scale g \<le> s"
      by (rule Fixed_make_spec [OF m, of "pd_negative f"]) auto
    show thesis
    proof (rule result [of g])
      show "Fixed_round f s = Inr g" using mk g(1) by simp
      show "fmag g = of_int (round (fmag f * 10 ^ s)) / 10 ^ s"
        unfolding g(3) using val [symmetric] by simp
      show "pd_negative g = (pd_negative f \<and> fmag g \<noteq> 0)" using g(3,4) by simp
    qed (use g in auto)
  qed
  show thesis
  proof (cases "5 \<le> dval (fdigits f) div 10 ^ (?pos - 1) mod 10")
    case up: True
    have work: "drop ?pos (pd_val f @ [0]) = ?D @ replicate (32 - pd_digits f) 0"
    proof -
      have "32 - pd_digits f = Suc (31 - pd_digits f)" using b by simp
      then show ?thesis using dpv b False wf by (simp add: replicate_append_same)
    qed
    obtain w' n where rc: "round_carry (?D @ replicate (32 - pd_digits f) 0) = (w', n)" by fastforce
    let ?nd = "length ?D + (if length ?D \<le> n then 1 else 0)"
    have z: "0 < 32 - pd_digits f" and sD: "s \<le> length ?D" using b lenD False by auto
    have w: "dval (take ?nd w') = Suc (dval ?D)" "s < ?nd \<Longrightarrow> w' ! (?nd - 1) \<noteq> 0"
      "?nd \<le> length w'" "digs (take ?nd w')"
      using round_carry_window [OF rc digsD z topD sD refl] by blast+
    show thesis
    proof (rule fin)
      show "Fixed_round f s = Fixed_make w' ?nd s (pd_negative f)"
        using False up get work rc lenD b by (auto simp: Fixed_round_def Let_def)
      show "int (dval (take ?nd w')) = round (fmag f * 10 ^ s)"
        unfolding w(1) using False up by (simp add: dvD round_fmag)
      show "?nd \<le> 31" using lenD b False by auto
      show "s \<le> ?nd" using sD by simp
    qed (fact w)+
  next
    case down: False
    show thesis
    proof (rule fin)
      show "Fixed_round f s = Fixed_make (drop ?pos (pd_val f)) (length ?D) s (pd_negative f)"
        using False down get lenD by (auto simp: Fixed_round_def Let_def)
      have tk: "take (length ?D) (drop ?pos (pd_val f)) = ?D" by (simp add: dpv)
      show "digs (take (length ?D) (drop ?pos (pd_val f)))" unfolding tk by (rule digsD)
      show "int (dval (take (length ?D) (drop ?pos (pd_val f)))) = round (fmag f * 10 ^ s)"
        unfolding tk using False down by (simp add: dvD round_fmag)
      show "drop ?pos (pd_val f) ! (length ?D - 1) \<noteq> 0" if "s < length ?D"
      proof -
        have ne: "?D \<noteq> []" and "length ?D - 1 < length ?D" using that by auto
        then have "(?D @ replicate (31 - pd_digits f) 0) ! (length ?D - 1) = ?D ! (length ?D - 1)"
          by (simp only: nth_append if_True)
        also have "\<dots> = last ?D" using ne by (rule last_conv_nth [symmetric])
        finally show ?thesis using topD [OF that] dpv by metis
      qed
    qed (use lenD b False wf in auto)
  qed
qed

section \<open>Limits\<close>

lemma copy_fields_simps [simp]:
  "pd_val (copy_fields f t) = pd_val t" "pd_digits (copy_fields f t) = pd_digits t"
  "pd_scale (copy_fields f t) = pd_scale t" "pd_negative (copy_fields f t) = pd_negative t"
  "pd_idl_digits (copy_fields f t) = pd_idl_digits f"
  "pd_idl_scale (copy_fields f t) = pd_idl_scale f"
  by (simp_all add: copy_fields_def)

lemma copy_fields_fdigits [simp]: "fdigits (copy_fields f t) = fdigits t"
  by (simp add: fdigits_def)

lemma copy_fields_value [simp]:
  "fixed_wf (copy_fields f t) = fixed_wf t" "fmag (copy_fields f t) = fmag t"
  "fval (copy_fields f t) = fval t"
  by (simp_all only: fixed_wf_def fmag_def fval_def copy_fields_simps copy_fields_fdigits)

text \<open>The truncation of a rational number to \<open>s\<close> decimal places, towards zero.\<close>

definition trunc_rat :: "nat \<Rightarrow> rat \<Rightarrow> rat" where
  "trunc_rat s x = sgn x * of_int \<lfloor>\<bar>x\<bar> * 10 ^ s\<rfloor> / 10 ^ s"

lemma fval_abs: "\<bar>fval f\<bar> = fmag f"
  by (simp add: fval_def)

lemma fval_sgn_mag: "sgn (fval f) * fmag f = fval f"
  using sgn_mult_abs [of "fval f"] by (simp add: fval_abs)

lemma fval_truncated:
  assumes "fmag g = of_int \<lfloor>fmag f * 10 ^ s\<rfloor> / 10 ^ s"
    and "pd_negative g = (pd_negative f \<and> fmag g \<noteq> 0)"
  shows "fval g = trunc_rat s (fval f)"
proof -
  have "sgn (fval f) * fmag g = fval g"
  proof (cases "fmag g = 0")
    case True
    then show ?thesis by (simp add: fval_def)
  next
    case False
    with assms have "fmag f \<noteq> 0" by auto
    then have "0 < fmag f" using fmag_nonneg [of f] by linarith
    then show ?thesis using assms(2) False by (auto simp: fval_def)
  qed
  then show ?thesis using assms(1) by (simp add: trunc_rat_def fval_abs)
qed

definition int_part_fits :: "fixed \<Rightarrow> fixed \<Rightarrow> bool" where
  "int_part_fits l f \<longleftrightarrow>
     pd_digits f - pd_scale f \<le> pd_idl_digits l - pd_idl_scale l"

lemma PR_checkLimits_small:
  assumes "fixed_wf f" and "limits_ok f" and "pd_idl_digits f \<noteq> 0" and "pd_scale f \<le> pd_idl_scale f"
  shows "PR_checkLimits f =
    (if int_part_fits f f then Inr (f, True) else Inl (Throw DATA_CONVERSION DATA_CONVERSION_RangeError))"
proof -
  have "int (pd_idl_digits f) - int (pd_idl_scale f) < int (pd_digits f) - int (pd_scale f) \<longleftrightarrow>
      \<not> int_part_fits f f"
    using fixed_wf_bounds [OF assms(1)] assms(2) by (auto simp: int_part_fits_def limits_ok_def)
  then show ?thesis using assms(3,4) by (subst PR_checkLimits.simps) simp
qed

lemma Fixed_assign_spec:
  assumes wf: "fixed_wf val" and lim: "limits_ok this" "pd_idl_digits this \<noteq> 0"
    and range: "pd_scale val \<le> pd_idl_scale this \<or> pd_scale val < 31 \<or>
      \<lfloor>fmag val * 10 ^ pd_idl_scale this\<rfloor> \<noteq> 0"
  shows "if int_part_fits this val
    then \<exists>g. Fixed_assign this val = Inr g \<and> fixed_wf g \<and> within_limits g \<and>
           fval g = trunc_rat (pd_idl_scale this) (fval val) \<and>
           pd_idl_digits g = pd_idl_digits this \<and> pd_idl_scale g = pd_idl_scale this
    else Fixed_assign this val = Inl (Throw DATA_CONVERSION DATA_CONVERSION_RangeError)"
proof -
  let ?s = "pd_idl_scale this"
  have fin: "if int_part_fits this val
      then \<exists>g. Fixed_assign this val = Inr g \<and> fixed_wf g \<and> within_limits g \<and>
             fval g = trunc_rat ?s (fval val) \<and>
             pd_idl_digits g = pd_idl_digits this \<and> pd_idl_scale g = ?s
      else Fixed_assign this val = Inl (Throw DATA_CONVERSION DATA_CONVERSION_RangeError)"
    if t: "fixed_wf t" "pd_scale t \<le> ?s" "fval t = trunc_rat ?s (fval val)"
      "pd_digits t - pd_scale t = pd_digits val - pd_scale val"
      and ca: "Fixed_assign this val = ebind (PR_checkLimits (copy_fields this t)) (\<lambda>(f, _). Inr f)" for t
  proof -
    have "PR_checkLimits (copy_fields this t) =
        (if int_part_fits this val then Inr (copy_fields this t, True)
         else Inl (Throw DATA_CONVERSION DATA_CONVERSION_RangeError))"
      using PR_checkLimits_small [of "copy_fields this t"] t lim
      by (simp add: limits_ok_def int_part_fits_def)
    then show ?thesis
      using t ca by (auto simp: within_limits_def int_part_fits_def)
  qed
  show ?thesis
  proof (cases "pd_scale val \<le> ?s")
    case True
    have "fval val = trunc_rat ?s (fval val)"
    proof -
      have "of_int \<lfloor>fmag val * 10 ^ ?s\<rfloor> = fmag val * 10 ^ ?s"
        using fmag_scaled_int [OF True] by (simp only: floor_of_int)
      then have "trunc_rat ?s (fval val) = sgn (fval val) * (fmag val * 10 ^ ?s) / 10 ^ ?s"
        by (simp only: trunc_rat_def fval_abs)
      then show ?thesis by (simp add: fval_sgn_mag flip: mult.assoc)
    qed
    then show ?thesis by (intro fin [of val]) (use wf True in \<open>simp_all add: Fixed_assign_def\<close>)
  next
    case False
    have "pd_scale val < 31 \<or> \<lfloor>fmag val * 10 ^ ?s\<rfloor> \<noteq> 0" using range False by simp
    from Fixed_truncate_spec [OF wf this] obtain t where
      tr: "Fixed_truncate val ?s = Inr t" and t: "fixed_wf t" "pd_scale t \<le> ?s"
      "fmag t = of_int \<lfloor>fmag val * 10 ^ ?s\<rfloor> / 10 ^ ?s"
      "pd_negative t = (pd_negative val \<and> fmag t \<noteq> 0)"
      "pd_digits t - pd_scale t = pd_digits val - pd_scale val" by metis
    have "Fixed_truncate (copy_fields this val) ?s = Inr t"
      using tr False by (simp add: Fixed_truncate_def)
    then have "Fixed_assign this val = ebind (PR_checkLimits (copy_fields this t)) (\<lambda>(f, _). Inr f)"
      using False lim unfolding Fixed_assign_def
      by (subst PR_checkLimits.simps) (auto simp: copy_fields_def split: sum.splits prod.splits)
    with t fval_truncated [OF t(3,4)] show ?thesis by (intro fin [of t]) auto
  qed
qed

section \<open>Integers\<close>

lemma int_digits_spec:
  assumes "0 \<le> v"
  shows "digs (int_digits v) \<and> dval (int_digits v) = nat v \<and> (v \<noteq> 0 \<longrightarrow> last (int_digits v) \<noteq> 0) \<and>
    (\<forall>k. v < 10 ^ k \<longrightarrow> length (int_digits v) \<le> k)"
  using assms
proof (induction v rule: int_digits.induct)
  case (1 v)
  show ?case
  proof (cases "v = 0")
    case True
    then show ?thesis by (simp add: int_digits.simps)
  next
    case False
    have e: "v sdiv 10 = v div 10" "v smod 10 = v mod 10" "octet (v mod 10) = nat (v mod 10)"
      using "1.prems" by (simp_all add: signed_divide_int_def signed_modulo_int_def sgn_if
          minus_div_mult_eq_mod)
    have IH: "digs (int_digits (v div 10)) \<and> dval (int_digits (v div 10)) = nat (v div 10) \<and>
        (v div 10 \<noteq> 0 \<longrightarrow> last (int_digits (v div 10)) \<noteq> 0) \<and>
        (\<forall>k. v div 10 < 10 ^ k \<longrightarrow> length (int_digits (v div 10)) \<le> k)"
      using "1.IH" [OF False] "1.prems" by (simp add: e)
    have st: "int_digits v = nat (v mod 10) # int_digits (v div 10)"
      using False by (subst int_digits.simps) (simp add: e)
    have val: "nat (v mod 10) + 10 * nat (v div 10) = nat v"
      using "1.prems" by (simp add: nat_mod_distrib nat_div_distrib)
    have lst: "last (int_digits v) \<noteq> 0"
    proof (cases "v div 10 = 0")
      case True
      then have "int_digits (v div 10) = []" by (simp add: int_digits.simps)
      moreover have "v mod 10 = v" using True "1.prems" by (simp add: div_eq_0_iff)
      ultimately show ?thesis using st False "1.prems" by simp
    next
      case ne: False
      then have "int_digits (v div 10) \<noteq> []" by (subst int_digits.simps) simp
      then show ?thesis using IH st ne by simp
    qed
    have "length (int_digits v) \<le> k" if "v < 10 ^ k" for k
    proof (cases k)
      case 0
      with that False "1.prems" show ?thesis by simp
    next
      case (Suc j)
      with that have "v div 10 < 10 ^ j" by (simp add: div_less_iff_less_mult)
      then show ?thesis using IH st Suc by simp
    qed
    then show ?thesis using IH st val lst nat_less_iff [of "v mod 10" 10] by simp
  qed
qed

lemma Fixed_digits_wf:
  assumes "0 < v" and "v < 10 ^ 31" and "ds = int_digits v"
  shows "fixed_wf (Fixed_digits ds neg) \<and> fmag (Fixed_digits ds neg) = of_int v"
proof -
  have s: "digs ds" "dval ds = nat v" "last ds \<noteq> 0" "length ds \<le> 31"
    using int_digits_spec [of v] assms by auto
  have "fdigits (Fixed_digits ds neg) = ds" by (simp add: Fixed_digits_def fdigits_def)
  then show ?thesis using s assms(1) by (auto simp: fixed_wf_def fmag_def Fixed_digits_def)
qed

lemma Fixed_signed_spec:
  fixes val :: "'a::len word"
  assumes "LENGTH('a) \<le> 64" and "sint val \<noteq> - (2 ^ (LENGTH('a) - 1))"
  shows "fixed_wf (Fixed_signed val) \<and> fval (Fixed_signed val) = of_int (sint val) \<and>
    pd_scale (Fixed_signed val) = 0"
proof -
  have "(2::int) ^ (LENGTH('a) - 1) \<le> 2 ^ 63" using assms(1) by (intro power_increasing) auto
  then have lim: "\<bar>sint val\<bar> < 10 ^ 31"
    using sint_range_size [of val] by (auto simp: word_size)
  have zero: "int_digits 0 = []" by (simp add: int_digits.simps)
  have z: "Fixed_digits [] False = fixed_zero"
    by (simp add: Fixed_digits_def fixed_zero_def pad31_def OMNI_FIXED_DIGITS_def)
  have neg: "sint (- val) = - sint val"
  proof -
    have "- (2 ^ (LENGTH('a) - 1)) \<le> - sint val \<and> - sint val < 2 ^ (LENGTH('a) - 1)"
      using sint_range_size [of val] assms(2) by (auto simp: word_size)
    then have "signed_take_bit (LENGTH('a) - 1) (- sint val) = - sint val"
      by (intro signed_take_bit_int_eq_self) auto
    moreover have "- val = word_of_int (- sint val)" by simp
    ultimately show ?thesis by (metis sint_sbintrunc')
  qed
  consider "sint val = 0" | "0 < sint val" | "sint val < 0" by linarith
  then show ?thesis
  proof cases
    case 1
    then show ?thesis using z zero by (simp add: Fixed_signed_def word_sless_alt) (simp add: fixed_zero_def)
  next
    case 2
    then show ?thesis using Fixed_digits_wf [of "sint val" _ False] lim
      by (simp add: Fixed_signed_def word_sless_alt fval_def Fixed_digits_def)
  next
    case 3
    then show ?thesis using Fixed_digits_wf [of "sint (- val)" _ True] lim neg
      by (simp add: Fixed_signed_def word_sless_alt fval_def Fixed_digits_def)
  qed
qed

text \<open>The conversion loop computes the integer part while it fits the target type.\<close>

lemma sint_of_nat_small:
  "m < 2 ^ (LENGTH('a::len) - 1) \<Longrightarrow> sint (of_nat m :: 'a word) = int m"
proof -
  assume m: "m < 2 ^ (LENGTH('a) - 1)"
  have "sint (of_nat m :: 'a word) = signed_take_bit (LENGTH('a) - 1) (int m)"
    using sint_sbintrunc' [of "int m", where ?'a = 'a] by simp
  also have "\<dots> = int m"
  proof (rule signed_take_bit_int_eq_self)
    show "int m < 2 ^ (LENGTH('a) - 1)" using m by (simp flip: of_nat_less_iff)
    show "- (2 ^ (LENGTH('a) - 1)) \<le> int m" by (rule order_trans [of _ 0]) simp_all
  qed
  finally show ?thesis .
qed

lemma to_int_loop_spec:
  assumes "n * 10 ^ length ds + dval (rev ds) < 2 ^ (LENGTH('a::len) - 1)"
  shows "to_int_loop ds (of_nat n :: 'a word) = Inr (of_nat (n * 10 ^ length ds + dval (rev ds)))"
  using assms
proof (induction ds arbitrary: n)
  case Nil
  then show ?case by simp
next
  case (Cons d ds)
  let ?m = "n * 10 + d"
  have e: "n * 10 ^ length (d # ds) + dval (rev (d # ds)) = ?m * 10 ^ length ds + dval (rev ds)"
    by (simp add: dval_append algebra_simps)
  have "?m * 1 \<le> ?m * 10 ^ length ds" by (intro mult_le_mono2) simp
  then have "?m \<le> ?m * 10 ^ length ds + dval (rev ds)" by (simp only: mult_1_right trans_le_add1)
  also have "\<dots> < 2 ^ (LENGTH('a) - 1)" using Cons.prems unfolding e .
  finally have m: "?m < 2 ^ (LENGTH('a) - 1)" .
  then have n: "n < 2 ^ (LENGTH('a) - 1)" by linarith
  have s: "(of_nat n :: 'a word) * 10 + of_nat d = of_nat ?m" by simp
  have "\<not> (of_nat ?m :: 'a word) <s of_nat n"
    using sint_of_nat_small [OF m] sint_of_nat_small [OF n]
    by (simp add: word_sless_alt del: of_nat_add of_nat_mult)
  then have "to_int_loop (d # ds) (of_nat n :: 'a word) = to_int_loop ds (of_nat ?m)"
    unfolding to_int_loop.simps Let_def s by simp
  also have "\<dots> = Inr (of_nat (?m * 10 ^ length ds + dval (rev ds)))"
    by (rule Cons.IH) (use Cons.prems e in simp)
  finally show ?case unfolding e .
qed

lemma Fixed_signed_digits:
  fixes val :: "'a::len word"
  assumes "LENGTH('a) \<le> 64" and "sint val \<noteq> - (2 ^ (LENGTH('a) - 1))"
  shows "int (dval (fdigits (Fixed_signed val))) = \<bar>sint val\<bar> \<and>
    pd_negative (Fixed_signed val) = (sint val < 0)"
proof -
  note sp = Fixed_signed_spec [OF assms]
  then have "fmag (Fixed_signed val) = of_int \<bar>sint val\<bar>"
    using fval_abs [of "Fixed_signed val"] by simp
  moreover have "fmag (Fixed_signed val) = of_int (int (dval (fdigits (Fixed_signed val))))"
    using sp by (simp add: fmag_def)
  ultimately have "int (dval (fdigits (Fixed_signed val))) = \<bar>sint val\<bar>" by (metis of_int_eq_iff)
  moreover have "pd_negative (Fixed_signed val) = (sint val < 0)"
    by (simp add: Fixed_signed_def Fixed_digits_def word_sless_alt)
  ultimately show ?thesis by simp
qed

lemma trunc_loop_undefined:
  "pos + ns = length val \<Longrightarrow> dval (drop pos val) = 0 \<Longrightarrow> trunc_loop val pos ns = Inl Undefined"
proof (induction val pos ns rule: trunc_loop.induct)
  case (1 val pos ns)
  show ?case
  proof (cases "pos < length val")
    case False
    then show ?thesis by (simp add: trunc_loop.simps [of val pos ns])
  next
    case True
    then have "drop pos val = val ! pos # drop (pos + 1) val" by (simp add: Cons_nth_drop_Suc)
    with "1.prems" have z: "val ! pos = 0" "dval (drop (pos + 1) val) = 0" by auto
    with True "1.prems" have "trunc_loop val (pos + 1) (ns - 1) = Inl Undefined"
      by (intro "1.IH") auto
    then show ?thesis using True z "1.prems" by (simp add: trunc_loop.simps [of val pos ns])
  qed
qed

section \<open>Properties\<close>

text \<open>C25. \<^verbatim>\<open>CORBA::Fixed::round\<close> never fails on a well-formed value, and returns the well-formed value
  with at most the asked number of decimal places that is nearest to it, a half being rounded
  away from zero.\<close>

theorem Fixed_round_nearest:
  assumes "fixed_wf f"
  shows "\<exists>g. Fixed_round f s = Inr g \<and> fixed_wf g \<and> pd_scale g \<le> s \<and>
    fval g = sgn (fval f) * of_int (round (\<bar>fval f\<bar> * 10 ^ s)) / 10 ^ s"
proof -
  obtain g where g: "Fixed_round f s = Inr g" "fixed_wf g" "pd_scale g \<le> s"
    "fmag g = of_int (round (fmag f * 10 ^ s)) / 10 ^ s"
    "pd_negative g = (pd_negative f \<and> fmag g \<noteq> 0)"
    by (rule Fixed_round_spec [OF assms])
  have "fval g = sgn (fval f) * fmag g"
  proof (cases "fmag f = 0")
    case True
    then show ?thesis using g(4,5) by (simp add: fval_def)
  next
    case False
    then have "0 < fmag f" using fmag_nonneg [of f] by linarith
    then show ?thesis using g(5) by (auto simp: fval_def)
  qed
  then show ?thesis using g by (auto simp: fval_abs)
qed

theorem Fixed_round_nearest_witness:
  "\<exists>g. Fixed_round (Fixed_signed (1205 :: 32 word)) 0 = Inr g \<and> fixed_wf g \<and> pd_scale g \<le> 0 \<and>
    fval g = sgn (fval (Fixed_signed (1205 :: 32 word))) *
      of_int (round (\<bar>fval (Fixed_signed (1205 :: 32 word))\<bar> * 10 ^ 0)) / 10 ^ 0"
proof -
  have "fixed_wf (Fixed_signed (1205 :: 32 word))" using Fixed_signed_spec [of "1205 :: 32 word"] by simp
  then show ?thesis by (rule Fixed_round_nearest)
qed

text \<open>Assigning a well-formed value to a fixed variable with IDL limits raises
  \<^verbatim>\<open>DATA_CONVERSION\<close> exactly when the integer part has more digits than the limits allow, and
  otherwise stores the value truncated towards zero to the IDL scale, within the limits. The
  assumption on the scale excludes the case in which \<^verbatim>\<open>truncate\<close> reads past the digit array.\<close>

theorem Fixed_assign_limits:
  assumes "fixed_wf val" and "limits_ok this" and "pd_idl_digits this \<noteq> 0" and "pd_scale val < 31"
  shows "if int_part_fits this val
    then \<exists>g. Fixed_assign this val = Inr g \<and> fixed_wf g \<and> within_limits g \<and>
           fval g = trunc_rat (pd_idl_scale this) (fval val) \<and>
           pd_idl_digits g = pd_idl_digits this \<and> pd_idl_scale g = pd_idl_scale this
    else Fixed_assign this val = Inl (Throw DATA_CONVERSION DATA_CONVERSION_RangeError)"
  using assms by (intro Fixed_assign_spec) auto

theorem Fixed_assign_limits_witness:
  "Fixed_assign (fixed_zero\<lparr>pd_idl_digits := 3\<rparr>) (Fixed_signed (1205 :: 32 word)) =
     Inl (Throw DATA_CONVERSION DATA_CONVERSION_RangeError)"
proof -
  have wf: "fixed_wf (Fixed_signed (1205 :: 32 word))" and sc: "pd_scale (Fixed_signed (1205 :: 32 word)) < 31"
    using Fixed_signed_spec [of "1205 :: 32 word"] by auto
  have "limits_ok (fixed_zero\<lparr>pd_idl_digits := 3\<rparr>)" and "pd_idl_digits (fixed_zero\<lparr>pd_idl_digits := 3\<rparr>) \<noteq> 0"
    by (simp_all add: limits_ok_def fixed_zero_def)
  note th = Fixed_assign_limits [OF wf this sc]
  have "\<not> int_part_fits (fixed_zero\<lparr>pd_idl_digits := 3\<rparr>) (Fixed_signed (1205 :: 32 word))"
    by code_simp
  with th show ?thesis by simp
qed

text \<open>\<^verbatim>\<open>truncate\<close> reads \<^verbatim>\<open>pd_val[31]\<close>, one past the digit array, for a value with 31 decimal
  places whose digits kept by the truncation are all zero.\<close>

theorem Fixed_truncate_reads_past_array:
  assumes "fixed_wf f" and "pd_scale f = 31" and "s < 31" and "\<lfloor>\<bar>fval f\<bar> * 10 ^ s\<rfloor> = 0"
  shows "Fixed_truncate f s = Inl Undefined"
proof -
  have "dval (drop (31 - s) (pd_val f)) = 0"
    using floor_fmag [of s f] assms by (simp add: dval_drop_pd_val fval_abs)
  moreover have "length (pd_val f) = 31" using assms(1) by simp
  ultimately have "trunc_loop (pd_val f) (31 - s) s = Inl Undefined"
    using assms(3) by (intro trunc_loop_undefined) auto
  then show ?thesis using assms by (simp add: Fixed_truncate_def)
qed

theorem Fixed_truncate_reads_past_array_witness:
  "Fixed_truncate (fixed_zero\<lparr>pd_val := 7 # replicate 30 0, pd_digits := 31, pd_scale := 31\<rparr>) 5 =
     Inl Undefined"
  by (rule Fixed_truncate_reads_past_array) code_simp+

text \<open>Converting a 64-bit integer to a fixed value and back gives the integer, for every integer
  but the most negative one.\<close>

theorem Fixed_LongLong_roundtrip:
  assumes "v \<noteq> - (2 ^ 63)"
  shows "Fixed_to_LongLong (Fixed_LongLong v) = Inr v"
proof -
  have ne: "sint v \<noteq> - (2 ^ (LENGTH(64) - 1))"
  proof
    assume "sint v = - (2 ^ (LENGTH(64) - 1))"
    then have "(word_of_int (sint v) :: 64 word) = word_of_int (- (2 ^ 63))" by simp
    then have "v = word_of_int (- (2 ^ 63))" by simp
    with assms show False by simp
  qed
  let ?f = "Fixed_LongLong v"
  have d: "int (dval (fdigits ?f)) = \<bar>sint v\<bar>" "pd_negative ?f = (sint v < 0)" "pd_scale ?f = 0"
    using Fixed_signed_digits [of v] Fixed_signed_spec [of v] ne by (auto simp: Fixed_LongLong_def)
  have "\<bar>sint v\<bar> < 2 ^ 63" using sint_range_size [of v] ne by (auto simp: word_size)
  then have "int (dval (fdigits ?f)) < int (2 ^ 63)" using d(1) by simp
  then have "dval (fdigits ?f) < 2 ^ 63" by (simp only: of_nat_less_iff)
  then have "to_int_loop (rev (fdigits ?f)) (of_nat 0 :: 64 word) = Inr (of_nat (dval (fdigits ?f)))"
    using to_int_loop_spec [of 0 "rev (fdigits ?f)", where ?'a = 64] by simp
  then have "Fixed_to_LongLong ?f = Inr (if sint v < 0 then - of_int \<bar>sint v\<bar> else of_int \<bar>sint v\<bar>)"
    using d by (simp add: Fixed_to_LongLong_def flip: d(1))
  also have "\<dots> = Inr v" by simp
  finally show ?thesis .
qed

theorem Fixed_LongLong_roundtrip_witness: "Fixed_to_LongLong (Fixed_LongLong (- 905)) = Inr (- 905)"
  by (rule Fixed_LongLong_roundtrip) simp

text \<open>The overflow check of the conversion to a 64-bit integer misses values: 25 * 10^18 is larger
  than every 64-bit integer and is converted without an exception, to another number.\<close>

theorem Fixed_to_LongLong_overflow_missed:
  "\<exists>f. fixed_wf f \<and> fval f = 25 * 10 ^ 18 \<and> Fixed_to_LongLong f = Inr 6553255926290448384"
proof (intro exI conjI)
  let ?f = "Fixed_digits (replicate 18 0 @ [5, 2]) False"
  have fd: "fdigits ?f = replicate 18 0 @ [5, 2]"
    unfolding fdigits_def Fixed_digits_def fixed.select_convs by (rule take_pad31)
  show "fixed_wf ?f" by code_simp
  show "fval ?f = 25 * 10 ^ 18"
    by (simp add: fval_def fmag_def fd dval_append) (simp add: Fixed_digits_def)
  note fd
  moreover have "pd_scale ?f = 0" by (simp add: Fixed_digits_def)
  moreover have "replicate 18 (0::nat) = [0, 0, 0, 0, 0, 0, 0, 0, 0, 0, 0, 0, 0, 0, 0, 0, 0, 0]"
    by (simp add: eval_nat_numeral)
  ultimately have "rev (drop (pd_scale ?f) (fdigits ?f)) =
      [2, 5, 0, 0, 0, 0, 0, 0, 0, 0, 0, 0, 0, 0, 0, 0, 0, 0, 0, 0]" by simp
  then show "Fixed_to_LongLong ?f = Inr 6553255926290448384"
    by (simp add: Fixed_to_LongLong_def Let_def word_sless_alt)
       (simp add: Fixed_digits_def)
qed

text \<open>The constructor from a 32-bit integer breaks the invariant at the most negative integer,
  whose negation overflows: the digit array holds values that are not decimal digits.\<close>

theorem Fixed_int_min_ill_formed: "\<not> fixed_wf (Fixed_int (- (2 ^ 31)))"
  by code_simp

end
