(* ===== verification/Fixed_Arith.thy ===== *)
theory Fixed_Arith
  imports Fixed_Round
begin

text \<open>
  Comparison and arithmetic of \<^verbatim>\<open>CORBA::Fixed\<close> (\<^verbatim>\<open>orbcore/corbaFixed.cc\<close>): the digit loops of
  \<^verbatim>\<open>absCmp\<close>, \<^verbatim>\<open>realAdd\<close>, \<^verbatim>\<open>realSub\<close>, \<^verbatim>\<open>realMul\<close> and \<^verbatim>\<open>realDiv\<close> and the operators built on them.
  The index variables \<^verbatim>\<open>ai\<close> and \<^verbatim>\<open>bi\<close> that walk over the digits of the operands become recursion over
  the digit lists; the \<open>work\<close> buffers have 62 elements and writing past them is \<open>Undefined\<close>.
\<close>

section \<open>Comparison\<close>

text \<open>The loop of \<^verbatim>\<open>absCmp\<close> over the digits from the most significant one.\<close>

fun absCmp_loop :: "nat list \<Rightarrow> nat list \<Rightarrow> int" where
  "absCmp_loop (x # xs) (y # ys) =
     (let c = int x - int y in if c \<noteq> 0 then c else absCmp_loop xs ys)"
| "absCmp_loop (x # xs) [] = 1"
| "absCmp_loop [] (y # ys) = - 1"
| "absCmp_loop [] [] = 0"

definition absCmp :: "fixed \<Rightarrow> fixed \<Rightarrow> int" where
  "absCmp a b =
     (let c = (int (pd_digits a) - int (pd_scale a)) - (int (pd_digits b) - int (pd_scale b))
      in if c \<noteq> 0 then c else absCmp_loop (rev (fdigits a)) (rev (fdigits b)))"

definition NP_cmp :: "fixed \<Rightarrow> fixed \<Rightarrow> int" where
  "NP_cmp a b =
     (if pd_negative a \<and> \<not> pd_negative b then - 1
      else if \<not> pd_negative a \<and> pd_negative b then 1
      else let c = (if pd_negative a then absCmp b a else absCmp a b)
           in if c < 0 then - 1 else if c > 0 then 1 else 0)"

definition Fixed_gt :: "fixed \<Rightarrow> fixed \<Rightarrow> bool" where
  "Fixed_gt a b \<longleftrightarrow> NP_cmp a b > 0"

definition Fixed_lt :: "fixed \<Rightarrow> fixed \<Rightarrow> bool" where
  "Fixed_lt a b \<longleftrightarrow> NP_cmp a b < 0"

definition Fixed_ge :: "fixed \<Rightarrow> fixed \<Rightarrow> bool" where
  "Fixed_ge a b \<longleftrightarrow> NP_cmp a b \<ge> 0"

definition Fixed_le :: "fixed \<Rightarrow> fixed \<Rightarrow> bool" where
  "Fixed_le a b \<longleftrightarrow> NP_cmp a b \<le> 0"

definition Fixed_eq :: "fixed \<Rightarrow> fixed \<Rightarrow> bool" where
  "Fixed_eq a b \<longleftrightarrow> NP_cmp a b = 0"

definition Fixed_ne :: "fixed \<Rightarrow> fixed \<Rightarrow> bool" where
  "Fixed_ne a b \<longleftrightarrow> NP_cmp a b \<noteq> 0"

section \<open>Finishing a result\<close>

text \<open>
  The common ends of \<^verbatim>\<open>realAdd\<close>, \<^verbatim>\<open>realSub\<close>, \<^verbatim>\<open>realMul\<close> and \<^verbatim>\<open>realDiv\<close>: chopping least
  significant digits off a result with more than 31 digits, or complaining, and stripping the
  trailing zeros after the decimal point.
\<close>

definition chop_digits :: "nat list \<Rightarrow> nat \<Rightarrow> nat \<Rightarrow> (nat list \<times> nat \<times> nat) result" where
  "chop_digits work digits scale =
     (if OMNI_FIXED_DIGITS < digits then
        (if int digits - int scale \<le> int OMNI_FIXED_DIGITS then
           (let chop = digits - OMNI_FIXED_DIGITS
            in Inr (drop chop work, OMNI_FIXED_DIGITS, scale - chop))
         else Inl (Throw DATA_CONVERSION DATA_CONVERSION_RangeError))
      else Inr (work, digits, scale))"

fun strip_trailing :: "nat list \<Rightarrow> nat \<Rightarrow> nat \<Rightarrow> (nat list \<times> nat \<times> nat) result" where
  "strip_trailing wp digits 0 = Inr (wp, digits, 0)"
| "strip_trailing [] digits (Suc scale) = Inl Undefined"
| "strip_trailing (w # wp) digits (Suc scale) =
     (if w = 0 then strip_trailing wp (digits - 1) scale else Inr (w # wp, digits, Suc scale))"

definition finish :: "nat list \<Rightarrow> nat \<Rightarrow> nat \<Rightarrow> bool \<Rightarrow> fixed result" where
  "finish wp digits scale negative =
     ebind (strip_trailing wp digits scale) (\<lambda>(wp, digits, scale).
       Fixed_make wp digits scale negative)"

section \<open>Addition\<close>

definition add_digit :: "int \<Rightarrow> nat \<times> int" where
  "add_digit v = (if v > 9 then (octet (v - 10), 1) else (octet v, 0))"

fun add_loop :: "nat list \<Rightarrow> nat list \<Rightarrow> int \<Rightarrow> nat list \<times> int" where
  "add_loop (x # xs) (y # ys) carry =
     (let (w, c) = add_digit (int x + int y + carry); (ws, c') = add_loop xs ys c in (w # ws, c'))"
| "add_loop (x # xs) [] carry =
     (let (w, c) = add_digit (int x + carry); (ws, c') = add_loop xs [] c in (w # ws, c'))"
| "add_loop [] (y # ys) carry =
     (let (w, c) = add_digit (int y + carry); (ws, c') = add_loop [] ys c in (w # ws, c'))"
| "add_loop [] [] carry = ([], carry)"

definition add_work :: "fixed \<Rightarrow> fixed \<Rightarrow> nat list \<times> nat" where
  "add_work a b =
     (let (start, as, bs, scale) =
        (if pd_scale b < pd_scale a then
           (let n = pd_scale a - pd_scale b
            in (take n (fdigits a), drop n (fdigits a), fdigits b, pd_scale a))
         else if pd_scale a < pd_scale b then
           (let n = pd_scale b - pd_scale a
            in (take n (fdigits b), fdigits a, drop n (fdigits b), pd_scale b))
         else ([], fdigits a, fdigits b, pd_scale a));
          (ws, carry) = add_loop as bs 0
      in (start @ ws @ (if carry \<noteq> 0 then [octet carry] else []), scale))"

definition realAdd :: "fixed \<Rightarrow> fixed \<Rightarrow> bool \<Rightarrow> fixed result" where
  "realAdd a b negative =
     (let (work, scale) = add_work a b; digits = length work
      in if OMNI_FIXED_DIGITS * 2 < digits then Inl Undefined
         else ebind (chop_digits work digits scale) (\<lambda>(wp, digits, scale).
                finish wp digits scale negative))"

section \<open>Subtraction\<close>

definition sub_digit :: "int \<Rightarrow> nat \<times> int" where
  "sub_digit v = (if v < 0 then (octet (v + 10), - 1) else (octet v, 0))"

text \<open>The digits of \<open>b\<close> below the last digit of \<open>a\<close>, subtracted from zeros.\<close>

fun sub_start :: "nat list \<Rightarrow> int \<Rightarrow> nat list \<times> int" where
  "sub_start [] carry = ([], carry)"
| "sub_start (y # ys) carry =
     (let (ws, c) = sub_start ys (- 1) in (octet (10 - int y + carry) # ws, c))"

fun sub_loop :: "nat list \<Rightarrow> nat list \<Rightarrow> int \<Rightarrow> nat list \<times> int \<times> nat list" where
  "sub_loop (x # xs) (y # ys) carry =
     (let (w, c) = sub_digit (int x - int y + carry); (ws, c', r) = sub_loop xs ys c
      in (w # ws, c', r))"
| "sub_loop (x # xs) [] carry =
     (let (w, c) = sub_digit (int x + carry); (ws, c', r) = sub_loop xs [] c in (w # ws, c', r))"
| "sub_loop [] ys carry = ([], carry, ys)"

fun strip_leading :: "nat list \<Rightarrow> nat \<Rightarrow> nat \<Rightarrow> nat result" where
  "strip_leading work digits scale =
     (if digits = 0 \<or> length work < digits then Inl Undefined
      else if work ! (digits - 1) = 0 \<and> scale < digits then strip_leading work (digits - 1) scale
      else Inr digits)"

declare strip_leading.simps [simp del]

definition sub_work :: "fixed \<Rightarrow> fixed \<Rightarrow> nat list \<times> int \<times> nat list \<times> nat" where
  "sub_work a b =
     (let (start, c0, as, bs, scale) =
        (if pd_scale b < pd_scale a then
           (let n = pd_scale a - pd_scale b
            in (take n (fdigits a), 0, drop n (fdigits a), fdigits b, pd_scale a))
         else if pd_scale a < pd_scale b then
           (let n = pd_scale b - pd_scale a;
                (ws, c) = sub_start (take n (fdigits b)) 0
            in (ws, c, fdigits a, drop n (fdigits b), pd_scale b))
         else ([], 0, fdigits a, fdigits b, pd_scale a));
          (ws, carry, rest) = sub_loop as bs c0
      in (start @ ws, carry, rest, scale))"

definition realSub :: "fixed \<Rightarrow> fixed \<Rightarrow> bool \<Rightarrow> fixed result" where
  "realSub a b negative =
     (let (work, carry, rest, scale) = sub_work a b
      in if OMNI_FIXED_DIGITS * 2 < length work then Inl Undefined
         else
           ebind (oassert (rest = [])) (\<lambda>_.
           ebind (oassert (carry = 0)) (\<lambda>_.
           ebind (strip_leading work (length work) scale) (\<lambda>digits.
           if OMNI_FIXED_DIGITS < digits then
             ebind (oassert (int digits - int scale \<le> int OMNI_FIXED_DIGITS)) (\<lambda>_.
               (let chop = digits - OMNI_FIXED_DIGITS
                in finish (drop chop work) OMNI_FIXED_DIGITS (scale - chop) negative))
           else finish work digits scale negative))))"

section \<open>Multiplication\<close>

fun mul_inner :: "nat \<Rightarrow> nat \<Rightarrow> nat list \<Rightarrow> nat \<Rightarrow> nat list \<Rightarrow> nat \<Rightarrow> nat
    \<Rightarrow> (nat list \<times> nat \<times> nat) result" where
  "mul_inner ai ad [] bi work carry wi = Inr (work, carry, wi)"
| "mul_inner ai ad (bd # bds) bi work carry wi =
     (if bd = 0 \<and> carry = 0 then mul_inner ai ad bds (Suc bi) work carry wi
      else ebind (arr_get work (ai + bi)) (\<lambda>w.
             let v = w + ad * bd + carry
             in mul_inner ai ad bds (Suc bi) (work[ai + bi := v mod 10]) (v div 10) (ai + bi)))"

function mul_carry :: "nat list \<Rightarrow> nat \<Rightarrow> nat \<Rightarrow> (nat list \<times> nat) result" where
  "mul_carry work carry wi =
     (if carry = 0 then Inr (work, wi)
      else if length work \<le> Suc wi then Inl Undefined
      else let v = work ! Suc wi + carry
           in mul_carry (work[Suc wi := v mod 10]) (v div 10) (Suc wi))"
  by pat_completeness auto
termination
  by (relation "measure (\<lambda>(work, carry, wi). length work - wi)") auto

declare mul_carry.simps [simp del]

fun mul_outer :: "nat list \<Rightarrow> nat \<Rightarrow> nat list \<Rightarrow> nat list \<Rightarrow> nat \<Rightarrow> (nat list \<times> nat) result" where
  "mul_outer [] ai bds work wi = Inr (work, wi)"
| "mul_outer (ad # ads) ai bds work wi =
     (if ad = 0 then mul_outer ads (Suc ai) bds work wi
      else ebind (mul_inner ai ad bds 0 work 0 wi) (\<lambda>(work, carry, wi).
           ebind (mul_carry work carry wi) (\<lambda>(work, wi).
             mul_outer ads (Suc ai) bds work wi)))"

definition realMul :: "fixed \<Rightarrow> fixed \<Rightarrow> bool \<Rightarrow> fixed result" where
  "realMul a b negative =
     ebind (mul_outer (fdigits a) 0 (fdigits b) (replicate (OMNI_FIXED_DIGITS * 2) 0) 0)
       (\<lambda>(work, wi).
         let scale = pd_scale a + pd_scale b; digits = max (wi + 1) scale
         in ebind (chop_digits work digits scale) (\<lambda>(wp, digits, scale).
              finish wp digits scale negative))"

section \<open>Division\<close>

fun divCmp_loop :: "nat list \<Rightarrow> nat list \<Rightarrow> int" where
  "divCmp_loop (x # xs) (y # ys) =
     (let c = int x - int y in if c \<noteq> 0 then c else divCmp_loop xs ys)"
| "divCmp_loop _ _ = 0"

definition divCmp :: "nat list \<Rightarrow> nat list \<Rightarrow> nat \<Rightarrow> int result" where
  "divCmp av bv pos =
     (if list_ex (\<lambda>x. x \<noteq> 0) (drop (Suc pos) av) then Inr 1
      else ebind (oassert (length bv \<le> Suc pos)) (\<lambda>_.
             Inr (divCmp_loop (rev (take (length bv) (drop (Suc pos - length bv) av))) (rev bv))))"

text \<open>
  One subtraction of the divisor from \<open>av\<close> at digit \<open>pos\<close>, with the borrow taken up to the top
  digit; the borrow out of the top digit is dropped.
\<close>

definition div_sub :: "nat list \<Rightarrow> nat list \<Rightarrow> nat \<Rightarrow> nat list" where
  "div_sub av bv pos =
     (let n = Suc pos - length bv; (ws, c, r) = sub_loop (drop n av) bv 0
      in take n av @ ws)"

fun divDigit :: "nat \<Rightarrow> nat list \<Rightarrow> nat list \<Rightarrow> nat \<Rightarrow> nat \<Rightarrow> (nat list \<times> nat) result" where
  "divDigit 0 av bv pos count = Inl NoReturn"
| "divDigit (Suc fuel) av bv pos count =
     ebind (divCmp av bv pos) (\<lambda>c.
       if 0 \<le> c then divDigit fuel (div_sub av bv pos) bv pos (Suc count)
       else ebind (oassert (count < 10)) (\<lambda>_. Inr (av, count)))"

fun skip_top_zeros :: "nat list \<Rightarrow> nat \<Rightarrow> nat result" where
  "skip_top_zeros val 0 = Inl Undefined"
| "skip_top_zeros val (Suc n) =
     ebind (arr_get val n) (\<lambda>v. if v = 0 then skip_top_zeros val n else Inr (Suc n))"

text \<open>
  The main loop; \<open>off = ri - wi\<close> is the number of initial zero digits. Eleven units of fuel let
  \<^verbatim>\<open>divDigit\<close> count to ten, one more than the assertion after its loop accepts.
\<close>

fun div_loop :: "nat list \<Rightarrow> nat list \<Rightarrow> nat list \<Rightarrow> nat \<Rightarrow> nat \<Rightarrow> nat \<Rightarrow> (nat list \<times> nat) result" where
  "div_loop work running bv off digits ri =
     (if OMNI_FIXED_DIGITS \<le> digits then Inr (work, digits)
      else if list_all (\<lambda>x. x = 0) running then Inr (work, digits)
      else ebind (divDigit 11 running bv ri 0) (\<lambda>(running, q).
           if ri < off then Inl Undefined
           else ebind (arr_set work (ri - off) q) (\<lambda>work.
             let digits' = (if digits \<noteq> 0 \<or> q \<noteq> 0 then Suc digits else digits)
             in if ri = 0 then Inl Undefined
                else div_loop work running bv off digits' (ri - 1))))"

declare div_loop.simps [simp del]

fun skip_expected :: "nat list \<Rightarrow> nat \<Rightarrow> nat \<Rightarrow> (nat \<times> nat) result" where
  "skip_expected work wi unscale =
     ebind (arr_get work wi) (\<lambda>w.
       if w = 0 \<and> 0 < unscale then
         (if wi = 0 then Inl Undefined else skip_expected work (wi - 1) (unscale - 1))
       else Inr (wi, unscale))"

declare skip_expected.simps [simp del]

definition realDiv :: "fixed \<Rightarrow> fixed \<Rightarrow> bool \<Rightarrow> fixed result" where
  "realDiv a b negative =
     ebind (skip_top_zeros (pd_val a) (pd_digits a)) (\<lambda>ad.
     ebind (skip_top_zeros (pd_val b) (pd_digits b)) (\<lambda>bd.
     let n2 = OMNI_FIXED_DIGITS * 2;
         running = replicate (n2 - ad) 0 @ take ad (pd_val a);
         unscale = (int ad - int (pd_scale a)) - (int bd - int (pd_scale b)) + 1;
         digits0 = (if unscale < 0 then nat (- unscale) else 0)
     in ebind (div_loop (replicate n2 0) running (take bd (pd_val b)) digits0 digits0 (n2 - 1))
          (\<lambda>(work, digits).
        ebind (if 0 \<le> unscale then skip_expected work (n2 - 1) (nat unscale) else Inr (n2 - 1, 0))
          (\<lambda>(wi, unscale).
        if OMNI_FIXED_DIGITS < unscale then Inl (Throw DATA_CONVERSION DATA_CONVERSION_RangeError)
        else let digits = max digits unscale
             in if Suc wi < digits then Inl Undefined
                else finish (drop (Suc wi - digits) work) digits (digits - unscale) negative))))"

section \<open>Operators\<close>

definition Fixed_add :: "fixed \<Rightarrow> fixed \<Rightarrow> fixed result" where
  "Fixed_add a b =
     (if pd_negative a = pd_negative b then realAdd a b (pd_negative a)
      else let cmp = absCmp a b in
        if cmp = 0 then Inr fixed_zero
        else if cmp > 0 then realSub a b (pd_negative a)
        else realSub b a (pd_negative b))"

definition Fixed_sub :: "fixed \<Rightarrow> fixed \<Rightarrow> fixed result" where
  "Fixed_sub a b =
     (if pd_negative a \<noteq> pd_negative b then realAdd a b (pd_negative a)
      else let cmp = absCmp a b in
        if cmp = 0 then Inr fixed_zero
        else if cmp > 0 then realSub a b (pd_negative a)
        else realSub b a (\<not> pd_negative a))"

definition Fixed_mul :: "fixed \<Rightarrow> fixed \<Rightarrow> fixed result" where
  "Fixed_mul a b =
     (if pd_digits a = 0 \<or> pd_digits b = 0 then Inr fixed_zero
      else if pd_negative a = pd_negative b then realMul a b False
      else realMul a b True)"

definition Fixed_div :: "fixed \<Rightarrow> fixed \<Rightarrow> fixed result" where
  "Fixed_div a b =
     (if pd_digits b = 0 then Inl UserCheckFail
      else if pd_digits a = 0 then Inr fixed_zero
      else if pd_negative a = pd_negative b then realDiv a b False
      else realDiv a b True)"

definition Fixed_add_assign :: "fixed \<Rightarrow> fixed \<Rightarrow> fixed result" where
  "Fixed_add_assign this val = ebind (Fixed_add this val) (Fixed_assign this)"

definition Fixed_sub_assign :: "fixed \<Rightarrow> fixed \<Rightarrow> fixed result" where
  "Fixed_sub_assign this val = ebind (Fixed_sub this val) (Fixed_assign this)"

definition Fixed_mul_assign :: "fixed \<Rightarrow> fixed \<Rightarrow> fixed result" where
  "Fixed_mul_assign this val = ebind (Fixed_mul this val) (Fixed_assign this)"

definition Fixed_div_assign :: "fixed \<Rightarrow> fixed \<Rightarrow> fixed result" where
  "Fixed_div_assign this val = ebind (Fixed_div this val) (Fixed_assign this)"

text \<open>The prefix and postfix increments: the new value of the object, and the value returned.\<close>

definition Fixed_preinc :: "fixed \<Rightarrow> (fixed \<times> fixed) result" where
  "Fixed_preinc this =
     ebind (Fixed_add this (Fixed_int 1)) (\<lambda>r. ebind (Fixed_assign this r) (\<lambda>f. Inr (f, f)))"

definition Fixed_postinc :: "fixed \<Rightarrow> (fixed \<times> fixed) result" where
  "Fixed_postinc this =
     ebind (Fixed_add this (Fixed_int 1)) (\<lambda>r.
     ebind (Fixed_assign this r) (\<lambda>f. Inr (f, Fixed_copy this)))"

definition Fixed_predec :: "fixed \<Rightarrow> (fixed \<times> fixed) result" where
  "Fixed_predec this =
     ebind (Fixed_sub this (Fixed_int 1)) (\<lambda>r. ebind (Fixed_assign this r) (\<lambda>f. Inr (f, f)))"

definition Fixed_postdec :: "fixed \<Rightarrow> (fixed \<times> fixed) result" where
  "Fixed_postdec this =
     ebind (Fixed_sub this (Fixed_int 1)) (\<lambda>r.
     ebind (Fixed_assign this r) (\<lambda>f. Inr (f, Fixed_copy this)))"

end
