(* ===== verification/Fixed_Arith_Props.thy ===== *)
theory Fixed_Arith_Props
  imports Fixed_Arith
begin

text \<open>
  What the arithmetic of \<^verbatim>\<open>Fixed_Arith\<close> computes: the comparison orders by value, and sum, difference
  and product are the exact results, cut to the 31 digits a fixed value can hold.
\<close>

section \<open>Finishing\<close>

lemma strip_trailing_spec:
  assumes "s \<le> length wp"
  shows "\<exists>k \<le> s. strip_trailing wp d s = Inr (drop k wp, d - k, s - k) \<and> dval (take k wp) = 0"
  using assms
proof (induction wp d s rule: strip_trailing.induct)
  case (1 wp d)
  then show ?case by simp
next
  case (2 d s)
  then show ?case by simp
next
  case (3 w wp d s)
  show ?case
  proof (cases "w = 0")
    case True
    with 3 obtain k where "k \<le> s" "strip_trailing wp (d - 1) s = Inr (drop k wp, d - 1 - k, s - k)"
      "dval (take k wp) = 0" by auto
    with True show ?thesis by (intro exI [of _ "Suc k"]) simp
  next
    case False
    then show ?thesis by (intro exI [of _ 0]) simp
  qed
qed

lemma finish_spec:
  assumes "d \<le> 31" and "s \<le> d" and "d \<le> length wp" and "digs (take d wp)"
    and "s < d \<Longrightarrow> wp ! (d - 1) \<noteq> 0"
  obtains g where "finish wp d s neg = Inr g" and "fixed_wf g"
    and "fmag g = of_nat (dval (take d wp)) / 10 ^ s"
    and "pd_negative g = (neg \<and> dval (take d wp) \<noteq> 0)"
proof -
  from assms strip_trailing_spec [of s wp d] obtain k where k: "k \<le> s"
    and st: "strip_trailing wp d s = Inr (drop k wp, d - k, s - k)" and z: "dval (take k wp) = 0"
    by auto
  have split: "take d wp = take k wp @ take (d - k) (drop k wp)"
    using k assms(2) by (metis le_add_diff_inverse le_trans take_add)
  have dv: "dval (take d wp) = 10 ^ k * dval (take (d - k) (drop k wp))"
    using k assms z by (simp add: split dval_append)
  have "digs (take (d - k) (drop k wp))" using assms(4) split by (metis digs_simps(3))
  then have m: "d - k \<le> 31" "s - k \<le> d - k" "d - k \<le> length (drop k wp)"
    "digs (take (d - k) (drop k wp))"
    using assms(1-3) k by auto
  have t: "drop k wp ! (d - k - 1) \<noteq> 0" if "s - k < d - k"
    using that assms(3,5) k by simp
  obtain g where g: "Fixed_make (drop k wp) (d - k) (s - k) neg = Inr g" "fixed_wf g"
    "fmag g = of_nat (dval (take (d - k) (drop k wp))) / 10 ^ (s - k)"
    "pd_negative g = (neg \<and> dval (take (d - k) (drop k wp)) \<noteq> 0)"
    by (rule Fixed_make_spec [OF m t, of neg]) auto
  have "(10::rat) ^ s = 10 ^ k * 10 ^ (s - k)" using k by (simp flip: power_add)
  then have "fmag g = of_nat (dval (take d wp)) / 10 ^ s" using g(3) dv by simp
  with g st dv show thesis by (intro that [of g]) (auto simp: finish_def)
qed

text \<open>
  \<open>fits x s g\<close>: \<open>g\<close> is the value \<open>x\<close>, which has \<open>s\<close> decimal places, kept to as many
  places as fit into 31 digits.
\<close>

definition fits :: "rat \<Rightarrow> nat \<Rightarrow> fixed \<Rightarrow> bool" where
  "fits x s g \<longleftrightarrow> fixed_wf g \<and>
     (\<exists>k \<le> min s 31. fval g = trunc_rat k x \<and> (k < min s 31 \<longrightarrow> 10 ^ (30 - k) \<le> \<bar>x\<bar>))"

lemma trunc_rat_exact: "\<bar>x\<bar> * 10 ^ s = of_int n \<Longrightarrow> trunc_rat s x = x"
proof -
  assume "\<bar>x\<bar> * 10 ^ s = of_int n"
  then have "of_int \<lfloor>\<bar>x\<bar> * 10 ^ s\<rfloor> = \<bar>x\<bar> * 10 ^ s" by (simp only: floor_of_int)
  then have "trunc_rat s x = sgn x * (\<bar>x\<bar> * 10 ^ s) / 10 ^ s" by (simp only: trunc_rat_def)
  then show ?thesis by (simp add: sgn_mult_abs flip: mult.assoc)
qed

text \<open>
  The general statement about the end of an operation, from a digit buffer whose first \<open>d\<close> digits
  are the exact result with \<open>s\<close> decimal places.
\<close>

lemma chop_finish_spec:
  assumes len: "s \<le> d" "d \<le> length work" and dg: "digs (take d work)"
    and top: "s < d \<Longrightarrow> work ! (d - 1) \<noteq> 0"
    and x: "\<bar>x\<bar> = of_nat (dval (take d work)) / 10 ^ s" and neg: "neg = (x < 0)"
  shows "if d \<le> s + 31
    then \<exists>w d' s' g. chop_digits work d s = Inr (w, d', s') \<and> finish w d' s' neg = Inr g \<and>
           fits x s g \<and> d' \<le> 31
    else chop_digits work d s = Inl (Throw DATA_CONVERSION DATA_CONVERSION_RangeError) \<and> 10 ^ 31 \<le> \<bar>x\<bar>"
proof -
  let ?N = "dval (take d work)"
  have low: "10 ^ (d - 1) \<le> ?N" if "s < d"
  proof -
    have "take d work \<noteq> []" "last (take d work) \<noteq> 0" "length (take d work) = d"
      using that len top by (auto simp: last_take_nth)
    then show ?thesis using dval_last_pos [of "take d work"] by simp
  qed
  have low_x: "10 ^ (d - 1 - s) \<le> \<bar>x\<bar>" if "s < d"
  proof -
    have "(10::rat) ^ (d - 1 - s) * 10 ^ s = of_nat (10 ^ (d - 1))"
      using that by (simp flip: power_add)
    also have "\<dots> \<le> of_nat ?N" using low [OF that] by (simp only: of_nat_le_iff)
    finally show ?thesis by (simp add: x pos_le_divide_eq)
  qed
  have sg: "fval g = sgn x * fmag g" if "pd_negative g = (neg \<and> n \<noteq> 0)" "fmag g = of_nat n / 10 ^ j"
    "x = 0 \<Longrightarrow> n = 0" for g n j
    using that neg by (auto simp: fval_def sgn_if)
  have x0: "x = 0 \<Longrightarrow> ?N = 0" using x by simp
  consider (small) "d \<le> 31" | (chop) "31 < d" "d \<le> s + 31" | (big) "31 < d" "s + 31 < d" by linarith
  then show ?thesis
  proof cases
    case small
    obtain g where g: "finish work d s neg = Inr g" "fixed_wf g" "fmag g = of_nat ?N / 10 ^ s"
      "pd_negative g = (neg \<and> ?N \<noteq> 0)"
      using finish_spec [OF small len dg top, of neg] by metis
    have "\<bar>x\<bar> * 10 ^ s = of_int (int ?N)" using x by simp
    then have "trunc_rat s x = x" by (rule trunc_rat_exact)
    moreover have "fval g = x"
    proof -
      have "fval g = sgn x * fmag g" using x0 by (intro sg [OF g(4,3)])
      moreover have "fmag g = \<bar>x\<bar>" using g(3) x by simp
      ultimately show ?thesis by (simp add: sgn_mult_abs)
    qed
    moreover have "s \<le> 31" using small len by simp
    ultimately have "fits x s g" using g(2) by (auto simp: fits_def intro!: exI [of _ s])
    then show ?thesis using small g(1) by (simp add: chop_digits_def OMNI_FIXED_DIGITS_def)
  next
    case big
    then have "(10::rat) ^ 31 \<le> 10 ^ (d - 1 - s)" by (intro power_increasing) auto
    then show ?thesis using big low_x by (force simp: chop_digits_def OMNI_FIXED_DIGITS_def)
  next
    case chop
    let ?c = "d - 31"
    let ?k = "s - ?c"
    have c: "?c \<le> s" "d = 31 + ?c" using chop by auto
    have tk: "take 31 (drop ?c work) = drop ?c (take d work)" using c by (simp add: drop_take)
    have dv: "dval (take 31 (drop ?c work)) = ?N div 10 ^ ?c"
      unfolding tk by (rule dval_drop [OF dg])
    have m: "(31::nat) \<le> 31" "?k \<le> 31" "31 \<le> length (drop ?c work)" "digs (take 31 (drop ?c work))"
      using len chop dg unfolding tk by auto
    have t: "drop ?c work ! (31 - 1) \<noteq> 0" if "?k < 31"
      using top that c len by (simp add: add.commute)
    obtain g where g: "finish (drop ?c work) 31 ?k neg = Inr g" "fixed_wf g"
      "fmag g = of_nat (?N div 10 ^ ?c) / 10 ^ ?k" "pd_negative g = (neg \<and> ?N div 10 ^ ?c \<noteq> 0)"
      using finish_spec [OF m t, of neg] unfolding dv by metis
    have "(10::rat) ^ s = 10 ^ ?k * 10 ^ ?c" using c by (simp flip: power_add)
    then have "\<bar>x\<bar> * 10 ^ ?k = of_nat ?N / of_nat (10 ^ ?c)" using x by simp
    then have "\<lfloor>\<bar>x\<bar> * 10 ^ ?k\<rfloor> = int (?N div 10 ^ ?c)" by (simp only: floor_divide_of_nat_eq)
    then have "fval g = trunc_rat ?k x"
      using sg [OF g(4,3)] x0 g(3) by (simp add: trunc_rat_def)
    moreover have "10 ^ (30 - ?k) \<le> \<bar>x\<bar>" if "?k < min s 31"
    proof -
      have "s < d" using that c chop by linarith
      moreover have "30 - ?k = d - 1 - s" using that c chop by linarith
      ultimately show ?thesis using low_x by simp
    qed
    ultimately have "fits x s g" using g(2) m(2) by (auto simp: fits_def intro!: exI [of _ ?k])
    then show ?thesis using chop g(1) by (auto simp: chop_digits_def OMNI_FIXED_DIGITS_def)
  qed
qed


section \<open>Addition\<close>

lemma add_digit_spec:
  assumes "0 \<le> v" and "v < 20"
  shows "\<exists>w c. add_digit v = (w, c) \<and> w < 10 \<and> (c = 0 \<or> c = 1) \<and> int w + 10 * c = v"
  using assms by (auto simp: add_digit_def)

lemma add_loop_spec:
  assumes "digs xs" and "digs ys" and "carry = 0 \<or> carry = 1"
  shows "\<exists>ws c. add_loop xs ys carry = (ws, c) \<and> digs ws \<and> length ws = max (length xs) (length ys) \<and>
    (c = 0 \<or> c = 1) \<and>
    int (dval ws) + 10 ^ length ws * c = int (dval xs) + int (dval ys) + carry"
  using assms
proof (induction xs ys carry rule: add_loop.induct)
  case (1 x xs y ys carry)
  have "0 \<le> int x + int y + carry" "int x + int y + carry < 20" using "1.prems" by auto
  from add_digit_spec [OF this] obtain w c where w: "add_digit (int x + int y + carry) = (w, c)" "w < 10"
    "c = 0 \<or> c = 1" "int w + 10 * c = int x + int y + carry" by blast
  obtain ws c' where "add_loop xs ys c = (ws, c')" "digs ws"
    "length ws = max (length xs) (length ys)" "c' = 0 \<or> c' = 1"
    "int (dval ws) + 10 ^ length ws * c' = int (dval xs) + int (dval ys) + c"
    using "1.IH" [OF refl w(1) [symmetric]] "1.prems" w(3) by auto
  with w show ?case by (simp add: algebra_simps)
next
  case (2 x xs carry)
  have "0 \<le> int x + carry" "int x + carry < 20" using "2.prems" by auto
  from add_digit_spec [OF this] obtain w c where w: "add_digit (int x + carry) = (w, c)" "w < 10"
    "c = 0 \<or> c = 1" "int w + 10 * c = int x + carry" by blast
  obtain ws c' where "add_loop xs [] c = (ws, c')" "digs ws"
    "length ws = length xs" "c' = 0 \<or> c' = 1"
    "int (dval ws) + 10 ^ length ws * c' = int (dval xs) + c"
    using "2.IH" [OF refl w(1) [symmetric]] "2.prems" w(3) by auto
  with w show ?case by (simp add: algebra_simps)
next
  case (3 y ys carry)
  have "0 \<le> int y + carry" "int y + carry < 20" using "3.prems" by auto
  from add_digit_spec [OF this] obtain w c where w: "add_digit (int y + carry) = (w, c)" "w < 10"
    "c = 0 \<or> c = 1" "int w + 10 * c = int y + carry" by blast
  obtain ws c' where "add_loop [] ys c = (ws, c')" "digs ws"
    "length ws = length ys" "c' = 0 \<or> c' = 1"
    "int (dval ws) + 10 ^ length ws * c' = int (dval ys) + c"
    using "3.IH" [OF refl w(1) [symmetric]] "3.prems" w(3) by auto
  with w show ?case by (simp add: algebra_simps)
next
  case (4 carry)
  then show ?case by simp
qed

text \<open>The integer a fixed value is at \<open>s\<close> decimal places.\<close>

definition scaled :: "nat \<Rightarrow> fixed \<Rightarrow> nat" where
  "scaled s f = dval (fdigits f) * 10 ^ (s - pd_scale f)"

lemma scaled_fmag: "pd_scale f \<le> s \<Longrightarrow> fmag f = of_nat (scaled s f) / 10 ^ s"
proof -
  assume "pd_scale f \<le> s"
  then have "(10::rat) ^ s = 10 ^ pd_scale f * 10 ^ (s - pd_scale f)" by (simp flip: power_add)
  then show ?thesis by (simp add: fmag_def scaled_def)
qed

lemma scaled_bounds:
  assumes "fixed_wf f" and "pd_scale f \<le> s"
  shows "scaled s f < 10 ^ (pd_digits f - pd_scale f + s)"
    and "pd_scale f < pd_digits f \<Longrightarrow> 10 ^ (pd_digits f - pd_scale f + s - 1) \<le> scaled s f"
proof -
  note b = fixed_wf_bounds [OF assms(1)]
  have "dval (fdigits f) < 10 ^ pd_digits f"
    using dval_less [OF fixed_wf_digs(1) [OF assms(1)]] assms(1) by simp
  then have "scaled s f < 10 ^ pd_digits f * 10 ^ (s - pd_scale f)"
    unfolding scaled_def by (rule mult_strict_right_mono) simp
  also have "\<dots> = 10 ^ (pd_digits f - pd_scale f + s)" using b assms(2) by (simp flip: power_add)
  finally show "scaled s f < 10 ^ (pd_digits f - pd_scale f + s)" .
  assume "pd_scale f < pd_digits f"
  moreover from this have "fdigits f \<noteq> []" "last (fdigits f) \<noteq> 0"
    using assms(1) by (auto simp: fixed_wf_def)
  ultimately have "10 ^ (pd_digits f - 1) \<le> dval (fdigits f)"
    using dval_last_pos [of "fdigits f"] assms(1) by simp
  then have "10 ^ (pd_digits f - 1) * 10 ^ (s - pd_scale f) \<le> scaled s f"
    unfolding scaled_def by (rule mult_right_mono) simp
  moreover have "pd_digits f - 1 + (s - pd_scale f) = pd_digits f - pd_scale f + s - 1"
    using \<open>pd_scale f < pd_digits f\<close> assms(2) by simp
  ultimately show "10 ^ (pd_digits f - pd_scale f + s - 1) \<le> scaled s f"
    by (simp flip: power_add)
qed

lemma top_digit_nonzero:
  assumes "digs w" and "10 ^ (length w - 1) \<le> dval w"
  shows "w ! (length w - 1) \<noteq> 0"
proof (cases w rule: rev_cases)
  case Nil
  with assms show ?thesis by simp
next
  case (snoc v d)
  show ?thesis
  proof
    assume "w ! (length w - 1) = 0"
    with snoc have "dval w = dval v" by (simp add: dval_append)
    also have "\<dots> < 10 ^ length v" using assms(1) snoc by (intro dval_less) simp
    finally show False using assms(2) snoc by simp
  qed
qed

lemma add_loop_commute: "add_loop xs ys c = add_loop ys xs c"
  by (induction xs ys c rule: add_loop.induct)
     (auto simp: add.commute split: prod.splits)

lemma add_work_commute: "add_work a b = add_work b a"
  by (auto simp: add_work_def Let_def
      add_loop_commute [of "fdigits b" "drop (pd_scale a - pd_scale b) (fdigits a)"]
      add_loop_commute [of "fdigits a" "drop (pd_scale b - pd_scale a) (fdigits b)"]
      add_loop_commute [of "fdigits a" "fdigits b"] split: prod.splits)

lemma add_lists:
  assumes "digs da" and "digs db" and "n \<le> length da" and "add_loop (drop n da) db 0 = (ws, c)"
    and w: "w = take n da @ ws @ (if c \<noteq> 0 then [octet c] else [])"
  shows "digs w" and "dval w = dval da + 10 ^ n * dval db"
    and "length w = max (length da) (n + length db) \<or>
      length w = Suc (max (length da) (n + length db)) \<and> w ! (length w - 1) \<noteq> 0"
proof -
  have "digs (drop n da)" using assms(1) by auto
  from add_loop_spec [OF this assms(2), of 0] assms(4) have l: "digs ws"
    "length ws = max (length da - n) (length db)" "c = 0 \<or> c = 1"
    "int (dval ws) + 10 ^ length ws * c = int (dval (drop n da)) + int (dval db)" by auto
  show "digs w" using l(1,3) assms(1) by (auto simp: w)
  have "int (dval w) = int (dval (take n da)) + 10 ^ n * (int (dval ws) + 10 ^ length ws * c)"
    using l(3) assms(3) by (auto simp: w dval_append algebra_simps)
  also have "\<dots> = int (dval (take n da) + 10 ^ n * dval (drop n da) + 10 ^ n * dval db)"
    unfolding l(4) by (simp add: algebra_simps)
  also have "dval (take n da) + 10 ^ n * dval (drop n da) = dval da"
    using dval_take_drop [of da n] assms(3) by (simp add: min_absorb1)
  finally show "dval w = dval da + 10 ^ n * dval db" by (simp only: of_nat_eq_iff)
  have "n + max (length da - n) (length db) = max (length da) (n + length db)"
    using assms(3) by auto
  then show "length w = max (length da) (n + length db) \<or>
      length w = Suc (max (length da) (n + length db)) \<and> w ! (length w - 1) \<noteq> 0"
    using l(2,3) assms(3) by (auto simp: w nth_append)
qed

lemma scaled_sum_bound:
  assumes "fixed_wf a" and "fixed_wf b" and "pd_scale b \<le> pd_scale a"
  shows "scaled (pd_scale a) a + scaled (pd_scale a) b < 10 ^ 62"
proof -
  note ba = fixed_wf_bounds [OF assms(1)] and bb = fixed_wf_bounds [OF assms(2)]
  have da: "dval (fdigits a) < 10 ^ pd_digits a" and db: "dval (fdigits b) < 10 ^ pd_digits b"
    using dval_less fixed_wf_digs(1) assms fixed_wf_fdigits_length by metis+
  have p31: "(10::nat) ^ k \<le> 10 ^ 31" if "k \<le> 31" for k
    using that by (rule power_increasing) simp
  have "dval (fdigits a) < 10 ^ 31" "dval (fdigits b) < 10 ^ 31"
    using less_le_trans [OF da p31] less_le_trans [OF db p31] ba bb by auto
  then have d: "dval (fdigits a) \<le> 10 ^ 31 - 1" "dval (fdigits b) \<le> 10 ^ 31 - 1" by simp_all
  have "(10::nat) ^ (pd_scale a - pd_scale b) \<le> 10 ^ 31" using ba by (intro p31) simp
  with d(2) have "scaled (pd_scale a) b \<le> (10 ^ 31 - 1) * 10 ^ 31"
    unfolding scaled_def by (rule mult_le_mono)
  moreover have "scaled (pd_scale a) a \<le> 10 ^ 31 - 1" using d(1) by (simp add: scaled_def)
  ultimately have "scaled (pd_scale a) a + scaled (pd_scale a) b \<le> 10 ^ 31 - 1 + (10 ^ 31 - 1) * 10 ^ 31"
    by (rule add_mono [rotated])
  also have "\<dots> < 10 ^ 62" by simp
  finally show ?thesis .
qed

lemma add_work_spec_le:
  assumes wf: "fixed_wf a" "fixed_wf b" and le: "pd_scale b \<le> pd_scale a"
    and aw: "add_work a b = (work, S)"
  shows "S = pd_scale a \<and> digs work \<and> dval work = scaled S a + scaled S b \<and> S \<le> length work \<and>
    (S < length work \<longrightarrow> work ! (length work - 1) \<noteq> 0) \<and> length work \<le> 62"
proof -
  let ?n = "pd_scale a - pd_scale b"
  note ba = fixed_wf_bounds [OF wf(1)] and bb = fixed_wf_bounds [OF wf(2)]
  obtain ws c where al: "add_loop (drop ?n (fdigits a)) (fdigits b) 0 = (ws, c)" by fastforce
  have S: "S = pd_scale a" and work: "work = take ?n (fdigits a) @ ws @ (if c \<noteq> 0 then [octet c] else [])"
    using aw al le by (auto simp: add_work_def Let_def split: if_splits)
  have "?n \<le> length (fdigits a)" using wf ba by simp
  from add_lists [OF fixed_wf_digs(1) [OF wf(1)] fixed_wf_digs(1) [OF wf(2)] this al work]
  have dw: "digs work" and dv: "dval work = dval (fdigits a) + 10 ^ ?n * dval (fdigits b)"
    and len: "length work = max (pd_digits a) (?n + pd_digits b) \<or>
      length work = Suc (max (pd_digits a) (?n + pd_digits b)) \<and> work ! (length work - 1) \<noteq> 0"
    using wf by auto
  have val: "dval work = scaled S a + scaled S b" using dv by (simp add: scaled_def S)
  have m: "max (pd_digits a) (?n + pd_digits b) =
      S + max (pd_digits a - pd_scale a) (pd_digits b - pd_scale b)"
    using ba bb le by (auto simp: S max_def)
  have top: "work ! (length work - 1) \<noteq> 0" if "S < length work"
  proof (cases "length work = max (pd_digits a) (?n + pd_digits b)")
    case False
    then show ?thesis using len by auto
  next
    case True
    have sa: "pd_scale a \<le> S" "pd_scale b \<le> S" using le by (auto simp: S)
    have "10 ^ (length work - 1) \<le> scaled S a + scaled S b"
    proof (cases "pd_digits b - pd_scale b \<le> pd_digits a - pd_scale a")
      case le': True
      with True that m have "pd_scale a < pd_digits a" by auto
      from scaled_bounds(2) [OF wf(1) sa(1) this] show ?thesis
        using True m le' by (simp add: add.commute max_absorb1)
    next
      case gt: False
      then have "pd_scale b < pd_digits b" by auto
      from scaled_bounds(2) [OF wf(2) sa(2) this] show ?thesis
        using True m gt by (simp add: add.commute max_absorb2)
    qed
    then show ?thesis using top_digit_nonzero [OF dw] val by simp
  qed
  have "length work \<le> 62"
  proof (cases "length work = max (pd_digits a) (?n + pd_digits b)")
    case True
    then show ?thesis using ba bb by auto
  next
    case False
    then have "work ! (length work - 1) \<noteq> 0" "length work \<noteq> 0" using len by auto
    then have "10 ^ (length work - 1) \<le> dval work"
      by (intro dval_last_pos) (auto simp: last_conv_nth)
    also have "\<dots> < 10 ^ 62" using scaled_sum_bound [OF wf le] by (simp add: val S)
    finally have "length work - 1 < 62" by (simp only: power_strict_increasing_iff)
    then show ?thesis by simp
  qed
  moreover have "S \<le> length work" using len m by auto
  ultimately show ?thesis using S dw val top by simp
qed

lemma add_work_spec:
  assumes wf: "fixed_wf a" "fixed_wf b" and aw: "add_work a b = (work, S)"
  shows "S = max (pd_scale a) (pd_scale b) \<and> digs work \<and> dval work = scaled S a + scaled S b \<and>
    S \<le> length work \<and> (S < length work \<longrightarrow> work ! (length work - 1) \<noteq> 0) \<and> length work \<le> 62"
proof (cases "pd_scale b \<le> pd_scale a")
  case True
  with add_work_spec_le [OF wf True aw] show ?thesis by (auto simp: max_def)
next
  case False
  then have "pd_scale a \<le> pd_scale b" by simp
  from add_work_spec_le [OF wf(2,1) this] aw add_work_commute [of a b] False show ?thesis
    by (auto simp: max_def add.commute)
qed

lemma realAdd_spec:
  assumes wf: "fixed_wf a" "fixed_wf b" and x: "\<bar>x\<bar> = fmag a + fmag b" and neg: "neg = (x < 0)"
  shows "if \<bar>x\<bar> < 10 ^ 31
    then \<exists>g. realAdd a b neg = Inr g \<and> fits x (max (pd_scale a) (pd_scale b)) g
    else realAdd a b neg = Inl (Throw DATA_CONVERSION DATA_CONVERSION_RangeError)"
proof -
  obtain work S where aw: "add_work a b = (work, S)" by fastforce
  note sp = add_work_spec [OF wf aw]
  have xs: "\<bar>x\<bar> = of_nat (dval (take (length work) work)) / 10 ^ S"
    using x sp scaled_fmag [of a S] scaled_fmag [of b S] by (simp add: add_divide_distrib)
  have lt: "\<bar>x\<bar> < 10 ^ 31" if "length work \<le> S + 31"
  proof -
    have "dval work < 10 ^ length work" using sp dval_less by blast
    also have "\<dots> \<le> 10 ^ (S + 31)" using that by (intro power_increasing) auto
    finally have "of_nat (dval work) < (of_nat (10 ^ (S + 31)) :: rat)" by (simp only: of_nat_less_iff)
    then show ?thesis unfolding xs by (simp add: pos_divide_less_eq power_add)
  qed
  have "S \<le> length work" "length work \<le> length work" "digs (take (length work) work)"
    "S < length work \<Longrightarrow> work ! (length work - 1) \<noteq> 0" using sp by auto
  from chop_finish_spec [OF this xs neg] sp aw lt show ?thesis
    by (auto simp: realAdd_def OMNI_FIXED_DIGITS_def split: if_splits)
qed

section \<open>Comparison\<close>

lemma absCmp_loop_spec:
  assumes "digs xs" and "digs ys"
    and "length ys < length xs \<Longrightarrow> last xs \<noteq> 0" and "length xs < length ys \<Longrightarrow> last ys \<noteq> 0"
  shows "sgn (absCmp_loop xs ys) =
    sgn (int (dval (rev xs)) * 10 ^ length ys - int (dval (rev ys)) * 10 ^ length xs)"
  using assms
proof (induction xs ys rule: absCmp_loop.induct)
  case (1 x xs y ys)
  let ?X = "int (dval (rev xs))" and ?Y = "int (dval (rev ys))"
  let ?n = "length xs" and ?m = "length ys"
  have d: "int (dval (rev (x # xs))) * 10 ^ length (y # ys) - int (dval (rev (y # ys))) * 10 ^ length (x # xs)
      = (int x - int y) * (10 * 10 ^ ?n * 10 ^ ?m) + 10 * (?X * 10 ^ ?m - ?Y * 10 ^ ?n)"
    by (simp add: dval_append algebra_simps)
  show ?case
  proof (cases "x = y")
    case True
    have "length ys < length xs \<Longrightarrow> last xs \<noteq> 0" "length xs < length ys \<Longrightarrow> last ys \<noteq> 0"
      using "1.prems"(3,4) by (auto split: if_splits)
    then have "sgn (absCmp_loop xs ys) = sgn (?X * 10 ^ ?m - ?Y * 10 ^ ?n)"
      using 1 True by simp
    moreover have "sgn (10 * (?X * 10 ^ ?m - ?Y * 10 ^ ?n)) = sgn (?X * 10 ^ ?m - ?Y * 10 ^ ?n)"
      by (simp only: sgn_mult) simp
    moreover have "absCmp_loop (x # xs) (y # ys) = absCmp_loop xs ys" using True by simp
    ultimately show ?thesis unfolding d by (simp only: True diff_self mult_zero_left add_0)
  next
    case False
    have X: "0 \<le> ?X" "?X < 10 ^ ?n" and Y: "0 \<le> ?Y" "?Y < 10 ^ ?m"
      using dval_less [of "rev xs"] dval_less [of "rev ys"] "1.prems"(1,2)
      by (simp_all flip: of_nat_less_iff)
    have XY: "?X * 10 ^ ?m < 10 ^ ?n * 10 ^ ?m" "?Y * 10 ^ ?n < 10 ^ ?n * 10 ^ ?m"
      using X Y by (simp_all add: mult.commute)
    let ?P = "10 * 10 ^ ?n * 10 ^ ?m :: int"
    have P: "0 < ?P" by simp
    have "0 \<le> ?X * 10 ^ ?m" "0 \<le> ?Y * 10 ^ ?n" "?P = 10 * (10 ^ ?n * 10 ^ ?m)"
      using X Y by simp_all
    note bnd = diff_bounds_10 [OF this(1) XY(1) this(2) XY(2) this(3)]
    show ?thesis
    proof (cases "y < x")
      case True
      then have "1 * ?P \<le> (int x - int y) * ?P" by (intro mult_right_mono) auto
      then have "0 < (int x - int y) * ?P + 10 * (?X * 10 ^ ?m - ?Y * 10 ^ ?n)"
        using bnd(1) by linarith
      then show ?thesis unfolding d using True by (simp only: sgn_pos) simp
    next
      case lt: False
      then have "(int x - int y) * ?P \<le> - 1 * ?P" using False by (intro mult_right_mono) auto
      then have "(int x - int y) * ?P + 10 * (?X * 10 ^ ?m - ?Y * 10 ^ ?n) < 0"
        using bnd(2) by linarith
      then show ?thesis unfolding d using lt False by (simp only: sgn_neg) simp
    qed
  qed
next
  case (2 x xs)
  then have "dval (rev (x # xs)) \<noteq> 0" by (intro dval_rev_pos) simp_all
  then show ?case by simp
next
  case (3 y ys)
  then have "dval (rev (y # ys)) \<noteq> 0" by (intro dval_rev_pos) simp_all
  then show ?case by (simp add: sgn_if)
next
  case 4
  then show ?case by simp
qed

lemma absCmp_int_part:
  assumes wf: "fixed_wf a" "fixed_wf b"
    and lt: "pd_digits b - pd_scale b < pd_digits a - pd_scale a"
  shows "fmag b < fmag a"
proof -
  let ?S = "max (pd_scale a) (pd_scale b)"
  have "scaled ?S b < 10 ^ (pd_digits b - pd_scale b + ?S)" by (rule scaled_bounds(1) [OF wf(2)]) simp
  also have "\<dots> \<le> 10 ^ (pd_digits a - pd_scale a + ?S - 1)" using lt by (intro power_increasing) auto
  also have "\<dots> \<le> scaled ?S a" by (rule scaled_bounds(2) [OF wf(1)]) (use lt in auto)
  finally show ?thesis
    by (simp add: scaled_fmag [of a ?S] scaled_fmag [of b ?S] divide_strict_right_mono)
qed

lemma absCmp_spec:
  assumes wf: "fixed_wf a" "fixed_wf b"
  shows "sgn (of_int (absCmp a b)) = sgn (fmag a - fmag b)"
proof -
  note ba = fixed_wf_bounds [OF wf(1)] and bb = fixed_wf_bounds [OF wf(2)]
  let ?ia = "pd_digits a - pd_scale a" and ?ib = "pd_digits b - pd_scale b"
  have c: "(int (pd_digits a) - int (pd_scale a)) - (int (pd_digits b) - int (pd_scale b)) = int ?ia - int ?ib"
    using ba bb by simp
  consider "?ib < ?ia" | "?ia < ?ib" | "?ia = ?ib" by linarith
  then show ?thesis
  proof cases
    case 1
    then show ?thesis using absCmp_int_part [OF wf] by (simp add: absCmp_def c Let_def)
  next
    case 2
    then show ?thesis using absCmp_int_part [OF wf(2,1)] by (simp add: absCmp_def c Let_def)
  next
    case 3
    let ?A = "int (dval (fdigits a))" and ?B = "int (dval (fdigits b))"
    have lasts: "last (rev (fdigits f)) \<noteq> 0" if "fixed_wf f" "0 < pd_scale f" for f
    proof -
      have "length (fdigits f) = pd_digits f" "fdigits f ! 0 \<noteq> 0" "pd_scale f \<le> pd_digits f"
        using that by (auto simp: fixed_wf_def)
      moreover from this that(2) have "fdigits f \<noteq> []" by auto
      ultimately show ?thesis by (simp add: last_rev hd_conv_nth)
    qed
    have "pd_digits b < pd_digits a \<Longrightarrow> 0 < pd_scale a" "pd_digits a < pd_digits b \<Longrightarrow> 0 < pd_scale b"
      using 3 ba bb by auto
    then have "sgn (absCmp a b) = sgn (?A * 10 ^ pd_digits b - ?B * 10 ^ pd_digits a)"
      using absCmp_loop_spec [of "rev (fdigits a)" "rev (fdigits b)"] wf lasts 3
      by (simp add: absCmp_def c Let_def fixed_wf_digs)
    then have s: "sgn (of_int (absCmp a b)) =
        sgn (of_int (?A * 10 ^ pd_digits b - ?B * 10 ^ pd_digits a) :: rat)"
      by (simp only: sgn_of_int_rat)
    have p: "(10::rat) ^ pd_digits a = 10 ^ ?ia * 10 ^ pd_scale a"
      "(10::rat) ^ pd_digits b = 10 ^ ?ia * 10 ^ pd_scale b"
      using 3 ba bb by (simp_all flip: power_add)
    have "(of_int (?A * 10 ^ pd_digits b - ?B * 10 ^ pd_digits a) :: rat) =
        (fmag a - fmag b) * (10 ^ ?ia * 10 ^ pd_scale a * 10 ^ pd_scale b)"
      by (simp add: fmag_def p algebra_simps)
    then show ?thesis unfolding s by (simp add: sgn_mult)
  qed
qed

lemma NP_cmp_spec:
  assumes wf: "fixed_wf a" "fixed_wf b"
  shows "of_int (NP_cmp a b) = sgn (fval a - fval b)"
proof -
  have pos: "0 < fmag f" if "fixed_wf f" "pd_negative f" for f
    using that fixed_wf_pos_dval [of f] by (auto simp: fmag_def fixed_wf_def)
  have s: "(if c < 0 then - 1 else if c > 0 then 1 else 0) = sgn c" for c :: int
    by (simp add: sgn_if)
  have cmp: "of_int (sgn (absCmp f g)) = sgn (fmag f - fmag g)" if "fixed_wf f" "fixed_wf g" for f g
    using absCmp_spec [OF that] by (simp add: sgn_of_int_rat)
  show ?thesis
  proof (cases "pd_negative a = pd_negative b")
    case True
    then show ?thesis using cmp [OF wf] cmp [OF wf(2,1)]
      by (simp add: NP_cmp_def Let_def s fval_def)
  next
    case False
    then show ?thesis using pos [OF wf(1)] pos [OF wf(2)]
      by (auto simp: NP_cmp_def fval_def sgn_if)
        (use fmag_nonneg [of a] fmag_nonneg [of b] in linarith)+
  qed
qed

end
