(* ===== verification/Fixed_Sub.thy ===== *)
theory Fixed_Sub
  imports Fixed_Arith_Props
begin

text \<open>
  Subtraction and the operators \<^verbatim>\<open>+\<close> and \<^verbatim>\<open>-\<close> of \<^verbatim>\<open>CORBA::Fixed\<close>: the borrow loop computes the exact
  difference of two magnitudes, so the operators return the exact sum or difference, kept to the
  places that fit into 31 digits, or raise \<^verbatim>\<open>DATA_CONVERSION\<close>.
\<close>

lemma dval_split: "n \<le> length xs \<Longrightarrow> dval (take n xs) + 10 ^ n * dval (drop n xs) = dval xs"
  using dval_append [of "take n xs" "drop n xs"] by simp

section \<open>The borrow loops\<close>

lemma sub_digit_spec:
  assumes "- 10 \<le> v" and "v < 10"
  shows "\<exists>w c. sub_digit v = (w, c) \<and> w < 10 \<and> (c = 0 \<or> c = - 1) \<and> int w + 10 * c = v"
  using assms by (auto simp: sub_digit_def)

lemma sub_start_borrow:
  "digs ys \<Longrightarrow> \<exists>ws. sub_start ys (- 1) = (ws, - 1) \<and> digs ws \<and> length ws = length ys \<and>
     int (dval ws) + int (dval ys) + 1 = 10 ^ length ys"
proof (induction ys)
  case Nil
  then show ?case by simp
next
  case (Cons y ys)
  then obtain ws where "sub_start ys (- 1) = (ws, - 1)" "digs ws" "length ws = length ys"
    "int (dval ws) + int (dval ys) + 1 = 10 ^ length ys" by auto
  with Cons.prems show ?case by auto
qed

lemma sub_start_spec:
  assumes "digs ys" and "ys \<noteq> [] \<Longrightarrow> hd ys \<noteq> 0"
  shows "\<exists>ws c. sub_start ys 0 = (ws, c) \<and> digs ws \<and> length ws = length ys \<and> (c = 0 \<or> c = - 1) \<and>
    int (dval ws) + 10 ^ length ys * c = - int (dval ys)"
proof (cases ys)
  case Nil
  then show ?thesis by simp
next
  case (Cons y zs)
  with assms sub_start_borrow [of zs] obtain ws where "sub_start zs (- 1) = (ws, - 1)" "digs ws"
    "length ws = length zs" "int (dval ws) + int (dval zs) + 1 = 10 ^ length zs" by auto
  moreover have "octet (10 - int y) = 10 - y" "10 - y < 10" using assms Cons by auto
  ultimately show ?thesis using assms Cons by auto
qed

lemma sub_loop_spec:
  assumes "digs xs" and "digs ys" and "carry = 0 \<or> carry = - 1"
  shows "\<exists>ws c. sub_loop xs ys carry = (ws, c, drop (length xs) ys) \<and> digs ws \<and> length ws = length xs \<and>
    (c = 0 \<or> c = - 1) \<and>
    int (dval ws) + 10 ^ length xs * c = int (dval xs) - int (dval (take (length xs) ys)) + carry"
  using assms
proof (induction xs ys carry rule: sub_loop.induct)
  case (1 x xs y ys carry)
  have "- 10 \<le> int x - int y + carry" "int x - int y + carry < 10" using "1.prems" by auto
  from sub_digit_spec [OF this] obtain w c where w: "sub_digit (int x - int y + carry) = (w, c)" "w < 10"
    "c = 0 \<or> c = - 1" "int w + 10 * c = int x - int y + carry" by blast
  obtain ws c' where "sub_loop xs ys c = (ws, c', drop (length xs) ys)" "digs ws"
    "length ws = length xs" "c' = 0 \<or> c' = - 1"
    "int (dval ws) + 10 ^ length xs * c' = int (dval xs) - int (dval (take (length xs) ys)) + c"
    using "1.IH" [OF refl w(1) [symmetric]] "1.prems" w(3) by auto
  with w show ?case by (simp add: algebra_simps)
next
  case (2 x xs carry)
  have "- 10 \<le> int x + carry" "int x + carry < 10" using "2.prems" by auto
  from sub_digit_spec [OF this] obtain w c where w: "sub_digit (int x + carry) = (w, c)" "w < 10"
    "c = 0 \<or> c = - 1" "int w + 10 * c = int x + carry" by blast
  obtain ws c' where "sub_loop xs [] c = (ws, c', [])" "digs ws"
    "length ws = length xs" "c' = 0 \<or> c' = - 1"
    "int (dval ws) + 10 ^ length xs * c' = int (dval xs) + c"
    using "2.IH" [OF refl w(1) [symmetric]] "2.prems" w(3) by auto
  with w show ?case by (simp add: algebra_simps)
next
  case (3 ys carry)
  then show ?case by simp
qed

lemma strip_leading_spec:
  assumes "s \<le> n" and "n \<le> length w" and "0 < dval (take n w)"
  shows "\<exists>d. strip_leading w n s = Inr d \<and> s \<le> d \<and> d \<le> n \<and> dval (take d w) = dval (take n w) \<and>
    (s < d \<longrightarrow> w ! (d - 1) \<noteq> 0)"
  using assms
proof (induction n)
  case 0
  then show ?case by simp
next
  case (Suc n)
  show ?case
  proof (cases "w ! n = 0 \<and> s < Suc n")
    case True
    then have "dval (take (Suc n) w) = dval (take n w)"
      using Suc.prems(2) by (simp add: take_Suc_conv_app_nth dval_append)
    with Suc True obtain d where "strip_leading w n s = Inr d" "s \<le> d" "d \<le> n"
      "dval (take d w) = dval (take (Suc n) w)" "s < d \<longrightarrow> w ! (d - 1) \<noteq> 0" by auto
    then show ?thesis using True Suc.prems
      by (intro exI [of _ d]) (simp add: strip_leading.simps [of w "Suc n"])
  next
    case False
    then show ?thesis using Suc.prems
      by (intro exI [of _ "Suc n"]) (auto simp: strip_leading.simps [of w "Suc n"])
  qed
qed

section \<open>The difference of two magnitudes\<close>

lemma dval_all_taken: "length ys \<le> n \<Longrightarrow> dval (take n ys) = dval ys"
  by simp

lemma no_borrow:
  fixes c P :: int
  assumes "int w + P * c = int a - int b" and "b < a" and "int w < P" and "c = 0 \<or> c = - 1"
  shows "c = 0" and "w = a - b"
  using assms by auto

lemma sub_work_spec:
  assumes wf: "fixed_wf a" "fixed_wf b" and lt: "fmag b < fmag a"
    and sw: "sub_work a b = (work, carry, rest, S)"
  shows "S = max (pd_scale a) (pd_scale b) \<and> digs work \<and> rest = [] \<and> carry = 0 \<and>
    dval work = scaled S a - scaled S b \<and> length work = pd_digits a - pd_scale a + S"
proof -
  note ba = fixed_wf_bounds [OF wf(1)] and bb = fixed_wf_bounds [OF wf(2)]
  note da = fixed_wf_digs(1) [OF wf(1)] and db = fixed_wf_digs(1) [OF wf(2)]
  have int: "pd_digits b - pd_scale b \<le> pd_digits a - pd_scale a"
    using absCmp_int_part [OF wf(2,1)] lt by force
  let ?S = "max (pd_scale a) (pd_scale b)"
  have less: "scaled ?S b < scaled ?S a"
    using lt scaled_fmag [of a ?S] scaled_fmag [of b ?S] by (simp add: divide_less_cancel)
  have main: "S = ?S \<and> digs work \<and> rest = [] \<and> (carry = 0 \<or> carry = - 1) \<and>
    length work = pd_digits a - pd_scale a + S \<and>
    int (dval work) + 10 ^ length work * carry = int (scaled S a) - int (scaled S b)"
  proof (cases "pd_scale a < pd_scale b")
    case True
    let ?n = "pd_scale b - pd_scale a"
    have "digs (take ?n (fdigits b))" using db by auto
    moreover have "take ?n (fdigits b) \<noteq> [] \<Longrightarrow> hd (take ?n (fdigits b)) \<noteq> 0"
    proof -
      have "fdigits b ! 0 \<noteq> 0" "fdigits b \<noteq> []" using True wf(2) by (auto simp: fixed_wf_def)
      then show ?thesis using True by (simp add: hd_conv_nth)
    qed
    ultimately obtain ws c where st: "sub_start (take ?n (fdigits b)) 0 = (ws, c)" "digs ws"
      "length ws = ?n" "c = 0 \<or> c = - 1"
      "int (dval ws) + 10 ^ ?n * c = - int (dval (take ?n (fdigits b)))"
      using sub_start_spec [of "take ?n (fdigits b)"] wf(2) bb by (auto simp: min_absorb2)
    have "digs (drop ?n (fdigits b))" using db by auto
    from sub_loop_spec [OF da this st(4)] obtain vs c' where lp:
      "sub_loop (fdigits a) (drop ?n (fdigits b)) c = (vs, c', [])" "digs vs"
      "length vs = pd_digits a" "c' = 0 \<or> c' = - 1"
      "int (dval vs) + 10 ^ pd_digits a * c' =
        int (dval (fdigits a)) - int (dval (drop ?n (fdigits b))) + c"
      using wf int ba bb True by auto
    have r: "S = pd_scale b" "work = ws @ vs" "carry = c'" "rest = []"
      using sw True st(1) lp(1) by (auto simp: sub_work_def Let_def)
    have "int (dval work) + 10 ^ length work * carry =
        int (dval ws) + 10 ^ ?n * (int (dval vs) + 10 ^ pd_digits a * c')"
      using st(3) lp(3) by (simp add: r dval_append power_add algebra_simps)
    also have "\<dots> = int (dval ws) + 10 ^ ?n * c + 10 ^ ?n * int (dval (fdigits a)) -
        10 ^ ?n * int (dval (drop ?n (fdigits b)))"
      unfolding lp(5) by (simp add: algebra_simps)
    also have "\<dots> = 10 ^ ?n * int (dval (fdigits a)) -
        int (dval (take ?n (fdigits b)) + 10 ^ ?n * dval (drop ?n (fdigits b)))"
      unfolding st(5) by simp
    also have "dval (take ?n (fdigits b)) + 10 ^ ?n * dval (drop ?n (fdigits b)) = dval (fdigits b)"
      using wf(2) bb by (intro dval_split) simp
    finally have val: "int (dval work) + 10 ^ length work * carry = int (scaled S a) - int (scaled S b)"
      by (simp add: scaled_def r(1) mult.commute)
    have "S = ?S" "digs work" "carry = 0 \<or> carry = - 1" "length work = pd_digits a - pd_scale a + S"
      using True r st(2,3) lp(2,3,4) ba by simp_all
    with val r(4) show ?thesis by blast
  next
    case False
    let ?n = "pd_scale a - pd_scale b"
    have n: "?n \<le> length (fdigits a)" using wf(1) ba by simp
    have "digs (drop ?n (fdigits a))" using da by auto
    from sub_loop_spec [OF this db, of 0] obtain vs c' where lp:
      "sub_loop (drop ?n (fdigits a)) (fdigits b) 0 = (vs, c', [])" "digs vs"
      "length vs = pd_digits a - ?n" "c' = 0 \<or> c' = - 1"
      "int (dval vs) + 10 ^ (pd_digits a - ?n) * c' =
        int (dval (drop ?n (fdigits a))) - int (dval (fdigits b))"
      using wf int ba bb False by auto
    have r: "S = pd_scale a" "work = take ?n (fdigits a) @ vs" "carry = c'" "rest = []"
      using sw False lp(1) by (auto simp: sub_work_def Let_def split: if_splits)
    have len: "length work = pd_digits a" using r lp(3) n wf(1) by simp
    have "int (dval work) + 10 ^ length work * carry =
        int (dval (take ?n (fdigits a))) + 10 ^ ?n * (int (dval vs) + 10 ^ (pd_digits a - ?n) * c')"
    proof -
      have "(10::int) ^ length work = 10 ^ ?n * 10 ^ (pd_digits a - ?n)"
        using len n wf(1) by (simp flip: power_add)
      then show ?thesis using n by (simp add: r dval_append algebra_simps min_absorb1)
    qed
    also have "\<dots> = int (dval (take ?n (fdigits a)) + 10 ^ ?n * dval (drop ?n (fdigits a))) -
        10 ^ ?n * int (dval (fdigits b))"
      unfolding lp(5) by (simp add: algebra_simps)
    also have "dval (take ?n (fdigits a)) + 10 ^ ?n * dval (drop ?n (fdigits a)) = dval (fdigits a)"
      using n by (rule dval_split)
    finally have val: "int (dval work) + 10 ^ length work * carry = int (scaled S a) - int (scaled S b)"
      by (simp add: scaled_def r(1) mult.commute)
    have "S = ?S" "digs work" "carry = 0 \<or> carry = - 1" "length work = pd_digits a - pd_scale a + S"
      using False r len lp(2,4) ba da by auto
    with val r(4) show ?thesis by blast
  qed
  have "int (dval work) < 10 ^ length work"
    using main dval_less [of work] by (simp flip: of_nat_less_of_nat_power_cancel_iff)
  with main no_borrow [of "dval work" "10 ^ length work" carry "scaled S a" "scaled S b"] less
  show ?thesis by auto
qed

lemma realSub_spec:
  assumes wf: "fixed_wf a" "fixed_wf b" and lt: "fmag b < fmag a"
    and x: "\<bar>x\<bar> = fmag a - fmag b" and neg: "neg = (x < 0)"
  shows "\<exists>g. realSub a b neg = Inr g \<and> fits x (max (pd_scale a) (pd_scale b)) g"
proof -
  obtain work carry rest S where sw: "sub_work a b = (work, carry, rest, S)" by (metis prod_cases4)
  note sp = sub_work_spec [OF wf lt sw]
  note ba = fixed_wf_bounds [OF wf(1)] and bb = fixed_wf_bounds [OF wf(2)]
  have S: "S = max (pd_scale a) (pd_scale b)" using sp by simp
  have dw: "(of_nat (dval work) :: rat) / 10 ^ S = fmag a - fmag b" and pos: "0 < dval work"
  proof -
    have le: "scaled S b < scaled S a"
      using lt scaled_fmag [of a S] scaled_fmag [of b S] S by (simp add: divide_less_cancel)
    then show "0 < dval work" using sp by simp
    show "(of_nat (dval work) :: rat) / 10 ^ S = fmag a - fmag b"
      using sp le scaled_fmag [of a S] scaled_fmag [of b S] by (simp add: of_nat_diff diff_divide_distrib)
  qed
  have len: "S \<le> length work" "length work \<le> S + 31" "length work \<le> 62"
    using sp ba bb by auto
  obtain d where d: "strip_leading work (length work) S = Inr d" "S \<le> d" "d \<le> length work"
    "dval (take d work) = dval work" "S < d \<longrightarrow> work ! (d - 1) \<noteq> 0"
    using strip_leading_spec [of S "length work" work] len pos by auto
  have "digs (take d work)" "S < d \<Longrightarrow> work ! (d - 1) \<noteq> 0" using sp d(5) by auto
  moreover have "\<bar>x\<bar> = of_nat (dval (take d work)) / 10 ^ S" using x dw d(4) by simp
  ultimately obtain w d' s' g where g: "chop_digits work d S = Inr (w, d', s')"
    "finish w d' s' neg = Inr g" "fits x S g"
    using chop_finish_spec [OF d(2,3) _ _ _ neg] d(3) len by force
  have "realSub a b neg = finish w d' s' neg"
    using g(1) sw sp d(1,3) len
    by (auto simp: realSub_def chop_digits_def OMNI_FIXED_DIGITS_def Let_def split: if_splits)
  then show ?thesis using g S by auto
qed

section \<open>The operators \<^verbatim>\<open>+\<close> and \<^verbatim>\<open>-\<close>\<close>

text \<open>The outcome of an operation whose exact result is \<open>x\<close>, with \<open>s\<close> decimal places.\<close>

definition exact_or_range :: "rat \<Rightarrow> nat \<Rightarrow> fixed result \<Rightarrow> bool" where
  "exact_or_range x s r \<longleftrightarrow>
     (if \<bar>x\<bar> < 10 ^ 31 then \<exists>g. r = Inr g \<and> fits x s g
      else r = Inl (Throw DATA_CONVERSION DATA_CONVERSION_RangeError))"

lemma fits_zero: "fits 0 s fixed_zero"
  by (auto simp: fits_def trunc_rat_def intro!: exI [of _ "min s 31"])

lemma fmag_less: "fixed_wf f \<Longrightarrow> fmag f < 10 ^ 31"
proof -
  assume wf: "fixed_wf f"
  note b = fixed_wf_bounds [OF wf]
  have "dval (fdigits f) < 10 ^ pd_digits f" using dval_less [OF fixed_wf_digs(1) [OF wf]] wf by simp
  also have "\<dots> \<le> 10 ^ 31 * 1" using b by (simp add: power_increasing del: power_numeral)
  also have "\<dots> \<le> 10 ^ 31 * 10 ^ pd_scale f" by (intro mult_le_mono2) simp
  finally have "(of_nat (dval (fdigits f)) :: rat) < of_nat (10 ^ 31 * 10 ^ pd_scale f)"
    by (simp only: of_nat_less_iff)
  then show ?thesis by (simp add: fmag_def pos_divide_less_eq)
qed

lemma diff_exact:
  assumes wf: "fixed_wf a" "fixed_wf b" and x: "x = (if n then fmag b - fmag a else fmag a - fmag b)"
  shows "exact_or_range x (max (pd_scale a) (pd_scale b))
    (let cmp = absCmp a b in
     if cmp = 0 then Inr fixed_zero else if cmp > 0 then realSub a b n else realSub b a (\<not> n))"
proof -
  have s: "sgn (of_int (absCmp a b)) = sgn (fmag a - fmag b)" by (rule absCmp_spec [OF wf])
  have xb: "\<bar>x\<bar> < 10 ^ 31"
    using x fmag_less [OF wf(1)] fmag_less [OF wf(2)] fmag_nonneg [of a] fmag_nonneg [of b]
    by (simp add: abs_if del: fmag_nonneg)
  consider "absCmp a b = 0" "fmag a = fmag b" | "absCmp a b > 0" "fmag b < fmag a"
    | "absCmp a b < 0" "fmag a < fmag b"
  proof (cases "absCmp a b" "0::int" rule: linorder_cases)
    case less
    then have "sgn (fmag a - fmag b) = - 1" using s by simp
    then have "fmag a < fmag b" by (simp add: sgn_1_neg)
    with less that(3) show thesis by blast
  next
    case equal
    then have "fmag a = fmag b" using s by (simp add: sgn_0_0)
    with equal that(1) show thesis by blast
  next
    case greater
    then have "sgn (fmag a - fmag b) = 1" using s by simp
    then have "fmag b < fmag a" by (simp add: sgn_1_pos)
    with greater that(2) show thesis by blast
  qed
  then show ?thesis
  proof cases
    case 1
    then show ?thesis using x by (auto simp: exact_or_range_def fits_zero)
  next
    case 2
    then have "\<bar>x\<bar> = fmag a - fmag b" "n = (x < 0)" using x by auto
    from realSub_spec [OF wf 2(2) this] 2 xb show ?thesis by (simp add: exact_or_range_def)
  next
    case 3
    then have "\<bar>x\<bar> = fmag b - fmag a" "(\<not> n) = (x < 0)" using x by auto
    from realSub_spec [OF wf(2,1) 3(2) this] 3 xb show ?thesis
      by (simp add: exact_or_range_def max.commute)
  qed
qed

lemma sum_exact:
  assumes wf: "fixed_wf a" "fixed_wf b" and x: "x = (if n then - (fmag a + fmag b) else fmag a + fmag b)"
    and n: "\<not> n \<or> fmag a + fmag b \<noteq> 0"
  shows "exact_or_range x (max (pd_scale a) (pd_scale b)) (realAdd a b n)"
proof -
  have nn: "0 \<le> fmag a + fmag b" by simp
  have "\<bar>x\<bar> = fmag a + fmag b" unfolding x using nn by (cases n) (simp_all del: minus_add_distrib)
  moreover have "n = (x < 0)" unfolding x using nn n by (cases n) (simp_all del: minus_add_distrib add_nonneg_nonneg)
  ultimately have "\<bar>x\<bar> = fmag a + fmag b" "n = (x < 0)" .
  from realAdd_spec [OF wf this] show ?thesis by (simp add: exact_or_range_def)
qed

lemma fmag_negative: "fixed_wf f \<Longrightarrow> pd_negative f \<Longrightarrow> 0 < fmag f"
  using fixed_wf_pos_dval [of f] by (auto simp: fmag_def fixed_wf_def)

text \<open>C26. The operator \<^verbatim>\<open>+\<close> on well-formed values returns the exact sum, truncated toward zero only
  where more than 31 digits would be needed, and well-formed again; it raises \<^verbatim>\<open>DATA_CONVERSION\<close>
  exactly when the sum needs more than 31 digits before the decimal point. No assertion of
  \<^verbatim>\<open>realSub\<close> fails and no access leaves the 62-digit work buffer.\<close>

theorem Fixed_add_exact:
  assumes wf: "fixed_wf a" "fixed_wf b"
  shows "exact_or_range (fval a + fval b) (max (pd_scale a) (pd_scale b)) (Fixed_add a b)"
proof (cases "pd_negative a = pd_negative b")
  case True
  have "\<not> pd_negative a \<or> fmag a + fmag b \<noteq> 0"
    using fmag_negative [OF wf(1)] fmag_nonneg [of b] by linarith
  from sum_exact [OF wf refl this] True show ?thesis
    by (auto simp: Fixed_add_def fval_def)
next
  case False
  then have "Fixed_add a b = (let cmp = absCmp a b in if cmp = 0 then Inr fixed_zero
      else if cmp > 0 then realSub a b (pd_negative a) else realSub b a (\<not> pd_negative a))"
    by (cases "pd_negative a") (simp_all add: Fixed_add_def Let_def)
  moreover have "fval a + fval b = (if pd_negative a then fmag b - fmag a else fmag a - fmag b)"
    using False by (simp add: fval_def)
  ultimately show ?thesis using diff_exact [OF wf, of _ "pd_negative a"] by simp
qed

theorem Fixed_add_exact_witness:
  "exact_or_range (fval (Fixed_signed (7 :: 32 word)) + fval (Fixed_signed (- 12 :: 32 word))) 0
     (Fixed_add (Fixed_signed (7 :: 32 word)) (Fixed_signed (- 12 :: 32 word)))"
proof -
  have "fixed_wf (Fixed_signed (7 :: 32 word))" "fixed_wf (Fixed_signed (- 12 :: 32 word))"
    using Fixed_signed_spec [of "7 :: 32 word"] Fixed_signed_spec [of "- 12 :: 32 word"] by simp_all
  moreover have "max (pd_scale (Fixed_signed (7 :: 32 word))) (pd_scale (Fixed_signed (- 12 :: 32 word))) = 0"
    by code_simp
  ultimately show ?thesis
    using Fixed_add_exact [of "Fixed_signed (7 :: 32 word)" "Fixed_signed (- 12 :: 32 word)"] by simp
qed

text \<open>C27. The operator \<^verbatim>\<open>-\<close> is exact in the same sense.\<close>

theorem Fixed_sub_exact:
  assumes wf: "fixed_wf a" "fixed_wf b"
  shows "exact_or_range (fval a - fval b) (max (pd_scale a) (pd_scale b)) (Fixed_sub a b)"
proof (cases "pd_negative a = pd_negative b")
  case False
  have "\<not> pd_negative a \<or> fmag a + fmag b \<noteq> 0"
    using fmag_negative [OF wf(1)] fmag_nonneg [of b] by linarith
  from sum_exact [OF wf refl this] False show ?thesis
    by (auto simp: Fixed_sub_def fval_def)
next
  case True
  then show ?thesis using diff_exact [OF wf refl, of "pd_negative a"]
    by (auto simp: Fixed_sub_def fval_def)
qed

theorem Fixed_sub_exact_witness:
  "exact_or_range (fval fixed_zero - fval (Fixed_signed (35 :: 32 word))) 0
     (Fixed_sub fixed_zero (Fixed_signed (35 :: 32 word)))"
proof -
  have "fixed_wf (Fixed_signed (35 :: 32 word))" using Fixed_signed_spec [of "35 :: 32 word"] by simp
  moreover have "max (pd_scale fixed_zero) (pd_scale (Fixed_signed (35 :: 32 word))) = 0" by code_simp
  ultimately show ?thesis
    using Fixed_sub_exact [of fixed_zero "Fixed_signed (35 :: 32 word)"] by simp
qed

text \<open>C29. The comparison operators order the values of well-formed fixed numbers, whatever the number of
  digits, the scale and the sign of the operands.\<close>

theorem Fixed_comparisons_order_values:
  assumes wf: "fixed_wf a" "fixed_wf b"
  shows "Fixed_lt a b = (fval a < fval b) \<and> Fixed_le a b = (fval a \<le> fval b) \<and>
    Fixed_gt a b = (fval a > fval b) \<and> Fixed_ge a b = (fval a \<ge> fval b) \<and>
    Fixed_eq a b = (fval a = fval b) \<and> Fixed_ne a b = (fval a \<noteq> fval b)"
proof -
  have "of_int (NP_cmp a b) = sgn (fval a - fval b)" by (rule NP_cmp_spec [OF wf])
  then have "NP_cmp a b = (if fval a < fval b then - 1 else if fval a = fval b then 0 else 1)"
    by (auto simp: sgn_if split: if_splits)
  then show ?thesis
    by (auto simp: Fixed_lt_def Fixed_le_def Fixed_gt_def Fixed_ge_def Fixed_eq_def Fixed_ne_def)
qed

theorem Fixed_comparisons_order_values_witness:
  "Fixed_lt (Fixed_signed (- 12 :: 32 word)) (Fixed_signed (7 :: 32 word)) =
     (fval (Fixed_signed (- 12 :: 32 word)) < fval (Fixed_signed (7 :: 32 word)))"
proof -
  have "fixed_wf (Fixed_signed (- 12 :: 32 word))" "fixed_wf (Fixed_signed (7 :: 32 word))"
    using Fixed_signed_spec [of "7 :: 32 word"] Fixed_signed_spec [of "- 12 :: 32 word"] by simp_all
  from Fixed_comparisons_order_values [OF this] show ?thesis by blast
qed

end
