(* ===== verification/Fixed_Mul.thy ===== *)
theory Fixed_Mul
  imports Fixed_Sub
begin

text \<open>
  The product of \<^verbatim>\<open>CORBA::Fixed\<close> values: the schoolbook multiplication of \<^verbatim>\<open>realMul\<close> in its 62-digit
  work buffer, the index \<open>wi\<close> of the highest digit written, and the operator \<^verbatim>\<open>*\<close>. A last section
  evaluates the division on values it gets wrong.
\<close>

section \<open>One row of the multiplication\<close>

lemma dval_update:
  "i < length xs \<Longrightarrow> dval (xs[i := d]) + 10 ^ i * xs ! i = dval xs + 10 ^ i * d"
proof (induction xs arbitrary: i)
  case Nil
  then show ?case by simp
next
  case (Cons x xs)
  show ?case
  proof (cases i)
    case 0
    then show ?thesis by simp
  next
    case (Suc j)
    then have "dval (xs[j := d]) + 10 ^ j * xs ! j = dval xs + 10 ^ j * d" using Cons by simp
    then show ?thesis using Suc by simp
  qed
qed

lemma digs_update: "digs xs \<Longrightarrow> d < 10 \<Longrightarrow> digs (xs[i := d])"
  by (auto simp: digs_def dest: set_update_subset_insert [THEN subsetD])

lemma dval_carry:
  assumes "i < length xs" and "v = xs ! i + e"
  shows "dval (xs[i := v mod 10]) + 10 ^ Suc i * (v div 10) = dval xs + 10 ^ i * e"
proof -
  have "10 ^ i * (v mod 10) + 10 ^ Suc i * (v div 10) = 10 ^ i * (v mod 10 + 10 * (v div 10))"
    by (simp only: distrib_left power_Suc mult_ac)
  also have "v mod 10 + 10 * (v div 10) = v" by simp
  also have "10 ^ i * v = 10 ^ i * xs ! i + 10 ^ i * e" using assms(2) by (simp add: algebra_simps)
  finally show ?thesis using dval_update [OF assms(1), of "v mod 10"] by linarith
qed

lemma mul_inner_skip: "dval bds = 0 \<Longrightarrow> mul_inner ai ad bds bi work 0 wi = Inr (work, 0, wi)"
  by (induction bds arbitrary: bi) auto

definition inner_post ::
    "nat \<Rightarrow> nat \<Rightarrow> nat list \<Rightarrow> nat \<Rightarrow> nat list \<Rightarrow> nat \<Rightarrow> nat \<Rightarrow> nat list \<Rightarrow> nat \<Rightarrow> nat \<Rightarrow> bool" where
  "inner_post ai ad bds bi work carry wi work' c' wi' \<longleftrightarrow>
     length work' = length work \<and> digs work' \<and> c' \<le> 9 \<and>
     (c' \<noteq> 0 \<longrightarrow> Suc wi' = ai + bi + length bds) \<and>
     dval work' + 10 ^ (ai + bi + length bds) * c' =
       dval work + 10 ^ (ai + bi) * (carry + ad * dval bds) \<and>
     (wi' = wi \<or> ai + bi \<le> wi') \<and> dval bds < 10 ^ (Suc wi' - (ai + bi)) \<and>
     drop (Suc wi') work' = drop (Suc wi') work \<and>
     (c' = 0 \<and> (carry \<noteq> 0 \<or> dval bds \<noteq> 0) \<longrightarrow> wi' < length work \<and> work' ! wi' \<noteq> 0)"

lemma inner_post_skip:
  assumes "inner_post ai ad bds (Suc bi) work 0 wi work' c' wi'"
  shows "inner_post ai ad (0 # bds) bi work 0 wi work' c' wi'"
proof -
  have "dval (0 # bds) < 10 ^ (Suc wi' - (ai + bi))"
  proof (cases "dval bds = 0")
    case False
    have lt: "dval bds < 10 ^ (Suc wi' - (ai + Suc bi))" using assms by (simp add: inner_post_def)
    with False have "Suc wi' - (ai + Suc bi) \<noteq> 0" by (intro notI) simp
    then have "Suc wi' - (ai + bi) = Suc (Suc wi' - (ai + Suc bi))" by arith
    then show ?thesis using lt by simp
  qed simp
  moreover have "(10::nat) ^ (ai + Suc bi) * (ad * dval bds) = 10 ^ (ai + bi) * (ad * dval (0 # bds))"
    by simp
  ultimately show ?thesis using assms unfolding inner_post_def by auto
qed

lemma inner_post_step:
  assumes ip: "inner_post ai ad bds (Suc bi) (work[ai + bi := v mod 10]) (v div 10) (ai + bi) work' c' wi'"
    and v: "v = work ! (ai + bi) + ad * bd + carry" and ad: "0 < ad" and bd: "bd < 10"
    and nz: "bd \<noteq> 0 \<or> carry \<noteq> 0" and len: "ai + bi < length work"
    and rec: "mul_inner ai ad bds (Suc bi) (work[ai + bi := v mod 10]) (v div 10) (ai + bi) = Inr (work', c', wi')"
  shows "inner_post ai ad (bd # bds) bi work carry wi work' c' wi'"
proof -
  have wi': "ai + bi \<le> wi'" using ip by (auto simp: inner_post_def)
  have "dval (bd # bds) < 10 ^ (Suc wi' - (ai + bi))"
  proof -
    have "dval bds < 10 ^ (Suc wi' - (ai + Suc bi))" using ip by (simp add: inner_post_def)
    moreover have "Suc wi' - (ai + bi) = Suc (Suc wi' - (ai + Suc bi))" using wi' by arith
    ultimately show ?thesis using bd by simp
  qed
  moreover have "dval work' + 10 ^ (ai + bi + length (bd # bds)) * c' =
      dval work + 10 ^ (ai + bi) * (carry + ad * dval (bd # bds))"
  proof -
    have "dval work' + 10 ^ (ai + bi + length (bd # bds)) * c' =
        dval (work[ai + bi := v mod 10]) + 10 ^ Suc (ai + bi) * (v div 10 + ad * dval bds)"
      using ip by (simp add: inner_post_def)
    also have "\<dots> = dval work + 10 ^ (ai + bi) * (ad * bd + carry) + 10 ^ Suc (ai + bi) * (ad * dval bds)"
      using dval_carry [OF len, of v "ad * bd + carry"] v by (simp add: algebra_simps)
    finally show ?thesis by (simp add: algebra_simps)
  qed
  moreover have "wi' < length work \<and> work' ! wi' \<noteq> 0" if c0: "c' = 0"
  proof (cases "v div 10 \<noteq> 0 \<or> dval bds \<noteq> 0")
    case True
    then show ?thesis using ip c0 by (auto simp: inner_post_def)
  next
    case False
    then have "work' = work[ai + bi := v mod 10]" "wi' = ai + bi"
      using rec mul_inner_skip [of bds ai ad "Suc bi" "work[ai + bi := v mod 10]" "ai + bi"] by auto
    moreover have "v \<noteq> 0" "v < 10" using v ad nz False by auto
    ultimately show ?thesis using len by simp
  qed
  moreover have "drop (Suc wi') work' = drop (Suc wi') work"
    using ip wi' by (simp add: inner_post_def drop_update_cancel)
  ultimately show ?thesis using ip wi' unfolding inner_post_def by simp
qed

lemma mul_inner_spec:
  assumes "digs work" and "digs bds" and "0 < ad" and "ad < 10" and "carry \<le> 9"
    and "ai + bi + length bds \<le> length work" and "carry \<noteq> 0 \<Longrightarrow> Suc wi = ai + bi"
  shows "\<exists>work' c' wi'. mul_inner ai ad bds bi work carry wi = Inr (work', c', wi') \<and>
    inner_post ai ad bds bi work carry wi work' c' wi'"
  using assms
proof (induction bds arbitrary: bi work carry wi)
  case Nil
  then show ?case by (auto simp: inner_post_def)
next
  case (Cons bd bds)
  show ?case
  proof (cases "bd = 0 \<and> carry = 0")
    case True
    obtain work' c' wi' where "mul_inner ai ad bds (Suc bi) work 0 wi = Inr (work', c', wi')"
      "inner_post ai ad bds (Suc bi) work 0 wi work' c' wi'"
      using Cons.IH [of work 0 "Suc bi" wi] Cons.prems by auto
    then show ?thesis using True inner_post_skip by auto
  next
    case False
    have len: "ai + bi < length work" using Cons.prems by simp
    define v where "v = work ! (ai + bi) + ad * bd + carry"
    have "work ! (ai + bi) < 10" using digs_nth len Cons.prems(1) by blast
    moreover have "ad * bd \<le> 9 * 9" using Cons.prems by (intro mult_le_mono) auto
    ultimately have vb: "v div 10 \<le> 9" using Cons.prems(5) unfolding v_def by linarith
    have "digs (work[ai + bi := v mod 10])" using Cons.prems(1) by (intro digs_update) auto
    with Cons.prems vb obtain work' c' wi' where
      rec: "mul_inner ai ad bds (Suc bi) (work[ai + bi := v mod 10]) (v div 10) (ai + bi) = Inr (work', c', wi')"
      and ip: "inner_post ai ad bds (Suc bi) (work[ai + bi := v mod 10]) (v div 10) (ai + bi) work' c' wi'"
      using Cons.IH [of "work[ai + bi := v mod 10]" "v div 10" "Suc bi" "ai + bi"] by auto
    have "inner_post ai ad (bd # bds) bi work carry wi work' c' wi'"
      by (rule inner_post_step [OF ip v_def _ _ _ len rec]) (use Cons.prems False in auto)
    moreover have "mul_inner ai ad (bd # bds) bi work carry wi = Inr (work', c', wi')"
      using rec False len by (auto simp: v_def [symmetric] Let_def)
    ultimately show ?thesis by blast
  qed
qed

lemma mul_carry_spec:
  assumes "digs work" and "c \<le> 9" and "wi < length work"
    and "dval work + 10 ^ Suc wi * c < 10 ^ length work"
  shows "\<exists>work' wi'. mul_carry work c wi = Inr (work', wi') \<and> length work' = length work \<and> digs work' \<and>
    wi \<le> wi' \<and> wi' < length work \<and> dval work' = dval work + 10 ^ Suc wi * c \<and>
    drop (Suc wi') work' = drop (Suc wi') work \<and>
    (c \<noteq> 0 \<or> work ! wi \<noteq> 0 \<longrightarrow> work' ! wi' \<noteq> 0)"
  using assms
proof (induction work c wi rule: mul_carry.induct)
  case (1 work c wi)
  show ?case
  proof (cases "c = 0")
    case True
    then show ?thesis using "1.prems" by (auto simp: mul_carry.simps [of work 0])
  next
    case c: False
    have len: "Suc wi < length work"
    proof (rule ccontr)
      assume "\<not> Suc wi < length work"
      then have "length work = Suc wi" using "1.prems" by simp
      moreover have "(10::nat) ^ Suc wi * 1 \<le> 10 ^ Suc wi * c" using c by (intro mult_le_mono) auto
      ultimately show False using "1.prems"(4) by (simp only: mult_1_right)
    qed
    define v where "v = work ! Suc wi + c"
    have w: "work ! Suc wi < 10" using digs_nth len "1.prems"(1) by blast
    have eq: "dval (work[Suc wi := v mod 10]) + 10 ^ Suc (Suc wi) * (v div 10) = dval work + 10 ^ Suc wi * c"
      by (rule dval_carry [OF len v_def])
    have p: "digs (work[Suc wi := v mod 10])" "v div 10 \<le> 9"
      "Suc wi < length (work[Suc wi := v mod 10])"
      "dval (work[Suc wi := v mod 10]) + 10 ^ Suc (Suc wi) * (v div 10) < 10 ^ length (work[Suc wi := v mod 10])"
      using "1.prems" len w unfolding eq by (auto intro: digs_update simp: v_def)
    have "\<not> length work \<le> Suc wi" using len by simp
    from "1.IH" [OF c this v_def p] obtain work' wi' where r:
      "mul_carry (work[Suc wi := v mod 10]) (v div 10) (Suc wi) = Inr (work', wi')"
      "length work' = length work" "digs work'" "Suc wi \<le> wi'" "wi' < length work"
      "dval work' = dval work + 10 ^ Suc wi * c"
      "drop (Suc wi') work' = drop (Suc wi') (work[Suc wi := v mod 10])"
      "v div 10 \<noteq> 0 \<or> v mod 10 \<noteq> 0 \<longrightarrow> work' ! wi' \<noteq> 0"
      unfolding eq using len by auto
    have "mul_carry work c wi = Inr (work', wi')"
      using r(1) c len by (simp add: mul_carry.simps [of work c] v_def [symmetric] Let_def)
    moreover have "v div 10 \<noteq> 0 \<or> v mod 10 \<noteq> 0" using c unfolding v_def by presburger
    moreover have "drop (Suc wi') (work[Suc wi := v mod 10]) = drop (Suc wi') work"
      using r(4) by (simp add: drop_update_cancel)
    ultimately show ?thesis using r by auto
  qed
qed

section \<open>The whole product\<close>

text \<open>
  What holds between two rows: \<open>n\<close> is the value of the digits of \<open>a\<close> multiplied so far.
\<close>

definition rows_inv :: "nat list \<Rightarrow> nat \<Rightarrow> nat \<Rightarrow> nat list \<Rightarrow> nat \<Rightarrow> bool" where
  "rows_inv bs ai n work wi \<longleftrightarrow>
     length work = 62 \<and> digs work \<and> dval work = n * dval bs \<and> n < 10 ^ ai \<and> wi < 62 \<and>
     (0 < n \<longrightarrow> work ! wi \<noteq> 0 \<and> dval (drop (Suc wi) work) = 0)"

lemma mul_row:
  assumes inv: "rows_inv bs ai n work wi" and bs: "digs bs" "0 < dval bs"
    and ad: "0 < ad" "ad < 10" and len: "Suc ai + length bs \<le> 62"
  shows "\<exists>work' wi'. ebind (mul_inner ai ad bs 0 work 0 wi) (\<lambda>(work, carry, wi). mul_carry work carry wi) =
      Inr (work', wi') \<and> rows_inv bs (Suc ai) (n + 10 ^ ai * ad) work' wi'"
proof -
  have w: "length work = 62" "digs work" "dval work = n * dval bs" "n < 10 ^ ai" "wi < 62"
    using inv by (auto simp: rows_inv_def)
  obtain w1 c1 i1 where in1: "mul_inner ai ad bs 0 work 0 wi = Inr (w1, c1, i1)"
    and ip: "inner_post ai ad bs 0 work 0 wi w1 c1 i1"
    using mul_inner_spec [of work bs ad 0 ai 0 wi] w bs ad len by auto
  have val1: "dval w1 + 10 ^ (ai + length bs) * c1 = dval work + 10 ^ ai * (ad * dval bs)"
    using ip by (simp add: inner_post_def)
  also have "\<dots> = (n + 10 ^ ai * ad) * dval bs" using w by (simp add: algebra_simps)
  finally have val: "dval w1 + 10 ^ (ai + length bs) * c1 = (n + 10 ^ ai * ad) * dval bs" .
  have n': "n + 10 ^ ai * ad < 10 ^ Suc ai"
  proof -
    have "10 ^ ai * ad \<le> 10 ^ ai * 9" using ad by (intro mult_le_mono) auto
    then show ?thesis using w(4) by (simp only: power_Suc)
  qed
  have "dval bs < 10 ^ length bs" using dval_less bs(1) .
  with n' have "(n + 10 ^ ai * ad) * dval bs < 10 ^ Suc ai * 10 ^ length bs"
    by (intro mult_strict_mono) auto
  also have "\<dots> \<le> 10 ^ 62" using len by (simp only: power_add [symmetric] power_increasing)
  finally have small: "(n + 10 ^ ai * ad) * dval bs < 10 ^ 62" .
  have c1: "Suc i1 = ai + length bs" if "c1 \<noteq> 0" using ip that by (simp add: inner_post_def)
  have i1: "i1 < length w1"
  proof (cases "c1 = 0")
    case True
    then show ?thesis using ip bs by (simp add: inner_post_def)
  next
    case False
    then show ?thesis using c1 len w ip by (simp add: inner_post_def)
  qed
  have valc: "dval w1 + 10 ^ Suc i1 * c1 = (n + 10 ^ ai * ad) * dval bs"
    using val c1 by (cases "c1 = 0") auto
  have "dval w1 + 10 ^ Suc i1 * c1 < 10 ^ length w1"
    using small valc ip w by (simp add: inner_post_def)
  with ip i1 obtain w2 i2 where mc: "mul_carry w1 c1 i1 = Inr (w2, i2)" "length w2 = 62" "digs w2"
    "i1 \<le> i2" "i2 < 62" "dval w2 = (n + 10 ^ ai * ad) * dval bs"
    "drop (Suc i2) w2 = drop (Suc i2) w1" "c1 \<noteq> 0 \<or> w1 ! i1 \<noteq> 0 \<longrightarrow> w2 ! i2 \<noteq> 0"
    using mul_carry_spec [of w1 c1 i1] w valc by (auto simp: inner_post_def)
  have "w2 ! i2 \<noteq> 0" using mc(8) ip bs by (cases "c1 = 0") (auto simp: inner_post_def)
  moreover have "dval (drop (Suc i2) w2) = 0"
  proof -
    have "drop (Suc i1) w1 = drop (Suc i1) work" using ip by (simp add: inner_post_def)
    then have "drop (i2 - i1) (drop (Suc i1) w1) = drop (i2 - i1) (drop (Suc i1) work)" by simp
    then have "drop (Suc i2) w2 = drop (Suc i2) work" using mc(4,7) by simp
    moreover have "dval work < 10 ^ Suc i2"
    proof -
      have lt: "dval bs < 10 ^ (Suc i1 - ai)" using ip by (simp add: inner_post_def)
      with bs(2) have "Suc i1 - ai \<noteq> 0" by (intro notI) simp
      then have "ai + (Suc i1 - ai) = Suc i1" by arith
      moreover have "dval work < 10 ^ ai * 10 ^ (Suc i1 - ai)"
        unfolding w(3) using w(4) lt by (intro mult_strict_mono) auto
      ultimately have "dval work < 10 ^ Suc i1" by (simp only: power_add [symmetric])
      also have "(10::nat) ^ Suc i1 \<le> 10 ^ Suc i2" using mc(4) by (intro power_increasing) auto
      finally show ?thesis .
    qed
    ultimately show ?thesis using dval_drop [OF w(2), of "Suc i2"] by simp
  qed
  ultimately show ?thesis using in1 mc n' by (auto simp: rows_inv_def)
qed

lemma mul_outer_spec:
  assumes "rows_inv bs ai n work wi" and "digs as" and "digs bs" and "0 < dval bs"
    and "ai + length as + length bs \<le> 62"
  shows "\<exists>work' wi'. mul_outer as ai bs work wi = Inr (work', wi') \<and>
    rows_inv bs (ai + length as) (n + 10 ^ ai * dval as) work' wi'"
  using assms
proof (induction as arbitrary: ai n work wi)
  case Nil
  then show ?case by simp
next
  case (Cons ad as)
  show ?case
  proof (cases "ad = 0")
    case True
    have "rows_inv bs (Suc ai) n work wi" using Cons.prems(1) by (auto simp: rows_inv_def)
    with Cons.IH [of "Suc ai" n work wi] Cons.prems True show ?thesis
      by (simp add: algebra_simps)
  next
    case False
    then obtain work1 wi1 where r: "ebind (mul_inner ai ad bs 0 work 0 wi)
        (\<lambda>(work, carry, wi). mul_carry work carry wi) = Inr (work1, wi1)"
      and i: "rows_inv bs (Suc ai) (n + 10 ^ ai * ad) work1 wi1"
      using mul_row [of bs ai n work wi ad] Cons.prems by auto
    from r obtain w c j where "mul_inner ai ad bs 0 work 0 wi = Inr (w, c, j)"
      "mul_carry w c j = Inr (work1, wi1)" by (auto simp: ebind_eq_Inr)
    then have "mul_outer (ad # as) ai bs work wi = mul_outer as (Suc ai) bs work1 wi1"
      using False by simp
    moreover have "rows_inv bs (ai + length (ad # as)) (n + 10 ^ ai * dval (ad # as)) =
        rows_inv bs (Suc ai + length as) (n + 10 ^ ai * ad + 10 ^ Suc ai * dval as)"
      by (simp add: algebra_simps)
    moreover have "digs as" "Suc ai + length as + length bs \<le> 62" using Cons.prems by auto
    note Cons.IH [OF i this(1) Cons.prems(3,4) this(2)]
    ultimately show ?thesis by simp
  qed
qed

lemma realMul_exact:
  assumes wf: "fixed_wf a" "fixed_wf b" and nz: "pd_digits a \<noteq> 0" "pd_digits b \<noteq> 0"
    and x: "\<bar>x\<bar> = fmag a * fmag b" and neg: "neg = (x < 0)"
  shows "exact_or_range x (pd_scale a + pd_scale b) (realMul a b neg)"
proof -
  note ba = fixed_wf_bounds [OF wf(1)] and bb = fixed_wf_bounds [OF wf(2)]
  let ?S = "pd_scale a + pd_scale b"
  have pos: "0 < dval (fdigits a)" "0 < dval (fdigits b)"
    using fixed_wf_pos_dval wf nz by auto
  have "rows_inv (fdigits b) 0 0 (replicate 62 0) 0" by (simp add: rows_inv_def)
  from mul_outer_spec [OF this fixed_wf_digs(1) [OF wf(1)] fixed_wf_digs(1) [OF wf(2)] pos(2)]
  obtain work wi where mo: "mul_outer (fdigits a) 0 (fdigits b) (replicate 62 0) 0 = Inr (work, wi)"
    and "rows_inv (fdigits b) (pd_digits a) (dval (fdigits a)) work wi"
    using wf ba bb by auto
  then have w: "length work = 62" "digs work" "dval work = dval (fdigits a) * dval (fdigits b)"
    "wi < 62" "work ! wi \<noteq> 0" "dval (drop (Suc wi) work) = 0"
    using pos by (auto simp: rows_inv_def)
  let ?d = "max (wi + 1) ?S"
  have tk: "dval (take ?d work) = dval work"
  proof -
    have "drop ?d work = drop (?d - Suc wi) (drop (Suc wi) work)" by simp
    then have "dval (drop ?d work) = 0"
      using dval_drop [of "drop (Suc wi) work" "?d - Suc wi"] w(2,6) by (simp add: digs_drop)
    then show ?thesis by (rule dval_drop_zero)
  qed
  have xs: "\<bar>x\<bar> = of_nat (dval (take ?d work)) / 10 ^ ?S"
    unfolding x tk w(3) by (simp add: fmag_def power_add)
  have p: "?S \<le> ?d" "?d \<le> length work" "digs (take ?d work)" "?S < ?d \<Longrightarrow> work ! (?d - 1) \<noteq> 0"
    using w ba bb by (auto simp: max_def split: if_splits)
  have lt: "\<bar>x\<bar> < 10 ^ 31" if "?d \<le> ?S + 31"
  proof -
    have "dval (take ?d work) < 10 ^ ?d" using dval_less [OF p(3)] p(2) by simp
    also have "\<dots> \<le> 10 ^ (?S + 31)" using that by (intro power_increasing) auto
    finally have "of_nat (dval (take ?d work)) < (of_nat (10 ^ (?S + 31)) :: rat)"
      by (simp only: of_nat_less_iff)
    then show ?thesis unfolding xs by (simp add: pos_divide_less_eq power_add)
  qed
  have rm: "realMul a b neg = ebind (chop_digits work ?d ?S) (\<lambda>(wp, digits, scale).
      finish wp digits scale neg)"
    using mo by (simp add: realMul_def OMNI_FIXED_DIGITS_def Let_def)
  show ?thesis
  proof (cases "?d \<le> ?S + 31")
    case True
    then obtain w d' s' g where "chop_digits work ?d ?S = Inr (w, d', s')"
      "finish w d' s' neg = Inr g" "fits x ?S g"
      using chop_finish_spec [OF p xs neg] by (simp only: if_True) blast
    with rm lt [OF True] show ?thesis by (simp only: exact_or_range_def if_True ebind_Inr prod.case) blast
  next
    case False
    then have "chop_digits work ?d ?S = Inl (Throw DATA_CONVERSION DATA_CONVERSION_RangeError)"
      "\<not> \<bar>x\<bar> < 10 ^ 31" using chop_finish_spec [OF p xs neg] by (simp_all only: if_False not_less)
    with rm show ?thesis by (simp only: exact_or_range_def if_False ebind_Inl)
  qed
qed

text \<open>C28. The operator \<^verbatim>\<open>*\<close> on well-formed values returns the exact product, truncated toward zero only
  where more than 31 digits would be needed; it raises \<^verbatim>\<open>DATA_CONVERSION\<close> exactly when the product
  needs more than 31 digits before the decimal point. The 62-digit work buffer is never overrun.\<close>

theorem Fixed_mul_exact:
  assumes wf: "fixed_wf a" "fixed_wf b"
  shows "exact_or_range (fval a * fval b) (pd_scale a + pd_scale b) (Fixed_mul a b)"
proof (cases "pd_digits a = 0 \<or> pd_digits b = 0")
  case True
  then have "fval a * fval b = 0" using fixed_wf_fval_0 wf by auto
  then have "exact_or_range (fval a * fval b) (pd_scale a + pd_scale b) (Inr fixed_zero)"
    by (simp only: exact_or_range_def) (simp add: fits_zero)
  then show ?thesis using True by (simp only: Fixed_mul_def if_True)
next
  case False
  have pos: "0 < fmag a" "0 < fmag b"
    using False fixed_wf_pos_dval wf by (auto simp: fmag_def)
  then have mp: "0 < fmag a * fmag b" by simp
  let ?n = "pd_negative a \<noteq> pd_negative b"
  have v: "fval a * fval b = (if ?n then - (fmag a * fmag b) else fmag a * fmag b)"
    by (simp add: fval_def)
  have "\<bar>fval a * fval b\<bar> = fmag a * fmag b" "?n = (fval a * fval b < 0)"
    using mp unfolding v by simp_all
  from realMul_exact [OF wf _ _ this] False show ?thesis
    by (cases "pd_negative a = pd_negative b") (simp_all add: Fixed_mul_def)
qed

theorem Fixed_mul_exact_witness:
  "exact_or_range (fval (Fixed_signed (- 12 :: 32 word)) * fval (Fixed_signed (1205 :: 32 word))) 0
     (Fixed_mul (Fixed_signed (- 12 :: 32 word)) (Fixed_signed (1205 :: 32 word)))"
proof -
  have "fixed_wf (Fixed_signed (- 12 :: 32 word))" "fixed_wf (Fixed_signed (1205 :: 32 word))"
    using Fixed_signed_spec [of "1205 :: 32 word"] Fixed_signed_spec [of "- 12 :: 32 word"] by simp_all
  moreover have "pd_scale (Fixed_signed (- 12 :: 32 word)) + pd_scale (Fixed_signed (1205 :: 32 word)) = 0"
    by code_simp
  ultimately show ?thesis
    using Fixed_mul_exact [of "Fixed_signed (- 12 :: 32 word)" "Fixed_signed (1205 :: 32 word)"] by simp
qed

section \<open>Division\<close>

text \<open>Division loses quotients: when the first digit of the quotient is a zero that the estimate of
  the decimal point did not expect, the digits are read from one place too far up. One divided by
  twenty is zero, and one divided by sixteen is 0.062.\<close>

theorem Fixed_div_loses_digit:
  "fixed_wf (Fixed_digits [1] False) \<and> fval (Fixed_digits [1] False) = 1 \<and>
   fixed_wf (Fixed_digits [0, 2] False) \<and> fval (Fixed_digits [0, 2] False) = 20 \<and>
   fixed_wf (Fixed_digits [6, 1] False) \<and> fval (Fixed_digits [6, 1] False) = 16 \<and>
   Fixed_div (Fixed_digits [1] False) (Fixed_digits [0, 2] False) = Inr fixed_zero \<and>
   (\<exists>g. Fixed_div (Fixed_digits [1] False) (Fixed_digits [6, 1] False) = Inr g \<and> fval g = 62 / 1000)"
proof -
  have wf: "fixed_wf (Fixed_digits [1] False)" "fixed_wf (Fixed_digits [0, 2] False)"
    "fixed_wf (Fixed_digits [6, 1] False)" by code_simp+
  have v: "fval (Fixed_digits [1] False) = 1" "fval (Fixed_digits [0, 2] False) = 20"
    "fval (Fixed_digits [6, 1] False) = 16"
    by (simp_all add: fval_def fmag_def fdigits_def Fixed_digits_def pad31_def OMNI_FIXED_DIGITS_def)
  have a: "Fixed_div (Fixed_digits [1] False) (Fixed_digits [0, 2] False) = Inr fixed_zero"
    by code_simp
  have b: "Fixed_div (Fixed_digits [1] False) (Fixed_digits [6, 1] False) =
     Inr \<lparr>pd_val = pad31 [2, 6, 0], pd_digits = 3, pd_scale = 3, pd_negative = False,
          pd_idl_digits = 0, pd_idl_scale = 0\<rparr>"
    by code_simp
  have "fval \<lparr>pd_val = pad31 [2, 6, 0], pd_digits = 3, pd_scale = 3, pd_negative = False,
          pd_idl_digits = 0, pd_idl_scale = 0\<rparr> = 62 / 1000"
    by (simp add: fval_def fmag_def fdigits_def pad31_def OMNI_FIXED_DIGITS_def)
  with wf v a b show ?thesis by blast
qed

end
