(* ===== verification/Fixed_Text.thy ===== *)
theory Fixed_Text
  imports Fixed_Sub
begin

text \<open>
  The decimal text of \<^verbatim>\<open>CORBA::Fixed\<close> (\<^verbatim>\<open>orbcore/corbaFixed.cc\<close>): \<^verbatim>\<open>to_string\<close>, \<^verbatim>\<open>NP_asString\<close> and the
  parser \<^verbatim>\<open>NP_fromString\<close>. A C string is the list of its characters without the final null; reading
  at its length gives the null character and reading elsewhere outside it is undefined. The
  counters \<^verbatim>\<open>pd_digits\<close> and \<^verbatim>\<open>pd_scale\<close>, which the parser counts in place, are 16 bits wide.
\<close>

section \<open>Characters\<close>

definition NUL :: char where
  "NUL = char_of (0 :: nat)"

definition char_at :: "string \<Rightarrow> int \<Rightarrow> char result" where
  "char_at s i =
     (if 0 \<le> i \<and> i < int (length s) then Inr (s ! nat i)
      else if i = int (length s) then Inr NUL
      else Inl Undefined)"

text \<open>\<^verbatim>\<open>isspace\<close> in the C locale.\<close>

definition c_isspace :: "char \<Rightarrow> bool" where
  "c_isspace c \<longleftrightarrow> (let n = of_char c :: nat in n = 32 \<or> 9 \<le> n \<and> n \<le> 13)"

definition c_isdigit :: "char \<Rightarrow> bool" where
  "c_isdigit c \<longleftrightarrow> (let n = of_char c :: nat in 48 \<le> n \<and> n \<le> 57)"

definition dchar :: "nat \<Rightarrow> char" where
  "dchar d = char_of (d + 48)"

section \<open>Printing\<close>

text \<open>The loop that prints the digits from the most significant one, \<open>j\<close> of them left.\<close>

fun print_digits :: "nat list \<Rightarrow> nat \<Rightarrow> nat \<Rightarrow> string" where
  "print_digits val scale 0 = []"
| "print_digits val scale (Suc j) =
     (if Suc j = scale then ''.'' else []) @ [dchar (val ! j)] @ print_digits val scale j"

definition NP_asString :: "fixed \<Rightarrow> string" where
  "NP_asString f =
     (if pd_negative f then ''-'' else []) @ (if pd_digits f = pd_scale f then ''0'' else []) @
     print_digits (pd_val f) (pd_scale f) (pd_digits f)"

definition to_string :: "fixed \<Rightarrow> string" where
  "to_string f =
     (if pd_negative f then ''-'' else []) @ (if pd_digits f = pd_scale f then ''0'' else []) @
     print_digits (pd_val f) (pd_scale f) (pd_digits f) @
     (if pd_scale f < pd_idl_scale f then
        (if pd_scale f = 0 then ''.'' else []) @ replicate (pd_idl_scale f - pd_scale f) (CHR ''0'')
      else [])"

text \<open>The length that \<^verbatim>\<open>to_string\<close> allocates, without the final null.\<close>

definition to_string_len :: "fixed \<Rightarrow> nat" where
  "to_string_len f =
     pd_digits f + 1 + (if pd_negative f then 1 else 0) + (if pd_digits f = pd_scale f then 1 else 0) +
     (if 0 < pd_scale f \<or> 0 < pd_idl_scale f then 1 else 0) +
     (if pd_scale f < pd_idl_scale f then pd_idl_scale f - pd_scale f else 0)"

section \<open>Parsing\<close>

definition inc16 :: "nat \<Rightarrow> nat" where
  "inc16 n = (n + 1) mod 65536"

definition dec16 :: "nat \<Rightarrow> nat" where
  "dec16 n = (if n = 0 then 65535 else n - 1)"

definition BadInput :: error where
  "BadInput = Throw DATA_CONVERSION DATA_CONVERSION_BadInput"

text \<open>The loop that counts digits: the number of characters read, \<^verbatim>\<open>pd_digits\<close> and \<^verbatim>\<open>unscale\<close>.\<close>

fun count_digits :: "string \<Rightarrow> nat \<Rightarrow> nat \<Rightarrow> int \<Rightarrow> (nat \<times> nat \<times> int) result" where
  "count_digits [] i digits unscale = Inr (i, digits, unscale)"
| "count_digits (c # cs) i digits unscale =
     (if c_isdigit c \<or> c = CHR ''.'' then
        (if c = CHR ''.'' then
           (if unscale \<noteq> - 1 then Inl BadInput else count_digits cs (Suc i) digits (int digits))
         else count_digits cs (Suc i) (inc16 digits) unscale)
      else Inr (i, digits, unscale))"

definition no_garbage :: "string \<Rightarrow> bool" where
  "no_garbage rest =
     list_all c_isspace
       (case rest of c # cs \<Rightarrow> if c = CHR ''d'' \<or> c = CHR ''D'' then cs else rest | [] \<Rightarrow> [])"

fun trunc_digits :: "int \<Rightarrow> nat \<Rightarrow> nat \<Rightarrow> bool \<Rightarrow> int \<times> nat \<times> nat \<times> bool" where
  "trunc_digits i digits 0 precise = (i, digits, 0, precise)"
| "trunc_digits i digits (Suc scale) precise =
     (if OMNI_FIXED_DIGITS < digits then trunc_digits (i - 1) (digits - 1) scale False
      else (i, digits, Suc scale, precise))"

function backup_zeros :: "string \<Rightarrow> int \<Rightarrow> nat \<Rightarrow> nat \<Rightarrow> (int \<times> nat \<times> nat) result" where
  "backup_zeros s i digits scale =
     (case char_at s i of
        Inl e \<Rightarrow> Inl e
      | Inr c \<Rightarrow> if c = CHR ''0'' then backup_zeros s (i - 1) (dec16 digits) (dec16 scale)
                 else Inr (i, digits, scale))"
  by pat_completeness auto
termination
  by (relation "measure (\<lambda>(s, i, digits, scale). nat (i + 1))")
     (auto simp: char_at_def split: if_splits)

declare backup_zeros.simps [simp del]

text \<open>The scan back through the string, \<open>n\<close> digits from index \<open>i\<close>.\<close>

fun read_back :: "string \<Rightarrow> int \<Rightarrow> nat \<Rightarrow> nat list result" where
  "read_back s i 0 = Inr []"
| "read_back s i (Suc n) =
     ebind (char_at s i) (\<lambda>c.
       let i' = (if c = CHR ''.'' then i - 1 else i)
       in ebind (char_at s i') (\<lambda>c'.
          ebind (read_back s (i' - 1) n) (\<lambda>ds. Inr (octet (int (of_char c') - 48) # ds))))"

definition skip_sign :: "string \<Rightarrow> bool \<times> string" where
  "skip_sign s =
     (case s of
        c # cs \<Rightarrow> if c = CHR ''-'' then (True, cs) else if c = CHR ''+'' then (False, cs) else (False, s)
      | [] \<Rightarrow> (False, s))"

text \<open>
  The result is the new value of the object and the boolean returned. An exception leaves the
  C++ object partly overwritten; the model gives no object then.
\<close>

definition NP_fromString :: "fixed \<Rightarrow> string \<Rightarrow> bool \<Rightarrow> (fixed \<times> bool) result" where
  "NP_fromString this str ignore_end =
     (let (neg, s) = skip_sign (dropWhile c_isspace str) in
      if \<not> (case s of [] \<Rightarrow> False | c # _ \<Rightarrow> c_isdigit c \<or> c = CHR ''.'') then Inl BadInput
      else
        let s = dropWhile (\<lambda>c. c = CHR ''0'') s in
        ebind (count_digits s 0 0 (- 1)) (\<lambda>(i, digits, unscale).
        let unscale = (if unscale = - 1 then int digits else unscale);
            scale = nat ((int digits - unscale) mod 65536)
        in if \<not> ignore_end \<and> \<not> no_garbage (drop i s) then Inl BadInput
           else
             let (i, digits, scale, precise) = trunc_digits (int i - 1) digits scale True in
             ebind (if 0 < scale then backup_zeros s i digits scale else Inr (i, digits, scale))
               (\<lambda>(i, digits, scale).
             if OMNI_FIXED_DIGITS < digits
             then Inl (Throw DATA_CONVERSION DATA_CONVERSION_RangeError)
             else ebind (read_back s i digits) (\<lambda>ds.
                    let f = this\<lparr>pd_val := pad31 ds, pd_digits := digits, pd_scale := scale,
                                 pd_negative := (neg \<and> digits \<noteq> 0)\<rparr>
                    in if precise then PR_checkLimits f else Inr (f, False)))))"

text \<open>The constructor from a string, whose object has no IDL limits.\<close>

definition Fixed_string :: "string \<Rightarrow> fixed result" where
  "Fixed_string s = ebind (NP_fromString fixed_zero s False) (\<lambda>(f, _). Inr f)"

end
