(* ===== verification/Fixed_Text_Props.thy ===== *)
theory Fixed_Text_Props
  imports Fixed_Text
begin

text \<open>
  What printing and parsing of \<^verbatim>\<open>CORBA::Fixed\<close> do: the parser returns the value of a decimal
  literal, truncated to 31 digits, and reads back what the printers write.
\<close>

section \<open>Characters of digits\<close>

lemma of_char_dchar: "d < 10 \<Longrightarrow> of_char (dchar d) = d + 48"
  by (simp add: dchar_def)

lemma of_char_dchar_int: "d < 10 \<Longrightarrow> of_char (dchar d) = int d + 48"
  by (metis of_char_dchar of_nat_add of_nat_numeral of_nat_of_char)

lemma c_isdigit_dchar [simp]: "d < 10 \<Longrightarrow> c_isdigit (dchar d)"
  by (simp add: c_isdigit_def of_char_dchar)

lemma of_char_dot: "of_char (CHR ''.'') = (46 :: nat)" "of_char (CHR ''0'') = (48 :: nat)"
  "of_char (CHR ''-'') = (45 :: nat)" "of_char (CHR ''+'') = (43 :: nat)"
  by code_simp+

lemma dchar_0: "dchar 0 = CHR ''0''"
  by code_simp

lemma dchar_neq [simp]:
  assumes "d < 10"
  shows "dchar d \<noteq> CHR ''.''" and "dchar d \<noteq> CHR ''-''" and "dchar d \<noteq> CHR ''+''"
    and "dchar d = CHR ''0'' \<longleftrightarrow> d = 0"
proof -
  have "dchar d = c \<Longrightarrow> of_char c = d + 48" for c using of_char_dchar [OF assms] by blast
  from this [of "CHR ''.''"] this [of "CHR ''-''"] this [of "CHR ''+''"] this [of "CHR ''0''"] of_char_dot
  show "dchar d \<noteq> CHR ''.''" "dchar d \<noteq> CHR ''-''" "dchar d \<noteq> CHR ''+''"
    "dchar d = CHR ''0'' \<longleftrightarrow> d = 0"
    using assms dchar_0 by auto
qed

lemma c_isspace_dchar [simp]: "d < 10 \<Longrightarrow> \<not> c_isspace (dchar d)"
  by (simp add: c_isspace_def of_char_dchar)

lemma c_isspace_signs [simp]: "\<not> c_isspace (CHR ''-'')" "\<not> c_isspace (CHR ''+'')" "\<not> c_isspace (CHR ''.'')"
  "\<not> c_isdigit (CHR ''.'')"
  by code_simp+

lemma octet_dchar [simp]: "d < 10 \<Longrightarrow> octet (int (of_char (dchar d)) - 48) = d"
  by (simp add: of_char_dchar)

lemma dropWhile_zeros:
  "digs ds \<Longrightarrow> rest = [] \<or> hd rest \<noteq> CHR ''0'' \<Longrightarrow>
    dropWhile (\<lambda>c. c = CHR ''0'') (map dchar ds @ rest) = map dchar (dropWhile (\<lambda>d. d = 0) ds) @ rest"
  by (induction ds) (cases rest; auto)+

section \<open>The loops of the parser\<close>

definition ends_number :: "string \<Rightarrow> bool" where
  "ends_number rest \<longleftrightarrow> rest = [] \<or> \<not> c_isdigit (hd rest) \<and> hd rest \<noteq> CHR ''.''"

lemma count_digits_stop: "ends_number rest \<Longrightarrow> count_digits rest i d u = Inr (i, d, u)"
  by (cases rest) (auto simp: ends_number_def)

lemma count_digits_run:
  "digs ds \<Longrightarrow> d + length ds < 65536 \<Longrightarrow>
    count_digits (map dchar ds @ rest) i d u = count_digits rest (i + length ds) (d + length ds) u"
  by (induction ds arbitrary: i d) (auto simp: inc16_def)

lemma char_at_append:
  "k < length xs \<Longrightarrow> char_at (xs @ rest) (int k) = Inr (xs ! k)"
  by (simp add: char_at_def nth_append)

text \<open>
  The text of a number: integer digits \<open>is\<close>, then, when \<open>dot\<close>, the decimal point and the digits
  \<open>fs\<close>; \<open>last_ix\<close> is the index of its last character.
\<close>

definition num_text :: "nat list \<Rightarrow> bool \<Rightarrow> nat list \<Rightarrow> string" where
  "num_text is dot fs = map dchar is @ (if dot then CHR ''.'' # map dchar fs else [])"

definition last_ix :: "nat list \<Rightarrow> bool \<Rightarrow> nat list \<Rightarrow> int" where
  "last_ix is dot fs = int (length is) - 1 + (if dot then 1 + int (length fs) else 0)"

lemma count_num_text:
  assumes "digs is" and "digs fs" and "fs \<noteq> [] \<Longrightarrow> dot" and "length is + length fs < 65536"
    and "ends_number rest"
  shows "count_digits (num_text is dot fs @ rest) 0 0 (- 1) =
    Inr (nat (last_ix is dot fs + 1), length is + length fs, if dot then int (length is) else - 1)"
proof (cases dot)
  case True
  with assms show ?thesis
    by (simp add: num_text_def last_ix_def count_digits_run count_digits_stop nat_add_distrib)
next
  case False
  then have "fs = []" using assms(3) by blast
  with False assms(1,4,5) show ?thesis
    by (simp add: num_text_def last_ix_def count_digits_run count_digits_stop)
qed

lemma trunc_digits_spec:
  "trunc_digits i d s p =
     (i - int (min (d - 31) s), d - min (d - 31) s, s - min (d - 31) s, p \<and> (d \<le> 31 \<or> s = 0))"
  by (induction i d s p rule: trunc_digits.induct) (auto simp: OMNI_FIXED_DIGITS_def min_def)

definition strip0 :: "nat list \<Rightarrow> nat list" where
  "strip0 fs = rev (dropWhile (\<lambda>d. d = 0) (rev fs))"

lemma strip0_snoc: "strip0 (fs @ [d]) = (if d = 0 then strip0 fs else fs @ [d])"
  by (simp add: strip0_def)

lemma char_at_num:
  "digs fs \<Longrightarrow> char_at (num_text is True (fs @ [d]) @ rest) (last_ix is True (fs @ [d])) = Inr (dchar d)"
  using char_at_append [of "length is + 1 + length fs" "num_text is True (fs @ [d])" rest]
  by (simp add: last_ix_def num_text_def nth_append ac_simps)

lemma num_text_snoc:
  "num_text is True (fs @ [d]) @ rest = num_text is True fs @ dchar d # rest"
  by (simp add: num_text_def)

lemma last_ix_snoc: "last_ix is True (fs @ [d]) = last_ix is True fs + 1"
  by (simp add: last_ix_def)

lemma backup_zeros_spec:
  "digs fs \<Longrightarrow> length is + length fs < 65536 \<Longrightarrow>
   backup_zeros (num_text is True fs @ rest) (last_ix is True fs) (length is + length fs) (length fs) =
     Inr (last_ix is True (strip0 fs), length is + length (strip0 fs), length (strip0 fs))"
proof (induction fs arbitrary: rest rule: rev_induct)
  case Nil
  have "char_at (num_text is True [] @ rest) (last_ix is True []) = Inr CHR ''.''"
    using char_at_append [of "length is" "num_text is True []" rest]
    by (simp add: num_text_def last_ix_def nth_append)
  then show ?case by (simp add: backup_zeros.simps strip0_def)
next
  case (snoc d fs)
  then have dg: "digs fs" "d < 10" by auto
  show ?case
  proof (cases "d = 0")
    case True
    have "backup_zeros (num_text is True (fs @ [d]) @ rest) (last_ix is True (fs @ [d]))
        (length is + length (fs @ [d])) (length (fs @ [d])) =
      backup_zeros (num_text is True fs @ dchar d # rest) (last_ix is True fs)
        (length is + length fs) (length fs)"
      using True char_at_num [OF dg(1), of "is" d rest]
      by (subst backup_zeros.simps) (simp add: dec16_def num_text_snoc last_ix_snoc dchar_0)
    then show ?thesis using snoc True by (simp add: strip0_snoc)
  next
    case False
    then show ?thesis using char_at_num [OF dg(1), of "is" d rest] dg
      by (subst backup_zeros.simps) (simp add: strip0_snoc)
  qed
qed

lemma read_back_int:
  "digs is \<Longrightarrow> read_back (map dchar is @ rest) (int (length is) - 1) (length is) = Inr (rev is)"
proof (induction "is" arbitrary: rest rule: rev_induct)
  case Nil
  then show ?case by simp
next
  case (snoc d ds)
  have "char_at (map dchar (ds @ [d]) @ rest) (int (length ds)) = Inr (dchar d)"
    using char_at_append [of "length ds" "map dchar (ds @ [d])" rest] by (simp add: nth_append)
  with snoc.IH [of "dchar d # rest"] snoc.prems show ?case by simp
qed

lemma read_back_num:
  "digs is \<Longrightarrow> digs fs \<Longrightarrow>
   read_back (num_text is True fs @ rest) (last_ix is True fs) (length is + length fs) =
     Inr (rev (is @ fs))"
proof (induction fs arbitrary: rest rule: rev_induct)
  case Nil
  show ?case
  proof (cases "is" rule: rev_cases)
    case Nil
    then show ?thesis by simp
  next
    case (snoc ds d)
    have dot: "char_at (num_text is True [] @ rest) (last_ix is True []) = Inr CHR ''.''"
      using char_at_append [of "length is" "num_text is True []" rest]
      by (simp add: num_text_def last_ix_def nth_append)
    have "char_at (num_text is True [] @ rest) (last_ix is True [] - 1) = Inr (dchar d)"
      using char_at_append [of "length ds" "num_text is True []" rest]
      by (simp add: num_text_def last_ix_def nth_append snoc)
    moreover have "char_at (map dchar is @ CHR ''.'' # rest) (int (length is) - 1) = Inr (dchar d)"
      using char_at_append [of "length ds" "map dchar is" "CHR ''.'' # rest"]
      by (simp add: nth_append snoc)
    moreover have "read_back (map dchar is @ CHR ''.'' # rest) (int (length is) - 1) (length is) =
        Inr (rev is)" by (rule read_back_int [OF Nil(1)])
    ultimately show ?thesis using dot Nil(1)
      by (simp add: snoc num_text_def last_ix_def Let_def)
  qed
next
  case (snoc d fs)
  then have dg: "digs fs" "d < 10" by auto
  have "read_back (num_text is True (fs @ [d]) @ rest) (last_ix is True fs) (length is + length fs) =
      Inr (rev (is @ fs))"
    using snoc dg by (simp add: num_text_snoc)
  then show ?case using char_at_num [OF dg(1), of "is" d rest] dg
    by (simp add: last_ix_snoc)
qed

section \<open>The value of a literal\<close>

lemma strip0_split: "\<exists>k. fs = strip0 fs @ replicate k 0"
proof (induction fs rule: rev_induct)
  case Nil
  then show ?case by (simp add: strip0_def)
next
  case (snoc d fs)
  then obtain k where k: "fs = strip0 fs @ replicate k 0" by blast
  show ?case
  proof (cases "d = 0")
    case True
    have "fs @ [d] = strip0 fs @ replicate (Suc k) 0"
      using k True by (metis append.assoc replicate_append_same replicate_Suc)
    then show ?thesis using True by (metis strip0_snoc)
  next
    case False
    then show ?thesis by (intro exI [of _ 0]) (simp add: strip0_snoc)
  qed
qed

lemma strip0_last: "strip0 fs \<noteq> [] \<Longrightarrow> last (strip0 fs) \<noteq> 0"
  by (induction fs rule: rev_induct) (auto simp: strip0_def)

lemma strip0_length: "length (strip0 fs) \<le> length fs"
  using length_dropWhile_le [of "\<lambda>d. d = 0" "rev fs"] by (simp add: strip0_def)

lemma strip0_digs: "digs fs \<Longrightarrow> digs (strip0 fs)"
  using strip0_split [of fs] by (metis digs_simps(3))

lemma dval_rev_strip0:
  "(of_nat (dval (rev (ds @ strip0 fs))) :: rat) / 10 ^ length (strip0 fs) =
    of_nat (dval (rev (ds @ fs))) / 10 ^ length fs"
proof -
  obtain k where k: "fs = strip0 fs @ replicate k 0" using strip0_split by blast
  then have "length fs = length (strip0 fs) + k" by (metis length_append length_replicate)
  moreover have "dval (rev (ds @ fs)) = 10 ^ k * dval (rev (ds @ strip0 fs))"
  proof -
    have "rev (ds @ fs) = replicate k 0 @ rev (ds @ strip0 fs)"
      using k by (metis rev_append rev_replicate append.assoc)
    then show ?thesis by (simp add: dval_append)
  qed
  ultimately show ?thesis by (simp add: power_add)
qed

lemma dval_rev_leading: "dval (rev (dropWhile (\<lambda>d. d = 0) ds @ es)) = dval (rev (ds @ es))"
  by (induction ds) (auto simp: dval_append)

lemma take_floor:
  assumes "digs (ds @ fs)" and "k \<le> length fs"
  shows "\<lfloor>(of_nat (dval (rev (ds @ fs))) :: rat) / 10 ^ length fs * 10 ^ k\<rfloor> =
    int (dval (rev (ds @ take k fs)))"
proof -
  let ?t = "length fs - k"
  have "(10::rat) ^ length fs = 10 ^ k * of_nat (10 ^ ?t)" using assms(2) by (simp flip: power_add)
  then have "(of_nat (dval (rev (ds @ fs))) :: rat) / 10 ^ length fs * 10 ^ k =
      of_nat (dval (rev (ds @ fs))) / of_nat (10 ^ ?t)" by simp
  then have "\<lfloor>(of_nat (dval (rev (ds @ fs))) :: rat) / 10 ^ length fs * 10 ^ k\<rfloor> =
      int (dval (rev (ds @ fs)) div 10 ^ ?t)" by (simp only: floor_divide_of_nat_eq)
  moreover have "rev (ds @ take k fs) = drop ?t (rev (ds @ fs))"
    using assms(2) by (simp add: rev_take drop_append)
  ultimately show ?thesis using dval_drop [of "rev (ds @ fs)" ?t] assms(1) by simp
qed

text \<open>The object the parser builds from the digits kept.\<close>

lemma parsed_fixed:
  assumes dg: "digs is" "digs fs" and len: "length is + length fs \<le> 31"
    and hd: "is = [] \<or> hd is \<noteq> 0" and la: "fs = [] \<or> last fs \<noteq> 0"
    and g: "g = this\<lparr>pd_val := pad31 (rev (is @ fs)), pd_digits := length is + length fs,
      pd_scale := length fs, pd_negative := neg \<and> length is + length fs \<noteq> 0\<rparr>"
  shows "fixed_wf g" and "fmag g = of_nat (dval (rev (is @ fs))) / 10 ^ length fs"
    and "fdigits g = rev (is @ fs)"
proof -
  show fd: "fdigits g = rev (is @ fs)"
    using take_pad31 [of "rev (is @ fs)"] by (simp add: g fdigits_def add.commute)
  have "0 < length fs \<longrightarrow> rev (is @ fs) ! 0 \<noteq> 0"
    using la by (auto simp: last_conv_nth nth_append rev_nth)
  moreover have "0 < length is \<longrightarrow> last (rev (is @ fs)) \<noteq> 0"
    using hd by (auto simp: last_rev)
  ultimately show "fixed_wf g" using dg len unfolding fixed_wf_def fd by (auto simp: g)
  show "fmag g = of_nat (dval (rev (is @ fs))) / 10 ^ length fs"
    unfolding fmag_def fd by (simp add: g)
qed

lemma dropWhile_hd: "dropWhile P xs = [] \<or> \<not> P (hd (dropWhile P xs))"
  using hd_dropWhile by blast

definition lit_value :: "bool \<Rightarrow> nat list \<Rightarrow> nat list \<Rightarrow> rat" where
  "lit_value neg is fs =
     (if neg then - 1 else 1) * (of_nat (dval (rev (is @ fs))) / 10 ^ length fs)"

lemma trunc_rat_signed:
  assumes "0 \<le> X"
  shows "trunc_rat k ((if neg then - 1 else 1) * X) =
    (if neg then - (of_int \<lfloor>X * 10 ^ k\<rfloor> / 10 ^ k) else of_int \<lfloor>X * 10 ^ k\<rfloor> / 10 ^ k)"
  using assms by (cases "X = 0") (auto simp: trunc_rat_def)

lemma parsed_value:
  assumes dg: "digs is" "digs fs" and k: "k \<le> length fs"
    and m: "fmag g = of_nat (dval (rev (dropWhile (\<lambda>d. d = 0) is @ strip0 (take k fs)))) /
      10 ^ length (strip0 (take k fs))"
    and n: "pd_negative g = (neg \<and> dropWhile (\<lambda>d. d = 0) is @ strip0 (take k fs) \<noteq> [])"
  shows "fval g = trunc_rat k (lit_value neg is fs)"
proof -
  let ?X = "(of_nat (dval (rev (is @ fs))) :: rat) / 10 ^ length fs"
  have "fmag g = of_nat (dval (rev (is @ take k fs))) / 10 ^ k"
    unfolding m dval_rev_strip0 dval_rev_leading using k by (simp add: min_absorb2)
  then have mg: "fmag g = of_int \<lfloor>?X * 10 ^ k\<rfloor> / 10 ^ k"
    using take_floor [of "is" fs k] dg k by simp
  have z: "fmag g = 0" if "dropWhile (\<lambda>d. d = 0) is @ strip0 (take k fs) = []"
  proof -
    from that have "dropWhile (\<lambda>d. d = 0) is = []" "strip0 (take k fs) = []" by auto
    note e = this
    show ?thesis unfolding m e by simp
  qed
  have "fval g = (if neg then - fmag g else fmag g)" using n z by (auto simp: fval_def)
  moreover have "0 \<le> ?X" by simp
  ultimately show ?thesis
    unfolding lit_value_def by (simp only: trunc_rat_signed mg)
qed

text \<open>The parser after the leading zeros, on \<open>is\<close> without them.\<close>

lemma parse_tail:
  assumes dg: "digs is" "digs fs" and dot: "fs \<noteq> [] \<Longrightarrow> dot" and hd: "is = [] \<or> hd is \<noteq> 0"
    and len: "length is + length fs < 65536" and k: "k = min (length fs) (31 - length is)"
    and td: "trunc_digits (last_ix is dot fs) (length is + length fs) (length fs) True = (i, d, s, p)"
    and t: "t = num_text is dot fs @ rest"
  shows "if length is \<le> 31
    then \<exists>j. (if 0 < s then backup_zeros t i d s else Inr (i, d, s)) =
        Inr (j, length is + length (strip0 (take k fs)), length (strip0 (take k fs))) \<and>
      read_back t j (length is + length (strip0 (take k fs))) = Inr (rev (is @ strip0 (take k fs))) \<and>
      p = (length is + length fs \<le> 31)
    else \<exists>j s'. (if 0 < s then backup_zeros t i d s else Inr (i, d, s)) = Inr (j, length is, s')"
proof -
  define F where F: "F = take (length fs - min (length is + length fs - 31) (length fs)) fs"
  have lenF: "length F = length fs - min (length is + length fs - 31) (length fs)" by (simp add: F)
  from td have p: "p = (length is + length fs \<le> 31 \<or> fs = [])" and d: "d = length is + length F"
    and s: "s = length F"
    unfolding lenF by (auto simp: trunc_digits_spec)
  show ?thesis
  proof (cases dot)
    case False
    with dot have "fs = []" by blast
    with False td t F show ?thesis
      by (auto simp: trunc_digits_spec strip0_def num_text_def last_ix_def read_back_int [OF dg(1)])
  next
    case True
    have "fs = F @ drop (length F) fs" unfolding lenF by (simp add: F)
    then have tt: "t = num_text is True F @ map dchar (drop (length F) fs) @ rest"
      using True by (auto simp: t num_text_def simp flip: map_append)
    have i: "i = last_ix is True F"
      using td True lenF by (auto simp: trunc_digits_spec last_ix_def)
    have dF: "digs F" using dg by (auto simp: F)
    have bz: "(if 0 < s then backup_zeros t i d s else Inr (i, d, s)) =
        Inr (last_ix is True (strip0 F), length is + length (strip0 F), length (strip0 F))"
    proof (cases "0 < s")
      case True
      moreover have "length is + length F < 65536" using len lenF by linarith
      ultimately show ?thesis
        using backup_zeros_spec [OF dF, of "is"] unfolding tt i d s by simp
    next
      case False
      then have "F = []" using s by auto
      then show ?thesis using False i d s by (simp add: strip0_def)
    qed
    show ?thesis
    proof (cases "length is \<le> 31")
      case l: True
      have F': "F = take k fs" unfolding F k using l by (intro arg_cong2 [of _ _ _ _ take]) auto
      obtain z where z: "F = strip0 F @ replicate z 0" using strip0_split by blast
      have "t = num_text is True (strip0 F) @ map dchar (replicate z 0) @ map dchar (drop (length F) fs) @ rest"
        unfolding tt by (subst z) (simp add: num_text_def)
      then have "read_back t (last_ix is True (strip0 F)) (length is + length (strip0 F)) =
          Inr (rev (is @ strip0 F))"
        using read_back_num [OF dg(1) strip0_digs [OF dF]] by simp
      then show ?thesis using l bz p unfolding F' by (auto simp: strip0_def)
    next
      case False
      then have "F = []" by (simp add: F)
      then show ?thesis using False bz by (auto simp: strip0_def)
    qed
  qed
qed

definition sign_text :: "bool \<Rightarrow> string \<Rightarrow> bool" where
  "sign_text neg sg \<longleftrightarrow> sg = (if neg then ''-'' else []) \<or> \<not> neg \<and> sg = ''+''"

lemma num_text_hd:
  assumes "digs is" and "is \<noteq> [] \<or> dot"
  obtains c cs where "num_text is dot fs @ rest = c # cs" and "c_isdigit c \<or> c = CHR ''.''"
    and "\<not> c_isspace c" and "c \<noteq> CHR ''-''" and "c \<noteq> CHR ''+''"
proof (cases "is")
  case Nil
  then show thesis using assms(2) that [of "CHR ''.''"] by (simp add: num_text_def)
next
  case (Cons d ds)
  then show thesis using assms(1) that [of "dchar d"] by (simp add: num_text_def)
qed

lemma skip_sign_num:
  assumes "digs is" and "is \<noteq> [] \<or> dot" and "sign_text neg sg"
  shows "skip_sign (dropWhile c_isspace (sg @ num_text is dot fs @ rest)) =
      (neg, num_text is dot fs @ rest)"
    and "case num_text is dot fs @ rest of [] \<Rightarrow> False | c # _ \<Rightarrow> c_isdigit c \<or> c = CHR ''.''"
proof -
  obtain c cs where "num_text is dot fs @ rest = c # cs" "c_isdigit c \<or> c = CHR ''.''"
    "\<not> c_isspace c" "c \<noteq> CHR ''-''" "c \<noteq> CHR ''+''" using num_text_hd [OF assms(1,2)] by metis
  then show "skip_sign (dropWhile c_isspace (sg @ num_text is dot fs @ rest)) =
      (neg, num_text is dot fs @ rest)"
    and "case num_text is dot fs @ rest of [] \<Rightarrow> False | c # _ \<Rightarrow> c_isdigit c \<or> c = CHR ''.''"
    using assms(3) by (auto simp: sign_text_def skip_sign_def split: if_splits)
qed

lemma fromString_num:
  assumes lim: "pd_idl_digits this = 0 \<or> 31 < length is' + length fs" and dg: "digs is" "digs fs" and dot: "fs \<noteq> [] \<Longrightarrow> dot"
    and ne: "is \<noteq> [] \<or> dot" and sg: "sign_text neg sg"
    and len: "length is + length fs < 65536"
    and rest: "ends_number rest" "no_garbage rest"
    and is': "is' = dropWhile (\<lambda>d. d = 0) is" and k: "k = min (length fs) (31 - length is')"
  shows "NP_fromString this (sg @ num_text is dot fs @ rest) False =
    (if length is' \<le> 31
     then Inr (this\<lparr>pd_val := pad31 (rev (is' @ strip0 (take k fs))),
                pd_digits := length is' + length (strip0 (take k fs)),
                pd_scale := length (strip0 (take k fs)),
                pd_negative := neg \<and> length is' + length (strip0 (take k fs)) \<noteq> 0\<rparr>,
             length is' + length fs \<le> 31)
     else Inl (Throw DATA_CONVERSION DATA_CONVERSION_RangeError))"
proof -
  note sk = skip_sign_num [OF dg(1) ne sg, of fs rest]
  have dg': "digs is'" using dg(1) unfolding is' digs_def by (auto dest: set_dropWhileD)
  have len': "length is' + length fs < 65536" using len length_dropWhile_le [of _ "is"] unfolding is'
    by (meson add_le_mono1 le_less_trans)
  have "rest = [] \<or> hd rest \<noteq> CHR ''0''"
    using rest(1) c_isdigit_dchar [of 0] by (auto simp: ends_number_def dchar_0)
  then have dw: "dropWhile (\<lambda>c. c = CHR ''0'') (num_text is dot fs @ rest) = num_text is' dot fs @ rest"
    using dropWhile_zeros [OF dg(1), of "(if dot then CHR ''.'' # map dchar fs else []) @ rest"]
    by (auto simp: num_text_def is')
  let ?t = "num_text is' dot fs @ rest"
  note cn = count_num_text [OF dg' dg(2) dot len' rest(1)]
  have ix: "nat (last_ix is' dot fs + 1) = length (num_text is' dot fs)"
    by (auto simp: last_ix_def num_text_def)
  have ii: "int (nat (last_ix is' dot fs + 1)) - 1 = last_ix is' dot fs" by (simp add: last_ix_def)
  have dr: "drop (nat (last_ix is' dot fs + 1)) ?t = rest" unfolding ix by simp
  have hd: "is' = [] \<or> hd is' \<noteq> 0" using dropWhile_hd unfolding is' by blast
  obtain i d s p where td: "trunc_digits (last_ix is' dot fs) (length is' + length fs) (length fs) True = (i, d, s, p)"
    by (metis prod_cases4)
  have sc: "nat ((int (length is' + length fs) - (if (if dot then int (length is') else - 1) = - 1
      then int (length is' + length fs) else (if dot then int (length is') else - 1))) mod 65536) = length fs"
    using len' dot by auto
  have eq: "NP_fromString this (sg @ num_text is dot fs @ rest) False =
      ebind (if 0 < s then backup_zeros ?t i d s else Inr (i, d, s)) (\<lambda>(i, digits, scale).
         if OMNI_FIXED_DIGITS < digits
         then Inl (Throw DATA_CONVERSION DATA_CONVERSION_RangeError)
         else ebind (read_back ?t i digits) (\<lambda>ds.
                let f = this\<lparr>pd_val := pad31 ds, pd_digits := digits, pd_scale := scale,
                             pd_negative := (neg \<and> digits \<noteq> 0)\<rparr>
                in if p then PR_checkLimits f else Inr (f, False)))"
    by (simp only: NP_fromString_def sk prod.case Let_def dw cn ebind_Inr sc ii td dr rest(2)
        not_True_eq_False if_False simp_thms)
  note pt = parse_tail [OF dg' dg(2) dot hd len' k td refl, of rest]
  show ?thesis
  proof (cases "length is' \<le> 31")
    case True
    have l: "length is' + length (strip0 (take k fs)) \<le> 31"
      using True strip0_length [of "take k fs"] unfolding k by (simp only: length_take)
    have cl: "PR_checkLimits f = Inr (f, True)" if "pd_idl_digits f = 0" for f
      using that by (simp add: PR_checkLimits.simps)
    from pt True obtain j where
      bz: "(if 0 < s then backup_zeros ?t i d s else Inr (i, d, s)) =
        Inr (j, length is' + length (strip0 (take k fs)), length (strip0 (take k fs)))"
      and rb: "read_back ?t j (length is' + length (strip0 (take k fs))) =
        Inr (rev (is' @ strip0 (take k fs)))" and p: "p = (length is' + length fs \<le> 31)"
      by (simp only: if_True) blast
    from lim show ?thesis
    proof
      assume "pd_idl_digits this = 0"
      with l True show ?thesis
        unfolding eq bz ebind_Inr prod.case rb p by (simp add: OMNI_FIXED_DIGITS_def cl Let_def)
    next
      assume "31 < length is' + length fs"
      with l True show ?thesis
        unfolding eq bz ebind_Inr prod.case rb p by (simp add: OMNI_FIXED_DIGITS_def Let_def)
    qed
  next
    case False
    with pt obtain j s' where
      bz: "(if 0 < s then backup_zeros ?t i d s else Inr (i, d, s)) = Inr (j, length is', s')"
      by (simp only: if_False) blast
    from False show ?thesis
      unfolding eq bz ebind_Inr prod.case by (simp add: OMNI_FIXED_DIGITS_def)
  qed
qed

section \<open>The printed text\<close>

lemma print_digits_plain:
  "j \<le> length val \<Longrightarrow> j < s \<or> s = 0 \<Longrightarrow> print_digits val s j = map dchar (rev (take j val))"
  by (induction val s j rule: print_digits.induct) (auto simp: take_Suc_conv_app_nth)

lemma print_digits_dot:
  "j \<le> length val \<Longrightarrow> 0 < s \<Longrightarrow> s \<le> j \<Longrightarrow> print_digits val s j =
    map dchar (rev (drop s (take j val))) @ CHR ''.'' # map dchar (rev (take s val))"
proof (induction val s j rule: print_digits.induct)
  case (1 val s)
  then show ?case by simp
next
  case (2 val s j)
  show ?case
  proof (cases "Suc j = s")
    case True
    then have "print_digits val s j = map dchar (rev (take j val))"
      using 2 by (intro print_digits_plain) auto
    then show ?thesis using 2 by (simp add: take_Suc_conv_app_nth True [symmetric])
  next
    case False
    then show ?thesis using 2 by (simp add: take_Suc_conv_app_nth)
  qed
qed

definition int_digs :: "fixed \<Rightarrow> nat list" where
  "int_digs f = rev (drop (pd_scale f) (fdigits f))"

definition frac_digs :: "fixed \<Rightarrow> nat list" where
  "frac_digs f = rev (take (pd_scale f) (fdigits f))"

lemma int_frac:
  assumes "fixed_wf f"
  shows "rev (int_digs f @ frac_digs f) = fdigits f" and "digs (int_digs f)" and "digs (frac_digs f)"
    and "length (int_digs f) = pd_digits f - pd_scale f" and "length (frac_digs f) = pd_scale f"
    and "int_digs f = [] \<or> hd (int_digs f) \<noteq> 0" and "frac_digs f = [] \<or> last (frac_digs f) \<noteq> 0"
    and "int_digs f = [] \<longleftrightarrow> pd_digits f = pd_scale f"
proof -
  note b = fixed_wf_bounds [OF assms] and d = fixed_wf_digs(1) [OF assms]
  show "rev (int_digs f @ frac_digs f) = fdigits f" by (simp add: int_digs_def frac_digs_def)
  show "digs (int_digs f)" "digs (frac_digs f)" using d by (auto simp: int_digs_def frac_digs_def)
  show "length (int_digs f) = pd_digits f - pd_scale f" "length (frac_digs f) = pd_scale f"
    and "int_digs f = [] \<longleftrightarrow> pd_digits f = pd_scale f"
    using assms b by (auto simp: int_digs_def frac_digs_def)
  show "int_digs f = [] \<or> hd (int_digs f) \<noteq> 0"
  proof (cases "pd_scale f < pd_digits f")
    case True
    then show ?thesis using assms by (auto simp: int_digs_def hd_rev fixed_wf_def last_drop)
  next
    case False
    then show ?thesis using assms by (simp add: int_digs_def)
  qed
  show "frac_digs f = [] \<or> last (frac_digs f) \<noteq> 0"
  proof (cases "pd_scale f = 0")
    case True
    then show ?thesis by (simp add: frac_digs_def)
  next
    case False
    then have "fdigits f ! 0 \<noteq> 0" "fdigits f \<noteq> []" using assms b by (auto simp: fixed_wf_def)
    then show ?thesis using False by (simp add: frac_digs_def last_rev hd_conv_nth)
  qed
qed

lemma to_string_num:
  assumes wf: "fixed_wf f"
  shows "to_string f = (if pd_negative f then ''-'' else []) @
    num_text ((if pd_digits f = pd_scale f then [0] else []) @ int_digs f)
      (0 < pd_scale f \<or> 0 < pd_idl_scale f)
      (frac_digs f @ replicate (pd_idl_scale f - pd_scale f) 0)"
proof -
  note b = fixed_wf_bounds [OF wf]
  have l: "pd_digits f \<le> length (pd_val f)" using b wf by simp
  have t: "take (pd_digits f) (pd_val f) = fdigits f" "take (pd_scale f) (pd_val f) = take (pd_scale f) (fdigits f)"
    using b by (simp_all add: fdigits_def min_absorb1)
  have p: "print_digits (pd_val f) (pd_scale f) (pd_digits f) =
      map dchar (int_digs f) @ (if 0 < pd_scale f then CHR ''.'' # map dchar (frac_digs f) else [])"
    using print_digits_plain [OF l, of "pd_scale f"] print_digits_dot [OF l, of "pd_scale f"] b
    by (cases "pd_scale f = 0") (simp_all add: t int_digs_def frac_digs_def)
  show ?thesis
    unfolding to_string_def p by (auto simp: num_text_def dchar_0 frac_digs_def)
qed

lemma strip0_append_zeros: "fs = [] \<or> last fs \<noteq> 0 \<Longrightarrow> strip0 (fs @ replicate k 0) = fs"
proof (induction k)
  case 0
  then show ?case by (cases fs rule: rev_cases) (auto simp: strip0_snoc strip0_def)
next
  case (Suc k)
  have "fs @ replicate (Suc k) 0 = (fs @ replicate k 0) @ [0]" by (simp add: replicate_append_same)
  moreover have "strip0 ((fs @ replicate k 0) @ [0]) = strip0 (fs @ replicate k 0)" by (simp only: strip0_snoc if_True simp_thms)
  ultimately show ?case using Suc by (simp only:)
qed

text \<open>C30. The parser reads a decimal literal (optional sign, digits, optional decimal point and digits,
  then a \<^verbatim>\<open>d\<close> and white space at most) as its value truncated towards zero to the places that fit
  beside the integer digits into 31, returns whether nothing was lost, and raises
  \<^verbatim>\<open>DATA_CONVERSION\<close> exactly when the integer part has more than 31 digits.\<close>

theorem NP_fromString_value:
  assumes lim: "pd_idl_digits this = 0" and dg: "digs is" "digs fs" and dot: "fs = [] \<or> dot"
    and ne: "is \<noteq> [] \<or> dot" and sg: "sign_text neg sg"
    and len: "length is + length fs < 65536"
    and rest: "ends_number rest" "no_garbage rest"
    and n: "n = length (dropWhile (\<lambda>d. d = 0) is)"
  shows "if n \<le> 31
    then \<exists>g. NP_fromString this (sg @ num_text is dot fs @ rest) False = Inr (g, n + length fs \<le> 31) \<and>
           fixed_wf g \<and> fval g = trunc_rat (min (length fs) (31 - n)) (lit_value neg is fs)
    else NP_fromString this (sg @ num_text is dot fs @ rest) False =
           Inl (Throw DATA_CONVERSION DATA_CONVERSION_RangeError)"
proof -
  let ?is = "dropWhile (\<lambda>d. d = 0) is"
  let ?n = "length ?is"
  let ?k = "min (length fs) (31 - ?n)"
  have dot': "fs \<noteq> [] \<Longrightarrow> dot" using dot by blast
  note fs = fromString_num [OF disjI1 [OF lim] dg dot' ne sg len rest refl refl]
  show ?thesis
  proof (cases "?n \<le> 31")
    case True
    let ?g = "this\<lparr>pd_val := pad31 (rev (?is @ strip0 (take ?k fs))),
                pd_digits := ?n + length (strip0 (take ?k fs)), pd_scale := length (strip0 (take ?k fs)),
                pd_negative := neg \<and> ?n + length (strip0 (take ?k fs)) \<noteq> 0\<rparr>"
    have d: "digs ?is" "digs (strip0 (take ?k fs))"
    proof -
      show "digs ?is" using dg(1) by (auto simp: digs_def dest: set_dropWhileD)
      show "digs (strip0 (take ?k fs))" by (intro strip0_digs digs_take dg(2))
    qed
    have "length (strip0 (take ?k fs)) \<le> ?k" using strip0_length [of "take ?k fs"] by simp
    then have l: "length ?is + length (strip0 (take ?k fs)) \<le> 31" using True by linarith
    have la: "strip0 (take ?k fs) = [] \<or> last (strip0 (take ?k fs)) \<noteq> 0" using strip0_last by blast
    note g = parsed_fixed [OF d l dropWhile_hd la refl]
    have wf: "fixed_wf ?g" by (rule g(1))
    have "fval ?g = trunc_rat ?k (lit_value neg is fs)"
      by (rule parsed_value [OF dg _ g(2)]) auto
    with wf fs show ?thesis unfolding n if_P [OF True] by blast
  next
    case False
    then show ?thesis using fs unfolding n by (simp only: if_False simp_thms)
  qed
qed

lemma num_text_witness: "num_text [0, 4] True [2, 5, 0] = ''04.250''"
  by code_simp

theorem NP_fromString_value_witness:
  "\<exists>g. NP_fromString fixed_zero ''-04.250d '' False = Inr (g, True) \<and> fixed_wf g \<and>
     fval g = trunc_rat 3 (lit_value True [0, 4] [2, 5, 0])"
proof -
  have p: "pd_idl_digits fixed_zero = 0" "digs [0, 4]" "digs [2, 5, 0]"
    "[2, 5, 0] = [] \<or> True" "[0, 4] \<noteq> [] \<or> True" "sign_text True ''-''"
    "length [0 :: nat, 4] + length [2 :: nat, 5, 0] < 65536"
    "ends_number ''d ''" "no_garbage ''d ''" "1 = length (dropWhile (\<lambda>d. d = 0) [0 :: nat, 4])"
    by (simp_all add: fixed_zero_def sign_text_def) code_simp+
  have "''-'' @ num_text [0, 4] True [2, 5, 0] @ ''d '' = ''-04.250d ''"
    by (simp add: num_text_witness)
  with NP_fromString_value [OF p] show ?thesis by (simp add: numeral_3_eq_3)
qed

text \<open>C31. A value within its IDL limits is printed by \<^verbatim>\<open>to_string\<close>, with the zeros that its IDL scale
  asks for, as a text that the parser reads back as the same value, reporting no loss.\<close>

theorem to_string_roundtrip:
  assumes wf: "fixed_wf f" and lim: "limits_ok f" "within_limits f" and t: "pd_idl_digits this = 0"
  shows "NP_fromString this (to_string f) False = Inr (copy_fields this f, True)"
proof -
  note b = fixed_wf_bounds [OF wf] and i = int_frac [OF wf]
  let ?is = "(if pd_digits f = pd_scale f then [0] else []) @ int_digs f"
  let ?fs = "frac_digs f @ replicate (pd_idl_scale f - pd_scale f) 0"
  have dw: "dropWhile (\<lambda>d. d = 0) ?is = int_digs f"
    using i(6,8) by (cases "int_digs f") auto
  have l: "length (int_digs f) + length ?fs \<le> 31"
    using lim b i(4,5) by (auto simp: limits_ok_def within_limits_def)
  have d: "digs ?is" "digs ?fs" using i(2,3) by auto
  have dot: "?fs \<noteq> [] \<Longrightarrow> 0 < pd_scale f \<or> 0 < pd_idl_scale f"
    using i(5) by (cases "pd_scale f = 0"; cases "pd_idl_scale f = 0") auto
  have ne: "?is \<noteq> [] \<or> 0 < pd_scale f \<or> 0 < pd_idl_scale f" using i(8) by auto
  have sg: "sign_text (pd_negative f) (if pd_negative f then ''-'' else [])"
    by (auto simp: sign_text_def)
  have len: "length ?is + length ?fs < 65536" using l by auto
  have k: "length ?fs = min (length ?fs) (31 - length (int_digs f))" using l by simp
  have "to_string f = (if pd_negative f then ''-'' else []) @
      num_text ?is (0 < pd_scale f \<or> 0 < pd_idl_scale f) ?fs @ []"
    using to_string_num [OF wf] by simp
  then have eq: "NP_fromString this (to_string f) False =
      Inr (this\<lparr>pd_val := pad31 (rev (int_digs f @ strip0 (take (length ?fs) ?fs))),
                pd_digits := length (int_digs f) + length (strip0 (take (length ?fs) ?fs)),
                pd_scale := length (strip0 (take (length ?fs) ?fs)),
                pd_negative := pd_negative f \<and>
                  length (int_digs f) + length (strip0 (take (length ?fs) ?fs)) \<noteq> 0\<rparr>,
             length (int_digs f) + length ?fs \<le> 31)"
    using fromString_num [OF disjI1 [OF t] d dot ne sg len _ _ dw [symmetric] k, of "[]"] l
    by (simp add: ends_number_def no_garbage_def)
  have s: "strip0 (take (length ?fs) ?fs) = frac_digs f"
    using strip0_append_zeros [OF i(7)] by simp
  have n: "(pd_negative f \<and> 0 < pd_digits f) = pd_negative f" using wf by (auto simp: fixed_wf_def)
  have "pad31 (fdigits f) = pd_val f" using wf by (simp add: fixed_wf_def)
  moreover have "length (int_digs f) + length (frac_digs f) = pd_digits f" using i(4,5) b by simp
  ultimately show ?thesis
    unfolding eq s i(1) using l n i(5) by (auto simp: copy_fields_def)
qed

theorem to_string_roundtrip_witness:
  "NP_fromString fixed_zero (to_string (fixed_zero\<lparr>pd_idl_digits := 5, pd_idl_scale := 2\<rparr>)) False =
     Inr (copy_fields fixed_zero (fixed_zero\<lparr>pd_idl_digits := 5, pd_idl_scale := 2\<rparr>), True)"
proof -
  have "fixed_wf (fixed_zero\<lparr>pd_idl_digits := 5, pd_idl_scale := 2\<rparr>)" by code_simp
  then show ?thesis
    by (rule to_string_roundtrip) (simp_all add: limits_ok_def within_limits_def fixed_zero_def)
qed

text \<open>\<^verbatim>\<open>to_string\<close> writes no more characters than it has allocated.\<close>

theorem to_string_fits_buffer:
  assumes wf: "fixed_wf f"
  shows "length (to_string f) \<le> to_string_len f"
  using int_frac(4,5) [OF wf] fixed_wf_bounds [OF wf]
  by (auto simp: to_string_num [OF wf] to_string_len_def num_text_def)

theorem to_string_fits_buffer_witness:
  "length (to_string (fixed_zero\<lparr>pd_idl_scale := 2\<rparr>)) \<le> to_string_len (fixed_zero\<lparr>pd_idl_scale := 2\<rparr>)"
  by (rule to_string_fits_buffer) code_simp

text \<open>When the parser has to drop digits it does not check the IDL limits: a literal with more than
  31 digits leaves a \<^verbatim>\<open>fixed<2,1>\<close> object with a value outside its limits.\<close>

theorem NP_fromString_skips_limits:
  "\<exists>g. NP_fromString (fixed_zero\<lparr>pd_idl_digits := 2, pd_idl_scale := 1\<rparr>)
      (''123.'' @ replicate 29 (CHR ''1'')) False = Inr (g, False) \<and> \<not> within_limits g"
proof -
  let ?this = "fixed_zero\<lparr>pd_idl_digits := 2, pd_idl_scale := 1\<rparr>"
  have p: "pd_idl_digits ?this = 0 \<or> 31 < length [1 :: nat, 2, 3] + length (replicate 29 (1 :: nat))"
    "digs [1, 2, 3]" "digs (replicate 29 1)" "replicate 29 (1 :: nat) \<noteq> [] \<Longrightarrow> True"
    "[1 :: nat, 2, 3] \<noteq> [] \<or> True" "sign_text False []"
    "length [1 :: nat, 2, 3] + length (replicate 29 (1 :: nat)) < 65536" "ends_number []" "no_garbage []"
    "[1, 2, 3] = dropWhile (\<lambda>d. d = 0) [1 :: nat, 2, 3]"
    by (simp_all add: sign_text_def ends_number_def no_garbage_def digs_def)
  have lit: "[] @ num_text [1, 2, 3] True (replicate 29 1) @ [] = ''123.'' @ replicate 29 (CHR ''1'')"
  proof -
    have "map dchar [1, 2, 3] = ''123''" "dchar 1 = CHR ''1''" by code_simp+
    then show ?thesis by (simp add: num_text_def map_replicate)
  qed
  have "strip0 (take 28 (replicate 29 (1 :: nat))) = replicate 28 1"
    by (simp add: strip0_def min_def)
  with fromString_num [OF p refl] show ?thesis
    unfolding lit by (simp add: within_limits_def)
qed

end
