(* ===== verification/Cdr_Stream.thy ===== *)
theory Cdr_Stream
  imports Prelude
begin

unbundle bit_operations_syntax

text \<open>
  The interface of \<^verbatim>\<open>cdrStream\<close> (\<^verbatim>\<open>include/omniORB4/cdrStream.h\<close>, \<^verbatim>\<open>orbcore/cdrStream.cc\<close>): integers as
  octets in the host's byte order, the byte swapping functions, the marshalling of integers on top
  of the aligned block operations that the streams provide, and the contract of those operations as
  the locale \<open>cdr_stream\<close>. The host's byte order \<^verbatim>\<open>omni::myByteOrder\<close> is a platform constant that the
  build sets: the parameter \<open>host_le\<close>.
\<close>

section \<open>Octets of an integer\<close>

definition octets_le :: "nat \<Rightarrow> 'a::len word \<Rightarrow> 8 word list" where
  "octets_le n w = map (\<lambda>i. ucast (drop_bit (8 * i) w)) [0..<n]"

definition of_octets_le :: "8 word list \<Rightarrow> 'a::len word" where
  "of_octets_le bs = foldr (\<lambda>b acc. ucast b OR push_bit 8 acc) bs 0"

text \<open>An integer as it lies in the memory of the host, and back.\<close>

definition in_memory :: "bool \<Rightarrow> nat \<Rightarrow> 'a::len word \<Rightarrow> 8 word list" where
  "in_memory host_le n w = (if host_le then octets_le n w else rev (octets_le n w))"

definition from_memory :: "bool \<Rightarrow> 8 word list \<Rightarrow> 'a::len word" where
  "from_memory host_le bs = of_octets_le (if host_le then bs else rev bs)"

lemma octets_le_length [simp]: "length (octets_le n w) = n"
  by (simp add: octets_le_def)

lemma in_memory_length [simp]: "length (in_memory le n w) = n"
  by (simp add: in_memory_def)

lemma octets_le_Suc: "octets_le (Suc n) w = ucast w # octets_le n (drop_bit 8 w)"
  by (simp add: octets_le_def upt_rec [of 0] map_Suc_upt [symmetric] del: upt_Suc)
     (simp add: ac_simps)

lemma of_octets_le_bound:
  fixes w :: "'a::len word"
  shows "of_octets_le (octets_le n w) = take_bit (8 * n) w"
proof (induction n arbitrary: w)
  case 0
  then show ?case by (simp add: octets_le_def of_octets_le_def)
next
  case (Suc n)
  have "of_octets_le (octets_le (Suc n) w) =
      (ucast (ucast w :: 8 word) :: 'a word) OR push_bit 8 (of_octets_le (octets_le n (drop_bit 8 w)))"
    by (simp add: octets_le_Suc of_octets_le_def)
  also have "\<dots> = (ucast (ucast w :: 8 word) :: 'a word) OR push_bit 8 (take_bit (8 * n) (drop_bit 8 w))"
    by (simp only: Suc)
  also have "\<dots> = take_bit (8 * Suc n) w"
    by (rule bit_word_eqI) (auto simp: bit_simps)
  finally show ?case .
qed

lemma from_memory_in_memory:
  fixes w :: "'a::len word"
  assumes "LENGTH('a) \<le> 8 * n"
  shows "from_memory le (in_memory le n w) = w"
  using assms by (simp add: from_memory_def in_memory_def of_octets_le_bound take_bit_word_eq_self)

section \<open>Byte swapping\<close>

definition byteSwap16 :: "16 word \<Rightarrow> 16 word" where
  "byteSwap16 s = drop_bit 8 (s AND 0xff00) OR push_bit 8 (s AND 0x00ff)"

definition byteSwap32 :: "32 word \<Rightarrow> 32 word" where
  "byteSwap32 l =
     drop_bit 24 (l AND 0xff000000) OR drop_bit 8 (l AND 0x00ff0000) OR
     push_bit 8 (l AND 0x0000ff00) OR push_bit 24 (l AND 0x000000ff)"

definition byteSwap64 :: "64 word \<Rightarrow> 64 word" where
  "byteSwap64 l =
     drop_bit 56 (l AND 0xff00000000000000) OR drop_bit 40 (l AND 0x00ff000000000000) OR
     drop_bit 24 (l AND 0x0000ff0000000000) OR drop_bit 8 (l AND 0x000000ff00000000) OR
     push_bit 8 (l AND 0x00000000ff000000) OR push_bit 24 (l AND 0x0000000000ff0000) OR
     push_bit 40 (l AND 0x000000000000ff00) OR push_bit 56 (l AND 0x00000000000000ff)"

lemma mask_shape:
  "(0xff00 :: 16 word) = push_bit 8 (mask 8)" "(0x00ff :: 16 word) = mask 8"
  "(0xff000000 :: 32 word) = push_bit 24 (mask 8)" "(0x00ff0000 :: 32 word) = push_bit 16 (mask 8)"
  "(0x0000ff00 :: 32 word) = push_bit 8 (mask 8)" "(0x000000ff :: 32 word) = mask 8"
  "(0xff00000000000000 :: 64 word) = push_bit 56 (mask 8)"
  "(0x00ff000000000000 :: 64 word) = push_bit 48 (mask 8)"
  "(0x0000ff0000000000 :: 64 word) = push_bit 40 (mask 8)"
  "(0x000000ff00000000 :: 64 word) = push_bit 32 (mask 8)"
  "(0x00000000ff000000 :: 64 word) = push_bit 24 (mask 8)"
  "(0x0000000000ff0000 :: 64 word) = push_bit 16 (mask 8)"
  "(0x000000000000ff00 :: 64 word) = push_bit 8 (mask 8)"
  "(0x00000000000000ff :: 64 word) = mask 8"
  by (simp_all add: mask_eq_exp_minus_1 push_bit_eq_mult)

lemma byteSwap16_octets: "octets_le 2 (byteSwap16 s) = rev (octets_le 2 s)"
  unfolding byteSwap16_def mask_shape
  by (auto simp: octets_le_def upt_rec intro!: bit_word_eqI simp: bit_simps)

lemma byteSwap32_octets: "octets_le 4 (byteSwap32 l) = rev (octets_le 4 l)"
  unfolding byteSwap32_def mask_shape
  by (auto simp: octets_le_def upt_rec intro!: bit_word_eqI simp: bit_simps)

lemma byteSwap64_octets: "octets_le 8 (byteSwap64 l) = rev (octets_le 8 l)"
  unfolding byteSwap64_def mask_shape
  by (auto simp: octets_le_def upt_rec intro!: bit_word_eqI simp: bit_simps)

section \<open>The operations of a stream\<close>

text \<open>
  The virtual functions of \<^verbatim>\<open>cdrStream\<close> that its marshalling functions call, with the flags they
  read. \<open>put_prim\<close> and \<open>get_prim\<close> stand for the stores and loads of the inline functions, which
  take \<^verbatim>\<open>reserveAndMarshal\<close> and \<^verbatim>\<open>fetchAndUnmarshal\<close> when the buffer is at its end.
\<close>

record 's cdrOps =
  put_octet_array :: "'s \<Rightarrow> 8 word list \<Rightarrow> nat \<Rightarrow> 's result"
  get_octet_array :: "'s \<Rightarrow> nat \<Rightarrow> nat \<Rightarrow> (8 word list \<times> 's) result"
  put_prim :: "'s \<Rightarrow> 8 word list \<Rightarrow> 's result"
  get_prim :: "'s \<Rightarrow> nat \<Rightarrow> (8 word list \<times> 's) result"
  marshal_byte_swap :: "'s \<Rightarrow> bool"
  unmarshal_byte_swap :: "'s \<Rightarrow> bool"
  host_le :: bool

definition marshalOctet :: "'s cdrOps \<Rightarrow> 's \<Rightarrow> 8 word \<Rightarrow> 's result" where
  "marshalOctet ops s a = put_prim ops s [a]"

definition unmarshalOctet :: "'s cdrOps \<Rightarrow> 's \<Rightarrow> (8 word \<times> 's) result" where
  "unmarshalOctet ops s = ebind (get_prim ops s 1) (\<lambda>(bs, s). Inr (hd bs, s))"

definition marshalBoolean :: "'s cdrOps \<Rightarrow> 's \<Rightarrow> bool \<Rightarrow> 's result" where
  "marshalBoolean ops s b = marshalOctet ops s (if b then 1 else 0)"

definition unmarshalBoolean :: "'s cdrOps \<Rightarrow> 's \<Rightarrow> (bool \<times> 's) result" where
  "unmarshalBoolean ops s = ebind (unmarshalOctet ops s) (\<lambda>(o1, s). Inr (o1 \<noteq> 0, s))"

text \<open>
  The macro \<^verbatim>\<open>intMarshalFns\<close>, instantiated for 16, 32 and 64 bits (the signed types have the same
  bits).
\<close>

definition marshalUShort :: "'s cdrOps \<Rightarrow> 's \<Rightarrow> 16 word \<Rightarrow> 's result" where
  "marshalUShort ops s arg =
     put_prim ops s (in_memory (host_le ops) 2 (if marshal_byte_swap ops s then byteSwap16 arg else arg))"

definition unmarshalUShort :: "'s cdrOps \<Rightarrow> 's \<Rightarrow> (16 word \<times> 's) result" where
  "unmarshalUShort ops s =
     ebind (get_prim ops s 2) (\<lambda>(bs, s').
       let v = from_memory (host_le ops) bs
       in Inr (if unmarshal_byte_swap ops s then byteSwap16 v else v, s'))"

definition marshalULong :: "'s cdrOps \<Rightarrow> 's \<Rightarrow> 32 word \<Rightarrow> 's result" where
  "marshalULong ops s arg =
     put_prim ops s (in_memory (host_le ops) 4 (if marshal_byte_swap ops s then byteSwap32 arg else arg))"

definition unmarshalULong :: "'s cdrOps \<Rightarrow> 's \<Rightarrow> (32 word \<times> 's) result" where
  "unmarshalULong ops s =
     ebind (get_prim ops s 4) (\<lambda>(bs, s').
       let v = from_memory (host_le ops) bs
       in Inr (if unmarshal_byte_swap ops s then byteSwap32 v else v, s'))"

definition marshalULongLong :: "'s cdrOps \<Rightarrow> 's \<Rightarrow> 64 word \<Rightarrow> 's result" where
  "marshalULongLong ops s arg =
     put_prim ops s (in_memory (host_le ops) 8 (if marshal_byte_swap ops s then byteSwap64 arg else arg))"

definition unmarshalULongLong :: "'s cdrOps \<Rightarrow> 's \<Rightarrow> (64 word \<times> 's) result" where
  "unmarshalULongLong ops s =
     ebind (get_prim ops s 8) (\<lambda>(bs, s').
       let v = from_memory (host_le ops) bs
       in Inr (if unmarshal_byte_swap ops s then byteSwap64 v else v, s'))"

text \<open>A sequence of marshalling calls, as generated stubs make them, and the matching calls.\<close>

datatype cdr_value =
    VOctet "8 word"
  | VBoolean bool
  | VUShort "16 word"
  | VULong "32 word"
  | VULongLong "64 word"
  | VOctets "8 word list"

fun marshal_value :: "'s cdrOps \<Rightarrow> 's \<Rightarrow> cdr_value \<Rightarrow> 's result" where
  "marshal_value ops s (VOctet a) = marshalOctet ops s a"
| "marshal_value ops s (VBoolean b) = marshalBoolean ops s b"
| "marshal_value ops s (VUShort v) = marshalUShort ops s v"
| "marshal_value ops s (VULong v) = marshalULong ops s v"
| "marshal_value ops s (VULongLong v) = marshalULongLong ops s v"
| "marshal_value ops s (VOctets bs) = put_octet_array ops s bs 1"

text \<open>The call that reads back a value of the type (and, for an array, the length) of \<open>v\<close>.\<close>

fun unmarshal_like :: "'s cdrOps \<Rightarrow> 's \<Rightarrow> cdr_value \<Rightarrow> (cdr_value \<times> 's) result" where
  "unmarshal_like ops s (VOctet _) = ebind (unmarshalOctet ops s) (\<lambda>(v, s). Inr (VOctet v, s))"
| "unmarshal_like ops s (VBoolean _) = ebind (unmarshalBoolean ops s) (\<lambda>(v, s). Inr (VBoolean v, s))"
| "unmarshal_like ops s (VUShort _) = ebind (unmarshalUShort ops s) (\<lambda>(v, s). Inr (VUShort v, s))"
| "unmarshal_like ops s (VULong _) = ebind (unmarshalULong ops s) (\<lambda>(v, s). Inr (VULong v, s))"
| "unmarshal_like ops s (VULongLong _) =
     ebind (unmarshalULongLong ops s) (\<lambda>(v, s). Inr (VULongLong v, s))"
| "unmarshal_like ops s (VOctets bs) =
     ebind (get_octet_array ops s (length bs) 1) (\<lambda>(v, s). Inr (VOctets v, s))"

fun marshal_all :: "'s cdrOps \<Rightarrow> 's \<Rightarrow> cdr_value list \<Rightarrow> 's result" where
  "marshal_all ops s [] = Inr s"
| "marshal_all ops s (v # vs) = ebind (marshal_value ops s v) (\<lambda>s. marshal_all ops s vs)"

fun unmarshal_all :: "'s cdrOps \<Rightarrow> 's \<Rightarrow> cdr_value list \<Rightarrow> (cdr_value list \<times> 's) result" where
  "unmarshal_all ops s [] = Inr ([], s)"
| "unmarshal_all ops s (v # vs) =
     ebind (unmarshal_like ops s v) (\<lambda>(w, s).
     ebind (unmarshal_all ops s vs) (\<lambda>(ws, s). Inr (w # ws, s)))"

section \<open>The contract of a stream\<close>

text \<open>
  \<open>sinv\<close> is the invariant of a stream, \<open>out\<close> what has been written since its beginning (an octet of
  padding may be uninitialised), \<open>pos\<close> how much of it has been read.
\<close>

definition flags_kept :: "'s cdrOps \<Rightarrow> 's \<Rightarrow> 's \<Rightarrow> bool" where
  "flags_kept ops s s' \<longleftrightarrow>
     marshal_byte_swap ops s' = marshal_byte_swap ops s \<and>
     unmarshal_byte_swap ops s' = unmarshal_byte_swap ops s"

locale cdr_stream =
  fixes ops :: "'s cdrOps"
    and sinv :: "'s \<Rightarrow> bool"
    and out :: "'s \<Rightarrow> 8 word option list"
    and pos :: "'s \<Rightarrow> nat"
  assumes put_array: "sinv s \<Longrightarrow> alignment a \<Longrightarrow>
      \<exists>s' gap. put_octet_array ops s bs a = Inr s' \<and> sinv s' \<and> pos s' = pos s \<and> flags_kept ops s s' \<and>
        out s' = out s @ gap @ map Some bs \<and> length gap = align_to (length (out s)) a - length (out s)"
    and put_prim: "sinv s \<Longrightarrow> alignment (length bs) \<Longrightarrow>
      \<exists>s' gap. put_prim ops s bs = Inr s' \<and> sinv s' \<and> pos s' = pos s \<and> flags_kept ops s s' \<and>
        out s' = out s @ gap @ map Some bs \<and>
        length gap = align_to (length (out s)) (length bs) - length (out s)"
    and get_array: "sinv s \<Longrightarrow> alignment a \<Longrightarrow>
      take (length bs) (drop (align_to (pos s) a) (out s)) = map Some bs \<Longrightarrow>
      align_to (pos s) a + length bs \<le> length (out s) \<Longrightarrow>
      \<exists>s'. get_octet_array ops s (length bs) a = Inr (bs, s') \<and> sinv s' \<and> out s' = out s \<and>
        flags_kept ops s s' \<and> pos s' = align_to (pos s) a + length bs"
    and get_prim: "sinv s \<Longrightarrow> alignment (length bs) \<Longrightarrow>
      take (length bs) (drop (align_to (pos s) (length bs)) (out s)) = map Some bs \<Longrightarrow>
      align_to (pos s) (length bs) + length bs \<le> length (out s) \<Longrightarrow>
      \<exists>s'. get_prim ops s (length bs) = Inr (bs, s') \<and> sinv s' \<and> out s' = out s \<and>
        flags_kept ops s s' \<and> pos s' = align_to (pos s) (length bs) + length bs"
    and get_array_end: "sinv s \<Longrightarrow> alignment a \<Longrightarrow>
      length (out s) < align_to (pos s) a + n \<Longrightarrow>
      get_octet_array ops s n a = Inl (Throw MARSHAL MARSHAL_PassEndOfMessage)"
    and get_prim_end: "sinv s \<Longrightarrow> alignment n \<Longrightarrow> length (out s) < align_to (pos s) n + n \<Longrightarrow>
      get_prim ops s n = Inl (Throw MARSHAL MARSHAL_PassEndOfMessage)"
begin

text \<open>\<open>wrote s bs s'\<close>: \<open>s'\<close> is \<open>s\<close> with some padding and \<open>bs\<close> written.\<close>

definition wrote :: "'s \<Rightarrow> nat \<Rightarrow> 8 word list \<Rightarrow> 's \<Rightarrow> bool" where
  "wrote s a bs s' \<longleftrightarrow> sinv s' \<and> pos s' = pos s \<and> flags_kept ops s s' \<and>
     (\<exists>gap. out s' = out s @ gap @ map Some bs \<and> length gap = align_to (length (out s)) a - length (out s))"

text \<open>\<open>reads t k t'\<close>: \<open>t'\<close> is \<open>t\<close> read up to position \<open>k\<close>.\<close>

definition reads :: "'s \<Rightarrow> nat \<Rightarrow> 's \<Rightarrow> bool" where
  "reads t k t' \<longleftrightarrow> sinv t' \<and> out t' = out t \<and> flags_kept ops t t' \<and> pos t' = k"

lemma put_array_wrote: "sinv s \<Longrightarrow> alignment a \<Longrightarrow>
    \<exists>s'. put_octet_array ops s bs a = Inr s' \<and> wrote s a bs s'"
  using put_array [of s a bs] unfolding wrote_def by blast

lemma put_prim_wrote: "sinv s \<Longrightarrow> alignment (length bs) \<Longrightarrow>
    \<exists>s'. put_prim ops s bs = Inr s' \<and> wrote s (length bs) bs s'"
  using put_prim [of s bs] unfolding wrote_def by blast

lemma wrote_position:
  assumes "wrote s a bs s'" and "alignment a" and "out t = out s' @ rest" and "pos t = length (out s)"
  shows "take (length bs) (drop (align_to (pos t) a) (out t)) = map Some bs"
    and "align_to (pos t) a + length bs = length (out s')"
    and "align_to (pos t) a + length bs \<le> length (out t)"
proof -
  obtain gap where g: "out s' = out s @ gap @ map Some bs"
    and l: "length gap = align_to (length (out s)) a - length (out s)"
    using assms(1) by (auto simp: wrote_def)
  have p: "align_to (pos t) a = length (out s @ gap)"
    using l align_to_ge [OF assms(2), of "length (out s)"] by (simp add: assms(4))
  have "out t = (out s @ gap) @ map Some bs @ rest" using g assms(3) by simp
  then show "take (length bs) (drop (align_to (pos t) a) (out t)) = map Some bs"
    unfolding p by simp
  show "align_to (pos t) a + length bs = length (out s')" unfolding p using g by simp
  then show "align_to (pos t) a + length bs \<le> length (out t)" using assms(3) by simp
qed

lemma get_array_reads:
  assumes "wrote s a bs s'" and "alignment a" and "sinv t" and "out t = out s' @ rest"
    and "pos t = length (out s)"
  shows "\<exists>t'. get_octet_array ops t (length bs) a = Inr (bs, t') \<and> reads t (length (out s')) t'"
  using get_array [OF assms(3,2)] wrote_position [OF assms(1,2,4,5)] unfolding reads_def by fastforce

lemma get_prim_reads:
  assumes "wrote s (length bs) bs s'" and "alignment (length bs)" and "sinv t"
    and "out t = out s' @ rest" and "pos t = length (out s)"
  shows "\<exists>t'. get_prim ops t (length bs) = Inr (bs, t') \<and> reads t (length (out s')) t'"
  using get_prim [OF assms(3,2)] wrote_position [OF assms(1,2,4,5)] unfolding reads_def by fastforce

end

section \<open>Reading back what was marshalled\<close>

lemma byteSwap_involution [simp]:
  "byteSwap16 (byteSwap16 a) = a" "byteSwap32 (byteSwap32 b) = b" "byteSwap64 (byteSwap64 c) = c"
proof -
  have inj: "v = w" if "octets_le n v = octets_le n w" "LENGTH('a) \<le> 8 * n" for n and v w :: "'a::len word"
    using that of_octets_le_bound [of n v] of_octets_le_bound [of n w]
    by (metis take_bit_length_eq take_bit_take_bit min.absorb1 min_def)
  show "byteSwap16 (byteSwap16 a) = a" by (rule inj [of 2]) (simp_all add: byteSwap16_octets)
  show "byteSwap32 (byteSwap32 b) = b" by (rule inj [of 4]) (simp_all add: byteSwap32_octets)
  show "byteSwap64 (byteSwap64 c) = c" by (rule inj [of 8]) (simp_all add: byteSwap64_octets)
qed

lemmas host_octets = from_memory_in_memory in_memory_length

lemma alignment_intros [intro, simp]: "alignment 1" "alignment (Suc 0)" "alignment 2" "alignment 4" "alignment 8"
  by (simp_all add: alignment_def)

context cdr_stream
begin

text \<open>\<open>carries s v s'\<close>: marshalling took \<open>s\<close> to \<open>s'\<close>, and a stream that has \<open>s'\<close> as a prefix of its
  contents and is about to read from where \<open>s\<close> ended returns \<open>v\<close>.\<close>

definition carries :: "'s \<Rightarrow> ('s \<Rightarrow> ('v \<times> 's) result) \<Rightarrow> 'v \<Rightarrow> 's \<Rightarrow> bool" where
  "carries s reader v s' \<longleftrightarrow> sinv s' \<and> pos s' = pos s \<and> flags_kept ops s s' \<and>
     (\<exists>ext. out s' = out s @ ext) \<and>
     (\<forall>t rest. sinv t \<and> out t = out s' @ rest \<and> pos t = length (out s) \<and>
        unmarshal_byte_swap ops t = marshal_byte_swap ops s \<longrightarrow>
        (\<exists>t'. reader t = Inr (v, t') \<and> reads t (length (out s')) t'))"

lemma wrote_ext: "wrote s a bs s' \<Longrightarrow> sinv s' \<and> pos s' = pos s \<and> flags_kept ops s s' \<and> (\<exists>ext. out s' = out s @ ext)"
  by (auto simp: wrote_def)

lemma carries_prim:
  assumes "sinv s" and "alignment (length bs)"
    and "\<And>t t'. get_prim ops t (length bs) = Inr (bs, t') \<Longrightarrow>
      unmarshal_byte_swap ops t = marshal_byte_swap ops s \<Longrightarrow> reader t = Inr (v, t')"
  shows "\<exists>s'. put_prim ops s bs = Inr s' \<and> carries s reader v s'"
proof -
  obtain s' where s': "put_prim ops s bs = Inr s'" "wrote s (length bs) bs s'"
    using put_prim_wrote [OF assms(1,2)] by blast
  then have "carries s reader v s'"
    using wrote_ext [OF s'(2)] get_prim_reads [OF s'(2) assms(2)] assms(3)
    unfolding carries_def by blast
  with s'(1) show ?thesis by blast
qed

lemma marshalOctet_carries: "sinv s \<Longrightarrow> \<exists>s'. marshalOctet ops s a = Inr s' \<and> carries s (unmarshalOctet ops) a s'"
  unfolding marshalOctet_def
  by (rule carries_prim) (auto simp: unmarshalOctet_def)

lemma marshalBoolean_carries:
  "sinv s \<Longrightarrow> \<exists>s'. marshalBoolean ops s b = Inr s' \<and> carries s (unmarshalBoolean ops) b s'"
  unfolding marshalBoolean_def marshalOctet_def
  by (rule carries_prim) (auto simp: unmarshalBoolean_def unmarshalOctet_def)

lemma marshalUShort_carries:
  "sinv s \<Longrightarrow> \<exists>s'. marshalUShort ops s v = Inr s' \<and> carries s (unmarshalUShort ops) v s'"
  unfolding marshalUShort_def
  by (rule carries_prim) (auto simp: unmarshalUShort_def host_octets)

lemma marshalULong_carries:
  "sinv s \<Longrightarrow> \<exists>s'. marshalULong ops s v = Inr s' \<and> carries s (unmarshalULong ops) v s'"
  unfolding marshalULong_def
  by (rule carries_prim) (auto simp: unmarshalULong_def host_octets)

lemma marshalULongLong_carries:
  "sinv s \<Longrightarrow> \<exists>s'. marshalULongLong ops s v = Inr s' \<and> carries s (unmarshalULongLong ops) v s'"
  unfolding marshalULongLong_def
  by (rule carries_prim) (auto simp: unmarshalULongLong_def host_octets)

lemma put_array_carries:
  assumes "sinv s" and "alignment a"
  shows "\<exists>s'. put_octet_array ops s bs a = Inr s' \<and>
    carries s (\<lambda>t. get_octet_array ops t (length bs) a) bs s'"
proof -
  obtain s' where s': "put_octet_array ops s bs a = Inr s'" "wrote s a bs s'"
    using put_array_wrote [OF assms] by blast
  then have "carries s (\<lambda>t. get_octet_array ops t (length bs) a) bs s'"
    using wrote_ext [OF s'(2)] get_array_reads [OF s'(2) assms(2)] unfolding carries_def by blast
  with s'(1) show ?thesis by blast
qed

text \<open>Post-processing a reader, and reading two values in sequence.\<close>

lemma carries_map:
  assumes "carries s r v s'" and "\<And>t t'. r t = Inr (v, t') \<Longrightarrow> r' t = Inr (w, t')"
  shows "carries s r' w s'"
  using assms unfolding carries_def by blast

lemma flags_kept_trans: "flags_kept ops s s' \<Longrightarrow> flags_kept ops s' s'' \<Longrightarrow> flags_kept ops s s''"
  by (simp add: flags_kept_def)

lemma carries_seq:
  assumes "carries s r v s1" and "carries s1 r2 w s2"
    and "\<And>t t1 t2. r t = Inr (v, t1) \<Longrightarrow> r2 t1 = Inr (w, t2) \<Longrightarrow> r' t = Inr (u, t2)"
  shows "carries s r' u s2"
  unfolding carries_def
proof (intro conjI allI impI)
  show "sinv s2" "pos s2 = pos s" using assms(1,2) by (auto simp: carries_def)
  show "flags_kept ops s s2" using assms(1,2) flags_kept_trans unfolding carries_def by blast
  obtain e1 e2 where e: "out s1 = out s @ e1" "out s2 = out s1 @ e2"
    using assms(1,2) by (auto simp: carries_def)
  then show "\<exists>ext. out s2 = out s @ ext" by simp
  fix t rest
  assume t: "sinv t \<and> out t = out s2 @ rest \<and> pos t = length (out s) \<and>
    unmarshal_byte_swap ops t = marshal_byte_swap ops s"
  then have "out t = out s1 @ (e2 @ rest)" using e by simp
  with assms(1) t obtain t1 where t1: "r t = Inr (v, t1)" "reads t (length (out s1)) t1"
    unfolding carries_def by blast
  have "marshal_byte_swap ops s1 = marshal_byte_swap ops s"
    using assms(1) by (simp add: carries_def flags_kept_def)
  with assms(2) t t1(2) obtain t2 where t2: "r2 t1 = Inr (w, t2)" "reads t1 (length (out s2)) t2"
    unfolding carries_def reads_def flags_kept_def by metis
  have "reads t (length (out s2)) t2"
    using t1(2) t2(2) by (auto simp: reads_def flags_kept_def)
  with assms(3) [OF t1(1) t2(1)] show "\<exists>t'. r' t = Inr (u, t') \<and> reads t (length (out s2)) t'" by blast
qed

lemma carries_nothing: "sinv s \<Longrightarrow> carries s (\<lambda>t. Inr (v, t)) v s"
  by (auto simp: carries_def reads_def flags_kept_def)

lemma marshal_value_carries:
  assumes "sinv s"
  shows "\<exists>s'. marshal_value ops s v = Inr s' \<and> carries s (\<lambda>t. unmarshal_like ops t v) v s'"
proof (cases v)
  case (VOctet x)
  with marshalOctet_carries [OF assms, of x] show ?thesis by (auto elim!: carries_map)
next
  case (VBoolean x)
  with marshalBoolean_carries [OF assms, of x] show ?thesis by (auto elim!: carries_map)
next
  case (VUShort x)
  with marshalUShort_carries [OF assms, of x] show ?thesis by (auto elim!: carries_map)
next
  case (VULong x)
  with marshalULong_carries [OF assms, of x] show ?thesis by (auto elim!: carries_map)
next
  case (VULongLong x)
  with marshalULongLong_carries [OF assms, of x] show ?thesis by (auto elim!: carries_map)
next
  case (VOctets x)
  with put_array_carries [OF assms, of 1 x] show ?thesis by (auto elim!: carries_map)
qed

lemma marshal_all_carries:
  "sinv s \<Longrightarrow> \<exists>s'. marshal_all ops s vs = Inr s' \<and> carries s (\<lambda>t. unmarshal_all ops t vs) vs s'"
proof (induction vs arbitrary: s)
  case Nil
  then show ?case using carries_nothing by auto
next
  case (Cons v vs)
  obtain s1 where s1: "marshal_value ops s v = Inr s1" "carries s (\<lambda>t. unmarshal_like ops t v) v s1"
    using marshal_value_carries [OF Cons.prems] by blast
  then have "sinv s1" by (simp add: carries_def)
  with Cons.IH obtain s2 where s2: "marshal_all ops s1 vs = Inr s2"
    "carries s1 (\<lambda>t. unmarshal_all ops t vs) vs s2" by blast
  have "carries s (\<lambda>t. unmarshal_all ops t (v # vs)) (v # vs) s2"
    by (rule carries_seq [OF s1(2) s2(2)]) simp
  with s1(1) s2(1) show ?case by auto
qed

text \<open>A stream that has been written from its beginning and read up to \<open>k\<close>, at the value to read.\<close>

lemma carries_same:
  assumes "carries s r v s'" and "sinv t" and "out t = out s'" and "pos t = length (out s)"
    and "unmarshal_byte_swap ops t = marshal_byte_swap ops s"
  shows "\<exists>t'. r t = Inr (v, t') \<and> reads t (length (out s')) t'"
  using assms unfolding carries_def by (metis append_Nil2)

end

end
