(* ===== verification/Cdr_Memory.thy ===== *)
theory Cdr_Memory
  imports Cdr_Stream
begin

text \<open>
  \<^verbatim>\<open>cdrMemoryStream\<close>, \<^verbatim>\<open>cdrEncapsulationStream\<close> and \<^verbatim>\<open>cdrCountingStream\<close>
  (\<^verbatim>\<open>orbcore/cdrMemoryStream.cc\<close>, the classes in \<^verbatim>\<open>include/omniORB4/cdrStream.h\<close>). Pointers are
  addresses; \<open>ms_mem\<close> is the memory from \<^verbatim>\<open>pd_bufp_8\<close> on, an octet that has not been initialised is
  \<open>None\<close>. A pointer difference that would be negative, an access outside the buffer and reading an
  uninitialised octet are \<open>Undefined\<close>. The address that \<^verbatim>\<open>new char[n]\<close> returns is \<open>heap n\<close>.
\<close>

record cdrMemoryStream =
  pd_bufp :: nat
  pd_bufp_8 :: nat
  ms_mem :: "8 word option list"
  pd_outb_mkr :: nat
  pd_outb_end :: nat
  pd_inb_mkr :: nat
  pd_inb_end :: nat
  pd_readonly :: bool
  pd_clear_memory :: bool
  pd_marshal_byte_swap :: bool
  pd_unmarshal_byte_swap :: bool

section \<open>Memory\<close>

definition ensure_align_8 :: "nat \<Rightarrow> nat" where
  "ensure_align_8 p = align_to p 8"

definition ptr_diff :: "nat \<Rightarrow> nat \<Rightarrow> nat result" where
  "ptr_diff p q = (if q \<le> p then Inr (p - q) else Inl Undefined)"

definition fresh :: "bool \<Rightarrow> nat \<Rightarrow> 8 word option list" where
  "fresh clear n = replicate n (if clear then Some 0 else None)"

definition mem_write :: "cdrMemoryStream \<Rightarrow> nat \<Rightarrow> 8 word list \<Rightarrow> cdrMemoryStream result" where
  "mem_write s p bs =
     (let k = p - pd_bufp_8 s
      in if p < pd_bufp_8 s \<or> length (ms_mem s) < k + length bs then Inl Undefined
         else Inr (s\<lparr>ms_mem := take k (ms_mem s) @ map Some bs @ drop (k + length bs) (ms_mem s)\<rparr>))"

definition mem_read :: "cdrMemoryStream \<Rightarrow> nat \<Rightarrow> nat \<Rightarrow> 8 word list result" where
  "mem_read s p n =
     (let k = p - pd_bufp_8 s; cells = take n (drop k (ms_mem s))
      in if p < pd_bufp_8 s \<or> length (ms_mem s) < k + n \<or> None \<in> set cells then Inl Undefined
         else Inr (map the cells))"

section \<open>Operations\<close>

definition rewindInputPtr :: "cdrMemoryStream \<Rightarrow> cdrMemoryStream" where
  "rewindInputPtr s =
     s\<lparr>pd_inb_mkr := pd_bufp_8 s,
       pd_inb_end := (if pd_readonly s then pd_inb_end s else pd_outb_mkr s)\<rparr>"

definition rewindPtrs :: "cdrMemoryStream \<Rightarrow> cdrMemoryStream" where
  "rewindPtrs s =
     (if \<not> pd_readonly s then
        s\<lparr>pd_outb_mkr := pd_bufp_8 s, pd_inb_mkr := pd_bufp_8 s, pd_inb_end := pd_bufp_8 s\<rparr>
      else s\<lparr>pd_outb_mkr := 0, pd_outb_end := 0, pd_inb_mkr := pd_bufp s\<rparr>)"

definition bufSize :: "cdrMemoryStream \<Rightarrow> nat result" where
  "bufSize s = ptr_diff (pd_outb_mkr s) (pd_bufp_8 s)"

definition currentInputPtr :: "cdrMemoryStream \<Rightarrow> nat result" where
  "currentInputPtr s = ptr_diff (pd_inb_mkr s) (pd_bufp_8 s)"

definition currentOutputPtr :: "cdrMemoryStream \<Rightarrow> nat result" where
  "currentOutputPtr s = ptr_diff (pd_outb_mkr s) (pd_bufp_8 s)"

definition setByteSwapFlag :: "bool \<Rightarrow> cdrMemoryStream \<Rightarrow> bool \<Rightarrow> cdrMemoryStream" where
  "setByteSwapFlag myByteOrder s littleendian =
     s\<lparr>pd_unmarshal_byte_swap := (if littleendian = myByteOrder then False else True),
       pd_marshal_byte_swap := (if littleendian = myByteOrder then False else True)\<rparr>"

text \<open>The growth of the buffer, when the space left is not larger than what is required.\<close>

definition grown_size :: "nat \<Rightarrow> nat \<Rightarrow> nat" where
  "grown_size datasize required =
     (let newsize = datasize + required + 8
      in if newsize < 1024 then newsize + datasize else newsize + datasize div 2)"

definition reserveOutputSpace :: "(nat \<Rightarrow> nat) \<Rightarrow> cdrMemoryStream \<Rightarrow> nat \<Rightarrow> nat \<Rightarrow> cdrMemoryStream result" where
  "reserveOutputSpace heap s align required =
     (if pd_readonly s then Inl (Throw MARSHAL MARSHAL_AttemptToWriteToReadOnlyBuf)
      else
        let required = required + (align_to (pd_outb_mkr s) align - pd_outb_mkr s) in
        ebind (ptr_diff (pd_outb_end s) (pd_outb_mkr s)) (\<lambda>newsize.
        if required < newsize then Inr s
        else
          ebind (ptr_diff (pd_outb_mkr s) (pd_bufp_8 s)) (\<lambda>datasize.
          ebind (ptr_diff (pd_inb_mkr s) (pd_bufp_8 s)) (\<lambda>in_mkr.
          ebind (ptr_diff (pd_inb_end s) (pd_bufp_8 s)) (\<lambda>in_end.
          let newsize = grown_size datasize required;
              bufp = heap newsize; bufp_8 = ensure_align_8 bufp
          in if length (ms_mem s) < datasize then Inl Undefined
             else Inr (s\<lparr>pd_bufp := bufp, pd_bufp_8 := bufp_8,
                    ms_mem := take datasize (ms_mem s) @
                      fresh (pd_clear_memory s) (bufp + newsize - bufp_8 - datasize),
                    pd_outb_end := bufp + newsize,
                    pd_outb_mkr := bufp_8 + datasize,
                    pd_inb_mkr := bufp_8 + in_mkr,
                    pd_inb_end := bufp_8 + in_end\<rparr>))))))"

definition ms_put_octet_array ::
    "(nat \<Rightarrow> nat) \<Rightarrow> cdrMemoryStream \<Rightarrow> 8 word list \<Rightarrow> nat \<Rightarrow> cdrMemoryStream result" where
  "ms_put_octet_array heap s b align =
     ebind (reserveOutputSpace heap s align (length b)) (\<lambda>s.
       let p1 = align_to (pd_outb_mkr s) align
       in ebind (mem_write s p1 b) (\<lambda>s. Inr (s\<lparr>pd_outb_mkr := p1 + length b\<rparr>)))"

definition fetchInputData :: "cdrMemoryStream \<Rightarrow> nat \<Rightarrow> nat \<Rightarrow> cdrMemoryStream result" where
  "fetchInputData s align required =
     (let s = (if \<not> pd_readonly s then s\<lparr>pd_inb_end := pd_outb_mkr s\<rparr> else s);
          required = required + (align_to (pd_inb_mkr s) align - pd_inb_mkr s)
      in ebind (ptr_diff (pd_inb_end s) (pd_inb_mkr s)) (\<lambda>avail.
         if avail < required then Inl (Throw MARSHAL MARSHAL_PassEndOfMessage) else Inr s))"

definition ms_get_octet_array ::
    "cdrMemoryStream \<Rightarrow> nat \<Rightarrow> nat \<Rightarrow> (8 word list \<times> cdrMemoryStream) result" where
  "ms_get_octet_array s sz align =
     ebind (fetchInputData s align sz) (\<lambda>s.
       let p1 = align_to (pd_inb_mkr s) align
       in ebind (mem_read s p1 sz) (\<lambda>b. Inr (b, s\<lparr>pd_inb_mkr := p1 + sz\<rparr>)))"

definition skipInput :: "cdrMemoryStream \<Rightarrow> nat \<Rightarrow> cdrMemoryStream result" where
  "skipInput s sz =
     ebind (fetchInputData s 1 sz) (\<lambda>s. Inr (s\<lparr>pd_inb_mkr := pd_inb_mkr s + sz\<rparr>))"

text \<open>
  The product \<^verbatim>\<open>itemSize*nItems\<close> of two \<^verbatim>\<open>CORBA::ULong\<close> values is computed in 32 bits before it is
  added to the address.
\<close>

definition checkInputOverrun ::
    "cdrMemoryStream \<Rightarrow> 32 word \<Rightarrow> 32 word \<Rightarrow> nat \<Rightarrow> bool \<times> cdrMemoryStream" where
  "checkInputOverrun s itemSize nItems align =
     (let s = (if \<not> pd_readonly s then s\<lparr>pd_inb_end := pd_outb_mkr s\<rparr> else s);
          p1 = align_to (pd_inb_mkr s) align + unat (itemSize * nItems)
      in (\<not> pd_inb_end s < p1, s))"

definition checkOutputOverrun :: "cdrMemoryStream \<Rightarrow> bool" where
  "checkOutputOverrun s = (if pd_readonly s then False else True)"

text \<open>The inline stores and loads of \<^verbatim>\<open>cdrStream\<close>, with the slow path behind them.\<close>

definition ms_put_prim :: "(nat \<Rightarrow> nat) \<Rightarrow> cdrMemoryStream \<Rightarrow> 8 word list \<Rightarrow> cdrMemoryStream result" where
  "ms_put_prim heap s bs =
     (let n = length bs; p1 = align_to (pd_outb_mkr s) n in
      if p1 + n \<le> pd_outb_end s then mem_write (s\<lparr>pd_outb_mkr := p1 + n\<rparr>) p1 bs
      else ebind (reserveOutputSpace heap s n n) (\<lambda>s.
             let p1 = align_to (pd_outb_mkr s) n in
             if p1 + n \<le> pd_outb_end s then mem_write (s\<lparr>pd_outb_mkr := p1 + n\<rparr>) p1 bs
             else Inl NoReturn))"

definition ms_get_prim :: "cdrMemoryStream \<Rightarrow> nat \<Rightarrow> (8 word list \<times> cdrMemoryStream) result" where
  "ms_get_prim s n =
     (let p1 = align_to (pd_inb_mkr s) n in
      if p1 + n \<le> pd_inb_end s then
        ebind (mem_read s p1 n) (\<lambda>b. Inr (b, s\<lparr>pd_inb_mkr := p1 + n\<rparr>))
      else ebind (fetchInputData s n n) (\<lambda>s.
             let p1 = align_to (pd_inb_mkr s) n in
             if p1 + n \<le> pd_inb_end s then
               ebind (mem_read s p1 n) (\<lambda>b. Inr (b, s\<lparr>pd_inb_mkr := p1 + n\<rparr>))
             else Inl NoReturn))"

definition ms_ops :: "bool \<Rightarrow> (nat \<Rightarrow> nat) \<Rightarrow> cdrMemoryStream cdrOps" where
  "ms_ops le heap =
     \<lparr>put_octet_array = ms_put_octet_array heap, get_octet_array = ms_get_octet_array,
      put_prim = ms_put_prim heap, get_prim = ms_get_prim,
      marshal_byte_swap = pd_marshal_byte_swap, unmarshal_byte_swap = pd_unmarshal_byte_swap,
      host_le = le\<rparr>"

text \<open>\<^verbatim>\<open>copy_to\<close>, for any destination stream.\<close>

definition ms_copy_to ::
    "'d cdrOps \<Rightarrow> cdrMemoryStream \<Rightarrow> 'd \<Rightarrow> nat \<Rightarrow> nat \<Rightarrow> (cdrMemoryStream \<times> 'd) result" where
  "ms_copy_to dops s d sz align =
     ebind (fetchInputData s align sz) (\<lambda>s.
       let p1 = align_to (pd_inb_mkr s) align
       in ebind (mem_read s p1 sz) (\<lambda>b.
          ebind (put_octet_array dops d b align) (\<lambda>d.
          Inr (s\<lparr>pd_inb_mkr := p1 + sz\<rparr>, d))))"

section \<open>Constructors\<close>

text \<open>
  The inline buffer has 32 octets at the address \<open>inl\<close> of the object; a buffer given from outside
  is an address and its octets.
\<close>

definition cdrMemoryStream_new :: "(nat \<Rightarrow> nat) \<Rightarrow> nat \<Rightarrow> nat \<Rightarrow> bool \<Rightarrow> cdrMemoryStream result" where
  "cdrMemoryStream_new heap inl initialBufsize clearMemory =
     (let bufp_8 = ensure_align_8 inl;
          s = rewindPtrs
            \<lparr>pd_bufp = inl, pd_bufp_8 = bufp_8, ms_mem = fresh False (inl + 32 - bufp_8),
             pd_outb_mkr = 0, pd_outb_end = inl + 32, pd_inb_mkr = 0, pd_inb_end = 0,
             pd_readonly = False, pd_clear_memory = clearMemory,
             pd_marshal_byte_swap = False, pd_unmarshal_byte_swap = False\<rparr>
      in ebind (if pd_outb_end s - pd_outb_mkr s < initialBufsize
                then reserveOutputSpace heap s 8 initialBufsize else Inr s) (\<lambda>s.
         Inr (if clearMemory then s\<lparr>ms_mem := fresh True (length (ms_mem s))\<rparr> else s)))"

definition cdrMemoryStream_external :: "nat \<Rightarrow> 8 word list \<Rightarrow> cdrMemoryStream" where
  "cdrMemoryStream_external databuffer data =
     rewindPtrs
       \<lparr>pd_bufp = databuffer, pd_bufp_8 = databuffer, ms_mem = map Some data,
        pd_outb_mkr = 0, pd_outb_end = 0, pd_inb_mkr = 0, pd_inb_end = databuffer + length data,
        pd_readonly = True, pd_clear_memory = False,
        pd_marshal_byte_swap = False, pd_unmarshal_byte_swap = False\<rparr>"

text \<open>
  The copy constructor: the memory behind a shared buffer is copied as it is at that moment.
\<close>

definition copy_written :: "(nat \<Rightarrow> nat) \<Rightarrow> cdrMemoryStream \<Rightarrow> cdrMemoryStream \<Rightarrow> cdrMemoryStream result" where
  "copy_written heap this s =
     ebind (bufSize s) (\<lambda>sz.
     if sz = 0 then Inr this
     else ebind (reserveOutputSpace heap this 8 sz) (\<lambda>this.
       let k = pd_outb_mkr this - pd_bufp_8 this
       in if length (ms_mem this) < k + sz \<or> length (ms_mem s) < sz then Inl Undefined
          else Inr (this\<lparr>ms_mem := take k (ms_mem this) @ take sz (ms_mem s) @
                            drop (k + sz) (ms_mem this),
                         pd_outb_mkr := pd_outb_mkr this + sz\<rparr>)))"

definition cdrMemoryStream_copy ::
    "(nat \<Rightarrow> nat) \<Rightarrow> nat \<Rightarrow> cdrMemoryStream \<Rightarrow> bool \<Rightarrow> cdrMemoryStream result" where
  "cdrMemoryStream_copy heap inl s read_only =
     (let base =
        \<lparr>pd_bufp = 0, pd_bufp_8 = 0, ms_mem = [], pd_outb_mkr = 0, pd_outb_end = 0, pd_inb_mkr = 0,
         pd_inb_end = 0, pd_readonly = read_only \<or> pd_readonly s, pd_clear_memory = False,
         pd_marshal_byte_swap = pd_marshal_byte_swap s,
         pd_unmarshal_byte_swap = pd_marshal_byte_swap s\<rparr>
      in if pd_readonly s then
           Inr (rewindPtrs (base\<lparr>pd_bufp := pd_bufp s, pd_bufp_8 := pd_bufp s,
                  ms_mem := ms_mem s, pd_inb_end := pd_inb_end s\<rparr>))
         else if read_only then
           ebind (bufSize s) (\<lambda>sz.
             Inr (rewindPtrs (base\<lparr>pd_bufp := pd_bufp_8 s, pd_bufp_8 := pd_bufp_8 s,
                    ms_mem := ms_mem s, pd_inb_end := pd_bufp_8 s + sz\<rparr>)))
         else
           copy_written heap
             (rewindPtrs (base\<lparr>pd_bufp := inl, pd_bufp_8 := ensure_align_8 inl,
                ms_mem := fresh False (inl + 32 - ensure_align_8 inl), pd_outb_end := inl + 32\<rparr>)) s)"

definition cdrMemoryStream_assign ::
    "(nat \<Rightarrow> nat) \<Rightarrow> nat \<Rightarrow> cdrMemoryStream \<Rightarrow> cdrMemoryStream \<Rightarrow> cdrMemoryStream result" where
  "cdrMemoryStream_assign heap inl this s =
     (let this = this\<lparr>pd_marshal_byte_swap := pd_marshal_byte_swap s,
                      pd_unmarshal_byte_swap := pd_marshal_byte_swap s\<rparr>
      in if \<not> pd_readonly s then
           (let this = (if pd_readonly this
                        then this\<lparr>pd_readonly := False, pd_bufp := inl, pd_bufp_8 := ensure_align_8 inl,
                               ms_mem := fresh False (inl + 32 - ensure_align_8 inl),
                               pd_outb_end := inl + 32\<rparr>
                        else this)
            in copy_written heap (rewindPtrs this) s)
         else
           (let this = (if \<not> pd_readonly this then this\<lparr>pd_readonly := True\<rparr> else this)
            in Inr (rewindPtrs (this\<lparr>pd_bufp := pd_bufp s, pd_bufp_8 := pd_bufp s,
                      ms_mem := ms_mem s, pd_inb_end := pd_inb_end s\<rparr>))))"

text \<open>
  \<^verbatim>\<open>cdrEncapsulationStream\<close>: an empty one starts with the byte order octet; one over given octets
  reads it and sets the flags, after a copy into an own buffer when the octets are not aligned.
\<close>

definition cdrEncapsulationStream_new ::
    "bool \<Rightarrow> (nat \<Rightarrow> nat) \<Rightarrow> nat \<Rightarrow> nat \<Rightarrow> bool \<Rightarrow> cdrMemoryStream result" where
  "cdrEncapsulationStream_new le heap inl initialBufsize clearMemory =
     ebind (cdrMemoryStream_new heap inl initialBufsize clearMemory) (\<lambda>s.
       marshalOctet (ms_ops le heap) s (if le then 1 else 0))"

definition cdrEncapsulationStream_read ::
    "bool \<Rightarrow> (nat \<Rightarrow> nat) \<Rightarrow> nat \<Rightarrow> nat \<Rightarrow> 8 word list \<Rightarrow> bool \<Rightarrow> cdrMemoryStream result" where
  "cdrEncapsulationStream_read le heap inl databuffer data useAlign4 =
     (let s = cdrMemoryStream_external databuffer data in
      if length data < 1 then Inl (Throw BAD_PARAM BAD_PARAM_InvalidInitialSize)
      else
        let initialAlign = (if useAlign4 then 4 else 8) in
        ebind (if databuffer \<noteq> align_to databuffer initialAlign then
                 ms_put_octet_array heap
                   (rewindPtrs (s\<lparr>pd_readonly := False, pd_clear_memory := False, pd_bufp := inl,
                      pd_bufp_8 := ensure_align_8 inl,
                      ms_mem := fresh False (inl + 32 - ensure_align_8 inl),
                      pd_outb_end := inl + 32\<rparr>)) data 1
               else Inr s) (\<lambda>s.
        ebind (unmarshalBoolean (ms_ops le heap) s) (\<lambda>(endian, s).
          Inr (setByteSwapFlag le s endian))))"

section \<open>The counting stream\<close>

definition cs_put_octet_array :: "nat \<Rightarrow> 8 word list \<Rightarrow> nat \<Rightarrow> nat result" where
  "cs_put_octet_array pd_total b align = Inr (align_to pd_total align + length b)"

text \<open>Its buffer pointers are null, so an inline store asks for space, which counts and answers no.\<close>

definition cs_put_prim :: "nat \<Rightarrow> 8 word list \<Rightarrow> nat result" where
  "cs_put_prim pd_total bs = Inr (align_to pd_total (length bs) + length bs)"

definition cs_ops :: "bool \<Rightarrow> nat cdrOps" where
  "cs_ops le =
     \<lparr>put_octet_array = cs_put_octet_array, get_octet_array = (\<lambda>_ _ _. Inl Undefined),
      put_prim = cs_put_prim, get_prim = (\<lambda>_ _. Inl Undefined),
      marshal_byte_swap = (\<lambda>_. False), unmarshal_byte_swap = (\<lambda>_. False), host_le = le\<rparr>"

end
