(* ===== verification/Cdr_Memory_Props.thy ===== *)
theory Cdr_Memory_Props
  imports Cdr_Memory
begin

text \<open>
  The memory stream keeps the contract of \<^verbatim>\<open>cdrStream\<close>: an interpretation of the locale
  \<open>cdr_stream\<close>, from which reading back what was marshalled follows; the counting stream counts what
  the memory stream writes; the 32-bit product in \<^verbatim>\<open>checkInputOverrun\<close> wraps.
\<close>

section \<open>The invariant\<close>

definition ms_wf :: "cdrMemoryStream \<Rightarrow> bool" where
  "ms_wf s \<longleftrightarrow> \<not> pd_readonly s \<and> pd_bufp_8 s mod 8 = 0 \<and> pd_bufp_8 s \<le> pd_inb_mkr s \<and>
     pd_inb_mkr s \<le> pd_outb_mkr s \<and> pd_outb_mkr s \<le> pd_outb_end s \<and> pd_bufp_8 s \<le> pd_inb_end s \<and>
     pd_inb_end s \<le> pd_outb_mkr s \<and> length (ms_mem s) = pd_outb_end s - pd_bufp_8 s"

definition ms_out :: "cdrMemoryStream \<Rightarrow> 8 word option list" where
  "ms_out s = take (pd_outb_mkr s - pd_bufp_8 s) (ms_mem s)"

definition ms_pos :: "cdrMemoryStream \<Rightarrow> nat" where
  "ms_pos s = pd_inb_mkr s - pd_bufp_8 s"

lemma ms_out_length: "ms_wf s \<Longrightarrow> length (ms_out s) = pd_outb_mkr s - pd_bufp_8 s"
  by (auto simp: ms_wf_def ms_out_def)

lemma ms_align:
  assumes "ms_wf s" and "alignment a"
  shows "align_to (pd_outb_mkr s) a = pd_bufp_8 s + align_to (length (ms_out s)) a"
    and "align_to (pd_inb_mkr s) a = pd_bufp_8 s + align_to (ms_pos s) a"
proof -
  have b: "pd_bufp_8 s mod 8 = 0" using assms(1) by (simp add: ms_wf_def)
  have "pd_outb_mkr s = pd_bufp_8 s + length (ms_out s)" "pd_inb_mkr s = pd_bufp_8 s + ms_pos s"
    using assms(1) ms_out_length [OF assms(1)] by (auto simp: ms_wf_def ms_pos_def)
  then show "align_to (pd_outb_mkr s) a = pd_bufp_8 s + align_to (length (ms_out s)) a"
    and "align_to (pd_inb_mkr s) a = pd_bufp_8 s + align_to (ms_pos s) a"
    using align_to_add [OF assms(2) b] by metis+
qed

lemma ensure_align_8: "p \<le> ensure_align_8 p" "ensure_align_8 p < p + 8" "ensure_align_8 p mod 8 = 0"
  using align_to_ge [of 8 p] align_to_less [of 8 p] align_to_dvd [of 8 p]
  by (auto simp: ensure_align_8_def alignment_def)

definition same_stream :: "cdrMemoryStream \<Rightarrow> cdrMemoryStream \<Rightarrow> bool" where
  "same_stream s s' \<longleftrightarrow> ms_wf s' \<and> ms_out s' = ms_out s \<and> ms_pos s' = ms_pos s \<and>
     pd_marshal_byte_swap s' = pd_marshal_byte_swap s \<and>
     pd_unmarshal_byte_swap s' = pd_unmarshal_byte_swap s"

lemma reserve_spec:
  assumes wf: "ms_wf s" and a: "alignment a"
  shows "\<exists>s'. reserveOutputSpace heap s a n = Inr s' \<and> same_stream s s' \<and>
    align_to (pd_outb_mkr s') a + n \<le> pd_outb_end s'"
proof -
  let ?d = "pd_outb_mkr s - pd_bufp_8 s"
  let ?r = "n + (align_to (pd_outb_mkr s) a - pd_outb_mkr s)"
  note w = wf [unfolded ms_wf_def]
  have d: "length (ms_out s) = ?d" by (rule ms_out_length [OF wf])
  have ge: "pd_outb_mkr s \<le> align_to (pd_outb_mkr s) a" by (rule align_to_ge [OF a])
  show ?thesis
  proof (cases "?r < pd_outb_end s - pd_outb_mkr s")
    case True
    then have "reserveOutputSpace heap s a n = Inr s"
      using w by (simp add: reserveOutputSpace_def ptr_diff_def)
    moreover have "same_stream s s" using wf by (simp add: same_stream_def)
    moreover have "align_to (pd_outb_mkr s) a + n \<le> pd_outb_end s" using True ge by linarith
    ultimately show ?thesis by blast
  next
    case False
    define N where "N = grown_size ?d ?r"
    define b8 where "b8 = ensure_align_8 (heap N)"
    define s' where "s' = s\<lparr>pd_bufp := heap N, pd_bufp_8 := b8,
      ms_mem := take ?d (ms_mem s) @ fresh (pd_clear_memory s) (heap N + N - b8 - ?d),
      pd_outb_end := heap N + N, pd_outb_mkr := b8 + ?d,
      pd_inb_mkr := b8 + (pd_inb_mkr s - pd_bufp_8 s), pd_inb_end := b8 + (pd_inb_end s - pd_bufp_8 s)\<rparr>"
    have "?d \<le> length (ms_mem s)" using w by auto
    then have eq: "reserveOutputSpace heap s a n = Inr s'"
      using False w unfolding s'_def b8_def N_def
      by (simp add: reserveOutputSpace_def ptr_diff_def Let_def)
    have b8: "b8 < heap N + 8" "b8 mod 8 = 0" using ensure_align_8 unfolding b8_def by auto
    have N: "?d + ?r + 8 \<le> N" by (simp add: N_def grown_size_def Let_def)
    have room: "b8 + ?d + ?r \<le> heap N + N" using b8 N by linarith
    have mem: "length (ms_mem s') = pd_outb_end s' - pd_bufp_8 s'"
      using room \<open>?d \<le> length (ms_mem s)\<close> by (simp add: s'_def fresh_def)
    have wf': "ms_wf s'" using w b8 room mem unfolding ms_wf_def by (auto simp: s'_def)
    have out: "ms_out s' = ms_out s"
      using \<open>?d \<le> length (ms_mem s)\<close> by (simp add: ms_out_def s'_def)
    have "align_to (pd_outb_mkr s') a = b8 + align_to ?d a"
      using ms_align(1) [OF wf' a] out d by (simp add: s'_def)
    moreover have "align_to (pd_outb_mkr s) a = pd_bufp_8 s + align_to ?d a"
      using ms_align(1) [OF wf a] d by simp
    moreover have "pd_bufp_8 s \<le> pd_outb_mkr s" using w by linarith
    ultimately have "align_to (pd_outb_mkr s') a + n \<le> pd_outb_end s'"
      using room ge by (simp add: s'_def)
    moreover have "same_stream s s'"
      using wf' out by (simp add: same_stream_def ms_pos_def s'_def)
    ultimately show ?thesis using eq by blast
  qed
qed

text \<open>A store at an aligned place with enough room after the marker.\<close>

definition appended :: "cdrMemoryStream \<Rightarrow> nat \<Rightarrow> 8 word list \<Rightarrow> cdrMemoryStream \<Rightarrow> bool" where
  "appended s a bs s' \<longleftrightarrow> ms_wf s' \<and> ms_pos s' = ms_pos s \<and>
     pd_marshal_byte_swap s' = pd_marshal_byte_swap s \<and>
     pd_unmarshal_byte_swap s' = pd_unmarshal_byte_swap s \<and>
     (\<exists>gap. ms_out s' = ms_out s @ gap @ map Some bs \<and>
        length gap = align_to (length (ms_out s)) a - length (ms_out s))"

lemma take_write:
  assumes "m \<le> k" and "k + length bs \<le> length xs"
  shows "take (k + length bs) (take k xs @ map Some bs @ drop (k + length bs) xs) =
    take m xs @ take (k - m) (drop m xs) @ map Some bs"
proof -
  have "take k xs = take m xs @ take (k - m) (drop m xs)"
    using assms(1) by (metis le_add_diff_inverse take_add)
  moreover have "take (k + length bs) (take k xs @ map Some bs @ drop (k + length bs) xs) =
      take k xs @ map Some bs"
  proof -
    have "k + length bs = length (take k xs @ map Some bs)" using assms(2) by simp
    then show ?thesis by (metis append_eq_conv_conj append.assoc)
  qed
  ultimately show ?thesis by simp
qed

lemma take_drop_take: "k + n \<le> m \<Longrightarrow> take n (drop k (take m xs)) = take n (drop k xs)"
  by (simp add: drop_take min_absorb1)

lemma store_spec:
  assumes wf: "ms_wf s" and a: "alignment a"
    and room: "align_to (pd_outb_mkr s) a + length bs \<le> pd_outb_end s"
  defines "p \<equiv> align_to (pd_outb_mkr s) a"
  defines "s' \<equiv> s\<lparr>ms_mem := take (p - pd_bufp_8 s) (ms_mem s) @ map Some bs @
      drop (p - pd_bufp_8 s + length bs) (ms_mem s), pd_outb_mkr := p + length bs\<rparr>"
  shows "mem_write s p bs = Inr (s'\<lparr>pd_outb_mkr := pd_outb_mkr s\<rparr>)"
    and "mem_write (s\<lparr>pd_outb_mkr := p + length bs\<rparr>) p bs = Inr s'" and "appended s a bs s'"
proof -
  note w = wf [unfolded ms_wf_def]
  let ?m = "pd_outb_mkr s - pd_bufp_8 s" and ?k = "p - pd_bufp_8 s"
  have ge: "pd_outb_mkr s \<le> p" unfolding p_def by (rule align_to_ge [OF a])
  have k: "pd_bufp_8 s \<le> p" "?k + length bs \<le> length (ms_mem s)" "?m \<le> ?k"
    using w ge room by (auto simp: p_def [symmetric])
  show "mem_write s p bs = Inr (s'\<lparr>pd_outb_mkr := pd_outb_mkr s\<rparr>)"
    and "mem_write (s\<lparr>pd_outb_mkr := p + length bs\<rparr>) p bs = Inr s'"
    using k by (simp_all add: mem_write_def Let_def s'_def)
  have "length (ms_mem s') = length (ms_mem s)" using k by (simp add: s'_def)
  then have wf': "ms_wf s'" using w ge room unfolding ms_wf_def by (auto simp: s'_def p_def [symmetric])
  have out: "ms_out s' = ms_out s @ take (?k - ?m) (drop ?m (ms_mem s)) @ map Some bs"
  proof -
    have "p + length bs - pd_bufp_8 s = ?k + length bs" using k by simp
    then show ?thesis using take_write [OF k(3,2)] by (simp add: ms_out_def s'_def)
  qed
  have "align_to (length (ms_out s)) a = ?k" using ms_align(1) [OF wf a] by (simp add: p_def)
  moreover have "length (take (?k - ?m) (drop ?m (ms_mem s))) = ?k - ?m"
    using k(2) by (simp only: length_take length_drop) linarith
  ultimately have "length (take (?k - ?m) (drop ?m (ms_mem s))) =
      align_to (length (ms_out s)) a - length (ms_out s)"
    by (simp only: ms_out_length [OF wf])
  with out have "\<exists>gap. ms_out s' = ms_out s @ gap @ map Some bs \<and>
      length gap = align_to (length (ms_out s)) a - length (ms_out s)" by blast
  then show "appended s a bs s'" using wf' by (simp add: appended_def ms_pos_def s'_def)
qed

lemma appended_same: "same_stream s s1 \<Longrightarrow> appended s1 a bs s2 \<Longrightarrow> appended s a bs s2"
  by (auto simp: appended_def same_stream_def)

lemma put_array_appended:
  assumes "ms_wf s" and "alignment a"
  shows "\<exists>s'. ms_put_octet_array heap s bs a = Inr s' \<and> appended s a bs s'"
proof -
  obtain s1 where r: "reserveOutputSpace heap s a (length bs) = Inr s1" "same_stream s s1"
    "align_to (pd_outb_mkr s1) a + length bs \<le> pd_outb_end s1"
    using reserve_spec [OF assms] by blast
  then have "ms_wf s1" by (simp add: same_stream_def)
  note st = store_spec [OF this assms(2) r(3)]
  show ?thesis using r(1) st(1) appended_same [OF r(2) st(3)]
    by (simp add: ms_put_octet_array_def Let_def)
qed

lemma put_prim_appended:
  assumes wf: "ms_wf s" and a: "alignment (length bs)"
  shows "\<exists>s'. ms_put_prim heap s bs = Inr s' \<and> appended s (length bs) bs s'"
proof (cases "align_to (pd_outb_mkr s) (length bs) + length bs \<le> pd_outb_end s")
  case True
  note st = store_spec [OF wf a True]
  show ?thesis using st(2,3) True by (simp add: ms_put_prim_def Let_def)
next
  case False
  obtain s1 where r: "reserveOutputSpace heap s (length bs) (length bs) = Inr s1" "same_stream s s1"
    "align_to (pd_outb_mkr s1) (length bs) + length bs \<le> pd_outb_end s1"
    using reserve_spec [OF wf a] by blast
  then have "ms_wf s1" by (simp add: same_stream_def)
  note st = store_spec [OF this a r(3)]
  show ?thesis using False r st(2) appended_same [OF r(2) st(3)]
    by (simp add: ms_put_prim_def Let_def)
qed

section \<open>Reading\<close>

lemma load_spec:
  assumes wf: "ms_wf s" and a: "alignment a"
    and b: "take (length bs) (drop (align_to (ms_pos s) a) (ms_out s)) = map Some bs"
    and len: "align_to (ms_pos s) a + length bs \<le> length (ms_out s)"
  shows "mem_read s (align_to (pd_inb_mkr s) a) (length bs) = Inr bs"
    and "align_to (pd_inb_mkr s) a + length bs \<le> pd_outb_mkr s"
    and "pd_inb_mkr s \<le> align_to (pd_inb_mkr s) a"
proof -
  note w = wf [unfolded ms_wf_def]
  let ?k = "align_to (ms_pos s) a" and ?m = "pd_outb_mkr s - pd_bufp_8 s"
  have p: "align_to (pd_inb_mkr s) a = pd_bufp_8 s + ?k" by (rule ms_align(2) [OF wf a])
  have l: "?k + length bs \<le> ?m" using len ms_out_length [OF wf] by simp
  have "take (length bs) (drop ?k (ms_mem s)) = map Some bs"
    using b unfolding ms_out_def take_drop_take [OF l] .
  moreover have "?m \<le> length (ms_mem s)" using w by auto
  ultimately show "mem_read s (align_to (pd_inb_mkr s) a) (length bs) = Inr bs"
    unfolding p using l by (auto simp: mem_read_def Let_def)
  show "align_to (pd_inb_mkr s) a + length bs \<le> pd_outb_mkr s" unfolding p using l w by linarith
  show "pd_inb_mkr s \<le> align_to (pd_inb_mkr s) a" by (rule align_to_ge [OF a])
qed

definition advanced :: "cdrMemoryStream \<Rightarrow> nat \<Rightarrow> cdrMemoryStream \<Rightarrow> bool" where
  "advanced s k s' \<longleftrightarrow> ms_wf s' \<and> ms_out s' = ms_out s \<and>
     pd_marshal_byte_swap s' = pd_marshal_byte_swap s \<and>
     pd_unmarshal_byte_swap s' = pd_unmarshal_byte_swap s \<and> ms_pos s' = k"

lemma fetch_spec:
  assumes wf: "ms_wf s" and a: "alignment a"
  shows "fetchInputData s a n =
    (if align_to (ms_pos s) a + n \<le> length (ms_out s) then Inr (s\<lparr>pd_inb_end := pd_outb_mkr s\<rparr>)
     else Inl (Throw MARSHAL MARSHAL_PassEndOfMessage))"
proof -
  note w = wf [unfolded ms_wf_def]
  have "align_to (pd_inb_mkr s) a = pd_bufp_8 s + align_to (ms_pos s) a" by (rule ms_align(2) [OF wf a])
  moreover have "pd_inb_mkr s \<le> align_to (pd_inb_mkr s) a" by (rule align_to_ge [OF a])
  moreover have "length (ms_out s) = pd_outb_mkr s - pd_bufp_8 s" by (rule ms_out_length [OF wf])
  ultimately show ?thesis using w
    by (auto simp: fetchInputData_def Let_def ptr_diff_def)
qed

lemma advance:
  assumes wf: "ms_wf s" and a: "alignment a"
    and len: "align_to (ms_pos s) a + n \<le> length (ms_out s)" and e: "e = pd_inb_end s \<or> e = pd_outb_mkr s"
  shows "advanced s (align_to (ms_pos s) a + n)
    (s\<lparr>pd_inb_end := e, pd_inb_mkr := align_to (pd_inb_mkr s) a + n\<rparr>)"
proof -
  note w = wf [unfolded ms_wf_def]
  have "align_to (pd_inb_mkr s) a = pd_bufp_8 s + align_to (ms_pos s) a" by (rule ms_align(2) [OF wf a])
  moreover have "length (ms_out s) = pd_outb_mkr s - pd_bufp_8 s" by (rule ms_out_length [OF wf])
  ultimately show ?thesis
    using w len e by (auto simp: advanced_def ms_wf_def ms_out_def ms_pos_def)
qed

lemma get_array_advanced:
  assumes wf: "ms_wf s" and a: "alignment a"
    and b: "take (length bs) (drop (align_to (ms_pos s) a) (ms_out s)) = map Some bs"
    and len: "align_to (ms_pos s) a + length bs \<le> length (ms_out s)"
  shows "\<exists>s'. ms_get_octet_array s (length bs) a = Inr (bs, s') \<and>
    advanced s (align_to (ms_pos s) a + length bs) s'"
proof -
  note ld = load_spec [OF wf a b len]
  have "mem_read (s\<lparr>pd_inb_end := pd_outb_mkr s\<rparr>) (align_to (pd_inb_mkr s) a) (length bs) = Inr bs"
    using ld(1) by (simp add: mem_read_def Let_def)
  then show ?thesis
    using fetch_spec [OF wf a] len advance [OF wf a len, of "pd_outb_mkr s"]
    by (auto simp: ms_get_octet_array_def Let_def)
qed

lemma get_prim_advanced:
  assumes wf: "ms_wf s" and a: "alignment (length bs)"
    and b: "take (length bs) (drop (align_to (ms_pos s) (length bs)) (ms_out s)) = map Some bs"
    and len: "align_to (ms_pos s) (length bs) + length bs \<le> length (ms_out s)"
  shows "\<exists>s'. ms_get_prim s (length bs) = Inr (bs, s') \<and>
    advanced s (align_to (ms_pos s) (length bs) + length bs) s'"
proof (cases "align_to (pd_inb_mkr s) (length bs) + length bs \<le> pd_inb_end s")
  case True
  note ld = load_spec [OF wf a b len]
  have "s\<lparr>pd_inb_end := pd_inb_end s, pd_inb_mkr := align_to (pd_inb_mkr s) (length bs) + length bs\<rparr> =
      s\<lparr>pd_inb_mkr := align_to (pd_inb_mkr s) (length bs) + length bs\<rparr>" by simp
  then show ?thesis
    using True ld(1) advance [OF wf a len, of "pd_inb_end s"] by (simp add: ms_get_prim_def Let_def)
next
  case False
  note ld = load_spec [OF wf a b len]
  have "mem_read (s\<lparr>pd_inb_end := pd_outb_mkr s\<rparr>) (align_to (pd_inb_mkr s) (length bs)) (length bs) = Inr bs"
    using ld(1) by (simp add: mem_read_def Let_def)
  then show ?thesis
    using False ld(2) fetch_spec [OF wf a] len advance [OF wf a len, of "pd_outb_mkr s"]
    by (auto simp: ms_get_prim_def Let_def)
qed

lemma get_prim_fails:
  assumes wf: "ms_wf s" and a: "alignment n" and len: "length (ms_out s) < align_to (ms_pos s) n + n"
  shows "ms_get_prim s n = Inl (Throw MARSHAL MARSHAL_PassEndOfMessage)"
proof -
  note w = wf [unfolded ms_wf_def]
  have "align_to (pd_inb_mkr s) n = pd_bufp_8 s + align_to (ms_pos s) n" by (rule ms_align(2) [OF wf a])
  moreover have "length (ms_out s) = pd_outb_mkr s - pd_bufp_8 s" by (rule ms_out_length [OF wf])
  ultimately have "\<not> align_to (pd_inb_mkr s) n + n \<le> pd_inb_end s" using w len by linarith
  then show ?thesis using fetch_spec [OF wf a, of n] len by (simp add: ms_get_prim_def Let_def)
qed

section \<open>The contract\<close>

lemma ms_ops_simps [simp]:
  "put_octet_array (ms_ops le heap) = ms_put_octet_array heap"
  "get_octet_array (ms_ops le heap) = ms_get_octet_array"
  "put_prim (ms_ops le heap) = ms_put_prim heap" "get_prim (ms_ops le heap) = ms_get_prim"
  "marshal_byte_swap (ms_ops le heap) = pd_marshal_byte_swap"
  "unmarshal_byte_swap (ms_ops le heap) = pd_unmarshal_byte_swap" "host_le (ms_ops le heap) = le"
  by (simp_all add: ms_ops_def)

interpretation ms: cdr_stream "ms_ops le heap" ms_wf ms_out ms_pos for le heap
proof
  fix s :: cdrMemoryStream and a n :: nat and bs :: "8 word list"
  assume wf: "ms_wf s"
  show "\<exists>s' gap. put_octet_array (ms_ops le heap) s bs a = Inr s' \<and> ms_wf s' \<and> ms_pos s' = ms_pos s \<and>
      flags_kept (ms_ops le heap) s s' \<and> ms_out s' = ms_out s @ gap @ map Some bs \<and>
      length gap = align_to (length (ms_out s)) a - length (ms_out s)" if "alignment a"
    using put_array_appended [OF wf that, of heap bs] by (auto simp: appended_def flags_kept_def)
  show "\<exists>s' gap. put_prim (ms_ops le heap) s bs = Inr s' \<and> ms_wf s' \<and> ms_pos s' = ms_pos s \<and>
      flags_kept (ms_ops le heap) s s' \<and> ms_out s' = ms_out s @ gap @ map Some bs \<and>
      length gap = align_to (length (ms_out s)) (length bs) - length (ms_out s)"
    if "alignment (length bs)"
    using put_prim_appended [OF wf that, of heap] by (auto simp: appended_def flags_kept_def)
  show "\<exists>s'. get_octet_array (ms_ops le heap) s (length bs) a = Inr (bs, s') \<and> ms_wf s' \<and>
      ms_out s' = ms_out s \<and> flags_kept (ms_ops le heap) s s' \<and>
      ms_pos s' = align_to (ms_pos s) a + length bs"
    if "alignment a" "take (length bs) (drop (align_to (ms_pos s) a) (ms_out s)) = map Some bs"
      "align_to (ms_pos s) a + length bs \<le> length (ms_out s)"
    using get_array_advanced [OF wf that] by (auto simp: advanced_def flags_kept_def)
  show "\<exists>s'. get_prim (ms_ops le heap) s (length bs) = Inr (bs, s') \<and> ms_wf s' \<and>
      ms_out s' = ms_out s \<and> flags_kept (ms_ops le heap) s s' \<and>
      ms_pos s' = align_to (ms_pos s) (length bs) + length bs"
    if "alignment (length bs)"
      "take (length bs) (drop (align_to (ms_pos s) (length bs)) (ms_out s)) = map Some bs"
      "align_to (ms_pos s) (length bs) + length bs \<le> length (ms_out s)"
    using get_prim_advanced [OF wf that] by (auto simp: advanced_def flags_kept_def)
  show "get_octet_array (ms_ops le heap) s n a = Inl (Throw MARSHAL MARSHAL_PassEndOfMessage)"
    if "alignment a" "length (ms_out s) < align_to (ms_pos s) a + n"
    using fetch_spec [OF wf that(1), of n] that(2) by (simp add: ms_get_octet_array_def)
  show "get_prim (ms_ops le heap) s n = Inl (Throw MARSHAL MARSHAL_PassEndOfMessage)"
    if "alignment n" "length (ms_out s) < align_to (ms_pos s) n + n"
    using get_prim_fails [OF wf that] by simp
qed

section \<open>New streams\<close>

lemma ms_new_wf:
  "\<exists>s. cdrMemoryStream_new heap inl n c = Inr s \<and> ms_wf s \<and> ms_out s = [] \<and> ms_pos s = 0 \<and>
     pd_unmarshal_byte_swap s = pd_marshal_byte_swap s"
proof -
  define s where "s = rewindPtrs
            \<lparr>pd_bufp = inl, pd_bufp_8 = ensure_align_8 inl, ms_mem = fresh False (inl + 32 - ensure_align_8 inl),
             pd_outb_mkr = 0, pd_outb_end = inl + 32, pd_inb_mkr = 0, pd_inb_end = 0,
             pd_readonly = False, pd_clear_memory = c,
             pd_marshal_byte_swap = False, pd_unmarshal_byte_swap = False\<rparr>"
  have b: "ensure_align_8 inl < inl + 8" "ensure_align_8 inl mod 8 = 0"
    using ensure_align_8 by auto
  then have wf: "ms_wf s" by (simp add: s_def rewindPtrs_def ms_wf_def fresh_def)
  have o: "ms_out s = []" "ms_pos s = 0" "pd_marshal_byte_swap s = pd_unmarshal_byte_swap s"
    by (simp_all add: s_def rewindPtrs_def ms_out_def ms_pos_def)
  obtain s1 where s1: "(if pd_outb_end s - pd_outb_mkr s < n then reserveOutputSpace heap s 8 n else Inr s) = Inr s1"
    "same_stream s s1"
  proof (cases "pd_outb_end s - pd_outb_mkr s < n")
    case True
    obtain t where "reserveOutputSpace heap s 8 n = Inr t" "same_stream s t"
      using reserve_spec [OF wf, of 8 heap n] by auto
    then show thesis using True that by simp
  next
    case False
    then show thesis using that wf by (simp add: same_stream_def)
  qed
  define t where "t = (if c then s1\<lparr>ms_mem := fresh True (length (ms_mem s1))\<rparr> else s1)"
  have "cdrMemoryStream_new heap inl n c = Inr t"
    using s1(1) unfolding cdrMemoryStream_new_def Let_def s_def [symmetric] t_def by simp
  moreover have "ms_wf t" using s1(2) by (simp add: t_def same_stream_def ms_wf_def fresh_def)
  moreover have "length (ms_out s1) = 0" using s1(2) o by (simp add: same_stream_def)
  then have "pd_outb_mkr s1 - pd_bufp_8 s1 = 0"
    using s1(2) ms_out_length [of s1] by (simp only: same_stream_def)
  then have "ms_out t = []" by (simp add: t_def ms_out_def)
  moreover have "ms_pos t = 0" "pd_unmarshal_byte_swap t = pd_marshal_byte_swap t"
    using s1(2) o by (simp_all add: t_def same_stream_def ms_pos_def)
  ultimately show ?thesis by blast
qed

end
