(* ===== verification/Fixed_Marshal.thy ===== *)
theory Fixed_Marshal
  imports Fixed_Text_Props Cdr_Memory_Props
begin

text \<open>
  Marshalling of \<^verbatim>\<open>CORBA::Fixed\<close> (\<^verbatim>\<open>operator>>=\<close> and \<^verbatim>\<open>operator<<=\<close> in \<^verbatim>\<open>orbcore/corbaFixed.cc\<close>):
  two digits to an octet and a sign half-octet at the end. The buffer of 16 octets starts
  uninitialised (\<open>None\<close>); using an uninitialised octet or one outside the buffer is \<open>Undefined\<close>.
\<close>

section \<open>Writing\<close>

definition buf_get :: "8 word option list \<Rightarrow> int \<Rightarrow> 8 word result" where
  "buf_get buf i =
     (if i < 0 then Inl Undefined
      else ebind (arr_get buf (nat i)) (\<lambda>c. case c of None \<Rightarrow> Inl Undefined | Some b \<Rightarrow> Inr b))"

definition buf_set :: "8 word option list \<Rightarrow> int \<Rightarrow> 8 word \<Rightarrow> 8 word option list result" where
  "buf_set buf i b = (if i < 0 then Inl Undefined else arr_set buf (nat i) (Some b))"

text \<open>The loops that store zero octets.\<close>

function fill_zeros :: "8 word option list \<Rightarrow> int \<Rightarrow> int \<Rightarrow> 8 word option list result" where
  "fill_zeros buf bi bound =
     (if bi < bound then
        (case buf_set buf (bi div 2) 0 of Inl e \<Rightarrow> Inl e | Inr buf \<Rightarrow> fill_zeros buf (bi + 2) bound)
      else Inr buf)"
  by pat_completeness auto
termination
  by (relation "measure (\<lambda>(buf, bi, bound). nat (bound - bi))") auto

declare fill_zeros.simps [simp del]

text \<open>
  The digits from the most significant one; \<open>bi\<close> is the half-octet. (In C++ \<open>-1 / 2\<close> is 0, where
  the octet is uninitialised, so that a negative start is undefined in any case.)
\<close>

fun put_digits :: "8 word option list \<Rightarrow> int \<Rightarrow> nat list \<Rightarrow> (8 word option list \<times> int) result" where
  "put_digits buf bi [] = Inr (buf, bi)"
| "put_digits buf bi (d # ds) =
     ebind (if odd bi then ebind (buf_get buf (bi div 2)) (\<lambda>b. buf_set buf (bi div 2) (b OR of_nat d))
            else buf_set buf (bi div 2) (push_bit 4 (of_nat d)))
       (\<lambda>buf. put_digits buf (bi + 1) ds)"

definition round_up_odd :: "nat \<Rightarrow> nat" where
  "round_up_odd n = (if even n then n + 1 else n)"

definition Fixed_encode :: "fixed \<Rightarrow> 8 word list result" where
  "Fixed_encode f =
     ebind (oassert (pd_idl_digits f \<noteq> 0)) (\<lambda>_.
     ebind (oassert (pd_digits f \<le> pd_idl_digits f)) (\<lambda>_.
     ebind (oassert (pd_scale f \<le> pd_idl_scale f)) (\<lambda>_.
     let digits_to_write = int (round_up_odd (pd_idl_digits f));
         unscale_to_write = digits_to_write - int (pd_idl_scale f);
         unscale = int (pd_digits f) - int (pd_scale f)
     in ebind (fill_zeros (replicate 16 None) 0 (unscale_to_write - unscale)) (\<lambda>buf.
        ebind (put_digits buf (unscale_to_write - unscale) (rev (fdigits f))) (\<lambda>(buf, bi).
        let bi = (if odd bi then bi + 1 else bi) in
        ebind (fill_zeros buf bi digits_to_write) (\<lambda>buf.
        ebind (buf_get buf (digits_to_write div 2)) (\<lambda>b.
        ebind (buf_set buf (digits_to_write div 2) (b OR (if pd_negative f then 0xD else 0xC))) (\<lambda>buf.
        let n = nat (digits_to_write div 2 + 1)
        in if length buf < n \<or> None \<in> set (take n buf) then Inl Undefined
           else Inr (map the (take n buf)))))))))) "

definition Fixed_marshal :: "'s cdrOps \<Rightarrow> fixed \<Rightarrow> 's \<Rightarrow> 's result" where
  "Fixed_marshal ops f s = ebind (Fixed_encode f) (\<lambda>bs. put_octet_array ops s bs 1)"

section \<open>Reading\<close>

definition InvalidFixed :: error where
  "InvalidFixed = Throw MARSHAL MARSHAL_InvalidFixedValue"

definition nibble :: "8 word list \<Rightarrow> int \<Rightarrow> nat result" where
  "nibble buf bi =
     (if bi < 0 then Inl Undefined
      else ebind (arr_get buf (nat (bi div 2))) (\<lambda>b.
             Inr (unat (if odd bi then b AND 0xF else drop_bit 4 b))))"

text \<open>The loop over trailing zeros, at most \<open>n\<close> of them: how many it skips.\<close>

fun skip_zeros :: "8 word list \<Rightarrow> int \<Rightarrow> nat \<Rightarrow> nat result" where
  "skip_zeros buf bi 0 = Inr 0"
| "skip_zeros buf bi (Suc n) =
     ebind (nibble buf bi) (\<lambda>d.
       if d \<noteq> 0 then Inr 0 else ebind (skip_zeros buf (bi - 1) n) (\<lambda>k. Inr (Suc k)))"

fun read_digits :: "8 word list \<Rightarrow> int \<Rightarrow> nat \<Rightarrow> nat list result" where
  "read_digits buf bi 0 = Inr []"
| "read_digits buf bi (Suc n) =
     ebind (nibble buf bi) (\<lambda>d.
       if 9 < d then Inl InvalidFixed
       else ebind (read_digits buf (bi - 1) n) (\<lambda>ds. Inr (d # ds)))"

text \<open>Leading zeros before the decimal point: the number of digits left.\<close>

fun strip_top :: "nat list \<Rightarrow> nat \<Rightarrow> nat \<Rightarrow> nat" where
  "strip_top val scale 0 = 0"
| "strip_top val scale (Suc vi) = (if scale \<le> vi \<and> val ! vi = 0 then strip_top val scale vi else Suc vi)"

definition Fixed_decode :: "fixed \<Rightarrow> 8 word list \<Rightarrow> fixed result" where
  "Fixed_decode this buf =
     (let digits_to_read = round_up_odd (pd_idl_digits this) in
      ebind (nibble buf (int digits_to_read)) (\<lambda>d.
      ebind (if d = 0xC then Inr False else if d = 0xD then Inr True else Inl InvalidFixed) (\<lambda>negative.
      ebind (skip_zeros buf (int digits_to_read - 1) (pd_idl_scale this)) (\<lambda>di.
      let digits = digits_to_read - di; scale = pd_idl_scale this - di in
      ebind (read_digits buf (int digits_to_read - 1 - int di) (digits_to_read - di)) (\<lambda>ds.
      if OMNI_FIXED_DIGITS < length ds then Inl Undefined
      else
      ebind (oassert (length ds = digits)) (\<lambda>_.
      let digits = strip_top ds scale (length ds) in
      if int digits - int scale = int (pd_idl_digits this) - int (pd_idl_scale this) + 1 then Inl InvalidFixed
      else
      ebind (oassert (digits \<le> pd_idl_digits this)) (\<lambda>_.
      ebind (oassert (scale \<le> pd_idl_scale this)) (\<lambda>_.
      ebind (oassert (scale \<le> digits)) (\<lambda>_.
      Inr (this\<lparr>pd_val := pad31 (take digits ds), pd_digits := digits, pd_scale := scale,
                pd_negative := negative\<rparr>)))))))))) "

definition Fixed_unmarshal :: "'s cdrOps \<Rightarrow> fixed \<Rightarrow> 's \<Rightarrow> (fixed \<times> 's) result" where
  "Fixed_unmarshal ops this s =
     ebind (oassert (pd_idl_digits this \<noteq> 0)) (\<lambda>_.
     ebind (get_octet_array ops s (round_up_odd (pd_idl_digits this) div 2 + 1) 1) (\<lambda>(buf, s).
     ebind (Fixed_decode this buf) (\<lambda>f. Inr (f, s))))"

section \<open>Packed half-octets\<close>

fun pack :: "nat list \<Rightarrow> 8 word list" where
  "pack [] = []"
| "pack [x] = [push_bit 4 (of_nat x)]"
| "pack (x # y # zs) = (push_bit 4 (of_nat x) OR of_nat y) # pack zs"

lemma pack_length: "length (pack ns) = (length ns + 1) div 2"
  by (induction ns rule: pack.induct) auto

lemma pack_append: "even (length ns) \<Longrightarrow> pack (ns @ ms) = pack ns @ pack ms"
  by (induction ns rule: pack.induct) auto

lemma pack_odd_zero: "odd (length ns) \<Longrightarrow> pack (ns @ [0]) = pack ns"
  by (induction ns rule: pack.induct) auto

lemma pack_zeros: "pack (replicate (2 * n) 0) = replicate n 0"
  by (induction n) auto

text \<open>\<open>holds buf ns\<close>: the half-octets \<open>ns\<close> have been stored.\<close>

definition holds :: "8 word option list \<Rightarrow> nat list \<Rightarrow> bool" where
  "holds buf ns \<longleftrightarrow> length buf = 16 \<and> take ((length ns + 1) div 2) buf = map Some (pack ns)"

lemma holds_odd_zero: "odd (length ns) \<Longrightarrow> holds buf (ns @ [0]) = holds buf ns"
  by (auto simp: holds_def pack_odd_zero elim!: oddE)

lemma set_next: "i < length xs \<Longrightarrow> take i xs = as \<Longrightarrow> take (Suc i) (xs[i := x]) = as @ [x]"
  by (simp add: take_Suc_conv_app_nth)

lemma store_high:
  assumes "holds buf ns" and "even (length ns)" and "length ns < 32"
  shows "\<exists>buf'. buf_set buf (int (length ns) div 2) (push_bit 4 (of_nat d)) = Inr buf' \<and> holds buf' (ns @ [d])"
proof -
  obtain m where m: "length ns = 2 * m" using assms(2) by (elim evenE)
  have b: "length buf = 16" "take m buf = map Some (pack ns)" using assms(1) m by (auto simp: holds_def)
  have "holds (buf[m := Some (push_bit 4 (of_nat d))]) (ns @ [d])"
    using set_next [of m buf] b m assms(3) by (simp add: holds_def pack_append assms(2))
  then show ?thesis using m b assms(3) by (simp add: buf_set_def)
qed

lemma store_low:
  assumes "holds buf ns" and "odd (length ns)" and "length ns < 32"
  shows "\<exists>b buf'. buf_get buf (int (length ns) div 2) = Inr b \<and>
    buf_set buf (int (length ns) div 2) (b OR of_nat d) = Inr buf' \<and> holds buf' (ns @ [d])"
proof -
  obtain m where m: "length ns = 2 * m + 1" using assms(2) by (elim oddE)
  obtain xs x where ns: "ns = xs @ [x]" "length xs = 2 * m" using m by (cases ns rule: rev_cases) auto
  have b: "length buf = 16" "take (Suc m) buf = map Some (pack xs @ [push_bit 4 (of_nat x)])"
    using assms(1) m ns by (auto simp: holds_def pack_append)
  have len: "m < length buf" using m assms(3) b by simp
  have tm: "take m buf = map Some (pack xs)" "buf ! m = Some (push_bit 4 (of_nat x))"
  proof -
    have "take m buf @ [buf ! m] = map Some (pack xs) @ [Some (push_bit 4 (of_nat x))]"
      using b(2) len by (simp add: take_Suc_conv_app_nth)
    then show "take m buf = map Some (pack xs)" "buf ! m = Some (push_bit 4 (of_nat x))" by simp_all
  qed
  have i: "int (length ns) div 2 = int m" using m by simp
  have "pack (ns @ [d]) = pack xs @ [push_bit 4 (of_nat x) OR of_nat d]"
    using ns by (simp add: pack_append)
  then have "holds (buf[m := Some (push_bit 4 (of_nat x) OR of_nat d)]) (ns @ [d])"
    using set_next [OF len tm(1)] b m by (simp add: holds_def)
  then show ?thesis unfolding i using tm(2) len by (simp add: buf_get_def buf_set_def)
qed

lemma put_digits_spec:
  "holds buf ns \<Longrightarrow> length ns + length ds \<le> 32 \<Longrightarrow>
    \<exists>buf'. put_digits buf (int (length ns)) ds = Inr (buf', int (length ns + length ds)) \<and> holds buf' (ns @ ds)"
proof (induction ds arbitrary: buf ns)
  case Nil
  then show ?case by simp
next
  case (Cons d ds)
  have l: "length ns < 32" using Cons.prems by simp
  obtain buf1 where s: "(if odd (int (length ns)) then ebind (buf_get buf (int (length ns) div 2))
      (\<lambda>b. buf_set buf (int (length ns) div 2) (b OR of_nat d))
      else buf_set buf (int (length ns) div 2) (push_bit 4 (of_nat d))) = Inr buf1" "holds buf1 (ns @ [d])"
    using store_high [OF Cons.prems(1) _ l, of d] store_low [OF Cons.prems(1) _ l, of d]
    by (cases "even (length ns)") auto
  obtain buf2 where "put_digits buf1 (int (length (ns @ [d]))) ds =
      Inr (buf2, int (length (ns @ [d]) + length ds))" "holds buf2 ((ns @ [d]) @ ds)"
    using Cons.IH [OF s(2)] Cons.prems(2) by auto
  then show ?case using s(1) by (simp add: add.commute)
qed

lemma fill_zeros_spec:
  "holds buf ns \<Longrightarrow> even (length ns) \<Longrightarrow> m < 32 \<Longrightarrow>
    \<exists>buf' k. fill_zeros buf (int (length ns)) (int m) = Inr buf' \<and> holds buf' (ns @ replicate k 0) \<and>
      even k \<and> (if length ns < m then m \<le> length ns + k \<and> length ns + k \<le> Suc m else k = 0)"
proof (induction "m - length ns" arbitrary: buf ns rule: less_induct)
  case less
  show ?case
  proof (cases "length ns < m")
    case False
    then have "fill_zeros buf (int (length ns)) (int m) = Inr buf" by (simp add: fill_zeros.simps)
    then show ?thesis using False less.prems by (intro exI [of _ buf] exI [of _ 0]) simp
  next
    case True
    then have l: "length ns < 32" using less.prems by simp
    from store_high [OF less.prems(1,2) l, of 0] obtain buf1
      where b1: "buf_set buf (int (length ns) div 2) 0 = Inr buf1" "holds buf1 (ns @ [0])" by auto
    then have h: "holds buf1 (ns @ [0, 0])"
      using holds_odd_zero [of "ns @ [0]" buf1] less.prems(2) by simp
    obtain buf' k where r: "fill_zeros buf1 (int (length (ns @ [0, 0]))) (int m) = Inr buf'"
      "holds buf' ((ns @ [0, 0]) @ replicate k 0)" "even k"
      "if length (ns @ [0, 0]) < m then m \<le> length (ns @ [0, 0]) + k \<and> length (ns @ [0, 0]) + k \<le> Suc m else k = 0"
      using less.hyps [OF _ h] True less.prems by fastforce
    have "fill_zeros buf (int (length ns)) (int m) = Inr buf'"
      using b1(1) r(1) True by (simp add: fill_zeros.simps [of buf] add.commute)
    moreover have "holds buf' (ns @ replicate (Suc (Suc k)) 0)" using r(2) by simp
    moreover have "if length ns < m then m \<le> length ns + Suc (Suc k) \<and> length ns + Suc (Suc k) \<le> Suc m
        else Suc (Suc k) = 0"
      using r(4) True by (auto split: if_splits)
    ultimately show ?thesis using r(3) by (intro exI [of _ buf'] exI [of _ "Suc (Suc k)"]) simp
  qed
qed

end
