(* ===== verification/Fixed_Wire.thy ===== *)
theory Fixed_Wire
  imports Fixed_Marshal
begin

text \<open>
  Fixed values on the wire: what \<^verbatim>\<open>operator>>=\<close> writes and that \<^verbatim>\<open>operator<<=\<close> reads it back, over
  every stream that keeps the contract \<open>cdr_stream\<close>, and on the memory stream.
\<close>

section \<open>What is written\<close>

text \<open>The half-octets of a value: leading zeros, digits, trailing zeros of the IDL scale, sign.\<close>

definition lead_len :: "fixed \<Rightarrow> nat" where
  "lead_len f = round_up_odd (pd_idl_digits f) - pd_idl_scale f - (pd_digits f - pd_scale f)"

definition wire_digits :: "fixed \<Rightarrow> nat list" where
  "wire_digits f = replicate (lead_len f) 0 @ rev (fdigits f) @ replicate (pd_idl_scale f - pd_scale f) 0"

definition wire_nibbles :: "fixed \<Rightarrow> nat list" where
  "wire_nibbles f = wire_digits f @ [if pd_negative f then 13 else 12]"

definition wire_ok :: "fixed \<Rightarrow> bool" where
  "wire_ok f \<longleftrightarrow> fixed_wf f \<and> limits_ok f \<and> within_limits f \<and> pd_idl_digits f \<noteq> 0"

lemma round_up_odd: "n \<le> round_up_odd n" "round_up_odd n \<le> Suc n" "odd (round_up_odd n)"
  "n \<le> 31 \<Longrightarrow> round_up_odd n \<le> 31"
  by (auto simp: round_up_odd_def elim: evenE) presburger?

lemma wire_ok_bounds:
  assumes "wire_ok f"
  shows "pd_digits f \<le> pd_idl_digits f" "pd_scale f \<le> pd_idl_scale f" "pd_idl_scale f \<le> pd_idl_digits f"
    "pd_idl_digits f \<le> 31" "pd_digits f - pd_scale f \<le> pd_idl_digits f - pd_idl_scale f"
    "pd_scale f \<le> pd_digits f"
  using assms fixed_wf_bounds [of f] by (auto simp: wire_ok_def limits_ok_def within_limits_def)

lemma wire_digits_length:
  assumes "wire_ok f"
  shows "length (wire_digits f) = round_up_odd (pd_idl_digits f)"
  using wire_ok_bounds [OF assms] round_up_odd(1) [of "pd_idl_digits f"] assms
  by (auto simp: wire_digits_def lead_len_def wire_ok_def)

lemma holds_start: "holds (replicate 16 None) []"
  by (simp add: holds_def)

lemma holds_zero_prefix:
  "holds buf (replicate k 0) \<Longrightarrow> j = k \<or> odd j \<and> k = Suc j \<Longrightarrow> holds buf (replicate j 0)"
  using holds_odd_zero [of "replicate j 0" buf] by (auto simp: replicate_append_same)

lemma Fixed_encode_spec:
  assumes ok: "wire_ok f"
  shows "Fixed_encode f = Inr (pack (wire_nibbles f))"
proof -
  note b = wire_ok_bounds [OF ok]
  let ?n = "round_up_odd (pd_idl_digits f)" and ?k = "lead_len f"
  let ?sign = "if pd_negative f then 13 else 12 :: nat"
  have n: "?n \<le> 31" "odd ?n" "pd_idl_digits f \<le> ?n" using round_up_odd b(4) by auto
  have lenf: "length (fdigits f) = pd_digits f" using ok by (simp add: wire_ok_def)
  have k: "int ?n - int (pd_idl_scale f) - (int (pd_digits f) - int (pd_scale f)) = int ?k"
    using b n by (simp add: lead_len_def)
  have kn: "?k + pd_digits f + (pd_idl_scale f - pd_scale f) = ?n"
    using b n by (simp add: lead_len_def)
  have "\<exists>buf1 j. fill_zeros (replicate 16 None) 0 (int ?k) = Inr buf1 \<and> holds buf1 (replicate j 0) \<and>
      even j \<and> (if 0 < ?k then ?k \<le> j \<and> j \<le> Suc ?k else j = 0)"
  proof -
    have "even (length ([] :: nat list))" "?k < 32" using kn n by simp_all
    from fill_zeros_spec [OF holds_start this] show ?thesis
      by (simp only: list.size(3) int_ops(1) add_0 append_Nil)
  qed
  then obtain buf1 j where f1: "fill_zeros (replicate 16 None) 0 (int ?k) = Inr buf1"
    "holds buf1 (replicate j 0)" "even j"
    "if 0 < ?k then ?k \<le> j \<and> j \<le> Suc ?k else j = 0"
    by blast
  have h1: "holds buf1 (replicate ?k 0)"
    by (rule holds_zero_prefix [OF f1(2)]) (use f1(3,4) in \<open>auto split: if_splits simp: le_Suc_eq\<close>)
  obtain buf2 where p: "put_digits buf1 (int ?k) (rev (fdigits f)) = Inr (buf2, int (?k + pd_digits f))"
    "holds buf2 (replicate ?k 0 @ rev (fdigits f))"
    using put_digits_spec [OF h1, of "rev (fdigits f)"] lenf kn n by auto
  define xs where "xs = replicate ?k 0 @ rev (fdigits f)"
  define ys where "ys = (if odd (length xs) then xs @ [0] else xs)"
  have xl: "length xs = ?k + pd_digits f" by (simp add: xs_def lenf)
  have h2: "holds buf2 ys" "even (length ys)"
    using p(2) holds_odd_zero [of xs buf2] by (auto simp: ys_def xs_def [symmetric])
  have bi: "(if odd (int (?k + pd_digits f)) then int (?k + pd_digits f) + 1 else int (?k + pd_digits f)) =
      int (length ys)" by (simp add: ys_def xl)
  obtain buf3 m where f3: "fill_zeros buf2 (int (length ys)) (int ?n) = Inr buf3"
    "holds buf3 (ys @ replicate m 0)" "even m"
    "if length ys < ?n then ?n \<le> length ys + m \<and> length ys + m \<le> Suc ?n else m = 0"
    using fill_zeros_spec [OF h2, of ?n] n by auto
  have "length ys + m = Suc ?n"
  proof -
    have "even (length ys + m)" using h2 f3(3) by simp
    moreover have "length ys \<le> Suc ?n" using xl kn by (simp add: ys_def)
    ultimately show ?thesis using f3(4) n(2) by (auto split: if_splits simp: le_Suc_eq)
  qed
  then have "ys @ replicate m 0 = wire_digits f @ [0]"
  proof -
    assume l: "length ys + m = Suc ?n"
    have "xs @ replicate (Suc ?n - length xs) 0 = wire_digits f @ [0]"
    proof -
      have "Suc ?n - length xs = Suc (pd_idl_scale f - pd_scale f)" using xl kn by simp
      then show ?thesis by (simp add: xs_def wire_digits_def replicate_append_same)
    qed
    moreover have "ys @ replicate m 0 = xs @ replicate (Suc ?n - length xs) 0"
    proof (cases "odd (length xs)")
      case True
      then have "Suc ?n - length xs = Suc m" using l by (simp add: ys_def)
      then show ?thesis using True by (simp add: ys_def)
    next
      case False
      then have "Suc ?n - length xs = m" using l by (simp add: ys_def)
      then show ?thesis using False by (simp add: ys_def)
    qed
    ultimately show ?thesis by simp
  qed
  with f3(2) have "holds buf3 (wire_digits f @ [0])" by simp
  moreover have wl: "length (wire_digits f) = ?n" by (rule wire_digits_length [OF ok])
  ultimately have h4: "holds buf3 (wire_digits f)" using holds_odd_zero [of "wire_digits f" buf3] n by simp
  obtain bt buf5 where s: "buf_get buf3 (int ?n div 2) = Inr bt"
    "buf_set buf3 (int ?n div 2) (bt OR of_nat ?sign) = Inr buf5" "holds buf5 (wire_nibbles f)"
    using store_low [OF h4, of ?sign] wl n by (auto simp: wire_nibbles_def)
  have nn: "nat (int ?n div 2 + 1) = Suc (?n div 2)" by (simp add: nat_div_distrib Suc_nat_eq_nat_zadd1)
  have "length (pack (wire_nibbles f)) = Suc (?n div 2)"
    using wl n(2) by (simp add: pack_length wire_nibbles_def)
  then have h5: "take (nat (int ?n div 2 + 1)) buf5 = map Some (pack (wire_nibbles f))"
    and l5: "nat (int ?n div 2 + 1) \<le> length buf5"
    using s(3) n(1) unfolding nn by (simp_all add: holds_def pack_length)
  have sg: "(of_nat ?sign :: 8 word) = (if pd_negative f then 0xD else 0xC)" by simp
  have "Fixed_encode f =
      (let n = nat (int ?n div 2 + 1) in
       if length buf5 < n \<or> None \<in> set (take n buf5) then Inl Undefined else Inr (map the (take n buf5)))"
    unfolding Fixed_encode_def Let_def k
    using b ok f1(1) p(1) f3(1) s(1) s(2) [unfolded sg] unfolding bi [symmetric]
    by (simp add: wire_ok_def del: of_nat_add)
  then show ?thesis using h5 l5 by (auto simp: Let_def comp_def)
qed


section \<open>What is read\<close>

lemma nibble_word:
  fixes x y :: nat
  assumes "x < 16" and "y < 16"
  shows "unat (drop_bit 4 (push_bit 4 (of_nat x) OR of_nat y :: 8 word)) = x"
    and "unat ((push_bit 4 (of_nat x) OR of_nat y :: 8 word) AND 0xF) = y"
    and "unat (drop_bit 4 (push_bit 4 (of_nat x) :: 8 word)) = x"
proof -
  have x: "x = 0 \<or> x = 1 \<or> x = 2 \<or> x = 3 \<or> x = 4 \<or> x = 5 \<or> x = 6 \<or> x = 7 \<or> x = 8 \<or> x = 9 \<or>
      x = 10 \<or> x = 11 \<or> x = 12 \<or> x = 13 \<or> x = 14 \<or> x = 15"
    and y: "y = 0 \<or> y = 1 \<or> y = 2 \<or> y = 3 \<or> y = 4 \<or> y = 5 \<or> y = 6 \<or> y = 7 \<or> y = 8 \<or> y = 9 \<or>
      y = 10 \<or> y = 11 \<or> y = 12 \<or> y = 13 \<or> y = 14 \<or> y = 15" using assms by presburger+
  have h: "drop_bit 4 (push_bit 4 (of_nat x) OR of_nat y :: 8 word) = of_nat x"
    "(push_bit 4 (of_nat x) OR of_nat y :: 8 word) AND 0xF = of_nat y"
    "drop_bit 4 (push_bit 4 (of_nat x) :: 8 word) = of_nat x"
    using x y by (elim disjE; simp)+
  show "unat (drop_bit 4 (push_bit 4 (of_nat x) OR of_nat y :: 8 word)) = x"
    "unat ((push_bit 4 (of_nat x) OR of_nat y :: 8 word) AND 0xF) = y"
    "unat (drop_bit 4 (push_bit 4 (of_nat x) :: 8 word)) = x"
    unfolding h using assms by (simp_all add: unat_of_nat)
qed


lemma pack_nibble:
  "i < length ns \<Longrightarrow> \<forall>n \<in> set ns. n < 16 \<Longrightarrow>
    i div 2 < length (pack ns) \<and>
    unat (if odd i then pack ns ! (i div 2) AND 0xF else drop_bit 4 (pack ns ! (i div 2))) = ns ! i"
proof (induction ns arbitrary: i rule: pack.induct)
  case 1
  then show ?case by simp
next
  case (2 x)
  then show ?case by (simp add: nibble_word)
next
  case (3 x y zs)
  show ?case
  proof (cases "i < 2")
    case True
    then have "i = 0 \<or> i = 1" by auto
    then show ?thesis using "3.prems" nibble_word [of x y] by (auto split: if_splits)
  next
    case False
    then obtain j where i: "i = Suc (Suc j)" by (metis add_2_eq_Suc le_Suc_ex not_less)
    then show ?thesis using "3.IH" [of j] "3.prems" by (simp split: if_splits)
  qed
qed

lemma nibble_pack:
  assumes "i < length ns" and "\<forall>n \<in> set ns. n < 16"
  shows "nibble (pack ns) (int i) = Inr (ns ! i)"
proof -
  have "nat (int i div 2) = i div 2" by (simp add: nat_div_distrib)
  then show ?thesis using pack_nibble [OF assms] by (simp add: nibble_def split del: if_split)
qed

text \<open>The loops, over half-octets that are read from position \<open>i\<close> down.\<close>

lemma skip_zeros_run:
  assumes nib: "\<And>j. j < z \<Longrightarrow> nibble buf (i - int j) = Inr 0"
    and stop: "z = n \<or> z < n \<and> (\<exists>d. nibble buf (i - int z) = Inr d \<and> d \<noteq> 0)"
  shows "skip_zeros buf i n = Inr z"
  using assms
proof (induction z arbitrary: i n)
  case 0
  then show ?case by (cases n) auto
next
  case (Suc z)
  then obtain m where n: "n = Suc m" by (cases n) auto
  have "\<And>j. j < z \<Longrightarrow> nibble buf (i - 1 - int j) = Inr 0"
    using Suc.prems(1) [of "Suc j" for j] by (simp add: algebra_simps)
  moreover have "z = m \<or> z < m \<and> (\<exists>d. nibble buf (i - 1 - int z) = Inr d \<and> d \<noteq> 0)"
    using Suc.prems(2) n by (auto simp: algebra_simps)
  ultimately have "skip_zeros buf (i - 1) m = Inr z" by (rule Suc.IH)
  then show ?case using n Suc.prems(1) [of 0] by simp
qed

lemma read_digits_run:
  assumes "\<And>j. j < length ds \<Longrightarrow> nibble buf (i - int j) = Inr (ds ! j)" and "digs ds"
  shows "read_digits buf i (length ds) = Inr ds"
  using assms
proof (induction ds arbitrary: i)
  case Nil
  then show ?case by simp
next
  case (Cons d ds)
  have "\<And>j. j < length ds \<Longrightarrow> nibble buf (i - 1 - int j) = Inr (ds ! j)"
    using Cons.prems(1) [of "Suc j" for j] by (simp add: algebra_simps)
  then have "read_digits buf (i - 1) (length ds) = Inr ds" using Cons.IH Cons.prems(2) by simp
  then show ?case using Cons.prems(1) [of 0] Cons.prems(2) by simp
qed

lemma strip_top_zeros:
  assumes "length ds \<le> n" and "\<And>j. length ds \<le> j \<Longrightarrow> j < n \<Longrightarrow> val ! j = 0"
    and "sc \<le> length ds" and "sc < length ds \<Longrightarrow> val ! (length ds - 1) \<noteq> 0"
  shows "strip_top val sc n = length ds"
  using assms
proof (induction n)
  case 0
  then show ?case by simp
next
  case (Suc n)
  show ?case
  proof (cases "length ds = Suc n")
    case True
    then show ?thesis using Suc.prems by auto
  next
    case False
    then have "length ds \<le> n" using Suc.prems(1) by simp
    then show ?thesis using Suc by simp
  qed
qed

lemma Fixed_decode_spec:
  assumes ok: "wire_ok f"
    and lim: "pd_idl_digits this = pd_idl_digits f" "pd_idl_scale this = pd_idl_scale f"
  shows "Fixed_decode this (pack (wire_nibbles f)) = Inr (copy_fields this f)"
proof -
  note b = wire_ok_bounds [OF ok]
  let ?n = "round_up_odd (pd_idl_digits f)" and ?k = "lead_len f" and ?t = "pd_idl_scale f - pd_scale f"
  let ?ns = "wire_nibbles f" and ?buf = "pack (wire_nibbles f)"
  have wf: "fixed_wf f" using ok by (simp add: wire_ok_def)
  have n: "?n \<le> 31" "pd_idl_digits f \<le> ?n" "?n \<le> Suc (pd_idl_digits f)" using round_up_odd b(4) by auto
  have lenf: "length (fdigits f) = pd_digits f" using wf by simp
  have kn: "?k + pd_digits f + ?t = ?n" using b n by (simp add: lead_len_def)
  have df: "digs (fdigits f)" by (rule fixed_wf_digs(1) [OF wf])
  have small: "\<forall>x \<in> set ?ns. x < 16"
    using df by (auto simp: wire_nibbles_def wire_digits_def digs_def)
  have lns: "length ?ns = Suc ?n" using wire_digits_length [OF ok] by (simp add: wire_nibbles_def)
  note nib = nibble_pack [OF _ small]
  have sign: "nibble ?buf (int ?n) = Inr (if pd_negative f then 13 else 12)"
    using nib [of ?n] lns wire_digits_length [OF ok] by (simp add: wire_nibbles_def nth_append)
  text \<open>The digit read \<open>j\<close> steps below the sign.\<close>
  define rs where "rs = replicate ?t 0 @ fdigits f @ replicate ?k (0 :: nat)"
  have rl: "length rs = ?n" using kn lenf by (simp add: rs_def)
  have wd: "wire_digits f = rev rs" by (simp add: rs_def wire_digits_def)
  have rd: "nibble ?buf (int ?n - 1 - int j) = Inr (rs ! j)" if "j < ?n" for j
  proof -
    have "int ?n - 1 - int j = int (?n - 1 - j)" using that by simp
    moreover have "?ns ! (?n - 1 - j) = rs ! j"
      using that rl by (simp add: wire_nibbles_def wd nth_append rev_nth)
    moreover have "?n - 1 - j < length ?ns" using lns by simp
    ultimately show ?thesis using nib by metis
  qed
  have sk: "skip_zeros ?buf (int ?n - 1) (pd_idl_scale f) = Inr ?t"
  proof (rule skip_zeros_run)
    show "nibble ?buf (int ?n - 1 - int j) = Inr 0" if "j < ?t" for j
      using rd [of j] that kn by (simp add: rs_def nth_append)
    show "?t = pd_idl_scale f \<or> ?t < pd_idl_scale f \<and>
        (\<exists>d. nibble ?buf (int ?n - 1 - int ?t) = Inr d \<and> d \<noteq> 0)"
    proof (cases "pd_scale f = 0")
      case False
      then have "fdigits f ! 0 \<noteq> 0" "0 < pd_digits f" using wf b by (auto simp: fixed_wf_def)
      moreover have "rs ! ?t = fdigits f ! 0"
        using \<open>0 < pd_digits f\<close> lenf by (simp add: rs_def nth_append)
      ultimately show ?thesis using rd [of ?t] kn False b by auto
    qed simp
  qed
  define ds where "ds = fdigits f @ replicate ?k (0 :: nat)"
  have dl: "length ds = ?n - ?t" using kn lenf by (simp add: ds_def)
  have rdg: "read_digits ?buf (int ?n - 1 - int ?t) (length ds) = Inr ds"
  proof (rule read_digits_run)
    show "nibble ?buf (int ?n - 1 - int ?t - int j) = Inr (ds ! j)" if "j < length ds" for j
    proof -
      have "rs ! (?t + j) = ds ! j" by (simp add: rs_def ds_def nth_append)
      moreover have "?t + j < ?n" using that dl by simp
      ultimately show ?thesis using rd [of "?t + j"] by (simp add: algebra_simps)
    qed
    show "digs ds" using df by (simp add: ds_def)
  qed
  have top: "strip_top ds (pd_scale f) (length ds) = pd_digits f"
  proof -
    have "strip_top ds (pd_scale f) (length ds) = length (fdigits f)"
    proof (rule strip_top_zeros)
      show "ds ! j = 0" if "length (fdigits f) \<le> j" "j < length ds" for j
        using that by (auto simp: ds_def nth_append)
      show "ds ! (length (fdigits f) - 1) \<noteq> 0" if "pd_scale f < length (fdigits f)"
      proof -
        have "fdigits f \<noteq> []" "last (fdigits f) \<noteq> 0" using that wf by (auto simp: fixed_wf_def)
        then show ?thesis by (simp add: ds_def nth_append last_conv_nth)
      qed
    qed (use b lenf in \<open>auto simp: ds_def\<close>)
    then show ?thesis by (simp add: lenf)
  qed
  have st: "pd_idl_scale f - ?t = pd_scale f" using b by simp
  have tk: "pad31 (take (pd_digits f) ds) = pd_val f"
    using wf lenf by (simp add: ds_def fixed_wf_def)
  have l31: "\<not> 31 < length ds" using dl n by simp
  have ne: "int (pd_digits f) - int (pd_scale f) \<noteq> int (pd_idl_digits f) - int (pd_idl_scale f) + 1"
    using b by linarith
  have sg: "(if (if pd_negative f then 13 else 12) = (12 :: nat) then Inr False
      else if (if pd_negative f then 13 else 12) = (13 :: nat) then Inr True else Inl InvalidFixed) =
      (Inr (pd_negative f) :: bool result)" by simp
  have "Fixed_decode this ?buf = Inr (this\<lparr>pd_val := pd_val f, pd_digits := pd_digits f,
      pd_scale := pd_scale f, pd_negative := pd_negative f\<rparr>)"
    unfolding Fixed_decode_def Let_def lim sign ebind_Inr
    using sk rdg top st tk l31 ne b dl by (simp add: OMNI_FIXED_DIGITS_def sg)
  then show ?thesis by (simp add: copy_fields_def)
qed

context cdr_stream
begin

lemma Fixed_marshal_carries:
  assumes s: "sinv s" and ok: "wire_ok f"
    and lim: "pd_idl_digits this = pd_idl_digits f" "pd_idl_scale this = pd_idl_scale f"
  shows "\<exists>s'. Fixed_marshal ops f s = Inr s' \<and> carries s (Fixed_unmarshal ops this) (copy_fields this f) s'"
proof -
  let ?bs = "pack (wire_nibbles f)"
  have len: "length ?bs = round_up_odd (pd_idl_digits f) div 2 + 1"
    using wire_digits_length [OF ok] by (simp add: pack_length wire_nibbles_def)
  obtain s' where p: "put_octet_array ops s ?bs 1 = Inr s'"
    and c: "carries s (\<lambda>t. get_octet_array ops t (length ?bs) 1) ?bs s'"
    using put_array_carries [OF s, of 1 ?bs] by auto
  have "carries s (Fixed_unmarshal ops this) (copy_fields this f) s'"
    by (rule carries_map [OF c])
      (use ok Fixed_decode_spec [OF ok lim] in \<open>simp add: Fixed_unmarshal_def lim len wire_ok_def\<close>)
  then show ?thesis using p by (simp add: Fixed_marshal_def Fixed_encode_spec [OF ok])
qed

end

text \<open>C22. A value within its IDL limits goes through a memory stream unchanged: what \<^verbatim>\<open>operator>>=\<close> writes,
  \<^verbatim>\<open>operator<<=\<close> into an object with the same limits reads back, for every number of digits and every
  scale, and no octet of the 16-octet buffer is used before it is set.\<close>

theorem Fixed_wire_roundtrip:
  assumes wf: "fixed_wf f" and lim: "limits_ok f" "within_limits f" "pd_idl_digits f \<noteq> 0"
    and tgt: "pd_idl_digits this = pd_idl_digits f" "pd_idl_scale this = pd_idl_scale f"
    and s: "ms_wf s" "ms_pos s = length (ms_out s)" "pd_unmarshal_byte_swap s = pd_marshal_byte_swap s"
  shows "\<exists>s' s''. Fixed_marshal (ms_ops le heap) f s = Inr s' \<and>
    Fixed_unmarshal (ms_ops le heap) this s' = Inr (copy_fields this f, s'') \<and>
    ms_pos s'' = length (ms_out s'')"
proof -
  have ok: "wire_ok f" using wf lim by (simp add: wire_ok_def)
  obtain s' where m: "Fixed_marshal (ms_ops le heap) f s = Inr s'"
    and c: "ms.carries le heap s (Fixed_unmarshal (ms_ops le heap) this) (copy_fields this f) s'"
    using ms.Fixed_marshal_carries [OF s(1) ok tgt] by blast
  then have s': "ms_wf s'" "ms_pos s' = ms_pos s" "flags_kept (ms_ops le heap) s s'"
    by (simp_all add: ms.carries_def)
  from ms.carries_same [OF c s'(1) refl] s s' obtain t'
    where "Fixed_unmarshal (ms_ops le heap) this s' = Inr (copy_fields this f, t')"
      "ms.reads le heap s' (length (ms_out s')) t'"
    by (auto simp: flags_kept_def)
  with m show ?thesis by (auto simp: ms.reads_def)
qed

theorem Fixed_wire_roundtrip_witness:
  "\<exists>s s' s''. cdrMemoryStream_new (\<lambda>n. 1000) 100 0 False = Inr s \<and>
     Fixed_marshal (ms_ops True (\<lambda>n. 1000)) (fixed_zero\<lparr>pd_idl_digits := 5, pd_idl_scale := 2\<rparr>) s = Inr s' \<and>
     Fixed_unmarshal (ms_ops True (\<lambda>n. 1000)) (fixed_zero\<lparr>pd_idl_digits := 5, pd_idl_scale := 2\<rparr>) s' =
       Inr (fixed_zero\<lparr>pd_idl_digits := 5, pd_idl_scale := 2\<rparr>, s'')"
proof -
  let ?f = "fixed_zero\<lparr>pd_idl_digits := 5, pd_idl_scale := 2\<rparr>"
  obtain s where s: "cdrMemoryStream_new (\<lambda>n. 1000) 100 0 False = Inr s" "ms_wf s" "ms_out s = []"
    "ms_pos s = 0" "pd_unmarshal_byte_swap s = pd_marshal_byte_swap s"
    using ms_new_wf by blast
  have "fixed_wf ?f" by code_simp
  moreover have "limits_ok ?f" "within_limits ?f" "pd_idl_digits ?f \<noteq> 0"
    by (simp_all add: limits_ok_def within_limits_def fixed_zero_def)
  moreover have "copy_fields ?f ?f = ?f" by (simp add: copy_fields_def)
  moreover have "ms_pos s = length (ms_out s)" using s by simp
  ultimately show ?thesis using Fixed_wire_roundtrip [of ?f ?f s True "\<lambda>n. 1000"] s(1,2,5) by fastforce
qed

text \<open>\<^verbatim>\<open>operator<<=\<close> does not look at the sign of a zero: the octets 00 0D, a zero with the sign of
  a negative number, make a negative zero, which is not well-formed and is less than zero.\<close>

theorem Fixed_unmarshal_negative_zero:
  "\<exists>g. Fixed_decode (fixed_zero\<lparr>pd_idl_digits := 3\<rparr>) [0x00, 0x0D] = Inr g \<and>
     \<not> fixed_wf g \<and> fval g = 0 \<and> Fixed_lt g fixed_zero"
proof -
  let ?g = "fixed_zero\<lparr>pd_idl_digits := 3, pd_negative := True\<rparr>"
  have "Fixed_decode (fixed_zero\<lparr>pd_idl_digits := 3\<rparr>) [0x00, 0x0D] = Inr ?g" by code_simp
  moreover have "\<not> fixed_wf ?g" by code_simp
  moreover have "fval ?g = 0" by (simp add: fval_def fmag_def fdigits_def fixed_zero_def)
  moreover have "Fixed_lt ?g fixed_zero" by code_simp
  ultimately show ?thesis by blast
qed

end
