(* ===== verification/Cdr_RawString.thy ===== *)
theory Cdr_RawString
  imports Cdr_Memory_Props
begin

text \<open>
  \<^verbatim>\<open>cdrStream::marshalRawString\<close> and \<^verbatim>\<open>unmarshalRawString\<close> (\<^verbatim>\<open>orbcore/corbaString.cc\<close>) on a
  memory stream. A string is the list of its octets without the final null. The single pass over a
  string that fits into the buffer is shown to write what the plain sequence of calls writes.
\<close>

definition marshalRawString ::
    "bool \<Rightarrow> (nat \<Rightarrow> nat) \<Rightarrow> cdrMemoryStream \<Rightarrow> 8 word list \<Rightarrow> (32 word \<times> cdrMemoryStream) result" where
  "marshalRawString le heap stream s =
     (let lenp = align_to (pd_outb_mkr stream) 4; current = lenp + 4; limit = pd_outb_end stream;
          stored = (\<lambda>len. in_memory le 4 (if pd_marshal_byte_swap stream then byteSwap32 len else len))
      in if limit \<le> current then
           (let len = of_nat (length s + 1) in
            ebind (marshalULong (ms_ops le heap) stream len) (\<lambda>stream.
            ebind (ms_put_octet_array heap stream (s @ [0]) 1) (\<lambda>stream. Inr (len, stream))))
         else
           (let n = min (length s) (limit - current) in
            ebind (mem_write stream current (take n s)) (\<lambda>stream.
            if current + n < limit then
              (let len = of_nat (n + 1) in
               ebind (mem_write stream (current + n) [0]) (\<lambda>stream.
               ebind (mem_write (stream\<lparr>pd_outb_mkr := current + n + 1\<rparr>) lenp (stored len)) (\<lambda>stream.
               Inr (len, stream))))
            else
              (let rest = length s - n + 1; len = of_nat (n + rest);
                   stream = stream\<lparr>pd_outb_mkr := current + n\<rparr> in
               ebind (if lenp < pd_outb_end stream then mem_write stream lenp (stored len) else Inr stream)
                 (\<lambda>stream.
               ebind (ms_put_octet_array heap stream (drop n s @ [0]) 1) (\<lambda>stream. Inr (len, stream)))))))"

text \<open>
  \<^verbatim>\<open>unmarshalRawString\<close> allocates, reads and then checks the last octet; the string it returns ends
  at its first null.
\<close>

definition unmarshalRawString ::
    "bool \<Rightarrow> (nat \<Rightarrow> nat) \<Rightarrow> cdrMemoryStream \<Rightarrow> (8 word list \<times> cdrMemoryStream) result" where
  "unmarshalRawString le heap stream =
     ebind (unmarshalULong (ms_ops le heap) stream) (\<lambda>(len, stream).
     if len = 0 then Inl (Throw MARSHAL MARSHAL_StringNotEndWithNull)
     else
       let (ok, stream) = checkInputOverrun stream 1 len 1 in
       if \<not> ok then Inl (Throw MARSHAL MARSHAL_PassEndOfMessage)
       else ebind (ms_get_octet_array stream (unat len) 1) (\<lambda>(s, stream).
              if last s \<noteq> 0 then Inl (Throw MARSHAL MARSHAL_StringNotEndWithNull)
              else Inr (takeWhile (\<lambda>c. c \<noteq> 0) s, stream)))"

section \<open>The single pass\<close>

definition overwrite :: "nat \<Rightarrow> 8 word list \<Rightarrow> 8 word option list \<Rightarrow> 8 word option list" where
  "overwrite k bs xs = take k xs @ map Some bs @ drop (k + length bs) xs"

lemma overwrite_mid:
  "length A = k \<Longrightarrow> length B = length bs \<Longrightarrow> overwrite k bs (A @ B @ R) = A @ map Some bs @ R"
  by (simp add: overwrite_def)

lemma overwrite_append:
  assumes "k + length bs + length cs \<le> length xs"
  shows "overwrite (k + length bs) cs (overwrite k bs xs) = overwrite k (bs @ cs) xs"
    and "overwrite k bs (overwrite (k + length bs) cs xs) = overwrite k (bs @ cs) xs"
proof -
  define A B C D where "A = take k xs" and "B = take (length bs) (drop k xs)"
    and "C = take (length cs) (drop (length bs) (drop k xs))" and "D = drop (length cs) (drop (length bs) (drop k xs))"
  have xs: "xs = A @ B @ C @ D"
    unfolding A_def B_def C_def D_def by (simp only: append_take_drop_id)
  have l: "length A = k" "length B = length bs" "length C = length cs"
    using assms by (auto simp: A_def B_def C_def)
  have 1: "overwrite k bs xs = A @ map Some bs @ C @ D"
    unfolding xs by (rule overwrite_mid [OF l(1,2)])
  have 2: "overwrite (k + length bs) cs xs = (A @ B) @ map Some cs @ D"
    unfolding xs using overwrite_mid [of "A @ B" "k + length bs" C cs D] l by simp
  have 3: "overwrite k (bs @ cs) xs = A @ map Some (bs @ cs) @ D"
    unfolding xs using overwrite_mid [of A k "B @ C" "bs @ cs" D] l by simp
  show "overwrite (k + length bs) cs (overwrite k bs xs) = overwrite k (bs @ cs) xs"
    unfolding 1 3 using overwrite_mid [of "A @ map Some bs" "k + length bs" C cs D] l by simp
  show "overwrite k bs (overwrite (k + length bs) cs xs) = overwrite k (bs @ cs) xs"
    unfolding 2 3 using overwrite_mid [of A k B bs "map Some cs @ D"] l by simp
qed

lemma overwrite_length [simp]:
  "k + length bs \<le> length xs \<Longrightarrow> length (overwrite k bs xs) = length xs"
  by (simp add: overwrite_def)

lemma mem_write_overwrite:
  "pd_bufp_8 s \<le> p \<Longrightarrow> p - pd_bufp_8 s + length bs \<le> length (ms_mem s) \<Longrightarrow>
    mem_write s p bs = Inr (s\<lparr>ms_mem := overwrite (p - pd_bufp_8 s) bs (ms_mem s)\<rparr>)"
  by (simp add: mem_write_def overwrite_def Let_def)


text \<open>The octets of a marshalled string: the length with the final null, the characters, the null.\<close>

definition raw_len :: "8 word list \<Rightarrow> 32 word" where
  "raw_len s = of_nat (length s + 1)"

definition string_octets :: "bool \<Rightarrow> cdrMemoryStream \<Rightarrow> 8 word list \<Rightarrow> 8 word list" where
  "string_octets le stream s =
     in_memory le 4 (if pd_marshal_byte_swap stream then byteSwap32 (raw_len s) else raw_len s) @ s @ [0]"

lemma string_octets_length [simp]: "length (string_octets le stream s) = length s + 5"
  by (simp add: string_octets_def)

text \<open>The string fits.\<close>

lemma marshalRawString_fits:
  assumes wf: "ms_wf s" and fits: "align_to (pd_outb_mkr s) 4 + 4 + length str < pd_outb_end s"
  shows "\<exists>s'. marshalRawString le heap s str = Inr (raw_len str, s') \<and>
    appended s 4 (string_octets le s str) s'"
proof -
  note w = wf [unfolded ms_wf_def]
  let ?p = "align_to (pd_outb_mkr s) 4" and ?n = "length str"
  let ?L = "in_memory le 4 (if pd_marshal_byte_swap s then byteSwap32 (raw_len str) else raw_len str)"
  define k where "k = ?p - pd_bufp_8 s"
  have ge: "pd_outb_mkr s \<le> ?p" by (rule align_to_ge) simp
  have b: "pd_bufp_8 s \<le> ?p" and p: "?p = pd_bufp_8 s + k" using w ge by (auto simp: k_def)
  have len: "k + 4 + ?n + 1 \<le> length (ms_mem s)" using w fits p by linarith
  have room: "?p + length (string_octets le s str) \<le> pd_outb_end s" using fits by simp
  define m1 where "m1 = overwrite (k + 4) str (ms_mem s)"
  define m2 where "m2 = overwrite (k + 4 + ?n) [0] m1"
  define m3 where "m3 = overwrite k ?L m2"
  have 1: "mem_write s (?p + 4) str = Inr (s\<lparr>ms_mem := m1\<rparr>)"
    using mem_write_overwrite [of s "?p + 4" str] len by (simp add: p m1_def)
  have 2: "mem_write (s\<lparr>ms_mem := m1\<rparr>) (?p + 4 + ?n) [0] = Inr (s\<lparr>ms_mem := m2\<rparr>)"
    using mem_write_overwrite [of "s\<lparr>ms_mem := m1\<rparr>" "?p + 4 + ?n" "[0]"] len
    by (simp add: p m1_def m2_def add.assoc)
  have 3: "mem_write (s\<lparr>ms_mem := m2, pd_outb_mkr := ?p + 4 + ?n + 1\<rparr>) ?p ?L =
      Inr (s\<lparr>ms_mem := m3, pd_outb_mkr := ?p + 4 + ?n + 1\<rparr>)"
    using mem_write_overwrite [of "s\<lparr>ms_mem := m2, pd_outb_mkr := ?p + 4 + ?n + 1\<rparr>" ?p ?L] len
    by (simp add: p m1_def m2_def m3_def)
  have "m2 = overwrite (k + 4) (str @ [0]) (ms_mem s)"
    unfolding m2_def m1_def by (rule overwrite_append) (use len in simp)
  then have "m3 = overwrite k (string_octets le s str) (ms_mem s)"
    using overwrite_append(2) [of k ?L "str @ [0]" "ms_mem s"] len
    by (simp add: m3_def string_octets_def)
  then have eq: "s\<lparr>ms_mem := m3, pd_outb_mkr := ?p + 4 + ?n + 1\<rparr> =
      s\<lparr>ms_mem := take (?p - pd_bufp_8 s) (ms_mem s) @ map Some (string_octets le s str) @
        drop (?p - pd_bufp_8 s + length (string_octets le s str)) (ms_mem s),
        pd_outb_mkr := ?p + length (string_octets le s str)\<rparr>"
    by (simp add: overwrite_def k_def ac_simps)
  have c: "(pd_outb_end s \<le> ?p + 4) = False" "(?p + 4 + ?n < pd_outb_end s) = True" using fits by auto
  have mn: "min ?n (pd_outb_end s - (?p + 4)) = ?n" using fits by simp
  have "marshalRawString le heap s str = Inr (raw_len str, s\<lparr>ms_mem := m3, pd_outb_mkr := ?p + 4 + ?n + 1\<rparr>)"
    unfolding marshalRawString_def Let_def mn raw_len_def [symmetric]
    by (simp only: c if_False if_True take_all [OF order_refl] 1 2 3 ebind_Inr)
  moreover have "appended s 4 (string_octets le s str) (s\<lparr>ms_mem := m3, pd_outb_mkr := ?p + 4 + ?n + 1\<rparr>)"
    unfolding eq by (rule store_spec(3) [OF wf _ room]) simp
  ultimately show ?thesis by blast
qed


text \<open>The string goes over the end of the buffer: what has been copied is completed by a put.\<close>

lemma marshalRawString_spills:
  assumes wf: "ms_wf s" and room: "align_to (pd_outb_mkr s) 4 + 4 < pd_outb_end s"
    and spill: "pd_outb_end s \<le> align_to (pd_outb_mkr s) 4 + 4 + length str"
  shows "\<exists>s'. marshalRawString le heap s str = Inr (raw_len str, s') \<and>
    appended s 4 (string_octets le s str) s'"
proof -
  note w = wf [unfolded ms_wf_def]
  let ?p = "align_to (pd_outb_mkr s) 4"
  let ?L = "in_memory le 4 (if pd_marshal_byte_swap s then byteSwap32 (raw_len str) else raw_len str)"
  define n where "n = pd_outb_end s - (?p + 4)"
  define k where "k = ?p - pd_bufp_8 s"
  have ge: "pd_outb_mkr s \<le> ?p" by (rule align_to_ge) simp
  have b: "pd_bufp_8 s \<le> ?p" and p: "?p = pd_bufp_8 s + k" using w ge by (auto simp: k_def)
  have n: "?p + 4 + n = pd_outb_end s" "n \<le> length str" using room spill by (auto simp: n_def)
  have len: "k + 4 + n \<le> length (ms_mem s)" using w n p by linarith
  have tn: "length (take n str) = n" using n(2) by simp
  define m1 where "m1 = overwrite (k + 4) (take n str) (ms_mem s)"
  define m2 where "m2 = overwrite k ?L m1"
  let ?t = "s\<lparr>ms_mem := m2, pd_outb_mkr := ?p + 4 + n\<rparr>"
  have 1: "mem_write s (?p + 4) (take n str) = Inr (s\<lparr>ms_mem := m1\<rparr>)"
    using mem_write_overwrite [of s "?p + 4" "take n str"] len tn by (simp add: p m1_def)
  have 2: "mem_write (s\<lparr>ms_mem := m1, pd_outb_mkr := ?p + 4 + n\<rparr>) ?p ?L = Inr ?t"
    using mem_write_overwrite [of "s\<lparr>ms_mem := m1, pd_outb_mkr := ?p + 4 + n\<rparr>" ?p ?L] len tn
    by (simp add: p m1_def m2_def)
  have m2: "m2 = overwrite k (?L @ take n str) (ms_mem s)"
    using overwrite_append(2) [of k ?L "take n str" "ms_mem s"] len tn by (simp add: m2_def m1_def)
  have r: "?p + length (?L @ take n str) \<le> pd_outb_end s" using n tn by simp
  have "?t = s\<lparr>ms_mem := take (?p - pd_bufp_8 s) (ms_mem s) @ map Some (?L @ take n str) @
        drop (?p - pd_bufp_8 s + length (?L @ take n str)) (ms_mem s),
        pd_outb_mkr := ?p + length (?L @ take n str)\<rparr>"
    using tn by (simp add: m2 overwrite_def k_def ac_simps)
  then have t: "appended s 4 (?L @ take n str) ?t"
    using store_spec(3) [OF wf _ r] by simp
  then have "ms_wf ?t" by (simp add: appended_def)
  from put_array_appended [OF this, of 1 heap "drop n str @ [0]"] obtain s'
    where s': "ms_put_octet_array heap ?t (drop n str @ [0]) 1 = Inr s'"
      "appended ?t 1 (drop n str @ [0]) s'" by auto
  have c: "(pd_outb_end s \<le> ?p + 4) = False" "(?p + 4 + n < pd_outb_end s) = False" using room n by auto
  have mn: "min (length str) (pd_outb_end s - (?p + 4)) = n" using n by (simp add: n_def min_absorb2)
  have ln: "of_nat (n + (length str - n + 1)) = raw_len str" using n by (simp add: raw_len_def)
  have e: "?p < pd_outb_end (s\<lparr>ms_mem := m1, pd_outb_mkr := ?p + 4 + n\<rparr>)" using room by simp
  have "marshalRawString le heap s str = Inr (raw_len str, s')"
    unfolding marshalRawString_def Let_def mn ln
    using c e 1 2 s'(1) by simp
  moreover have "appended s 4 (string_octets le s str) s'"
  proof -
    from t obtain gap where "ms_out ?t = ms_out s @ gap @ map Some (?L @ take n str)"
      "length gap = align_to (length (ms_out s)) 4 - length (ms_out s)" by (auto simp: appended_def)
    moreover from s'(2) have "ms_out s' = ms_out ?t @ map Some (drop n str @ [0])"
      by (auto simp: appended_def)
    moreover have "string_octets le s str = (?L @ take n str) @ drop n str @ [0]"
      by (simp add: string_octets_def)
    ultimately have "ms_out s' = ms_out s @ gap @ map Some (string_octets le s str) \<and>
        length gap = align_to (length (ms_out s)) 4 - length (ms_out s)"
      by (simp only: map_append append.assoc)
    then show ?thesis using s'(2) t unfolding appended_def by auto
  qed
  ultimately show ?thesis by blast
qed

text \<open>The length would not fit.\<close>

lemma marshalRawString_plain:
  assumes wf: "ms_wf s" and full: "pd_outb_end s \<le> align_to (pd_outb_mkr s) 4 + 4"
  shows "\<exists>s'. marshalRawString le heap s str = Inr (raw_len str, s') \<and>
    appended s 4 (string_octets le s str) s'"
proof -
  let ?L = "in_memory le 4 (if pd_marshal_byte_swap s then byteSwap32 (raw_len str) else raw_len str)"
  obtain s1 where 1: "marshalULong (ms_ops le heap) s (raw_len str) = Inr s1" "appended s 4 ?L s1"
    using put_prim_appended [OF wf, of ?L heap] by (auto simp: marshalULong_def split del: if_split)
  then have "ms_wf s1" by (simp add: appended_def)
  from put_array_appended [OF this, of 1 heap "str @ [0]"] obtain s'
    where s': "ms_put_octet_array heap s1 (str @ [0]) 1 = Inr s'" "appended s1 1 (str @ [0]) s'" by auto
  have "marshalRawString le heap s str = Inr (raw_len str, s')"
    unfolding marshalRawString_def Let_def raw_len_def [symmetric] using full 1(1) s'(1) by simp
  moreover have "appended s 4 (string_octets le s str) s'"
    using 1(2) s'(2) by (auto simp: appended_def string_octets_def)
  ultimately show ?thesis by blast
qed

text \<open>C33. \<^verbatim>\<open>marshalRawString\<close> writes the same octets in all three of its ways (the string fits into the
  buffer, goes over its end, or not even its length fits): the length counting the final null,
  aligned to four and in the stream's byte order, the characters, the null. No store leaves the
  buffer.\<close>

theorem marshalRawString_octets:
  assumes wf: "ms_wf s"
  shows "\<exists>s' gap. marshalRawString le heap s str = Inr (of_nat (length str + 1), s') \<and> ms_wf s' \<and>
    ms_out s' = ms_out s @ gap @ map Some (string_octets le s str) \<and>
    length gap = align_to (length (ms_out s)) 4 - length (ms_out s)"
proof -
  have "\<exists>s'. marshalRawString le heap s str = Inr (raw_len str, s') \<and>
      appended s 4 (string_octets le s str) s'"
    using marshalRawString_fits [OF wf, of str le heap] marshalRawString_spills [OF wf, of str le heap]
      marshalRawString_plain [OF wf, of le heap str] by (meson not_le)
  then show ?thesis by (auto simp: appended_def raw_len_def)
qed

theorem marshalRawString_octets_witness:
  "\<exists>s s' gap. cdrMemoryStream_new (\<lambda>n. 1000) 100 0 False = Inr s \<and>
     marshalRawString True (\<lambda>n. 1000) s [104, 105] = Inr (of_nat (length [104 :: 8 word, 105] + 1), s') \<and>
     ms_wf s' \<and> ms_out s' = ms_out s @ gap @ map Some (string_octets True s [104, 105]) \<and>
     length gap = align_to (length (ms_out s)) 4 - length (ms_out s)"
proof -
  obtain s where s: "cdrMemoryStream_new (\<lambda>n. 1000) 100 0 False = Inr s" "ms_wf s"
    using ms_new_wf by blast
  with marshalRawString_octets [OF s(2), of True "\<lambda>n. 1000" "[104, 105]"] show ?thesis by blast
qed

section \<open>Reading a raw string back\<close>

lemma take_drop_mid: "length A = k \<Longrightarrow> length B = n \<Longrightarrow> take n (drop k (A @ B @ R)) = B"
  by simp

lemma checkInputOverrun_ok:
  assumes wf: "ms_wf s" and len: "ms_pos s + unat n \<le> length (ms_out s)"
  shows "\<exists>s'. checkInputOverrun s 1 n 1 = (True, s') \<and> same_stream s s'"
proof -
  note w = wf [unfolded ms_wf_def]
  have l: "length (ms_out s) = pd_outb_mkr s - pd_bufp_8 s" by (rule ms_out_length [OF wf])
  have "pd_inb_mkr s + unat n \<le> pd_outb_mkr s" using w len l unfolding ms_pos_def by linarith
  then show ?thesis
    using w by (auto simp: checkInputOverrun_def Let_def same_stream_def ms_wf_def ms_out_def ms_pos_def)
qed

text \<open>C34. A string without null octets and shorter than 2^32 - 1 that was written by
  \<^verbatim>\<open>marshalRawString\<close> is read back by \<^verbatim>\<open>unmarshalRawString\<close>, whichever way it took into the buffer.\<close>

theorem raw_string_roundtrip:
  assumes wf: "ms_wf s" and pos: "ms_pos s = length (ms_out s)"
    and flag: "pd_unmarshal_byte_swap s = pd_marshal_byte_swap s"
    and nz: "0 \<notin> set str" and short: "length str + 1 < 2 ^ 32"
    and m: "marshalRawString le heap s str = Inr (n, s')"
  shows "\<exists>s''. unmarshalRawString le heap s' = Inr (str, s'') \<and> ms_pos s'' = length (ms_out s'')"
proof -
  let ?L = "in_memory le 4 (if pd_marshal_byte_swap s then byteSwap32 (raw_len str) else raw_len str)"
  have "\<exists>s'. marshalRawString le heap s str = Inr (raw_len str, s') \<and>
      appended s 4 (string_octets le s str) s'"
    using marshalRawString_fits [OF wf, of str le heap] marshalRawString_spills [OF wf, of str le heap]
      marshalRawString_plain [OF wf, of le heap str] by (meson not_le)
  with m have ap: "appended s 4 (string_octets le s str) s'" by auto
  then obtain gap where o: "ms_out s' = (ms_out s @ gap) @ map Some ?L @ map Some (str @ [0])"
    and g: "length gap = align_to (length (ms_out s)) 4 - length (ms_out s)"
    by (auto simp: appended_def string_octets_def)
  have wf': "ms_wf s'" and pos': "ms_pos s' = length (ms_out s)"
    and fl: "pd_unmarshal_byte_swap s' = pd_marshal_byte_swap s"
    using ap pos flag by (auto simp: appended_def)
  have k: "align_to (ms_pos s') 4 = length (ms_out s @ gap)"
    using g align_to_ge [of 4 "length (ms_out s)"] by (simp add: pos')
  have t: "take (length ?L) (drop (align_to (ms_pos s') (length ?L)) (ms_out s')) = map Some ?L"
    unfolding o k in_memory_length by (rule take_drop_mid) simp_all
  have le: "align_to (ms_pos s') (length ?L) + length ?L \<le> length (ms_out s')"
    unfolding o in_memory_length k by simp
  have al: "alignment (length ?L)" by simp
  obtain s1 where s1: "ms_get_prim s' (length ?L) = Inr (?L, s1)"
    "advanced s' (align_to (ms_pos s') (length ?L) + length ?L) s1"
    using get_prim_advanced [OF wf' al t le] by blast
  have ul: "unmarshalULong (ms_ops le heap) s' = Inr (raw_len str, s1)"
    using s1(1) fl by (simp add: unmarshalULong_def Let_def host_octets)
  have wf1: "ms_wf s1" and out1: "ms_out s1 = ms_out s'" and pos1: "ms_pos s1 = length (ms_out s @ gap) + 4"
    using s1(2) k by (simp_all add: advanced_def)
  have un: "unat (raw_len str) = length (str @ [0 :: 8 word])"
    using short by (simp add: raw_len_def unat_of_nat del: of_nat_add of_nat_Suc)
  have nz0: "raw_len str \<noteq> 0" using un by auto
  have "ms_pos s1 + unat (raw_len str) \<le> length (ms_out s1)" unfolding pos1 out1 o un by simp
  from checkInputOverrun_ok [OF wf1 this] obtain s2
    where s2: "checkInputOverrun s1 1 (raw_len str) 1 = (True, s2)" "same_stream s1 s2" by blast
  then have wf2: "ms_wf s2" and out2: "ms_out s2 = ms_out s'" and pos2: "ms_pos s2 = length (ms_out s @ gap) + 4"
    using out1 pos1 by (simp_all add: same_stream_def)
  have t2: "take (length (str @ [0])) (drop (align_to (ms_pos s2) 1) (ms_out s2)) = map Some (str @ [0])"
    unfolding out2 pos2 o using take_drop_mid [of "ms_out s @ gap @ map Some ?L" _ "map Some (str @ [0])" _ "[]"]
    by simp
  have le2: "align_to (ms_pos s2) 1 + length (str @ [0]) \<le> length (ms_out s2)"
    unfolding out2 pos2 o by simp
  obtain s3 where s3: "ms_get_octet_array s2 (length (str @ [0])) 1 = Inr (str @ [0], s3)"
    "advanced s2 (align_to (ms_pos s2) 1 + length (str @ [0])) s3"
    using get_array_advanced [OF wf2 _ t2 le2] by auto
  have "unmarshalRawString le heap s' =
      Inr (takeWhile (\<lambda>c. c \<noteq> 0) (str @ [0]), s3)"
    unfolding unmarshalRawString_def ul using nz0 s2(1) s3(1) by (simp add: un)
  moreover have "takeWhile (\<lambda>c. c \<noteq> 0) (str @ [0]) = str"
    by (subst takeWhile_append2) (use nz in auto)
  moreover have "ms_pos s3 = length (ms_out s3)"
    using s3(2) by (simp add: advanced_def out2 pos2 o)
  ultimately show ?thesis by auto
qed

theorem raw_string_roundtrip_witness:
  "\<exists>s n s' s''. cdrMemoryStream_new (\<lambda>n. 1000) 100 0 False = Inr s \<and>
     marshalRawString True (\<lambda>n. 1000) s [104, 105] = Inr (n, s') \<and>
     unmarshalRawString True (\<lambda>n. 1000) s' = Inr ([104, 105], s'')"
proof -
  obtain s where s: "cdrMemoryStream_new (\<lambda>n. 1000) 100 0 False = Inr s" "ms_wf s" "ms_out s = []"
    "ms_pos s = 0" "pd_unmarshal_byte_swap s = pd_marshal_byte_swap s"
    using ms_new_wf by blast
  have "\<exists>s'. marshalRawString True (\<lambda>n. 1000) s [104, 105] = Inr (raw_len [104, 105], s') \<and>
      appended s 4 (string_octets True s [104, 105]) s'"
    using marshalRawString_fits [OF s(2), of "[104, 105]" True "\<lambda>n. 1000"]
      marshalRawString_spills [OF s(2), of "[104, 105]" True "\<lambda>n. 1000"]
      marshalRawString_plain [OF s(2), of True "\<lambda>n. 1000" "[104, 105]"] by (meson not_le)
  then obtain s' where s': "marshalRawString True (\<lambda>n. 1000) s [104, 105] = Inr (raw_len [104, 105], s')" by blast
  from raw_string_roundtrip [OF s(2) _ s(5) _ _ s'] s(3,4) have
    "\<exists>s''. unmarshalRawString True (\<lambda>n. 1000) s' = Inr ([104, 105], s'') \<and> ms_pos s'' = length (ms_out s'')"
    by simp
  with s(1) s' show ?thesis by blast
qed

end
