(* ===== verification/Cdr_Claims.thy ===== *)
theory Cdr_Claims
  imports Cdr_RawString
begin

text \<open>
  The properties of the memory and counting streams: round trip, wire format, counting, the overrun
  check.
\<close>

section \<open>Values through a memory stream\<close>

text \<open>C6. Whatever sequence of values is marshalled into a memory stream, unmarshalling the same
  sequence of types gives the values back and ends where the writing ended, for both byte orders of
  the host, both settings of the byte swap flag and every placement of the buffer by the allocator.\<close>

theorem memory_stream_roundtrip:
  assumes "ms_wf s" and "ms_pos s = length (ms_out s)"
    and "pd_unmarshal_byte_swap s = pd_marshal_byte_swap s"
  shows "\<exists>s' s''. marshal_all (ms_ops le heap) s vs = Inr s' \<and>
    unmarshal_all (ms_ops le heap) s' vs = Inr (vs, s'') \<and>
    ms_wf s'' \<and> ms_pos s'' = length (ms_out s'') \<and> ms_out s'' = ms_out s'"
proof -
  obtain s' where m: "marshal_all (ms_ops le heap) s vs = Inr s'"
    and c: "ms.carries le heap s (\<lambda>t. unmarshal_all (ms_ops le heap) t vs) vs s'"
    using ms.marshal_all_carries [OF assms(1)] by blast
  then have s': "ms_wf s'" "ms_pos s' = ms_pos s" "flags_kept (ms_ops le heap) s s'"
    by (simp_all add: ms.carries_def)
  from ms.carries_same [OF c s'(1) refl] assms s' obtain t'
    where "unmarshal_all (ms_ops le heap) s' vs = Inr (vs, t')" "ms.reads le heap s' (length (ms_out s')) t'"
    by (auto simp: flags_kept_def)
  with m show ?thesis by (auto simp: ms.reads_def)
qed

theorem memory_stream_roundtrip_witness:
  "\<exists>s s' s''. cdrMemoryStream_new (\<lambda>n. 1000) 100 0 False = Inr s \<and>
     marshal_all (ms_ops True (\<lambda>n. 1000)) s [VOctet 7, VULong 70000, VBoolean True, VULongLong 1] = Inr s' \<and>
     unmarshal_all (ms_ops True (\<lambda>n. 1000)) s' [VOctet 7, VULong 70000, VBoolean True, VULongLong 1] =
       Inr ([VOctet 7, VULong 70000, VBoolean True, VULongLong 1], s'')"
proof -
  obtain s where s: "cdrMemoryStream_new (\<lambda>n. 1000) 100 0 False = Inr s" "ms_wf s" "ms_out s = []"
    "ms_pos s = 0" "pd_unmarshal_byte_swap s = pd_marshal_byte_swap s"
    using ms_new_wf by blast
  then show ?thesis using memory_stream_roundtrip [OF s(2)] by fastforce
qed

text \<open>\<open>appends s bs r\<close>: the operation succeeded and its stream is \<open>s\<close> with \<open>bs\<close> written after the padding
  to an alignment of \<open>length bs\<close>.\<close>

definition appends :: "cdrMemoryStream \<Rightarrow> 8 word list \<Rightarrow> cdrMemoryStream result \<Rightarrow> bool" where
  "appends s bs r \<longleftrightarrow>
     (\<exists>s' gap. r = Inr s' \<and> ms_wf s' \<and> ms_out s' = ms_out s @ gap @ map Some bs \<and>
        length gap = align_to (length (ms_out s)) (length bs) - length (ms_out s))"

lemma put_prim_appends:
  "ms_wf s \<Longrightarrow> alignment (length bs) \<Longrightarrow> appends s bs (ms_put_prim heap s bs)"
  using put_prim_appended [of s bs heap] by (auto simp: appended_def appends_def)

lemma wire_octets:
  "in_memory le 2 (if (if le' = le then False else True) then byteSwap16 u else u) =
     (if le' then octets_le 2 u else rev (octets_le 2 u))"
  "in_memory le 4 (if (if le' = le then False else True) then byteSwap32 v else v) =
     (if le' then octets_le 4 v else rev (octets_le 4 v))"
  "in_memory le 8 (if (if le' = le then False else True) then byteSwap64 w else w) =
     (if le' then octets_le 8 w else rev (octets_le 8 w))"
  by (cases le; cases le'; simp add: in_memory_def byteSwap16_octets byteSwap32_octets byteSwap64_octets)+

lemma setByteSwapFlag_simps [simp]:
  "ms_wf (setByteSwapFlag host s le) = ms_wf s" "ms_out (setByteSwapFlag host s le) = ms_out s"
  "pd_marshal_byte_swap (setByteSwapFlag host s le) = (if le = host then False else True)"
  by (simp_all add: setByteSwapFlag_def ms_wf_def ms_out_def)

lemma appends_setByteSwapFlag [simp]: "appends (setByteSwapFlag host s le) bs r = appends s bs r"
  by (simp add: appends_def)

text \<open>C21. The octets on the wire depend on the byte order chosen with \<^verbatim>\<open>setByteSwapFlag\<close> only, not on
  the host: little endian with the flag set, big endian without, after the padding to the alignment.\<close>

theorem marshal_wire_format:
  assumes "ms_wf s"
  shows "appends s (if le then octets_le 2 u else rev (octets_le 2 u))
      (marshalUShort (ms_ops host heap) (setByteSwapFlag host s le) u) \<and>
    appends s (if le then octets_le 4 v else rev (octets_le 4 v))
      (marshalULong (ms_ops host heap) (setByteSwapFlag host s le) v) \<and>
    appends s (if le then octets_le 8 w else rev (octets_le 8 w))
      (marshalULongLong (ms_ops host heap) (setByteSwapFlag host s le) w)"
proof -
  let ?t = "setByteSwapFlag host s le"
  have wf: "ms_wf ?t" using assms by simp
  have "marshalUShort (ms_ops host heap) ?t u =
      ms_put_prim heap ?t (if le then octets_le 2 u else rev (octets_le 2 u))"
    "marshalULong (ms_ops host heap) ?t v =
      ms_put_prim heap ?t (if le then octets_le 4 v else rev (octets_le 4 v))"
    "marshalULongLong (ms_ops host heap) ?t w =
      ms_put_prim heap ?t (if le then octets_le 8 w else rev (octets_le 8 w))"
    by (simp_all only: marshalUShort_def marshalULong_def marshalULongLong_def ms_ops_simps
        setByteSwapFlag_simps wire_octets)
  then show ?thesis
    using put_prim_appends [OF wf, of "if le then octets_le 2 u else rev (octets_le 2 u)" heap]
      put_prim_appends [OF wf, of "if le then octets_le 4 v else rev (octets_le 4 v)" heap]
      put_prim_appends [OF wf, of "if le then octets_le 8 w else rev (octets_le 8 w)" heap]
    by (simp split del: if_split) (simp split: if_splits)
qed

theorem marshal_wire_format_witness:
  "\<exists>s. cdrMemoryStream_new (\<lambda>n. 1000) 100 0 False = Inr s \<and>
     appends s (if False then octets_le 4 (258 :: 32 word) else rev (octets_le 4 (258 :: 32 word)))
       (marshalULong (ms_ops True (\<lambda>n. 1000)) (setByteSwapFlag True s False) 258)"
proof -
  obtain s where s: "cdrMemoryStream_new (\<lambda>n. 1000) 100 0 False = Inr s" "ms_wf s"
    using ms_new_wf by blast
  from marshal_wire_format [OF s(2), of False _ True "\<lambda>n. 1000" 258] s(1) show ?thesis by blast
qed

section \<open>Counting\<close>

lemma cs_ops_simps [simp]:
  "put_octet_array (cs_ops le) = cs_put_octet_array" "put_prim (cs_ops le) = cs_put_prim"
  "marshal_byte_swap (cs_ops le) n = False" "host_le (cs_ops le) = le"
  by (simp_all add: cs_ops_def)

lemma appended_length:
  "appended s a bs s' \<Longrightarrow> alignment a \<Longrightarrow> length (ms_out s') = align_to (length (ms_out s)) a + length bs"
  using align_to_ge [of a "length (ms_out s)"] by (auto simp: appended_def)

lemma counting_prim:
  assumes "ms_wf s" and "alignment (length bs)" and "length bs' = length bs"
    and "ms_put_prim heap s bs = Inr s'"
  shows "cs_put_prim (length (ms_out s)) bs' = Inr (length (ms_out s')) \<and> ms_wf s'"
proof -
  have "appended s (length bs) bs s'" using put_prim_appended [OF assms(1,2), of heap] assms(4) by auto
  from appended_length [OF this assms(2)] this show ?thesis
    by (simp add: cs_put_prim_def appended_def assms(3))
qed

lemma counting_value:
  assumes "ms_wf s" and "marshal_value (ms_ops le heap) s v = Inr s'"
  shows "marshal_value (cs_ops le) (length (ms_out s)) v = Inr (length (ms_out s')) \<and> ms_wf s'"
proof (cases v)
  case (VOctets bs)
  have "\<exists>t. ms_put_octet_array heap s bs 1 = Inr t \<and> appended s 1 bs t"
    by (rule put_array_appended [OF assms(1)]) simp
  with VOctets assms(2) show ?thesis using appended_length [of s 1 bs s']
    by (auto simp: cs_put_octet_array_def appended_def)
next
  case (VOctet x)
  then show ?thesis using counting_prim [OF assms(1), of "[x]" "[x]" heap s'] assms(2)
    by (simp add: marshalOctet_def)
next
  case (VBoolean x)
  then show ?thesis
    using counting_prim [OF assms(1), of "[if x then 1 else 0]" "[if x then 1 else 0]" heap s'] assms(2)
    by (simp add: marshalBoolean_def marshalOctet_def)
next
  case (VUShort x)
  then show ?thesis
    using counting_prim [OF assms(1), of "in_memory le 2 (if pd_marshal_byte_swap s then byteSwap16 x else x)"
        "in_memory le 2 x" heap s'] assms(2)
    by (simp add: marshalUShort_def)
next
  case (VULong x)
  then show ?thesis
    using counting_prim [OF assms(1), of "in_memory le 4 (if pd_marshal_byte_swap s then byteSwap32 x else x)"
        "in_memory le 4 x" heap s'] assms(2)
    by (simp add: marshalULong_def)
next
  case (VULongLong x)
  then show ?thesis
    using counting_prim [OF assms(1), of "in_memory le 8 (if pd_marshal_byte_swap s then byteSwap64 x else x)"
        "in_memory le 8 x" heap s'] assms(2)
    by (simp add: marshalULongLong_def)
qed

text \<open>C32. The counting stream, started at the length of a memory stream, counts exactly the octets that
  the same marshalling calls write to the memory stream, padding included.\<close>

theorem counting_stream_agrees:
  assumes "ms_wf s" and "marshal_all (ms_ops le heap) s vs = Inr s'"
  shows "marshal_all (cs_ops le) (length (ms_out s)) vs = Inr (length (ms_out s'))"
  using assms
proof (induction vs arbitrary: s)
  case Nil
  then show ?case by simp
next
  case (Cons v vs)
  then obtain t where t: "marshal_value (ms_ops le heap) s v = Inr t" "marshal_all (ms_ops le heap) t vs = Inr s'"
    by (auto simp: ebind_eq_Inr)
  with counting_value [OF Cons.prems(1) t(1)] Cons.IH [of t] show ?case by simp
qed

theorem counting_stream_agrees_witness:
  "\<exists>s s'. cdrMemoryStream_new (\<lambda>n. 1000) 100 0 False = Inr s \<and>
     marshal_all (ms_ops True (\<lambda>n. 1000)) s [VOctet 7, VULongLong 1] = Inr s' \<and>
     marshal_all (cs_ops True) 0 [VOctet 7, VULongLong 1] = Inr (length (ms_out s'))"
proof -
  obtain s where s: "cdrMemoryStream_new (\<lambda>n. 1000) 100 0 False = Inr s" "ms_wf s" "ms_out s = []"
    using ms_new_wf by blast
  obtain s' where s': "marshal_all (ms_ops True (\<lambda>n. 1000)) s [VOctet 7, VULongLong 1] = Inr s'"
    using ms.marshal_all_carries [OF s(2)] by blast
  from counting_stream_agrees [OF s(2) s'] s(1,3) s' show ?thesis by auto
qed

section \<open>The overrun check\<close>

text \<open>\<^verbatim>\<open>checkInputOverrun\<close> answers whether the items are there, as long as their total size is
  below 2^32.\<close>

theorem checkInputOverrun_correct:
  assumes wf: "ms_wf s" and a: "alignment a" and small: "unat itemSize * unat nItems < 2 ^ 32"
  shows "fst (checkInputOverrun s itemSize nItems a) \<longleftrightarrow>
    align_to (ms_pos s) a + unat itemSize * unat nItems \<le> length (ms_out s)"
proof -
  have "unat (itemSize * nItems) = unat itemSize * unat nItems"
    using small by (simp add: unat_word_ariths)
  then show ?thesis
    using wf ms_align(2) [OF wf a] ms_out_length [OF wf]
    by (auto simp: checkInputOverrun_def Let_def ms_wf_def)
qed

theorem checkInputOverrun_correct_witness:
  "\<exists>s. cdrMemoryStream_new (\<lambda>n. 1000) 100 0 False = Inr s \<and>
     (fst (checkInputOverrun s 4 3 4) \<longleftrightarrow> align_to (ms_pos s) 4 + unat (4 :: 32 word) * unat (3 :: 32 word) \<le> length (ms_out s))"
proof -
  obtain s where s: "cdrMemoryStream_new (\<lambda>n. 1000) 100 0 False = Inr s" "ms_wf s"
    using ms_new_wf by blast
  have "fst (checkInputOverrun s 4 3 4) \<longleftrightarrow>
      align_to (ms_pos s) 4 + unat (4 :: 32 word) * unat (3 :: 32 word) \<le> length (ms_out s)"
    by (rule checkInputOverrun_correct [OF s(2)]) simp_all
  with s(1) show ?thesis by blast
qed

text \<open>Beyond that the 32-bit product wraps: with one octet of input, the check accepts a sequence of
  2^30 items of four octets.\<close>

theorem checkInputOverrun_wraps:
  "\<exists>s. cdrMemoryStream_external 1000 [0] = s \<and> fst (checkInputOverrun s 4 (2 ^ 30) 1) \<and>
     skipInput s (4 * 2 ^ 30) = Inl (Throw MARSHAL MARSHAL_PassEndOfMessage)"
proof (intro exI conjI)
  let ?s = "cdrMemoryStream_external 1000 [0]"
  have s: "pd_inb_mkr ?s = 1000" "pd_inb_end ?s = 1001" "pd_readonly ?s"
    by (simp_all add: cdrMemoryStream_external_def rewindPtrs_def)
  have "(4 :: 32 word) * 2 ^ 30 = 0" by simp
  then show "fst (checkInputOverrun ?s 4 (2 ^ 30) 1)"
    unfolding checkInputOverrun_def using s by (simp add: Let_def)
  show "skipInput ?s (4 * 2 ^ 30) = Inl (Throw MARSHAL MARSHAL_PassEndOfMessage)"
    using s by (simp add: skipInput_def fetchInputData_def ptr_diff_def)
qed (rule refl)

end
