(* ===== verification/Code_Sets.thy ===== *)
theory Code_Sets
  imports Cdr_RawString
begin

unbundle bit_operations_syntax

text \<open>
  The conversion between native and transmission code sets
  (\<^verbatim>\<open>include/omniORB4/codeSets.h\<close>, \<^verbatim>\<open>orbcore/cs-8bit.cc\<close>): the virtual functions of a transmission
  code set as a record of functions, the single-byte code sets with their translation tables, and the
  native single-byte code set, which works with any transmission code set.

  A C string is the list of its octets up to its null, which the model appends where the code reads
  it. The global \<^verbatim>\<open>orbParameters::strictIIOP\<close> is the parameter \<open>strict\<close>. What the streams offer beyond
  their integer and block operations is in the record \<open>str_io\<close>.
\<close>

type_synonym UniChar = "16 word"

record 's str_io =
  prim :: "'s cdrOps"
  overrun :: "'s \<Rightarrow> 32 word \<Rightarrow> 32 word \<Rightarrow> nat \<Rightarrow> bool \<times> 's"
  raw_put :: "'s \<Rightarrow> 8 word list \<Rightarrow> (32 word \<times> 's) result"

definition ms_io :: "bool \<Rightarrow> (nat \<Rightarrow> nat) \<Rightarrow> cdrMemoryStream str_io" where
  "ms_io le heap =
     \<lparr>prim = ms_ops le heap, overrun = checkInputOverrun, raw_put = marshalRawString le heap\<rparr>"

abbreviation "BadInputChar \<equiv> Throw DATA_CONVERSION DATA_CONVERSION_BadInput"
abbreviation "CannotMap \<equiv> Throw DATA_CONVERSION DATA_CONVERSION_CannotMapChar"
abbreviation "StringIsTooLong \<equiv> Throw MARSHAL MARSHAL_StringIsTooLong"
abbreviation "NotEndWithNull \<equiv> Throw MARSHAL MARSHAL_StringNotEndWithNull"
abbreviation "PassEndOfMessage \<equiv> Throw MARSHAL MARSHAL_PassEndOfMessage"
abbreviation "CodeSetNotKnown \<equiv> Throw BAD_INV_ORDER BAD_INV_ORDER_CodeSetNotKnownYet"

section \<open>The classes\<close>

datatype cs_kind = CS_Other | CS_8bit | CS_16bit

text \<open>What a transmission code set looks at in a native code set: id, kind and, for a simple set, the
  tables.\<close>

record ncs_c =
  ncs_id :: "32 word"
  ncs_kind :: cs_kind
  ncs_toU :: "UniChar list"
  ncs_fromU :: "8 word list list"

text \<open>
  The virtual functions of \<^verbatim>\<open>omniCodeSet::TCS_C\<close>. A fast function returns \<open>None\<close> where the code
  returns 0, which tells the caller to go through Unicode. An unmarshalled string is its length and
  the buffer with the final null.
\<close>

record 's tcs_c =
  tcs_id :: "32 word"
  tcs_marshalChar :: "'s \<Rightarrow> UniChar \<Rightarrow> 's result"
  tcs_marshalString :: "'s \<Rightarrow> 32 word \<Rightarrow> 32 word \<Rightarrow> UniChar list \<Rightarrow> 's result"
  tcs_unmarshalChar :: "'s \<Rightarrow> (UniChar \<times> 's) result"
  tcs_unmarshalString :: "'s \<Rightarrow> 32 word \<Rightarrow> (32 word \<times> UniChar list \<times> 's) result"
  tcs_fastMarshalChar :: "'s \<Rightarrow> ncs_c \<Rightarrow> 8 word \<Rightarrow> 's option result"
  tcs_fastMarshalString :: "'s \<Rightarrow> ncs_c \<Rightarrow> 32 word \<Rightarrow> 32 word \<Rightarrow> 8 word list \<Rightarrow> 's option result"
  tcs_fastUnmarshalChar :: "'s \<Rightarrow> ncs_c \<Rightarrow> (8 word option \<times> 's) result"
  tcs_fastUnmarshalString ::
    "'s \<Rightarrow> ncs_c \<Rightarrow> 32 word \<Rightarrow> ((32 word \<times> 8 word list) option \<times> 's) result"

section \<open>Translation tables\<close>

definition to_lookup :: "UniChar list \<Rightarrow> 8 word \<Rightarrow> UniChar result" where
  "to_lookup toU c = arr_get toU (unat c)"

definition from_lookup :: "'a list list \<Rightarrow> UniChar \<Rightarrow> 'a result" where
  "from_lookup fromU uc =
     ebind (arr_get fromU (unat (drop_bit 8 (uc AND 0xff00)))) (\<lambda>row. arr_get row (unat (uc AND 0x00ff)))"

text \<open>A zero anywhere but at zero means that there is no such character.\<close>

definition to_char :: "UniChar list \<Rightarrow> 8 word \<Rightarrow> UniChar result" where
  "to_char toU c =
     ebind (to_lookup toU c) (\<lambda>uc. if c \<noteq> 0 \<and> uc = 0 then Inl CannotMap else Inr uc)"

definition from_char :: "8 word list list \<Rightarrow> UniChar \<Rightarrow> 8 word result" where
  "from_char fromU uc =
     ebind (from_lookup fromU uc) (\<lambda>c. if uc \<noteq> 0 \<and> c = 0 then Inl CannotMap else Inr c)"

fun map_chars :: "('a \<Rightarrow> 'b result) \<Rightarrow> 'a list \<Rightarrow> nat \<Rightarrow> 'b list result" where
  "map_chars f xs 0 = Inr []"
| "map_chars f [] (Suc n) = Inl Undefined"
| "map_chars f (x # xs) (Suc n) =
     ebind (f x) (\<lambda>y. ebind (map_chars f xs n) (\<lambda>ys. Inr (y # ys)))"

section \<open>The native single-byte code set\<close>

definition NCS_C_8bit_marshalChar ::
    "ncs_c \<Rightarrow> 's \<Rightarrow> 's tcs_c option \<Rightarrow> 8 word \<Rightarrow> 's result" where
  "NCS_C_8bit_marshalChar ncs stream tcs c =
     (case tcs of None \<Rightarrow> Inl CodeSetNotKnown
      | Some tcs \<Rightarrow> ebind (tcs_fastMarshalChar tcs stream ncs c) (\<lambda>r.
          case r of Some stream \<Rightarrow> Inr stream
          | None \<Rightarrow> ebind (to_char (ncs_toU ncs) c) (\<lambda>uc. tcs_marshalChar tcs stream uc)))"

definition NCS_C_8bit_marshalString ::
    "ncs_c \<Rightarrow> 's \<Rightarrow> 's tcs_c option \<Rightarrow> 32 word \<Rightarrow> 32 word \<Rightarrow> 8 word list \<Rightarrow> 's result" where
  "NCS_C_8bit_marshalString ncs stream tcs bound len s =
     (case tcs of None \<Rightarrow> Inl CodeSetNotKnown
      | Some tcs \<Rightarrow> ebind (tcs_fastMarshalString tcs stream ncs bound len s) (\<lambda>r.
          case r of Some stream \<Rightarrow> Inr stream
          | None \<Rightarrow>
              (let len = (if len = 0 then of_nat (length s) else len) in
               ebind (map_chars (to_char (ncs_toU ncs)) (s @ [0]) (unat len + 1)) (\<lambda>us.
               tcs_marshalString tcs stream bound len us))))"

definition NCS_C_8bit_unmarshalChar ::
    "ncs_c \<Rightarrow> 's \<Rightarrow> 's tcs_c option \<Rightarrow> (8 word \<times> 's) result" where
  "NCS_C_8bit_unmarshalChar ncs stream tcs =
     (case tcs of None \<Rightarrow> Inl CodeSetNotKnown
      | Some tcs \<Rightarrow> ebind (tcs_fastUnmarshalChar tcs stream ncs) (\<lambda>(r, stream).
          case r of Some c \<Rightarrow> Inr (c, stream)
          | None \<Rightarrow> ebind (tcs_unmarshalChar tcs stream) (\<lambda>(uc, stream).
              ebind (from_char (ncs_fromU ncs) uc) (\<lambda>c. Inr (c, stream)))))"

definition NCS_C_8bit_unmarshalString ::
    "ncs_c \<Rightarrow> 's \<Rightarrow> 's tcs_c option \<Rightarrow> 32 word \<Rightarrow> (32 word \<times> 8 word list \<times> 's) result" where
  "NCS_C_8bit_unmarshalString ncs stream tcs bound =
     (case tcs of None \<Rightarrow> Inl CodeSetNotKnown
      | Some tcs \<Rightarrow> ebind (tcs_fastUnmarshalString tcs stream ncs bound) (\<lambda>(r, stream).
          case r of Some (len, s) \<Rightarrow> Inr (len, s, stream)
          | None \<Rightarrow> ebind (tcs_unmarshalString tcs stream bound) (\<lambda>(len, us, stream).
              ebind (map_chars (from_char (ncs_fromU ncs)) us (unat len + 1)) (\<lambda>s.
              Inr (len, s, stream)))))"

section \<open>The single-byte transmission code set\<close>

definition TCS_C_8bit_marshalChar :: "'s str_io \<Rightarrow> 8 word list list \<Rightarrow> 's \<Rightarrow> UniChar \<Rightarrow> 's result" where
  "TCS_C_8bit_marshalChar io fromU stream uc =
     ebind (from_char fromU uc) (\<lambda>c. marshalOctet (prim io) stream c)"

fun marshal_chars ::
    "'s str_io \<Rightarrow> ('a \<Rightarrow> 8 word result) \<Rightarrow> 's \<Rightarrow> 'a list \<Rightarrow> nat \<Rightarrow> 's result" where
  "marshal_chars io f stream us 0 = Inr stream"
| "marshal_chars io f stream [] (Suc n) = Inl Undefined"
| "marshal_chars io f stream (uc # us) (Suc n) =
     ebind (f uc) (\<lambda>c. ebind (marshalOctet (prim io) stream c) (\<lambda>stream.
     marshal_chars io f stream us n))"

definition TCS_C_8bit_marshalString ::
    "'s str_io \<Rightarrow> 8 word list list \<Rightarrow> 's \<Rightarrow> 32 word \<Rightarrow> 32 word \<Rightarrow> UniChar list \<Rightarrow> 's result" where
  "TCS_C_8bit_marshalString io fromU stream bound len us =
     (if bound \<noteq> 0 \<and> bound < len then Inl StringIsTooLong
      else let len = len + 1 in
        ebind (marshalULong (prim io) stream len) (\<lambda>stream.
        marshal_chars io (from_char fromU) stream us (unat len)))"

definition TCS_C_8bit_unmarshalChar :: "'s str_io \<Rightarrow> UniChar list \<Rightarrow> 's \<Rightarrow> (UniChar \<times> 's) result" where
  "TCS_C_8bit_unmarshalChar io toU stream =
     ebind (unmarshalOctet (prim io) stream) (\<lambda>(c, stream).
     ebind (to_char toU c) (\<lambda>uc. Inr (uc, stream)))"

fun unmarshal_chars ::
    "'s str_io \<Rightarrow> (8 word \<Rightarrow> 'a result) \<Rightarrow> 's \<Rightarrow> nat \<Rightarrow> ('a list \<times> 's) result" where
  "unmarshal_chars io f stream 0 = Inr ([], stream)"
| "unmarshal_chars io f stream (Suc n) =
     ebind (unmarshalOctet (prim io) stream) (\<lambda>(c, stream).
     ebind (f c) (\<lambda>uc.
     ebind (unmarshal_chars io f stream n) (\<lambda>(us, stream). Inr (uc # us, stream))))"

text \<open>
  The length that starts every string, with its checks: \<open>None\<close> for the invalid length zero that is
  accepted as an empty string.
\<close>

definition string_length ::
    "bool \<Rightarrow> 's str_io \<Rightarrow> 's \<Rightarrow> 32 word \<Rightarrow> (32 word option \<times> 's) result" where
  "string_length strict io stream bound =
     ebind (unmarshalULong (prim io) stream) (\<lambda>(mlen, stream).
     if mlen = 0 then (if strict then Inl NotEndWithNull else Inr (None, stream))
     else if bound \<noteq> 0 \<and> bound < mlen - 1 then Inl StringIsTooLong
     else let (ok, stream) = overrun io stream 1 mlen 1 in
          if \<not> ok then Inl PassEndOfMessage else Inr (Some mlen, stream))"

definition TCS_C_8bit_unmarshalString ::
    "bool \<Rightarrow> 's str_io \<Rightarrow> UniChar list \<Rightarrow> 's \<Rightarrow> 32 word \<Rightarrow> (32 word \<times> UniChar list \<times> 's) result" where
  "TCS_C_8bit_unmarshalString strict io toU stream bound =
     ebind (string_length strict io stream bound) (\<lambda>(mlen, stream).
     case mlen of None \<Rightarrow> Inr (0, [0], stream)
     | Some mlen \<Rightarrow>
         ebind (unmarshal_chars io (to_char toU) stream (unat mlen)) (\<lambda>(us, stream).
         if last us \<noteq> 0 then Inl NotEndWithNull else Inr (mlen - 1, us, stream)))"

definition TCS_C_8bit_fastMarshalChar ::
    "'s str_io \<Rightarrow> 32 word \<Rightarrow> 's \<Rightarrow> ncs_c \<Rightarrow> 8 word \<Rightarrow> 's option result" where
  "TCS_C_8bit_fastMarshalChar io id0 stream ncs c =
     (if ncs_id ncs = id0 then ebind (marshalOctet (prim io) stream c) (\<lambda>stream. Inr (Some stream))
      else Inr None)"

definition TCS_C_8bit_fastMarshalString ::
    "'s str_io \<Rightarrow> 32 word \<Rightarrow> 's \<Rightarrow> ncs_c \<Rightarrow> 32 word \<Rightarrow> 32 word \<Rightarrow> 8 word list \<Rightarrow> 's option result" where
  "TCS_C_8bit_fastMarshalString io id0 stream ncs bound len s =
     (if ncs_id ncs = id0 then
        (if len = 0 then
           ebind (raw_put io stream s) (\<lambda>(len, stream).
           if bound \<noteq> 0 \<and> bound < len - 1 then Inl StringIsTooLong else Inr (Some stream))
         else if bound \<noteq> 0 \<and> bound < len then Inl StringIsTooLong
         else let len = len + 1 in
           ebind (marshalULong (prim io) stream len) (\<lambda>stream.
           if length (s @ [0]) < unat len then Inl Undefined
           else ebind (put_octet_array (prim io) stream (take (unat len) (s @ [0])) 1) (\<lambda>stream.
                Inr (Some stream))))
      else Inr None)"

definition TCS_C_8bit_fastUnmarshalChar ::
    "'s str_io \<Rightarrow> 32 word \<Rightarrow> 's \<Rightarrow> ncs_c \<Rightarrow> (8 word option \<times> 's) result" where
  "TCS_C_8bit_fastUnmarshalChar io id0 stream ncs =
     (if ncs_id ncs = id0 then
        ebind (unmarshalOctet (prim io) stream) (\<lambda>(c, stream). Inr (Some c, stream))
      else Inr (None, stream))"

text \<open>The accepted length zero returns 0 although the length has been taken from the stream.\<close>

definition TCS_C_8bit_fastUnmarshalString ::
    "bool \<Rightarrow> 's str_io \<Rightarrow> 32 word \<Rightarrow> 's \<Rightarrow> ncs_c \<Rightarrow> 32 word \<Rightarrow>
     ((32 word \<times> 8 word list) option \<times> 's) result" where
  "TCS_C_8bit_fastUnmarshalString strict io id0 stream ncs bound =
     (if ncs_id ncs = id0 then
        ebind (string_length strict io stream bound) (\<lambda>(mlen, stream).
        case mlen of None \<Rightarrow> Inr (None, stream)
        | Some mlen \<Rightarrow>
            ebind (get_octet_array (prim io) stream (unat mlen) 1) (\<lambda>(s, stream).
            if last s \<noteq> 0 then Inl NotEndWithNull else Inr (Some (mlen - 1, s), stream)))
      else Inr (None, stream))"

definition TCS_C_8bit ::
    "bool \<Rightarrow> 's str_io \<Rightarrow> 32 word \<Rightarrow> UniChar list \<Rightarrow> 8 word list list \<Rightarrow> 's tcs_c" where
  "TCS_C_8bit strict io id0 toU fromU =
     \<lparr>tcs_id = id0,
      tcs_marshalChar = TCS_C_8bit_marshalChar io fromU,
      tcs_marshalString = TCS_C_8bit_marshalString io fromU,
      tcs_unmarshalChar = TCS_C_8bit_unmarshalChar io toU,
      tcs_unmarshalString = TCS_C_8bit_unmarshalString strict io toU,
      tcs_fastMarshalChar = TCS_C_8bit_fastMarshalChar io id0,
      tcs_fastMarshalString = TCS_C_8bit_fastMarshalString io id0,
      tcs_fastUnmarshalChar = TCS_C_8bit_fastUnmarshalChar io id0,
      tcs_fastUnmarshalString = TCS_C_8bit_fastUnmarshalString strict io id0\<rparr>"

end
