(* ===== verification/Utf8.thy ===== *)
theory Utf8
  imports Code_Sets
begin

unbundle bit_operations_syntax

text \<open>
  The UTF-8 code sets (\<^verbatim>\<open>orbcore/cs-UTF-8.cc\<close>): the native code set \<open>NCS_C_UTF_8\<close>, the transmission
  code set \<open>TCS_C_UTF_8\<close> with its fast paths, and the validation of native strings. Unicode strings
  are sequences of 16-bit units (\<^verbatim>\<open>omniCodeSet::UniChar\<close>), characters beyond them are surrogate pairs.
  The buffers that grow as they are filled are the lists they hold. The global \<^verbatim>\<open>validateUTF8\<close> is the
  parameter \<open>validate\<close>.
\<close>

section \<open>Tables\<close>

text \<open>How many octets follow the first octet of a sequence.\<close>

definition utf8Count :: "nat list" where
  "utf8Count =
    [0, 0, 0, 0, 0, 0, 0, 0, 0, 0, 0, 0, 0, 0, 0, 0,
    0, 0, 0, 0, 0, 0, 0, 0, 0, 0, 0, 0, 0, 0, 0, 0,
    0, 0, 0, 0, 0, 0, 0, 0, 0, 0, 0, 0, 0, 0, 0, 0,
    0, 0, 0, 0, 0, 0, 0, 0, 0, 0, 0, 0, 0, 0, 0, 0,
    0, 0, 0, 0, 0, 0, 0, 0, 0, 0, 0, 0, 0, 0, 0, 0,
    0, 0, 0, 0, 0, 0, 0, 0, 0, 0, 0, 0, 0, 0, 0, 0,
    0, 0, 0, 0, 0, 0, 0, 0, 0, 0, 0, 0, 0, 0, 0, 0,
    0, 0, 0, 0, 0, 0, 0, 0, 0, 0, 0, 0, 0, 0, 0, 0,
    6, 6, 6, 6, 6, 6, 6, 6, 6, 6, 6, 6, 6, 6, 6, 6,
    6, 6, 6, 6, 6, 6, 6, 6, 6, 6, 6, 6, 6, 6, 6, 6,
    6, 6, 6, 6, 6, 6, 6, 6, 6, 6, 6, 6, 6, 6, 6, 6,
    6, 6, 6, 6, 6, 6, 6, 6, 6, 6, 6, 6, 6, 6, 6, 6,
    1, 1, 1, 1, 1, 1, 1, 1, 1, 1, 1, 1, 1, 1, 1, 1,
    1, 1, 1, 1, 1, 1, 1, 1, 1, 1, 1, 1, 1, 1, 1, 1,
    2, 2, 2, 2, 2, 2, 2, 2, 2, 2, 2, 2, 2, 2, 2, 2,
    3, 3, 3, 3, 3, 3, 3, 3, 4, 4, 4, 4, 5, 5, 6, 6]"

text \<open>The bits of the first octet that belong to the character.\<close>

definition utf8Mask :: "8 word list" where
  "utf8Mask =
    [0x7f, 0x7f, 0x7f, 0x7f, 0x7f, 0x7f, 0x7f, 0x7f, 0x7f, 0x7f, 0x7f, 0x7f, 0x7f, 0x7f, 0x7f, 0x7f,
    0x7f, 0x7f, 0x7f, 0x7f, 0x7f, 0x7f, 0x7f, 0x7f, 0x7f, 0x7f, 0x7f, 0x7f, 0x7f, 0x7f, 0x7f, 0x7f,
    0x7f, 0x7f, 0x7f, 0x7f, 0x7f, 0x7f, 0x7f, 0x7f, 0x7f, 0x7f, 0x7f, 0x7f, 0x7f, 0x7f, 0x7f, 0x7f,
    0x7f, 0x7f, 0x7f, 0x7f, 0x7f, 0x7f, 0x7f, 0x7f, 0x7f, 0x7f, 0x7f, 0x7f, 0x7f, 0x7f, 0x7f, 0x7f,
    0x7f, 0x7f, 0x7f, 0x7f, 0x7f, 0x7f, 0x7f, 0x7f, 0x7f, 0x7f, 0x7f, 0x7f, 0x7f, 0x7f, 0x7f, 0x7f,
    0x7f, 0x7f, 0x7f, 0x7f, 0x7f, 0x7f, 0x7f, 0x7f, 0x7f, 0x7f, 0x7f, 0x7f, 0x7f, 0x7f, 0x7f, 0x7f,
    0x7f, 0x7f, 0x7f, 0x7f, 0x7f, 0x7f, 0x7f, 0x7f, 0x7f, 0x7f, 0x7f, 0x7f, 0x7f, 0x7f, 0x7f, 0x7f,
    0x7f, 0x7f, 0x7f, 0x7f, 0x7f, 0x7f, 0x7f, 0x7f, 0x7f, 0x7f, 0x7f, 0x7f, 0x7f, 0x7f, 0x7f, 0x7f,
    0x00, 0x00, 0x00, 0x00, 0x00, 0x00, 0x00, 0x00, 0x00, 0x00, 0x00, 0x00, 0x00, 0x00, 0x00, 0x00,
    0x00, 0x00, 0x00, 0x00, 0x00, 0x00, 0x00, 0x00, 0x00, 0x00, 0x00, 0x00, 0x00, 0x00, 0x00, 0x00,
    0x00, 0x00, 0x00, 0x00, 0x00, 0x00, 0x00, 0x00, 0x00, 0x00, 0x00, 0x00, 0x00, 0x00, 0x00, 0x00,
    0x00, 0x00, 0x00, 0x00, 0x00, 0x00, 0x00, 0x00, 0x00, 0x00, 0x00, 0x00, 0x00, 0x00, 0x00, 0x00,
    0x1f, 0x1f, 0x1f, 0x1f, 0x1f, 0x1f, 0x1f, 0x1f, 0x1f, 0x1f, 0x1f, 0x1f, 0x1f, 0x1f, 0x1f, 0x1f,
    0x1f, 0x1f, 0x1f, 0x1f, 0x1f, 0x1f, 0x1f, 0x1f, 0x1f, 0x1f, 0x1f, 0x1f, 0x1f, 0x1f, 0x1f, 0x1f,
    0x0f, 0x0f, 0x0f, 0x0f, 0x0f, 0x0f, 0x0f, 0x0f, 0x0f, 0x0f, 0x0f, 0x0f, 0x0f, 0x0f, 0x0f, 0x0f,
    0x07, 0x07, 0x07, 0x07, 0x07, 0x07, 0x07, 0x07, 0x03, 0x03, 0x03, 0x03, 0x01, 0x01, 0x00, 0x00]"

definition validateExt :: "8 word \<Rightarrow> unit result" where
  "validateExt c = (if (c AND 0xc0) XOR 0x80 \<noteq> 0 then Inl BadInputChar else Inr ())"

section \<open>Unicode to octets\<close>

definition utf8_2 :: "UniChar \<Rightarrow> 8 word list" where
  "utf8_2 uc =
     [0xc0 OR ucast (drop_bit 6 (uc AND 0x07c0)),
      0x80 OR ucast (uc AND 0x003f)]"

definition utf8_3 :: "UniChar \<Rightarrow> 8 word list" where
  "utf8_3 uc =
     [0xe0 OR ucast (drop_bit 12 (uc AND 0xf000)),
      0x80 OR ucast (drop_bit 6 (uc AND 0x0fc0)),
      0x80 OR ucast (uc AND 0x003f)]"

definition utf8_4 :: "32 word \<Rightarrow> 8 word list" where
  "utf8_4 lc =
     [0xf0 OR ucast (drop_bit 18 (lc AND 0x001c0000)),
      0x80 OR ucast (drop_bit 12 (lc AND 0x0003f000)),
      0x80 OR ucast (drop_bit 6 (lc AND 0x00000fc0)),
      0x80 OR ucast (lc AND 0x000000ef)]"

text \<open>
  The loop that \<^verbatim>\<open>TCS_C_UTF_8::marshalString\<close> and \<^verbatim>\<open>NCS_C_UTF_8::unmarshalString\<close> share: the octets
  of the first \<open>n\<close> units, with the last value of \<^verbatim>\<open>uc\<close>. With \<open>n\<close> the units left including the one at
  \<^verbatim>\<open>i\<close>, the test \<^verbatim>\<open>++i == len\<close> is \<open>n = 2\<close>.
\<close>

fun encode_units :: "UniChar \<Rightarrow> UniChar list \<Rightarrow> nat \<Rightarrow> (8 word list \<times> UniChar) result" where
  "encode_units prev us 0 = Inr ([], prev)"
| "encode_units prev [] (Suc n) = Inl Undefined"
| "encode_units prev (uc # us) (Suc n) =
     (if uc < 0x0080 then
        ebind (encode_units uc us n) (\<lambda>(bs, l). Inr (ucast uc # bs, l))
      else if uc < 0x0800 then
        ebind (encode_units uc us n) (\<lambda>(bs, l). Inr (utf8_2 uc @ bs, l))
      else if uc < 0xd800 then
        ebind (encode_units uc us n) (\<lambda>(bs, l). Inr (utf8_3 uc @ bs, l))
      else if uc < 0xdc00 then
        (if n = 1 then Inl BadInputChar
         else case us of [] \<Rightarrow> Inl Undefined
         | uc2 # us' \<Rightarrow>
             (if uc2 < 0xdc00 \<or> 0xdfff < uc2 then Inl BadInputChar
              else let lc = push_bit 10 (ucast uc - 0xd800) + ucast uc2 - 0xdc00 + 0x10000
                   in ebind (encode_units uc2 us' (n - 1)) (\<lambda>(bs, l). Inr (utf8_4 lc @ bs, l))))
      else if uc < 0xe000 then Inl BadInputChar
      else ebind (encode_units uc us n) (\<lambda>(bs, l). Inr (utf8_3 uc @ bs, l)))"

section \<open>Octets to Unicode\<close>

text \<open>One unit, or a surrogate pair.\<close>

definition units_of :: "32 word \<Rightarrow> UniChar list" where
  "units_of lc =
     (if lc \<le> 0xffff then [ucast lc]
      else let lc = lc - 0x10000
           in [ucast (drop_bit 10 lc + 0xd800), ucast ((lc AND 0x3ff) + 0xdc00)])"

text \<open>The octets that follow the first one, from a string in memory.\<close>

fun trail :: "nat \<Rightarrow> 32 word \<Rightarrow> 8 word list \<Rightarrow> (32 word \<times> 8 word list) result" where
  "trail 0 lc cs = Inr (lc, cs)"
| "trail (Suc n) lc [] = Inl Undefined"
| "trail (Suc n) lc (c # cs) =
     ebind (validateExt c) (\<lambda>_. trail n (push_bit 6 lc OR ucast (c AND 0x3f)) cs)"

lemma trail_shorter: "trail n lc cs = Inr (lc', cs') \<Longrightarrow> length cs' \<le> length cs"
  by (induction n lc cs rule: trail.induct) (auto simp: err_simps)

function decode_string :: "8 word list \<Rightarrow> UniChar list result" where
  "decode_string [] = Inl Undefined"
| "decode_string (c # cs) =
     (if c = 0 then Inr []
      else let bytes = utf8Count ! unat c; lc = ucast (c AND utf8Mask ! unat c) in
        if 4 \<le> bytes then Inl CannotMap
        else ebind (trail bytes lc cs) (\<lambda>(lc, cs).
             ebind (decode_string cs) (\<lambda>us. Inr (units_of lc @ us))))"
  by pat_completeness auto
termination
  by (relation "measure length") (auto dest: trail_shorter)

declare decode_string.simps [simp del]

text \<open>The same from a stream, where \<open>n\<close> octets are left of the string.\<close>

fun get_trail :: "'s str_io \<Rightarrow> nat \<Rightarrow> 32 word \<Rightarrow> 's \<Rightarrow> (32 word \<times> 's) result" where
  "get_trail io 0 lc stream = Inr (lc, stream)"
| "get_trail io (Suc n) lc stream =
     ebind (unmarshalOctet (prim io) stream) (\<lambda>(c, stream).
     ebind (validateExt c) (\<lambda>_. get_trail io n (push_bit 6 lc OR ucast (c AND 0x3f)) stream))"

function decode_stream ::
    "'s str_io \<Rightarrow> nat \<Rightarrow> 32 word \<Rightarrow> 's \<Rightarrow> (UniChar list \<times> 32 word \<times> 's) result" where
  "decode_stream io n prev stream =
     (if n = 0 then Inr ([], prev, stream)
      else ebind (unmarshalOctet (prim io) stream) (\<lambda>(c, stream).
        let bytes = utf8Count ! unat c; lc = ucast (c AND utf8Mask ! unat c) in
        if bytes = 6 then Inl BadInputChar
        else if 4 \<le> bytes then Inl CannotMap
        else ebind (get_trail io bytes lc stream) (\<lambda>(lc, stream).
             ebind (decode_stream io (n - (1 + bytes)) lc stream) (\<lambda>(us, l, stream).
             Inr (units_of lc @ us, l, stream)))))"
  by pat_completeness auto
termination
  by (relation "measure (\<lambda>(io, n, prev, stream). n)") auto

declare decode_stream.simps [simp del]

section \<open>The native code set\<close>

text \<open>\<^verbatim>\<open>omniCodeSet::ID_UTF_8\<close>\<close>

definition ID_UTF_8 :: "32 word" where
  "ID_UTF_8 = 0x05010001"

definition ncs_utf8 :: ncs_c where
  "ncs_utf8 = \<lparr>ncs_id = ID_UTF_8, ncs_kind = CS_Other, ncs_toU = [], ncs_fromU = []\<rparr>"

definition NCS_C_UTF_8_marshalChar :: "'s \<Rightarrow> 's tcs_c option \<Rightarrow> 8 word \<Rightarrow> 's result" where
  "NCS_C_UTF_8_marshalChar stream tcs c =
     (case tcs of None \<Rightarrow> Inl CodeSetNotKnown
      | Some tcs \<Rightarrow> ebind (tcs_fastMarshalChar tcs stream ncs_utf8 c) (\<lambda>r.
          case r of Some stream \<Rightarrow> Inr stream
          | None \<Rightarrow>
              if c AND 0x80 = 0 then tcs_marshalChar tcs stream (ucast c) else Inl BadInputChar))"

definition NCS_C_UTF_8_marshalString ::
    "'s \<Rightarrow> 's tcs_c option \<Rightarrow> 32 word \<Rightarrow> 32 word \<Rightarrow> 8 word list \<Rightarrow> 's result" where
  "NCS_C_UTF_8_marshalString stream tcs bound len s =
     (case tcs of None \<Rightarrow> Inl CodeSetNotKnown
      | Some tcs \<Rightarrow> ebind (tcs_fastMarshalString tcs stream ncs_utf8 bound len s) (\<lambda>r.
          case r of Some stream \<Rightarrow> Inr stream
          | None \<Rightarrow> ebind (decode_string (s @ [0])) (\<lambda>ub.
              tcs_marshalString tcs stream bound (of_nat (length ub)) (ub @ [0]))))"

definition NCS_C_UTF_8_unmarshalChar :: "'s \<Rightarrow> 's tcs_c option \<Rightarrow> (8 word \<times> 's) result" where
  "NCS_C_UTF_8_unmarshalChar stream tcs =
     (case tcs of None \<Rightarrow> Inl CodeSetNotKnown
      | Some tcs \<Rightarrow> ebind (tcs_fastUnmarshalChar tcs stream ncs_utf8) (\<lambda>(r, stream).
          case r of Some c \<Rightarrow> Inr (c, stream)
          | None \<Rightarrow> ebind (tcs_unmarshalChar tcs stream) (\<lambda>(uc, stream).
              if uc \<le> 0x7f then Inr (ucast uc, stream) else Inl BadInputChar)))"

definition NCS_C_UTF_8_unmarshalString ::
    "'s \<Rightarrow> 's tcs_c option \<Rightarrow> 32 word \<Rightarrow> (32 word \<times> 8 word list \<times> 's) result" where
  "NCS_C_UTF_8_unmarshalString stream tcs bound =
     (case tcs of None \<Rightarrow> Inl CodeSetNotKnown
      | Some tcs \<Rightarrow> ebind (tcs_fastUnmarshalString tcs stream ncs_utf8 bound) (\<lambda>(r, stream).
          case r of Some (len, s) \<Rightarrow> Inr (len, s, stream)
          | None \<Rightarrow> ebind (tcs_unmarshalString tcs stream bound) (\<lambda>(len, us, stream).
              ebind (encode_units 0 us (unat len + 1)) (\<lambda>(b, uc).
              ebind (oassert (uc = 0)) (\<lambda>_. Inr (of_nat (length b) - 1, b, stream))))))"

section \<open>The transmission code set\<close>

definition TCS_C_UTF_8_marshalChar :: "'s str_io \<Rightarrow> 's \<Rightarrow> UniChar \<Rightarrow> 's result" where
  "TCS_C_UTF_8_marshalChar io stream uc =
     (if uc < 0x80 then marshalOctet (prim io) stream (ucast uc) else Inl BadInputChar)"

text \<open>Writing a buffer of octets that holds the final null.\<close>

definition put_string :: "'s str_io \<Rightarrow> 's \<Rightarrow> 32 word \<Rightarrow> 8 word list \<Rightarrow> 's result" where
  "put_string io stream bound b =
     (let mlen = of_nat (length b) :: 32 word in
      if bound \<noteq> 0 \<and> bound < mlen - 1 then Inl StringIsTooLong
      else ebind (marshalULong (prim io) stream mlen) (\<lambda>stream.
           put_octet_array (prim io) stream b 1))"

definition TCS_C_UTF_8_marshalString ::
    "'s str_io \<Rightarrow> 's \<Rightarrow> 32 word \<Rightarrow> 32 word \<Rightarrow> UniChar list \<Rightarrow> 's result" where
  "TCS_C_UTF_8_marshalString io stream bound len us =
     ebind (encode_units 0 us (unat len + 1)) (\<lambda>(b, _). put_string io stream bound b)"

definition TCS_C_UTF_8_unmarshalChar :: "'s str_io \<Rightarrow> 's \<Rightarrow> (UniChar \<times> 's) result" where
  "TCS_C_UTF_8_unmarshalChar io stream =
     ebind (unmarshalOctet (prim io) stream) (\<lambda>(c, stream).
     if c < 0x80 then Inr (ucast c, stream) else Inl BadInputChar)"

definition TCS_C_UTF_8_unmarshalString ::
    "bool \<Rightarrow> 's str_io \<Rightarrow> 's \<Rightarrow> 32 word \<Rightarrow> (32 word \<times> UniChar list \<times> 's) result" where
  "TCS_C_UTF_8_unmarshalString strict io stream bound =
     ebind (string_length strict io stream bound) (\<lambda>(mlen, stream).
     case mlen of None \<Rightarrow> Inr (0, [0], stream)
     | Some mlen \<Rightarrow>
         ebind (decode_stream io (unat mlen) 0 stream) (\<lambda>(us, lc, stream).
         if lc \<noteq> 0 then Inl NotEndWithNull else Inr (of_nat (length us) - 1, us, stream)))"

section \<open>Validation\<close>

definition width :: "32 word \<Rightarrow> nat" where
  "width cp = (if cp \<le> 0x7f then 1 else if cp \<le> 0x7ff then 2 else if cp \<le> 0xffff then 3 else 4)"

function validateString :: "8 word list \<Rightarrow> unit result" where
  "validateString [] = Inl Undefined"
| "validateString (c # cs) =
     (if c = 0 then Inr ()
      else let bytes = utf8Count ! unat c in
        if bytes = 0 then validateString cs
        else if 4 \<le> bytes then Inl BadInputChar
        else ebind (trail bytes (ucast c AND (push_bit (6 - bytes) 1 - 1)) cs) (\<lambda>(cp, cs).
          if 0x10ffff < cp \<or> (0xd800 \<le> cp \<and> cp \<le> 0xdfff) \<or> width cp \<noteq> bytes + 1
          then Inl BadInputChar else validateString cs))"
  by pat_completeness auto
termination
  by (relation "measure length") (auto dest: trail_shorter)

declare validateString.simps [simp del]

section \<open>The fast functions\<close>

definition TCS_C_UTF_8_fastMarshalChar ::
    "'s str_io \<Rightarrow> 's \<Rightarrow> ncs_c \<Rightarrow> 8 word \<Rightarrow> 's option result" where
  "TCS_C_UTF_8_fastMarshalChar io stream ncs c =
     (if ncs_id ncs = ID_UTF_8 then
        ebind (marshalOctet (prim io) stream c) (\<lambda>stream. Inr (Some stream))
      else Inr None)"

text \<open>The encoding of a character of a single-byte set, which cannot be a surrogate.\<close>

definition encode_simple :: "UniChar \<Rightarrow> 8 word list result" where
  "encode_simple uc =
     (if uc < 0x0080 then Inr [ucast uc]
      else if uc < 0x0800 then Inr (utf8_2 uc)
      else if uc < 0xd800 then Inr (utf8_3 uc)
      else if uc < 0xe000 then Inl BadInputChar
      else Inr (utf8_3 uc))"

fun encode_8bit :: "UniChar list \<Rightarrow> 8 word list \<Rightarrow> 8 word list result" where
  "encode_8bit toU [] = Inr []"
| "encode_8bit toU (c # cs) =
     ebind (to_lookup toU c) (\<lambda>uc.
     ebind (encode_simple uc) (\<lambda>b.
     ebind (encode_8bit toU cs) (\<lambda>bs. Inr (b @ bs))))"

definition TCS_C_UTF_8_fastMarshalString ::
    "bool \<Rightarrow> 's str_io \<Rightarrow> 's \<Rightarrow> ncs_c \<Rightarrow> 32 word \<Rightarrow> 32 word \<Rightarrow> 8 word list \<Rightarrow> 's option result" where
  "TCS_C_UTF_8_fastMarshalString validate io stream ncs bound len s =
     (if ncs_id ncs = ID_UTF_8 then
        ebind (if validate then validateString (s @ [0]) else Inr ()) (\<lambda>_.
        if len = 0 then
           ebind (raw_put io stream s) (\<lambda>(len, stream).
           if bound \<noteq> 0 \<and> bound < len - 1 then Inl StringIsTooLong else Inr (Some stream))
        else if bound \<noteq> 0 \<and> bound < len then Inl StringIsTooLong
        else let mlen = len + 1 in
           ebind (marshalULong (prim io) stream mlen) (\<lambda>stream.
           if length (s @ [0]) < unat mlen then Inl Undefined
           else ebind (put_octet_array (prim io) stream (take (unat mlen) (s @ [0])) 1) (\<lambda>stream.
                Inr (Some stream))))
      else if ncs_kind ncs = CS_8bit then
        ebind (encode_8bit (ncs_toU ncs) s) (\<lambda>b.
        ebind (put_string io stream bound (b @ [0])) (\<lambda>stream. Inr (Some stream)))
      else Inr None)"

definition TCS_C_UTF_8_fastUnmarshalChar ::
    "'s str_io \<Rightarrow> 's \<Rightarrow> ncs_c \<Rightarrow> (8 word option \<times> 's) result" where
  "TCS_C_UTF_8_fastUnmarshalChar io stream ncs =
     (if ncs_id ncs = ID_UTF_8 then
        ebind (unmarshalOctet (prim io) stream) (\<lambda>(c, stream). Inr (Some c, stream))
      else Inr (None, stream))"

text \<open>The loop for a single-byte native set; \<^verbatim>\<open>uc\<close> has 16 bits here.\<close>

fun get_trail16 :: "'s str_io \<Rightarrow> nat \<Rightarrow> UniChar \<Rightarrow> 's \<Rightarrow> (UniChar \<times> 's) result" where
  "get_trail16 io 0 uc stream = Inr (uc, stream)"
| "get_trail16 io (Suc n) uc stream =
     ebind (unmarshalOctet (prim io) stream) (\<lambda>(c, stream).
     ebind (validateExt c) (\<lambda>_. get_trail16 io n (push_bit 6 uc OR ucast (c AND 0x3f)) stream))"

function decode_8bit ::
    "'s str_io \<Rightarrow> 8 word list list \<Rightarrow> nat \<Rightarrow> UniChar \<Rightarrow> 's \<Rightarrow> (8 word list \<times> UniChar \<times> 's) result" where
  "decode_8bit io fromU n prev stream =
     (if n = 0 then Inr ([], prev, stream)
      else ebind (unmarshalOctet (prim io) stream) (\<lambda>(c, stream).
        let bytes = utf8Count ! unat c; uc = ucast (c AND utf8Mask ! unat c) in
        if bytes = 6 then Inl BadInputChar
        else if 3 \<le> bytes then Inl CannotMap
        else ebind (get_trail16 io bytes uc stream) (\<lambda>(uc, stream).
             ebind (from_char fromU uc) (\<lambda>c.
             ebind (decode_8bit io fromU (n - (1 + bytes)) uc stream) (\<lambda>(cs, l, stream).
             Inr (c # cs, l, stream))))))"
  by pat_completeness auto
termination
  by (relation "measure (\<lambda>(io, fromU, n, prev, stream). n)") auto

declare decode_8bit.simps [simp del]

definition TCS_C_UTF_8_fastUnmarshalString ::
    "bool \<Rightarrow> bool \<Rightarrow> 's str_io \<Rightarrow> 's \<Rightarrow> ncs_c \<Rightarrow> 32 word \<Rightarrow>
     ((32 word \<times> 8 word list) option \<times> 's) result" where
  "TCS_C_UTF_8_fastUnmarshalString strict validate io stream ncs bound =
     (if ncs_id ncs = ID_UTF_8 then
        ebind (string_length strict io stream bound) (\<lambda>(mlen, stream).
        case mlen of None \<Rightarrow> Inr (None, stream)
        | Some mlen \<Rightarrow>
            ebind (get_octet_array (prim io) stream (unat mlen) 1) (\<lambda>(s, stream).
            if last s \<noteq> 0 then Inl NotEndWithNull
            else ebind (if validate then validateString s else Inr ()) (\<lambda>_.
                 Inr (Some (mlen - 1, s), stream))))
      else if ncs_kind ncs = CS_8bit then
        ebind (string_length strict io stream bound) (\<lambda>(mlen, stream).
        case mlen of None \<Rightarrow> Inr (None, stream)
        | Some mlen \<Rightarrow>
            ebind (decode_8bit io (ncs_fromU ncs) (unat mlen) 0 stream) (\<lambda>(cs, uc, stream).
            if uc \<noteq> 0 then Inl NotEndWithNull
            else Inr (Some (of_nat (length cs) - 1, cs), stream)))
      else Inr (None, stream))"

definition TCS_C_UTF_8 :: "bool \<Rightarrow> bool \<Rightarrow> 's str_io \<Rightarrow> 's tcs_c" where
  "TCS_C_UTF_8 strict validate io =
     \<lparr>tcs_id = ID_UTF_8,
      tcs_marshalChar = TCS_C_UTF_8_marshalChar io,
      tcs_marshalString = TCS_C_UTF_8_marshalString io,
      tcs_unmarshalChar = TCS_C_UTF_8_unmarshalChar io,
      tcs_unmarshalString = TCS_C_UTF_8_unmarshalString strict io,
      tcs_fastMarshalChar = TCS_C_UTF_8_fastMarshalChar io,
      tcs_fastMarshalString = TCS_C_UTF_8_fastMarshalString validate io,
      tcs_fastUnmarshalChar = TCS_C_UTF_8_fastUnmarshalChar io,
      tcs_fastUnmarshalString = TCS_C_UTF_8_fastUnmarshalString strict validate io\<rparr>"

end
