(* ===== verification/Utf8_Spec.thy ===== *)
theory Utf8_Spec
  imports Utf8
begin

unbundle bit_operations_syntax

text \<open>
  The reference for the UTF-8 code sets: the octets of a code point and its UTF-16 units by
  arithmetic, as the Unicode standard defines them, and what the tables and the bit operations of
  \<^verbatim>\<open>cs-UTF-8.cc\<close> compute in terms of them.
\<close>

section \<open>Reference\<close>

definition utf8 :: "nat \<Rightarrow> 8 word list" where
  "utf8 cp =
     (if cp < 0x80 then [of_nat cp]
      else if cp < 0x800 then [of_nat (0xC0 + cp div 64), of_nat (0x80 + cp mod 64)]
      else if cp < 0x10000 then
        [of_nat (0xE0 + cp div 4096), of_nat (0x80 + cp div 64 mod 64), of_nat (0x80 + cp mod 64)]
      else [of_nat (0xF0 + cp div 262144), of_nat (0x80 + cp div 4096 mod 64),
            of_nat (0x80 + cp div 64 mod 64), of_nat (0x80 + cp mod 64)])"

definition utf16 :: "nat \<Rightarrow> UniChar list" where
  "utf16 cp =
     (if cp < 0x10000 then [of_nat cp]
      else [of_nat (0xD800 + (cp - 0x10000) div 1024), of_nat (0xDC00 + (cp - 0x10000) mod 1024)])"

text \<open>A Unicode scalar value.\<close>

definition scalar :: "nat \<Rightarrow> bool" where
  "scalar cp \<longleftrightarrow> cp < 0xD800 \<or> 0xE000 \<le> cp \<and> cp \<le> 0x10FFFF"

section \<open>Bits and arithmetic\<close>


lemma nat_or_push: "x < 2 ^ k \<Longrightarrow> push_bit k a OR x = push_bit k a + (x :: nat)"
proof -
  assume "x < 2 ^ k"
  then have "take_bit k x = x" by (simp add: take_bit_nat_eq_self)
  then have "\<not> bit x n" if "k \<le> n" for n using that by (metis bit_take_bit_iff not_less)
  then have "push_bit k a AND x = 0" by (intro bit_eqI) (auto simp: bit_simps)
  then show ?thesis using disjunctive_add_eq_or [of "push_bit k a" x] by simp
qed

text \<open>The bits from \<open>k\<close> on, \<open>m\<close> of them.\<close>

lemma unat_bits:
  fixes w :: "'a::len word"
  assumes "m \<le> 8"
  shows "unat (ucast (drop_bit k (w AND push_bit k (mask m))) :: 8 word) = unat w div 2 ^ k mod 2 ^ m"
proof -
  have "drop_bit k (w AND push_bit k (mask m)) = take_bit m (drop_bit k w)"
    by (rule bit_word_eqI) (auto simp: bit_simps dest: bit_imp_le_length)
  then have u: "unat (drop_bit k (w AND push_bit k (mask m))) = unat w div 2 ^ k mod 2 ^ m"
    by (simp only: unsigned_take_bit_eq unat_drop_bit_eq) (simp only: take_bit_eq_mod drop_bit_eq_div)
  have "unat w div 2 ^ k mod 2 ^ m < 2 ^ m" by simp
  also have "(2 :: nat) ^ m \<le> 2 ^ 8" using assms by (rule power_increasing) simp
  finally show ?thesis using u by (simp only: unsigned_ucast_eq take_bit_eq_mod) simp
qed

text \<open>An octet made of a prefix and \<open>k\<close> bits.\<close>

lemma octet_prefix:
  assumes "unat (x :: 8 word) < 2 ^ k" and "p + 2 ^ k \<le> 256" and "p = push_bit k a"
  shows "of_nat p OR x = of_nat (p + unat x)"
proof -
  have "unat (of_nat p OR x) = take_bit 8 p OR unat x"
    by (simp add: unsigned_or_eq unsigned_of_nat)
  also have "take_bit 8 p = p"
  proof (rule take_bit_nat_eq_self)
    have "(0 :: nat) < 2 ^ k" by simp
    then have "p < 256" using assms(2) by linarith
    then show "p < 2 ^ 8" by simp
  qed
  also have "p OR unat x = p + unat x" using nat_or_push [OF assms(1)] assms(3) by simp
  also have "\<dots> = unat (of_nat (p + unat x) :: 8 word)"
    using assms(1,2) by (simp add: unat_of_nat del: of_nat_add)
  finally show ?thesis by (simp only: word_unat_eq_iff)
qed

lemma utf8_masks:
  "(0x07c0 :: UniChar) = push_bit 6 (mask 5)" "(0x003f :: UniChar) = push_bit 0 (mask 6)"
  "(0xf000 :: UniChar) = push_bit 12 (mask 4)" "(0x0fc0 :: UniChar) = push_bit 6 (mask 6)"
  "(0x001c0000 :: 32 word) = push_bit 18 (mask 3)" "(0x0003f000 :: 32 word) = push_bit 12 (mask 6)"
  "(0x00000fc0 :: 32 word) = push_bit 6 (mask 6)"
  by (simp_all add: mask_eq_exp_minus_1 push_bit_eq_mult)

lemma octet_bits:
  fixes w :: "'a::len word"
  assumes "m \<le> 8" and "p + 2 ^ m \<le> 256" and "p = push_bit m a"
  shows "of_nat p OR ucast (drop_bit k (w AND push_bit k (mask m))) =
    (of_nat (p + unat w div 2 ^ k mod 2 ^ m) :: 8 word)"
proof -
  let ?x = "ucast (drop_bit k (w AND push_bit k (mask m))) :: 8 word"
  have u: "unat ?x = unat w div 2 ^ k mod 2 ^ m" by (rule unat_bits [OF assms(1)])
  have "unat ?x < 2 ^ m" by (simp only: u) simp
  from octet_prefix [OF this assms(2,3)] show ?thesis by (simp only: u)
qed

lemma octet_field:
  assumes "m \<le> 8" and "p + 2 ^ m \<le> 256" and "p = push_bit m a" and "of_nat p = q" and "2 ^ m = M"
  shows "q OR ucast (drop_bit k (w AND push_bit k (mask m))) = (of_nat (p + unat w div 2 ^ k mod M) :: 8 word)"
  using octet_bits [OF assms(1-3), of k w] assms(4,5) by simp

lemma octet_fields:
  "0xC0 OR ucast (drop_bit k (w AND push_bit k (mask 5))) = (of_nat (0xC0 + unat w div 2 ^ k mod 32) :: 8 word)"
  "0xE0 OR ucast (drop_bit k (w AND push_bit k (mask 4))) = (of_nat (0xE0 + unat w div 2 ^ k mod 16) :: 8 word)"
  "0xF0 OR ucast (drop_bit k (w AND push_bit k (mask 3))) = (of_nat (0xF0 + unat w div 2 ^ k mod 8) :: 8 word)"
  "0x80 OR ucast (drop_bit k (w AND push_bit k (mask 6))) = (of_nat (0x80 + unat w div 2 ^ k mod 64) :: 8 word)"
proof -
  show "0xC0 OR ucast (drop_bit k (w AND push_bit k (mask 5))) = (of_nat (0xC0 + unat w div 2 ^ k mod 32) :: 8 word)"
    by (rule octet_field [where a = 6]) (simp_all add: push_bit_eq_mult)
  show "0xE0 OR ucast (drop_bit k (w AND push_bit k (mask 4))) = (of_nat (0xE0 + unat w div 2 ^ k mod 16) :: 8 word)"
    by (rule octet_field [where a = 14]) (simp_all add: push_bit_eq_mult)
  show "0xF0 OR ucast (drop_bit k (w AND push_bit k (mask 3))) = (of_nat (0xF0 + unat w div 2 ^ k mod 8) :: 8 word)"
    by (rule octet_field [where a = 30]) (simp_all add: push_bit_eq_mult)
  show "0x80 OR ucast (drop_bit k (w AND push_bit k (mask 6))) = (of_nat (0x80 + unat w div 2 ^ k mod 64) :: 8 word)"
    by (rule octet_field [where a = 2]) (simp_all add: push_bit_eq_mult)
qed

lemma utf8_2_spec:
  assumes "unat uc < 0x800"
  shows "utf8_2 uc = [of_nat (0xC0 + unat uc div 64), of_nat (0x80 + unat uc mod 64)]"
proof -
  have "unat uc div 2 ^ 6 mod 32 = unat uc div 64" using assms by (simp add: div_less_iff_less_mult)
  then show ?thesis
    using octet_fields(1) [of 6 uc] octet_fields(4) [of 0 uc]
    by (simp only: utf8_2_def utf8_masks drop_bit_0 id_apply power_0 div_by_1)
qed

lemma utf8_3_spec:
  "utf8_3 uc =
     [of_nat (0xE0 + unat uc div 4096), of_nat (0x80 + unat uc div 64 mod 64), of_nat (0x80 + unat uc mod 64)]"
proof -
  have "unat uc < 2 ^ 16" using unsigned_less [of uc] by simp
  then have "unat uc div 2 ^ 12 mod 16 = unat uc div 4096" by (simp add: div_less_iff_less_mult)
  moreover have "unat uc div 2 ^ 6 = unat uc div 64" by simp
  ultimately show ?thesis
    using octet_fields(2) [of 12 uc] octet_fields(4) [of 6 uc] octet_fields(4) [of 0 uc]
    by (simp only: utf8_3_def utf8_masks drop_bit_0 id_apply power_0 div_by_1)
qed

text \<open>The last octet of a supplementary character, where the code masks with \<^verbatim>\<open>0xef\<close>.\<close>

definition last4 :: "nat \<Rightarrow> nat" where
  "last4 cp = 0x80 + 32 * (cp div 32 mod 4) + cp mod 16"

lemma last4_octet: "0x80 OR ucast (lc AND 0x000000ef :: 32 word) = (of_nat (last4 (unat lc)) :: 8 word)"
proof -
  have e: "(0x000000ef :: 32 word) = push_bit 5 (mask 3) OR mask 4"
    "(0x80 :: 8 word) = 2 ^ 7"
    by (simp_all add: mask_eq_exp_minus_1 push_bit_eq_mult)
  have b: "bit (0x80 :: 8 word) n \<longleftrightarrow> n = 7" for n
    by (simp only: e(2) bit_exp_iff) auto
  let ?x = "take_bit 4 (ucast lc) :: 8 word" and ?y = "take_bit 2 (drop_bit 5 (ucast lc)) :: 8 word"
  have "0x80 OR ucast (lc AND 0x000000ef) = 0x80 OR (push_bit 5 ?y OR ?x)"
  proof (rule bit_word_eqI)
    fix n
    assume "n < LENGTH(8)"
    show "bit (0x80 OR ucast (lc AND 0x000000ef) :: 8 word) n \<longleftrightarrow> bit (0x80 OR (push_bit 5 ?y OR ?x)) n"
    proof (cases "n = 7")
      case True
      then show ?thesis by (simp add: b bit_or_iff)
    next
      case False
      with \<open>n < LENGTH(8)\<close> have "n < 7" by simp
      then have "bit (ucast (lc AND 0x000000ef) :: 8 word) n \<longleftrightarrow> bit (push_bit 5 ?y OR ?x) n"
        unfolding e(1) by (auto simp: bit_simps)
      then show ?thesis by (simp only: bit_or_iff)
    qed
  qed
  moreover have u: "unat (push_bit 5 ?y OR ?x) = 32 * (unat lc div 32 mod 4) + unat lc mod 16"
  proof -
    have x: "unat ?x = unat lc mod 16" 
      by (simp only: unsigned_take_bit_eq unsigned_ucast_eq take_bit_take_bit) (simp add: take_bit_eq_mod)
    have "?y = take_bit 2 (ucast (drop_bit 5 lc))" by (rule bit_word_eqI) (auto simp: bit_simps)
    then have y: "unat ?y = unat lc div 32 mod 4"
      by (simp only: unsigned_take_bit_eq unsigned_ucast_eq unat_drop_bit_eq take_bit_take_bit)
         (simp add: take_bit_eq_mod drop_bit_eq_div)
    have "take_bit 8 (push_bit 5 (unat ?y)) = push_bit 5 (unat ?y)"
      unfolding y by (rule take_bit_nat_eq_self) (simp add: push_bit_eq_mult less_mult_imp_div_less)
    then have "unat (push_bit 5 ?y OR ?x) = push_bit 5 (unat ?y) OR unat ?x"
      by (simp add: unsigned_or_eq unsigned_push_bit_eq)
    also have "\<dots> = push_bit 5 (unat ?y) + unat ?x"
      by (rule nat_or_push) (simp add: x less_trans [of _ 16])
    finally show ?thesis using x y by (simp add: push_bit_eq_mult)
  qed
  moreover have "of_nat 0x80 OR (push_bit 5 ?y OR ?x) = (of_nat (0x80 + unat (push_bit 5 ?y OR ?x)) :: 8 word)"
  proof (rule octet_prefix)
    have "unat lc div 32 mod 4 \<le> 3" "unat lc mod 16 \<le> 15" by simp_all
    then show "unat (push_bit 5 ?y OR ?x) < 2 ^ 7" unfolding u by simp
    show "(0x80 :: nat) = push_bit 7 1" by (simp add: push_bit_eq_mult)
  qed simp
  ultimately show ?thesis by (simp only: last4_def of_nat_numeral add.assoc)
qed

lemma utf8_4_spec:
  assumes "unat lc < 0x200000"
  shows "utf8_4 lc =
    [of_nat (0xF0 + unat lc div 262144), of_nat (0x80 + unat lc div 4096 mod 64),
     of_nat (0x80 + unat lc div 64 mod 64), of_nat (last4 (unat lc))]"
proof -
  have "unat lc div 2 ^ 18 mod 8 = unat lc div 262144" using assms by (simp add: div_less_iff_less_mult)
  moreover have "unat lc div 2 ^ 12 = unat lc div 4096" "unat lc div 2 ^ 6 = unat lc div 64" by simp_all
  ultimately show ?thesis
    using octet_fields(3) [of 18 lc] octet_fields(4) [of 12 lc] octet_fields(4) [of 6 lc]
    by (simp only: utf8_4_def last4_octet utf8_masks)
qed

section \<open>The tables\<close>

lemma utf8Count_split:
  "utf8Count = replicate 128 0 @ replicate 64 6 @ replicate 32 1 @ replicate 16 2 @ replicate 8 3 @
     [4, 4, 4, 4, 5, 5, 6, 6]"
  by code_simp

lemma utf8Mask_split:
  "utf8Mask = replicate 128 0x7f @ replicate 64 0 @ replicate 32 0x1f @ replicate 16 0x0f @
     replicate 8 0x07 @ [3, 3, 3, 3, 1, 1, 0, 0]"
  by code_simp

lemma and_high:
  assumes "k + m = 8"
  shows "(c :: 8 word) AND push_bit k (mask m) = push_bit k (drop_bit k c)"
  using assms by (intro bit_word_eqI) (auto simp: bit_simps dest: bit_imp_le_length)

lemma xor_zero: "a XOR b = 0 \<longleftrightarrow> a = (b :: 'a::len word)"
  by (auto simp: bit_eq_iff bit_simps)

lemma validateExt_iff: "validateExt c = (if unat c div 64 = 2 then Inr () else Inl BadInputChar)"
proof -
  have "(0xc0 :: 8 word) = push_bit 6 (mask 2)" by (simp add: mask_eq_exp_minus_1 push_bit_eq_mult)
  then have "c AND 0xc0 = push_bit 6 (drop_bit 6 c)" using and_high [of 6 2 c] by simp
  moreover have "unat (push_bit 6 (drop_bit 6 c)) = 64 * (unat c div 64)"
  proof -
    have "unat c < 256" using unsigned_less [of c] by simp
    then have "push_bit 6 (drop_bit 6 (unat c)) < 2 ^ LENGTH(8)"
      by (simp add: push_bit_eq_mult drop_bit_eq_div)
    then show ?thesis
      by (simp only: unsigned_push_bit_eq unat_drop_bit_eq take_bit_nat_eq_self)
         (simp add: push_bit_eq_mult drop_bit_eq_div)
  qed
  ultimately have "unat (c AND 0xc0) = 64 * (unat c div 64)" by simp
  moreover have "(c AND 0xc0) XOR 0x80 = 0 \<longleftrightarrow> c AND 0xc0 = 0x80"
    by (rule xor_zero)
  moreover have "c AND 0xc0 = 0x80 \<longleftrightarrow> unat (c AND 0xc0) = 128"
    by (simp only: word_unat_eq_iff [of "c AND 0xc0"]) simp
  ultimately show ?thesis by (simp add: validateExt_def)
qed

lemma utf8Count_nth:
  "n < 128 \<Longrightarrow> utf8Count ! n = 0"
  "128 \<le> n \<Longrightarrow> n < 192 \<Longrightarrow> utf8Count ! n = 6"
  "192 \<le> n \<Longrightarrow> n < 224 \<Longrightarrow> utf8Count ! n = 1"
  "224 \<le> n \<Longrightarrow> n < 240 \<Longrightarrow> utf8Count ! n = 2"
  "240 \<le> n \<Longrightarrow> n < 248 \<Longrightarrow> utf8Count ! n = 3"
  by (simp_all add: utf8Count_split nth_append del: replicate.simps) auto

lemma utf8Count_high: "248 \<le> n \<Longrightarrow> n < 256 \<Longrightarrow> 4 \<le> utf8Count ! n"
proof -
  assume "248 \<le> n" "n < 256"
  then have "n \<in> {248, 249, 250, 251, 252, 253, 254, 255}" by auto
  then show ?thesis by (auto simp: utf8Count_split nth_append nth_Cons' simp del: replicate.simps)
qed

lemma utf8Mask_nth:
  "n < 128 \<Longrightarrow> utf8Mask ! n = mask 7"
  "192 \<le> n \<Longrightarrow> n < 224 \<Longrightarrow> utf8Mask ! n = mask 5"
  "224 \<le> n \<Longrightarrow> n < 240 \<Longrightarrow> utf8Mask ! n = mask 4"
  "240 \<le> n \<Longrightarrow> n < 248 \<Longrightarrow> utf8Mask ! n = mask 3"
  by (simp_all add: utf8Mask_split nth_append mask_eq_exp_minus_1 del: replicate.simps) auto

lemma unat_and_mask: "unat (c AND mask m) = unat c mod 2 ^ m"
  by (simp only: take_bit_eq_mask [symmetric] unsigned_take_bit_eq) (simp only: take_bit_eq_mod)

lemma mod_offset:
  fixes n :: nat
  assumes "p mod m = 0" and "p \<le> n" and "n < p + m"
  shows "n mod m = n - p"
proof -
  obtain k where "n = p + k" using assms(2) le_Suc_ex by blast
  with assms(1,3) show ?thesis by (simp add: mod_add_left_eq [of p, symmetric] del: mod_add_left_eq)
qed

text \<open>The bits of the character in the first octet, of any width.\<close>

lemma lead_bits:
  fixes c :: "8 word"
  shows "unat c < 128 \<Longrightarrow> unat (c AND utf8Mask ! unat c) = unat c"
    "192 \<le> unat c \<Longrightarrow> unat c < 224 \<Longrightarrow> unat (c AND utf8Mask ! unat c) = unat c - 192"
    "224 \<le> unat c \<Longrightarrow> unat c < 240 \<Longrightarrow> unat (c AND utf8Mask ! unat c) = unat c - 224"
    "240 \<le> unat c \<Longrightarrow> unat c < 248 \<Longrightarrow> unat (c AND utf8Mask ! unat c) = unat c - 240"
proof -
  show "unat c < 128 \<Longrightarrow> unat (c AND utf8Mask ! unat c) = unat c"
    by (simp only: utf8Mask_nth unat_and_mask) simp
  show "192 \<le> unat c \<Longrightarrow> unat c < 224 \<Longrightarrow> unat (c AND utf8Mask ! unat c) = unat c - 192"
    by (simp only: utf8Mask_nth unat_and_mask) (rule mod_offset, simp_all)
  show "224 \<le> unat c \<Longrightarrow> unat c < 240 \<Longrightarrow> unat (c AND utf8Mask ! unat c) = unat c - 224"
    by (simp only: utf8Mask_nth unat_and_mask) (rule mod_offset, simp_all)
  show "240 \<le> unat c \<Longrightarrow> unat c < 248 \<Longrightarrow> unat (c AND utf8Mask ! unat c) = unat c - 240"
    by (simp only: utf8Mask_nth unat_and_mask) (rule mod_offset, simp_all)
qed

lemma unat_ucast_octet:
  fixes c :: "8 word"
  assumes "8 \<le> LENGTH('a::len)"
  shows "unat (ucast c :: 'a word) = unat c"
proof -
  have "unat c < 2 ^ 8" using unsigned_less [of c] by simp
  also have "(2 :: nat) ^ 8 \<le> 2 ^ LENGTH('a)" using assms by (rule power_increasing) simp
  finally show ?thesis by (simp only: unsigned_ucast_eq take_bit_nat_eq_self)
qed

text \<open>Appending the six bits of a following octet.\<close>

lemma append_bits:
  fixes lc :: "'a::len word"
  assumes "64 * unat lc < 2 ^ LENGTH('a)" and "8 \<le> LENGTH('a)"
  shows "unat (push_bit 6 lc OR ucast (c AND 0x3f :: 8 word)) = 64 * unat lc + unat c mod 64"
proof -
  have m: "(0x3f :: 8 word) = mask 6" by (simp add: mask_eq_exp_minus_1)
  have c: "unat (ucast (c AND 0x3f) :: 'a word) = unat c mod 64"
    by (simp only: unat_ucast_octet [OF assms(2)] m unat_and_mask) simp
  have "unat (push_bit 6 lc) = push_bit 6 (unat lc)"
    using assms(1) by (simp only: unsigned_push_bit_eq) (simp add: take_bit_nat_eq_self push_bit_eq_mult ac_simps)
  then have "unat (push_bit 6 lc OR ucast (c AND 0x3f)) = push_bit 6 (unat lc) OR unat c mod 64"
    by (simp only: unsigned_or_eq c)
  also have "\<dots> = push_bit 6 (unat lc) + unat c mod 64" by (rule nat_or_push) simp
  finally show ?thesis by (simp add: push_bit_eq_mult)
qed

section \<open>Decoding a sequence\<close>

definition append_octet :: "nat \<Rightarrow> 8 word \<Rightarrow> nat" where
  "append_octet a y = 64 * a + unat y mod 64"

lemma trail_octets:
  assumes "\<forall>y \<in> set ys. unat y div 64 = 2" and "(unat lc + 1) * 64 ^ length ys \<le> 2 ^ 32"
  shows "\<exists>lc'. trail (length ys) lc (ys @ cs) = Inr (lc', cs) \<and>
    unat lc' = foldl append_octet (unat lc) ys"
  using assms
proof (induction ys arbitrary: lc)
  case Nil
  then show ?case by simp
next
  case (Cons y ys)
  have p: "(1 :: nat) \<le> 64 ^ length ys" by simp
  have "(unat lc + 1) * 64 * 1 \<le> (unat lc + 1) * 64 * 64 ^ length ys" by (rule mult_le_mono2) (rule p)
  then have "(unat lc + 1) * 64 \<le> 2 ^ 32" using Cons.prems(2) by (simp only: length_Cons power_Suc mult.assoc)
  then have b: "64 * unat lc < 2 ^ LENGTH(32)" by simp
  note u = append_bits [OF b, of y, simplified]
  let ?lc = "push_bit 6 lc OR ucast (y AND 0x3f) :: 32 word"
  have "unat y mod 64 < 64" by simp
  then have "unat ?lc + 1 \<le> (unat lc + 1) * 64" using u by simp
  then have "(unat ?lc + 1) * 64 ^ length ys \<le> (unat lc + 1) * 64 * 64 ^ length ys" by (rule mult_le_mono1)
  also have "\<dots> \<le> 2 ^ 32" using Cons.prems(2) by (simp only: length_Cons power_Suc mult.assoc)
  finally obtain lc' where "trail (length ys) ?lc (ys @ cs) = Inr (lc', cs)"
    "unat lc' = foldl append_octet (unat ?lc) ys" using Cons.IH [of ?lc] Cons.prems(1) by auto
  moreover have "unat ?lc = append_octet (unat lc) y" using u by (simp add: append_octet_def)
  ultimately show ?case using Cons.prems(1) by (simp add: validateExt_iff)
qed

text \<open>The shape of the encoding of a code point.\<close>

definition is_seq :: "nat \<Rightarrow> 8 word \<Rightarrow> 8 word list \<Rightarrow> bool" where
  "is_seq cp c ys \<longleftrightarrow> utf8Count ! unat c = length ys \<and> length ys \<le> 3 \<and>
     (\<forall>y \<in> set ys. unat y div 64 = 2) \<and>
     foldl append_octet (unat (c AND utf8Mask ! unat c)) ys = cp"

lemma unat_octet: "n < 256 \<Longrightarrow> unat (of_nat n :: 8 word) = n"
  by (simp add: unat_of_nat)

lemma cont_octet: "unat (of_nat (0x80 + n mod 64) :: 8 word) = 0x80 + n mod 64"
proof (rule unat_octet)
  have "n mod 64 < 64" by simp
  then show "0x80 + n mod 64 < 256" by linarith
qed

lemma cont_octet_mod:
  "(0x80 + n mod 64) mod 64 = n mod (64 :: nat)" "(0x80 + n mod 64) div 64 = (2 :: nat)"
proof -
  have "n mod 64 < 64" by simp
  then show "(0x80 + n mod 64) mod 64 = n mod (64 :: nat)" "(0x80 + n mod 64) div 64 = (2 :: nat)"
    by (simp_all add: mod_offset [where p = "0x80"] div_add1_eq)
qed

lemma digits64:
  fixes cp :: nat
  shows "64 * (cp div 64) + cp mod 64 = cp"
    "64 * (cp div 4096) + cp div 64 mod 64 = cp div 64"
    "64 * (cp div 262144) + cp div 4096 mod 64 = cp div 4096"
proof -
  have "cp div 4096 = cp div 64 div 64" "cp div 262144 = cp div 4096 div 64"
    by (simp_all add: div_mult2_eq [symmetric])
  then show "64 * (cp div 64) + cp mod 64 = cp"
    "64 * (cp div 4096) + cp div 64 mod 64 = cp div 64"
    "64 * (cp div 262144) + cp div 4096 mod 64 = cp div 4096"
    by simp_all
qed

lemma digits64_nested:
  fixes cp :: nat
  shows "64 * (64 * (cp div 4096) + cp div 64 mod 64) + cp mod 64 = cp"
    "64 * (64 * (64 * (cp div 262144) + cp div 4096 mod 64) + cp div 64 mod 64) + cp mod 64 = cp"
  by (simp_all only: digits64)

lemma utf8_is_seq:
  assumes "cp < 0x200000"
  shows "\<exists>c ys. utf8 cp = c # ys \<and> is_seq cp c ys \<and> (c = 0 \<longleftrightarrow> cp = 0)"
proof -
  consider "cp < 0x80" | "0x80 \<le> cp" "cp < 0x800" | "0x800 \<le> cp" "cp < 0x10000" | "0x10000 \<le> cp"
    by linarith
  then show ?thesis
  proof cases
    case 1
    then have u: "unat (of_nat cp :: 8 word) = cp" by (simp add: unat_octet)
    then have "(of_nat cp :: 8 word) = 0 \<longleftrightarrow> cp = 0" by (simp only: unat_eq_0 [symmetric])
    then show ?thesis using 1 u lead_bits(1) [of "of_nat cp"] by (simp add: utf8_def is_seq_def utf8Count_nth)
  next
    case 2
    let ?c = "of_nat (0xC0 + cp div 64) :: 8 word"
    have "cp div 64 < 32" using 2 by (simp add: div_less_iff_less_mult)
    then have u: "unat ?c = 0xC0 + cp div 64" by (intro unat_octet) simp
    then have "?c \<noteq> 0" using unat_eq_0 [of ?c] by linarith
    moreover have "utf8Count ! unat ?c = 1"
      by (rule utf8Count_nth) (use u \<open>cp div 64 < 32\<close> in linarith)+
    moreover have "unat (?c AND utf8Mask ! unat ?c) = unat ?c - 192"
      by (rule lead_bits) (use u \<open>cp div 64 < 32\<close> in linarith)+
    then have l: "unat (?c AND utf8Mask ! unat ?c) = cp div 64" using u by linarith
    let ?ys = "[of_nat (0x80 + cp mod 64)] :: 8 word list"
    have "foldl append_octet (unat (?c AND utf8Mask ! unat ?c)) ?ys = cp"
      by (simp only: foldl.simps append_octet_def cont_octet cont_octet_mod digits64 l)
    moreover have "\<forall>y \<in> set ?ys. unat y div 64 = 2"
      by (simp only: list.set cont_octet cont_octet_mod ball_simps)
    moreover have "utf8 cp = ?c # ?ys" using 2 by (simp add: utf8_def)
    ultimately show ?thesis using 2 by (auto simp: is_seq_def simp del: of_nat_add)
  next
    case 3
    let ?c = "of_nat (0xE0 + cp div 4096) :: 8 word"
    have "cp div 4096 < 16" using 3 by (simp add: div_less_iff_less_mult)
    then have u: "unat ?c = 0xE0 + cp div 4096" by (intro unat_octet) simp
    then have "?c \<noteq> 0" using unat_eq_0 [of ?c] by linarith
    moreover have "utf8Count ! unat ?c = 2"
      by (rule utf8Count_nth) (use u \<open>cp div 4096 < 16\<close> in linarith)+
    moreover have "unat (?c AND utf8Mask ! unat ?c) = unat ?c - 224"
      by (rule lead_bits) (use u \<open>cp div 4096 < 16\<close> in linarith)+
    then have l: "unat (?c AND utf8Mask ! unat ?c) = cp div 4096" using u by linarith
    let ?ys = "[of_nat (0x80 + cp div 64 mod 64), of_nat (0x80 + cp mod 64)] :: 8 word list"
    have "foldl append_octet (unat (?c AND utf8Mask ! unat ?c)) ?ys = cp"
      by (simp only: foldl.simps append_octet_def cont_octet cont_octet_mod digits64 l)
    moreover have "\<forall>y \<in> set ?ys. unat y div 64 = 2"
      by (simp only: list.set cont_octet cont_octet_mod ball_simps)
    moreover have "utf8 cp = ?c # ?ys" using 3 by (simp add: utf8_def)
    ultimately show ?thesis using 3 by (auto simp: is_seq_def simp del: of_nat_add)
  next
    case 4
    let ?c = "of_nat (0xF0 + cp div 262144) :: 8 word"
    have "cp div 262144 < 8" using assms by (simp add: div_less_iff_less_mult)
    then have u: "unat ?c = 0xF0 + cp div 262144" by (intro unat_octet) simp
    then have "?c \<noteq> 0" using unat_eq_0 [of ?c] by linarith
    moreover have "utf8Count ! unat ?c = 3"
      by (rule utf8Count_nth) (use u \<open>cp div 262144 < 8\<close> in linarith)+
    moreover have "unat (?c AND utf8Mask ! unat ?c) = unat ?c - 240"
      by (rule lead_bits) (use u \<open>cp div 262144 < 8\<close> in linarith)+
    then have l: "unat (?c AND utf8Mask ! unat ?c) = cp div 262144" using u by linarith
    let ?ys = "[of_nat (0x80 + cp div 4096 mod 64), of_nat (0x80 + cp div 64 mod 64), of_nat (0x80 + cp mod 64)] :: 8 word list"
    have "foldl append_octet (unat (?c AND utf8Mask ! unat ?c)) ?ys = cp"
      by (simp only: foldl.simps append_octet_def cont_octet cont_octet_mod digits64 l)
    moreover have "\<forall>y \<in> set ?ys. unat y div 64 = 2"
      by (simp only: list.set cont_octet cont_octet_mod ball_simps)
    moreover have "utf8 cp = ?c # ?ys" using 4 by (simp add: utf8_def)
    ultimately show ?thesis using 4 by (auto simp: is_seq_def simp del: of_nat_add)
  qed
qed

end
