(* ===== verification/Code_Set_Laws.thy ===== *)
theory Code_Set_Laws
  imports Code_Sets
begin

text \<open>
  The contracts of the code set layer. \<open>str_stream\<close> extends the contract of a stream by the overrun
  check and the raw string; \<open>tcs_contract\<close> is what a native code set relies on in a transmission code
  set. The native single-byte set is verified against the contract, not against one partner.
\<close>

section \<open>Streams that carry strings\<close>

locale str_stream = cdr_stream "prim io" sinv out pos
  for io :: "'s str_io" and sinv out pos +
  assumes overrun_ok: "sinv s \<Longrightarrow> pos s + unat n \<le> length (out s) \<Longrightarrow>
      \<exists>s'. overrun io s 1 n 1 = (True, s') \<and> reads s (pos s) s'"
    and overrun_end: "sinv s \<Longrightarrow> length (out s) < pos s + unat n \<Longrightarrow>
      \<exists>s'. overrun io s 1 n 1 = (False, s')"
    and raw_put_wrote: "sinv s \<Longrightarrow> \<exists>s'. raw_put io s str = Inr (of_nat (length str + 1), s') \<and>
      wrote s 4 (in_memory (host_le (prim io)) 4
        (if marshal_byte_swap (prim io) s then byteSwap32 (of_nat (length str + 1))
         else of_nat (length str + 1)) @ str @ [0]) s'"
begin

text \<open>What is next on the stream.\<close>

definition ahead :: "'s \<Rightarrow> 8 word list \<Rightarrow> bool" where
  "ahead t bs \<longleftrightarrow> sinv t \<and> (\<exists>rest. drop (pos t) (out t) = map Some bs @ rest)"

lemma ahead_take:
  assumes "ahead t (as @ bs)"
  shows "take (length as) (drop (pos t) (out t)) = map Some as"
    and "as \<noteq> [] \<Longrightarrow> pos t + length as \<le> length (out t)"
    and "\<exists>rest. drop (pos t + length as) (out t) = map Some bs @ rest"
proof -
  obtain rest where r: "drop (pos t) (out t) = map Some as @ map Some bs @ rest"
    using assms by (auto simp: ahead_def)
  then show "take (length as) (drop (pos t) (out t)) = map Some as" by simp
  have "length (drop (pos t) (out t)) = length as + length bs + length rest" using r by simp
  then show "as \<noteq> [] \<Longrightarrow> pos t + length as \<le> length (out t)" by (cases as) auto
  have "drop (length as) (drop (pos t) (out t)) = map Some bs @ rest" using r by simp
  then show "\<exists>rest. drop (pos t + length as) (out t) = map Some bs @ rest"
    by (auto simp: add.commute)
qed

lemma ahead_reads: "reads t k t' \<Longrightarrow> \<exists>rest. drop k (out t) = map Some bs @ rest \<Longrightarrow> ahead t' bs"
  by (auto simp: ahead_def reads_def)

lemma octet_ahead:
  assumes "ahead t (b # bs)"
  shows "\<exists>t'. unmarshalOctet (prim io) t = Inr (b, t') \<and> reads t (Suc (pos t)) t' \<and> ahead t' bs"
proof -
  have a: "ahead t ([b] @ bs)" using assms by simp
  have "sinv t" using assms by (simp add: ahead_def)
  from get_prim [OF this, of "[b]"] ahead_take [OF a] obtain t'
    where t': "get_prim (prim io) t 1 = Inr ([b], t')" "reads t (Suc (pos t)) t'"
    by (auto simp: reads_def)
  moreover have "ahead t' bs" using ahead_reads [OF t'(2)] ahead_take(3) [OF a] by simp
  ultimately show ?thesis by (auto simp: unmarshalOctet_def)
qed

lemma array_ahead:
  assumes "ahead t (as @ bs)" and "as \<noteq> []"
  shows "\<exists>t'. get_octet_array (prim io) t (length as) 1 = Inr (as, t') \<and>
    reads t (pos t + length as) t' \<and> ahead t' bs"
proof -
  have "sinv t" using assms by (simp add: ahead_def)
  from get_array [OF this, of 1 as] ahead_take(1,2) [OF assms(1)] assms(2) obtain t'
    where t': "get_octet_array (prim io) t (length as) 1 = Inr (as, t')" "reads t (pos t + length as) t'"
    by (auto simp: reads_def)
  moreover have "ahead t' bs" using ahead_reads [OF t'(2)] ahead_take(3) [OF assms(1)] by simp
  ultimately show ?thesis by blast
qed

lemma reads_trans: "reads t k t' \<Longrightarrow> reads t' m t'' \<Longrightarrow> reads t m t''"
  by (auto simp: reads_def flags_kept_def)

lemma reads_sinv: "reads t k t' \<Longrightarrow> sinv t'"
  by (simp add: reads_def)

lemma reads_flags: "reads t k t' \<Longrightarrow> unmarshal_byte_swap (prim io) t' = unmarshal_byte_swap (prim io) t"
  by (simp add: reads_def flags_kept_def)

text \<open>Reading a string octet by octet, each translated by \<open>f\<close>.\<close>

lemma unmarshal_chars_ahead:
  assumes "ahead t (bs @ cs)" and "list_all2 (\<lambda>b y. f b = Inr y) bs ys"
  shows "\<exists>t'. unmarshal_chars io f t (length bs) = Inr (ys, t') \<and> reads t (pos t + length bs) t'"
  using assms(2,1)
proof (induction arbitrary: t rule: list_all2_induct)
  case Nil
  then show ?case by (auto simp: reads_def ahead_def flags_kept_def)
next
  case (Cons b bs y ys)
  obtain t1 where t1: "unmarshalOctet (prim io) t = Inr (b, t1)" "reads t (Suc (pos t)) t1"
    "ahead t1 (bs @ cs)" using octet_ahead [of t b "bs @ cs"] Cons.prems by auto
  with Cons.IH obtain t2 where t2: "unmarshal_chars io f t1 (length bs) = Inr (ys, t2)"
    "reads t1 (pos t1 + length bs) t2" by blast
  have "reads t (pos t + length (b # bs)) t2"
    using reads_trans [OF t1(2) t2(2)] t1(2) by (simp add: reads_def)
  with t1(1) t2(1) Cons.hyps(1) show ?case by auto
qed

section \<open>Strings on the wire\<close>

text \<open>The length and the octets, the final null counted among them.\<close>

definition str_wire :: "'s \<Rightarrow> 8 word list \<Rightarrow> 8 word list" where
  "str_wire s body =
     in_memory (host_le (prim io)) 4
       (if marshal_byte_swap (prim io) s then byteSwap32 (of_nat (length body)) else of_nat (length body))
     @ body"

lemma wrote_append:
  "wrote s a bs s1 \<Longrightarrow> wrote s1 1 cs s2 \<Longrightarrow> wrote s a (bs @ cs) s2"
  by (auto simp: wrote_def flags_kept_def)

lemma wrote_sinv: "wrote s a bs s' \<Longrightarrow> sinv s'"
  by (simp add: wrote_def)

lemma marshalULong_wrote:
  assumes "sinv s"
  shows "\<exists>s'. marshalULong (prim io) s v = Inr s' \<and>
    wrote s 4 (in_memory (host_le (prim io)) 4 (if marshal_byte_swap (prim io) s then byteSwap32 v else v)) s'"
  using put_prim_wrote [OF assms, of "in_memory (host_le (prim io)) 4
    (if marshal_byte_swap (prim io) s then byteSwap32 v else v)"]
  by (simp add: marshalULong_def)

lemma put_str_wrote:
  assumes "sinv s"
  shows "\<exists>s1 s2. marshalULong (prim io) s (of_nat (length body)) = Inr s1 \<and>
    put_octet_array (prim io) s1 body 1 = Inr s2 \<and> wrote s 4 (str_wire s body) s2"
proof -
  obtain s1 where s1: "marshalULong (prim io) s (of_nat (length body)) = Inr s1"
    "wrote s 4 (in_memory (host_le (prim io)) 4
       (if marshal_byte_swap (prim io) s then byteSwap32 (of_nat (length body)) else of_nat (length body))) s1"
    using marshalULong_wrote [OF assms] by blast
  obtain s2 where "put_octet_array (prim io) s1 body 1 = Inr s2" "wrote s1 1 body s2"
    using put_array_wrote [OF wrote_sinv [OF s1(2)]] by auto
  with s1 show ?thesis using wrote_append [OF s1(2)] by (auto simp: str_wire_def)
qed

lemma marshal_chars_wrote:
  assumes "list_all2 (\<lambda>u c. f u = Inr c) us cs" and "sinv s"
  shows "\<exists>s'. marshal_chars io f s us (length us) = Inr s' \<and> wrote s 1 cs s'"
  using assms
proof (induction arbitrary: s rule: list_all2_induct)
  case Nil
  then show ?case by (auto simp: wrote_def flags_kept_def)
next
  case (Cons u us c cs)
  obtain s1 where s1: "marshalOctet (prim io) s c = Inr s1" "wrote s 1 [c] s1"
    using put_prim_wrote [OF Cons.prems, of "[c]"] by (auto simp: marshalOctet_def)
  with Cons.IH [OF wrote_sinv] obtain s2 where
    "marshal_chars io f s1 us (length us) = Inr s2" "wrote s1 1 cs s2" by blast
  with s1 Cons.hyps(1) show ?case using wrote_append [OF s1(2)] by auto
qed

text \<open>A reader that works on any stream with \<open>body\<close> ahead, after the length has been read.\<close>

lemma string_length_wire:
  assumes w: "wrote s 4 (str_wire s body) s'" and t: "sinv t" "out t = out s' @ rest" "pos t = length (out s)"
    and flag: "unmarshal_byte_swap (prim io) t = marshal_byte_swap (prim io) s"
    and body: "body \<noteq> []" "length body < 2 ^ 32"
    and bound: "bound = 0 \<or> length body - 1 \<le> unat bound"
  shows "\<exists>t'. string_length strict io t bound = Inr (Some (of_nat (length body)), t') \<and>
    reads t (length (out s') - length body) t' \<and> ahead t' body"
proof -
  let ?n = "of_nat (length body) :: 32 word"
  let ?L = "in_memory (host_le (prim io)) 4
    (if marshal_byte_swap (prim io) s then byteSwap32 ?n else ?n)"
  have wl: "str_wire s body = ?L @ body" by (simp add: str_wire_def)
  note p = wrote_position [OF w _ t(2,3), simplified]
  have len: "align_to (pos t) 4 + 4 = length (out s') - length body"
    using p(2) by (simp add: wl)
  have "take (length ?L) (take (length ?L + length body) (drop (align_to (pos t) 4) (out t))) =
      take (length ?L) (map Some (?L @ body))"
    using p(1) by (simp add: wl)
  then have tk: "take (length ?L) (drop (align_to (pos t) (length ?L)) (out t)) = map Some ?L"
    by (simp add: min_def)
  have le: "align_to (pos t) (length ?L) + length ?L \<le> length (out t)"
    using p(3) by (simp add: wl)
  obtain t1 where t1: "get_prim (prim io) t 4 = Inr (?L, t1)" "reads t (align_to (pos t) 4 + 4) t1"
    using get_prim [OF t(1) _ tk le] by (auto simp: reads_def)
  have ul: "unmarshalULong (prim io) t = Inr (?n, t1)"
    using t1(1) flag by (simp add: unmarshalULong_def Let_def host_octets)
  have dr: "drop (align_to (pos t) 4 + 4) (out t) = map Some body @ rest"
  proof -
    have "drop (align_to (pos t) 4) (out t) = map Some (?L @ body) @ drop (align_to (pos t) 4 + 4 + length body) (out t)"
      using append_take_drop_id [of "4 + length body" "drop (align_to (pos t) 4) (out t)"] p(1)
      by (simp add: wl ac_simps)
    moreover have "drop (align_to (pos t) 4 + 4 + length body) (out t) = rest"
      using p(2) by (simp add: wl t(2) ac_simps)
    ultimately have "drop 4 (drop (align_to (pos t) 4) (out t)) = map Some body @ rest" by simp
    then show ?thesis by (simp add: ac_simps)
  qed
  have a1: "ahead t1 body" using ahead_reads [OF t1(2)] dr by blast
  have un: "unat ?n = length body" using body(2) by (simp add: unat_of_nat)
  have n0: "?n \<noteq> 0" using un body(1) by auto
  have b: "\<not> (bound \<noteq> 0 \<and> bound < ?n - 1)"
  proof -
    have "unat (?n - 1) = length body - 1" using un n0 by (simp add: unat_minus_one)
    then show ?thesis using bound by (auto simp: word_less_nat_alt)
  qed
  have "pos t1 + unat ?n \<le> length (out t1)"
    using ahead_take(2) [of t1 body "[]"] a1 body(1) un by simp
  from overrun_ok [OF reads_sinv [OF t1(2)] this] obtain t2
    where t2: "overrun io t1 1 ?n 1 = (True, t2)" "reads t1 (pos t1) t2" by blast
  have "ahead t2 body" using a1 t2(2) by (auto simp: ahead_def reads_def)
  moreover have "reads t (length (out s') - length body) t2"
    using reads_trans [OF t1(2) t2(2)] t1(2) by (simp add: reads_def len)
  moreover have "string_length strict io t bound = Inr (Some ?n, t2)"
    unfolding string_length_def ul using n0 b t2(1) by simp
  ultimately show ?thesis by blast
qed

lemma string_carries:
  assumes w: "wrote s 4 (str_wire s body) s'" and s: "sinv s"
    and body: "body \<noteq> []" "length body < 2 ^ 32"
    and bound: "bound = 0 \<or> length body - 1 \<le> unat bound"
    and reader: "\<And>t t1. string_length strict io t bound = Inr (Some (of_nat (length body)), t1) \<Longrightarrow>
      ahead t1 body \<Longrightarrow> \<exists>t2. r t = Inr (v, t2) \<and> reads t1 (pos t1 + length body) t2"
  shows "carries s r v s'"
  unfolding carries_def
proof (intro conjI allI impI)
  show "sinv s'" "pos s' = pos s" "flags_kept (prim io) s s'" "\<exists>ext. out s' = out s @ ext"
    using w by (auto simp: wrote_def)
  fix t rest
  assume t: "sinv t \<and> out t = out s' @ rest \<and> pos t = length (out s) \<and>
    unmarshal_byte_swap (prim io) t = marshal_byte_swap (prim io) s"
  from string_length_wire [OF w _ _ _ _ body bound] t obtain t1
    where t1: "string_length strict io t bound = Inr (Some (of_nat (length body)), t1)"
      "reads t (length (out s') - length body) t1" "ahead t1 body" by blast
  from reader [OF t1(1,3)] obtain t2 where t2: "r t = Inr (v, t2)" "reads t1 (pos t1 + length body) t2" by blast
  have "length body \<le> length (out s')" using w by (auto simp: wrote_def str_wire_def)
  then have "reads t (length (out s')) t2"
    using reads_trans [OF t1(2) t2(2)] t1(2) by (simp add: reads_def)
  with t2(1) show "\<exists>t'. r t = Inr (v, t') \<and> reads t (length (out s')) t'" by blast
qed

end
end
