(* ===== verification/Utf8_Codec.thy ===== *)
theory Utf8_Codec
  imports Utf8_Spec Code_Set_Laws
begin

unbundle bit_operations_syntax

text \<open>
  The loops of \<^verbatim>\<open>cs-UTF-8.cc\<close> against the reference: what the encoder makes of a sequence of code
  points, what the decoders make of the encoding, from memory and from a stream.
\<close>

section \<open>Surrogate pairs\<close>

lemma utf16_bmp: "cp < 0x10000 \<Longrightarrow> utf16 cp = [of_nat cp]"
  by (simp add: utf16_def)

lemma unat_unit: "n < 0x10000 \<Longrightarrow> unat (of_nat n :: UniChar) = n"
  by (simp add: unat_of_nat)

lemma unat_code: "n < 0x200000 \<Longrightarrow> unat (of_nat n :: 32 word) = n"
  by (simp add: unat_of_nat)

lemma ucast_nat: "LENGTH('b) \<le> LENGTH('a) \<Longrightarrow> ucast (of_nat n :: 'a::len word) = (of_nat n :: 'b::len word)"
  by (rule bit_word_eqI) (auto simp: bit_simps)

lemma ucast16: "ucast (of_nat n :: 32 word) = (of_nat n :: UniChar)"
  by (rule ucast_nat) simp

lemma units_of_code:
  assumes "cp \<le> 0x10FFFF"
  shows "units_of (of_nat cp) = utf16 cp"
proof (cases "cp < 0x10000")
  case True
  have "(of_nat cp :: 32 word) \<le> 0xffff \<longleftrightarrow> cp \<le> 0xffff"
    using True by (simp add: word_le_nat_alt unat_code)
  then show ?thesis using True ucast_nat [where 'a = 32 and 'b = 16, of cp] by (simp add: units_of_def utf16_def)
next
  case False
  let ?c = "of_nat cp :: 32 word" and ?r = "cp - 0x10000"
  have r: "?r < 0x100000" using assms False by simp
  have c: "?c - 0x10000 = of_nat ?r" using False by (simp add: of_nat_diff)
  have n: "\<not> ?c \<le> 0xffff" using False assms by (simp add: word_le_nat_alt unat_code)
  have "drop_bit 10 (of_nat ?r :: 32 word) = of_nat (?r div 1024)"
  proof -
    have "?r < 0x200000" "?r div 1024 < 0x200000" using r by (simp_all add: less_mult_imp_div_less)
    then show ?thesis
      by (simp only: word_unat_eq_iff unat_drop_bit_eq unat_code) (simp add: drop_bit_eq_div)
  qed
  then have "drop_bit 10 (of_nat ?r) + 0xd800 = (of_nat (0xD800 + ?r div 1024) :: 32 word)" by simp
  then have hi: "ucast (drop_bit 10 (of_nat ?r) + 0xd800 :: 32 word) = (of_nat (0xD800 + ?r div 1024) :: UniChar)"
    by (simp only: ucast16)
  have "(0x3ff :: 32 word) = mask 10" by (simp add: mask_eq_exp_minus_1)
  then have "(of_nat ?r :: 32 word) AND 0x3ff = of_nat (?r mod 1024)"
    by (simp only: take_bit_eq_mask [symmetric] take_bit_of_nat) (simp add: take_bit_eq_mod)
  then have "((of_nat ?r :: 32 word) AND 0x3ff) + 0xdc00 = of_nat (0xDC00 + ?r mod 1024)" by simp
  then have lo: "ucast (((of_nat ?r :: 32 word) AND 0x3ff) + 0xdc00) = (of_nat (0xDC00 + ?r mod 1024) :: UniChar)"
    by (simp only: ucast16)
  have "units_of ?c = [ucast (drop_bit 10 (of_nat ?r :: 32 word) + 0xd800), ucast (((of_nat ?r :: 32 word) AND 0x3ff) + 0xdc00)]"
    by (simp only: units_of_def n if_False Let_def c)
  then show ?thesis using False by (simp only: hi lo utf16_def if_False)
qed

text \<open>The pair as the encoder reads it.\<close>

lemma pair_code:
  assumes "0x10000 \<le> cp" and "cp \<le> 0x10FFFF"
    and "hi = of_nat (0xD800 + (cp - 0x10000) div 1024)" and "lo = of_nat (0xDC00 + (cp - 0x10000) mod 1024)"
  shows "unat (hi :: UniChar) = 0xD800 + (cp - 0x10000) div 1024"
    and "unat (lo :: UniChar) = 0xDC00 + (cp - 0x10000) mod 1024"
    and "0xD800 \<le> unat hi" "unat hi < 0xDC00" "0xDC00 \<le> unat lo" "unat lo \<le> 0xDFFF"
    and "push_bit 10 (ucast hi - 0xd800) + ucast lo - 0xdc00 + 0x10000 = (of_nat cp :: 32 word)"
proof -
  let ?r = "cp - 0x10000"
  have r: "?r div 1024 < 1024" "?r mod 1024 < 1024" using assms(1,2) by (auto simp: div_less_iff_less_mult)
  show hi: "unat hi = 0xD800 + ?r div 1024" unfolding assms(3) by (rule unat_unit) (use r in linarith)
  show lo: "unat lo = 0xDC00 + ?r mod 1024" unfolding assms(4) by (rule unat_unit) (use r in linarith)
  show "0xD800 \<le> unat hi" "unat hi < 0xDC00" "0xDC00 \<le> unat lo" "unat lo \<le> 0xDFFF"
    using hi lo r by linarith+
  have "(ucast hi :: 32 word) = of_nat (unat hi)" "(ucast lo :: 32 word) = of_nat (unat lo)" by simp_all
  then have "push_bit 10 (ucast hi - 0xd800) + ucast lo - 0xdc00 + 0x10000 =
      (1024 * of_nat (?r div 1024) + of_nat (?r mod 1024) + 0x10000 :: 32 word)"
    by (simp only: hi lo of_nat_add of_nat_numeral push_bit_eq_mult) (simp add: ac_simps)
  also have "\<dots> = of_nat (1024 * (?r div 1024) + ?r mod 1024 + 0x10000)" by (simp only: of_nat_add of_nat_mult of_nat_numeral)
  also have "1024 * (?r div 1024) + ?r mod 1024 + 0x10000 = cp" using assms(1) by simp
  finally show "push_bit 10 (ucast hi - 0xd800) + ucast lo - 0xdc00 + 0x10000 = (of_nat cp :: 32 word)" .
qed

section \<open>Encoding\<close>

text \<open>The octets the encoder makes of a code point, and the code points it encodes correctly.\<close>

definition sent :: "nat \<Rightarrow> 8 word list" where
  "sent cp = (if cp < 0x10000 then utf8 cp else butlast (utf8 cp) @ [of_nat (last4 cp)])"

definition intact :: "nat \<Rightarrow> bool" where
  "intact cp \<longleftrightarrow> cp < 0x10000 \<or> (cp div 16 mod 2 = 0 \<and> cp div 64 mod 2 = 0)"

lemma last4_intact: "cp div 16 mod 2 = 0 \<Longrightarrow> cp div 64 mod 2 = 0 \<Longrightarrow> last4 cp = 0x80 + cp mod 64"
proof -
  let ?q = "cp div 16"
  assume "?q mod 2 = 0" and "cp div 64 mod 2 = 0"
  moreover have "cp div 64 = ?q div 4" "cp div 32 = ?q div 2" by (simp_all add: div_mult2_eq [symmetric])
  moreover have "q mod 2 = 0 \<Longrightarrow> q div 4 mod 2 = 0 \<Longrightarrow> 2 * (q div 2 mod 4) = q mod 4" for q :: nat
  proof -
    assume "q mod 2 = 0" and "q div 4 mod 2 = 0"
    then obtain m c where m: "q = 2 * m" "m div 2 = 2 * c" by (auto elim!: evenE simp: even_iff_mod_2_eq_zero [symmetric])
    then have "m = 4 * c \<or> m = 4 * c + 1" using div_mult_mod_eq [of m 2] by linarith
    then show ?thesis using m(1) by (elim disjE) (simp, presburger)
  qed
  ultimately have "32 * (cp div 32 mod 4) = 16 * (?q mod 4)" by simp
  moreover have "cp mod 64 = 16 * (?q mod 4) + cp mod 16" using mod_mult2_eq [of cp 16 4] by simp
  ultimately show ?thesis by (simp add: last4_def)
qed

lemma sent_intact: "intact cp \<Longrightarrow> sent cp = utf8 cp"
  by (auto simp: intact_def sent_def utf8_def last4_intact)

lemma encode_bmp:
  assumes "scalar cp" and "cp < 0x10000"
  shows "encode_units prev (of_nat cp # us) (Suc n) =
    ebind (encode_units (of_nat cp) us n) (\<lambda>(bs, l). Inr (utf8 cp @ bs, l))"
proof -
  let ?u = "of_nat cp :: UniChar"
  have u: "unat ?u = cp" using assms(2) by (simp add: unat_unit)
  have cmp: "?u < 0x0080 \<longleftrightarrow> cp < 0x80" "?u < 0x0800 \<longleftrightarrow> cp < 0x800" "?u < 0xd800 \<longleftrightarrow> cp < 0xd800"
    "?u < 0xdc00 \<longleftrightarrow> cp < 0xdc00" "?u < 0xe000 \<longleftrightarrow> cp < 0xe000"
    by (simp_all add: word_less_nat_alt u)
  have "ucast ?u = (of_nat cp :: 8 word)" by (rule ucast_nat) simp
  moreover have "cp < 0x800 \<Longrightarrow> utf8_2 ?u = [of_nat (0xC0 + cp div 64), of_nat (0x80 + cp mod 64)]"
    using utf8_2_spec [of ?u] unfolding u by blast
  moreover have "utf8_3 ?u = [of_nat (0xE0 + cp div 4096), of_nat (0x80 + cp div 64 mod 64), of_nat (0x80 + cp mod 64)]"
    using utf8_3_spec [of ?u] unfolding u .
  ultimately show ?thesis
    using assms by (simp add: cmp utf8_def scalar_def del: of_nat_add) auto
qed

lemma encode_pair:
  assumes "0x10000 \<le> cp" and "cp \<le> 0x10FFFF" and "0 < n"
  shows "\<exists>l. encode_units prev (utf16 cp @ us) (Suc (Suc n)) =
    ebind (encode_units l us n) (\<lambda>(bs, l). Inr (sent cp @ bs, l))"
proof -
  let ?hi = "of_nat (0xD800 + (cp - 0x10000) div 1024) :: UniChar"
  let ?lo = "of_nat (0xDC00 + (cp - 0x10000) mod 1024) :: UniChar"
  note p = pair_code [OF assms(1,2) refl refl]
  have cmp: "\<not> ?hi < 0x80" "\<not> ?hi < 0x800" "\<not> ?hi < 0xd800" "?hi < 0xdc00" "\<not> (?lo < 0xdc00 \<or> 0xdfff < ?lo)"
    using p(3-6) by (simp_all add: word_less_nat_alt del: of_nat_add)
  have u: "unat (of_nat cp :: 32 word) = cp" using assms(2) by (simp add: unat_code)
  have "utf8_4 (of_nat cp) = sent cp"
    using assms utf8_4_spec [of "of_nat cp"] unfolding u by (simp add: sent_def utf8_def del: of_nat_add)
  moreover have "utf16 cp = [?hi, ?lo]" using assms(1) by (simp add: utf16_def)
  ultimately have "encode_units prev (utf16 cp @ us) (Suc (Suc n)) =
      ebind (encode_units ?lo us n) (\<lambda>(bs, l). Inr (sent cp @ bs, l))"
    using assms(3) by (simp only: append_Cons append_Nil encode_units.simps cmp if_False if_True list.case Let_def p(7)
      not_gr_zero nat.inject diff_Suc_1 One_nat_def simp_thms) simp
  then show ?thesis by blast
qed

text \<open>A string of code points with its final null.\<close>

definition units :: "nat list \<Rightarrow> UniChar list" where
  "units cps = concat (map utf16 cps)"

lemma units_simps [simp]: "units [] = []" "units (cp # cps) = utf16 cp @ units cps"
  by (simp_all add: units_def)

lemma encode_string:
  "\<forall>cp \<in> set cps. scalar cp \<Longrightarrow>
    encode_units prev (units cps @ [0]) (length (units cps) + 1) = Inr (concat (map sent cps) @ [0], 0)"
proof (induction cps arbitrary: prev)
  case Nil
  then show ?case by simp
next
  case (Cons cp cps)
  then have sc: "scalar cp" by simp
  show ?case
  proof (cases "cp < 0x10000")
    case True
    then show ?thesis
      using Cons encode_bmp [OF sc True, of prev "units cps @ [0]" "length (units cps) + 1"]
      by (simp add: utf16_bmp sent_def)
  next
    case False
    with sc have "0x10000 \<le> cp" "cp \<le> 0x10FFFF" by (auto simp: scalar_def)
    from encode_pair [OF this, of "length (units cps) + 1" prev "units cps @ [0]"] obtain l
      where "encode_units prev (utf16 cp @ units cps @ [0]) (Suc (Suc (length (units cps) + 1))) =
        ebind (encode_units l (units cps @ [0]) (length (units cps) + 1)) (\<lambda>(bs, l). Inr (sent cp @ bs, l))"
      by auto
    moreover have "length (utf16 cp) = 2" using False by (simp add: utf16_def)
    ultimately show ?thesis using Cons by simp
  qed
qed

section \<open>Decoding from memory\<close>

lemma seq_bound: "is_seq cp c ys \<Longrightarrow> (unat (ucast (c AND utf8Mask ! unat c) :: 32 word) + 1) * 64 ^ length ys \<le> 2 ^ 32"
proof -
  assume "is_seq cp c ys"
  then have l: "length ys \<le> 3" by (simp add: is_seq_def)
  have "unat (c AND utf8Mask ! unat c) < 256" using unsigned_less [of "c AND utf8Mask ! unat c"] by simp
  then have "unat (ucast (c AND utf8Mask ! unat c) :: 32 word) + 1 \<le> 256" by (simp add: unat_ucast_octet)
  then have "(unat (ucast (c AND utf8Mask ! unat c) :: 32 word) + 1) * 64 ^ length ys \<le> 256 * 64 ^ 3"
    using l by (intro mult_le_mono power_increasing) simp_all
  then show ?thesis by simp
qed

lemma trail_seq:
  assumes "is_seq cp c ys"
  shows "trail (length ys) (ucast (c AND utf8Mask ! unat c)) (ys @ cs) = Inr (of_nat cp, cs)"
proof -
  let ?l = "ucast (c AND utf8Mask ! unat c) :: 32 word"
  have "unat ?l = unat (c AND utf8Mask ! unat c)" by (simp add: unat_ucast_octet)
  then obtain lc where "trail (length ys) ?l (ys @ cs) = Inr (lc, cs)" "unat lc = cp"
    using trail_octets [of ys ?l cs] seq_bound [OF assms] assms by (auto simp: is_seq_def)
  moreover have "of_nat (unat lc) = lc" by simp
  ultimately show ?thesis by simp
qed

lemma decode_string_utf8:
  assumes "scalar cp" and "cp \<noteq> 0"
  shows "decode_string (utf8 cp @ cs) = ebind (decode_string cs) (\<lambda>us. Inr (utf16 cp @ us))"
proof -
  have b: "cp \<le> 0x10FFFF" "cp < 0x200000" using assms(1) by (auto simp: scalar_def)
  obtain c ys where u: "utf8 cp = c # ys" and s: "is_seq cp c ys" and "c \<noteq> 0"
    using utf8_is_seq [OF b(2)] assms(2) by blast
  then show ?thesis
    using trail_seq [OF s, of cs] by (simp add: decode_string.simps is_seq_def units_of_code [OF b(1)])
qed

lemma decode_string_all:
  "\<forall>cp \<in> set cps. scalar cp \<and> cp \<noteq> 0 \<Longrightarrow> decode_string (concat (map utf8 cps) @ [0]) = Inr (units cps)"
proof (induction cps)
  case Nil
  then show ?case by (simp add: decode_string.simps)
next
  case (Cons cp cps)
  then show ?case using decode_string_utf8 [of cp "concat (map utf8 cps) @ [0]"] by simp
qed

end
