(* ===== verification/Utf8_Validate.thy ===== *)
theory Utf8_Validate
  imports Utf8_Codec
begin

unbundle bit_operations_syntax

text \<open>
  \<^verbatim>\<open>TCS_C_UTF_8::validateString\<close> accepts exactly the strings that encode Unicode scalar values in their
  shortest form, and none of the string loops of \<^verbatim>\<open>cs-UTF-8.cc\<close> reads past the null of a string.
\<close>

lemma trail_inv:
  assumes "trail n lc cs = Inr (lc', rest)" and "(unat lc + 1) * 64 ^ n \<le> 2 ^ 32"
  shows "\<exists>ys. cs = ys @ rest \<and> length ys = n \<and> (\<forall>y \<in> set ys. unat y div 64 = 2) \<and>
    unat lc' = foldl append_octet (unat lc) ys"
proof -
  have "\<exists>ys. cs = ys @ rest \<and> length ys = n \<and> (\<forall>y \<in> set ys. unat y div 64 = 2)"
    using assms(1)
    by (induction n lc cs rule: trail.induct)
       (auto simp: err_simps validateExt_iff Cons_eq_append_conv length_Suc_conv split: if_splits)
  then obtain ys where y: "cs = ys @ rest" "length ys = n" "\<forall>y \<in> set ys. unat y div 64 = 2" by blast
  with trail_octets [OF y(3), of lc rest] assms show ?thesis by auto
qed

lemma trail_result:
  "(\<exists>r. trail n lc (cs @ [0]) = Inr r) \<or> trail n lc (cs @ [0]) = Inl BadInputChar"
proof (induction n arbitrary: lc cs)
  case 0
  then show ?case by simp
next
  case (Suc n)
  then show ?case by (cases cs) (auto simp: validateExt_iff)
qed

text \<open>A following octet is never the null: what is left still ends with it.\<close>

lemma trail_keeps_null:
  assumes "trail n lc (cs @ [0]) = Inr (lc', rest)"
  shows "\<exists>cs'. rest = cs' @ [0] \<and> length cs' \<le> length cs \<and> set cs' \<subseteq> set cs"
  using assms
proof (induction n arbitrary: lc cs)
  case 0
  then show ?case by auto
next
  case (Suc n)
  show ?case
  proof (cases cs)
    case Nil
    then show ?thesis using Suc.prems by (simp add: validateExt_iff)
  next
    case (Cons c cs1)
    then have "trail n (push_bit 6 lc OR ucast (c AND 0x3f)) (cs1 @ [0]) = Inr (lc', rest)"
      using Suc.prems by (auto simp: err_simps)
    from Suc.IH [OF this] Cons show ?thesis by fastforce
  qed
qed

lemma unat_lead_mask:
  assumes "bytes \<le> 5"
  shows "unat (ucast c AND (push_bit (6 - bytes) 1 - 1) :: 32 word) = unat (c :: 8 word) mod 2 ^ (6 - bytes)"
proof -
  have "(push_bit (6 - bytes) 1 - 1 :: 32 word) = mask (6 - bytes)"
    by (simp add: mask_eq_exp_minus_1 push_bit_eq_mult)
  then show ?thesis
    by (simp only: take_bit_eq_mask [symmetric] unsigned_take_bit_eq unat_ucast_octet)
       (simp add: unat_ucast_octet take_bit_eq_mod)
qed

lemma utf8_length: "length (utf8 cp) = width (of_nat cp)" if "cp < 0x200000"
  using that by (auto simp: utf8_def width_def word_le_nat_alt unat_code)

lemma count_range:
  assumes "n < 256" and "utf8Count ! n \<le> 3"
  shows "utf8Count ! n = 0 \<and> n < 128 \<or> utf8Count ! n = 1 \<and> 192 \<le> n \<and> n < 224 \<or>
    utf8Count ! n = 2 \<and> 224 \<le> n \<and> n < 240 \<or> utf8Count ! n = 3 \<and> 240 \<le> n \<and> n < 248"
proof -
  consider "n < 128" | "128 \<le> n \<and> n < 192" | "192 \<le> n \<and> n < 224" | "224 \<le> n \<and> n < 240"
    | "240 \<le> n \<and> n < 248" | "248 \<le> n" by linarith
  then show ?thesis using assms utf8Count_high [of n] by cases (simp_all add: utf8Count_nth)
qed

lemma lead_mask:
  assumes "utf8Count ! unat c = Suc k" and "k \<le> 2"
  shows "utf8Mask ! unat (c :: 8 word) = mask (5 - k)"
proof -
  have "unat c < 256" using unsigned_less [of c] by simp
  from count_range [OF this] assms have "k = 0 \<and> 192 \<le> unat c \<and> unat c < 224 \<or>
      k = 1 \<and> 224 \<le> unat c \<and> unat c < 240 \<or> k = 2 \<and> 240 \<le> unat c \<and> unat c < 248"
    by auto
  then show ?thesis using utf8Mask_nth(2-4) [of "unat c"] by auto
qed

lemma lead_value:
  assumes "utf8Count ! unat c = Suc k" and "k \<le> 2"
  shows "ucast c AND (push_bit (6 - Suc k) 1 - 1) = (ucast (c AND utf8Mask ! unat c) :: 32 word)"
proof -
  have "unat (ucast c AND (push_bit (6 - Suc k) 1 - 1) :: 32 word) = unat c mod 2 ^ (6 - Suc k)"
    by (rule unat_lead_mask) (use assms(2) in simp)
  also have "\<dots> = unat (c AND utf8Mask ! unat c)" by (simp add: lead_mask [OF assms] unat_and_mask)
  finally show ?thesis by (simp only: word_unat_eq_iff unat_ucast_octet) (simp add: unat_ucast_octet)
qed

text \<open>One character.\<close>

lemma validate_char:
  assumes sc: "scalar cp" and nz: "cp \<noteq> 0"
  shows "validateString (utf8 cp @ cs) = validateString cs"
proof -
  have b: "cp < 0x200000" using sc by (auto simp: scalar_def)
  obtain c ys where u: "utf8 cp = c # ys" and s: "is_seq cp c ys" and c: "c \<noteq> 0"
    using utf8_is_seq [OF b] nz by blast
  have len: "utf8Count ! unat c = length ys" "length ys \<le> 3" using s by (simp_all add: is_seq_def)
  show ?thesis
  proof (cases ys)
    case Nil
    then show ?thesis using u c len by (simp add: validateString.simps)
  next
    case (Cons y ys')
    then have k: "utf8Count ! unat c = Suc (length ys')" "length ys' \<le> 2" using len by simp_all
    have t: "trail (Suc (length ys')) (ucast c AND (push_bit (6 - Suc (length ys')) 1 - 1)) (ys @ cs) = Inr (of_nat cp, cs)"
      using trail_seq [OF s, of cs] Cons by (simp only: lead_value [OF k] list.size(4) add_Suc_right add_0_right)
    have "width (of_nat cp) = Suc (length ys') + 1"
      using utf8_length [OF b] u Cons by simp
    then have ok: "(0x10ffff < (of_nat cp :: 32 word) \<or>
        (0xd800 \<le> (of_nat cp :: 32 word) \<and> (of_nat cp :: 32 word) \<le> 0xdfff) \<or>
        width (of_nat cp) \<noteq> Suc (length ys') + 1) = False"
      using sc by (auto simp: word_le_nat_alt word_less_nat_alt unat_code [OF b] scalar_def)
    have n: "(c = 0) = False" "(Suc (length ys') = 0) = False" "(4 \<le> Suc (length ys')) = False"
      using c k(2) by simp_all
    show ?thesis
      by (simp only: u append_Cons validateString.simps Let_def k(1) n t ok if_False ebind_Inr prod.case)
  qed
qed

text \<open>Two sequences of the same length for the same code point are the same.\<close>

lemma octets_unique:
  assumes "foldl append_octet a ys = foldl append_octet b zs" and "length ys = length zs"
    and "\<forall>y \<in> set ys. unat y div 64 = 2" and "\<forall>z \<in> set zs. unat z div 64 = 2"
  shows "a = b \<and> ys = zs"
  using assms
proof (induction ys arbitrary: zs rule: rev_induct)
  case Nil
  then show ?case by simp
next
  case (snoc y ys)
  then obtain z zs' where z: "zs = zs' @ [z]" by (cases zs rule: rev_cases) auto
  let ?A = "foldl append_octet a ys" and ?B = "foldl append_octet b zs'"
  have e: "64 * ?A + unat y mod 64 = 64 * ?B + unat z mod 64"
    using snoc.prems(1)
    by (simp only: z foldl_append foldl.simps append_octet_def [of ?A y] append_octet_def [of ?B z])
  have "unat y mod 64 < 64" "unat z mod 64 < 64" by simp_all
  with e have AB: "?A = ?B" by linarith
  have "unat y mod 64 = unat z mod 64" using e unfolding AB by simp
  moreover have "unat y div 64 = 2" "unat z div 64 = 2" using snoc.prems z by simp_all
  ultimately have "unat y = unat z" by (metis div_mult_mod_eq)
  then have "y = z" by (simp only: word_unat_eq_iff)
  moreover have "a = b \<and> ys = zs'" using snoc.IH [of zs'] snoc.prems z AB by simp
  ultimately show ?case by (simp add: z)
qed

lemma seq_unique:
  assumes "is_seq cp c ys" and "is_seq cp d zs" and "length ys = length zs"
  shows "c = d \<and> ys = zs"
proof -
  have u: "unat (c AND utf8Mask ! unat c) = unat (d AND utf8Mask ! unat d) \<and> ys = zs"
    using octets_unique [OF _ assms(3)] assms(1,2) unfolding is_seq_def by metis
  have n: "unat c < 256" "unat d < 256" using unsigned_less [of c] unsigned_less [of d] by simp_all
  have l: "length ys \<le> 3" "utf8Count ! unat c = length ys" "utf8Count ! unat d = length ys"
    using assms by (simp_all add: is_seq_def)
  have "unat c = unat d"
    using count_range [OF n(1)] count_range [OF n(2)] l u lead_bits [of c] lead_bits [of d] by auto
  then show ?thesis using u by (simp only: word_unat_eq_iff)
qed

lemma validate_inv:
  assumes "validateString (c # cs) = Inr ()" and c0: "c \<noteq> 0"
  shows "\<exists>cp rest. c # cs = utf8 cp @ rest \<and> scalar cp \<and> cp \<noteq> 0 \<and> validateString rest = Inr ()"
proof -
  have n: "unat c < 256" using unsigned_less [of c] by simp
  show ?thesis
  proof (cases "utf8Count ! unat c")
    case 0
    with count_range [OF n] have l: "unat c < 128" by auto
    have "unat c \<noteq> 0" using c0 by (simp add: unat_eq_0)
    moreover have "utf8 (unat c) = [c]" using l by (simp add: utf8_def)
    moreover have "validateString cs = Inr ()" using assms 0 by (simp add: validateString.simps)
    ultimately show ?thesis using l by (intro exI [of _ "unat c"] exI [of _ cs]) (simp add: scalar_def)
  next
    case (Suc k)
    obtain lc rest where k: "k \<le> 2"
      and t: "trail (Suc k) (ucast c AND (push_bit (6 - Suc k) 1 - 1)) cs = Inr (lc, rest)"
      and v: "\<not> (0x10ffff < lc \<or> (0xd800 \<le> lc \<and> lc \<le> 0xdfff) \<or> width lc \<noteq> Suc k + 1)"
        "validateString rest = Inr ()"
      using assms Suc by (auto simp: validateString.simps Let_def err_simps not_le split: if_splits)
    let ?cp = "unat lc" and ?l = "ucast (c AND utf8Mask ! unat c) :: 32 word"
    have l: "unat ?l = unat (c AND utf8Mask ! unat c)" by (simp add: unat_ucast_octet)
    have "(unat ?l + 1) * 64 ^ Suc k \<le> 256 * 64 ^ 3"
    proof (rule mult_le_mono)
      have "unat (c AND utf8Mask ! unat c) < 2 ^ LENGTH(8)" by (rule unsigned_less)
      then show "unat ?l + 1 \<le> 256" using l by simp
      show "(64 :: nat) ^ Suc k \<le> 64 ^ 3" using k by (intro power_increasing) simp_all
    qed
    then obtain ys where y: "cs = ys @ rest" "length ys = Suc k" "\<forall>y \<in> set ys. unat y div 64 = 2"
      "?cp = foldl append_octet (unat ?l) ys"
      using trail_inv [OF t [unfolded lead_value [OF Suc k]]] by auto
    have s: "is_seq ?cp c ys" using y Suc k l by (simp add: is_seq_def)
    have r: "scalar ?cp" "?cp < 0x200000" using v(1) by (auto simp: scalar_def word_le_nat_alt word_less_nat_alt)
    obtain d zs where d: "utf8 ?cp = d # zs" "is_seq ?cp d zs" "d = 0 \<longleftrightarrow> ?cp = 0"
      using utf8_is_seq [OF r(2)] by (elim exE conjE) (rule that)
    have "length (d # zs) = Suc k + 1" using utf8_length [OF r(2)] d(1) v(1) by simp
    then have "c = d \<and> ys = zs" using seq_unique [OF s d(2)] y(2) by simp
    then show ?thesis using d y(1) r(1) v(2) c0 by (intro exI [of _ ?cp] exI [of _ rest]) simp
  qed
qed

lemma validate_result:
  "validateString (s @ [0]) = Inr () \<or> validateString (s @ [0]) = Inl BadInputChar"
proof (induction s rule: length_induct)
  case (1 s)
  show ?case
  proof (cases s)
    case Nil
    then show ?thesis by (simp add: validateString.simps)
  next
    case (Cons c cs)
    let ?t = "trail (utf8Count ! unat c) (ucast c AND (push_bit (6 - utf8Count ! unat c) 1 - 1)) (cs @ [0])"
    have ih: "validateString (cs' @ [0]) = Inr () \<or> validateString (cs' @ [0]) = Inl BadInputChar"
      if "length cs' \<le> length cs" for cs' using 1 Cons that by auto
    have step: "validateString (s @ [0]) =
        (if c = 0 then Inr () else if utf8Count ! unat c = 0 then validateString (cs @ [0])
         else if 4 \<le> utf8Count ! unat c then Inl BadInputChar
         else ebind ?t (\<lambda>(cp, cs). if 0x10ffff < cp \<or> (0xd800 \<le> cp \<and> cp \<le> 0xdfff) \<or> width cp \<noteq> utf8Count ! unat c + 1
           then Inl BadInputChar else validateString cs))"
      by (simp add: Cons validateString.simps Let_def)
    show ?thesis
    proof (cases ?t)
      case (Inl e)
      then have "e = BadInputChar" using trail_result [of "utf8Count ! unat c" _ cs] by (metis Inl_inject Inr_not_Inl)
      then show ?thesis using step Inl ih [of cs] by simp
    next
      case (Inr r)
      obtain lc rest where r: "r = (lc, rest)" by (cases r)
      with trail_keeps_null [of "utf8Count ! unat c" _ cs] Inr obtain cs'
        where "rest = cs' @ [0]" "length cs' \<le> length cs" by blast
      then show ?thesis using step Inr r ih [of cs] ih [of cs'] by simp
    qed
  qed
qed

text \<open>C14. The validation of native UTF-8 strings is right on every string: a string passes exactly when
  it is the encoding of Unicode scalar values other than zero (no overlong form, no surrogate, nothing
  above U+10FFFF, no incomplete sequence), any other string raises DATA_CONVERSION, and no octet
  beyond the null is read.\<close>

theorem validateString_correct:
  assumes "0 \<notin> set s"
  shows "validateString (s @ [0]) =
    (if \<exists>cps. (\<forall>cp \<in> set cps. scalar cp \<and> cp \<noteq> 0) \<and> s = concat (map utf8 cps)
     then Inr () else Inl BadInputChar)"
proof -
  have enc: "validateString (concat (map utf8 cps) @ [0]) = Inr ()"
    if "\<forall>cp \<in> set cps. scalar cp \<and> cp \<noteq> 0" for cps
    using that by (induction cps) (simp_all add: validate_char validateString.simps)
  have "\<exists>cps. (\<forall>cp \<in> set cps. scalar cp \<and> cp \<noteq> 0) \<and> s = concat (map utf8 cps)"
    if "validateString (s @ [0]) = Inr ()" and "0 \<notin> set s" for s
    using that
  proof (induction s rule: length_induct)
    case (1 s)
    show ?case
    proof (cases s)
      case Nil
      then show ?thesis by (intro exI [of _ "[]"]) simp
    next
      case (Cons c cs)
      with 1 obtain cp rest where cp: "s @ [0] = utf8 cp @ rest" "scalar cp" "cp \<noteq> 0"
        "validateString rest = Inr ()" using validate_inv [of c "cs @ [0]"] by auto
      then have "rest \<noteq> []" by (auto simp: validateString.simps)
      then obtain s' where s': "rest = s' @ [0]" "s = utf8 cp @ s'"
        using cp(1) by (metis append_butlast_last_id append_assoc last_appendR last_snoc butlast_snoc)
      have "utf8 cp \<noteq> []" by (simp add: utf8_def)
      then have "length s' < length s" "0 \<notin> set s'" using s'(2) 1(3) by simp_all
      with 1(1) cp(4) s'(1) obtain cps where "\<forall>cp \<in> set cps. scalar cp \<and> cp \<noteq> 0"
        "s' = concat (map utf8 cps)" by blast
      then show ?thesis using cp(2,3) s'(2) by (intro exI [of _ "cp # cps"]) simp
    qed
  qed
  with assms enc validate_result [of s] show ?thesis by auto
qed

theorem validateString_correct_witness:
  "validateString ([0xE2, 0x82, 0xAC] @ [0]) = Inr () \<and> validateString ([0xC0, 0x80] @ [0]) = Inl BadInputChar"
proof -
  have "[0xE2, 0x82, 0xAC] = concat (map utf8 [0x20AC])" by (simp add: utf8_def)
  moreover have "scalar 0x20AC" by (simp add: scalar_def)
  ultimately have "\<exists>cps. (\<forall>cp \<in> set cps. scalar cp \<and> cp \<noteq> 0) \<and> [0xE2, 0x82, 0xAC] = concat (map utf8 cps)"
    by (intro exI [of _ "[0x20AC]"]) simp
  then have "validateString ([0xE2, 0x82, 0xAC] @ [0]) = Inr ()"
    using validateString_correct [of "[0xE2, 0x82, 0xAC]"] by simp
  moreover have "validateString ([0xC0, 0x80] @ [0]) = Inl BadInputChar" by code_simp
  ultimately show ?thesis by blast
qed

section \<open>The other loops over native strings\<close>

lemma decode_string_result:
  "(\<exists>us. decode_string (s @ [0]) = Inr us) \<or> decode_string (s @ [0]) \<in> {Inl BadInputChar, Inl CannotMap}"
proof (induction s rule: length_induct)
  case (1 s)
  show ?case
  proof (cases s)
    case Nil
    then show ?thesis by (simp add: decode_string.simps)
  next
    case (Cons c cs)
    let ?t = "trail (utf8Count ! unat c) (ucast (c AND utf8Mask ! unat c)) (cs @ [0])"
    have ih: "(\<exists>us. decode_string (cs' @ [0]) = Inr us) \<or> decode_string (cs' @ [0]) \<in> {Inl BadInputChar, Inl CannotMap}"
      if "length cs' \<le> length cs" for cs' using 1 Cons that by auto
    have step: "decode_string (s @ [0]) =
        (if c = 0 then Inr [] else if 4 \<le> utf8Count ! unat c then Inl CannotMap
         else ebind ?t (\<lambda>(lc, cs). ebind (decode_string cs) (\<lambda>us. Inr (units_of lc @ us))))"
      by (simp add: Cons decode_string.simps Let_def)
    show ?thesis
    proof (cases ?t)
      case (Inl e)
      then have "e = BadInputChar" using trail_result [of "utf8Count ! unat c" _ cs] by (metis Inl_inject Inr_not_Inl)
      then show ?thesis using step Inl by simp
    next
      case (Inr r)
      obtain lc rest where r: "r = (lc, rest)" by (cases r)
      with trail_keeps_null [of "utf8Count ! unat c" _ cs] Inr obtain cs'
        where "rest = cs' @ [0]" "length cs' \<le> length cs" by blast
      then show ?thesis using step Inr r ih [of cs'] by auto
    qed
  qed
qed

section \<open>The wrong mask\<close>

lemma last4_bit:
  "cp div 64 mod 2 = 1 \<Longrightarrow> 0xC0 \<le> last4 cp \<and> last4 cp < 256"
proof -
  assume a: "cp div 64 mod 2 = 1"
  have "cp div 64 = cp div 32 div 2" by (simp add: div_mult2_eq [symmetric])
  moreover have "q div 2 mod 2 = 1 \<Longrightarrow> 2 \<le> q mod 4" for q :: nat by presburger
  ultimately have "2 \<le> cp div 32 mod 4" using a by simp
  moreover have "cp div 32 mod 4 < 4" "cp mod 16 < 16" by simp_all
  ultimately show ?thesis unfolding last4_def by linarith
qed

text \<open>Sending a character above U+FFFF whose code has bit 6 set (every second block of 64, such as
  U+1F64F) makes a fourth octet that no UTF-8 reader accepts, this one included: the encoder masks
  with \<^verbatim>\<open>0xef\<close> instead of \<^verbatim>\<open>0x3f\<close>.\<close>

theorem encode_supplementary_unreadable:
  assumes "0x10000 \<le> cp" and "cp \<le> 0x10FFFF" and "cp div 64 mod 2 = 1"
  shows "encode_units 0 (units [cp] @ [0]) (length (units [cp]) + 1) = Inr (sent cp @ [0], 0) \<and>
    decode_string (sent cp @ [0]) = Inl BadInputChar"
proof -
  have sc: "scalar cp" "cp < 0x200000" using assms by (auto simp: scalar_def)
  obtain c ys where u: "utf8 cp = c # ys" "is_seq cp c ys" "c = 0 \<longleftrightarrow> cp = 0"
    using utf8_is_seq [OF sc(2)] by (elim exE conjE) (rule that)
  have "length (utf8 cp) = 4" using assms(1) by (simp add: utf8_def)
  then obtain y1 y2 y3 where ys: "ys = [y1, y2, y3]"
    using u(1) by (auto simp: length_Suc_conv eval_nat_numeral)
  have c: "utf8Count ! unat c = Suc (Suc (Suc 0))" "c \<noteq> 0" "unat y1 div 64 = 2" "unat y2 div 64 = 2"
    using u(2,3) ys assms(1) by (auto simp: is_seq_def)
  have l: "unat (of_nat (last4 cp) :: 8 word) = last4 cp"
    using last4_bit [OF assms(3)] by (intro unat_octet) simp
  have "192 div 64 \<le> last4 cp div 64" using last4_bit [OF assms(3)] by (intro div_le_mono) simp
  with l have "unat (of_nat (last4 cp) :: 8 word) div 64 \<noteq> 2" by simp
  moreover have "sent cp = [c, y1, y2, of_nat (last4 cp)]" using assms(1) u(1) ys by (simp add: sent_def)
  ultimately have "decode_string (sent cp @ [0]) = Inl BadInputChar"
    using c by (simp add: decode_string.simps Let_def validateExt_iff)
  moreover have "encode_units 0 (units [cp] @ [0]) (length (units [cp]) + 1) = Inr (sent cp @ [0], 0)"
    using encode_string [of "[cp]" 0] sc(1) by simp
  ultimately show ?thesis by blast
qed

theorem encode_supplementary_unreadable_witness:
  "encode_units 0 (units [0x1F64F] @ [0]) (length (units [0x1F64F]) + 1) = Inr (sent 0x1F64F @ [0], 0) \<and>
    decode_string (sent 0x1F64F @ [0]) = Inl BadInputChar"
  by (rule encode_supplementary_unreadable) simp_all

end
