(* ===== verification/Code_Set_Contract.thy ===== *)
theory Code_Set_Contract
  imports Code_Set_Laws
begin

text \<open>
  What a native code set relies on in a transmission code set, as a locale: the Unicode functions
  carry the strings that \<open>fits\<close> describes, the fast functions either do nothing (\<open>slow\<close>) or carry the
  native string (\<open>quick\<close>). The native single-byte code set is verified once, against the locale; the
  single-byte transmission code sets are shown to meet it, for every pair of tables.
\<close>

definition assoc3 :: "('a \<times> 'b \<times> 's) result \<Rightarrow> (('a \<times> 'b) \<times> 's) result" where
  "assoc3 m = ebind m (\<lambda>(a, b, s). Inr ((a, b), s))"

lemma assoc3_Inr [simp]: "assoc3 (Inr (a, b, s)) = Inr ((a, b), s)"
  by (simp add: assoc3_def)

lemma assoc3_eq_Inr: "assoc3 m = Inr ((a, b), s) \<longleftrightarrow> m = Inr (a, b, s)"
  by (cases m) (auto simp: assoc3_def)

text \<open>A string whose length the bound allows.\<close>

definition in_bound :: "32 word \<Rightarrow> nat \<Rightarrow> bool" where
  "in_bound bound n \<longleftrightarrow> n + 1 < 2 ^ 32 \<and> (bound = 0 \<or> n \<le> unat bound)"

lemma in_bound_word:
  assumes "in_bound bound n"
  shows "\<not> (bound \<noteq> 0 \<and> bound < of_nat n)" and "unat (of_nat n :: 32 word) = n"
    and "of_nat n + 1 - 1 = (of_nat n :: 32 word)"
proof -
  show u: "unat (of_nat n :: 32 word) = n" using assms by (simp add: in_bound_def unat_of_nat)
  show "\<not> (bound \<noteq> 0 \<and> bound < of_nat n)" using assms u by (auto simp: in_bound_def word_less_nat_alt)
  show "of_nat n + 1 - 1 = (of_nat n :: 32 word)" by simp
qed

locale tcs_contract = str_stream io sinv out pos
  for io :: "'s str_io" and sinv out pos +
  fixes tcs :: "'s tcs_c"
    and fits :: "32 word \<Rightarrow> UniChar list \<Rightarrow> bool"
    and slow :: "ncs_c \<Rightarrow> bool"
    and quick :: "ncs_c \<Rightarrow> 32 word \<Rightarrow> 8 word list \<Rightarrow> bool"
  assumes unicode: "sinv s \<Longrightarrow> fits bound us \<Longrightarrow>
      \<exists>s'. tcs_marshalString tcs s bound (of_nat (length us)) (us @ [0]) = Inr s' \<and>
        carries s (\<lambda>t. assoc3 (tcs_unmarshalString tcs t bound)) (of_nat (length us), us @ [0]) s'"
    and fits_length: "fits bound us \<Longrightarrow> length us + 1 < 2 ^ 32"
    and slow_marshal: "slow ncs \<Longrightarrow> tcs_fastMarshalString tcs s ncs bound len str = Inr None"
    and slow_unmarshal: "slow ncs \<Longrightarrow> tcs_fastUnmarshalString tcs s ncs bound = Inr (None, s)"
    and quick_carries: "sinv s \<Longrightarrow> quick ncs bound str \<Longrightarrow> len = 0 \<or> len = of_nat (length str) \<Longrightarrow>
      \<exists>s'. tcs_fastMarshalString tcs s ncs bound len str = Inr (Some s') \<and>
        carries s (\<lambda>t. tcs_fastUnmarshalString tcs t ncs bound) (Some (of_nat (length str), str @ [0])) s'"

text \<open>Character by character through the tables of a native set and back.\<close>

definition translates :: "ncs_c \<Rightarrow> 8 word list \<Rightarrow> UniChar list \<Rightarrow> bool" where
  "translates ncs str us \<longleftrightarrow>
     list_all2 (\<lambda>c u. to_char (ncs_toU ncs) c = Inr u \<and> from_char (ncs_fromU ncs) u = Inr c)
       (str @ [0]) (us @ [0])"

lemma map_chars_all2:
  "list_all2 (\<lambda>x y. f x = Inr y) xs ys \<Longrightarrow> n = length xs \<Longrightarrow> map_chars f xs n = Inr ys"
  by (induction arbitrary: n rule: list_all2_induct) auto

lemma translates_maps:
  assumes "translates ncs str us"
  shows "map_chars (to_char (ncs_toU ncs)) (str @ [0]) (length str + 1) = Inr (us @ [0])"
    and "map_chars (from_char (ncs_fromU ncs)) (us @ [0]) (length us + 1) = Inr (str @ [0])"
    and "length us = length str"
proof -
  have "list_all2 (\<lambda>c u. to_char (ncs_toU ncs) c = Inr u) (str @ [0]) (us @ [0])"
    using assms unfolding translates_def by (rule list_all2_mono) simp
  then show "map_chars (to_char (ncs_toU ncs)) (str @ [0]) (length str + 1) = Inr (us @ [0])"
    by (rule map_chars_all2) simp
  have "list_all2 (\<lambda>u c. from_char (ncs_fromU ncs) u = Inr c) (us @ [0]) (str @ [0])"
    using assms unfolding translates_def by (subst list_all2_conv_all_nth) (auto simp: list_all2_conv_all_nth)
  then show "map_chars (from_char (ncs_fromU ncs)) (us @ [0]) (length us + 1) = Inr (str @ [0])"
    by (rule map_chars_all2) simp
  show "length us = length str" using assms by (auto simp: translates_def dest: list_all2_lengthD)
qed

section \<open>The native single-byte code set, against the contract\<close>

context tcs_contract
begin

lemma NCS_C_8bit_quick:
  assumes s: "sinv s" and q: "quick ncs bound str" and len: "len = 0 \<or> len = of_nat (length str)"
  shows "\<exists>s'. NCS_C_8bit_marshalString ncs s (Some tcs) bound len str = Inr s' \<and>
    carries s (\<lambda>t. assoc3 (NCS_C_8bit_unmarshalString ncs t (Some tcs) bound)) (of_nat (length str), str @ [0]) s'"
proof -
  obtain s' where m: "tcs_fastMarshalString tcs s ncs bound len str = Inr (Some s')"
    and c: "carries s (\<lambda>t. tcs_fastUnmarshalString tcs t ncs bound) (Some (of_nat (length str), str @ [0])) s'"
    using quick_carries [OF s q len] by blast
  have "carries s (\<lambda>t. assoc3 (NCS_C_8bit_unmarshalString ncs t (Some tcs) bound)) (of_nat (length str), str @ [0]) s'"
    by (rule carries_map [OF c]) (simp add: NCS_C_8bit_unmarshalString_def)
  then show ?thesis using m by (simp add: NCS_C_8bit_marshalString_def)
qed

lemma NCS_C_8bit_slow:
  assumes s: "sinv s" and sl: "slow ncs" and tr: "translates ncs str us" and fit: "fits bound us"
    and len: "len = 0 \<or> len = of_nat (length str)"
  shows "\<exists>s'. NCS_C_8bit_marshalString ncs s (Some tcs) bound len str = Inr s' \<and>
    carries s (\<lambda>t. assoc3 (NCS_C_8bit_unmarshalString ncs t (Some tcs) bound)) (of_nat (length str), str @ [0]) s'"
proof -
  note l = translates_maps(3) [OF tr]
  have u: "unat (of_nat (length str) :: 32 word) = length str"
    using fits_length [OF fit] l by (simp add: unat_of_nat)
  obtain s' where m: "tcs_marshalString tcs s bound (of_nat (length us)) (us @ [0]) = Inr s'"
    and c: "carries s (\<lambda>t. assoc3 (tcs_unmarshalString tcs t bound)) (of_nat (length us), us @ [0]) s'"
    using unicode [OF s fit] by blast
  have "carries s (\<lambda>t. assoc3 (NCS_C_8bit_unmarshalString ncs t (Some tcs) bound)) (of_nat (length str), str @ [0]) s'"
  proof (rule carries_map [OF c])
    fix t t'
    assume "assoc3 (tcs_unmarshalString tcs t bound) = Inr ((of_nat (length us), us @ [0]), t')"
    then have "tcs_unmarshalString tcs t bound = Inr (of_nat (length us), us @ [0], t')"
      by (simp add: assoc3_eq_Inr)
    then show "assoc3 (NCS_C_8bit_unmarshalString ncs t (Some tcs) bound) = Inr ((of_nat (length str), str @ [0]), t')"
      using translates_maps(2) [OF tr] u l by (simp add: NCS_C_8bit_unmarshalString_def slow_unmarshal [OF sl])
  qed
  moreover have "NCS_C_8bit_marshalString ncs s (Some tcs) bound len str = Inr s'"
    using m translates_maps(1) [OF tr] u l len
    by (auto simp: NCS_C_8bit_marshalString_def slow_marshal [OF sl] Let_def)
  ultimately show ?thesis by blast
qed

text \<open>Without a transmission code set nothing is written and nothing is read.\<close>

lemma NCS_C_8bit_no_tcs:
  "NCS_C_8bit_marshalString ncs s None bound len str = Inl CodeSetNotKnown"
  "NCS_C_8bit_unmarshalString ncs s None bound = Inl CodeSetNotKnown"
  by (simp_all add: NCS_C_8bit_marshalString_def NCS_C_8bit_unmarshalString_def)

end

section \<open>The single-byte transmission code sets meet the contract\<close>

definition fits_8bit :: "UniChar list \<Rightarrow> 8 word list list \<Rightarrow> 32 word \<Rightarrow> UniChar list \<Rightarrow> bool" where
  "fits_8bit toU fromU bound us \<longleftrightarrow> in_bound bound (length us) \<and>
     (\<exists>bs. list_all2 (\<lambda>u c. from_char fromU u = Inr c \<and> to_char toU c = Inr u) (us @ [0]) bs)"

definition quick_same :: "32 word \<Rightarrow> ncs_c \<Rightarrow> 32 word \<Rightarrow> 8 word list \<Rightarrow> bool" where
  "quick_same id0 ncs bound str \<longleftrightarrow> ncs_id ncs = id0 \<and> in_bound bound (length str)"

context str_stream
begin

lemma in_bound_carries:
  assumes w: "wrote s 4 (str_wire s (str @ [0])) s'" and s: "sinv s" and b: "in_bound bound (length str)"
    and reader: "\<And>t t1. string_length strict io t bound = Inr (Some (of_nat (length str + 1)), t1) \<Longrightarrow>
      ahead t1 (str @ [0]) \<Longrightarrow> \<exists>t2. r t = Inr (v, t2) \<and> reads t1 (pos t1 + length (str @ [0])) t2"
  shows "carries s r v s'"
  by (rule string_carries [OF w s, of bound]) (use b reader in \<open>auto simp: in_bound_def\<close>)

text \<open>Reading, however the octets came onto the stream.\<close>

lemma TCS_C_8bit_reads:
  assumes wr: "wrote s 4 (str_wire s bs) s'" and s: "sinv s" and b: "in_bound bound (length us)"
    and t: "list_all2 (\<lambda>c u. to_char toU c = Inr u) bs (us @ [0])"
  shows "carries s (\<lambda>t. assoc3 (TCS_C_8bit_unmarshalString strict io toU t bound)) (of_nat (length us), us @ [0]) s'"
proof (rule string_carries [OF wr s, of bound])
  have l: "length bs = length us + 1" using t by (auto dest: list_all2_lengthD)
  show "bs \<noteq> []" "length bs < 2 ^ 32" "bound = 0 \<or> length bs - 1 \<le> unat bound"
    using b l by (auto simp: in_bound_def)
  fix t0 t1
  assume sl: "string_length strict io t0 bound = Inr (Some (of_nat (length bs)), t1)" and a: "ahead t1 bs"
  obtain t2 where t2: "unmarshal_chars io (to_char toU) t1 (length bs) = Inr (us @ [0], t2)"
    "reads t1 (pos t1 + length bs) t2"
    using unmarshal_chars_ahead [of t1 bs "[]", OF _ t] a by auto
  have "unat (of_nat (length bs) :: 32 word) = length bs"
    using b l by (simp only: in_bound_def unat_of_nat) simp
  then have "TCS_C_8bit_unmarshalString strict io toU t0 bound = Inr (of_nat (length us), us @ [0], t2)"
    using sl t2(1) l by (simp add: TCS_C_8bit_unmarshalString_def)
  with t2(2) show "\<exists>t2. assoc3 (TCS_C_8bit_unmarshalString strict io toU t0 bound) = Inr ((of_nat (length us), us @ [0]), t2) \<and>
      reads t1 (pos t1 + length bs) t2" by auto
qed

lemma TCS_C_8bit_carries:
  assumes s: "sinv s" and fit: "fits_8bit toU fromU bound us"
  shows "\<exists>s'. TCS_C_8bit_marshalString io fromU s bound (of_nat (length us)) (us @ [0]) = Inr s' \<and>
    carries s (\<lambda>t. assoc3 (TCS_C_8bit_unmarshalString strict io toU t bound)) (of_nat (length us), us @ [0]) s'"
proof -
  obtain bs where b: "in_bound bound (length us)"
    and all: "list_all2 (\<lambda>u c. from_char fromU u = Inr c \<and> to_char toU c = Inr u) (us @ [0]) bs"
    using fit by (auto simp: fits_8bit_def)
  have l: "length bs = length us + 1" using all by (auto dest: list_all2_lengthD)
  have f: "list_all2 (\<lambda>u c. from_char fromU u = Inr c) (us @ [0]) bs"
    using all by (rule list_all2_mono) simp
  have t: "list_all2 (\<lambda>c u. to_char toU c = Inr u) bs (us @ [0])"
    using all by (auto simp: list_all2_conv_all_nth)
  have e: "of_nat (length us) + 1 = (of_nat (length bs) :: 32 word)" using l by (simp add: add.commute)
  have n: "unat (of_nat (length us) + 1 :: 32 word) = length us + 1"
    unfolding e using b l by (simp only: in_bound_def unat_of_nat) simp
  obtain s1 where s1: "marshalULong (prim io) s (of_nat (length us) + 1) = Inr s1"
    "wrote s 4 (in_memory (host_le (prim io)) 4 (if marshal_byte_swap (prim io) s
      then byteSwap32 (of_nat (length us) + 1) else of_nat (length us) + 1)) s1"
    using marshalULong_wrote [OF s] by blast
  obtain s2 where s2: "marshal_chars io (from_char fromU) s1 (us @ [0]) (length us + 1) = Inr s2"
    "wrote s1 1 bs s2"
    using marshal_chars_wrote [OF f wrote_sinv [OF s1(2)]] by auto
  have wr: "wrote s 4 (str_wire s bs) s2"
    using wrote_append [OF s1(2) s2(2)] unfolding e by (simp only: str_wire_def)
  have "TCS_C_8bit_marshalString io fromU s bound (of_nat (length us)) (us @ [0]) = Inr s2"
    using in_bound_word(1) [OF b] s1(1) s2(1) n by (simp add: TCS_C_8bit_marshalString_def Let_def)
  with TCS_C_8bit_reads [OF wr s b t] show ?thesis by blast
qed

end

context str_stream
begin

text \<open>The null transformation: with the length given, or through the raw string.\<close>

lemma null_transform_wrote:
  assumes s: "sinv s" and b: "in_bound bound (length str)" and len: "len = 0 \<or> len = of_nat (length str)"
    and id0: "ncs_id ncs = id0"
  shows "\<exists>s'. TCS_C_8bit_fastMarshalString io id0 s ncs bound len str = Inr (Some s') \<and>
    wrote s 4 (str_wire s (str @ [0])) s'"
proof (cases "len = 0")
  case True
  obtain s' where s': "raw_put io s str = Inr (of_nat (length str + 1), s')"
    "wrote s 4 (str_wire s (str @ [0])) s'"
    using raw_put_wrote [OF s, of str] unfolding str_wire_def length_append_singleton Suc_eq_plus1 by blast
  have "of_nat (length str + 1) - 1 = (of_nat (length str) :: 32 word)" by simp
  then show ?thesis
    using s' True id0 in_bound_word(1) [OF b] by (simp add: TCS_C_8bit_fastMarshalString_def)
next
  case False
  then have l: "len = of_nat (length str)" using len by simp
  have e: "len + 1 = of_nat (length (str @ [0]))" using l by (simp add: add.commute)
  obtain s1 s2 where s1: "marshalULong (prim io) s (len + 1) = Inr s1"
    "put_octet_array (prim io) s1 (str @ [0]) 1 = Inr s2" "wrote s 4 (str_wire s (str @ [0])) s2"
    using put_str_wrote [OF s, of "str @ [0]"] unfolding e by blast
  have "unat (len + 1) = length (str @ [0])"
    unfolding e using b by (simp only: in_bound_def unat_of_nat) simp
  then show ?thesis
    using s1 False id0 in_bound_word(1) [OF b] l by (simp add: TCS_C_8bit_fastMarshalString_def Let_def)
qed

lemma null_transform_carries:
  assumes s: "sinv s" and q: "quick_same id0 ncs bound str" and len: "len = 0 \<or> len = of_nat (length str)"
  shows "\<exists>s'. TCS_C_8bit_fastMarshalString io id0 s ncs bound len str = Inr (Some s') \<and>
    carries s (\<lambda>t. TCS_C_8bit_fastUnmarshalString strict io id0 t ncs bound)
      (Some (of_nat (length str), str @ [0])) s'"
proof -
  have id0: "ncs_id ncs = id0" and b: "in_bound bound (length str)" using q by (simp_all add: quick_same_def)
  obtain s' where s': "TCS_C_8bit_fastMarshalString io id0 s ncs bound len str = Inr (Some s')"
    "wrote s 4 (str_wire s (str @ [0])) s'"
    using null_transform_wrote [OF s b len id0] by blast
  have "carries s (\<lambda>t. TCS_C_8bit_fastUnmarshalString strict io id0 t ncs bound)
      (Some (of_nat (length str), str @ [0])) s'"
  proof (rule in_bound_carries [OF s'(2) s b])
    fix t t1
    assume sl: "string_length strict io t bound = Inr (Some (of_nat (length str + 1)), t1)"
      and a: "ahead t1 (str @ [0])"
    obtain t2 where t2: "get_octet_array (prim io) t1 (length (str @ [0])) 1 = Inr (str @ [0], t2)"
      "reads t1 (pos t1 + length (str @ [0])) t2"
      using array_ahead [of t1 "str @ [0]" "[]"] a by auto
    have "unat (of_nat (length str + 1) :: 32 word) = length (str @ [0])"
      using b by (simp only: in_bound_def unat_of_nat) simp
    then have "TCS_C_8bit_fastUnmarshalString strict io id0 t ncs bound =
        Inr (Some (of_nat (length str + 1) - 1, str @ [0]), t2)"
      using sl t2(1) id0 by (simp add: TCS_C_8bit_fastUnmarshalString_def del: of_nat_add of_nat_Suc)
    with t2(2) show "\<exists>t2. TCS_C_8bit_fastUnmarshalString strict io id0 t ncs bound =
        Inr (Some (of_nat (length str), str @ [0]), t2) \<and> reads t1 (pos t1 + length (str @ [0])) t2"
      by auto
  qed
  with s'(1) show ?thesis by blast
qed

end

section \<open>Memory streams\<close>

lemma ms_io_simps [simp]:
  "prim (ms_io le heap) = ms_ops le heap" "overrun (ms_io le heap) = checkInputOverrun"
  "raw_put (ms_io le heap) = marshalRawString le heap"
  by (simp_all add: ms_io_def)

lemma appended_wrote: "appended s a bs s' \<Longrightarrow> ms.wrote le heap s a bs s'"
  by (auto simp: appended_def ms.wrote_def flags_kept_def)

lemma checkInputOverrun_end:
  assumes wf: "ms_wf s" and len: "length (ms_out s) < ms_pos s + unat n"
  shows "\<exists>s'. checkInputOverrun s 1 n 1 = (False, s')"
proof -
  have "length (ms_out s) = pd_outb_mkr s - pd_bufp_8 s" by (rule ms_out_length [OF wf])
  then have "pd_outb_mkr s < pd_inb_mkr s + unat n"
    using wf [unfolded ms_wf_def] len unfolding ms_pos_def by linarith
  then show ?thesis using wf [unfolded ms_wf_def] by (simp add: checkInputOverrun_def Let_def)
qed

interpretation mio: str_stream "ms_io le heap" ms_wf ms_out ms_pos for le heap
proof (intro str_stream.intro str_stream_axioms.intro, goal_cases)
  case 1
  show ?case unfolding ms_io_simps by (rule ms.cdr_stream_axioms)
next
  case (2 s n)
  then show ?case
    using checkInputOverrun_ok [of s n]
    by (auto simp: ms.reads_def same_stream_def flags_kept_def)
next
  case (3 s n)
  then show ?case using checkInputOverrun_end by auto
next
  case (4 s str)
  have "\<exists>s'. marshalRawString le heap s str = Inr (raw_len str, s') \<and> appended s 4 (string_octets le s str) s'"
    using marshalRawString_fits [OF 4, of str le heap] marshalRawString_spills [OF 4, of str le heap]
      marshalRawString_plain [OF 4, of le heap str] by (meson not_le)
  then show ?case using appended_wrote [of s 4 _ _ le heap]
    by (auto simp: string_octets_def raw_len_def)
qed

interpretation t8: tcs_contract "ms_io le heap" ms_wf ms_out ms_pos
    "TCS_C_8bit strict (ms_io le heap) id0 toU fromU" "fits_8bit toU fromU"
    "\<lambda>ncs. ncs_id ncs \<noteq> id0" "quick_same id0" for le heap strict id0 toU fromU
proof (intro tcs_contract.intro tcs_contract_axioms.intro, goal_cases)
  case 1
  show ?case by (rule mio.str_stream_axioms)
next
  case (2 s bound us)
  then show ?case using mio.TCS_C_8bit_carries [of s toU fromU bound us] by (simp add: TCS_C_8bit_def)
next
  case (3 bound us)
  then show ?case by (simp add: fits_8bit_def in_bound_def)
next
  case (4 ncs s bound len str)
  then show ?case by (simp add: TCS_C_8bit_def TCS_C_8bit_fastMarshalString_def)
next
  case (5 ncs s bound)
  then show ?case by (simp add: TCS_C_8bit_def TCS_C_8bit_fastUnmarshalString_def)
next
  case (6 s ncs bound str len)
  then show ?case using mio.null_transform_carries [of s id0 ncs bound str len] by (simp add: TCS_C_8bit_def)
qed

text \<open>A stream that has been read up to what is about to be written.\<close>

definition at_end :: "cdrMemoryStream \<Rightarrow> bool" where
  "at_end s \<longleftrightarrow> ms_wf s \<and> ms_pos s = length (ms_out s) \<and>
     pd_unmarshal_byte_swap s = pd_marshal_byte_swap s"

lemma at_end_new: "\<exists>s. cdrMemoryStream_new heap inl n c = Inr s \<and> at_end s"
proof -
  obtain s where "cdrMemoryStream_new heap inl n c = Inr s" "ms_wf s" "ms_out s = []" "ms_pos s = 0"
    "pd_unmarshal_byte_swap s = pd_marshal_byte_swap s"
    using ms_new_wf by blast
  then show ?thesis by (auto simp: at_end_def)
qed

lemma carries_at_end:
  assumes "ms.carries le heap s r v s'" and "at_end s"
  shows "\<exists>s''. r s' = Inr (v, s'') \<and> at_end s''"
proof -
  have s': "ms_wf s'" "ms_pos s' = ms_pos s" "flags_kept (ms_ops le heap) s s'"
    using assms(1) by (simp_all add: ms.carries_def)
  have "\<exists>t'. r s' = Inr (v, t') \<and> ms.reads le heap s' (length (ms_out s')) t'"
    by (rule ms.carries_same [OF assms(1) s'(1) refl])
       (use assms(2) s'(2,3) in \<open>simp_all add: at_end_def flags_kept_def\<close>)
  then obtain t' where t': "r s' = Inr (v, t')" "ms.reads le heap s' (length (ms_out s')) t'" by blast
  have "at_end t'" using t'(2) s'(3) assms(2) by (simp add: ms.reads_def at_end_def flags_kept_def)
  with t'(1) show ?thesis by blast
qed

end
