(* ===== verification/Utf8_Contract.thy ===== *)
theory Utf8_Contract
  imports Code_Set_Contract Utf8_Validate
begin

unbundle bit_operations_syntax

text \<open>
  The UTF-8 transmission code set meets the contract of a transmission code set for every string of
  code points that its encoder handles correctly; its fast paths carry native UTF-8 strings and the
  strings of any single-byte code set. The native UTF-8 code set is verified against the contract.
\<close>

definition wire :: "nat list \<Rightarrow> 8 word list" where
  "wire cps = concat (map utf8 cps)"

lemma wire_simps [simp]: "wire [] = []" "wire (cp # cps) = utf8 cp @ wire cps"
  "wire (cps @ cps') = wire cps @ wire cps'"
  by (simp_all add: wire_def)

lemma wire_null [simp]: "utf8 0 = [0]" "utf16 0 = [0]"
  by (simp_all add: utf8_def utf16_def)

lemma units_append [simp]: "units (cps @ cps') = units cps @ units cps'"
  by (simp add: units_def)

lemma units_length: "length (units cps) \<le> length (wire cps)"
proof (induction cps)
  case (Cons cp cps)
  have "length (utf16 cp) \<le> length (utf8 cp)" by (simp add: utf16_def utf8_def)
  with Cons show ?case by simp
qed simp

lemma sent_wire: "\<forall>cp \<in> set cps. intact cp \<Longrightarrow> concat (map sent cps) = wire cps"
  by (induction cps) (simp_all add: sent_intact)

section \<open>Decoding from a stream\<close>

context str_stream
begin

lemma get_trail_ahead:
  assumes "trail n lc bs = Inr (lc', rest)" and "ahead t bs"
  shows "\<exists>t'. get_trail io n lc t = Inr (lc', t') \<and> reads t (pos t + n) t' \<and> ahead t' rest"
  using assms
proof (induction n lc bs arbitrary: t rule: trail.induct)
  case (1 lc cs)
  then show ?case by (auto simp: reads_def ahead_def flags_kept_def)
next
  case (2 n lc)
  then show ?case by simp
next
  case (3 n lc c cs)
  obtain t1 where t1: "unmarshalOctet (prim io) t = Inr (c, t1)" "reads t (Suc (pos t)) t1" "ahead t1 cs"
    using octet_ahead [OF 3(3)] by blast
  have v: "validateExt c = Inr ()" and tr: "trail n (push_bit 6 lc OR ucast (c AND 0x3f)) cs = Inr (lc', rest)"
    using 3(2) by (auto simp: err_simps)
  obtain t2 where t2: "get_trail io n (push_bit 6 lc OR ucast (c AND 0x3f)) t1 = Inr (lc', t2)"
    "reads t1 (pos t1 + n) t2" "ahead t2 rest" using 3(1) [OF v tr t1(3)] by blast
  have "reads t (pos t + Suc n) t2" using reads_trans [OF t1(2) t2(2)] t1(2) by (simp add: reads_def)
  then show ?case using t1(1) v t2(1,3) by auto
qed

lemma decode_stream_wire:
  assumes "\<forall>cp \<in> set cps. cp \<le> 0x10FFFF" and "ahead t (wire cps @ rest)"
  shows "\<exists>t'. decode_stream io (length (wire cps)) prev t =
      Inr (units cps, (if cps = [] then prev else of_nat (last cps)), t') \<and>
    reads t (pos t + length (wire cps)) t'"
  using assms
proof (induction cps arbitrary: prev t)
  case Nil
  then show ?case by (auto simp: decode_stream.simps reads_def ahead_def flags_kept_def)
next
  case (Cons cp cps)
  have b: "cp \<le> 0x10FFFF" "cp < 0x200000" using Cons.prems(1) by auto
  obtain c ys where u: "utf8 cp = c # ys" and s: "is_seq cp c ys"
    using utf8_is_seq [OF b(2)] by blast
  then have n: "utf8Count ! unat c = length ys" "length ys \<le> 3" by (simp_all add: is_seq_def)
  obtain t1 where t1: "unmarshalOctet (prim io) t = Inr (c, t1)" "reads t (Suc (pos t)) t1"
    "ahead t1 (ys @ wire cps @ rest)"
    using octet_ahead [of t c "ys @ wire cps @ rest"] Cons.prems(2) u by auto
  obtain t2 where t2: "get_trail io (length ys) (ucast (c AND utf8Mask ! unat c)) t1 = Inr (of_nat cp, t2)"
    "reads t1 (pos t1 + length ys) t2" "ahead t2 (wire cps @ rest)"
    using get_trail_ahead [OF trail_seq [OF s] t1(3)] by blast
  obtain t3 where t3: "decode_stream io (length (wire cps)) (of_nat cp) t2 =
      Inr (units cps, (if cps = [] then of_nat cp else of_nat (last cps)), t3)"
    "reads t2 (pos t2 + length (wire cps)) t3"
    using Cons.IH [of t2 "of_nat cp"] Cons.prems(1) t2(3) by auto
  have "reads t (pos t + length (wire (cp # cps))) t3"
    using reads_trans [OF reads_trans [OF t1(2) t2(2)] t3(2)] t1(2) t2(2) u by (simp add: reads_def add.assoc)
  moreover have "decode_stream io (length (wire (cp # cps))) prev t =
      Inr (units (cp # cps), (if cp # cps = [] then prev else of_nat (last (cp # cps))), t3)"
    using t1(1) t2(1) t3(1) n u
    by (subst decode_stream.simps) (simp add: units_of_code [OF b(1)] Let_def)
  ultimately show ?case by blast
qed

lemma put_string_wrote:
  assumes s: "sinv s" and b: "in_bound bound (length b)"
  shows "\<exists>s'. put_string io s bound (b @ [0]) = Inr s' \<and> wrote s 4 (str_wire s (b @ [0])) s'"
proof -
  obtain s1 s2 where s1: "marshalULong (prim io) s (of_nat (length (b @ [0]))) = Inr s1"
    "put_octet_array (prim io) s1 (b @ [0]) 1 = Inr s2" "wrote s 4 (str_wire s (b @ [0])) s2"
    using put_str_wrote [OF s] by blast
  moreover have "\<not> (bound \<noteq> 0 \<and> bound < of_nat (length (b @ [0])) - 1)"
    using in_bound_word(1) [OF b] by simp
  ultimately show ?thesis by (simp add: put_string_def Let_def)
qed

end

definition fits_utf8 :: "32 word \<Rightarrow> UniChar list \<Rightarrow> bool" where
  "fits_utf8 bound us \<longleftrightarrow> (\<exists>cps. us = units cps \<and> (\<forall>cp \<in> set cps. scalar cp \<and> intact cp) \<and>
     in_bound bound (length (wire cps)))"

lemma unat_of_nat_32: "n < 2 ^ 32 \<Longrightarrow> unat (of_nat n :: 32 word) = n"
  by (simp add: unat_of_nat)

context str_stream
begin

lemma TCS_C_UTF_8_carries:
  assumes s: "sinv s" and fit: "fits_utf8 bound us"
  shows "\<exists>s'. TCS_C_UTF_8_marshalString io s bound (of_nat (length us)) (us @ [0]) = Inr s' \<and>
    carries s (\<lambda>t. assoc3 (TCS_C_UTF_8_unmarshalString strict io t bound)) (of_nat (length us), us @ [0]) s'"
proof -
  obtain cps where us: "us = units cps" and cps: "\<forall>cp \<in> set cps. scalar cp \<and> intact cp"
    and b: "in_bound bound (length (wire cps))" using fit by (auto simp: fits_utf8_def)
  have n: "unat (of_nat (length us) :: 32 word) = length us"
    using units_length [of cps] b us by (intro unat_of_nat_32) (auto simp: in_bound_def)
  have enc: "encode_units 0 (us @ [0]) (length us + 1) = Inr (wire cps @ [0], 0)"
    using encode_string [of cps 0] sent_wire [of cps] cps us by simp
  obtain s' where s': "put_string io s bound (wire cps @ [0]) = Inr s'"
    "wrote s 4 (str_wire s (wire cps @ [0])) s'" using put_string_wrote [OF s b] by blast
  have "carries s (\<lambda>t. assoc3 (TCS_C_UTF_8_unmarshalString strict io t bound)) (of_nat (length us), us @ [0]) s'"
  proof (rule in_bound_carries [OF s'(2) s b])
    fix t t1
    assume sl: "string_length strict io t bound = Inr (Some (of_nat (length (wire cps) + 1)), t1)"
      and a: "ahead t1 (wire cps @ [0])"
    have "\<forall>cp \<in> set (cps @ [0]). cp \<le> 0x10FFFF" using cps by (auto simp: scalar_def)
    with decode_stream_wire [of "cps @ [0]" t1 "[]" 0] a obtain t2
      where t2: "decode_stream io (length (wire cps) + 1) 0 t1 = Inr (us @ [0], 0, t2)"
        "reads t1 (pos t1 + (length (wire cps) + 1)) t2" by (auto simp: us)
    have "unat (of_nat (length (wire cps) + 1) :: 32 word) = length (wire cps) + 1"
      using b by (intro unat_of_nat_32) (simp add: in_bound_def)
    then have "TCS_C_UTF_8_unmarshalString strict io t bound = Inr (of_nat (length (us @ [0])) - 1, us @ [0], t2)"
      using sl t2(1) by (simp add: TCS_C_UTF_8_unmarshalString_def del: of_nat_add of_nat_Suc)
    with t2(2) show "\<exists>t2. assoc3 (TCS_C_UTF_8_unmarshalString strict io t bound) =
        Inr ((of_nat (length us), us @ [0]), t2) \<and> reads t1 (pos t1 + length (wire cps @ [0])) t2"
      by (auto simp: assoc3_def)
  qed
  moreover have "TCS_C_UTF_8_marshalString io s bound (of_nat (length us)) (us @ [0]) = Inr s'"
    using enc s'(1) n by (simp add: TCS_C_UTF_8_marshalString_def)
  ultimately show ?thesis by blast
qed

end

section \<open>The fast path for a single-byte native set\<close>

lemma append_bits16:
  fixes uc :: UniChar
  assumes "(unat uc + 1) * 64 \<le> 2 ^ 16"
  shows "unat (push_bit 6 uc OR ucast (c AND 0x3f :: 8 word)) = append_octet (unat uc) c"
  using append_bits [of uc c] assms by (simp add: append_octet_def)

context str_stream
begin

lemma get_trail16_ahead:
  assumes "\<forall>y \<in> set ys. unat y div 64 = 2" and "(unat uc + 1) * 64 ^ length ys \<le> 2 ^ 16"
    and "ahead t (ys @ rest)"
  shows "\<exists>uc' t'. get_trail16 io (length ys) uc t = Inr (uc', t') \<and>
    unat uc' = foldl append_octet (unat uc) ys \<and> reads t (pos t + length ys) t' \<and> ahead t' rest"
  using assms
proof (induction ys arbitrary: uc t)
  case Nil
  then show ?case by (auto simp: reads_def ahead_def flags_kept_def)
next
  case (Cons y ys)
  have "(unat uc + 1) * 64 * 1 \<le> (unat uc + 1) * 64 * 64 ^ length ys" by (rule mult_le_mono2) simp
  then have b: "(unat uc + 1) * 64 \<le> 2 ^ 16" using Cons.prems(2) by (simp only: list.size(4) power_Suc mult.assoc) simp
  let ?uc = "push_bit 6 uc OR ucast (y AND 0x3f) :: UniChar"
  note u = append_bits16 [OF b, of y]
  have "unat y mod 64 < 64" by simp
  then have "unat ?uc + 1 \<le> (unat uc + 1) * 64" using u by (simp add: append_octet_def)
  then have "(unat ?uc + 1) * 64 ^ length ys \<le> (unat uc + 1) * 64 * 64 ^ length ys" by (rule mult_le_mono1)
  also have "\<dots> \<le> 2 ^ 16" using Cons.prems(2) by (simp only: list.size(4) power_Suc mult.assoc) simp
  finally have b': "(unat ?uc + 1) * 64 ^ length ys \<le> 2 ^ 16" .
  obtain t1 where t1: "unmarshalOctet (prim io) t = Inr (y, t1)" "reads t (Suc (pos t)) t1" "ahead t1 (ys @ rest)"
    using octet_ahead [of t y "ys @ rest"] Cons.prems(3) by auto
  obtain uc' t2 where t2: "get_trail16 io (length ys) ?uc t1 = Inr (uc', t2)"
    "unat uc' = foldl append_octet (unat ?uc) ys" "reads t1 (pos t1 + length ys) t2" "ahead t2 rest"
    using Cons.IH [OF _ b' t1(3)] Cons.prems(1) by auto
  have "reads t (pos t + length (y # ys)) t2"
    using reads_trans [OF t1(2) t2(3)] t1(2) by (simp add: reads_def)
  then show ?case using t1(1) t2 u Cons.prems(1) by (auto simp: validateExt_iff)
qed

lemma decode_8bit_wire:
  assumes "list_all2 (\<lambda>u c. from_char fromU u = Inr c) us cs" and "ahead t (wire (map unat us) @ rest)"
  shows "\<exists>t'. decode_8bit io fromU (length (wire (map unat us))) prev t =
      Inr (cs, (if us = [] then prev else last us), t') \<and>
    reads t (pos t + length (wire (map unat us))) t'"
  using assms
proof (induction arbitrary: prev t rule: list_all2_induct)
  case Nil
  then show ?case by (auto simp: decode_8bit.simps reads_def ahead_def flags_kept_def)
next
  case (Cons u us k cs)
  have b: "unat u < 0x10000" using unsigned_less [of u] by simp
  obtain c ys where e: "utf8 (unat u) = c # ys" and s: "is_seq (unat u) c ys"
    using utf8_is_seq [of "unat u"] b by auto
  have len: "length ys \<le> 2" using e b by (auto simp: utf8_def split: if_splits)
  have n: "utf8Count ! unat c = length ys" "\<forall>y \<in> set ys. unat y div 64 = 2"
    "foldl append_octet (unat (c AND utf8Mask ! unat c)) ys = unat u" using s by (simp_all add: is_seq_def)
  have c: "unat c < 256" using unsigned_less [of c] by simp
  have l: "unat (ucast (c AND utf8Mask ! unat c) :: UniChar) = unat (c AND utf8Mask ! unat c)"
    by (simp add: unat_ucast_octet)
  have "(unat (ucast (c AND utf8Mask ! unat c) :: UniChar) + 1) * 64 ^ length ys \<le> 2 ^ 16"
  proof -
    have "length ys = 0 \<and> unat (c AND utf8Mask ! unat c) < 128 \<or> length ys = 1 \<and> unat (c AND utf8Mask ! unat c) < 32
        \<or> length ys = 2 \<and> unat (c AND utf8Mask ! unat c) < 16"
      using count_range [OF c] n(1) len lead_bits [of c] by auto
    then show ?thesis unfolding l by auto
  qed
  moreover obtain t1 where t1: "unmarshalOctet (prim io) t = Inr (c, t1)" "reads t (Suc (pos t)) t1"
    "ahead t1 (ys @ wire (map unat us) @ rest)"
    using octet_ahead [of t c "ys @ wire (map unat us) @ rest"] Cons.prems e by auto
  ultimately obtain uc t2 where t2: "get_trail16 io (length ys) (ucast (c AND utf8Mask ! unat c)) t1 = Inr (uc, t2)"
    "unat uc = unat u" "reads t1 (pos t1 + length ys) t2" "ahead t2 (wire (map unat us) @ rest)"
    using get_trail16_ahead [OF n(2) _ t1(3)] l n(3) by fastforce
  have uc: "uc = u" using t2(2) by (simp add: word_unat_eq_iff)
  obtain t3 where t3: "decode_8bit io fromU (length (wire (map unat us))) u t2 =
      Inr (cs, (if us = [] then u else last us), t3)" "reads t2 (pos t2 + length (wire (map unat us))) t3"
    using Cons.IH [OF t2(4)] by blast
  have "reads t (pos t + length (wire (map unat (u # us)))) t3"
    using reads_trans [OF reads_trans [OF t1(2) t2(3)] t3(2)] t1(2) t2(3) e by (simp add: reads_def add.assoc)
  moreover have "decode_8bit io fromU (length (wire (map unat (u # us)))) prev t =
      Inr (k # cs, (if u # us = [] then prev else last (u # us)), t3)"
    using t1(1) t2(1) t3(1) n(1) len e Cons.hyps(1) uc
    by (subst decode_8bit.simps) (simp add: Let_def)
  ultimately show ?case by blast
qed

end

lemma encode_simple_utf8: "scalar (unat u) \<Longrightarrow> encode_simple u = Inr (utf8 (unat u))"
proof -
  assume sc: "scalar (unat u)"
  have b: "unat u < 0x10000" using unsigned_less [of u] by simp
  have "encode_units 0 (of_nat (unat u) # [0]) (Suc 1) = ebind (encode_units (of_nat (unat u)) [0] 1) (\<lambda>(bs, l). Inr (utf8 (unat u) @ bs, l))"
    by (rule encode_bmp [OF sc b])
  then show ?thesis using sc
    by (auto simp: encode_simple_def scalar_def word_less_nat_alt split: if_splits)
qed

lemma encode_8bit_wire:
  assumes "list_all2 (\<lambda>c u. to_char toU c = Inr u) str us" and "\<forall>u \<in> set us. scalar (unat u)"
  shows "encode_8bit toU str = Inr (wire (map unat us))"
  using assms
proof (induction rule: list_all2_induct)
  case (Cons c cs u us)
  have "to_lookup toU c = Inr u" using Cons.hyps(1) by (auto simp: to_char_def err_simps split: if_splits)
  then show ?case using Cons by (simp add: encode_simple_utf8)
qed simp

section \<open>The contract\<close>

definition slow_utf8 :: "ncs_c \<Rightarrow> bool" where
  "slow_utf8 ncs \<longleftrightarrow> ncs_id ncs \<noteq> ID_UTF_8 \<and> ncs_kind ncs \<noteq> CS_8bit"

definition quick_utf8 :: "bool \<Rightarrow> ncs_c \<Rightarrow> 32 word \<Rightarrow> 8 word list \<Rightarrow> bool" where
  "quick_utf8 validate ncs bound str \<longleftrightarrow>
     (if ncs_id ncs = ID_UTF_8
      then in_bound bound (length str) \<and> (validate \<longrightarrow> validateString (str @ [0]) = Inr ())
      else ncs_kind ncs = CS_8bit \<and>
        (\<exists>us. translates ncs str us \<and> (\<forall>u \<in> set us. scalar (unat u)) \<and>
           in_bound bound (length (wire (map unat us)))))"

context str_stream
begin

lemma TCS_C_UTF_8_null_carries:
  assumes s: "sinv s" and q: "quick_utf8 validate ncs bound str" and len: "len = 0 \<or> len = of_nat (length str)"
    and id0: "ncs_id ncs = ID_UTF_8"
  shows "\<exists>s'. TCS_C_UTF_8_fastMarshalString validate io s ncs bound len str = Inr (Some s') \<and>
    carries s (\<lambda>t. TCS_C_UTF_8_fastUnmarshalString strict validate io t ncs bound)
      (Some (of_nat (length str), str @ [0])) s'"
proof -
  have qs: "quick_same ID_UTF_8 ncs bound str" and v: "(if validate then validateString (str @ [0]) else Inr ()) = Inr ()"
    using q id0 by (auto simp: quick_utf8_def quick_same_def)
  obtain s' where s': "TCS_C_8bit_fastMarshalString io ID_UTF_8 s ncs bound len str = Inr (Some s')"
    "carries s (\<lambda>t. TCS_C_8bit_fastUnmarshalString strict io ID_UTF_8 t ncs bound) (Some (of_nat (length str), str @ [0])) s'"
    using null_transform_carries [OF s qs len] by blast
  have "TCS_C_UTF_8_fastMarshalString validate io s ncs bound len str = Inr (Some s')"
    using s'(1) id0 v by (simp add: TCS_C_UTF_8_fastMarshalString_def TCS_C_8bit_fastMarshalString_def)
  moreover have "carries s (\<lambda>t. TCS_C_UTF_8_fastUnmarshalString strict validate io t ncs bound)
      (Some (of_nat (length str), str @ [0])) s'"
  proof (rule carries_map [OF s'(2)])
    fix t t'
    assume "TCS_C_8bit_fastUnmarshalString strict io ID_UTF_8 t ncs bound =
      Inr (Some (of_nat (length str), str @ [0]), t')"
    then show "TCS_C_UTF_8_fastUnmarshalString strict validate io t ncs bound =
      Inr (Some (of_nat (length str), str @ [0]), t')"
    proof -
      note h = \<open>TCS_C_8bit_fastUnmarshalString strict io ID_UTF_8 t ncs bound =
        Inr (Some (of_nat (length str), str @ [0]), t')\<close>
      then obtain mlen t1 where "string_length strict io t bound = Inr (Some mlen, t1)"
        "get_octet_array (prim io) t1 (unat mlen) 1 = Inr (str @ [0], t')" "mlen - 1 = of_nat (length str)"
        using id0 by (auto simp: TCS_C_8bit_fastUnmarshalString_def err_simps split: option.splits if_splits)
      then show ?thesis using id0 v by (simp add: TCS_C_UTF_8_fastUnmarshalString_def)
    qed
  qed
  ultimately show ?thesis by blast
qed

lemma TCS_C_UTF_8_8bit_carries:
  assumes s: "sinv s" and q: "quick_utf8 validate ncs bound str" and id0: "ncs_id ncs \<noteq> ID_UTF_8"
  shows "\<exists>s'. TCS_C_UTF_8_fastMarshalString validate io s ncs bound len str = Inr (Some s') \<and>
    carries s (\<lambda>t. TCS_C_UTF_8_fastUnmarshalString strict validate io t ncs bound)
      (Some (of_nat (length str), str @ [0])) s'"
proof -
  obtain us where k: "ncs_kind ncs = CS_8bit" and tr: "translates ncs str us"
    and sc: "\<forall>u \<in> set us. scalar (unat u)" and b: "in_bound bound (length (wire (map unat us)))"
    using q id0 by (auto simp: quick_utf8_def)
  have fwd: "list_all2 (\<lambda>c u. to_char (ncs_toU ncs) c = Inr u) str us"
    using tr translates_maps(3) [OF tr]
    by (auto simp: translates_def list_all2_append elim: list_all2_mono)
  have bwd: "list_all2 (\<lambda>u c. from_char (ncs_fromU ncs) u = Inr c) (us @ [0]) (str @ [0])"
    using tr by (auto simp: translates_def list_all2_conv_all_nth)
  obtain s' where s': "put_string io s bound (wire (map unat us) @ [0]) = Inr s'"
    "wrote s 4 (str_wire s (wire (map unat us) @ [0])) s'" using put_string_wrote [OF s b] by blast
  have m: "TCS_C_UTF_8_fastMarshalString validate io s ncs bound len str = Inr (Some s')"
    using encode_8bit_wire [OF fwd sc] s'(1) id0 k by (simp add: TCS_C_UTF_8_fastMarshalString_def)
  have "carries s (\<lambda>t. TCS_C_UTF_8_fastUnmarshalString strict validate io t ncs bound)
      (Some (of_nat (length str), str @ [0])) s'"
  proof (rule in_bound_carries [OF s'(2) s b])
    fix t t1
    assume sl: "string_length strict io t bound = Inr (Some (of_nat (length (wire (map unat us)) + 1)), t1)"
      and a: "ahead t1 (wire (map unat us) @ [0])"
    have "ahead t1 (wire (map unat (us @ [0])) @ [])" using a by simp
    from decode_8bit_wire [OF bwd this, of 0] obtain t2
      where t2: "decode_8bit io (ncs_fromU ncs) (length (wire (map unat us)) + 1) 0 t1 = Inr (str @ [0], 0, t2)"
        "reads t1 (pos t1 + (length (wire (map unat us)) + 1)) t2" by auto
    have "unat (of_nat (length (wire (map unat us)) + 1) :: 32 word) = length (wire (map unat us)) + 1"
      using b by (intro unat_of_nat_32) (simp add: in_bound_def)
    then have "TCS_C_UTF_8_fastUnmarshalString strict validate io t ncs bound =
        Inr (Some (of_nat (length (str @ [0])) - 1, str @ [0]), t2)"
      using sl t2(1) id0 k by (simp add: TCS_C_UTF_8_fastUnmarshalString_def del: of_nat_add of_nat_Suc)
    with t2(2) show "\<exists>t2. TCS_C_UTF_8_fastUnmarshalString strict validate io t ncs bound =
        Inr (Some (of_nat (length str), str @ [0]), t2) \<and> reads t1 (pos t1 + length (wire (map unat us) @ [0])) t2"
      by auto
  qed
  with m show ?thesis by blast
qed

end

interpretation tu: tcs_contract "ms_io le heap" ms_wf ms_out ms_pos
    "TCS_C_UTF_8 strict validate (ms_io le heap)" fits_utf8 slow_utf8 "quick_utf8 validate"
    for le heap strict validate
proof (intro tcs_contract.intro tcs_contract_axioms.intro, goal_cases)
  case 1
  show ?case by (rule mio.str_stream_axioms)
next
  case (2 s bound us)
  then show ?case using mio.TCS_C_UTF_8_carries [of s bound us] by (simp add: TCS_C_UTF_8_def)
next
  case (3 bound us)
  then obtain cps where "us = units cps" "in_bound bound (length (wire cps))" by (auto simp: fits_utf8_def)
  then show ?case using units_length [of cps] by (simp add: in_bound_def)
next
  case (4 ncs s bound len str)
  then show ?case by (simp add: slow_utf8_def TCS_C_UTF_8_def TCS_C_UTF_8_fastMarshalString_def)
next
  case (5 ncs s bound)
  then show ?case by (simp add: slow_utf8_def TCS_C_UTF_8_def TCS_C_UTF_8_fastUnmarshalString_def)
next
  case (6 s ncs bound str len)
  then show ?case
    using mio.TCS_C_UTF_8_null_carries [of s validate ncs bound str len]
      mio.TCS_C_UTF_8_8bit_carries [of s validate ncs bound str le heap len]
    by (simp add: TCS_C_UTF_8_def) blast
qed

section \<open>The native UTF-8 code set, against the contract\<close>

context tcs_contract
begin

lemma NCS_C_UTF_8_slow:
  assumes s: "sinv s" and sl: "slow ncs_utf8" and fit: "fits bound (units cps)"
    and cps: "\<forall>cp \<in> set cps. scalar cp \<and> cp \<noteq> 0 \<and> intact cp" and len: "length (wire cps) + 1 < 2 ^ 32"
  shows "\<exists>s'. NCS_C_UTF_8_marshalString s (Some tcs) bound n (wire cps) = Inr s' \<and>
    carries s (\<lambda>t. assoc3 (NCS_C_UTF_8_unmarshalString t (Some tcs) bound)) (of_nat (length (wire cps)), wire cps @ [0]) s'"
proof -
  let ?us = "units cps"
  obtain s' where m: "tcs_marshalString tcs s bound (of_nat (length ?us)) (?us @ [0]) = Inr s'"
    and c: "carries s (\<lambda>t. assoc3 (tcs_unmarshalString tcs t bound)) (of_nat (length ?us), ?us @ [0]) s'"
    using unicode [OF s fit] by blast
  have u: "unat (of_nat (length ?us) :: 32 word) = length ?us"
    using fits_length [OF fit] by (intro unat_of_nat_32) simp
  have dec: "decode_string (wire cps @ [0]) = Inr ?us" using decode_string_all [of cps] cps by (simp add: wire_def)
  have enc: "encode_units 0 (?us @ [0]) (length ?us + 1) = Inr (wire cps @ [0], 0)"
    using encode_string [of cps 0] sent_wire [of cps] cps by simp
  have "carries s (\<lambda>t. assoc3 (NCS_C_UTF_8_unmarshalString t (Some tcs) bound)) (of_nat (length (wire cps)), wire cps @ [0]) s'"
  proof (rule carries_map [OF c])
    fix t t'
    assume "assoc3 (tcs_unmarshalString tcs t bound) = Inr ((of_nat (length ?us), ?us @ [0]), t')"
    then have "tcs_unmarshalString tcs t bound = Inr (of_nat (length ?us), ?us @ [0], t')"
      by (simp add: assoc3_eq_Inr)
    then show "assoc3 (NCS_C_UTF_8_unmarshalString t (Some tcs) bound) = Inr ((of_nat (length (wire cps)), wire cps @ [0]), t')"
      using enc u by (simp add: NCS_C_UTF_8_unmarshalString_def slow_unmarshal [OF sl])
  qed
  moreover have "NCS_C_UTF_8_marshalString s (Some tcs) bound n (wire cps) = Inr s'"
    using m dec by (simp add: NCS_C_UTF_8_marshalString_def slow_marshal [OF sl])
  ultimately show ?thesis by blast
qed

lemma NCS_C_UTF_8_quick:
  assumes s: "sinv s" and q: "quick ncs_utf8 bound str" and len: "len = 0 \<or> len = of_nat (length str)"
  shows "\<exists>s'. NCS_C_UTF_8_marshalString s (Some tcs) bound len str = Inr s' \<and>
    carries s (\<lambda>t. assoc3 (NCS_C_UTF_8_unmarshalString t (Some tcs) bound)) (of_nat (length str), str @ [0]) s'"
proof -
  obtain s' where m: "tcs_fastMarshalString tcs s ncs_utf8 bound len str = Inr (Some s')"
    and c: "carries s (\<lambda>t. tcs_fastUnmarshalString tcs t ncs_utf8 bound) (Some (of_nat (length str), str @ [0])) s'"
    using quick_carries [OF s q len] by blast
  have "carries s (\<lambda>t. assoc3 (NCS_C_UTF_8_unmarshalString t (Some tcs) bound)) (of_nat (length str), str @ [0]) s'"
    by (rule carries_map [OF c]) (simp add: NCS_C_UTF_8_unmarshalString_def)
  then show ?thesis using m by (simp add: NCS_C_UTF_8_marshalString_def)
qed

end

end
