(* ===== verification/Cs_Check.thy ===== *)
theory Cs_Check
  imports Code_Set_Contract "HOL-Library.Multiset"
begin

unbundle bit_operations_syntax

text \<open>
  A check of the translation tables of a single-byte code set that the kernel can run: the table
  to Unicode and the table back hold the same pairs, in linear passes and one merge sort. Checked tables
  are inverse to each other, and no index leaves them. The two-level table of a set lists its rows;
  every other row is \<^verbatim>\<open>omniCodeSet::empty8BitTable\<close>.
\<close>

section \<open>Two-level tables\<close>

definition empty8BitTable :: "8 word list" where
  "empty8BitTable = replicate 256 0"

definition rows :: "(nat \<times> 8 word list) list \<Rightarrow> 8 word list list" where
  "rows sp = map (\<lambda>i. case map_of sp i of Some r \<Rightarrow> r | None \<Rightarrow> empty8BitTable) [0..<256]"

section \<open>The check\<close>

fun row_pairs :: "UniChar \<Rightarrow> 8 word list \<Rightarrow> (8 word \<times> UniChar) list" where
  "row_pairs u [] = []"
| "row_pairs u (x # xs) = (if x = 0 then row_pairs (u + 1) xs else (x, u) # row_pairs (u + 1) xs)"

fun to_pairs :: "8 word \<Rightarrow> UniChar list \<Rightarrow> (8 word \<times> UniChar) list" where
  "to_pairs c [] = []"
| "to_pairs c (u # us) = (if u = 0 then to_pairs (c + 1) us else (c, u) # to_pairs (c + 1) us)"

text \<open>Sorting by the octet.\<close>

fun merge :: "('a::linorder \<times> 'b) list \<Rightarrow> ('a \<times> 'b) list \<Rightarrow> ('a \<times> 'b) list" where
  "merge [] qs = qs"
| "merge ps [] = ps"
| "merge (p # ps) (q # qs) = (if fst p \<le> fst q then p # merge ps (q # qs) else q # merge (p # ps) qs)"

fun merge_adj :: "('a::linorder \<times> 'b) list list \<Rightarrow> ('a \<times> 'b) list list" where
  "merge_adj (x # y # zs) = merge x y # merge_adj zs"
| "merge_adj xs = xs"

lemma merge_adj_length: "length (merge_adj xs) \<le> length xs"
  by (induction xs rule: merge_adj.induct) auto

function merge_all :: "('a::linorder \<times> 'b) list list \<Rightarrow> ('a \<times> 'b) list" where
  "merge_all [] = []"
| "merge_all [x] = x"
| "merge_all (x # y # zs) = merge_all (merge x y # merge_adj zs)"
  by pat_completeness auto
termination
  by (relation "measure length") (auto simp: less_Suc_eq_le merge_adj_length)

definition table_pairs :: "(nat \<times> 8 word list) list \<Rightarrow> (8 word \<times> UniChar) list" where
  "table_pairs sp = concat (map (\<lambda>(i, r). row_pairs (256 * of_nat i) r) sp)"

definition tables_checked :: "UniChar list \<Rightarrow> (nat \<times> 8 word list) list \<Rightarrow> bool" where
  "tables_checked toU sp \<longleftrightarrow> length toU = 256 \<and> hd toU = 0 \<and>
     list_all (\<lambda>(i, r). i < 256 \<and> length r = 256) sp \<and> distinct (map fst sp) \<and>
     fst (hd sp) = 0 \<and> sp \<noteq> [] \<and> hd (snd (hd sp)) = 0 \<and>
     merge_all (map (\<lambda>p. [p]) (table_pairs sp)) = to_pairs 0 toU"

section \<open>What the check means\<close>

lemma merge_set: "set (merge ps qs) = set ps \<union> set qs"
  by (induction ps qs rule: merge.induct) auto

lemma merge_adj_set: "\<Union> (set ` set (merge_adj xs)) = \<Union> (set ` set xs)"
  by (induction xs rule: merge_adj.induct) (auto simp: merge_set)

lemma merge_all_set: "set (merge_all xs) = \<Union> (set ` set xs)"
  by (induction xs rule: merge_all.induct) (auto simp: merge_set merge_adj_set)

lemma to_pairs_set:
  "(c, u) \<in> set (to_pairs c0 us) \<longleftrightarrow> u \<noteq> 0 \<and> (\<exists>k < length us. us ! k = u \<and> c = c0 + of_nat k)"
proof (induction us arbitrary: c0)
  case (Cons v us)
  have "(\<exists>k < length (v # us). (v # us) ! k = u \<and> c = c0 + of_nat k) \<longleftrightarrow>
      v = u \<and> c = c0 \<or> (\<exists>k < length us. us ! k = u \<and> c = c0 + 1 + of_nat k)"
    by (auto simp: Ex_less_Suc2 ac_simps)
  then show ?case using Cons [of "c0 + 1"] by auto
qed simp

lemma row_pairs_set:
  "(x, u) \<in> set (row_pairs u0 r) \<longleftrightarrow> x \<noteq> 0 \<and> (\<exists>k < length r. r ! k = x \<and> u = u0 + of_nat k)"
proof (induction r arbitrary: u0)
  case (Cons y r)
  have "(\<exists>k < length (y # r). (y # r) ! k = x \<and> u = u0 + of_nat k) \<longleftrightarrow>
      y = x \<and> u = u0 \<or> (\<exists>k < length r. r ! k = x \<and> u = u0 + 1 + of_nat k)"
    by (auto simp: Ex_less_Suc2 ac_simps)
  then show ?case using Cons [of "u0 + 1"] by auto
qed simp

lemma hi_lo_nat:
  "unat (drop_bit 8 ((u :: UniChar) AND 0xff00)) = unat u div 256" "unat (u AND 0x00ff) = unat u mod 256"
proof -
  have m: "(0xff00 :: UniChar) = push_bit 8 (mask 8)" "(0x00ff :: UniChar) = mask 8"
    by (simp_all add: mask_eq_exp_minus_1 push_bit_eq_mult)
  have "drop_bit 8 (u AND 0xff00) = drop_bit 8 u"
    unfolding m by (rule bit_word_eqI) (auto simp: bit_simps dest: bit_imp_le_length)
  then show "unat (drop_bit 8 (u AND 0xff00)) = unat u div 256"
    by (simp only: unat_drop_bit_eq) (simp add: drop_bit_eq_div)
  show "unat (u AND 0x00ff) = unat u mod 256"
    by (simp only: m take_bit_eq_mask [symmetric] unsigned_take_bit_eq) (simp add: take_bit_eq_mod)
qed

lemma hi_lo_bounds: "unat (drop_bit 8 ((u :: UniChar) AND 0xff00)) < 256" "unat ((u :: UniChar) AND 0x00ff) < 256"
proof -
  have "unat u < 2 ^ 16" using unsigned_less [of u] by simp
  then show "unat (drop_bit 8 (u AND 0xff00)) < 256" unfolding hi_lo_nat by (simp add: div_less_iff_less_mult)
  show "unat (u AND 0x00ff) < 256" unfolding hi_lo_nat by simp
qed

lemma hi_lo:
  assumes "i < 256" and "k < 256"
  shows "256 * of_nat i + of_nat k = (u :: UniChar) \<longleftrightarrow>
    i = unat (drop_bit 8 (u AND 0xff00)) \<and> k = unat (u AND 0x00ff)"
proof -
  have "256 * of_nat i + of_nat k = (of_nat (256 * i + k) :: UniChar)" by simp
  moreover have "unat (of_nat (256 * i + k) :: UniChar) = 256 * i + k"
    using assms by (simp only: unat_of_nat) simp
  ultimately have "256 * of_nat i + of_nat k = u \<longleftrightarrow> 256 * i + k = unat u"
    by (simp only: word_unat_eq_iff [of _ u])
  also have "\<dots> \<longleftrightarrow> i = unat u div 256 \<and> k = unat u mod 256"
  proof
    assume "256 * i + k = unat u"
    from this [symmetric] show "i = unat u div 256 \<and> k = unat u mod 256" using assms(2) by simp
  qed simp
  finally show ?thesis by (simp only: hi_lo_nat)
qed

lemma hd_0: "xs \<noteq> [] \<Longrightarrow> hd xs = xs ! 0"
  by (cases xs) auto

lemma checked_facts:
  assumes "tables_checked toU sp"
  shows "length toU = 256" "toU ! 0 = 0" "(i, r) \<in> set sp \<Longrightarrow> i < 256 \<and> length r = 256"
    "distinct (map fst sp)" "length (rows sp) = 256" "i < 256 \<Longrightarrow> length (rows sp ! i) = 256"
    "rows sp ! 0 ! 0 = 0"
proof -
  note c = assms [unfolded tables_checked_def]
  show "length toU = 256" "distinct (map fst sp)" using c by auto
  then show "toU ! 0 = 0" using c by (metis hd_0 length_0_conv zero_neq_numeral)
  show l: "(i, r) \<in> set sp \<Longrightarrow> i < 256 \<and> length r = 256" for i r using c by (auto simp: list_all_iff)
  show "length (rows sp) = 256" by (simp add: rows_def)
  show "i < 256 \<Longrightarrow> length (rows sp ! i) = 256"
    using l by (auto simp: rows_def empty8BitTable_def split: option.splits dest!: map_of_SomeD)
  obtain r sp' where sp: "sp = (0, r) # sp'" "hd r = 0" using c by (cases sp) auto
  then have "length r = 256" using l [of 0 r] by simp
  then show "rows sp ! 0 ! 0 = 0" using sp by (simp add: rows_def) (metis hd_0 length_0_conv zero_neq_numeral)
qed

lemma from_lookup_rows:
  assumes "tables_checked toU sp" and "x \<noteq> 0"
  shows "from_lookup (rows sp) u = Inr x \<longleftrightarrow> (x, u) \<in> set (table_pairs sp)"
proof -
  let ?i = "unat (drop_bit 8 (u AND 0xff00))" and ?k = "unat (u AND 0x00ff)"
  note f = checked_facts [OF assms(1)]
  have e: "from_lookup (rows sp) u = Inr x \<longleftrightarrow> rows sp ! ?i ! ?k = x"
    using f(5) f(6) [of ?i] hi_lo_bounds [of u] by (simp add: from_lookup_def)
  have r: "rows sp ! ?i = (case map_of sp ?i of Some r \<Rightarrow> r | None \<Rightarrow> empty8BitTable)"
    using hi_lo_bounds(1) [of u] by (simp add: rows_def)
  have "rows sp ! ?i ! ?k = x \<longleftrightarrow> (\<exists>r. (?i, r) \<in> set sp \<and> r ! ?k = x)"
  proof (cases "map_of sp ?i")
    case None
    then have "(?i, r') \<notin> set sp" for r' by (metis map_of_eq_None_iff fst_conv imageI)
    then show ?thesis using None r assms(2) hi_lo_bounds(2) [of u] by (simp add: empty8BitTable_def)
  next
    case (Some r')
    then show ?thesis using r f(4) by (auto simp: map_of_eq_Some_iff dest: map_of_SomeD eq_key_imp_eq_value)
  qed
  also have "\<dots> \<longleftrightarrow> (\<exists>i r. (i, r) \<in> set sp \<and> (\<exists>k < 256. r ! k = x \<and> u = 256 * of_nat i + of_nat k))"
  proof
    assume "\<exists>r. (?i, r) \<in> set sp \<and> r ! ?k = x"
    then show "\<exists>i r. (i, r) \<in> set sp \<and> (\<exists>k < 256. r ! k = x \<and> u = 256 * of_nat i + of_nat k)"
      using hi_lo [OF hi_lo_bounds, of u u u] hi_lo_bounds(2) [of u] by metis
  next
    assume "\<exists>i r. (i, r) \<in> set sp \<and> (\<exists>k < 256. r ! k = x \<and> u = 256 * of_nat i + of_nat k)"
    then obtain i r k where s: "(i, r) \<in> set sp" "k < 256" "r ! k = x" "256 * of_nat i + of_nat k = u" by blast
    have "i < 256" using f(3) s(1) by blast
    with s(2,4) have "i = ?i" "k = ?k" using hi_lo [of i k u] by simp_all
    with s show "\<exists>r. (?i, r) \<in> set sp \<and> r ! ?k = x" by metis
  qed
  also have "\<dots> \<longleftrightarrow> (x, u) \<in> set (table_pairs sp)"
  proof -
    have "(x, u) \<in> set (table_pairs sp) \<longleftrightarrow>
        (\<exists>i r. (i, r) \<in> set sp \<and> (x, u) \<in> set (row_pairs (256 * of_nat i) r))"
      by (auto simp: table_pairs_def)
    also have "\<dots> \<longleftrightarrow> (\<exists>i r. (i, r) \<in> set sp \<and> (\<exists>k < length r. r ! k = x \<and> u = 256 * of_nat i + of_nat k))"
      using assms(2) by (simp only: row_pairs_set) simp
    also have "\<dots> \<longleftrightarrow> (\<exists>i r. (i, r) \<in> set sp \<and> (\<exists>k < 256. r ! k = x \<and> u = 256 * of_nat i + of_nat k))"
      using f(3) by metis
    finally show ?thesis by simp
  qed
  finally show ?thesis using e by simp
qed

lemma to_lookup_table:
  assumes "tables_checked toU sp" and "u \<noteq> 0"
  shows "to_lookup toU c = Inr u \<longleftrightarrow> (c, u) \<in> set (to_pairs 0 toU)"
proof -
  have l: "length toU = 256" by (rule checked_facts(1) [OF assms(1)])
  have c: "unat c < 256" using unsigned_less [of c] by simp
  have "to_lookup toU c = Inr u \<longleftrightarrow> toU ! unat c = u" using l c by (simp add: to_lookup_def)
  also have "\<dots> \<longleftrightarrow> (\<exists>k < 256. toU ! k = u \<and> c = of_nat k)"
  proof
    assume "toU ! unat c = u"
    then show "\<exists>k < 256. toU ! k = u \<and> c = of_nat k" using c by (intro exI [of _ "unat c"]) simp
  next
    assume "\<exists>k < 256. toU ! k = u \<and> c = of_nat k"
    then show "toU ! unat c = u" by (auto simp: unat_of_nat)
  qed
  finally show ?thesis using assms(2) l by (simp add: to_pairs_set)
qed

text \<open>The two tables are inverse to each other.\<close>

lemma tables_inverse:
  assumes "tables_checked toU sp"
  shows "to_char toU c = Inr u \<longleftrightarrow> from_char (rows sp) u = Inr c"
proof -
  note f = checked_facts [OF assms]
  have p: "set (table_pairs sp) = set (to_pairs 0 toU)"
  proof -
    have "set (merge_all (map (\<lambda>p. [p]) (table_pairs sp))) = set (table_pairs sp)"
      by (auto simp: merge_all_set)
    then show ?thesis using assms by (simp add: tables_checked_def)
  qed
  have t0: "to_lookup toU 0 = Inr 0" using f(1,2) by (simp add: to_lookup_def)
  have f0: "from_lookup (rows sp) 0 = Inr 0" using f(5,7) f(6) [of 0] by (simp add: from_lookup_def)
  show ?thesis
  proof (cases "u = 0 \<or> c = 0")
    case True
    then show ?thesis using t0 f0 by (auto simp: to_char_def from_char_def err_simps split: if_splits)
  next
    case False
    then have "to_lookup toU c = Inr u \<longleftrightarrow> from_lookup (rows sp) u = Inr c"
      using from_lookup_rows [OF assms] to_lookup_table [OF assms] p by simp
    then show ?thesis using False by (auto simp: to_char_def from_char_def err_simps split: if_splits)
  qed
qed

lemma to_char_total:
  assumes "tables_checked toU sp"
  shows "to_char toU c = Inl CannotMap \<or> (\<exists>u. to_char toU c = Inr u)"
proof -
  have "unat c < 256" using unsigned_less [of c] by simp
  then show ?thesis using checked_facts(1) [OF assms] by (simp add: to_char_def to_lookup_def)
qed

lemma from_char_total:
  assumes "tables_checked toU sp"
  shows "from_char (rows sp) u = Inl CannotMap \<or> (\<exists>c. from_char (rows sp) u = Inr c)"
  using checked_facts(5,6) [OF assms] hi_lo_bounds [of u] by (simp add: from_char_def from_lookup_def)

end
