(* ===== verification/Code_Set_Tables.thy ===== *)
theory Code_Set_Tables
  imports Cs_Iso_A Cs_Iso_B Cs_Windows_A Cs_Windows_B Cs_Ebcdic
begin

text \<open>
  All single-byte code sets of the library, and their property: each table is the inverse of the
  other, for every character that the set has.
\<close>

definition code_sets :: "(string \<times> UniChar list \<times> (nat \<times> 8 word list) list) list" where
  "code_sets =
    [(''8859_1'', toUCS_8859_1, fromUCS_8859_1),
     (''8859_2'', toUCS_8859_2, fromUCS_8859_2),
     (''8859_3'', toUCS_8859_3, fromUCS_8859_3),
     (''8859_4'', toUCS_8859_4, fromUCS_8859_4),
     (''8859_5'', toUCS_8859_5, fromUCS_8859_5),
     (''8859_6'', toUCS_8859_6, fromUCS_8859_6),
     (''8859_7'', toUCS_8859_7, fromUCS_8859_7),
     (''8859_8'', toUCS_8859_8, fromUCS_8859_8),
     (''8859_9'', toUCS_8859_9, fromUCS_8859_9),
     (''8859_10'', toUCS_8859_10, fromUCS_8859_10),
     (''8859_11'', toUCS_8859_11, fromUCS_8859_11),
     (''8859_13'', toUCS_8859_13, fromUCS_8859_13),
     (''8859_14'', toUCS_8859_14, fromUCS_8859_14),
     (''8859_15'', toUCS_8859_15, fromUCS_8859_15),
     (''8859_16'', toUCS_8859_16, fromUCS_8859_16),
     (''cp1250'', toUCS_cp1250, fromUCS_cp1250),
     (''cp1251'', toUCS_cp1251, fromUCS_cp1251),
     (''cp1252'', toUCS_cp1252, fromUCS_cp1252),
     (''cp1253'', toUCS_cp1253, fromUCS_cp1253),
     (''cp1254'', toUCS_cp1254, fromUCS_cp1254),
     (''cp1255'', toUCS_cp1255, fromUCS_cp1255),
     (''cp1256'', toUCS_cp1256, fromUCS_cp1256),
     (''cp1257'', toUCS_cp1257, fromUCS_cp1257),
     (''cp1258'', toUCS_cp1258, fromUCS_cp1258),
     (''037'', toUCS_037, fromUCS_037),
     (''500'', toUCS_500, fromUCS_500),
     (''EDF_4'', toUCS_EDF_4, fromUCS_EDF_4)]"

lemma code_sets_checked: "(n, toU, sp) \<in> set code_sets \<Longrightarrow> tables_checked toU sp"
proof -
  have "list_all (\<lambda>(n, toU, sp). tables_checked toU sp) code_sets"
    by (simp only: code_sets_def list.pred_inject prod.case simp_thms
      check_8859_1 check_8859_2 check_8859_3 check_8859_4 check_8859_5 check_8859_6 check_8859_7 check_8859_8 check_8859_9 check_8859_10 check_8859_11 check_8859_13 check_8859_14 check_8859_15 check_8859_16 check_cp1250 check_cp1251 check_cp1252 check_cp1253 check_cp1254 check_cp1255 check_cp1256 check_cp1257 check_cp1258 check_037 check_500 check_EDF_4)
  then show "(n, toU, sp) \<in> set code_sets \<Longrightarrow> tables_checked toU sp" by (auto simp: list_all_iff)
qed

text \<open>C35. The two translation tables of every single-byte code set of the library are inverse to each
  other: a character of the set is translated to Unicode and back to itself, every Unicode value that
  the set can express comes from exactly one character, and any other character or value raises
  DATA_CONVERSION; no look-up leaves an array.\<close>

theorem code_set_tables_inverse:
  assumes "(n, toU, sp) \<in> set code_sets"
  shows "(to_char toU c = Inr u \<longleftrightarrow> from_char (rows sp) u = Inr c) \<and>
    (to_char toU c = Inl CannotMap \<or> (\<exists>u. to_char toU c = Inr u)) \<and>
    (from_char (rows sp) u = Inl CannotMap \<or> (\<exists>c. from_char (rows sp) u = Inr c))"
  using tables_inverse [OF code_sets_checked [OF assms]] to_char_total [OF code_sets_checked [OF assms]]
    from_char_total [OF code_sets_checked [OF assms]] by blast

theorem code_set_tables_inverse_witness:
  "to_char toUCS_8859_15 0xA4 = Inr 0x20AC \<and> from_char (rows fromUCS_8859_15) 0x20AC = Inr 0xA4"
proof -
  have "(''8859_15'', toUCS_8859_15, fromUCS_8859_15) \<in> set code_sets" by (simp add: code_sets_def)
  from code_set_tables_inverse [OF this, of "0xA4" "0x20AC"]
  have "to_char toUCS_8859_15 0xA4 = Inr 0x20AC \<longleftrightarrow> from_char (rows fromUCS_8859_15) 0x20AC = Inr 0xA4" by blast
  moreover have "to_char toUCS_8859_15 0xA4 = Inr 0x20AC"
    by (simp add: to_char_def to_lookup_def arr_get_def toUCS_8859_15_def)
  ultimately show ?thesis by blast
qed

end
