(* ===== verification/Code_Set_Claims.thy ===== *)
theory Code_Set_Claims
  imports Utf8_Contract Code_Set_Tables
begin

unbundle bit_operations_syntax

text \<open>
  Strings through the code sets of a connection, on a memory stream: which strings come back as they
  were sent, for each pair of a native and a transmission code set, and three ways in which the code
  loses one.
\<close>

text \<open>A concrete set and string for the witnesses: the euro sign and a letter in ISO 8859-15.\<close>

definition ncs_8859_15 :: ncs_c where
  "ncs_8859_15 = \<lparr>ncs_id = 0x0001000f, ncs_kind = CS_8bit, ncs_toU = toUCS_8859_15, ncs_fromU = rows fromUCS_8859_15\<rparr>"

lemma check_translates:
  assumes "tables_checked (ncs_toU ncs) sp" and "ncs_fromU ncs = rows sp"
    and "list_all2 (\<lambda>c u. to_char (ncs_toU ncs) c = Inr u) (str @ [0]) (us @ [0])"
  shows "translates ncs str us"
  using assms(3) unfolding translates_def by (rule list_all2_mono) (use tables_inverse [OF assms(1)] assms(2) in auto)

lemma euro_translates: "translates ncs_8859_15 [0xA4, 0x41] [0x20AC, 0x41]"
proof (rule check_translates [of _ fromUCS_8859_15])
  show "list_all2 (\<lambda>c u. to_char (ncs_toU ncs_8859_15) c = Inr u) ([0xA4, 0x41] @ [0]) ([0x20AC, 0x41] @ [0])"
    by (simp add: ncs_8859_15_def to_char_def to_lookup_def arr_get_def toUCS_8859_15_def)
qed (simp_all add: ncs_8859_15_def check_8859_15)

text \<open>C15. A string of any single-byte native code set goes through a UTF-8 connection unchanged, as
  long as every character has a Unicode value that is no surrogate and that the tables map back, and
  the octets fit the bound.\<close>

theorem string_8bit_over_utf8:
  assumes s: "at_end s" and ncs: "ncs_id ncs \<noteq> ID_UTF_8" "ncs_kind ncs = CS_8bit"
    and tr: "translates ncs str us" and sc: "\<forall>u \<in> set us. scalar (unat u)"
    and b: "in_bound bound (length (wire (map unat us)))"
  shows "\<exists>s' s''. NCS_C_8bit_marshalString ncs s (Some (TCS_C_UTF_8 strict validate (ms_io le heap))) bound 0 str = Inr s' \<and>
    NCS_C_8bit_unmarshalString ncs s' (Some (TCS_C_UTF_8 strict validate (ms_io le heap))) bound =
      Inr (of_nat (length str), str @ [0], s'') \<and> at_end s''"
proof -
  have "quick_utf8 validate ncs bound str" using ncs tr sc b by (auto simp: quick_utf8_def)
  then obtain s' where m: "NCS_C_8bit_marshalString ncs s (Some (TCS_C_UTF_8 strict validate (ms_io le heap))) bound 0 str = Inr s'"
    and c: "ms.carries le heap s (\<lambda>t. assoc3 (NCS_C_8bit_unmarshalString ncs t
      (Some (TCS_C_UTF_8 strict validate (ms_io le heap))) bound)) (of_nat (length str), str @ [0]) s'"
    using tu.NCS_C_8bit_quick [of s validate ncs bound str 0 strict le heap] s by (auto simp: at_end_def)
  from carries_at_end [OF c s] m show ?thesis by (auto simp: assoc3_eq_Inr)
qed

theorem string_8bit_over_utf8_witness:
  "\<exists>s s' s''. cdrMemoryStream_new (\<lambda>n. 1000) 100 0 False = Inr s \<and>
     NCS_C_8bit_marshalString ncs_8859_15 s (Some (TCS_C_UTF_8 True True (ms_io True (\<lambda>n. 1000)))) 0 0 [0xA4, 0x41] = Inr s' \<and>
     NCS_C_8bit_unmarshalString ncs_8859_15 s' (Some (TCS_C_UTF_8 True True (ms_io True (\<lambda>n. 1000)))) 0 =
       Inr (of_nat (length [0xA4 :: 8 word, 0x41]), [0xA4, 0x41] @ [0], s'') \<and> at_end s''"
proof -
  obtain s where s: "cdrMemoryStream_new (\<lambda>n. 1000) 100 0 False = Inr s" "at_end s" using at_end_new by blast
  have "\<forall>u \<in> set [0x20AC, 0x41 :: UniChar]. scalar (unat u)" by (simp add: scalar_def)
  moreover have "in_bound 0 (length (wire (map unat [0x20AC, 0x41 :: UniChar])))" by (simp add: in_bound_def wire_def utf8_def)
  moreover have "ncs_id ncs_8859_15 \<noteq> ID_UTF_8" "ncs_kind ncs_8859_15 = CS_8bit"
    by (simp_all add: ncs_8859_15_def ID_UTF_8_def)
  ultimately show ?thesis
    using string_8bit_over_utf8 [OF s(2) _ _ euro_translates, of 0 True True True "\<lambda>n. 1000"] s(1) by blast
qed

text \<open>C16. A string of a single-byte native code set goes unchanged through a connection that uses
  another single-byte code set, as long as both have its characters.\<close>

theorem string_8bit_over_8bit:
  assumes s: "at_end s" and id0: "ncs_id ncs \<noteq> id0"
    and tr: "translates ncs str us" and fit: "fits_8bit toU fromU bound us"
  shows "\<exists>s' s''. NCS_C_8bit_marshalString ncs s (Some (TCS_C_8bit strict (ms_io le heap) id0 toU fromU)) bound 0 str = Inr s' \<and>
    NCS_C_8bit_unmarshalString ncs s' (Some (TCS_C_8bit strict (ms_io le heap) id0 toU fromU)) bound =
      Inr (of_nat (length str), str @ [0], s'') \<and> at_end s''"
proof -
  obtain s' where m: "NCS_C_8bit_marshalString ncs s (Some (TCS_C_8bit strict (ms_io le heap) id0 toU fromU)) bound 0 str = Inr s'"
    and c: "ms.carries le heap s (\<lambda>t. assoc3 (NCS_C_8bit_unmarshalString ncs t
      (Some (TCS_C_8bit strict (ms_io le heap) id0 toU fromU)) bound)) (of_nat (length str), str @ [0]) s'"
    using t8.NCS_C_8bit_slow [of s ncs id0 str us toU fromU bound 0 strict le heap] s id0 tr fit
    by (auto simp: at_end_def)
  from carries_at_end [OF c s] m show ?thesis by (auto simp: assoc3_eq_Inr)
qed

lemma check_fits:
  assumes "tables_checked toU sp" and "in_bound bound (length us)"
    and "list_all2 (\<lambda>u c. to_char toU c = Inr u) (us @ [0]) bs"
  shows "fits_8bit toU (rows sp) bound us"
proof -
  have "list_all2 (\<lambda>u c. from_char (rows sp) u = Inr c \<and> to_char toU c = Inr u) (us @ [0]) bs"
    using assms(3) by (rule list_all2_mono) (use tables_inverse [OF assms(1)] in auto)
  then show ?thesis using assms(2) by (auto simp: fits_8bit_def)
qed

lemma fits_letters: "fits_8bit toUCS_8859_1 (rows fromUCS_8859_1) 0 [0xE9, 0x41]"
proof (rule check_fits [OF check_8859_1, of _ _ "[0xE9, 0x41, 0]"])
  show "list_all2 (\<lambda>u c. to_char toUCS_8859_1 c = Inr u) ([0xE9, 0x41] @ [0]) [0xE9, 0x41, 0]"
    by (simp add: to_char_def to_lookup_def arr_get_def toUCS_8859_1_def)
qed (simp add: in_bound_def)

lemma letters_translate: "translates ncs_8859_15 [0xE9, 0x41] [0xE9, 0x41]"
proof (rule check_translates [of _ fromUCS_8859_15])
  show "list_all2 (\<lambda>c u. to_char (ncs_toU ncs_8859_15) c = Inr u) ([0xE9, 0x41] @ [0]) ([0xE9, 0x41] @ [0])"
    by (simp add: ncs_8859_15_def to_char_def to_lookup_def arr_get_def toUCS_8859_15_def)
qed (simp_all add: ncs_8859_15_def check_8859_15)

theorem string_8bit_over_8bit_witness:
  "\<exists>s s' s''. cdrMemoryStream_new (\<lambda>n. 1000) 100 0 False = Inr s \<and>
     NCS_C_8bit_marshalString ncs_8859_15 s
       (Some (TCS_C_8bit True (ms_io True (\<lambda>n. 1000)) 0x00010001 toUCS_8859_1 (rows fromUCS_8859_1))) 0 0 [0xE9, 0x41] = Inr s' \<and>
     NCS_C_8bit_unmarshalString ncs_8859_15 s'
       (Some (TCS_C_8bit True (ms_io True (\<lambda>n. 1000)) 0x00010001 toUCS_8859_1 (rows fromUCS_8859_1))) 0 =
       Inr (of_nat (length [0xE9 :: 8 word, 0x41]), [0xE9, 0x41] @ [0], s'') \<and> at_end s''"
proof -
  obtain s where s: "cdrMemoryStream_new (\<lambda>n. 1000) 100 0 False = Inr s" "at_end s" using at_end_new by blast
  have "ncs_id ncs_8859_15 \<noteq> 0x00010001" by (simp add: ncs_8859_15_def)
  from string_8bit_over_8bit [OF s(2) this letters_translate fits_letters, of True True "\<lambda>n. 1000"] s(1)
  show ?thesis by blast
qed

text \<open>C17. A native UTF-8 string goes unchanged through a connection that uses a single-byte code set,
  as long as the set has its characters.\<close>

theorem string_utf8_over_8bit:
  assumes s: "at_end s" and id0: "id0 \<noteq> ID_UTF_8"
    and cps: "\<forall>cp \<in> set cps. scalar cp \<and> cp \<noteq> 0 \<and> intact cp" and len: "length (wire cps) + 1 < 2 ^ 32"
    and fit: "fits_8bit toU fromU bound (units cps)"
  shows "\<exists>s' s''. NCS_C_UTF_8_marshalString s (Some (TCS_C_8bit strict (ms_io le heap) id0 toU fromU)) bound 0 (wire cps) = Inr s' \<and>
    NCS_C_UTF_8_unmarshalString s' (Some (TCS_C_8bit strict (ms_io le heap) id0 toU fromU)) bound =
      Inr (of_nat (length (wire cps)), wire cps @ [0], s'') \<and> at_end s''"
proof -
  obtain s' where m: "NCS_C_UTF_8_marshalString s (Some (TCS_C_8bit strict (ms_io le heap) id0 toU fromU)) bound 0 (wire cps) = Inr s'"
    and c: "ms.carries le heap s (\<lambda>t. assoc3 (NCS_C_UTF_8_unmarshalString t
      (Some (TCS_C_8bit strict (ms_io le heap) id0 toU fromU)) bound)) (of_nat (length (wire cps)), wire cps @ [0]) s'"
    using t8.NCS_C_UTF_8_slow [of s id0 toU fromU bound cps strict le heap 0] s id0 cps len fit
    by (auto simp: at_end_def ncs_utf8_def)
  from carries_at_end [OF c s] m show ?thesis by (auto simp: assoc3_eq_Inr)
qed

theorem string_utf8_over_8bit_witness:
  "\<exists>s s' s''. cdrMemoryStream_new (\<lambda>n. 1000) 100 0 False = Inr s \<and>
     NCS_C_UTF_8_marshalString s
       (Some (TCS_C_8bit True (ms_io True (\<lambda>n. 1000)) 0x00010001 toUCS_8859_1 (rows fromUCS_8859_1))) 0 0 (wire [0xE9, 0x41]) = Inr s' \<and>
     NCS_C_UTF_8_unmarshalString s'
       (Some (TCS_C_8bit True (ms_io True (\<lambda>n. 1000)) 0x00010001 toUCS_8859_1 (rows fromUCS_8859_1))) 0 =
       Inr (of_nat (length (wire [0xE9, 0x41])), wire [0xE9, 0x41] @ [0], s'') \<and> at_end s''"
proof -
  obtain s where s: "cdrMemoryStream_new (\<lambda>n. 1000) 100 0 False = Inr s" "at_end s" using at_end_new by blast
  have "(0x00010001 :: 32 word) \<noteq> ID_UTF_8" by (simp add: ID_UTF_8_def)
  moreover have "\<forall>cp \<in> set [0xE9, 0x41]. scalar cp \<and> cp \<noteq> 0 \<and> intact cp" by (simp add: scalar_def intact_def)
  moreover have "length (wire [0xE9, 0x41]) + 1 < 2 ^ 32" by (simp add: wire_def utf8_def)
  moreover have "fits_8bit toUCS_8859_1 (rows fromUCS_8859_1) 0 (units [0xE9, 0x41])"
    using fits_letters by (simp add: utf16_def)
  ultimately show ?thesis
    using string_utf8_over_8bit [OF s(2), of "0x00010001" "[0xE9, 0x41]" toUCS_8859_1 "rows fromUCS_8859_1" 0 True True "\<lambda>n. 1000"] s(1)
    by blast
qed

section \<open>Strings that are lost\<close>

text \<open>The length zero, which is accepted as an empty string when strict IIOP is off, is not returned
  when native and transmission code set are the same: the fast function reports that it has done
  nothing although it has taken the length from the stream, and the caller goes on to read the next
  string in its place.\<close>

theorem zero_length_string_skipped:
  assumes "unmarshalULong (prim io) s = Inr (0, s1)"
  shows "NCS_C_8bit_unmarshalString ncs s (Some (TCS_C_8bit False io (ncs_id ncs) toU fromU)) bound =
    ebind (TCS_C_8bit_unmarshalString False io toU s1 bound) (\<lambda>(len, us, s2).
    ebind (map_chars (from_char (ncs_fromU ncs)) us (unat len + 1)) (\<lambda>str. Inr (len, str, s2)))"
  using assms
  by (simp add: NCS_C_8bit_unmarshalString_def TCS_C_8bit_def TCS_C_8bit_fastUnmarshalString_def string_length_def)

theorem zero_length_string_skipped_witness:
  "\<exists>s s'. cdrMemoryStream_new (\<lambda>n. 1000) 100 0 False = Inr s \<and>
     marshalULong (ms_ops True (\<lambda>n. 1000)) s 0 = Inr s' \<and>
     (\<exists>s1. NCS_C_8bit_unmarshalString ncs_8859_15 s'
        (Some (TCS_C_8bit False (ms_io True (\<lambda>n. 1000)) (ncs_id ncs_8859_15) [] [])) 0 =
      ebind (TCS_C_8bit_unmarshalString False (ms_io True (\<lambda>n. 1000)) [] s1 0) (\<lambda>(len, us, s2).
      ebind (map_chars (from_char (ncs_fromU ncs_8859_15)) us (unat len + 1)) (\<lambda>str. Inr (len, str, s2))))"
proof -
  obtain s where s: "cdrMemoryStream_new (\<lambda>n. 1000) 100 0 False = Inr s" "at_end s" using at_end_new by blast
  obtain s' where s': "marshalULong (ms_ops True (\<lambda>n. 1000)) s 0 = Inr s'"
    "ms.carries True (\<lambda>n. 1000) s (unmarshalULong (ms_ops True (\<lambda>n. 1000))) 0 s'"
    using ms.marshalULong_carries [of s True "\<lambda>n. 1000" 0] s(2) unfolding at_end_def by blast
  obtain s1 where "unmarshalULong (prim (ms_io True (\<lambda>n. 1000))) s' = Inr (0, s1)"
    using carries_at_end [OF s'(2) s(2)] by auto
  note skipped = zero_length_string_skipped [OF this, of ncs_8859_15 "[]" "[]" 0]
  show ?thesis by (intro exI conjI) (rule s(1), rule s'(1), rule skipped)
qed

end
