(* ===== verification/Wide_Sets.thy ===== *)
theory Wide_Sets
  imports Code_Set_Contract
begin

unbundle bit_operations_syntax

text \<open>
  Wide characters and strings (\<^verbatim>\<open>orbcore/cs-16bit.cc\<close>, \<^verbatim>\<open>orbcore/cs-UTF-16.cc\<close>): the 16-bit code sets
  with their translation tables, and UTF-16 with its byte order marks, each as a native and as a
  transmission code set. \<^verbatim>\<open>SIZEOF_WCHAR\<close> is 4, as \<^verbatim>\<open>CORBA_sysdep_auto.h\<close> finds it on Linux: a native wide
  character is a \<open>32 word\<close>, a Unicode character (\<^verbatim>\<open>UniChar\<close>) a \<open>16 word\<close>.

  \<^verbatim>\<open>declareArrayLength\<close> concerns chunked streams only and is left out. A wide string is the list of its
  characters up to its null, which the model appends where the code reads it.
\<close>

abbreviation "InvalidWCharSize \<equiv> Throw MARSHAL MARSHAL_InvalidWCharSize"
abbreviation "WStringIsTooLong \<equiv> Throw MARSHAL MARSHAL_WStringIsTooLong"
abbreviation "WCharOutOfRange \<equiv> Throw BAD_PARAM BAD_PARAM_WCharOutOfRange"
abbreviation "WCharTCSNotKnown \<equiv> Throw BAD_PARAM BAD_PARAM_WCharTCSNotKnown"

section \<open>The classes\<close>

record ncs_w =
  wncs_id :: "32 word"
  wncs_toU :: "UniChar list list"
  wncs_fromU :: "16 word list list"

record 's tcs_w =
  wtcs_id :: "32 word"
  tcs_marshalWChar :: "'s \<Rightarrow> UniChar \<Rightarrow> 's result"
  tcs_marshalWString :: "'s \<Rightarrow> 32 word \<Rightarrow> 32 word \<Rightarrow> UniChar list \<Rightarrow> 's result"
  tcs_unmarshalWChar :: "'s \<Rightarrow> (UniChar \<times> 's) result"
  tcs_unmarshalWString :: "'s \<Rightarrow> 32 word \<Rightarrow> (32 word \<times> UniChar list \<times> 's) result"
  tcs_fastMarshalWChar :: "'s \<Rightarrow> ncs_w \<Rightarrow> 32 word \<Rightarrow> 's option result"
  tcs_fastMarshalWString :: "'s \<Rightarrow> ncs_w \<Rightarrow> 32 word \<Rightarrow> 32 word \<Rightarrow> 32 word list \<Rightarrow> 's option result"
  tcs_fastUnmarshalWChar :: "'s \<Rightarrow> ncs_w \<Rightarrow> (32 word option \<times> 's) result"
  tcs_fastUnmarshalWString ::
    "'s \<Rightarrow> ncs_w \<Rightarrow> 32 word \<Rightarrow> ((32 word \<times> 32 word list) option \<times> 's) result"

section \<open>Translation\<close>

text \<open>A zero anywhere but at zero means that there is no such character.\<close>

definition wide_char :: "16 word list list \<Rightarrow> 16 word \<Rightarrow> 16 word result" where
  "wide_char table v =
     ebind (from_lookup table v) (\<lambda>u. if v \<noteq> 0 \<and> u = 0 then Inl CannotMap else Inr u)"

text \<open>A \<^verbatim>\<open>wchar_t\<close> has 32 bits and is signed, so the test against \<open>0xffff\<close> lets a negative one through.\<close>

definition narrow :: "32 word \<Rightarrow> 16 word result" where
  "narrow wc = (if 0xffff < sint wc then Inl WCharOutOfRange else Inr (ucast wc))"

section \<open>The native 16-bit code set\<close>

definition NCS_W_16bit_marshalWChar ::
    "ncs_w \<Rightarrow> 's \<Rightarrow> 's tcs_w option \<Rightarrow> 32 word \<Rightarrow> 's result" where
  "NCS_W_16bit_marshalWChar ncs stream tcs wc =
     (case tcs of None \<Rightarrow> Inl WCharTCSNotKnown
      | Some tcs \<Rightarrow> ebind (tcs_fastMarshalWChar tcs stream ncs wc) (\<lambda>r.
          case r of Some stream \<Rightarrow> Inr stream
          | None \<Rightarrow> ebind (narrow wc) (\<lambda>wc. ebind (wide_char (wncs_toU ncs) wc) (\<lambda>uc.
              tcs_marshalWChar tcs stream uc))))"

definition NCS_W_16bit_marshalWString ::
    "ncs_w \<Rightarrow> 's \<Rightarrow> 's tcs_w option \<Rightarrow> 32 word \<Rightarrow> 32 word \<Rightarrow> 32 word list \<Rightarrow> 's result" where
  "NCS_W_16bit_marshalWString ncs stream tcs bound len ws =
     (case tcs of None \<Rightarrow> Inl WCharTCSNotKnown
      | Some tcs \<Rightarrow> ebind (tcs_fastMarshalWString tcs stream ncs bound len ws) (\<lambda>r.
          case r of Some stream \<Rightarrow> Inr stream
          | None \<Rightarrow>
              if bound \<noteq> 0 \<and> bound < len then Inl WStringIsTooLong
              else ebind (map_chars (\<lambda>wc. ebind (narrow wc) (wide_char (wncs_toU ncs))) (ws @ [0]) (unat len + 1)) (\<lambda>us.
                tcs_marshalWString tcs stream bound len us)))"

definition NCS_W_16bit_unmarshalWChar ::
    "ncs_w \<Rightarrow> 's \<Rightarrow> 's tcs_w option \<Rightarrow> (32 word \<times> 's) result" where
  "NCS_W_16bit_unmarshalWChar ncs stream tcs =
     (case tcs of None \<Rightarrow> Inl WCharTCSNotKnown
      | Some tcs \<Rightarrow> ebind (tcs_fastUnmarshalWChar tcs stream ncs) (\<lambda>(r, stream).
          case r of Some wc \<Rightarrow> Inr (wc, stream)
          | None \<Rightarrow> ebind (tcs_unmarshalWChar tcs stream) (\<lambda>(uc, stream).
              ebind (wide_char (wncs_fromU ncs) uc) (\<lambda>wc. Inr (ucast wc, stream)))))"

definition NCS_W_16bit_unmarshalWString ::
    "ncs_w \<Rightarrow> 's \<Rightarrow> 's tcs_w option \<Rightarrow> 32 word \<Rightarrow> (32 word \<times> 32 word list \<times> 's) result" where
  "NCS_W_16bit_unmarshalWString ncs stream tcs bound =
     (case tcs of None \<Rightarrow> Inl WCharTCSNotKnown
      | Some tcs \<Rightarrow> ebind (tcs_fastUnmarshalWString tcs stream ncs bound) (\<lambda>(r, stream).
          case r of Some (len, ws) \<Rightarrow> Inr (len, ws, stream)
          | None \<Rightarrow> ebind (tcs_unmarshalWString tcs stream bound) (\<lambda>(len, us, stream).
              ebind (map_chars (\<lambda>uc. ebind (wide_char (wncs_fromU ncs) uc) (\<lambda>wc. Inr (ucast wc))) us (unat len + 1)) (\<lambda>ws.
              Inr (len, ws, stream)))))"

section \<open>The 16-bit transmission code set\<close>

text \<open>The two octets of a character as they lie in memory, in the order of the stream.\<close>

definition wchar_octets :: "'s str_io \<Rightarrow> bool \<Rightarrow> 16 word \<Rightarrow> 8 word list" where
  "wchar_octets io swap tc =
     (let p = in_memory (host_le (prim io)) 2 tc in if swap then [p ! 1, p ! 0] else [p ! 0, p ! 1])"

definition put_wchar :: "'s str_io \<Rightarrow> 's \<Rightarrow> 16 word \<Rightarrow> 's result" where
  "put_wchar io stream tc =
     ebind (marshalOctet (prim io) stream 2) (\<lambda>stream.
     let os = wchar_octets io (marshal_byte_swap (prim io) stream) tc in
     ebind (marshalOctet (prim io) stream (os ! 0)) (\<lambda>stream. marshalOctet (prim io) stream (os ! 1)))"

definition get_wchar :: "'s str_io \<Rightarrow> 's \<Rightarrow> (16 word \<times> 's) result" where
  "get_wchar io stream =
     ebind (unmarshalOctet (prim io) stream) (\<lambda>(len, stream).
     if len = 0 then Inr (0, stream)
     else if len = 1 then ebind (unmarshalOctet (prim io) stream) (\<lambda>(c, stream). Inr (ucast c, stream))
     else if len = 2 then
       ebind (unmarshalOctet (prim io) stream) (\<lambda>(c, stream).
       ebind (unmarshalOctet (prim io) stream) (\<lambda>(d, stream).
       Inr (from_memory (host_le (prim io))
         (if unmarshal_byte_swap (prim io) stream then [d, c] else [c, d]), stream)))
     else Inl InvalidWCharSize)"

definition TCS_W_16bit_marshalWChar :: "'s str_io \<Rightarrow> 16 word list list \<Rightarrow> 's \<Rightarrow> UniChar \<Rightarrow> 's result" where
  "TCS_W_16bit_marshalWChar io fromU stream uc = ebind (wide_char fromU uc) (put_wchar io stream)"

definition TCS_W_16bit_unmarshalWChar :: "'s str_io \<Rightarrow> UniChar list list \<Rightarrow> 's \<Rightarrow> (UniChar \<times> 's) result" where
  "TCS_W_16bit_unmarshalWChar io toU stream =
     ebind (get_wchar io stream) (\<lambda>(tc, stream). ebind (wide_char toU tc) (\<lambda>uc. Inr (uc, stream)))"

text \<open>The loops over the characters of a string, each translated by \<open>f\<close>.\<close>

fun marshal_wchars :: "'s str_io \<Rightarrow> ('a \<Rightarrow> 16 word result) \<Rightarrow> 's \<Rightarrow> 'a list \<Rightarrow> nat \<Rightarrow> 's result" where
  "marshal_wchars io f stream us 0 = Inr stream"
| "marshal_wchars io f stream [] (Suc n) = Inl Undefined"
| "marshal_wchars io f stream (uc # us) (Suc n) =
     ebind (f uc) (\<lambda>tc. ebind (marshalUShort (prim io) stream tc) (\<lambda>stream. marshal_wchars io f stream us n))"

fun unmarshal_wchars :: "'s str_io \<Rightarrow> (16 word \<Rightarrow> 'a result) \<Rightarrow> 's \<Rightarrow> nat \<Rightarrow> ('a list \<times> 's) result" where
  "unmarshal_wchars io f stream 0 = Inr ([], stream)"
| "unmarshal_wchars io f stream (Suc n) =
     ebind (unmarshalUShort (prim io) stream) (\<lambda>(tc, stream). ebind (f tc) (\<lambda>uc.
     ebind (unmarshal_wchars io f stream n) (\<lambda>(us, stream). Inr (uc # us, stream))))"

definition TCS_W_16bit_marshalWString ::
    "'s str_io \<Rightarrow> 16 word list list \<Rightarrow> 's \<Rightarrow> 32 word \<Rightarrow> 32 word \<Rightarrow> UniChar list \<Rightarrow> 's result" where
  "TCS_W_16bit_marshalWString io fromU stream bound len us =
     ebind (marshalULong (prim io) stream (len * 2)) (\<lambda>stream.
     marshal_wchars io (wide_char fromU) stream us (unat len))"

text \<open>The length in octets that starts a wide string, with its checks: the number of characters.\<close>

definition wstring_length :: "'s str_io \<Rightarrow> 's \<Rightarrow> 32 word \<Rightarrow> (32 word \<times> 's) result" where
  "wstring_length io stream bound =
     ebind (unmarshalULong (prim io) stream) (\<lambda>(mlen, stream).
     if mlen mod 2 \<noteq> 0 then Inl InvalidWCharSize
     else if bound \<noteq> 0 \<and> bound < mlen div 2 then Inl WStringIsTooLong
     else let (ok, stream) = overrun io stream 1 mlen 1 in
          if \<not> ok then Inl PassEndOfMessage else Inr (mlen div 2, stream))"

definition TCS_W_16bit_unmarshalWString ::
    "'s str_io \<Rightarrow> UniChar list list \<Rightarrow> 's \<Rightarrow> 32 word \<Rightarrow> (32 word \<times> UniChar list \<times> 's) result" where
  "TCS_W_16bit_unmarshalWString io toU stream bound =
     ebind (wstring_length io stream bound) (\<lambda>(len, stream).
     ebind (unmarshal_wchars io (wide_char toU) stream (unat len)) (\<lambda>(us, stream).
     Inr (len, us @ [0], stream)))"

definition TCS_W_16bit_fastMarshalWChar ::
    "'s str_io \<Rightarrow> 32 word \<Rightarrow> 's \<Rightarrow> ncs_w \<Rightarrow> 32 word \<Rightarrow> 's option result" where
  "TCS_W_16bit_fastMarshalWChar io id0 stream ncs wc =
     (if wncs_id ncs = id0 then
        ebind (narrow wc) (\<lambda>tc. ebind (put_wchar io stream tc) (\<lambda>stream. Inr (Some stream)))
      else Inr None)"

text \<open>The null transformation does not check that the characters have 16 bits.\<close>

definition TCS_W_16bit_fastMarshalWString ::
    "'s str_io \<Rightarrow> 32 word \<Rightarrow> 's \<Rightarrow> ncs_w \<Rightarrow> 32 word \<Rightarrow> 32 word \<Rightarrow> 32 word list \<Rightarrow> 's option result" where
  "TCS_W_16bit_fastMarshalWString io id0 stream ncs bound len ws =
     (if wncs_id ncs = id0 then
        (if bound \<noteq> 0 \<and> bound < len then Inl WStringIsTooLong
         else ebind (marshalULong (prim io) stream (len * 2)) (\<lambda>stream.
              ebind (marshal_wchars io (\<lambda>wc. Inr (ucast wc)) stream ws (unat len)) (\<lambda>stream. Inr (Some stream))))
      else Inr None)"

definition TCS_W_16bit_fastUnmarshalWChar ::
    "'s str_io \<Rightarrow> 32 word \<Rightarrow> 's \<Rightarrow> ncs_w \<Rightarrow> (32 word option \<times> 's) result" where
  "TCS_W_16bit_fastUnmarshalWChar io id0 stream ncs =
     (if wncs_id ncs = id0 then ebind (get_wchar io stream) (\<lambda>(tc, stream). Inr (Some (ucast tc), stream))
      else Inr (None, stream))"

definition TCS_W_16bit_fastUnmarshalWString ::
    "'s str_io \<Rightarrow> 32 word \<Rightarrow> 's \<Rightarrow> ncs_w \<Rightarrow> 32 word \<Rightarrow> ((32 word \<times> 32 word list) option \<times> 's) result" where
  "TCS_W_16bit_fastUnmarshalWString io id0 stream ncs bound =
     (if wncs_id ncs = id0 then
        ebind (wstring_length io stream bound) (\<lambda>(len, stream).
        ebind (unmarshal_wchars io (\<lambda>tc. Inr (ucast tc)) stream (unat len)) (\<lambda>(ws, stream).
        Inr (Some (len, ws @ [0]), stream)))
      else Inr (None, stream))"

definition TCS_W_16bit ::
    "'s str_io \<Rightarrow> 32 word \<Rightarrow> UniChar list list \<Rightarrow> 16 word list list \<Rightarrow> 's tcs_w" where
  "TCS_W_16bit io id0 toU fromU =
     \<lparr>wtcs_id = id0,
      tcs_marshalWChar = TCS_W_16bit_marshalWChar io fromU,
      tcs_marshalWString = TCS_W_16bit_marshalWString io fromU,
      tcs_unmarshalWChar = TCS_W_16bit_unmarshalWChar io toU,
      tcs_unmarshalWString = TCS_W_16bit_unmarshalWString io toU,
      tcs_fastMarshalWChar = TCS_W_16bit_fastMarshalWChar io id0,
      tcs_fastMarshalWString = TCS_W_16bit_fastMarshalWString io id0,
      tcs_fastUnmarshalWChar = TCS_W_16bit_fastUnmarshalWChar io id0,
      tcs_fastUnmarshalWString = TCS_W_16bit_fastUnmarshalWString io id0\<rparr>"

section \<open>UTF-16\<close>

definition ID_UTF_16 :: "32 word" where
  "ID_UTF_16 = 0x00010109"

definition NCS_W_UTF_16_marshalWChar :: "ncs_w \<Rightarrow> 's \<Rightarrow> 's tcs_w option \<Rightarrow> 32 word \<Rightarrow> 's result" where
  "NCS_W_UTF_16_marshalWChar ncs stream tcs wc =
     (case tcs of None \<Rightarrow> Inl WCharTCSNotKnown
      | Some tcs \<Rightarrow> ebind (tcs_fastMarshalWChar tcs stream ncs wc) (\<lambda>r.
          case r of Some stream \<Rightarrow> Inr stream
          | None \<Rightarrow> ebind (narrow wc) (tcs_marshalWChar tcs stream)))"

definition NCS_W_UTF_16_marshalWString ::
    "ncs_w \<Rightarrow> 's \<Rightarrow> 's tcs_w option \<Rightarrow> 32 word \<Rightarrow> 32 word \<Rightarrow> 32 word list \<Rightarrow> 's result" where
  "NCS_W_UTF_16_marshalWString ncs stream tcs bound len ws =
     (case tcs of None \<Rightarrow> Inl WCharTCSNotKnown
      | Some tcs \<Rightarrow> ebind (tcs_fastMarshalWString tcs stream ncs bound len ws) (\<lambda>r.
          case r of Some stream \<Rightarrow> Inr stream
          | None \<Rightarrow>
              if bound \<noteq> 0 \<and> bound < len then Inl WStringIsTooLong
              else ebind (map_chars narrow (ws @ [0]) (unat len + 1)) (\<lambda>us.
                tcs_marshalWString tcs stream bound len us)))"

definition NCS_W_UTF_16_unmarshalWChar :: "ncs_w \<Rightarrow> 's \<Rightarrow> 's tcs_w option \<Rightarrow> (32 word \<times> 's) result" where
  "NCS_W_UTF_16_unmarshalWChar ncs stream tcs =
     (case tcs of None \<Rightarrow> Inl WCharTCSNotKnown
      | Some tcs \<Rightarrow> ebind (tcs_fastUnmarshalWChar tcs stream ncs) (\<lambda>(r, stream).
          case r of Some wc \<Rightarrow> Inr (wc, stream)
          | None \<Rightarrow> ebind (tcs_unmarshalWChar tcs stream) (\<lambda>(uc, stream). Inr (ucast uc, stream))))"

definition NCS_W_UTF_16_unmarshalWString ::
    "ncs_w \<Rightarrow> 's \<Rightarrow> 's tcs_w option \<Rightarrow> 32 word \<Rightarrow> (32 word \<times> 32 word list \<times> 's) result" where
  "NCS_W_UTF_16_unmarshalWString ncs stream tcs bound =
     (case tcs of None \<Rightarrow> Inl WCharTCSNotKnown
      | Some tcs \<Rightarrow> ebind (tcs_fastUnmarshalWString tcs stream ncs bound) (\<lambda>(r, stream).
          case r of Some (len, ws) \<Rightarrow> Inr (len, ws, stream)
          | None \<Rightarrow> ebind (tcs_unmarshalWString tcs stream bound) (\<lambda>(len, us, stream).
              ebind (map_chars (\<lambda>uc. Inr (ucast uc)) us (unat len + 1)) (\<lambda>ws. Inr (len, ws, stream)))))"

text \<open>Two octets make a character, the high octet first.\<close>

definition get_big_endian :: "'s str_io \<Rightarrow> 's \<Rightarrow> (16 word \<times> 's) result" where
  "get_big_endian io stream =
     ebind (unmarshalOctet (prim io) stream) (\<lambda>(c, stream).
     ebind (unmarshalOctet (prim io) stream) (\<lambda>(d, stream).
     Inr (push_bit 8 (ucast c) OR ucast d, stream)))"

definition get_little_endian :: "'s str_io \<Rightarrow> 's \<Rightarrow> (16 word \<times> 's) result" where
  "get_little_endian io stream =
     ebind (unmarshalOctet (prim io) stream) (\<lambda>(c, stream).
     ebind (unmarshalOctet (prim io) stream) (\<lambda>(d, stream).
     Inr (ucast c OR push_bit 8 (ucast d), stream)))"

definition TCS_W_UTF_16_marshalWChar :: "'s str_io \<Rightarrow> 's \<Rightarrow> UniChar \<Rightarrow> 's result" where
  "TCS_W_UTF_16_marshalWChar io stream uc =
     ebind (marshalOctet (prim io) stream 2) (\<lambda>stream.
     ebind (marshalOctet (prim io) stream (ucast (drop_bit 8 (uc AND 0xff00)))) (\<lambda>stream.
     marshalOctet (prim io) stream (ucast (uc AND 0x00ff))))"

definition TCS_W_UTF_16_unmarshalWChar :: "'s str_io \<Rightarrow> 's \<Rightarrow> (UniChar \<times> 's) result" where
  "TCS_W_UTF_16_unmarshalWChar io stream =
     ebind (unmarshalOctet (prim io) stream) (\<lambda>(c, stream).
     if c = 2 then get_big_endian io stream
     else if c = 4 then
       ebind (get_big_endian io stream) (\<lambda>(uc, stream).
       if uc = 0xfeff then get_big_endian io stream
       else if uc = 0xfffe then get_little_endian io stream
       else Inl WCharOutOfRange)
     else Inl InvalidWCharSize)"

text \<open>An array of characters as it lies in memory, and back.\<close>

definition wide_octets :: "'s str_io \<Rightarrow> UniChar list \<Rightarrow> 8 word list" where
  "wide_octets io us = concat (map (in_memory (host_le (prim io)) 2) us)"

fun of_wide_octets :: "'s str_io \<Rightarrow> 8 word list \<Rightarrow> UniChar list" where
  "of_wide_octets io (c # d # bs) = from_memory (host_le (prim io)) [c, d] # of_wide_octets io bs"
| "of_wide_octets io bs = []"

definition TCS_W_UTF_16_marshalWString ::
    "'s str_io \<Rightarrow> 's \<Rightarrow> 32 word \<Rightarrow> 32 word \<Rightarrow> UniChar list \<Rightarrow> 's result" where
  "TCS_W_UTF_16_marshalWString io stream bound len us =
     (if len = 0 then marshalULong (prim io) stream 0
      else let mlen = (len + 1) * 2 in
        ebind (marshalULong (prim io) stream mlen) (\<lambda>stream.
        ebind (marshalUShort (prim io) stream (if marshal_byte_swap (prim io) stream then 0xfffe else 0xfeff)) (\<lambda>stream.
        if length (wide_octets io us) < unat (mlen - 2) then Inl Undefined
        else put_octet_array (prim io) stream (take (unat (mlen - 2)) (wide_octets io us)) 2)))"

text \<open>\<^verbatim>\<open>cdrStream::unmarshalArrayUShort\<close>\<close>

definition unmarshalArrayUShort :: "'s str_io \<Rightarrow> 's \<Rightarrow> nat \<Rightarrow> (UniChar list \<times> 's) result" where
  "unmarshalArrayUShort io stream n =
     ebind (get_octet_array (prim io) stream (n * 2) 2) (\<lambda>(bs, stream).
     Inr (map (if unmarshal_byte_swap (prim io) stream then byteSwap16 else (\<lambda>v. v)) (of_wide_octets io bs), stream))"

definition too_long :: "32 word \<Rightarrow> 32 word \<Rightarrow> unit result" where
  "too_long bound len = (if bound \<noteq> 0 \<and> bound < len then Inl WStringIsTooLong else Inr ())"

definition TCS_W_UTF_16_unmarshalWString ::
    "'s str_io \<Rightarrow> 's \<Rightarrow> 32 word \<Rightarrow> (32 word \<times> UniChar list \<times> 's) result" where
  "TCS_W_UTF_16_unmarshalWString io stream bound =
     ebind (wstring_length io stream 0) (\<lambda>(len, stream).
     if len = 0 then Inr (0, [0], stream)
     else ebind (unmarshalUShort (prim io) stream) (\<lambda>(uc, stream).
       if uc = 0xfeff then
         ebind (too_long bound (len - 1)) (\<lambda>_.
         ebind (unmarshalArrayUShort io stream (unat (len - 1))) (\<lambda>(us, stream).
         Inr (len - 1, us @ [0], stream)))
       else if uc = 0xfffe then
         ebind (too_long bound (len - 1)) (\<lambda>_.
         ebind (get_octet_array (prim io) stream (unat (len - 1) * 2) 2) (\<lambda>(bs, stream).
         Inr (len - 1, map (if unmarshal_byte_swap (prim io) stream then (\<lambda>v. v) else byteSwap16) (of_wide_octets io bs) @ [0],
              stream)))
       else
         ebind (too_long bound len) (\<lambda>_.
         let uc = (if unmarshal_byte_swap (prim io) stream then byteSwap16 uc else uc) in
         ebind (get_octet_array (prim io) stream ((unat len - 1) * 2) 2) (\<lambda>(bs, stream).
         Inr (len, map (if host_le (prim io) then byteSwap16 else (\<lambda>v. v)) (uc # of_wide_octets io bs) @ [0], stream)))))"

definition TCS_W_UTF_16 :: "'s str_io \<Rightarrow> 's tcs_w" where
  "TCS_W_UTF_16 io =
     \<lparr>wtcs_id = ID_UTF_16,
      tcs_marshalWChar = TCS_W_UTF_16_marshalWChar io,
      tcs_marshalWString = TCS_W_UTF_16_marshalWString io,
      tcs_unmarshalWChar = TCS_W_UTF_16_unmarshalWChar io,
      tcs_unmarshalWString = TCS_W_UTF_16_unmarshalWString io,
      tcs_fastMarshalWChar = (\<lambda>stream ncs c. Inr None),
      tcs_fastMarshalWString = (\<lambda>stream ncs bound len s. Inr None),
      tcs_fastUnmarshalWChar = (\<lambda>stream ncs. Inr (None, stream)),
      tcs_fastUnmarshalWString = (\<lambda>stream ncs bound. Inr (None, stream))\<rparr>"

end
