(* ===== verification/Wide_Contract.thy ===== *)
theory Wide_Contract
  imports Wide_Sets
begin

unbundle bit_operations_syntax

text \<open>
  What a native wide code set relies on in a transmission code set, as a locale, and the 16-bit and
  UTF-16 transmission code sets that meet it.
\<close>

section \<open>Streams\<close>

context str_stream
begin

lemma carries_sinv: "carries s r v s' \<Longrightarrow> sinv s'"
  by (simp add: carries_def)

text \<open>The overrun check in front of a reader that reads enough.\<close>

lemma carries_overrun:
  assumes c: "carries s r v s'" and n: "length (out s) + unat n \<le> length (out s')"
  shows "carries s (\<lambda>t. let (ok, t) = overrun io t 1 n 1 in if \<not> ok then Inl err else r t) v s'"
  unfolding carries_def
proof (intro conjI allI impI)
  show "sinv s'" "pos s' = pos s" "flags_kept (prim io) s s'" "\<exists>ext. out s' = out s @ ext"
    using c by (simp_all add: carries_def)
  fix t rest
  assume t: "sinv t \<and> out t = out s' @ rest \<and> pos t = length (out s) \<and>
    unmarshal_byte_swap (prim io) t = marshal_byte_swap (prim io) s"
  then have "pos t + unat n \<le> length (out t)" using n by simp
  from overrun_ok [OF _ this] t obtain t1 where t1: "overrun io t 1 n 1 = (True, t1)" "reads t (pos t) t1" by blast
  then have "sinv t1 \<and> out t1 = out s' @ rest \<and> pos t1 = length (out s) \<and>
    unmarshal_byte_swap (prim io) t1 = marshal_byte_swap (prim io) s"
    using t by (simp add: reads_def flags_kept_def)
  with c obtain t2 where t2: "r t1 = Inr (v, t2)" "reads t1 (length (out s')) t2" unfolding carries_def by blast
  have "reads t (length (out s')) t2" by (rule reads_trans [OF t1(2) t2(2)])
  with t1(1) t2(1) show "\<exists>t'. (let (ok, t) = overrun io t 1 n 1 in if \<not> ok then Inl err else r t) = Inr (v, t') \<and>
      reads t (length (out s')) t'" by simp
qed

text \<open>\<open>grows s s' n\<close>: at least \<open>n\<close> octets have been written.\<close>

definition grows :: "'s \<Rightarrow> 's \<Rightarrow> nat \<Rightarrow> bool" where
  "grows s s' n \<longleftrightarrow> length (out s) + n \<le> length (out s')"

lemma marshalUShort_grows:
  assumes "sinv s"
  shows "\<exists>s'. marshalUShort (prim io) s v = Inr s' \<and> carries s (unmarshalUShort (prim io)) v s' \<and> grows s s' 2 \<and>
    flags_kept (prim io) s s'"
proof -
  obtain s' where s': "marshalUShort (prim io) s v = Inr s'" "carries s (unmarshalUShort (prim io)) v s'"
    using marshalUShort_carries [OF assms] by blast
  obtain s'' where "marshalUShort (prim io) s v = Inr s''"
      "wrote s 2 (in_memory (host_le (prim io)) 2 (if marshal_byte_swap (prim io) s then byteSwap16 v else v)) s''"
    using put_prim_wrote [OF assms, of "in_memory (host_le (prim io)) 2 (if marshal_byte_swap (prim io) s then byteSwap16 v else v)"]
    by (auto simp: marshalUShort_def)
  then show ?thesis using s' by (auto simp: wrote_def grows_def)
qed

lemma put_array_grows:
  assumes "sinv s" and "alignment a"
  shows "\<exists>s'. put_octet_array (prim io) s bs a = Inr s' \<and>
    carries s (\<lambda>t. get_octet_array (prim io) t (length bs) a) bs s' \<and> grows s s' (length bs) \<and> flags_kept (prim io) s s'"
proof -
  obtain s' where "put_octet_array (prim io) s bs a = Inr s'" "wrote s a bs s'"
    using put_array_wrote [OF assms] by blast
  moreover obtain s'' where "put_octet_array (prim io) s bs a = Inr s''"
    "carries s (\<lambda>t. get_octet_array (prim io) t (length bs) a) bs s''" using put_array_carries [OF assms] by blast
  ultimately show ?thesis by (auto simp: wrote_def grows_def)
qed

text \<open>A list of 16-bit characters, written through \<open>f\<close> and read back through \<open>g\<close>.\<close>

lemma marshal_wchars_carries:
  assumes "sinv s" and "\<forall>u \<in> set us. \<exists>c. f u = Inr c \<and> g c = Inr (h u)"
  shows "\<exists>s'. marshal_wchars io f s (us @ rest) (length us) = Inr s' \<and>
    carries s (\<lambda>t. unmarshal_wchars io g t (length us)) (map h us) s' \<and> grows s s' (2 * length us)"
  using assms
proof (induction us arbitrary: s)
  case Nil
  then show ?case using carries_nothing by (auto simp: grows_def)
next
  case (Cons u us)
  obtain c where c: "f u = Inr c" "g c = Inr (h u)" using Cons.prems(2) by auto
  obtain s1 where s1: "marshalUShort (prim io) s c = Inr s1" "carries s (unmarshalUShort (prim io)) c s1" "grows s s1 2"
    using marshalUShort_grows [OF Cons.prems(1)] by blast
  from Cons.IH [OF carries_sinv [OF s1(2)]] Cons.prems(2) obtain s2
    where s2: "marshal_wchars io f s1 (us @ rest) (length us) = Inr s2"
      "carries s1 (\<lambda>t. unmarshal_wchars io g t (length us)) (map h us) s2" "grows s1 s2 (2 * length us)" by auto
  have "carries s (\<lambda>t. unmarshal_wchars io g t (length (u # us))) (map h (u # us)) s2"
    by (rule carries_seq [OF s1(2) s2(2)]) (use c in simp)
  moreover have "grows s s2 (2 * length (u # us))" using s1(3) s2(3) by (simp add: grows_def)
  ultimately show ?case using c s1(1) s2(1) by auto
qed

text \<open>The length in octets, and what follows it.\<close>

lemma wstring_carries:
  assumes w: "sinv s" and n: "2 * n < 2 ^ 32" and b: "bound = 0 \<or> n \<le> unat bound"
    and body: "\<And>s1. sinv s1 \<Longrightarrow> marshal_byte_swap (prim io) s1 = marshal_byte_swap (prim io) s \<Longrightarrow>
      \<exists>s2. put s1 = Inr s2 \<and> carries s1 r v s2 \<and> grows s1 s2 (2 * n)"
  shows "\<exists>s1 s2. marshalULong (prim io) s (of_nat n * 2) = Inr s1 \<and> put s1 = Inr s2 \<and>
    marshal_byte_swap (prim io) s1 = marshal_byte_swap (prim io) s \<and>
    carries s (\<lambda>t. ebind (wstring_length io t bound) (\<lambda>(len, t). if len = of_nat n then r t else Inl Undefined)) v s2"
proof -
  let ?m = "of_nat n * 2 :: 32 word"
  have m: "unat ?m = 2 * n" using n by (simp add: unat_word_ariths unat_of_nat)
  have even: "?m mod 2 = 0" by (rule word_unat_eq_iff [THEN iffD2]) (simp add: unat_mod m)
  have half: "?m div 2 = of_nat n" by (rule word_unat_eq_iff [THEN iffD2]) (use n m in \<open>simp add: unat_div unat_of_nat\<close>)
  have short: "\<not> (bound \<noteq> 0 \<and> bound < of_nat n)"
    using b n by (auto simp: word_less_nat_alt unat_of_nat)
  obtain s1 where s1: "marshalULong (prim io) s ?m = Inr s1" "carries s (unmarshalULong (prim io)) ?m s1"
    using marshalULong_carries [OF w] by blast
  have fl: "marshal_byte_swap (prim io) s1 = marshal_byte_swap (prim io) s"
    using s1(2) by (simp add: carries_def flags_kept_def)
  obtain s2 where s2: "put s1 = Inr s2" "carries s1 r v s2" "grows s1 s2 (2 * n)"
    using body [OF carries_sinv [OF s1(2)] fl] by blast
  have "length (out s1) + unat ?m \<le> length (out s2)" using s2(3) m by (simp add: grows_def)
  from carries_overrun [OF s2(2) this] have
    c: "carries s1 (\<lambda>t. let (ok, t) = overrun io t 1 ?m 1 in if \<not> ok then Inl PassEndOfMessage else r t) v s2" .
  have "carries s (\<lambda>t. ebind (wstring_length io t bound) (\<lambda>(len, t). if len = of_nat n then r t else Inl Undefined)) v s2"
  proof (rule carries_seq [OF s1(2) c])
    fix t t1 t2
    assume u: "unmarshalULong (prim io) t = Inr (?m, t1)"
      and o: "(let (ok, t) = overrun io t1 1 ?m 1 in if \<not> ok then Inl PassEndOfMessage else r t) = Inr (v, t2)"
    then obtain t' where "overrun io t1 1 ?m 1 = (True, t')" "r t' = Inr (v, t2)"
      by (auto split: prod.splits if_splits)
    then show "ebind (wstring_length io t bound) (\<lambda>(len, t). if len = of_nat n then r t else Inl Undefined) = Inr (v, t2)"
      using u even half short by (simp add: wstring_length_def)
  qed
  with s1(1) s2(1) fl show ?thesis by blast
qed

end

section \<open>The contract\<close>

locale tcs_w_contract = str_stream io sinv out pos
  for io :: "'s str_io" and sinv out pos +
  fixes tcs :: "'s tcs_w"
    and fits :: "32 word \<Rightarrow> UniChar list \<Rightarrow> bool"
    and slow :: "ncs_w \<Rightarrow> bool"
    and quick :: "ncs_w \<Rightarrow> 32 word \<Rightarrow> 32 word list \<Rightarrow> bool"
  assumes unicode: "sinv s \<Longrightarrow> fits bound us \<Longrightarrow>
      \<exists>s'. tcs_marshalWString tcs s bound (of_nat (length us)) (us @ [0]) = Inr s' \<and>
        carries s (\<lambda>t. assoc3 (tcs_unmarshalWString tcs t bound)) (of_nat (length us), us @ [0]) s'"
    and fits_length: "fits bound us \<Longrightarrow> in_bound bound (length us)"
    and slow_marshal: "slow ncs \<Longrightarrow> tcs_fastMarshalWString tcs s ncs bound len str = Inr None"
    and slow_unmarshal: "slow ncs \<Longrightarrow> tcs_fastUnmarshalWString tcs s ncs bound = Inr (None, s)"
    and quick_carries: "sinv s \<Longrightarrow> quick ncs bound str \<Longrightarrow>
      \<exists>s'. tcs_fastMarshalWString tcs s ncs bound (of_nat (length str)) str = Inr (Some s') \<and>
        carries s (\<lambda>t. tcs_fastUnmarshalWString tcs t ncs bound) (Some (of_nat (length str), str @ [0])) s'"

text \<open>Character by character through the tables of a native set and back.\<close>

definition wide_translates :: "ncs_w \<Rightarrow> 32 word list \<Rightarrow> UniChar list \<Rightarrow> bool" where
  "wide_translates ncs str us \<longleftrightarrow>
     list_all2 (\<lambda>c u. ebind (narrow c) (wide_char (wncs_toU ncs)) = Inr u \<and>
         ebind (wide_char (wncs_fromU ncs) u) (\<lambda>w. Inr (ucast w)) = Inr c) (str @ [0]) (us @ [0])"

lemma wide_translates_maps:
  assumes "wide_translates ncs str us"
  shows "map_chars (\<lambda>wc. ebind (narrow wc) (wide_char (wncs_toU ncs))) (str @ [0]) (length str + 1) = Inr (us @ [0])"
    and "map_chars (\<lambda>uc. ebind (wide_char (wncs_fromU ncs) uc) (\<lambda>w. Inr (ucast w))) (us @ [0]) (length us + 1) = Inr (str @ [0])"
    and "length us = length str"
proof -
  have "list_all2 (\<lambda>c u. ebind (narrow c) (wide_char (wncs_toU ncs)) = Inr u) (str @ [0]) (us @ [0])"
    using assms unfolding wide_translates_def by (rule list_all2_mono) simp
  then show "map_chars (\<lambda>wc. ebind (narrow wc) (wide_char (wncs_toU ncs))) (str @ [0]) (length str + 1) = Inr (us @ [0])"
    by (rule map_chars_all2) simp
  have "list_all2 (\<lambda>u c. ebind (wide_char (wncs_fromU ncs) u) (\<lambda>w. Inr (ucast w)) = Inr c) (us @ [0]) (str @ [0])"
    using assms unfolding wide_translates_def by (subst list_all2_conv_all_nth) (auto simp: list_all2_conv_all_nth)
  then show "map_chars (\<lambda>uc. ebind (wide_char (wncs_fromU ncs) uc) (\<lambda>w. Inr (ucast w))) (us @ [0]) (length us + 1) = Inr (str @ [0])"
    by (rule map_chars_all2) simp
  show "length us = length str" using assms by (auto simp: wide_translates_def dest: list_all2_lengthD)
qed

lemma narrow_maps:
  assumes "\<forall>c \<in> set str. c \<le> (0xffff :: 32 word)"
  shows "map_chars narrow (str @ [0]) (length str + 1) = Inr (map ucast str @ [0])"
    and "map_chars (\<lambda>uc :: 16 word. Inr (ucast uc)) (map ucast str @ [0]) (length str + 1) = Inr (str @ [0])"
proof -
  have "\<not> 0xffff < sint c" if "c \<le> (0xffff :: 32 word)" for c
  proof -
    have u: "uint c \<le> 0xffff" using that by (simp add: word_le_def)
    then have "sint c = uint c"
      unfolding sint_uint by (intro signed_take_bit_int_eq_self) (simp_all add: order_trans [OF _ unsigned_greater_eq])
    then show ?thesis using u by simp
  qed
  then have "list_all2 (\<lambda>c u. narrow c = Inr u) (str @ [0]) (map ucast str @ [0])"
    by (intro list_all2_appendI) (use assms in \<open>auto simp: list.rel_map list_all2_same narrow_def\<close>)
  then show "map_chars narrow (str @ [0]) (length str + 1) = Inr (map ucast str @ [0])"
    by (rule map_chars_all2) simp
  have "ucast (ucast c :: 16 word) = c" if "c \<le> 0xffff" for c :: "32 word"
    using that by (simp add: word_unat_eq_iff word_le_nat_alt unsigned_ucast_eq unsigned_take_bit_eq take_bit_nat_eq_self)
  then have "list_all2 (\<lambda>u c. (Inr (ucast (u :: 16 word)) :: 32 word result) = Inr c) (map ucast str @ [0]) (str @ [0])"
    by (intro list_all2_appendI) (use assms in \<open>auto simp: list.rel_map list_all2_same\<close>)
  then show "map_chars (\<lambda>uc :: 16 word. Inr (ucast uc)) (map ucast str @ [0]) (length str + 1) = Inr (str @ [0])"
    by (rule map_chars_all2) simp
qed

context tcs_w_contract
begin

lemma NCS_W_16bit_quick:
  assumes s: "sinv s" and q: "quick ncs bound str"
  shows "\<exists>s'. NCS_W_16bit_marshalWString ncs s (Some tcs) bound (of_nat (length str)) str = Inr s' \<and>
    carries s (\<lambda>t. assoc3 (NCS_W_16bit_unmarshalWString ncs t (Some tcs) bound)) (of_nat (length str), str @ [0]) s'"
proof -
  obtain s' where m: "tcs_fastMarshalWString tcs s ncs bound (of_nat (length str)) str = Inr (Some s')"
    and c: "carries s (\<lambda>t. tcs_fastUnmarshalWString tcs t ncs bound) (Some (of_nat (length str), str @ [0])) s'"
    using quick_carries [OF s q] by blast
  have "carries s (\<lambda>t. assoc3 (NCS_W_16bit_unmarshalWString ncs t (Some tcs) bound)) (of_nat (length str), str @ [0]) s'"
    by (rule carries_map [OF c]) (simp add: NCS_W_16bit_unmarshalWString_def)
  then show ?thesis using m by (simp add: NCS_W_16bit_marshalWString_def)
qed

text \<open>Through Unicode, with the translation of the native set.\<close>

lemma through_unicode:
  assumes s: "sinv s" and fit: "fits bound us" and l: "length us = length str"
    and r: "\<And>t t'. tcs_unmarshalWString tcs t bound = Inr (of_nat (length us), us @ [0], t') \<Longrightarrow>
      r t = Inr (of_nat (length str), str @ [0], t')"
  shows "\<exists>s'. tcs_marshalWString tcs s bound (of_nat (length str)) (us @ [0]) = Inr s' \<and>
    carries s (\<lambda>t. assoc3 (r t)) (of_nat (length str), str @ [0]) s'"
proof -
  obtain s' where m: "tcs_marshalWString tcs s bound (of_nat (length us)) (us @ [0]) = Inr s'"
    and c: "carries s (\<lambda>t. assoc3 (tcs_unmarshalWString tcs t bound)) (of_nat (length us), us @ [0]) s'"
    using unicode [OF s fit] by blast
  have "carries s (\<lambda>t. assoc3 (r t)) (of_nat (length str), str @ [0]) s'"
    by (rule carries_map [OF c]) (auto simp: assoc3_eq_Inr dest: r)
  with m l show ?thesis by auto
qed

lemma NCS_W_16bit_slow:
  assumes s: "sinv s" and sl: "slow ncs" and tr: "wide_translates ncs str us" and fit: "fits bound us"
  shows "\<exists>s'. NCS_W_16bit_marshalWString ncs s (Some tcs) bound (of_nat (length str)) str = Inr s' \<and>
    carries s (\<lambda>t. assoc3 (NCS_W_16bit_unmarshalWString ncs t (Some tcs) bound)) (of_nat (length str), str @ [0]) s'"
proof -
  note l = wide_translates_maps(3) [OF tr]
  note b = in_bound_word(1,2) [OF fits_length [OF fit], unfolded l]
  have "\<exists>s'. tcs_marshalWString tcs s bound (of_nat (length str)) (us @ [0]) = Inr s' \<and>
      carries s (\<lambda>t. assoc3 (NCS_W_16bit_unmarshalWString ncs t (Some tcs) bound)) (of_nat (length str), str @ [0]) s'"
    by (rule through_unicode [OF s fit l])
      (use wide_translates_maps(2) [OF tr] b l in \<open>simp add: NCS_W_16bit_unmarshalWString_def slow_unmarshal [OF sl]\<close>)
  then show ?thesis
    using wide_translates_maps(1) [OF tr] b by (auto simp: NCS_W_16bit_marshalWString_def slow_marshal [OF sl])
qed

lemma NCS_W_UTF_16_slow:
  assumes s: "sinv s" and sl: "slow ncs" and ch: "\<forall>c \<in> set str. c \<le> 0xffff" and fit: "fits bound (map ucast str)"
  shows "\<exists>s'. NCS_W_UTF_16_marshalWString ncs s (Some tcs) bound (of_nat (length str)) str = Inr s' \<and>
    carries s (\<lambda>t. assoc3 (NCS_W_UTF_16_unmarshalWString ncs t (Some tcs) bound)) (of_nat (length str), str @ [0]) s'"
proof -
  note b = in_bound_word(1,2) [OF fits_length [OF fit], unfolded length_map]
  have "\<exists>s'. tcs_marshalWString tcs s bound (of_nat (length str)) (map ucast str @ [0]) = Inr s' \<and>
      carries s (\<lambda>t. assoc3 (NCS_W_UTF_16_unmarshalWString ncs t (Some tcs) bound)) (of_nat (length str), str @ [0]) s'"
    by (rule through_unicode [OF s fit length_map])
      (use narrow_maps(2) [OF ch] b in \<open>simp add: NCS_W_UTF_16_unmarshalWString_def slow_unmarshal [OF sl]\<close>)
  then show ?thesis
    using narrow_maps(1) [OF ch] b by (auto simp: NCS_W_UTF_16_marshalWString_def slow_marshal [OF sl])
qed

end

end
