(* ===== verification/Wide_Claims.thy ===== *)
theory Wide_Claims
  imports Wide_Contract
begin

unbundle bit_operations_syntax

text \<open>
  The 16-bit and the UTF-16 transmission code sets meet the contract, and wide characters and strings
  come back as they were sent.
\<close>

section \<open>Arrays of characters\<close>

lemma length_two: "length xs = 2 \<Longrightarrow> \<exists>c d. xs = [c, d]"
  by (auto simp: length_Suc_conv numeral_2_eq_2)

lemma of_wide_octets_inverse: "of_wide_octets io (wide_octets io us) = us"
proof (induction us)
  case (Cons u us)
  obtain c d where cd: "in_memory (host_le (prim io)) 2 u = [c, d]"
    using length_two [OF in_memory_length] by blast
  have "from_memory (host_le (prim io)) (in_memory (host_le (prim io)) 2 u) = u" by (rule from_memory_in_memory) simp
  with Cons cd show ?case by (simp add: wide_octets_def)
qed (simp add: wide_octets_def)

lemma wide_octets_length: "length (wide_octets io us) = 2 * length us"
  by (induction us) (simp_all add: wide_octets_def)

lemma wide_octets_append: "wide_octets io (us @ vs) = wide_octets io us @ wide_octets io vs"
  by (simp add: wide_octets_def)

context str_stream
begin

text \<open>A reader may rely on the byte order of the stream.\<close>

lemma carries_flag:
  assumes c: "carries s r v s'" and f: "marshal_byte_swap (prim io) s = swap"
  shows "carries s (\<lambda>t. ebind (r t) (\<lambda>(v, t).
    if unmarshal_byte_swap (prim io) t = swap then Inr (v, t) else Inl Undefined)) v s'"
  unfolding carries_def
proof (intro conjI allI impI)
  show "sinv s'" "pos s' = pos s" "flags_kept (prim io) s s'" "\<exists>ext. out s' = out s @ ext"
    using c by (simp_all add: carries_def)
  fix t rest
  assume t: "sinv t \<and> out t = out s' @ rest \<and> pos t = length (out s) \<and>
    unmarshal_byte_swap (prim io) t = marshal_byte_swap (prim io) s"
  with c obtain t' where t': "r t = Inr (v, t')" "reads t (length (out s')) t'" unfolding carries_def by blast
  then have "unmarshal_byte_swap (prim io) t' = swap" using t f reads_flags by simp
  with t' show "\<exists>t'. ebind (r t) (\<lambda>(v, t). if unmarshal_byte_swap (prim io) t = swap then Inr (v, t) else Inl Undefined) = Inr (v, t') \<and>
      reads t (length (out s')) t'" by auto
qed

section \<open>16-bit sets\<close>

lemma TCS_W_16bit_carries:
  assumes s: "sinv s" and n: "2 * length us < 2 ^ 32" and b: "bound = 0 \<or> length us \<le> unat bound"
    and ch: "\<forall>u \<in> set us. \<exists>c. f u = Inr c \<and> g c = Inr (h u)"
  shows "\<exists>s1 s2. marshalULong (prim io) s (of_nat (length us) * 2) = Inr s1 \<and>
    marshal_wchars io f s1 (us @ rest) (length us) = Inr s2 \<and>
    carries s (\<lambda>t. ebind (wstring_length io t bound) (\<lambda>(len, t).
      ebind (unmarshal_wchars io g t (unat len)) (\<lambda>(us, t). Inr ((len, us @ [z]), t))))
      (of_nat (length us), map h us @ [z]) s2"
proof -
  have u: "unat (of_nat (length us) :: 32 word) = length us" using n by (simp add: unat_of_nat)
  obtain s1 s2 where w: "marshalULong (prim io) s (of_nat (length us) * 2) = Inr s1"
    "marshal_wchars io f s1 (us @ rest) (length us) = Inr s2"
    and c: "carries s (\<lambda>t. ebind (wstring_length io t bound) (\<lambda>(len, t). if len = of_nat (length us)
      then unmarshal_wchars io g t (length us) else Inl Undefined)) (map h us) s2"
    using wstring_carries [OF s n b, of "\<lambda>s. marshal_wchars io f s (us @ rest) (length us)"
        "\<lambda>t. unmarshal_wchars io g t (length us)" "map h us"] marshal_wchars_carries [OF _ ch] by blast
  have "carries s (\<lambda>t. ebind (wstring_length io t bound) (\<lambda>(len, t).
      ebind (unmarshal_wchars io g t (unat len)) (\<lambda>(us, t). Inr ((len, us @ [z]), t))))
      (of_nat (length us), map h us @ [z]) s2"
    by (rule carries_map [OF c]) (auto simp: err_simps u split: if_splits)
  with w show ?thesis by blast
qed

end

definition fits_16bit :: "UniChar list list \<Rightarrow> 16 word list list \<Rightarrow> 32 word \<Rightarrow> UniChar list \<Rightarrow> bool" where
  "fits_16bit toU fromU bound us \<longleftrightarrow> 2 * length us < 2 ^ 32 \<and> (bound = 0 \<or> length us \<le> unat bound) \<and>
     (\<forall>u \<in> set us. \<exists>c. wide_char fromU u = Inr c \<and> wide_char toU c = Inr u)"

definition quick_16bit :: "32 word \<Rightarrow> ncs_w \<Rightarrow> 32 word \<Rightarrow> 32 word list \<Rightarrow> bool" where
  "quick_16bit id0 ncs bound str \<longleftrightarrow> wncs_id ncs = id0 \<and> 2 * length str < 2 ^ 32 \<and>
     (bound = 0 \<or> length str \<le> unat bound) \<and> (\<forall>c \<in> set str. c \<le> 0xffff)"

lemma small_wchar: "(c :: 32 word) \<le> 0xffff \<Longrightarrow> ucast (ucast c :: 16 word) = c"
  by (simp add: word_unat_eq_iff word_le_nat_alt unsigned_ucast_eq unsigned_take_bit_eq take_bit_nat_eq_self)

interpretation w16: tcs_w_contract "ms_io le heap" ms_wf ms_out ms_pos
    "TCS_W_16bit (ms_io le heap) id0 toU fromU" "fits_16bit toU fromU"
    "\<lambda>ncs. wncs_id ncs \<noteq> id0" "quick_16bit id0" for le heap id0 toU fromU
proof (intro tcs_w_contract.intro tcs_w_contract_axioms.intro, goal_cases)
  case 1
  show ?case by (rule mio.str_stream_axioms)
next
  case (2 s bound us)
  then have f: "2 * length us < 2 ^ 32" "bound = 0 \<or> length us \<le> unat bound"
    "\<forall>u \<in> set us. \<exists>c. wide_char fromU u = Inr c \<and> wide_char toU c = Inr u" by (simp_all add: fits_16bit_def)
  have u: "unat (of_nat (length us) :: 32 word) = length us" using f(1) by (simp add: unat_of_nat)
  from mio.TCS_W_16bit_carries [OF 2(1) f(1,2), of "wide_char fromU" "wide_char toU" "\<lambda>u. u" le heap "[0]" 0] f(3)
  obtain s1 s2 where "marshalULong (prim (ms_io le heap)) s (of_nat (length us) * 2) = Inr s1"
    "marshal_wchars (ms_io le heap) (wide_char fromU) s1 (us @ [0]) (length us) = Inr s2"
    and c: "ms.carries le heap s (\<lambda>t. ebind (wstring_length (ms_io le heap) t bound) (\<lambda>(len, t).
      ebind (unmarshal_wchars (ms_io le heap) (wide_char toU) t (unat len)) (\<lambda>(us, t). Inr ((len, us @ [0]), t))))
      (of_nat (length us), us @ [0]) s2" by auto
  moreover have "ms.carries le heap s (\<lambda>t. assoc3 (TCS_W_16bit_unmarshalWString (ms_io le heap) toU t bound))
      (of_nat (length us), us @ [0]) s2"
    by (rule ms.carries_map [OF c]) (auto simp: TCS_W_16bit_unmarshalWString_def assoc3_eq_Inr err_simps)
  ultimately show ?case by (auto simp: TCS_W_16bit_def TCS_W_16bit_marshalWString_def u)
next
  case (3 bound us)
  then show ?case by (auto simp: fits_16bit_def in_bound_def)
next
  case (4 ncs s bound len str)
  then show ?case by (simp add: TCS_W_16bit_def TCS_W_16bit_fastMarshalWString_def)
next
  case (5 ncs s bound)
  then show ?case by (simp add: TCS_W_16bit_def TCS_W_16bit_fastUnmarshalWString_def)
next
  case (6 s ncs bound str)
  then have q: "wncs_id ncs = id0" "2 * length str < 2 ^ 32" "bound = 0 \<or> length str \<le> unat bound"
    "\<forall>c \<in> set str. c \<le> 0xffff" by (simp_all add: quick_16bit_def)
  have u: "unat (of_nat (length str) :: 32 word) = length str" using q(2) by (simp add: unat_of_nat)
  have b: "\<not> (bound \<noteq> 0 \<and> bound < of_nat (length str))" using q(3) u by (auto simp: word_less_nat_alt)
  from mio.TCS_W_16bit_carries [OF 6(1) q(2,3), of "\<lambda>c. Inr (ucast c)" "\<lambda>c. Inr (ucast c)" "\<lambda>c. c" le heap "[]" 0]
    q(4) small_wchar
  obtain s1 s2 where "marshalULong (prim (ms_io le heap)) s (of_nat (length str) * 2) = Inr s1"
    "marshal_wchars (ms_io le heap) (\<lambda>c. Inr (ucast c)) s1 str (length str) = Inr s2"
    and c: "ms.carries le heap s (\<lambda>t. ebind (wstring_length (ms_io le heap) t bound) (\<lambda>(len, t).
      ebind (unmarshal_wchars (ms_io le heap) (\<lambda>c. Inr (ucast c)) t (unat len)) (\<lambda>(us, t). Inr ((len, us @ [0]), t))))
      (of_nat (length str), str @ [0]) s2" by auto
  moreover have "ms.carries le heap s (\<lambda>t. TCS_W_16bit_fastUnmarshalWString (ms_io le heap) id0 t ncs bound)
      (Some (of_nat (length str), str @ [0])) s2"
    by (rule ms.carries_map [OF c]) (auto simp: TCS_W_16bit_fastUnmarshalWString_def q(1) err_simps)
  ultimately show ?case by (auto simp: TCS_W_16bit_def TCS_W_16bit_fastMarshalWString_def u b q(1))
qed

section \<open>UTF-16\<close>

context str_stream
begin

lemma guard_eq_Inr: "(if P then m else Inl e) = Inr y \<longleftrightarrow> P \<and> m = Inr y"
  by simp

text \<open>What a reader does after either byte order mark of this byte order.\<close>

lemma UTF_16_reads_marked:
  assumes "wstring_length io t 0 = Inr (of_nat (length us) + 1, t1)"
    and "unmarshalUShort (prim io) t1 = Inr (if swap then 0xfffe else 0xfeff, t2)"
    and "get_octet_array (prim io) t2 (2 * length us) 2 = Inr (wide_octets io us, t')"
    and "unmarshal_byte_swap (prim io) t' = swap"
    and "of_nat (length us) + 1 \<noteq> (0 :: 32 word)" and "unat (of_nat (length us) :: 32 word) = length us"
    and "bound = 0 \<or> length us \<le> unat bound"
  shows "TCS_W_UTF_16_unmarshalWString io t bound = Inr (of_nat (length us), us @ [0], t')"
proof -
  have l: "too_long bound (of_nat (length us)) = Inr ()"
    using assms(6,7) by (auto simp: too_long_def word_less_nat_alt)
  have get: "get_octet_array (prim io) t2 (length us * 2) 2 = Inr (wide_octets io us, t')"
    using assms(3) by (simp only: mult.commute)
  show ?thesis
    unfolding TCS_W_UTF_16_unmarshalWString_def unmarshalArrayUShort_def assms(1,2) ebind_Inr prod.case
      if_not_P [OF assms(5)] add_diff_cancel_right' l assms(6) get assms(4) of_wide_octets_inverse
    by (cases swap) simp_all
qed

lemma UTF_16_carries_empty:
  assumes s: "sinv s"
  shows "\<exists>s'. TCS_W_UTF_16_marshalWString io s bound 0 [0] = Inr s' \<and>
    carries s (\<lambda>t. assoc3 (TCS_W_UTF_16_unmarshalWString io t bound)) (0, [0]) s'"
proof -
  have "\<exists>s1 s2. marshalULong (prim io) s (of_nat 0 * 2) = Inr s1 \<and> Inr s1 = Inr s2 \<and>
    marshal_byte_swap (prim io) s1 = marshal_byte_swap (prim io) s \<and> carries s (\<lambda>t. ebind (wstring_length io t 0) (\<lambda>(len, t). if len = of_nat 0 then Inr ((), t) else Inl Undefined)) () s2"
    by (rule wstring_carries [OF s, of 0 0 Inr]) (use carries_nothing in \<open>auto simp: grows_def\<close>)
  then obtain s1 where w: "marshalULong (prim io) s 0 = Inr s1"
    and c: "carries s (\<lambda>t. ebind (wstring_length io t 0) (\<lambda>(len, t). if len = 0 then Inr ((), t) else Inl Undefined)) () s1"
    by auto
  have "carries s (\<lambda>t. assoc3 (TCS_W_UTF_16_unmarshalWString io t bound)) (0, [0]) s1"
    by (rule carries_map [OF c])
      (auto simp: TCS_W_UTF_16_unmarshalWString_def assoc3_eq_Inr err_simps split: if_splits)
  with w show ?thesis by (auto simp: TCS_W_UTF_16_marshalWString_def)
qed

lemma UTF_16_marshals:
  assumes n: "2 * (length us + 1) < 2 ^ 32" and n0: "of_nat (length us) \<noteq> (0 :: 32 word)"
    and w: "marshalULong (prim io) s (of_nat (length us + 1) * 2) = Inr s1"
      "marshal_byte_swap (prim io) s1 = swap"
      "ebind (marshalUShort (prim io) s1 (if swap then 0xfffe else 0xfeff))
        (\<lambda>s1. put_octet_array (prim io) s1 (wide_octets io us) 2) = Inr s2"
  shows "TCS_W_UTF_16_marshalWString io s bound (of_nat (length us)) (us @ [0]) = Inr s2"
proof -
  have m: "(of_nat (length us) + 1) * 2 = (of_nat (length us + 1) * 2 :: 32 word)" by simp
  have "(of_nat (length us) + 1) * 2 - 2 = (of_nat (2 * length us) :: 32 word)"
    "unat (of_nat (2 * length us) :: 32 word) = 2 * length us"
    using n by (simp_all add: unat_of_nat del: of_nat_mult) (simp add: algebra_simps)
  then have k: "unat (of_nat (length us + 1) * 2 - 2 :: 32 word) = 2 * length us" using m by metis
  have "\<not> length (wide_octets io (us @ [0])) < 2 * length us"
    "take (2 * length us) (wide_octets io (us @ [0])) = wide_octets io us"
    by (simp_all add: wide_octets_append wide_octets_length)
  then show ?thesis
    using w(3) unfolding TCS_W_UTF_16_marshalWString_def Let_def m w(1,2) if_not_P [OF n0] ebind_Inr k by simp
qed

lemma UTF_16_carries:
  assumes s: "sinv s" and n: "2 * (length us + 1) < 2 ^ 32" and b: "bound = 0 \<or> length us \<le> unat bound"
  shows "\<exists>s'. TCS_W_UTF_16_marshalWString io s bound (of_nat (length us)) (us @ [0]) = Inr s' \<and>
    carries s (\<lambda>t. assoc3 (TCS_W_UTF_16_unmarshalWString io t bound)) (of_nat (length us), us @ [0]) s'"
proof (cases "us = []")
  case True
  then show ?thesis using UTF_16_carries_empty [OF s] by simp
next
  case False
  let ?n = "length us + 1"
  define bom :: "16 word" where "bom = (if marshal_byte_swap (prim io) s then 0xfffe else 0xfeff)"
  let ?put = "\<lambda>s1. ebind (marshalUShort (prim io) s1 bom) (\<lambda>s1. put_octet_array (prim io) s1 (wide_octets io us) 2)"
  let ?get = "\<lambda>t. ebind (unmarshalUShort (prim io) t) (\<lambda>(uc, t). ebind (get_octet_array (prim io) t (2 * length us) 2) (\<lambda>(bs, t).
    if unmarshal_byte_swap (prim io) t = marshal_byte_swap (prim io) s then Inr ((uc, bs), t) else Inl Undefined))"
  have un: "unat (of_nat (length us) :: 32 word) = length us" using n by (simp add: unat_of_nat)
  have n0: "of_nat (length us) \<noteq> (0 :: 32 word)" using un False by (metis length_0_conv unat_0)
  have n1: "of_nat ?n \<noteq> (0 :: 32 word)"
  proof -
    have "unat (of_nat ?n :: 32 word) = ?n" using n by (simp only: unat_of_nat) simp
    then show ?thesis by (metis unat_0 add_is_0 one_neq_zero)
  qed
  have body: "\<exists>s2. ?put s1 = Inr s2 \<and> carries s1 ?get (bom, wide_octets io us) s2 \<and> grows s1 s2 (2 * ?n)"
    if s1: "sinv s1" "marshal_byte_swap (prim io) s1 = marshal_byte_swap (prim io) s" for s1
  proof -
    obtain s2 where s2: "marshalUShort (prim io) s1 bom = Inr s2" "carries s1 (unmarshalUShort (prim io)) bom s2"
      "grows s1 s2 2" "flags_kept (prim io) s1 s2" using marshalUShort_grows [OF s1(1)] by blast
    obtain s3 where s3: "put_octet_array (prim io) s2 (wide_octets io us) 2 = Inr s3"
      "carries s2 (\<lambda>t. get_octet_array (prim io) t (length (wide_octets io us)) 2) (wide_octets io us) s3"
      "grows s2 s3 (length (wide_octets io us))"
      using put_array_grows [OF carries_sinv [OF s2(2)], of 2 "wide_octets io us"] by auto
    have "marshal_byte_swap (prim io) s2 = marshal_byte_swap (prim io) s"
      using s1(2) s2(4) by (simp add: flags_kept_def)
    note c = carries_flag [OF s3(2) this]
    have "carries s1 ?get (bom, wide_octets io us) s3"
      by (rule carries_seq [OF s2(2) c]) (auto simp: wide_octets_length err_simps split: if_splits)
    with s2 s3 show ?thesis by (auto simp: grows_def wide_octets_length)
  qed
  obtain s1 s2 where w: "marshalULong (prim io) s (of_nat ?n * 2) = Inr s1" "?put s1 = Inr s2"
      "marshal_byte_swap (prim io) s1 = marshal_byte_swap (prim io) s"
    and c: "carries s (\<lambda>t. ebind (wstring_length io t 0) (\<lambda>(len, t). if len = of_nat ?n then ?get t else Inl Undefined))
      (bom, wide_octets io us) s2"
    using wstring_carries [OF s n, of 0 ?put ?get "(bom, wide_octets io us)"] body by blast
  have "carries s (\<lambda>t. assoc3 (TCS_W_UTF_16_unmarshalWString io t bound)) (of_nat (length us), us @ [0]) s2"
  proof (rule carries_map [OF c])
    fix t t'
    assume "ebind (wstring_length io t 0) (\<lambda>(len, t). if len = of_nat ?n then ?get t else Inl Undefined) =
      Inr ((bom, wide_octets io us), t')"
    then obtain t1 t2 where "wstring_length io t 0 = Inr (of_nat ?n, t1)"
      "unmarshalUShort (prim io) t1 = Inr (bom, t2)"
      "get_octet_array (prim io) t2 (2 * length us) 2 = Inr (wide_octets io us, t')"
      "unmarshal_byte_swap (prim io) t' = marshal_byte_swap (prim io) s"
      unfolding ebind_eq_Inr split_paired_Ex prod.case guard_eq_Inr by blast
    then have "TCS_W_UTF_16_unmarshalWString io t bound = Inr (of_nat (length us), us @ [0], t')"
      by (intro UTF_16_reads_marked) (use n1 un b in \<open>auto simp: bom_def add.commute\<close>)
    then show "assoc3 (TCS_W_UTF_16_unmarshalWString io t bound) = Inr ((of_nat (length us), us @ [0]), t')"
      by (simp add: assoc3_eq_Inr)
  qed
  moreover have "TCS_W_UTF_16_marshalWString io s bound (of_nat (length us)) (us @ [0]) = Inr s2"
    using UTF_16_marshals [OF n n0 _ w(3)] w(1,2) bom_def by blast
  ultimately show ?thesis by blast
qed

end

definition fits_UTF_16 :: "32 word \<Rightarrow> UniChar list \<Rightarrow> bool" where
  "fits_UTF_16 bound us \<longleftrightarrow> 2 * (length us + 1) < 2 ^ 32 \<and> (bound = 0 \<or> length us \<le> unat bound)"

interpretation w_utf16: tcs_w_contract "ms_io le heap" ms_wf ms_out ms_pos
    "TCS_W_UTF_16 (ms_io le heap)" fits_UTF_16 "\<lambda>ncs. True" "\<lambda>ncs bound str. False" for le heap
proof (intro tcs_w_contract.intro tcs_w_contract_axioms.intro, goal_cases)
  case 1
  show ?case by (rule mio.str_stream_axioms)
next
  case (2 s bound us)
  then show ?case using mio.UTF_16_carries [OF 2(1), of us bound] by (simp add: fits_UTF_16_def TCS_W_UTF_16_def)
next
  case (3 bound us)
  then show ?case by (auto simp: fits_UTF_16_def in_bound_def)
qed (simp_all add: TCS_W_UTF_16_def)

section \<open>Characters in UTF-16\<close>

lemma wchar_halves: "push_bit 8 (ucast (ucast (drop_bit 8 (uc AND 0xff00)) :: 8 word)) OR ucast (ucast (uc AND 0x00ff) :: 8 word) = (uc :: 16 word)"
proof -
  have m: "(255 :: int) = mask 8" and p: "(0xff00 :: 16 word) = push_bit 8 0x00ff" by (simp_all add: mask_eq_exp_minus_1)
  have l: "bit (255 :: int) n \<longleftrightarrow> n < 8" for n unfolding m by (simp only: bit_mask_iff) auto
  show ?thesis unfolding p by (rule bit_word_eqI) (auto simp: bit_simps l)
qed

context str_stream
begin

lemma UTF_16_wchar_carries:
  assumes "sinv s"
  shows "\<exists>s'. TCS_W_UTF_16_marshalWChar io s uc = Inr s' \<and> carries s (TCS_W_UTF_16_unmarshalWChar io) uc s'"
proof -
  let ?h = "ucast (drop_bit 8 (uc AND 0xff00)) :: 8 word" and ?l = "ucast (uc AND 0x00ff) :: 8 word"
  obtain s1 where s1: "marshalOctet (prim io) s 2 = Inr s1" "carries s (unmarshalOctet (prim io)) 2 s1"
    using marshalOctet_carries [OF assms] by blast
  obtain s2 where s2: "marshalOctet (prim io) s1 ?h = Inr s2" "carries s1 (unmarshalOctet (prim io)) ?h s2"
    using marshalOctet_carries [OF carries_sinv [OF s1(2)]] by blast
  obtain s3 where s3: "marshalOctet (prim io) s2 ?l = Inr s3" "carries s2 (unmarshalOctet (prim io)) ?l s3"
    using marshalOctet_carries [OF carries_sinv [OF s2(2)]] by blast
  have "carries s1 (get_big_endian io) uc s3"
    by (rule carries_seq [OF s2(2) s3(2)]) (simp only: get_big_endian_def ebind_Inr prod.case wchar_halves)
  with s1(2) have "carries s (TCS_W_UTF_16_unmarshalWChar io) uc s3"
    by (rule carries_seq) (simp add: TCS_W_UTF_16_unmarshalWChar_def)
  with s1(1) s2(1) s3(1) show ?thesis by (simp add: TCS_W_UTF_16_marshalWChar_def)
qed

end

section \<open>Wide strings over a connection\<close>

text \<open>C18. A wide string of a 16-bit native code set goes unchanged through a connection that uses
  UTF-16, as long as the set has its characters and they fit the bound.\<close>

theorem wstring_16bit_over_utf16:
  assumes s: "at_end s" and tr: "wide_translates ncs str us" and b: "fits_UTF_16 bound us"
  shows "\<exists>s' s''. NCS_W_16bit_marshalWString ncs s (Some (TCS_W_UTF_16 (ms_io le heap))) bound (of_nat (length str)) str = Inr s' \<and>
    NCS_W_16bit_unmarshalWString ncs s' (Some (TCS_W_UTF_16 (ms_io le heap))) bound =
      Inr (of_nat (length str), str @ [0], s'') \<and> at_end s''"
proof -
  have w: "ms_wf s" using s by (simp add: at_end_def)
  obtain s' where m: "NCS_W_16bit_marshalWString ncs s (Some (TCS_W_UTF_16 (ms_io le heap))) bound (of_nat (length str)) str = Inr s'"
    and c: "ms.carries le heap s (\<lambda>t. assoc3 (NCS_W_16bit_unmarshalWString ncs t (Some (TCS_W_UTF_16 (ms_io le heap))) bound))
      (of_nat (length str), str @ [0]) s'"
    using w_utf16.NCS_W_16bit_slow [OF w TrueI tr b, where le = le and heap = heap] by auto
  from carries_at_end [OF c s] m show ?thesis by (auto simp: assoc3_eq_Inr)
qed

text \<open>A 16-bit set with the euro sign at 0xA4, and the other characters as in ISO 8859-1.\<close>

definition ncs_wide_euro :: ncs_w where
  "ncs_wide_euro = \<lparr>wncs_id = 0x0001000F,
     wncs_toU = [map of_nat ([0..<0xA4] @ [0x20AC] @ [0xA5..<0x100])],
     wncs_fromU = [map of_nat [0..<0x100]] @ replicate 0x1F [] @ [replicate 0xAC 0 @ [0xA4]]\<rparr>"

theorem wstring_16bit_over_utf16_witness:
  "\<exists>s s' s''. cdrMemoryStream_new (\<lambda>n. 1000) 100 0 False = Inr s \<and>
     NCS_W_16bit_marshalWString ncs_wide_euro s (Some (TCS_W_UTF_16 (ms_io True (\<lambda>n. 1000)))) 0 (of_nat (length [0xA4 :: 32 word, 0x41])) [0xA4, 0x41] = Inr s' \<and>
     NCS_W_16bit_unmarshalWString ncs_wide_euro s' (Some (TCS_W_UTF_16 (ms_io True (\<lambda>n. 1000)))) 0 =
       Inr (of_nat (length [0xA4 :: 32 word, 0x41]), [0xA4, 0x41] @ [0], s'') \<and> at_end s''"
proof -
  obtain s where s: "cdrMemoryStream_new (\<lambda>n. 1000) 100 0 False = Inr s" "at_end s" using at_end_new by blast
  have "wide_translates ncs_wide_euro [0xA4, 0x41] [0x20AC, 0x41]" by code_simp
  moreover have "fits_UTF_16 0 [0x20AC, 0x41]" by (simp add: fits_UTF_16_def)
  ultimately show ?thesis using wstring_16bit_over_utf16 [OF s(2), of ncs_wide_euro "[0xA4, 0x41]" "[0x20AC, 0x41]" 0 True "\<lambda>n. 1000"] s(1)
    by blast
qed

text \<open>C19. A native UTF-16 string whose characters have 16 bits goes unchanged through a connection that
  uses UTF-16, in either byte order.\<close>

theorem wstring_utf16_over_utf16:
  assumes s: "at_end s" and ch: "\<forall>c \<in> set str. c \<le> 0xffff" and b: "fits_UTF_16 bound (map ucast str)"
  shows "\<exists>s' s''. NCS_W_UTF_16_marshalWString ncs s (Some (TCS_W_UTF_16 (ms_io le heap))) bound (of_nat (length str)) str = Inr s' \<and>
    NCS_W_UTF_16_unmarshalWString ncs s' (Some (TCS_W_UTF_16 (ms_io le heap))) bound =
      Inr (of_nat (length str), str @ [0], s'') \<and> at_end s''"
proof -
  have w: "ms_wf s" using s by (simp add: at_end_def)
  obtain s' where m: "NCS_W_UTF_16_marshalWString ncs s (Some (TCS_W_UTF_16 (ms_io le heap))) bound (of_nat (length str)) str = Inr s'"
    and c: "ms.carries le heap s (\<lambda>t. assoc3 (NCS_W_UTF_16_unmarshalWString ncs t (Some (TCS_W_UTF_16 (ms_io le heap))) bound))
      (of_nat (length str), str @ [0]) s'"
    using w_utf16.NCS_W_UTF_16_slow [OF w TrueI ch b, where le = le and heap = heap and ncs = ncs] by auto
  from carries_at_end [OF c s] m show ?thesis by (auto simp: assoc3_eq_Inr)
qed

theorem wstring_utf16_over_utf16_witness:
  "\<exists>s s' s''. cdrMemoryStream_new (\<lambda>n. 1000) 100 0 True = Inr s \<and>
     NCS_W_UTF_16_marshalWString ncs_wide_euro s (Some (TCS_W_UTF_16 (ms_io True (\<lambda>n. 1000)))) 5 (of_nat (length [0x20AC :: 32 word, 0x41])) [0x20AC, 0x41] = Inr s' \<and>
     NCS_W_UTF_16_unmarshalWString ncs_wide_euro s' (Some (TCS_W_UTF_16 (ms_io True (\<lambda>n. 1000)))) 5 =
       Inr (of_nat (length [0x20AC :: 32 word, 0x41]), [0x20AC, 0x41] @ [0], s'') \<and> at_end s''"
proof -
  obtain s where s: "cdrMemoryStream_new (\<lambda>n. 1000) 100 0 True = Inr s" "at_end s" using at_end_new by blast
  have "\<forall>c \<in> set [0x20AC, 0x41 :: 32 word]. c \<le> 0xffff" by simp
  moreover have "fits_UTF_16 5 (map ucast [0x20AC, 0x41 :: 32 word])" by (simp add: fits_UTF_16_def)
  ultimately show ?thesis using wstring_utf16_over_utf16 [OF s(2), of "[0x20AC, 0x41]" 5 ncs_wide_euro True "\<lambda>n. 1000"] s(1)
    by blast
qed

text \<open>A single wide character in UTF-16.\<close>

lemma wchar_over_utf16:
  assumes s: "at_end s"
  shows "\<exists>s' s''. TCS_W_UTF_16_marshalWChar (ms_io le heap) s uc = Inr s' \<and>
    TCS_W_UTF_16_unmarshalWChar (ms_io le heap) s' = Inr (uc, s'') \<and> at_end s''"
proof -
  obtain s' where m: "TCS_W_UTF_16_marshalWChar (ms_io le heap) s uc = Inr s'"
    and c: "ms.carries le heap s (TCS_W_UTF_16_unmarshalWChar (ms_io le heap)) uc s'"
    using mio.UTF_16_wchar_carries [of s le heap uc] s by (auto simp: at_end_def)
  from carries_at_end [OF c s] m show ?thesis by auto
qed

text \<open>Through a 16-bit connection that uses the native code set, a character that does not have 16 bits
  is refused when it is sent alone but loses its high half when it is part of a string, and the receiver
  gets another one.\<close>

theorem fast_wstring_loses_high_half:
  assumes s: "at_end s" and n: "2 * length str < 2 ^ 32" and id0: "wncs_id ncs = id0"
  shows "(\<exists>s' s''. NCS_W_16bit_marshalWString ncs s (Some (TCS_W_16bit (ms_io le heap) id0 toU fromU)) 0 (of_nat (length str)) str = Inr s' \<and>
      NCS_W_16bit_unmarshalWString ncs s' (Some (TCS_W_16bit (ms_io le heap) id0 toU fromU)) 0 =
        Inr (of_nat (length str), map (\<lambda>c. ucast (ucast c :: 16 word)) str @ [0], s'')) \<and>
    (\<forall>c \<in> set str. 0xffff < sint c \<longrightarrow>
      NCS_W_16bit_marshalWChar ncs s (Some (TCS_W_16bit (ms_io le heap) id0 toU fromU)) c = Inl WCharOutOfRange)"
proof
  have w: "ms_wf s" using s by (simp add: at_end_def)
  have u: "unat (of_nat (length str) :: 32 word) = length str" using n by (simp add: unat_of_nat)
  from mio.TCS_W_16bit_carries [OF w n, of 0 "\<lambda>c. Inr (ucast c)" "\<lambda>c. Inr (ucast c)"
      "\<lambda>c. ucast (ucast c :: 16 word) :: 32 word" le heap "[]" 0]
  obtain s1 s2 where "marshalULong (prim (ms_io le heap)) s (of_nat (length str) * 2) = Inr s1"
    "marshal_wchars (ms_io le heap) (\<lambda>c. Inr (ucast c)) s1 str (length str) = Inr s2"
    and c: "ms.carries le heap s (\<lambda>t. ebind (wstring_length (ms_io le heap) t 0) (\<lambda>(len, t).
      ebind (unmarshal_wchars (ms_io le heap) (\<lambda>c. Inr (ucast c)) t (unat len)) (\<lambda>(us, t). Inr ((len, us @ [0]), t))))
      (of_nat (length str), map (\<lambda>c. ucast (ucast c :: 16 word) :: 32 word) str @ [0]) s2" by auto
  moreover have f: "ms.carries le heap s (\<lambda>t. TCS_W_16bit_fastUnmarshalWString (ms_io le heap) id0 t ncs 0)
      (Some (of_nat (length str), map (\<lambda>c. ucast (ucast c :: 16 word)) str @ [0])) s2"
    by (rule ms.carries_map [OF c]) (auto simp: TCS_W_16bit_fastUnmarshalWString_def id0 err_simps)
  have "ms.carries le heap s (\<lambda>t. assoc3 (NCS_W_16bit_unmarshalWString ncs t (Some (TCS_W_16bit (ms_io le heap) id0 toU fromU)) 0))
      (of_nat (length str), map (\<lambda>c. ucast (ucast c :: 16 word)) str @ [0]) s2"
    by (rule ms.carries_map [OF f]) (simp add: NCS_W_16bit_unmarshalWString_def TCS_W_16bit_def)
  from carries_at_end [OF this s] calculation
  show "\<exists>s' s''. NCS_W_16bit_marshalWString ncs s (Some (TCS_W_16bit (ms_io le heap) id0 toU fromU)) 0 (of_nat (length str)) str = Inr s' \<and>
      NCS_W_16bit_unmarshalWString ncs s' (Some (TCS_W_16bit (ms_io le heap) id0 toU fromU)) 0 =
        Inr (of_nat (length str), map (\<lambda>c. ucast (ucast c :: 16 word)) str @ [0], s'')"
    by (auto simp: NCS_W_16bit_marshalWString_def TCS_W_16bit_def TCS_W_16bit_fastMarshalWString_def id0 u assoc3_eq_Inr)
  show "\<forall>c \<in> set str. 0xffff < sint c \<longrightarrow>
      NCS_W_16bit_marshalWChar ncs s (Some (TCS_W_16bit (ms_io le heap) id0 toU fromU)) c = Inl WCharOutOfRange"
    by (simp add: NCS_W_16bit_marshalWChar_def TCS_W_16bit_def TCS_W_16bit_fastMarshalWChar_def id0 narrow_def)
qed

theorem fast_wstring_loses_high_half_witness:
  "\<exists>s s' s''. cdrMemoryStream_new (\<lambda>n. 1000) 100 0 False = Inr s \<and>
     NCS_W_16bit_marshalWString ncs_wide_euro s (Some (TCS_W_16bit (ms_io True (\<lambda>n. 1000)) 0x0001000F [] [])) 0 (of_nat (length [0x1F600 :: 32 word])) [0x1F600] = Inr s' \<and>
     NCS_W_16bit_unmarshalWString ncs_wide_euro s' (Some (TCS_W_16bit (ms_io True (\<lambda>n. 1000)) 0x0001000F [] [])) 0 =
       Inr (1, [0xF600, 0], s'')"
proof -
  obtain s where s: "cdrMemoryStream_new (\<lambda>n. 1000) 100 0 False = Inr s" "at_end s" using at_end_new by blast
  have "wncs_id ncs_wide_euro = 0x0001000F" by (simp add: ncs_wide_euro_def)
  from fast_wstring_loses_high_half [OF s(2) _ this, of "[0x1F600]" True "\<lambda>n. 1000" "[]" "[]"] s(1)
  show ?thesis by auto
qed

end
