(* ===== verification/Cdr_Encaps.thy ===== *)
theory Cdr_Encaps
  imports Wide_Contract
begin

text \<open>
  Encapsulations: the octets of a \<^verbatim>\<open>cdrEncapsulationStream\<close> (\<^verbatim>\<open>getOctetStream\<close> in
  \<^verbatim>\<open>orbcore/cdrMemoryStream.cc\<close>), the sequences of \<^verbatim>\<open>CORBA::ULong\<close> (the template
  \<^verbatim>\<open>_CORBA_Unbounded_Sequence_w_FixSizeElement\<close> in \<^verbatim>\<open>include/omniORB4/seqTemplatedefns.h\<close>), and what a
  reader on another host finds in the octets: whatever the byte orders of the two hosts and wherever the
  octets lie, it reads what the writer would read back itself.
\<close>

section \<open>The octets of an encapsulation\<close>

text \<open>
  The buffer is handed over when its start is aligned, and copied otherwise; the octets are the same. One
  that has never been set is \<^term>\<open>None\<close>. The length of the buffer, \<^verbatim>\<open>max\<close>, is left out.
\<close>

definition getOctetStream :: "nat \<Rightarrow> cdrMemoryStream \<Rightarrow> (8 word option list \<times> cdrMemoryStream) result" where
  "getOctetStream inl s =
     (if pd_readonly s then Inl (Throw MARSHAL MARSHAL_AttemptToWriteToReadOnlyBuf)
      else
        let begin = pd_bufp_8 s; cells = take (pd_outb_mkr s - begin) (ms_mem s)
        in if begin = pd_bufp s \<and> pd_bufp s \<noteq> inl then Inr (cells, s\<lparr>pd_readonly := True\<rparr>)
           else Inr (cells, s))"

definition set_octets :: "8 word option list \<Rightarrow> 8 word list result" where
  "set_octets cells = (if None \<in> set cells then Inl Undefined else Inr (map the cells))"

section \<open>Sequences of unsigned longs\<close>

definition ulong_octets :: "bool \<Rightarrow> 32 word list \<Rightarrow> 8 word list" where
  "ulong_octets le us = concat (map (in_memory le 4) us)"

fun of_ulong_octets :: "bool \<Rightarrow> 8 word list \<Rightarrow> 32 word list" where
  "of_ulong_octets le (a # b # c # d # bs) = from_memory le [a, b, c, d] # of_ulong_octets le bs"
| "of_ulong_octets le bs = []"

fun marshal_ulongs :: "'s cdrOps \<Rightarrow> 's \<Rightarrow> 32 word list \<Rightarrow> 's result" where
  "marshal_ulongs ops s [] = Inr s"
| "marshal_ulongs ops s (u # us) = ebind (marshalULong ops s u) (\<lambda>s. marshal_ulongs ops s us)"

text \<open>\<^verbatim>\<open>(int)l*elmSize\<close> is undefined when it overflows.\<close>

definition array_size :: "32 word \<Rightarrow> nat result" where
  "array_size l = (if 4 * unat l < 2 ^ 31 then Inr (4 * unat l) else Inl Undefined)"

definition marshal_ULongSeq :: "'s cdrOps \<Rightarrow> 's \<Rightarrow> 32 word list \<Rightarrow> 's result" where
  "marshal_ULongSeq ops s us =
     (let l = of_nat (length us) :: 32 word in
      if marshal_byte_swap ops s then ebind (marshalULong ops s l) (\<lambda>s. marshal_ulongs ops s us)
      else ebind (marshalULong ops s l) (\<lambda>s.
           if l = 0 then Inr s
           else ebind (array_size l) (\<lambda>n. put_octet_array ops s (take n (ulong_octets (host_le ops) us)) 4)))"

definition unmarshal_ULongSeq :: "'s str_io \<Rightarrow> 's \<Rightarrow> (32 word list \<times> 's) result" where
  "unmarshal_ULongSeq io s =
     ebind (unmarshalULong (prim io) s) (\<lambda>(l, s).
     let (ok, s) = overrun io s 4 l 1 in
     if \<not> ok then Inl (Throw MARSHAL MARSHAL_SequenceIsTooLong)
     else if l = 0 then Inr ([], s)
     else ebind (array_size l) (\<lambda>n.
       ebind (get_octet_array (prim io) s n 4) (\<lambda>(bs, s).
       Inr (map (if unmarshal_byte_swap (prim io) s then byteSwap32 else (\<lambda>v. v))
              (of_ulong_octets (host_le (prim io)) bs), s))))"

section \<open>Octets are set\<close>

text \<open>A stream that clears its memory has no octet that is not set.\<close>

definition clean :: "cdrMemoryStream \<Rightarrow> bool" where
  "clean s \<longleftrightarrow> pd_clear_memory s \<and> None \<notin> set (ms_mem s)"

definition keeps_clean :: "(cdrMemoryStream \<Rightarrow> cdrMemoryStream result) \<Rightarrow> bool" where
  "keeps_clean f \<longleftrightarrow> (\<forall>s s'. clean s \<longrightarrow> f s = Inr s' \<longrightarrow> clean s')"

lemma keeps_cleanD: "keeps_clean f \<Longrightarrow> f s = Inr s' \<Longrightarrow> clean s \<Longrightarrow> clean s'"
  unfolding keeps_clean_def by blast

lemma keeps_clean_seq: "keeps_clean f \<Longrightarrow> keeps_clean g \<Longrightarrow> keeps_clean (\<lambda>s. ebind (f s) g)"
  unfolding keeps_clean_def ebind_eq_Inr by blast

lemma keeps_clean_seq_arg: "(\<And>x. keeps_clean (g x)) \<Longrightarrow> keeps_clean (\<lambda>s. ebind m (\<lambda>x. g x s))"
  unfolding keeps_clean_def ebind_eq_Inr by blast

lemma keeps_clean_if: "keeps_clean f \<Longrightarrow> keeps_clean g \<Longrightarrow> keeps_clean (\<lambda>s. if P s then f s else g s)"
  unfolding keeps_clean_def by metis

lemma keeps_clean_trivial: "keeps_clean Inr" "keeps_clean (\<lambda>s. Inl e)"
  by (simp_all add: keeps_clean_def)

lemma reserve_result:
  assumes "reserveOutputSpace heap s a n = Inr s'"
  shows "pd_clear_memory s' = pd_clear_memory s"
    and "s' = s \<or> (\<exists>k m. ms_mem s' = take k (ms_mem s) @ fresh (pd_clear_memory s) m)"
  using assms unfolding reserveOutputSpace_def Let_def ptr_diff_def
  by (simp_all split: if_splits) (drule sym, clarsimp, blast?)+

lemma reserve_clean: "keeps_clean (\<lambda>s. reserveOutputSpace heap s a n)"
  unfolding keeps_clean_def clean_def
  by (auto simp: reserve_result(1) fresh_def dest!: reserve_result(2) in_set_takeD)

lemma write_clean: "keeps_clean (\<lambda>s. mem_write s (f s) bs)"
proof -
  have "None \<notin> set (take n xs @ map Some bs @ drop m xs)" if "None \<notin> set xs" for n m and xs :: "8 word option list"
    using that set_take_subset [of n xs] set_drop_subset [of m xs] by auto
  then show ?thesis unfolding keeps_clean_def mem_write_def clean_def by (auto simp: Let_def split: if_splits)
qed

lemma clean_marker [simp]: "clean (s\<lparr>pd_outb_mkr := m\<rparr>) = clean s" "clean (s\<lparr>pd_readonly := b\<rparr>) = clean s"
  by (simp_all add: clean_def)

lemma put_array_clean: "keeps_clean (\<lambda>s. ms_put_octet_array heap s bs a)"
  unfolding ms_put_octet_array_def
  by (rule keeps_clean_seq [OF reserve_clean])
    (auto simp: keeps_clean_def Let_def err_simps dest: keeps_cleanD [OF write_clean [of "\<lambda>_. p" for p]])

lemma put_prim_clean: "keeps_clean (\<lambda>s. ms_put_prim heap s bs)"
proof -
  have w: "clean s'" if "mem_write (s\<lparr>pd_outb_mkr := m\<rparr>) p bs = Inr s'" "clean s" for s s' m p
    using keeps_cleanD [OF write_clean [of "\<lambda>_. p" bs] that(1)] that(2) by simp
  show ?thesis
    unfolding keeps_clean_def ms_put_prim_def
    by (auto simp: Let_def err_simps split: if_splits dest: w keeps_cleanD [OF reserve_clean])
qed

lemma marshalULong_clean: "keeps_clean (\<lambda>s. marshalULong (ms_ops le heap) s v)"
  using put_prim_clean unfolding keeps_clean_def marshalULong_def by auto

lemma marshalOctet_clean: "keeps_clean (\<lambda>s. marshalOctet (ms_ops le heap) s v)"
  using put_prim_clean unfolding keeps_clean_def marshalOctet_def by auto

lemma marshal_ulongs_clean: "keeps_clean (\<lambda>s. marshal_ulongs (ms_ops le heap) s us)"
  by (induction us) (simp_all add: keeps_clean_trivial keeps_clean_seq [OF marshalULong_clean])

lemma marshal_ULongSeq_clean: "keeps_clean (\<lambda>s. marshal_ULongSeq (ms_ops le heap) s us)"
  unfolding marshal_ULongSeq_def Let_def ms_ops_simps
  by (intro keeps_clean_if keeps_clean_seq keeps_clean_seq_arg marshalULong_clean marshal_ulongs_clean
      keeps_clean_trivial put_array_clean)

lemma new_clean: "cdrMemoryStream_new heap inl n True = Inr s \<Longrightarrow> clean s"
proof -
  have fr: "None \<notin> set (fresh True m)" for m by (simp add: fresh_def)
  have cl: "pd_clear_memory s'" if "reserveOutputSpace heap s a k = Inr s'" "pd_clear_memory s" for s s' a k
    using that by (auto simp: reserveOutputSpace_def Let_def err_simps split: if_splits)
  show "cdrMemoryStream_new heap inl n True = Inr s \<Longrightarrow> clean s"
    unfolding cdrMemoryStream_new_def Let_def
    by (auto simp: err_simps clean_def fr rewindPtrs_def split: if_splits dest: cl)
qed

section \<open>The writer reads a sequence back\<close>

lemma ulong_octets_length: "length (ulong_octets le us) = 4 * length us"
  by (induction us) (simp_all add: ulong_octets_def)

lemma length_four: "length xs = 4 \<Longrightarrow> \<exists>a b c d. xs = [a, b, c, d]"
  by (auto simp: length_Suc_conv eval_nat_numeral)

lemma ulong_octets_Nil [simp]: "ulong_octets le [] = []"
  by (simp add: ulong_octets_def)

lemma of_ulong_octets_inverse: "of_ulong_octets le (ulong_octets le us) = us"
proof (induction us)
  case (Cons u us)
  obtain a b c d where q: "in_memory le 4 u = [a, b, c, d]" using length_four [OF in_memory_length] by blast
  have "from_memory le (in_memory le 4 u) = u" by (rule from_memory_in_memory) simp
  with Cons q show ?case by (simp add: ulong_octets_def)
qed (simp add: ulong_octets_def)

lemma carries_unswapped:
  assumes c: "ms.carries le heap s r v s'" and f: "\<not> pd_marshal_byte_swap s"
  shows "ms.carries le heap s (\<lambda>t. ebind (r t) (\<lambda>(v, t).
    if pd_unmarshal_byte_swap t then Inl Undefined else Inr (v, t))) v s'"
  unfolding ms.carries_def
proof (intro conjI allI impI)
  show "ms_wf s'" "ms_pos s' = ms_pos s" "flags_kept (ms_ops le heap) s s'" "\<exists>ext. ms_out s' = ms_out s @ ext"
    using c by (simp_all add: ms.carries_def)
  fix t rest
  assume t: "ms_wf t \<and> ms_out t = ms_out s' @ rest \<and> ms_pos t = length (ms_out s) \<and>
    unmarshal_byte_swap (ms_ops le heap) t = marshal_byte_swap (ms_ops le heap) s"
  with c obtain t' where t': "r t = Inr (v, t')" "ms.reads le heap t (length (ms_out s')) t'"
    unfolding ms.carries_def by blast
  then have "\<not> pd_unmarshal_byte_swap t'" using t f by (simp add: ms.reads_def flags_kept_def)
  with t' show "\<exists>t'. ebind (r t) (\<lambda>(v, t). if pd_unmarshal_byte_swap t then Inl Undefined else Inr (v, t)) = Inr (v, t') \<and>
      ms.reads le heap t (length (ms_out s')) t'" by simp
qed

lemma ULongSeq_carries:
  assumes s: "ms_wf s" "\<not> pd_marshal_byte_swap s" and n: "4 * length us < 2 ^ 31"
  shows "\<exists>s'. marshal_ULongSeq (ms_ops le heap) s us = Inr s' \<and>
    ms.carries le heap s (unmarshal_ULongSeq (ms_io le heap)) us s'"
proof -
  let ?l = "of_nat (length us) :: 32 word"
  have u: "unat ?l = length us" using n by (simp add: unat_of_nat)
  have size: "array_size ?l = Inr (4 * length us)" using n u by (simp add: array_size_def)
  have zero: "?l = 0 \<longleftrightarrow> us = []" using u by (metis length_0_conv unat_0 unat_eq_0)
  obtain s1 where s1: "marshalULong (ms_ops le heap) s ?l = Inr s1"
    "ms.carries le heap s (unmarshalULong (ms_ops le heap)) ?l s1"
    using ms.marshalULong_carries [OF s(1)] by blast
  have s1wf: "ms_wf s1" "\<not> pd_marshal_byte_swap s1"
    using s1(2) s(2) by (simp_all add: ms.carries_def flags_kept_def)
  obtain s2 where s2: "(if us = [] then Inr s1 else put_octet_array (ms_ops le heap) s1 (ulong_octets le us) 4) = Inr s2"
    "ms.carries le heap s1 (\<lambda>t. if us = [] then Inr ([], t)
       else get_octet_array (ms_ops le heap) t (4 * length us) 4) (ulong_octets le us) s2"
    "length (ms_out s1) + 4 * length us \<le> length (ms_out s2)"
  proof (cases "us = []")
    case True
    then show thesis using that ms.carries_nothing [OF s1wf(1), of le heap "[] :: 8 word list"]
      by (simp add: ulong_octets_def)
  next
    case False
    obtain s2 where "put_octet_array (ms_ops le heap) s1 (ulong_octets le us) 4 = Inr s2"
      "ms.carries le heap s1 (\<lambda>t. get_octet_array (ms_ops le heap) t (length (ulong_octets le us)) 4) (ulong_octets le us) s2"
      "mio.grows s1 s2 (length (ulong_octets le us))"
      using mio.put_array_grows [OF s1wf(1), of 4 le heap "ulong_octets le us"] by auto
    then show thesis using that False by (simp add: ulong_octets_length mio.grows_def)
  qed
  have m: "unat (4 * ?l) = 4 * length us" using n u by (simp add: unat_word_ariths)
  then have fits: "length (ms_out s1) + unat (4 * ?l) \<le> length (ms_out s2)" using s2(3) by simp
  let ?get = "\<lambda>t. if us = [] then Inr ([], t) else get_octet_array (ms_ops le heap) t (4 * length us) 4"
  have "ms.carries le heap s1 (\<lambda>t. let (ok, t) = checkInputOverrun t 1 (4 * ?l) 1 in
      if \<not> ok then Inl (Throw MARSHAL MARSHAL_SequenceIsTooLong) else ?get t) (ulong_octets le us) s2"
    using mio.carries_overrun [of le heap s1 ?get "ulong_octets le us" s2 "4 * ?l" "Throw MARSHAL MARSHAL_SequenceIsTooLong"]
      s2(2) fits unfolding ms_io_simps by blast
  moreover have "checkInputOverrun t 1 (4 * ?l) 1 = checkInputOverrun t 4 ?l 1" for t by (simp add: checkInputOverrun_def)
  ultimately have "ms.carries le heap s1 (\<lambda>t. let (ok, t) = checkInputOverrun t 4 ?l 1 in
      if \<not> ok then Inl (Throw MARSHAL MARSHAL_SequenceIsTooLong) else ?get t) (ulong_octets le us) s2" by simp
  note c = ms.carries_seq [OF s1(2) carries_unswapped [OF this s1wf(2)]]
  have "ms.carries le heap s (unmarshal_ULongSeq (ms_io le heap)) us s2"
    by (rule c) (auto simp: unmarshal_ULongSeq_def size zero of_ulong_octets_inverse err_simps
      split: if_splits prod.splits)
  moreover have "marshal_ULongSeq (ms_ops le heap) s us = Inr s2"
    using s(2) s1(1) s2(1) size zero by (auto simp: marshal_ULongSeq_def ulong_octets_length split: if_splits)
  ultimately show ?thesis by blast
qed

section \<open>Another reader\<close>

text \<open>
  \<open>at_octets t data p\<close>: the stream \<open>t\<close> is about to read the octet \<open>p\<close> of \<open>data\<close>. Its memory may be external
  and start at a multiple of 4 only, so values of at most 4 octets lie where the writer has put them.
\<close>

definition at_octets :: "cdrMemoryStream \<Rightarrow> 8 word list \<Rightarrow> nat \<Rightarrow> bool" where
  "at_octets t data p \<longleftrightarrow> pd_bufp_8 t mod 4 = 0 \<and> length data \<le> length (ms_mem t) \<and>
     take (length data) (ms_mem t) = map Some data \<and> pd_inb_mkr t = pd_bufp_8 t + p \<and> p \<le> length data \<and>
     (if pd_readonly t then pd_inb_end t = pd_bufp_8 t + length data
      else pd_outb_mkr t = pd_bufp_8 t + length data \<and> pd_inb_end t \<le> pd_outb_mkr t \<and> pd_inb_mkr t \<le> pd_inb_end t)"

lemma align_small:
  assumes "a \<in> {1, 2, 4}" and "b mod 4 = 0"
  shows "align_to (b + p) a = b + align_to p a"
proof -
  have "a dvd 4" using assms(1) by auto
  then have "a dvd b" using assms(2) by (metis dvd_trans mod_0_imp_dvd)
  then obtain k where b: "b = a * k" by (auto elim: dvdE)
  have "(b + p + (a - 1)) mod a = (p + (a - 1)) mod a"
    unfolding b by (simp only: add.assoc mod_mult_self4)
  moreover have "(p + (a - 1)) mod a \<le> p + (a - 1)" by (rule mod_less_eq_dividend)
  ultimately show ?thesis unfolding align_to_def by linarith
qed

lemma small_alignment: "a \<in> {1, 2, 4} \<Longrightarrow> alignment a"
  by (auto simp: alignment_def)

lemma at_octets_align:
  assumes "at_octets t data p" and "a \<in> {1, 2, 4}"
  shows "align_to (pd_inb_mkr t) a = pd_bufp_8 t + align_to p a"
  using assms align_small [OF assms(2)] by (simp add: at_octets_def)

lemma at_octets_read:
  assumes "at_octets t data p" and "q + n \<le> length data"
  shows "mem_read t (pd_bufp_8 t + q) n = Inr (take n (drop q data))"
proof -
  have l: "length data \<le> length (ms_mem t)" "take (length data) (ms_mem t) = map Some data"
    using assms(1) by (simp_all add: at_octets_def)
  have "take n (drop q (ms_mem t)) = take n (drop q (take (length data) (ms_mem t)))"
    using assms(2) by (simp add: take_drop_take)
  also have "\<dots> = map Some (take n (drop q data))" by (simp only: l(2) take_map drop_map)
  finally show ?thesis using assms(2) l(1) by (auto simp: mem_read_def Let_def)
qed

lemma at_octets_moved:
  assumes "at_octets t data p" and "q \<le> length data" and "e = pd_bufp_8 t + length data \<or> e = pd_inb_end t"
    and "pd_bufp_8 t + q \<le> e"
  shows "at_octets (t\<lparr>pd_inb_end := e, pd_inb_mkr := pd_bufp_8 t + q\<rparr>) data q"
  using assms by (auto simp: at_octets_def split: if_splits)

lemma at_octets_fetch:
  assumes t: "at_octets t data p" and a: "a \<in> {1, 2, 4}"
  shows "fetchInputData t a n =
    (if align_to p a + n \<le> length data then Inr (t\<lparr>pd_inb_end := pd_bufp_8 t + length data\<rparr>)
     else Inl (Throw MARSHAL MARSHAL_PassEndOfMessage))"
proof -
  have "p \<le> align_to p a" by (rule align_to_ge [OF small_alignment [OF a]])
  then show ?thesis
    using t at_octets_align [OF t a]
    by (auto simp: fetchInputData_def Let_def ptr_diff_def at_octets_def split: if_splits)
qed

lemma at_octets_get_array:
  assumes t: "at_octets t data p" and a: "a \<in> {1, 2, 4}" and n: "align_to p a + n \<le> length data"
  shows "\<exists>t'. ms_get_octet_array t n a = Inr (take n (drop (align_to p a) data), t') \<and>
    at_octets t' data (align_to p a + n) \<and> pd_unmarshal_byte_swap t' = pd_unmarshal_byte_swap t"
proof -
  let ?t = "t\<lparr>pd_inb_end := pd_bufp_8 t + length data\<rparr>"
  have r: "mem_read ?t (pd_bufp_8 t + align_to p a) n = Inr (take n (drop (align_to p a) data))"
    using at_octets_read [OF t n] by (simp add: mem_read_def Let_def)
  have "at_octets (?t\<lparr>pd_inb_mkr := pd_bufp_8 t + (align_to p a + n)\<rparr>) data (align_to p a + n)"
    using at_octets_moved [OF t n] n by simp
  then show ?thesis
    using at_octets_fetch [OF t a, of n] n r at_octets_align [OF t a]
    by (auto simp: ms_get_octet_array_def Let_def add.assoc)
qed

lemma at_octets_get_prim:
  assumes t: "at_octets t data p" and a: "n \<in> {1, 2, 4}" and n: "align_to p n + n \<le> length data"
  shows "\<exists>t'. ms_get_prim t n = Inr (take n (drop (align_to p n) data), t') \<and>
    at_octets t' data (align_to p n + n) \<and> pd_unmarshal_byte_swap t' = pd_unmarshal_byte_swap t"
proof (cases "align_to (pd_inb_mkr t) n + n \<le> pd_inb_end t")
  case True
  have r: "mem_read t (pd_bufp_8 t + align_to p n) n = Inr (take n (drop (align_to p n) data))"
    by (rule at_octets_read [OF t n])
  have "at_octets (t\<lparr>pd_inb_end := pd_inb_end t, pd_inb_mkr := pd_bufp_8 t + (align_to p n + n)\<rparr>) data (align_to p n + n)"
    by (rule at_octets_moved [OF t n]) (use True at_octets_align [OF t a] in auto)
  moreover have "t\<lparr>pd_inb_end := pd_inb_end t, pd_inb_mkr := m\<rparr> = t\<lparr>pd_inb_mkr := m\<rparr>" for m by simp
  ultimately show ?thesis using True r at_octets_align [OF t a] by (simp add: ms_get_prim_def add.assoc)
next
  case False
  then have "ms_get_prim t n = ms_get_octet_array t n n"
    using at_octets_fetch [OF t a, of n] n at_octets_align [OF t a]
    by (simp add: ms_get_prim_def ms_get_octet_array_def Let_def)
  then show ?thesis using at_octets_get_array [OF t a n] by simp
qed

lemma at_octets_overrun:
  assumes "at_octets t data p"
  shows "\<exists>t'. checkInputOverrun t k l 1 = (p + unat (k * l) \<le> length data, t') \<and>
    at_octets t' data p \<and> pd_unmarshal_byte_swap t' = pd_unmarshal_byte_swap t"
  using assms by (auto simp: checkInputOverrun_def Let_def at_octets_def)

section \<open>Two hosts\<close>

text \<open>
  \<open>same_place le le' t u\<close>: \<open>t\<close>, on a host with byte order \<open>le'\<close>, is about to read what the writer's own
  stream \<open>u\<close>, with byte order \<open>le\<close>, is about to read.
\<close>

definition same_place :: "cdrMemoryStream \<Rightarrow> cdrMemoryStream \<Rightarrow> bool" where
  "same_place t u \<longleftrightarrow> ms_wf u \<and> (\<exists>data. ms_out u = map Some data \<and> at_octets t data (ms_pos u))"

definition same_order :: "bool \<Rightarrow> bool \<Rightarrow> cdrMemoryStream \<Rightarrow> cdrMemoryStream \<Rightarrow> bool" where
  "same_order le le' t u \<longleftrightarrow> pd_unmarshal_byte_swap t = (pd_unmarshal_byte_swap u \<noteq> (le \<noteq> le'))"

lemma same_place_get_prim:
  assumes p: "same_place t u" and r: "ms_get_prim u n = Inr (bs, u')" and n: "n \<in> {1, 2, 4}"
  shows "\<exists>t'. ms_get_prim t n = Inr (bs, t') \<and> same_place t' u' \<and> length bs = n \<and>
    pd_unmarshal_byte_swap t' = pd_unmarshal_byte_swap t \<and> pd_unmarshal_byte_swap u' = pd_unmarshal_byte_swap u"
proof -
  obtain data where u: "ms_wf u" "ms_out u = map Some data" "at_octets t data (ms_pos u)"
    using p by (auto simp: same_place_def)
  note a = small_alignment [OF n]
  have fit: "align_to (ms_pos u) n + n \<le> length data"
    using get_prim_fails [OF u(1) a] r u(2) by (cases "align_to (ms_pos u) n + n \<le> length data") auto
  let ?bs = "take n (drop (align_to (ms_pos u) n) data)"
  have l: "length ?bs = n" using fit by simp
  have "take n (drop (align_to (ms_pos u) n) (ms_out u)) = map Some ?bs"
    by (simp add: u(2) take_map drop_map)
  then obtain u1 where "ms_get_prim u n = Inr (?bs, u1)" "advanced u (align_to (ms_pos u) n + n) u1"
    using get_prim_advanced [OF u(1), of ?bs] a l fit u(2) by auto
  then have u': "bs = ?bs" "advanced u (align_to (ms_pos u) n + n) u'" using r by auto
  obtain t' where "ms_get_prim t n = Inr (?bs, t')" "at_octets t' data (align_to (ms_pos u) n + n)"
    "pd_unmarshal_byte_swap t' = pd_unmarshal_byte_swap t"
    using at_octets_get_prim [OF u(3) n fit] by blast
  then show ?thesis using u' l u(2) by (auto simp: same_place_def advanced_def)
qed

lemma same_place_get_array:
  assumes p: "same_place t u" and r: "ms_get_octet_array u n a = Inr (bs, u')" and n: "a \<in> {1, 2, 4}"
  shows "\<exists>t'. ms_get_octet_array t n a = Inr (bs, t') \<and> same_place t' u' \<and> length bs = n \<and>
    pd_unmarshal_byte_swap t' = pd_unmarshal_byte_swap t \<and> pd_unmarshal_byte_swap u' = pd_unmarshal_byte_swap u"
proof -
  obtain data where u: "ms_wf u" "ms_out u = map Some data" "at_octets t data (ms_pos u)"
    using p by (auto simp: same_place_def)
  note a = small_alignment [OF n]
  have fit: "align_to (ms_pos u) a + n \<le> length data"
    using fetch_spec [OF u(1) a, of n] r u(2)
    by (cases "align_to (ms_pos u) a + n \<le> length data") (auto simp: ms_get_octet_array_def)
  let ?bs = "take n (drop (align_to (ms_pos u) a) data)"
  have l: "length ?bs = n" using fit by simp
  have "take n (drop (align_to (ms_pos u) a) (ms_out u)) = map Some ?bs"
    by (simp add: u(2) take_map drop_map)
  then obtain u1 where "ms_get_octet_array u n a = Inr (?bs, u1)" "advanced u (align_to (ms_pos u) a + n) u1"
    using get_array_advanced [OF u(1) a, of ?bs] l fit u(2) by auto
  then have u': "bs = ?bs" "advanced u (align_to (ms_pos u) a + n) u'" using r by auto
  obtain t' where "ms_get_octet_array t n a = Inr (?bs, t')" "at_octets t' data (align_to (ms_pos u) a + n)"
    "pd_unmarshal_byte_swap t' = pd_unmarshal_byte_swap t"
    using at_octets_get_array [OF u(3) n fit] by blast
  then show ?thesis using u' l u(2) by (auto simp: same_place_def advanced_def)
qed

lemma same_place_overrun:
  assumes p: "same_place t u" and r: "checkInputOverrun u k l 1 = (ok, u')"
  shows "\<exists>t'. checkInputOverrun t k l 1 = (ok, t') \<and> same_place t' u' \<and>
    pd_unmarshal_byte_swap t' = pd_unmarshal_byte_swap t \<and> pd_unmarshal_byte_swap u' = pd_unmarshal_byte_swap u"
proof -
  obtain data where u: "ms_wf u" "ms_out u = map Some data" "at_octets t data (ms_pos u)"
    using p by (auto simp: same_place_def)
  have u': "u' = u\<lparr>pd_inb_end := pd_outb_mkr u\<rparr>" and ok: "ok \<longleftrightarrow> pd_inb_mkr u + unat (k * l) \<le> pd_outb_mkr u"
    using r u(1) by (auto simp: checkInputOverrun_def ms_wf_def)
  have "pd_inb_mkr u = pd_bufp_8 u + ms_pos u" "pd_outb_mkr u = pd_bufp_8 u + length data"
    using u(1) ms_out_length [OF u(1)] by (auto simp: ms_wf_def ms_pos_def u(2))
  then have "ok \<longleftrightarrow> ms_pos u + unat (k * l) \<le> length data" by (simp add: ok)
  moreover have "ms_wf u'" "ms_out u' = ms_out u" "ms_pos u' = ms_pos u" "pd_unmarshal_byte_swap u' = pd_unmarshal_byte_swap u"
    using u(1) by (auto simp: u' ms_wf_def ms_out_def ms_pos_def)
  ultimately show ?thesis using at_octets_overrun [OF u(3), of k l] u(2) by (auto simp: same_place_def)
qed

text \<open>The other byte order swaps the octets of a value.\<close>

lemma octets_le_of_octets:
  assumes "length bs = 4"
  shows "octets_le 4 (of_octets_le bs :: 32 word) = bs"
proof -
  obtain a b c d where bs: "bs = [a, b, c, d]" using length_four [OF assms] by blast
  have "\<not> bit w (8 + n)" "\<not> bit w (16 + n)" "\<not> bit w (24 + n)" for w :: "8 word" and n
    using bit_imp_le_length [of w] by fastforce+
  then show ?thesis
    by (auto simp: bs octets_le_def of_octets_le_def upt_rec intro!: bit_word_eqI simp: bit_simps)
qed

lemma from_memory_other:
  assumes "length bs = 4"
  shows "(from_memory (\<not> le) bs :: 32 word) = byteSwap32 (from_memory le bs)"
proof -
  have inv: "of_octets_le (octets_le 4 w) = (w :: 32 word)" for w
    by (simp add: of_octets_le_bound take_bit_word_eq_self)
  have swap: "of_octets_le (rev cs) = byteSwap32 (of_octets_le cs)" if "length cs = 4" for cs
    using inv [of "byteSwap32 (of_octets_le cs)"] byteSwap32_octets [of "of_octets_le cs"] octets_le_of_octets [OF that]
    by simp
  show ?thesis using swap [OF assms] by (cases le) (simp_all add: from_memory_def)
qed

lemma of_ulong_octets_other:
  "of_ulong_octets (\<not> le) bs = map byteSwap32 (of_ulong_octets le bs)"
  by (induction le bs rule: of_ulong_octets.induct) (simp_all add: from_memory_other)

text \<open>The readers.\<close>

definition agrees :: "bool \<Rightarrow> bool \<Rightarrow> (cdrMemoryStream \<Rightarrow> ('v \<times> cdrMemoryStream) result) \<Rightarrow>
    (cdrMemoryStream \<Rightarrow> ('v \<times> cdrMemoryStream) result) \<Rightarrow> bool" where
  "agrees le le' f g \<longleftrightarrow> (\<forall>t u v u'. same_place t u \<longrightarrow> same_order le le' t u \<longrightarrow> g u = Inr (v, u') \<longrightarrow>
     (\<exists>t'. f t = Inr (v, t') \<and> same_place t' u' \<and> same_order le le' t' u'))"

lemma agreesD:
  assumes "agrees le le' f g" and "same_place t u" and "same_order le le' t u" and "g u = Inr (v, u')"
  obtains t' where "f t = Inr (v, t')" "same_place t' u'" "same_order le le' t' u'"
  using assms unfolding agrees_def by blast

lemma agrees_seq:
  assumes "agrees le le' f g" and "\<And>x. agrees le le' (f' x) (g' x)"
  shows "agrees le le' (\<lambda>t. ebind (f t) (\<lambda>(x, t). f' x t)) (\<lambda>t. ebind (g t) (\<lambda>(x, t). g' x t))"
  unfolding agrees_def
proof (intro allI impI)
  fix t u v u'
  assume p: "same_place t u" and o: "same_order le le' t u" and g: "ebind (g u) (\<lambda>(x, t). g' x t) = Inr (v, u')"
  obtain x u1 where u1: "g u = Inr (x, u1)" "g' x u1 = Inr (v, u')" using g by (auto simp: err_simps)
  obtain t1 where t1: "f t = Inr (x, t1)" "same_place t1 u1" "same_order le le' t1 u1"
    using agreesD [OF assms(1) p o u1(1)] .
  obtain t' where "f' x t1 = Inr (v, t')" "same_place t' u'" "same_order le le' t' u'"
    using agreesD [OF assms(2) t1(2,3) u1(2)] .
  then show "\<exists>t'. ebind (f t) (\<lambda>(x, t). f' x t) = Inr (v, t') \<and> same_place t' u' \<and> same_order le le' t' u'"
    using t1(1) by simp
qed

lemma agrees_return: "agrees le le' (\<lambda>t. Inr (v, t)) (\<lambda>t. Inr (v, t))"
  by (simp add: agrees_def)

lemma agrees_fail: "agrees le le' f (\<lambda>t. Inl e)"
  by (simp add: agrees_def)

lemma ULong_agrees: "agrees le le' (unmarshalULong (ms_ops le' heap')) (unmarshalULong (ms_ops le heap))"
  unfolding agrees_def
proof (intro allI impI)
  fix t u v u'
  assume p: "same_place t u" and o: "same_order le le' t u" and r: "unmarshalULong (ms_ops le heap) u = Inr (v, u')"
  obtain bs where bs: "ms_get_prim u 4 = Inr (bs, u')"
    and v: "v = (if pd_unmarshal_byte_swap u then byteSwap32 (from_memory le bs) else from_memory le bs)"
    using r by (auto simp: unmarshalULong_def err_simps Let_def)
  obtain t' where t': "ms_get_prim t 4 = Inr (bs, t')" "same_place t' u'" "length bs = 4"
    "pd_unmarshal_byte_swap t' = pd_unmarshal_byte_swap t" "pd_unmarshal_byte_swap u' = pd_unmarshal_byte_swap u"
    using same_place_get_prim [OF p bs] by auto
  have "(if pd_unmarshal_byte_swap t then byteSwap32 (from_memory le' bs) else from_memory le' bs) = v"
    using o from_memory_other [OF t'(3), of le] v by (cases le; cases le') (auto simp: same_order_def)
  then have "unmarshalULong (ms_ops le' heap') t = Inr (v, t')" using t'(1) by (auto simp: unmarshalULong_def)
  with t' o show "\<exists>t'. unmarshalULong (ms_ops le' heap') t = Inr (v, t') \<and> same_place t' u' \<and> same_order le le' t' u'"
    by (auto simp: same_order_def)
qed

lemma ulong_array_agrees:
  "agrees le le' (\<lambda>t. ebind (ms_get_octet_array t n 4) (\<lambda>(bs, t).
       Inr (map (if pd_unmarshal_byte_swap t then byteSwap32 else (\<lambda>v. v)) (of_ulong_octets le' bs), t)))
     (\<lambda>t. ebind (ms_get_octet_array t n 4) (\<lambda>(bs, t).
       Inr (map (if pd_unmarshal_byte_swap t then byteSwap32 else (\<lambda>v. v)) (of_ulong_octets le bs), t)))"
  unfolding agrees_def
proof (intro allI impI)
  fix t u v u'
  assume p: "same_place t u" and o: "same_order le le' t u"
    and r: "ebind (ms_get_octet_array u n 4) (\<lambda>(bs, t).
       Inr (map (if pd_unmarshal_byte_swap t then byteSwap32 else (\<lambda>v. v)) (of_ulong_octets le bs), t)) = Inr (v, u')"
  obtain bs where bs: "ms_get_octet_array u n 4 = Inr (bs, u')"
    and v: "v = map (if pd_unmarshal_byte_swap u' then byteSwap32 else (\<lambda>v. v)) (of_ulong_octets le bs)"
    using r by (auto simp: err_simps)
  obtain t' where t': "ms_get_octet_array t n 4 = Inr (bs, t')" "same_place t' u'"
    "pd_unmarshal_byte_swap t' = pd_unmarshal_byte_swap t" "pd_unmarshal_byte_swap u' = pd_unmarshal_byte_swap u"
    using same_place_get_array [OF p bs] by auto
  have o': "same_order le le' t' u'" using o t'(3,4) by (simp add: same_order_def)
  have "map (if pd_unmarshal_byte_swap t' then byteSwap32 else (\<lambda>v. v)) (of_ulong_octets le' bs) = v"
    using o' of_ulong_octets_other [of le bs] v by (cases le; cases le') (auto simp: same_order_def comp_def)
  then show "\<exists>t'. ebind (ms_get_octet_array t n 4) (\<lambda>(bs, t).
       Inr (map (if pd_unmarshal_byte_swap t then byteSwap32 else (\<lambda>v. v)) (of_ulong_octets le' bs), t)) = Inr (v, t') \<and>
       same_place t' u' \<and> same_order le le' t' u'"
    using t'(1,2) o' by auto
qed

lemma agrees_overrun:
  assumes "agrees le le' f g"
  shows "agrees le le' (\<lambda>t. let (ok, t) = checkInputOverrun t k l 1 in if \<not> ok then Inl e else f t)
    (\<lambda>t. let (ok, t) = checkInputOverrun t k l 1 in if \<not> ok then Inl e else g t)"
  unfolding agrees_def
proof (intro allI impI)
  fix t u v u'
  assume p: "same_place t u" and o: "same_order le le' t u"
    and r: "(let (ok, t) = checkInputOverrun u k l 1 in if \<not> ok then Inl e else g t) = Inr (v, u')"
  obtain u1 where u1: "checkInputOverrun u k l 1 = (True, u1)" "g u1 = Inr (v, u')"
    using r by (auto split: prod.splits if_splits)
  obtain t1 where t1: "checkInputOverrun t k l 1 = (True, t1)" "same_place t1 u1"
    "pd_unmarshal_byte_swap t1 = pd_unmarshal_byte_swap t" "pd_unmarshal_byte_swap u1 = pd_unmarshal_byte_swap u"
    using same_place_overrun [OF p u1(1)] by blast
  then have "same_order le le' t1 u1" using o by (simp add: same_order_def)
  from agreesD [OF assms t1(2) this u1(2)] obtain t' where
    "f t1 = Inr (v, t')" "same_place t' u'" "same_order le le' t' u'" .
  with t1(1) show "\<exists>t'. (let (ok, t) = checkInputOverrun t k l 1 in if \<not> ok then Inl e else f t) = Inr (v, t') \<and>
      same_place t' u' \<and> same_order le le' t' u'" by simp
qed

lemma ULongSeq_agrees: "agrees le le' (unmarshal_ULongSeq (ms_io le' heap')) (unmarshal_ULongSeq (ms_io le heap))"
proof -
  have "agrees le le'
      (\<lambda>s. if l = 0 then Inr ([], s) else ebind (array_size l) (\<lambda>n. ebind (ms_get_octet_array s n 4) (\<lambda>(bs, s).
         Inr (map (if pd_unmarshal_byte_swap s then byteSwap32 else (\<lambda>v. v)) (of_ulong_octets le' bs), s))))
      (\<lambda>s. if l = 0 then Inr ([], s) else ebind (array_size l) (\<lambda>n. ebind (ms_get_octet_array s n 4) (\<lambda>(bs, s).
         Inr (map (if pd_unmarshal_byte_swap s then byteSwap32 else (\<lambda>v. v)) (of_ulong_octets le bs), s))))" for l
    using ulong_array_agrees agrees_return agrees_fail
    by (cases "l = 0"; cases "array_size l") simp_all
  from agrees_seq [OF ULong_agrees agrees_overrun [OF this]] show ?thesis
    unfolding unmarshal_ULongSeq_def ms_io_simps ms_ops_simps .
qed

section \<open>Through an encapsulation\<close>

lemma new_no_swap: "cdrMemoryStream_new heap inl n c = Inr s \<Longrightarrow> \<not> pd_marshal_byte_swap s"
proof -
  have fl: "\<not> pd_marshal_byte_swap s'" if "reserveOutputSpace heap s a k = Inr s'" "\<not> pd_marshal_byte_swap s" for s s' a k
    using that by (auto simp: reserveOutputSpace_def Let_def err_simps split: if_splits)
  show "cdrMemoryStream_new heap inl n c = Inr s \<Longrightarrow> \<not> pd_marshal_byte_swap s"
    unfolding cdrMemoryStream_new_def Let_def
    by (auto simp: err_simps rewindPtrs_def split: if_splits dest: fl)
qed

lemma wf_at_octets: "ms_wf s \<Longrightarrow> ms_out s = map Some data \<Longrightarrow> pd_inb_mkr s \<le> pd_inb_end s \<Longrightarrow> at_octets s data (ms_pos s)"
proof -
  assume s: "ms_wf s" "ms_out s = map Some data" "pd_inb_mkr s \<le> pd_inb_end s"
  have "length data = pd_outb_mkr s - pd_bufp_8 s" using ms_out_length [OF s(1)] s(2) by simp
  moreover have "pd_bufp_8 s mod 4 = 0"
  proof -
    have "pd_bufp_8 s mod 8 = 0" using s(1) by (simp add: ms_wf_def)
    then show ?thesis by presburger
  qed
  ultimately show ?thesis using s by (auto simp: at_octets_def ms_wf_def ms_out_def ms_pos_def)
qed

lemma at_octets_flag [simp]: "at_octets (setByteSwapFlag host t b) data p = at_octets t data p"
  by (simp add: at_octets_def setByteSwapFlag_def)

text \<open>A reader that is given the octets at the address \<open>a\<close>, in place or copied, starts where they start.\<close>

lemma encapsulation_opened:
  assumes u: "ms_wf u" "ms_out u = map Some data" "ms_pos u = 0" "pd_unmarshal_byte_swap u = False"
    and o: "unmarshalOctet (ms_ops le heap) u = Inr (if le then 1 else 0, u1)"
  shows "\<exists>t. cdrEncapsulationStream_read le' heap' inl a data True = Inr t \<and> same_place t u1 \<and> same_order le le' t u1"
proof -
  obtain bs where bs: "ms_get_prim u 1 = Inr (bs, u1)" "hd bs = (if le then 1 else 0)"
    using o by (auto simp: unmarshalOctet_def err_simps)
  have ne: "\<not> length data < 1"
    using get_prim_fails [OF u(1), of 1] bs(1) u(2,3) by (cases data) auto
  define ext where "ext = cdrMemoryStream_external a data"
  have ro: "same_place ext u" if "a mod 4 = 0"
    using that u by (auto simp: same_place_def at_octets_def ext_def cdrMemoryStream_external_def rewindPtrs_def)
  define own where "own = rewindPtrs (ext\<lparr>pd_readonly := False, pd_clear_memory := False, pd_bufp := inl,
    pd_bufp_8 := ensure_align_8 inl, ms_mem := fresh False (inl + 32 - ensure_align_8 inl), pd_outb_end := inl + 32\<rparr>)"
  have "ms_wf own" "ms_out own = []" "ms_pos own = 0" "\<not> pd_unmarshal_byte_swap own"
    using ensure_align_8 [of inl]
    by (simp_all add: own_def ext_def cdrMemoryStream_external_def rewindPtrs_def ms_wf_def ms_out_def ms_pos_def fresh_def)
  then obtain c where c: "ms_put_octet_array heap' own data 1 = Inr c" "ms_wf c" "ms_out c = map Some data" "ms_pos c = 0"
    "\<not> pd_unmarshal_byte_swap c"
    using put_array_appended [of own 1 heap' data] by (auto simp: appended_def)
  have cp: "same_place c u" using wf_at_octets [OF c(2,3)] c(2,4) u by (auto simp: same_place_def ms_wf_def ms_pos_def)
  obtain t0 where t0: "(if a \<noteq> align_to a 4 then ms_put_octet_array heap' own data 1 else Inr ext) = Inr t0" "same_place t0 u"
    using c(1) cp ro align_to_dvd [of 4 a] by (cases "a = align_to a 4") auto
  obtain t1 where t1: "ms_get_prim t0 1 = Inr (bs, t1)" "same_place t1 u1"
    "pd_unmarshal_byte_swap u1 = pd_unmarshal_byte_swap u"
    using same_place_get_prim [OF t0(2) bs(1)] by auto
  define t where "t = setByteSwapFlag le' t1 le"
  have "unmarshalBoolean (ms_ops le' heap') t0 = Inr (le, t1)"
    using t1(1) bs(2) by (simp add: unmarshalBoolean_def unmarshalOctet_def)
  then have "cdrEncapsulationStream_read le' heap' inl a data True = Inr t"
    unfolding cdrEncapsulationStream_read_def Let_def if_not_P [OF ne] if_True ext_def [symmetric]
    unfolding own_def [symmetric] t0(1) by (simp add: t_def)
  moreover have "same_place t u1" using t1(2) by (simp add: t_def same_place_def)
  moreover have "same_order le le' t u1" using t1(3) u(4) by (simp add: t_def setByteSwapFlag_def same_order_def)
  ultimately show ?thesis by blast
qed

text \<open>What is written into an encapsulation on one host is read from it on another, wherever it lies.\<close>

lemma encapsulation_carried:
  assumes w: "\<And>s. ms_wf s \<Longrightarrow> \<not> pd_marshal_byte_swap s \<Longrightarrow> \<exists>s'. w s = Inr s' \<and> ms.carries le heap s r v s'"
    and cl: "keeps_clean w" and ag: "agrees le le' r' r"
  shows "\<exists>s0 s1 data s2. cdrEncapsulationStream_new le heap inl 0 True = Inr s0 \<and> w s0 = Inr s1 \<and>
    getOctetStream inl s1 = Inr (map Some data, s2) \<and>
    (\<forall>a. \<exists>t t'. cdrEncapsulationStream_read le' heap' inl' a data True = Inr t \<and> r' t = Inr (v, t'))"
proof -
  let ?o = "if le then 1 else 0 :: 8 word"
  obtain s where s: "cdrMemoryStream_new heap inl 0 True = Inr s" "ms_wf s" "ms_out s = []" "ms_pos s = 0"
    "pd_unmarshal_byte_swap s = pd_marshal_byte_swap s" using ms_new_wf by blast
  have sw: "\<not> pd_marshal_byte_swap s" by (rule new_no_swap [OF s(1)])
  obtain s0 where s0: "marshalOctet (ms_ops le heap) s ?o = Inr s0"
    "ms.carries le heap s (unmarshalOctet (ms_ops le heap)) ?o s0" using ms.marshalOctet_carries [OF s(2)] by blast
  have "ms_wf s0" "\<not> pd_marshal_byte_swap s0" using s0(2) sw by (auto simp: ms.carries_def flags_kept_def)
  then obtain s1 where s1: "w s0 = Inr s1" "ms.carries le heap s0 r v s1" using w by blast
  have c: "ms.carries le heap s (\<lambda>t. ebind (unmarshalOctet (ms_ops le heap) t) (\<lambda>(oc, t).
      ebind (r t) (\<lambda>(v, t). Inr ((oc, v), t)))) (?o, v) s1"
    by (rule ms.carries_seq [OF s0(2) s1(2)]) simp
  have "clean s1" using new_clean [OF s(1)] keeps_cleanD [OF marshalOctet_clean s0(1)] keeps_cleanD [OF cl s1(1)] by blast
  then have "None \<notin> set (ms_out s1)" by (auto simp: clean_def ms_out_def dest: in_set_takeD)
  then obtain data where data: "ms_out s1 = map Some data"
    by (metis not_None_eq ex_map_conv)
  have f: "ms_wf s1" "ms_pos s1 = 0" "\<not> pd_unmarshal_byte_swap s1"
    using c s(4,5) sw by (auto simp: ms.carries_def flags_kept_def)
  have "at_end s" using s by (simp add: at_end_def)
  from carries_at_end [OF c this] obtain u1 u2
    where u: "unmarshalOctet (ms_ops le heap) s1 = Inr (?o, u1)" "r u1 = Inr (v, u2)" by (auto simp: err_simps)
  have "\<exists>t t'. cdrEncapsulationStream_read le' heap' inl' a data True = Inr t \<and> r' t = Inr (v, t')" for a
  proof -
    obtain t where t: "cdrEncapsulationStream_read le' heap' inl' a data True = Inr t" "same_place t u1" "same_order le le' t u1"
      using encapsulation_opened [OF f(1) data f(2) _ u(1)] f(3) by blast
    from agreesD [OF ag t(2,3) u(2)] t(1) show ?thesis by blast
  qed
  moreover have "cdrEncapsulationStream_new le heap inl 0 True = Inr s0"
    using s(1) s0(1) by (simp add: cdrEncapsulationStream_new_def)
  moreover have "\<exists>s2. getOctetStream inl s1 = Inr (map Some data, s2)"
    using f(1) data by (auto simp: getOctetStream_def Let_def ms_wf_def ms_out_def)
  ultimately show ?thesis using s1(1) by blast
qed

end
