(* ===== verification/Code_Set_Select.thy ===== *)
theory Code_Set_Select
  imports Cdr_Encaps Utf8
begin

text \<open>
  The choice of the transmission code sets (\<^verbatim>\<open>orbcore/codeSets.cc\<close>): the lists of the code sets that are
  linked into the ORB, the component of an IOR that names the code sets of a server, the choice the
  client makes from it, and the service context that tells the server. A code set is given by its
  identifier, its name and, for a transmission code set, its GIOP version; a pointer to one is an
  option.
\<close>

section \<open>The registered code sets\<close>

record code_set =
  cs_id :: "32 word"
  cs_name :: string

text \<open>\<^verbatim>\<open>GIOP::Version\<close>: the major and the minor version.\<close>

record tcs = code_set +
  giopVersion :: "8 word \<times> 8 word"

record registry =
  ncs_c_head :: "code_set list"
  ncs_w_head :: "code_set list"
  tcs_c_head :: "tcs list"
  tcs_w_head :: "tcs list"

definition registerNCS_C :: "code_set \<Rightarrow> registry \<Rightarrow> registry" where
  "registerNCS_C cs r = r\<lparr>ncs_c_head := cs # ncs_c_head r\<rparr>"

definition registerNCS_W :: "code_set \<Rightarrow> registry \<Rightarrow> registry" where
  "registerNCS_W cs r = r\<lparr>ncs_w_head := cs # ncs_w_head r\<rparr>"

definition registerTCS_C :: "tcs \<Rightarrow> registry \<Rightarrow> registry" where
  "registerTCS_C cs r = r\<lparr>tcs_c_head := cs # tcs_c_head r\<rparr>"

definition registerTCS_W :: "tcs \<Rightarrow> registry \<Rightarrow> registry" where
  "registerTCS_W cs r = r\<lparr>tcs_w_head := cs # tcs_w_head r\<rparr>"

definition getNCS_C :: "registry \<Rightarrow> 32 word \<Rightarrow> code_set option" where
  "getNCS_C r i = List.find (\<lambda>cs. cs_id cs = i) (ncs_c_head r)"

definition getNCS_W :: "registry \<Rightarrow> 32 word \<Rightarrow> code_set option" where
  "getNCS_W r i = List.find (\<lambda>cs. cs_id cs = i) (ncs_w_head r)"

definition getTCS_C :: "registry \<Rightarrow> 32 word \<Rightarrow> 8 word \<times> 8 word \<Rightarrow> tcs option" where
  "getTCS_C r i v = List.find (\<lambda>cs. cs_id cs = i \<and> giopVersion cs = v) (tcs_c_head r)"

definition getTCS_W :: "registry \<Rightarrow> 32 word \<Rightarrow> 8 word \<times> 8 word \<Rightarrow> tcs option" where
  "getTCS_W r i v = List.find (\<lambda>cs. cs_id cs = i \<and> giopVersion cs = v) (tcs_w_head r)"

text \<open>The same by name.\<close>

definition nameNCS_C :: "registry \<Rightarrow> string \<Rightarrow> code_set option" where
  "nameNCS_C r n = List.find (\<lambda>cs. cs_name cs = n) (ncs_c_head r)"

definition nameNCS_W :: "registry \<Rightarrow> string \<Rightarrow> code_set option" where
  "nameNCS_W r n = List.find (\<lambda>cs. cs_name cs = n) (ncs_w_head r)"

definition nameTCS_C :: "registry \<Rightarrow> string \<Rightarrow> 8 word \<times> 8 word \<Rightarrow> tcs option" where
  "nameTCS_C r n v = List.find (\<lambda>cs. cs_name cs = n \<and> giopVersion cs = v) (tcs_c_head r)"

definition nameTCS_W :: "registry \<Rightarrow> string \<Rightarrow> 8 word \<times> 8 word \<Rightarrow> tcs option" where
  "nameTCS_W r n v = List.find (\<lambda>cs. cs_name cs = n \<and> giopVersion cs = v) (tcs_w_head r)"

section \<open>Options\<close>

record orbParameters =
  nativeCharCodeSet :: "code_set option"
  nativeWCharCodeSet :: "code_set option"
  anyCharCodeSet :: "tcs option"
  anyWCharCodeSet :: "tcs option"
  defaultCharCodeSet :: "tcs option"
  defaultWCharCodeSet :: "tcs option"

abbreviation "ID_8859_1 \<equiv> 0x00010001 :: 32 word"
abbreviation "GIOP12 \<equiv> (1, 2) :: 8 word \<times> 8 word"

text \<open>The handlers of the options; an unknown name raises \<^verbatim>\<open>orbOptions::BadParam\<close>, which is \<^term>\<open>None\<close>.\<close>

definition visit_nativeChar :: "registry \<Rightarrow> string \<Rightarrow> orbParameters \<Rightarrow> orbParameters option" where
  "visit_nativeChar r value p =
     (case nameNCS_C r value of None \<Rightarrow> None | Some v \<Rightarrow> Some (p\<lparr>nativeCharCodeSet := Some v\<rparr>))"

definition visit_nativeWChar :: "registry \<Rightarrow> string \<Rightarrow> orbParameters \<Rightarrow> orbParameters option" where
  "visit_nativeWChar r value p =
     (case nameNCS_W r value of None \<Rightarrow> None | Some v \<Rightarrow> Some (p\<lparr>nativeWCharCodeSet := Some v\<rparr>))"

definition visit_defaultChar :: "registry \<Rightarrow> string \<Rightarrow> orbParameters \<Rightarrow> orbParameters option" where
  "visit_defaultChar r value p =
     (case nameTCS_C r value GIOP12 of None \<Rightarrow> None | Some v \<Rightarrow> Some (p\<lparr>defaultCharCodeSet := Some v\<rparr>))"

definition visit_defaultWChar :: "registry \<Rightarrow> string \<Rightarrow> orbParameters \<Rightarrow> orbParameters option" where
  "visit_defaultWChar r value p =
     (case nameTCS_W r value GIOP12 of None \<Rightarrow> None
      | Some v \<Rightarrow>
          let p = p\<lparr>defaultWCharCodeSet := Some v\<rparr> in
          Some (if defaultCharCodeSet p = None then p\<lparr>defaultCharCodeSet := getTCS_C r ID_UTF_8 GIOP12\<rparr> else p))"

text \<open>What \<^verbatim>\<open>attach\<close> sets when the options did not; a null pointer is used only if nothing is registered.\<close>

definition attach_code_sets :: "registry \<Rightarrow> 8 word \<times> 8 word \<Rightarrow> orbParameters \<Rightarrow> orbParameters result" where
  "attach_code_sets r ver p =
     (let p = (if nativeCharCodeSet p = None then p\<lparr>nativeCharCodeSet := getNCS_C r ID_8859_1\<rparr> else p);
          p = (if nativeWCharCodeSet p = None then p\<lparr>nativeWCharCodeSet := getNCS_W r ID_UTF_16\<rparr> else p)
      in ebind (if anyCharCodeSet p = None
                then (case nativeCharCodeSet p of None \<Rightarrow> Inl Undefined
                      | Some c \<Rightarrow> Inr (p\<lparr>anyCharCodeSet := getTCS_C r (cs_id c) ver\<rparr>))
                else Inr p) (\<lambda>p.
         if anyWCharCodeSet p = None
         then (case nativeWCharCodeSet p of None \<Rightarrow> Inl Undefined
               | Some c \<Rightarrow> Inr (p\<lparr>anyWCharCodeSet := getTCS_W r (cs_id c) ver\<rparr>))
         else Inr p))"

section \<open>The component of an IOR\<close>

record CodeSetComponent =
  native_code_set :: "32 word"
  conversion_code_sets :: "32 word list"

record CodeSetComponentInfo =
  ForCharData :: CodeSetComponent
  ForWcharData :: CodeSetComponent

definition marshal_CodeSetComponent :: "'s cdrOps \<Rightarrow> CodeSetComponent \<Rightarrow> 's \<Rightarrow> 's result" where
  "marshal_CodeSetComponent ops c s =
     ebind (marshalULong ops s (native_code_set c)) (\<lambda>s. marshal_ULongSeq ops s (conversion_code_sets c))"

definition unmarshal_CodeSetComponent :: "'s str_io \<Rightarrow> 's \<Rightarrow> (CodeSetComponent \<times> 's) result" where
  "unmarshal_CodeSetComponent io s =
     ebind (unmarshalULong (prim io) s) (\<lambda>(n, s).
     ebind (unmarshal_ULongSeq io s) (\<lambda>(us, s).
     Inr (\<lparr>native_code_set = n, conversion_code_sets = us\<rparr>, s)))"

definition marshal_CodeSetComponentInfo :: "'s cdrOps \<Rightarrow> CodeSetComponentInfo \<Rightarrow> 's \<Rightarrow> 's result" where
  "marshal_CodeSetComponentInfo ops c s =
     ebind (marshal_CodeSetComponent ops (ForCharData c) s) (marshal_CodeSetComponent ops (ForWcharData c))"

definition unmarshal_CodeSetComponentInfo :: "'s str_io \<Rightarrow> 's \<Rightarrow> (CodeSetComponentInfo \<times> 's) result" where
  "unmarshal_CodeSetComponentInfo io s =
     ebind (unmarshal_CodeSetComponent io s) (\<lambda>(c, s).
     ebind (unmarshal_CodeSetComponent io s) (\<lambda>(w, s).
     Inr (\<lparr>ForCharData = c, ForWcharData = w\<rparr>, s)))"

text \<open>The code sets that this ORB puts into its IORs, and the octets of the component.\<close>

definition my_code_set_info :: "orbParameters \<Rightarrow> CodeSetComponentInfo result" where
  "my_code_set_info p =
     (case (nativeCharCodeSet p, nativeWCharCodeSet p) of
        (Some c, Some w) \<Rightarrow> Inr
          \<lparr>ForCharData = \<lparr>native_code_set = cs_id c, conversion_code_sets = [ID_UTF_8]\<rparr>,
           ForWcharData = \<lparr>native_code_set = cs_id w, conversion_code_sets = [ID_UTF_16]\<rparr>\<rparr>
      | _ \<Rightarrow> Inl Undefined)"

definition add_TAG_CODE_SETS :: "bool \<Rightarrow> (nat \<Rightarrow> nat) \<Rightarrow> nat \<Rightarrow> CodeSetComponentInfo \<Rightarrow> 8 word option list result" where
  "add_TAG_CODE_SETS le heap inl info =
     ebind (cdrEncapsulationStream_new le heap inl 0 True) (\<lambda>s.
     ebind (marshal_CodeSetComponentInfo (ms_ops le heap) info s) (\<lambda>s.
     ebind (getOctetStream inl s) (\<lambda>(octets, s). Inr octets)))"

text \<open>
  The choice: the native code set of the server, else the first of its conversion code sets that is
  known, else the fallback.
\<close>

fun first_known :: "(32 word \<Rightarrow> tcs option) \<Rightarrow> 32 word list \<Rightarrow> tcs option" where
  "first_known get [] = None"
| "first_known get (i # is) = (case get i of Some t \<Rightarrow> Some t | None \<Rightarrow> first_known get is)"

definition pick_tcs :: "(32 word \<Rightarrow> tcs option) \<Rightarrow> CodeSetComponent \<Rightarrow> 32 word \<Rightarrow> tcs option" where
  "pick_tcs get c fallback =
     (let t = (if native_code_set c \<noteq> 0 then get (native_code_set c) else None);
          t = (if t = None then first_known get (conversion_code_sets c) else t)
      in if t = None then get fallback else t)"

definition unmarshal_TAG_CODE_SETS ::
    "bool \<Rightarrow> (nat \<Rightarrow> nat) \<Rightarrow> nat \<Rightarrow> registry \<Rightarrow> 8 word \<times> 8 word \<Rightarrow> nat \<Rightarrow> 8 word list \<Rightarrow> (tcs option \<times> tcs option) result" where
  "unmarshal_TAG_CODE_SETS le heap inl r ver addr data =
     ebind (cdrEncapsulationStream_read le heap inl addr data True) (\<lambda>e.
     ebind (unmarshal_CodeSetComponentInfo (ms_io le heap) e) (\<lambda>(info, e).
     Inr (pick_tcs (\<lambda>i. getTCS_C r i ver) (ForCharData info) ID_UTF_8,
          pick_tcs (\<lambda>i. getTCS_W r i ver) (ForWcharData info) ID_UTF_16)))"

section \<open>The interceptors\<close>

text \<open>What a strand keeps of the negotiation, and a service context: its identifier and its octets.\<close>

record giopStrand =
  tcs_selected :: bool
  tcs_c :: "tcs option"
  tcs_w :: "tcs option"
  version :: "8 word \<times> 8 word"

definition giopStrand_new :: giopStrand where
  "giopStrand_new = \<lparr>tcs_selected = False, tcs_c = None, tcs_w = None, version = (0, 0)\<rparr>"

abbreviation "IOP_CodeSets \<equiv> 1 :: 32 word"

type_synonym service_context = "32 word \<times> 8 word list"

text \<open>The body of the service context: two identifiers.\<close>

definition code_sets_context :: "bool \<Rightarrow> (nat \<Rightarrow> nat) \<Rightarrow> nat \<Rightarrow> 32 word \<Rightarrow> 32 word \<Rightarrow> 8 word list result" where
  "code_sets_context le heap inl c w =
     ebind (cdrEncapsulationStream_new le heap inl 0 True) (\<lambda>s.
     ebind (marshalULong (ms_ops le heap) s c) (\<lambda>s.
     ebind (marshalULong (ms_ops le heap) s w) (\<lambda>s.
     ebind (getOctetStream inl s) (\<lambda>(octets, s). set_octets octets))))"

definition read_code_sets_context ::
    "bool \<Rightarrow> (nat \<Rightarrow> nat) \<Rightarrow> nat \<Rightarrow> nat \<Rightarrow> 8 word list \<Rightarrow> (32 word \<times> 32 word) result" where
  "read_code_sets_context le heap inl addr data =
     ebind (cdrEncapsulationStream_read le heap inl addr data True) (\<lambda>e.
     ebind (unmarshalULong (ms_ops le heap) e) (\<lambda>(c, e).
     ebind (unmarshalULong (ms_ops le heap) e) (\<lambda>(w, e).
     Inr (c, w))))"

text \<open>
  The client: the new strand, the code sets of the call and its service contexts. \<open>ior\<close> holds the code
  sets chosen for the IOR.
\<close>

definition setCodeSetServiceContext ::
    "bool \<Rightarrow> (nat \<Rightarrow> nat) \<Rightarrow> nat \<Rightarrow> registry \<Rightarrow> orbParameters \<Rightarrow> 8 word \<times> 8 word \<Rightarrow> tcs option \<times> tcs option \<Rightarrow>
     giopStrand \<Rightarrow> service_context list \<Rightarrow>
     (giopStrand \<times> (tcs option \<times> tcs option) \<times> service_context list) result" where
  "setCodeSetServiceContext le heap inl r p ver ior d contexts =
     (if tcs_selected d then Inr (d, (tcs_c d, tcs_w d), contexts)
      else if snd ver < 1 then
        (let d = d\<lparr>tcs_c := getTCS_C r ID_8859_1 ver, tcs_w := None, tcs_selected := True\<rparr>
         in Inr (d, (tcs_c d, tcs_w d), contexts))
      else
        let (c, w) = (if fst ior = None \<and> snd ior = None then (defaultCharCodeSet p, defaultWCharCodeSet p) else ior)
        in case c of
             Some t \<Rightarrow>
               ebind (code_sets_context le heap inl (cs_id t) (case w of None \<Rightarrow> 0 | Some w \<Rightarrow> cs_id w)) (\<lambda>data.
               Inr (d\<lparr>tcs_c := c, tcs_w := w, version := ver, tcs_selected := True\<rparr>, (c, w),
                    contexts @ [(IOP_CodeSets, data)]))
           | None \<Rightarrow> Inr (d, (getTCS_C r ID_8859_1 ver, None), contexts))"

text \<open>The server: the new strand and the code sets of the call. \<open>addr\<close> is where the octets of a context lie.\<close>

definition received_code_sets ::
    "bool \<Rightarrow> (nat \<Rightarrow> nat) \<Rightarrow> nat \<Rightarrow> nat \<Rightarrow> registry \<Rightarrow> 8 word \<times> 8 word \<Rightarrow> service_context list \<Rightarrow>
     (tcs option \<times> tcs option) option result" where
  "received_code_sets le heap inl addr r ver contexts =
     (case List.find (\<lambda>c. fst c = IOP_CodeSets) contexts of
        None \<Rightarrow> Inr None
      | Some c \<Rightarrow>
          ebind (read_code_sets_context le heap inl addr (snd c)) (\<lambda>(tcs_cid, tcs_wid).
          Inr (Some (if tcs_cid \<noteq> 0 then getTCS_C r tcs_cid ver else getTCS_C r ID_8859_1 ver,
                     if tcs_wid \<noteq> 0 then getTCS_W r tcs_wid ver else None))))"

definition getCodeSetServiceContext ::
    "bool \<Rightarrow> (nat \<Rightarrow> nat) \<Rightarrow> nat \<Rightarrow> nat \<Rightarrow> registry \<Rightarrow> orbParameters \<Rightarrow> 8 word \<times> 8 word \<Rightarrow> giopStrand \<Rightarrow>
     service_context list \<Rightarrow> (giopStrand \<times> (tcs option \<times> tcs option)) result" where
  "getCodeSetServiceContext le heap inl addr r p ver d contexts =
     (if snd ver < 1 then
        (let d = (if \<not> tcs_selected d then d\<lparr>tcs_c := getTCS_C r ID_8859_1 ver, tcs_w := None\<rparr> else d)
         in Inr (d, (tcs_c d, tcs_w d)))
      else
        ebind (received_code_sets le heap inl addr r ver contexts) (\<lambda>got.
        let d = (case got of None \<Rightarrow> d
                 | Some (c, w) \<Rightarrow> d\<lparr>version := ver, tcs_c := c, tcs_w := w, tcs_selected := True\<rparr>);
            d = (if \<not> tcs_selected d then
                   d\<lparr>version := ver, tcs_selected := True,
                     tcs_c := (case defaultCharCodeSet p of None \<Rightarrow> getTCS_C r ID_8859_1 ver | Some c \<Rightarrow> Some c),
                     tcs_w := defaultWCharCodeSet p\<rparr>
                 else d)
        in Inr (d, if version d \<noteq> ver then (getTCS_C r ID_8859_1 ver, None) else (tcs_c d, tcs_w d))))"

text \<open>
  The requests that one client sends over one connection: for each, the code sets of its IOR and the
  service contexts of other interceptors, and then the code sets that the two ends use.
\<close>

record orb =
  host :: bool
  heap_of :: "nat \<Rightarrow> nat"
  inline_at :: nat
  sets :: registry
  params :: orbParameters

fun requests ::
    "orb \<Rightarrow> orb \<Rightarrow> 8 word \<times> 8 word \<Rightarrow> giopStrand \<Rightarrow> giopStrand \<Rightarrow>
     ((tcs option \<times> tcs option) \<times> service_context list \<times> nat) list \<Rightarrow>
     ((tcs option \<times> tcs option) \<times> (tcs option \<times> tcs option)) list result" where
  "requests cli srv ver c s [] = Inr []"
| "requests cli srv ver c s ((ior, contexts, addr) # rs) =
     ebind (setCodeSetServiceContext (host cli) (heap_of cli) (inline_at cli) (sets cli) (params cli) ver ior c contexts)
       (\<lambda>(c, used, contexts).
     ebind (getCodeSetServiceContext (host srv) (heap_of srv) (inline_at srv) addr (sets srv) (params srv) ver s contexts)
       (\<lambda>(s, used').
     ebind (requests cli srv ver c s rs) (\<lambda>us. Inr ((used, used') # us))))"

end
