(* ===== verification/Code_Set_Select_Claims.thy ===== *)
theory Code_Set_Select_Claims
  imports Code_Set_Select
begin

text \<open>
  The choice of the code sets: what a server puts into its IORs arrives on every host, the client takes
  the native code set of the server when it has it, and the two ends of a connection use the same sets
  for every request on it.
\<close>

section \<open>The component crosses hosts\<close>

lemma CodeSetComponent_carries:
  assumes "ms_wf s" and "\<not> pd_marshal_byte_swap s" and "4 * length (conversion_code_sets c) < 2 ^ 31"
  shows "\<exists>s'. marshal_CodeSetComponent (ms_ops le heap) c s = Inr s' \<and>
    ms.carries le heap s (unmarshal_CodeSetComponent (ms_io le heap)) c s'"
proof -
  obtain s1 where s1: "marshalULong (ms_ops le heap) s (native_code_set c) = Inr s1"
    "ms.carries le heap s (unmarshalULong (ms_ops le heap)) (native_code_set c) s1"
    using ms.marshalULong_carries [OF assms(1)] by blast
  have "ms_wf s1" "\<not> pd_marshal_byte_swap s1" using s1(2) assms(2) by (auto simp: ms.carries_def flags_kept_def)
  from ULongSeq_carries [OF this assms(3)] obtain s2
    where s2: "marshal_ULongSeq (ms_ops le heap) s1 (conversion_code_sets c) = Inr s2"
      "ms.carries le heap s1 (unmarshal_ULongSeq (ms_io le heap)) (conversion_code_sets c) s2" by blast
  have "ms.carries le heap s (unmarshal_CodeSetComponent (ms_io le heap)) c s2"
    by (rule ms.carries_seq [OF s1(2) s2(2)]) (simp add: unmarshal_CodeSetComponent_def)
  with s1(1) s2(1) show ?thesis by (simp add: marshal_CodeSetComponent_def)
qed

definition small_info :: "CodeSetComponentInfo \<Rightarrow> bool" where
  "small_info info \<longleftrightarrow> 4 * length (conversion_code_sets (ForCharData info)) < 2 ^ 31 \<and>
     4 * length (conversion_code_sets (ForWcharData info)) < 2 ^ 31"

lemma CodeSetComponentInfo_carries:
  assumes "ms_wf s" and "\<not> pd_marshal_byte_swap s" and "small_info info"
  shows "\<exists>s'. marshal_CodeSetComponentInfo (ms_ops le heap) info s = Inr s' \<and>
    ms.carries le heap s (unmarshal_CodeSetComponentInfo (ms_io le heap)) info s'"
proof -
  note n = assms(3) [unfolded small_info_def]
  obtain s1 where s1: "marshal_CodeSetComponent (ms_ops le heap) (ForCharData info) s = Inr s1"
    "ms.carries le heap s (unmarshal_CodeSetComponent (ms_io le heap)) (ForCharData info) s1"
    using CodeSetComponent_carries [OF assms(1,2)] n by blast
  have "ms_wf s1" "\<not> pd_marshal_byte_swap s1" using s1(2) assms(2) by (auto simp: ms.carries_def flags_kept_def)
  then obtain s2 where s2: "marshal_CodeSetComponent (ms_ops le heap) (ForWcharData info) s1 = Inr s2"
    "ms.carries le heap s1 (unmarshal_CodeSetComponent (ms_io le heap)) (ForWcharData info) s2"
    using CodeSetComponent_carries n by blast
  have "ms.carries le heap s (unmarshal_CodeSetComponentInfo (ms_io le heap)) info s2"
    by (rule ms.carries_seq [OF s1(2) s2(2)]) (simp add: unmarshal_CodeSetComponentInfo_def)
  with s1(1) s2(1) show ?thesis by (simp add: marshal_CodeSetComponentInfo_def)
qed

lemma CodeSetComponentInfo_clean: "keeps_clean (marshal_CodeSetComponentInfo (ms_ops le heap) info)"
proof -
  have "keeps_clean (marshal_CodeSetComponent (ms_ops le heap) c)" for c
    unfolding marshal_CodeSetComponent_def by (intro keeps_clean_seq marshalULong_clean marshal_ULongSeq_clean)
  then show ?thesis unfolding marshal_CodeSetComponentInfo_def by (intro keeps_clean_seq)
qed

lemma CodeSetComponentInfo_agrees:
  "agrees le le' (unmarshal_CodeSetComponentInfo (ms_io le' heap')) (unmarshal_CodeSetComponentInfo (ms_io le heap))"
proof -
  have "agrees le le' (unmarshal_CodeSetComponent (ms_io le' heap')) (unmarshal_CodeSetComponent (ms_io le heap))"
    unfolding unmarshal_CodeSetComponent_def ms_io_simps
    by (intro agrees_seq ULong_agrees ULongSeq_agrees agrees_return)
  then show ?thesis unfolding unmarshal_CodeSetComponentInfo_def by (intro agrees_seq agrees_return)
qed

text \<open>The component with the code sets that an ORB puts into its IORs is read as it was written, on a
  host of either byte order and wherever its octets lie.\<close>

lemma component_crosses:
  assumes "small_info info"
  shows "\<exists>data. add_TAG_CODE_SETS le heap inl info = Inr (map Some data) \<and>
    (\<forall>a. unmarshal_TAG_CODE_SETS le' heap' inl' r ver a data =
       Inr (pick_tcs (\<lambda>i. getTCS_C r i ver) (ForCharData info) ID_UTF_8,
            pick_tcs (\<lambda>i. getTCS_W r i ver) (ForWcharData info) ID_UTF_16))"
proof -
  obtain s0 s1 data s2 where d: "cdrEncapsulationStream_new le heap inl 0 True = Inr s0"
    "marshal_CodeSetComponentInfo (ms_ops le heap) info s0 = Inr s1" "getOctetStream inl s1 = Inr (map Some data, s2)"
    and r: "\<forall>a. \<exists>t t'. cdrEncapsulationStream_read le' heap' inl' a data True = Inr t \<and>
      unmarshal_CodeSetComponentInfo (ms_io le' heap') t = Inr (info, t')"
    using encapsulation_carried [OF CodeSetComponentInfo_carries [OF _ _ assms] CodeSetComponentInfo_clean
        CodeSetComponentInfo_agrees] by metis
  have "add_TAG_CODE_SETS le heap inl info = Inr (map Some data)" using d by (simp add: add_TAG_CODE_SETS_def)
  moreover have "unmarshal_TAG_CODE_SETS le' heap' inl' r ver a data =
      Inr (pick_tcs (\<lambda>i. getTCS_C r i ver) (ForCharData info) ID_UTF_8,
           pick_tcs (\<lambda>i. getTCS_W r i ver) (ForWcharData info) ID_UTF_16)" for a
    using r [rule_format, of a] by (auto simp: unmarshal_TAG_CODE_SETS_def)
  ultimately show ?thesis by blast
qed

lemma code_sets_context_read:
  "\<exists>data. code_sets_context le heap inl c w = Inr data \<and> (\<forall>a. read_code_sets_context le' heap' inl' a data = Inr (c, w))"
proof -
  let ?w = "\<lambda>s. ebind (marshalULong (ms_ops le heap) s c) (\<lambda>s. marshalULong (ms_ops le heap) s w)"
  let ?r = "\<lambda>le heap t. ebind (unmarshalULong (ms_ops le heap) t) (\<lambda>(c, t).
    ebind (unmarshalULong (ms_ops le heap) t) (\<lambda>(w, t). Inr ((c, w), t)))"
  have carry: "\<exists>s'. ?w s = Inr s' \<and> ms.carries le heap s (?r le heap) (c, w) s'" if s: "ms_wf s" "\<not> pd_marshal_byte_swap s" for s
  proof -
    obtain s1 where s1: "marshalULong (ms_ops le heap) s c = Inr s1" "ms.carries le heap s (unmarshalULong (ms_ops le heap)) c s1"
      using ms.marshalULong_carries [OF s(1)] by blast
    then have "ms_wf s1" by (simp add: ms.carries_def)
    then obtain s2 where s2: "marshalULong (ms_ops le heap) s1 w = Inr s2" "ms.carries le heap s1 (unmarshalULong (ms_ops le heap)) w s2"
      using ms.marshalULong_carries by blast
    have "ms.carries le heap s (?r le heap) (c, w) s2" by (rule ms.carries_seq [OF s1(2) s2(2)]) simp
    with s1(1) s2(1) show ?thesis by simp
  qed
  have cl: "keeps_clean ?w" by (intro keeps_clean_seq marshalULong_clean)
  have ag: "agrees le le' (?r le' heap') (?r le heap)" by (intro agrees_seq ULong_agrees agrees_return)
  have "\<exists>s0 s1 data s2. cdrEncapsulationStream_new le heap inl 0 True = Inr s0 \<and> ?w s0 = Inr s1 \<and>
    getOctetStream inl s1 = Inr (map Some data, s2) \<and>
    (\<forall>a. \<exists>t t'. cdrEncapsulationStream_read le' heap' inl' a data True = Inr t \<and> ?r le' heap' t = Inr ((c, w), t'))"
    by (rule encapsulation_carried [OF _ cl ag]) (rule carry)
  then obtain s0 s1 data s2 where d: "cdrEncapsulationStream_new le heap inl 0 True = Inr s0" "?w s0 = Inr s1"
    "getOctetStream inl s1 = Inr (map Some data, s2)"
    and r: "\<forall>a. \<exists>t t'. cdrEncapsulationStream_read le' heap' inl' a data True = Inr t \<and> ?r le' heap' t = Inr ((c, w), t')"
    by (elim exE conjE) (rule that)
  have "set_octets (map Some data) = Inr data" by (auto simp: set_octets_def comp_def)
  moreover obtain x where "marshalULong (ms_ops le heap) s0 c = Inr x" "marshalULong (ms_ops le heap) x w = Inr s1"
    using d(2) by (auto simp: err_simps)
  ultimately have "code_sets_context le heap inl c w = Inr data"
    by (simp add: code_sets_context_def d(1,3))
  moreover have "read_code_sets_context le' heap' inl' a data = Inr (c, w)" for a
    using r [rule_format, of a] by (auto simp: read_code_sets_context_def err_simps)
  ultimately show ?thesis by blast
qed

section \<open>The choice of a client\<close>

lemma find_SomeD: "List.find P xs = Some x \<Longrightarrow> P x \<and> x \<in> set xs"
  by (induction xs) (auto split: if_splits)

lemma getTCS_id: "getTCS_C r i v = Some t \<Longrightarrow> cs_id t = i" "getTCS_W r i v = Some t \<Longrightarrow> cs_id t = i"
  unfolding getTCS_C_def getTCS_W_def by (auto dest: find_SomeD)

text \<open>C20. A client takes the native code sets of the server when it has them, for characters and for wide
  characters, and otherwise UTF-8 and UTF-16.\<close>

theorem servers_native_sets_chosen:
  assumes "nativeCharCodeSet p = Some c" and "nativeWCharCodeSet p = Some w" and "cs_id c \<noteq> 0" and "cs_id w \<noteq> 0"
  shows "\<exists>data. ebind (my_code_set_info p) (add_TAG_CODE_SETS le heap inl) = Inr (map Some data) \<and>
    unmarshal_TAG_CODE_SETS le' heap' inl' r ver a data =
      Inr (if getTCS_C r (cs_id c) ver = None then getTCS_C r ID_UTF_8 ver else getTCS_C r (cs_id c) ver,
           if getTCS_W r (cs_id w) ver = None then getTCS_W r ID_UTF_16 ver else getTCS_W r (cs_id w) ver)"
proof -
  let ?info = "\<lparr>ForCharData = \<lparr>native_code_set = cs_id c, conversion_code_sets = [ID_UTF_8]\<rparr>,
    ForWcharData = \<lparr>native_code_set = cs_id w, conversion_code_sets = [ID_UTF_16]\<rparr>\<rparr>"
  have "small_info ?info" by (simp add: small_info_def)
  note cr = component_crosses [OF this, of le heap inl le' heap' inl' r ver]
  have "pick_tcs get \<lparr>native_code_set = i, conversion_code_sets = [f]\<rparr> f = (if get i = None then get f else get i)"
    if "i \<noteq> 0" for get i f using that by (cases "get i"; cases "get f") (simp_all add: pick_tcs_def)
  with cr assms show ?thesis by (auto simp: my_code_set_info_def)
qed

definition plain_orb :: registry where
  "plain_orb =
     registerTCS_W \<lparr>cs_id = ID_UTF_16, cs_name = ''UTF-16'', giopVersion = (1, 2)\<rparr>
     (registerTCS_C \<lparr>cs_id = ID_UTF_8, cs_name = ''UTF-8'', giopVersion = (1, 2)\<rparr>
     (registerTCS_C \<lparr>cs_id = ID_8859_1, cs_name = ''ISO-8859-1'', giopVersion = (1, 2)\<rparr>
     (registerNCS_W \<lparr>cs_id = ID_UTF_16, cs_name = ''UTF-16''\<rparr>
     (registerNCS_C \<lparr>cs_id = ID_8859_1, cs_name = ''ISO-8859-1''\<rparr>
     \<lparr>ncs_c_head = [], ncs_w_head = [], tcs_c_head = [], tcs_w_head = []\<rparr>))))"

definition plain_params :: orbParameters where
  "plain_params = \<lparr>nativeCharCodeSet = getNCS_C plain_orb ID_8859_1, nativeWCharCodeSet = getNCS_W plain_orb ID_UTF_16,
     anyCharCodeSet = None, anyWCharCodeSet = None, defaultCharCodeSet = None, defaultWCharCodeSet = None\<rparr>"

lemmas plain_defs = plain_orb_def plain_params_def registerTCS_W_def registerTCS_C_def registerNCS_W_def registerNCS_C_def
  getNCS_C_def getNCS_W_def getTCS_C_def getTCS_W_def ID_UTF_8_def ID_UTF_16_def

theorem servers_native_sets_chosen_witness:
  "\<exists>data. ebind (my_code_set_info plain_params) (add_TAG_CODE_SETS True (\<lambda>n. 1000) 100) = Inr (map Some data) \<and>
     unmarshal_TAG_CODE_SETS False (\<lambda>n. 2000) 200 plain_orb (1, 2) 4 data =
       Inr (Some \<lparr>cs_id = ID_8859_1, cs_name = ''ISO-8859-1'', giopVersion = (1, 2)\<rparr>,
            Some \<lparr>cs_id = ID_UTF_16, cs_name = ''UTF-16'', giopVersion = (1, 2)\<rparr>)"
proof -
  have "nativeCharCodeSet plain_params = Some \<lparr>cs_id = ID_8859_1, cs_name = ''ISO-8859-1''\<rparr>"
    "nativeWCharCodeSet plain_params = Some \<lparr>cs_id = ID_UTF_16, cs_name = ''UTF-16''\<rparr>"
    by (simp_all add: plain_defs)
  from servers_native_sets_chosen [OF this, of True "\<lambda>n. 1000" 100 False "\<lambda>n. 2000" 200 plain_orb "(1, 2)" 4]
  show ?thesis by (simp add: plain_defs)
qed

section \<open>The two ends of a connection\<close>

text \<open>\<open>same_ids\<close>: the same code sets, by their identifiers. \<open>known\<close>: the server has what a client may choose.\<close>

definition same_ids :: "tcs option \<times> tcs option \<Rightarrow> tcs option \<times> tcs option \<Rightarrow> bool" where
  "same_ids u v \<longleftrightarrow> map_option cs_id (fst u) = map_option cs_id (fst v) \<and> map_option cs_id (snd u) = map_option cs_id (snd v)"

definition known :: "registry \<Rightarrow> 8 word \<times> 8 word \<Rightarrow> tcs option \<times> tcs option \<Rightarrow> bool" where
  "known r ver u \<longleftrightarrow>
     (\<forall>t. fst u = Some t \<longrightarrow> cs_id t \<noteq> 0 \<and> getTCS_C r (cs_id t) ver \<noteq> None) \<and>
     (\<forall>t. snd u = Some t \<longrightarrow> cs_id t \<noteq> 0 \<and> getTCS_W r (cs_id t) ver \<noteq> None)"

text \<open>What the two strands have in common between two requests.\<close>

definition agreed :: "orb \<Rightarrow> orb \<Rightarrow> 8 word \<times> 8 word \<Rightarrow> giopStrand \<Rightarrow> giopStrand \<Rightarrow> bool" where
  "agreed cli srv ver c s \<longleftrightarrow>
     (if snd ver < 1 then
        \<not> tcs_selected s \<and> (tcs_selected c \<longrightarrow> (tcs_c c, tcs_w c) = (getTCS_C (sets cli) ID_8859_1 ver, None))
      else
        (tcs_selected s \<longrightarrow> version s = ver) \<and>
        (if tcs_selected c then tcs_selected s \<and> same_ids (tcs_c c, tcs_w c) (tcs_c s, tcs_w s)
         else tcs_selected s \<longrightarrow> same_ids (getTCS_C (sets cli) ID_8859_1 ver, None) (tcs_c s, tcs_w s)))"

text \<open>The configurations of the two ORBs for which they agree.\<close>

definition compatible :: "orb \<Rightarrow> orb \<Rightarrow> 8 word \<times> 8 word \<Rightarrow> bool" where
  "compatible cli srv ver \<longleftrightarrow>
     getTCS_C (sets cli) ID_8859_1 ver \<noteq> None \<and> getTCS_C (sets srv) ID_8859_1 ver \<noteq> None \<and>
     known (sets srv) ver (defaultCharCodeSet (params cli), defaultWCharCodeSet (params cli)) \<and>
     (defaultCharCodeSet (params cli) = None \<longrightarrow>
        defaultCharCodeSet (params srv) = None \<and> defaultWCharCodeSet (params srv) = None)"

definition request_ok :: "orb \<Rightarrow> 8 word \<times> 8 word \<Rightarrow> (tcs option \<times> tcs option) \<times> service_context list \<times> nat \<Rightarrow> bool" where
  "request_ok srv ver q \<longleftrightarrow>
     (case q of (ior, contexts, addr) \<Rightarrow> known (sets srv) ver ior \<and> (fst ior = None \<longrightarrow> snd ior = None) \<and>
        (\<forall>x \<in> set contexts. fst x \<noteq> IOP_CodeSets))"

lemma default_ids:
  assumes "compatible cli srv ver"
  shows "same_ids (getTCS_C (sets cli) ID_8859_1 ver, None) (getTCS_C (sets srv) ID_8859_1 ver, None)"
proof -
  obtain t t' where "getTCS_C (sets cli) ID_8859_1 ver = Some t" "getTCS_C (sets srv) ID_8859_1 ver = Some t'"
    using assms by (auto simp: compatible_def)
  with getTCS_id(1) [OF this(1)] getTCS_id(1) [OF this(2)] show ?thesis by (simp add: same_ids_def)
qed

lemma no_context: "\<forall>x \<in> set contexts. fst x \<noteq> IOP_CodeSets \<Longrightarrow> List.find (\<lambda>c. fst c = IOP_CodeSets) contexts = None"
  by (induction contexts) auto

lemma last_context:
  "\<forall>x \<in> set contexts. fst x \<noteq> IOP_CodeSets \<Longrightarrow>
    List.find (\<lambda>c. fst c = IOP_CodeSets) (contexts @ [(IOP_CodeSets, data)]) = Some (IOP_CodeSets, data)"
  by (induction contexts) auto

text \<open>A request that carries the client's choice.\<close>

lemma request_with_context:
  assumes k: "known (sets srv) ver (Some t, w)" and v: "\<not> snd ver < 1"
    and d: "\<forall>a. read_code_sets_context (host srv) (heap_of srv) (inline_at srv) a data =
      Inr (cs_id t, case w of None \<Rightarrow> 0 | Some w \<Rightarrow> cs_id w)"
    and x: "\<forall>x \<in> set contexts. fst x \<noteq> IOP_CodeSets"
  shows "\<exists>s' c' w'. getCodeSetServiceContext (host srv) (heap_of srv) (inline_at srv) addr (sets srv) (params srv) ver s
      (contexts @ [(IOP_CodeSets, data)]) = Inr (s', (c', w')) \<and>
    same_ids (Some t, w) (c', w') \<and> tcs_selected s' \<and> version s' = ver \<and> tcs_c s' = c' \<and> tcs_w s' = w'"
proof -
  obtain t' where t': "getTCS_C (sets srv) (cs_id t) ver = Some t'" "cs_id t \<noteq> 0"
    using k by (auto simp: known_def)
  define w' where "w' = (case w of None \<Rightarrow> None | Some w \<Rightarrow> getTCS_W (sets srv) (cs_id w) ver)"
  have w': "map_option cs_id w' = map_option cs_id w"
  proof (cases w)
    case (Some x)
    then obtain y where "getTCS_W (sets srv) (cs_id x) ver = Some y" using k by (auto simp: known_def)
    with getTCS_id(2) [OF this] Some show ?thesis by (simp add: w'_def)
  qed (simp add: w'_def)
  let ?wid = "case w of None \<Rightarrow> 0 | Some w \<Rightarrow> cs_id w"
  have wid: "(?wid \<noteq> 0 \<longrightarrow> getTCS_W (sets srv) ?wid ver = w') \<and> (?wid = 0 \<longrightarrow> w' = None)"
    using k by (cases w) (simp_all add: known_def w'_def)
  have "received_code_sets (host srv) (heap_of srv) (inline_at srv) addr (sets srv) ver (contexts @ [(IOP_CodeSets, data)]) =
      Inr (Some (Some t', w'))"
    by (simp add: received_code_sets_def last_context [OF x] spec [OF d] t' wid)
  then show ?thesis
    using v getTCS_id(1) [OF t'(1)] w' by (simp add: getCodeSetServiceContext_def same_ids_def)
qed

text \<open>One request.\<close>

lemma request_agrees:
  assumes ok: "compatible cli srv ver" and q: "request_ok srv ver (ior, contexts, addr)" and a: "agreed cli srv ver c s"
  shows "\<exists>c' used contexts' s' used'.
    setCodeSetServiceContext (host cli) (heap_of cli) (inline_at cli) (sets cli) (params cli) ver ior c contexts =
      Inr (c', used, contexts') \<and>
    getCodeSetServiceContext (host srv) (heap_of srv) (inline_at srv) addr (sets srv) (params srv) ver s contexts' =
      Inr (s', used') \<and>
    same_ids used used' \<and> agreed cli srv ver c' s'"
proof -
  have x: "\<forall>x \<in> set contexts. fst x \<noteq> IOP_CodeSets" using q by (simp add: request_ok_def)
  have none: "received_code_sets (host srv) (heap_of srv) (inline_at srv) addr (sets srv) ver contexts = Inr None"
    using no_context [OF x] by (simp add: received_code_sets_def)
  note df = default_ids [OF ok]
  consider (old) "snd ver < 1" | (selected) "\<not> snd ver < 1" "tcs_selected c"
    | (choose) "\<not> snd ver < 1" "\<not> tcs_selected c" by blast
  then show ?thesis
  proof cases
    case old
    then show ?thesis using a df
      by (cases "tcs_selected c")
        (auto simp: setCodeSetServiceContext_def getCodeSetServiceContext_def agreed_def Let_def)
  next
    case selected
    then show ?thesis using a none
      by (auto simp: setCodeSetServiceContext_def getCodeSetServiceContext_def agreed_def)
  next
    case choose
    define cw where "cw = (if fst ior = None \<and> snd ior = None
      then (defaultCharCodeSet (params cli), defaultWCharCodeSet (params cli)) else ior)"
    have k: "known (sets srv) ver cw" using ok q by (simp add: cw_def compatible_def request_ok_def)
    show ?thesis
    proof (cases "fst cw")
      case None
      then have n: "defaultCharCodeSet (params cli) = None" "fst ior = None"
        using q by (auto simp: cw_def request_ok_def split: if_splits)
      then have "defaultCharCodeSet (params srv) = None" "defaultWCharCodeSet (params srv) = None"
        using ok by (simp_all add: compatible_def)
      moreover have "setCodeSetServiceContext (host cli) (heap_of cli) (inline_at cli) (sets cli) (params cli) ver ior c contexts =
          Inr (c, (getTCS_C (sets cli) ID_8859_1 ver, None), contexts)"
        using choose None unfolding setCodeSetServiceContext_def cw_def [symmetric]
        by (simp add: split_def)
      ultimately show ?thesis
        using choose a none df by (auto simp: getCodeSetServiceContext_def agreed_def)
    next
      case (Some t)
      obtain w where cw: "cw = (Some t, w)" using Some by (cases cw) simp
      let ?w = "case w of None \<Rightarrow> 0 | Some w \<Rightarrow> cs_id w"
      obtain data where data: "code_sets_context (host cli) (heap_of cli) (inline_at cli) (cs_id t) ?w = Inr data"
        "\<forall>a. read_code_sets_context (host srv) (heap_of srv) (inline_at srv) a data = Inr (cs_id t, ?w)"
        using code_sets_context_read by blast
      have "setCodeSetServiceContext (host cli) (heap_of cli) (inline_at cli) (sets cli) (params cli) ver ior c contexts =
          Inr (c\<lparr>tcs_c := Some t, tcs_w := w, version := ver, tcs_selected := True\<rparr>, (Some t, w),
            contexts @ [(IOP_CodeSets, data)])"
        using choose data(1) cw unfolding setCodeSetServiceContext_def cw_def [symmetric]
        by (simp add: split_def)
      then show ?thesis
        using request_with_context [OF k [unfolded cw] choose(1) data(2) x, of addr s] choose(1)
        by (auto simp: agreed_def)
    qed
  qed
qed

text \<open>C3. On one connection, the client and the server use the same transmission code sets in every
  request, whatever the hosts and the IORs, as long as the server has the sets that the client chooses and
  the options of the two ORBs fit.\<close>

theorem code_sets_agree:
  assumes "compatible cli srv ver" and "\<forall>q \<in> set rs. request_ok srv ver q"
  shows "\<exists>us. requests cli srv ver giopStrand_new giopStrand_new rs = Inr us \<and> length us = length rs \<and>
    (\<forall>(u, v) \<in> set us. same_ids u v)"
proof -
  have "\<exists>us. requests cli srv ver c s rs = Inr us \<and> length us = length rs \<and> (\<forall>(u, v) \<in> set us. same_ids u v)"
    if "agreed cli srv ver c s" for c s
    using that assms(2)
  proof (induction rs arbitrary: c s)
    case (Cons q rs)
    obtain ior contexts addr where q: "q = (ior, contexts, addr)" by (cases q)
    have "request_ok srv ver (ior, contexts, addr)" using Cons.prems(2) q by simp
    from request_agrees [OF assms(1) this Cons.prems(1)] obtain c' used contexts' s' used' where
      step: "setCodeSetServiceContext (host cli) (heap_of cli) (inline_at cli) (sets cli) (params cli) ver ior c contexts =
        Inr (c', used, contexts')"
      "getCodeSetServiceContext (host srv) (heap_of srv) (inline_at srv) addr (sets srv) (params srv) ver s contexts' =
        Inr (s', used')"
      "same_ids used used'" "agreed cli srv ver c' s'" by blast
    obtain us where "requests cli srv ver c' s' rs = Inr us" "length us = length rs" "\<forall>(u, v) \<in> set us. same_ids u v"
      using Cons.IH [OF step(4)] Cons.prems(2) by auto
    with step(1-3) show ?case by (auto simp: q)
  qed simp
  moreover have "agreed cli srv ver giopStrand_new giopStrand_new" by (simp add: agreed_def giopStrand_new_def)
  ultimately show ?thesis by blast
qed

definition plain_client :: orb where
  "plain_client = \<lparr>host = True, heap_of = (\<lambda>n. 1000), inline_at = 100, sets = plain_orb, params = plain_params\<rparr>"

definition plain_server :: orb where
  "plain_server = \<lparr>host = False, heap_of = (\<lambda>n. 2000), inline_at = 204, sets = plain_orb, params = plain_params\<rparr>"

theorem code_sets_agree_witness:
  "\<exists>us. requests plain_client plain_server (1, 2) giopStrand_new giopStrand_new
       [((None, None), [], 4), ((getTCS_C plain_orb ID_UTF_8 (1, 2), getTCS_W plain_orb ID_UTF_16 (1, 2)), [(5, [1, 2])], 7),
        ((None, None), [], 8)] = Inr us \<and>
     length us = length [((None, None), [], 4), ((getTCS_C plain_orb ID_UTF_8 (1, 2), getTCS_W plain_orb ID_UTF_16 (1, 2)), [(5 :: 32 word, [1, 2 :: 8 word])], 7),
        ((None :: tcs option, None :: tcs option), [], 8 :: nat)] \<and> (\<forall>(u, v) \<in> set us. same_ids u v)"
  by (rule code_sets_agree)
    (simp_all add: compatible_def request_ok_def known_def plain_client_def plain_server_def plain_defs)

text \<open>On a strand that has negotiated code sets for GIOP 1.2, a request of GIOP 1.0 uses them, although the
  comment in the code says that it is treated as if no negotiation had taken place, as a request of GIOP 1.1 is.\<close>

lemma older_version_keeps_selection:
  assumes "tcs_selected s" and "version s = (1, 2)"
    and "received_code_sets le heap inl addr r (1, 1) contexts = Inr None"
  shows "getCodeSetServiceContext le heap inl addr r p (1, 0) s contexts = Inr (s, (tcs_c s, tcs_w s))"
    and "getCodeSetServiceContext le heap inl addr r p (1, 1) s contexts = Inr (s, (getTCS_C r ID_8859_1 (1, 1), None))"
  using assms by (simp_all add: getCodeSetServiceContext_def)

end
