(* ===== verification/Object_Table.thy ===== *)
theory Object_Table
  imports Prelude
begin

unbundle bit_operations_syntax

text \<open>
  The table of local objects (\<^verbatim>\<open>orbcore/omniInternal.cc\<close>, \<^verbatim>\<open>internal/objectTable.h\<close>): a hash table of
  entries chained through \<^verbatim>\<open>pd_nextInObjectTable\<close>, resized as it grows and shrinks, and the operations
  on one entry: its states, its reference count, its condition variable.

  The entries live in a store that maps addresses to records; a freed entry is not in it, and reading
  one is \<open>Undefined\<close>. All of this code holds \<^verbatim>\<open>omni::internalLock\<close>, so each operation is one step of
  the state. A walk along a chain is a partial function: a chain that runs in a circle makes it not
  return. The hash of a key that the callers of the table compute is \<open>hash\<close>.
\<close>

type_synonym addr = nat

section \<open>Entries\<close>

datatype State = ACTIVATING | ACTIVE | DEACTIVATING | DEACTIVATING_OA | ETHEREALISING | DEAD

fun state_bits :: "State \<Rightarrow> 32 word" where
  "state_bits ACTIVATING = 1"
| "state_bits ACTIVE = 2"
| "state_bits DEACTIVATING = 4"
| "state_bits DEACTIVATING_OA = 20"
| "state_bits ETHEREALISING = 8"
| "state_bits DEAD = 0"

text \<open>The order in which an entry goes through its states.\<close>

fun stage :: "State \<Rightarrow> nat" where
  "stage ACTIVATING = 0"
| "stage ACTIVE = 1"
| "stage DEACTIVATING = 2"
| "stage DEACTIVATING_OA = 3"
| "stage ETHEREALISING = 4"
| "stage DEAD = 5"

lemma stage_inj: "stage s = stage s' \<longleftrightarrow> s = s'"
  by (cases s; cases s') simp_all

instantiation State :: linorder
begin

definition less_eq_State :: "State \<Rightarrow> State \<Rightarrow> bool" where
  "less_eq_State s s' \<longleftrightarrow> stage s \<le> stage s'"

definition less_State :: "State \<Rightarrow> State \<Rightarrow> bool" where
  "less_State s s' \<longleftrightarrow> stage s < stage s'"

instance
  by standard (auto simp: less_eq_State_def less_State_def stage_inj)

end

definition ALL_STATES :: "32 word" where
  "ALL_STATES = 15"

text \<open>\<^verbatim>\<open>pd_state & set\<close>\<close>

definition in_set :: "State \<Rightarrow> 32 word \<Rightarrow> bool" where
  "in_set s states \<longleftrightarrow> state_bits s AND states \<noteq> 0"

text \<open>
  \<open>pd_cond\<close> is \<open>None\<close> until the first call of \<^verbatim>\<open>wait\<close> makes the condition variable, which is then the
  list of the threads that are blocked on it.
\<close>

record omniObjTableEntry =
  pd_key :: "8 word list"
  pd_state :: State
  pd_nextInObjectTable :: "addr option"
  pd_nInvocations :: int
  pd_servant :: "addr option"
  pd_adapter :: "addr option"
  pd_deactivated :: bool
  pd_cond :: "nat list option"
  pd_waiters :: int
  pd_refCount :: int
  pd_objRefs :: "addr list"

definition omniObjTableEntry_new :: "8 word list \<Rightarrow> omniObjTableEntry" where
  "omniObjTableEntry_new key =
     \<lparr>pd_key = key, pd_state = ACTIVATING, pd_nextInObjectTable = None, pd_nInvocations = 1,
      pd_servant = None, pd_adapter = None, pd_deactivated = False, pd_cond = None,
      pd_waiters = 0, pd_refCount = 1, pd_objRefs = []\<rparr>"

section \<open>The table\<close>

record omniObjTable =
  store :: "addr \<Rightarrow> omniObjTableEntry option"
  pd_activations :: "addr \<Rightarrow> addr list"
  objectTable :: "addr option list"
  objectTableSize :: "32 word"
  objectTableSizeI :: nat
  numObjectsInTable :: "32 word"
  maxNumObjects :: "32 word"
  minNumObjects :: "32 word"

definition objTblSizes :: "int list" where
  "objTblSizes =
    [128 + 3, 1024 + 9, 8192 + 27, 32768 + 3, 65536 + 45, 131072 + 9, 262144 + 39, 524288 + 39,
     1048576 + 9, 2097152 + 5, 4194304 + 3, 8388608 + 33, 16777216 + 27, 33554432 + 9,
     67108864 + 71, 134217728 + 39, 268435456 + 9, 536870912 + 5, 1073741824 + 83, - 1]"

text \<open>\<^verbatim>\<open>omni::hash\<close>, the FNV-1a hash.\<close>

definition hash :: "8 word list \<Rightarrow> 32 word" where
  "hash key = foldl (\<lambda>n c. (n XOR ucast c) * 0x1000193) 0x811c9dc5 key"

text \<open>The table at start-up, with the parameter \<^verbatim>\<open>orbParameters::objectTableSize\<close>.\<close>

definition attach :: "32 word \<Rightarrow> omniObjTable" where
  "attach param =
     (let size = (if param \<noteq> 0 then param else of_int (objTblSizes ! 0)) in
      \<lparr>store = (\<lambda>_. None), pd_activations = (\<lambda>_. []),
       objectTable = replicate (unat size) None, objectTableSize = size, objectTableSizeI = 0,
       numObjectsInTable = 0,
       maxNumObjects = (if param \<noteq> 0 then 2 ^ 31 else size * 2 div 3),
       minNumObjects = 0\<rparr>)"

definition get_entry :: "omniObjTable \<Rightarrow> addr \<Rightarrow> omniObjTableEntry result" where
  "get_entry t a = (case store t a of None \<Rightarrow> Inl Undefined | Some e \<Rightarrow> Inr e)"

definition put_entry :: "omniObjTable \<Rightarrow> addr \<Rightarrow> omniObjTableEntry \<Rightarrow> omniObjTable" where
  "put_entry t a e = t\<lparr>store := (store t)(a \<mapsto> e)\<rparr>"

text \<open>What a walk returns.\<close>

definition returned :: "'a result option \<Rightarrow> 'a result" where
  "returned r = (case r of None \<Rightarrow> Inl NoReturn | Some r \<Rightarrow> r)"

section \<open>Searching\<close>

partial_function (option) find_entry ::
    "(addr \<Rightarrow> omniObjTableEntry option) \<Rightarrow> 8 word list \<Rightarrow> addr option \<Rightarrow> addr option result option" where
  "find_entry st key p =
     (case p of None \<Rightarrow> Some (Inr None)
      | Some a \<Rightarrow>
          (case st a of None \<Rightarrow> Some (Inl Undefined)
           | Some e \<Rightarrow> if pd_key e = key then Some (Inr (Some a))
                     else find_entry st key (pd_nextInObjectTable e)))"

definition lookup :: "omniObjTable \<Rightarrow> 8 word list \<Rightarrow> 32 word \<Rightarrow> addr option result" where
  "lookup t key hashv =
     ebind (arr_get (objectTable t) (unat (hashv mod objectTableSize t))) (\<lambda>head.
     returned (find_entry (store t) key head))"

section \<open>Resizing\<close>

definition set_next :: "omniObjTableEntry \<Rightarrow> addr option \<Rightarrow> omniObjTableEntry" where
  "set_next e p = e\<lparr>pd_nextInObjectTable := p\<rparr>"

text \<open>The inner loop takes the entries of a bucket over one by one.\<close>

type_synonym moving = "(addr \<Rightarrow> omniObjTableEntry option) \<times> addr option list"

partial_function (option) move_chain :: "32 word \<Rightarrow> moving \<Rightarrow> addr option \<Rightarrow> moving result option" where
  "move_chain newsize m p =
     (case p of None \<Rightarrow> Some (Inr m)
      | Some a \<Rightarrow>
          (case fst m a of None \<Rightarrow> Some (Inl Undefined)
           | Some e \<Rightarrow>
               if length (snd m) \<le> unat (hash (pd_key e) mod newsize) then Some (Inl Undefined)
               else move_chain newsize
                 ((fst m)(a \<mapsto> set_next e (snd m ! unat (hash (pd_key e) mod newsize))),
                  (snd m)[unat (hash (pd_key e) mod newsize) := Some a])
                 (pd_nextInObjectTable e)))"

fun move_buckets :: "32 word \<Rightarrow> moving \<Rightarrow> addr option list \<Rightarrow> moving result" where
  "move_buckets newsize m [] = Inr m"
| "move_buckets newsize m (p # ps) =
     ebind (returned (move_chain newsize m p)) (\<lambda>m. move_buckets newsize m ps)"

definition resize_to :: "omniObjTable \<Rightarrow> nat \<Rightarrow> omniObjTable result" where
  "resize_to t i =
     ebind (arr_get objTblSizes i) (\<lambda>newsizei.
     if newsizei = - 1 then Inr (t\<lparr>objectTableSizeI := i - 1, maxNumObjects := 2 ^ 31\<rparr>)
     else let newsize = of_int newsizei :: 32 word in
       ebind (move_buckets newsize (store t, replicate (unat newsize) None)
                (take (unat (objectTableSize t)) (objectTable t))) (\<lambda>(st, newtable).
       Inr (t\<lparr>store := st, objectTable := newtable, objectTableSize := newsize,
              objectTableSizeI := i, maxNumObjects := newsize * 2 div 3,
              minNumObjects := (if i \<noteq> 0 then of_int (objTblSizes ! (i - 1) div 3) else 0)\<rparr>)))"

definition resize :: "omniObjTable \<Rightarrow> omniObjTable result" where
  "resize t =
     ebind (oassert (maxNumObjects t < numObjectsInTable t \<or>
                     (numObjectsInTable t < minNumObjects t \<and> 0 < objectTableSizeI t))) (\<lambda>_.
     if maxNumObjects t < numObjectsInTable t then resize_to t (objectTableSizeI t + 1)
     else if numObjectsInTable t < minNumObjects t \<and> 0 < objectTableSizeI t
          then resize_to t (objectTableSizeI t - 1)
     else Inr t)"

section \<open>Insertion\<close>

text \<open>\<open>a\<close> is the address that \<^verbatim>\<open>new\<close> returns.\<close>

definition newEntry :: "omniObjTable \<Rightarrow> 8 word list \<Rightarrow> 32 word \<Rightarrow> addr \<Rightarrow> (addr option \<times> omniObjTable) result" where
  "newEntry t key hashv a =
     ebind (lookup t key hashv) (\<lambda>entry.
     case entry of Some _ \<Rightarrow> Inr (None, t)
     | None \<Rightarrow>
         (let t = t\<lparr>numObjectsInTable := numObjectsInTable t + 1\<rparr> in
          ebind (if maxNumObjects t < numObjectsInTable t then resize t else Inr t) (\<lambda>t.
          let i = unat (hashv mod objectTableSize t) in
          ebind (arr_get (objectTable t) i) (\<lambda>head.
          Inr (Some a, t\<lparr>store := (store t)(a \<mapsto> (omniObjTableEntry_new key)\<lparr>pd_nextInObjectTable := head\<rparr>),
                         objectTable := (objectTable t)[i := Some a]\<rparr>)))))"

section \<open>References\<close>

definition gainRef :: "omniObjTable \<Rightarrow> addr \<Rightarrow> addr option \<Rightarrow> omniObjTable result" where
  "gainRef t a objref =
     ebind (get_entry t a) (\<lambda>e.
     Inr (put_entry t a (e\<lparr>pd_refCount := pd_refCount e + 1,
       pd_objRefs := (case objref of None \<Rightarrow> pd_objRefs e | Some r \<Rightarrow> pd_objRefs e @ [r])\<rparr>)))"

definition loseRef :: "omniObjTable \<Rightarrow> addr \<Rightarrow> addr option \<Rightarrow> omniObjTable result" where
  "loseRef t a objref =
     ebind (get_entry t a) (\<lambda>e.
     ebind (case objref of None \<Rightarrow> Inr (pd_objRefs e)
            | Some r \<Rightarrow> ebind (oassert (r \<in> set (pd_objRefs e))) (\<lambda>_. Inr (remove1 r (pd_objRefs e)))) (\<lambda>refs.
     let e = e\<lparr>pd_objRefs := refs, pd_refCount := pd_refCount e - 1\<rparr> in
     if 0 < pd_refCount e then Inr (put_entry t a e)
     else ebind (oassert (pd_refCount e = 0)) (\<lambda>_.
          ebind (oassert (pd_waiters e = 0)) (\<lambda>_.
          ebind (oassert (pd_objRefs e = [])) (\<lambda>_.
          Inr (t\<lparr>store := (store t)(a := None)\<rparr>))))))"

section \<open>State changes\<close>

text \<open>\<open>e\<close> is the entry at \<open>a\<close> as it is when the servant is told.\<close>

definition addActivation :: "omniObjTable \<Rightarrow> addr \<Rightarrow> omniObjTableEntry \<Rightarrow> addr \<Rightarrow> omniObjTable result" where
  "addActivation t servant e a =
     ebind (oassert (pd_servant e = Some servant)) (\<lambda>_.
     Inr (t\<lparr>pd_activations := (pd_activations t)(servant := pd_activations t servant @ [a])\<rparr>))"

definition removeActivation :: "omniObjTable \<Rightarrow> addr \<Rightarrow> addr \<Rightarrow> omniObjTable result" where
  "removeActivation t servant a =
     ebind (oassert (a \<in> set (pd_activations t servant))) (\<lambda>_.
     Inr (t\<lparr>pd_activations := (pd_activations t)(servant := remove1 a (pd_activations t servant))\<rparr>))"

text \<open>\<^verbatim>\<open>if (pd_waiters) pd_cond->broadcast()\<close>\<close>

definition broadcast :: "omniObjTableEntry \<Rightarrow> omniObjTableEntry result" where
  "broadcast e =
     (if pd_waiters e \<noteq> 0
      then case pd_cond e of None \<Rightarrow> Inl Undefined | Some _ \<Rightarrow> Inr (e\<lparr>pd_cond := Some []\<rparr>)
      else Inr e)"

definition setServant :: "omniObjTableEntry \<Rightarrow> addr \<Rightarrow> addr \<Rightarrow> omniObjTableEntry result" where
  "setServant e servant oa =
     ebind (oassert (pd_servant e = None)) (\<lambda>_.
     ebind (oassert (pd_adapter e = None)) (\<lambda>_.
     Inr (e\<lparr>pd_servant := Some servant, pd_adapter := Some oa\<rparr>)))"

definition setActive :: "omniObjTable \<Rightarrow> addr \<Rightarrow> addr \<Rightarrow> addr \<Rightarrow> omniObjTable result" where
  "setActive t a servant adapter =
     ebind (get_entry t a) (\<lambda>e.
     ebind (oassert (pd_state e = ACTIVATING)) (\<lambda>_.
     ebind (setServant e servant adapter) (\<lambda>e.
     ebind (addActivation t servant e a) (\<lambda>t.
     ebind (broadcast (e\<lparr>pd_state := ACTIVE\<rparr>)) (\<lambda>e. Inr (put_entry t a e))))))"

definition setDeactivating :: "omniObjTable \<Rightarrow> addr \<Rightarrow> omniObjTable result" where
  "setDeactivating t a =
     ebind (get_entry t a) (\<lambda>e.
     ebind (oassert (pd_state e = ACTIVE)) (\<lambda>_.
     ebind (oassert (0 < pd_nInvocations e)) (\<lambda>_.
     ebind (broadcast (e\<lparr>pd_state := DEACTIVATING, pd_nInvocations := pd_nInvocations e - 1\<rparr>)) (\<lambda>e.
     Inr (put_entry t a e)))))"

definition setDeactivatingOA :: "omniObjTable \<Rightarrow> addr \<Rightarrow> omniObjTable result" where
  "setDeactivatingOA t a =
     ebind (get_entry t a) (\<lambda>e.
     ebind (oassert (pd_state e = ACTIVE)) (\<lambda>_.
     ebind (oassert (0 < pd_nInvocations e)) (\<lambda>_.
     ebind (broadcast (e\<lparr>pd_state := DEACTIVATING_OA, pd_nInvocations := pd_nInvocations e - 1\<rparr>)) (\<lambda>e.
     Inr (put_entry t a e)))))"

definition setEtherealising :: "omniObjTable \<Rightarrow> addr \<Rightarrow> omniObjTable result" where
  "setEtherealising t a =
     ebind (get_entry t a) (\<lambda>e.
     ebind (oassert (in_set (pd_state e) (state_bits DEACTIVATING))) (\<lambda>_.
     case pd_servant e of None \<Rightarrow> Inl Undefined
     | Some servant \<Rightarrow>
         ebind (removeActivation t servant a) (\<lambda>t.
         ebind (broadcast (e\<lparr>pd_state := ETHEREALISING, pd_deactivated := True\<rparr>)) (\<lambda>e.
         Inr (put_entry t a e)))))"

text \<open>
  \<^verbatim>\<open>setDead\<close> looks for the pointer that points to the entry: the head of the bucket, or the next
  pointer of the entry before it.
\<close>

datatype link = Bucket nat | NextOf addr

definition read_link :: "omniObjTable \<Rightarrow> link \<Rightarrow> addr option result" where
  "read_link t pid =
     (case pid of Bucket i \<Rightarrow> arr_get (objectTable t) i
      | NextOf b \<Rightarrow> ebind (get_entry t b) (\<lambda>e. Inr (pd_nextInObjectTable e)))"

definition write_link :: "omniObjTable \<Rightarrow> link \<Rightarrow> addr option \<Rightarrow> omniObjTable result" where
  "write_link t pid p =
     (case pid of
        Bucket i \<Rightarrow> ebind (arr_set (objectTable t) i p) (\<lambda>tab. Inr (t\<lparr>objectTable := tab\<rparr>))
      | NextOf b \<Rightarrow> ebind (get_entry t b) (\<lambda>e. Inr (put_entry t b (e\<lparr>pd_nextInObjectTable := p\<rparr>))))"

partial_function (option) seek :: "omniObjTable \<Rightarrow> addr \<Rightarrow> link \<Rightarrow> link option result option" where
  "seek t a pid =
     (case read_link t pid of Inl err \<Rightarrow> Some (Inl err)
      | Inr None \<Rightarrow> Some (Inr None)
      | Inr (Some b) \<Rightarrow> if b = a then Some (Inr (Some pid)) else seek t a (NextOf b))"

definition unlink :: "omniObjTable \<Rightarrow> addr \<Rightarrow> omniObjTable result" where
  "unlink t a =
     ebind (get_entry t a) (\<lambda>e.
     ebind (returned (seek t a (Bucket (unat (hash (pd_key e) mod objectTableSize t))))) (\<lambda>pid.
     case pid of None \<Rightarrow> Inl AssertFail
     | Some pid \<Rightarrow> write_link t pid (pd_nextInObjectTable e)))"

definition become_dead :: "omniObjTable \<Rightarrow> addr \<Rightarrow> omniObjTable result" where
  "become_dead t a =
     ebind (get_entry t a) (\<lambda>e.
     ebind (case pd_servant e of
              Some servant \<Rightarrow>
                (if pd_state e \<noteq> ETHEREALISING
                 then ebind (removeActivation t servant a) (\<lambda>t. Inr (t, e\<lparr>pd_deactivated := True\<rparr>))
                 else Inr (t, e))
            | None \<Rightarrow> Inr (t, e)) (\<lambda>(t, e).
     ebind (broadcast (e\<lparr>pd_state := DEAD\<rparr>)) (\<lambda>e.
     loseRef (put_entry t a e) a None)))"

definition setDead :: "omniObjTable \<Rightarrow> addr \<Rightarrow> omniObjTable result" where
  "setDead t a =
     ebind (unlink t a) (\<lambda>t.
     let t = t\<lparr>numObjectsInTable := numObjectsInTable t - 1\<rparr> in
     ebind (if numObjectsInTable t < minNumObjects t then resize t else Inr t) (\<lambda>t.
     become_dead t a))"

section \<open>Waiting\<close>

text \<open>
  \<^verbatim>\<open>wait\<close> up to the point where the thread \<open>th\<close> blocks (\<open>None\<close>), and from the point where it has
  been woken and holds the lock again. Both return the state of the entry when the call returns.
\<close>

definition block_on :: "omniObjTableEntry \<Rightarrow> nat \<Rightarrow> omniObjTableEntry" where
  "block_on e th = e\<lparr>pd_cond := Some (case pd_cond e of None \<Rightarrow> [th] | Some ths \<Rightarrow> ths @ [th])\<rparr>"

definition wait_enter :: "omniObjTable \<Rightarrow> addr \<Rightarrow> 32 word \<Rightarrow> nat \<Rightarrow> (State option \<times> omniObjTable) result" where
  "wait_enter t a states th =
     ebind (get_entry t a) (\<lambda>e.
     if in_set (pd_state e) states then Inr (Some (pd_state e), t)
     else
       (let e = e\<lparr>pd_cond := Some (case pd_cond e of None \<Rightarrow> [] | Some ths \<Rightarrow> ths)\<rparr> in
        ebind (gainRef (put_entry t a e) a None) (\<lambda>t.
        ebind (get_entry t a) (\<lambda>e.
        let e = e\<lparr>pd_waiters := pd_waiters e + 1\<rparr> in
        if pd_state e \<noteq> DEAD \<and> \<not> in_set (pd_state e) states
        then Inr (None, put_entry t a (block_on e th))
        else ebind (loseRef (put_entry t a (e\<lparr>pd_waiters := pd_waiters e - 1\<rparr>)) a None) (\<lambda>t.
             Inr (Some (pd_state e), t))))))"

definition wait_wake :: "omniObjTable \<Rightarrow> addr \<Rightarrow> 32 word \<Rightarrow> nat \<Rightarrow> (State option \<times> omniObjTable) result" where
  "wait_wake t a states th =
     ebind (get_entry t a) (\<lambda>e.
     if pd_state e \<noteq> DEAD \<and> \<not> in_set (pd_state e) states
     then Inr (None, put_entry t a (block_on e th))
     else ebind (loseRef (put_entry t a (e\<lparr>pd_waiters := pd_waiters e - 1\<rparr>)) a None) (\<lambda>t.
          Inr (Some (pd_state e), t)))"

section \<open>Locating\<close>

text \<open>
  The two look-ups up to the point where they return or start to wait for an entry. After a wait
  that found the entry dead they start again from the table, otherwise they look at its state again:
  \<open>locate_again\<close> and \<open>locateActive_again\<close> are the loops from there.
\<close>

datatype located = Returns "addr option" | WaitsFor addr

definition locate_again :: "omniObjTable \<Rightarrow> addr \<Rightarrow> 32 word \<Rightarrow> located result" where
  "locate_again t a states =
     ebind (get_entry t a) (\<lambda>e.
     Inr (if in_set (pd_state e) states then Returns (Some a) else WaitsFor a))"

definition locate :: "omniObjTable \<Rightarrow> 8 word list \<Rightarrow> 32 word \<Rightarrow> 32 word \<Rightarrow> located result" where
  "locate t key hashv states =
     ebind (lookup t key hashv) (\<lambda>entry.
     case entry of None \<Rightarrow> Inr (Returns None) | Some a \<Rightarrow> locate_again t a states)"

definition locateActive_again :: "omniObjTable \<Rightarrow> addr \<Rightarrow> bool \<Rightarrow> located result" where
  "locateActive_again t a wait =
     ebind (get_entry t a) (\<lambda>e.
     Inr (if wait \<and> pd_state e = ACTIVATING then WaitsFor a
          else if in_set (pd_state e) (state_bits ACTIVE OR state_bits DEACTIVATING) then Returns (Some a)
          else Returns None))"

definition locateActive :: "omniObjTable \<Rightarrow> 8 word list \<Rightarrow> 32 word \<Rightarrow> bool \<Rightarrow> located result" where
  "locateActive t key hashv wait =
     ebind (lookup t key hashv) (\<lambda>entry.
     case entry of None \<Rightarrow> Inr (Returns None) | Some a \<Rightarrow> locateActive_again t a wait)"

end
