(* ===== verification/Object_Table_Inv.thy ===== *)
theory Object_Table_Inv
  imports Object_Table
begin

unbundle bit_operations_syntax

text \<open>
  The invariant of the object table and what its operations do to it: every bucket is a chain without
  a circle, every entry is in the bucket of its key, no two entries have the same key, and the counters
  are right. From outside the table is a map from keys to entries; insertion and removal act on that
  map, and a resize leaves it as it is.
\<close>

section \<open>Chains\<close>

fun chain :: "(addr \<Rightarrow> omniObjTableEntry option) \<Rightarrow> addr option \<Rightarrow> addr list \<Rightarrow> bool" where
  "chain st p [] \<longleftrightarrow> p = None"
| "chain st p (a # as) \<longleftrightarrow> p = Some a \<and> (\<exists>e. st a = Some e \<and> chain st (pd_nextInObjectTable e) as)"

lemma chain_cong: "(\<And>a. a \<in> set as \<Longrightarrow> st' a = st a) \<Longrightarrow> chain st' p as = chain st p as"
  by (induction as arbitrary: p) auto

lemma chain_in: "chain st p as \<Longrightarrow> a \<in> set as \<Longrightarrow> st a \<noteq> None"
  by (induction as arbitrary: p) auto

lemma chain_unique: "chain st p as \<Longrightarrow> chain st p bs \<Longrightarrow> as = bs"
proof (induction as arbitrary: p bs)
  case Nil then show ?case by (cases bs) auto
next
  case (Cons a as) then show ?case by (cases bs) auto
qed

definition key_at :: "(addr \<Rightarrow> omniObjTableEntry option) \<Rightarrow> addr \<Rightarrow> 8 word list" where
  "key_at st a = pd_key (the (st a))"

declare find_entry.simps [simp del] move_chain.simps [simp del] seek.simps [simp del]

lemma find_entry_simps [simp]:
  "find_entry st key None = Some (Inr None)"
  "st a = Some e \<Longrightarrow> find_entry st key (Some a) =
     (if pd_key e = key then Some (Inr (Some a)) else find_entry st key (pd_nextInObjectTable e))"
  by (simp_all add: find_entry.simps)

lemma find_entry_chain:
  "chain st p as \<Longrightarrow> find_entry st key p = Some (Inr (List.find (\<lambda>a. key_at st a = key) as))"
  by (induction as arbitrary: p) (auto simp: key_at_def)

section \<open>The invariant\<close>

definition slot :: "32 word \<Rightarrow> 8 word list \<Rightarrow> nat" where
  "slot n key = unat (hash key mod n)"

definition placed :: "32 word \<Rightarrow> (addr \<Rightarrow> omniObjTableEntry option) \<Rightarrow> addr list list \<Rightarrow> bool" where
  "placed n st bs \<longleftrightarrow> (\<forall>i < length bs. \<forall>a \<in> set (bs ! i). slot n (key_at st a) = i)"

definition buckets ::
    "32 word \<Rightarrow> (addr \<Rightarrow> omniObjTableEntry option) \<Rightarrow> addr option list \<Rightarrow> addr list list \<Rightarrow> bool" where
  "buckets n st tab bs \<longleftrightarrow> 0 < n \<and> length tab = unat n \<and> list_all2 (chain st) tab bs \<and>
     distinct (concat bs) \<and> placed n st bs"

lemma slot_less: "0 < n \<Longrightarrow> slot n key < unat n"
  by (simp add: slot_def unat_mod word_less_nat_alt)

lemma buckets_length: "buckets n st tab bs \<Longrightarrow> length bs = unat n"
  by (auto simp: buckets_def dest: list_all2_lengthD)

lemma buckets_slot:
  assumes "buckets n st tab bs"
  shows "slot n key < length bs" and "chain st (tab ! slot n key) (bs ! slot n key)"
    and "slot n key < length tab"
proof -
  show s: "slot n key < length bs" "slot n key < length tab"
    using buckets_length [OF assms] assms slot_less [of n key] by (simp_all add: buckets_def)
  show "chain st (tab ! slot n key) (bs ! slot n key)"
    using assms s by (simp add: buckets_def list_all2_conv_all_nth)
qed

lemma in_concat_nth: "a \<in> set (concat bs) \<longleftrightarrow> (\<exists>i < length bs. a \<in> set (bs ! i))"
  by (metis in_set_conv_nth set_concat UN_iff)

lemma buckets_member:
  assumes "buckets n st tab bs" and "a \<in> set (concat bs)"
  shows "a \<in> set (bs ! slot n (key_at st a))" and "st a \<noteq> None"
proof -
  obtain i where i: "i < length bs" "a \<in> set (bs ! i)" using assms(2) unfolding in_concat_nth by blast
  then show "a \<in> set (bs ! slot n (key_at st a))" using assms(1) by (auto simp: buckets_def placed_def)
  have "chain st (tab ! i) (bs ! i)" using assms(1) i(1) by (simp add: buckets_def list_all2_conv_all_nth)
  from chain_in [OF this i(2)] show "st a \<noteq> None" .
qed

definition table_wf :: "omniObjTable \<Rightarrow> addr list list \<Rightarrow> bool" where
  "table_wf t bs \<longleftrightarrow> buckets (objectTableSize t) (store t) (objectTable t) bs \<and>
     inj_on (key_at (store t)) (set (concat bs))"

lemma lookup_find:
  assumes "buckets (objectTableSize t) (store t) (objectTable t) bs"
  shows "lookup t key (hash key) =
    Inr (List.find (\<lambda>a. key_at (store t) a = key) (bs ! slot (objectTableSize t) key))"
proof -
  have "arr_get (objectTable t) (slot (objectTableSize t) key) = Inr (objectTable t ! slot (objectTableSize t) key)"
    by (rule arr_get_in) (rule buckets_slot(3) [OF assms])
  moreover note find_entry_chain [OF buckets_slot(2) [OF assms]]
  ultimately show ?thesis by (simp add: lookup_def slot_def returned_def)
qed

text \<open>What a look-up finds, for the hash of the key.\<close>

lemma lookup_wf:
  assumes "table_wf t bs"
  shows "\<exists>r. lookup t key (hash key) = Inr r \<and>
    (case r of None \<Rightarrow> \<forall>a \<in> set (concat bs). key_at (store t) a \<noteq> key
     | Some a \<Rightarrow> a \<in> set (concat bs) \<and> key_at (store t) a = key)"
proof -
  let ?b = "bs ! slot (objectTableSize t) key"
  have b: "buckets (objectTableSize t) (store t) (objectTable t) bs" using assms by (simp add: table_wf_def)
  have sub: "set ?b \<subseteq> set (concat bs)"
    using buckets_slot(1) [OF b, of key] by (intro subsetI) (unfold in_concat_nth, blast)
  show ?thesis
  proof (cases "List.find (\<lambda>a. key_at (store t) a = key) ?b")
    case None
    then have "\<forall>a \<in> set (concat bs). key_at (store t) a \<noteq> key"
      using buckets_member(1) [OF b] by (auto simp: find_None_iff)
    with lookup_find [OF b, of key] None show ?thesis by simp
  next
    case (Some a)
    then have "a \<in> set ?b" "key_at (store t) a = key" by (auto simp: find_Some_iff)
    with lookup_find [OF b, of key] Some sub show ?thesis by auto
  qed
qed

text \<open>The table as a map.\<close>

definition entry_of :: "omniObjTable \<Rightarrow> 8 word list \<Rightarrow> addr option" where
  "entry_of t key = (case lookup t key (hash key) of Inr r \<Rightarrow> r | Inl _ \<Rightarrow> None)"

lemma entry_of_Some:
  assumes "table_wf t bs"
  shows "entry_of t key = Some a \<longleftrightarrow> a \<in> set (concat bs) \<and> key_at (store t) a = key"
proof -
  obtain r where r: "lookup t key (hash key) = Inr r"
    "case r of None \<Rightarrow> \<forall>a \<in> set (concat bs). key_at (store t) a \<noteq> key
     | Some a \<Rightarrow> a \<in> set (concat bs) \<and> key_at (store t) a = key"
    using lookup_wf [OF assms] by blast
  show ?thesis
  proof (cases r)
    case None
    then show ?thesis using r by (auto simp: entry_of_def)
  next
    case (Some b)
    have "inj_on (key_at (store t)) (set (concat bs))" using assms by (simp add: table_wf_def)
    then show ?thesis using r Some unfolding entry_of_def by (auto dest: inj_onD)
  qed
qed

lemma lookup_entry_of: "table_wf t bs \<Longrightarrow> lookup t key (hash key) = Inr (entry_of t key)"
  using lookup_wf [of t bs key] by (auto simp: entry_of_def)

lemma entry_of_None:
  assumes "table_wf t bs"
  shows "entry_of t key = None \<longleftrightarrow> (\<forall>a \<in> set (concat bs). key_at (store t) a \<noteq> key)"
  using entry_of_Some [OF assms, of key] by (metis not_None_eq)

lemma entry_of_cong:
  assumes "table_wf t bs" and "table_wf t' bs'" and "set (concat bs') = set (concat bs)"
    and "\<And>a. a \<in> set (concat bs) \<Longrightarrow> key_at (store t') a = key_at (store t) a"
  shows "entry_of t' = entry_of t"
proof
  fix key
  have "entry_of t' key = Some a \<longleftrightarrow> entry_of t key = Some a" for a
    using entry_of_Some [OF assms(1), of key a] entry_of_Some [OF assms(2), of key a] assms(3,4) by metis
  then show "entry_of t' key = entry_of t key" by (metis not_None_eq)
qed

text \<open>Two stores that agree on everything but the links of the chains.\<close>

definition same_but_links ::
    "(addr \<Rightarrow> omniObjTableEntry option) \<Rightarrow> (addr \<Rightarrow> omniObjTableEntry option) \<Rightarrow> bool" where
  "same_but_links st st' \<longleftrightarrow>
     (\<forall>a. map_option (\<lambda>e. set_next e None) (st' a) = map_option (\<lambda>e. set_next e None) (st a))"

lemma same_but_links_refl [simp]: "same_but_links st st"
  by (simp add: same_but_links_def)

lemma same_but_links_trans: "same_but_links st st' \<Longrightarrow> same_but_links st' st'' \<Longrightarrow> same_but_links st st''"
  by (simp add: same_but_links_def)

lemma same_but_links_upd: "st a = Some e \<Longrightarrow> same_but_links st (st(a \<mapsto> set_next e p))"
  by (simp add: same_but_links_def set_next_def)

lemma same_but_links_key: "same_but_links st st' \<Longrightarrow> key_at st' a = key_at st a"
proof -
  assume "same_but_links st st'"
  then have m: "map_option (\<lambda>e. set_next e None) (st' a) = map_option (\<lambda>e. set_next e None) (st a)"
    by (simp add: same_but_links_def)
  have k: "pd_key (set_next e None) = pd_key e" for e by (simp add: set_next_def)
  show ?thesis using m by (cases "st a"; cases "st' a") (auto simp: key_at_def dest: arg_cong [where f = pd_key] simp: k)
qed

section \<open>Putting an entry into its bucket\<close>

lemma list_update_split:
  assumes "j < length bs"
  shows "\<exists>l r. bs = l @ bs ! j # r \<and> (\<forall>x. bs[j := x] = l @ x # r)"
  using assms
  by (intro exI [of _ "take j bs"] exI [of _ "drop (Suc j) bs"])
    (simp add: id_take_nth_drop [symmetric] upd_conv_take_nth_drop)

lemma buckets_insert:
  assumes b: "buckets n st tab bs" and a: "a \<notin> set (concat bs)"
    and e: "pd_nextInObjectTable e = tab ! slot n (pd_key e)"
  defines "j \<equiv> slot n (pd_key e)"
  shows "buckets n (st(a \<mapsto> e)) (tab[j := Some a]) (bs[j := a # bs ! j])"
    and "set (concat (bs[j := a # bs ! j])) = insert a (set (concat bs))"
    and "length (concat (bs[j := a # bs ! j])) = Suc (length (concat bs))"
proof -
  have j: "j < length bs" "j < length tab" "chain st (tab ! j) (bs ! j)"
    unfolding j_def using buckets_slot [OF b] by auto
  have len: "length bs = length tab" using b by (auto simp: buckets_def dest: list_all2_lengthD)
  have old: "chain (st(a \<mapsto> e)) (tab ! i) (bs ! i)" if "i < length bs" for i
  proof -
    have "a \<notin> set (bs ! i)" using a that by auto
    then have "chain (st(a \<mapsto> e)) (tab ! i) (bs ! i) = chain st (tab ! i) (bs ! i)"
      by (intro chain_cong) auto
    with b that show ?thesis by (simp add: buckets_def list_all2_conv_all_nth)
  qed
  obtain l r where lr: "bs = l @ bs ! j # r" "\<And>x. bs[j := x] = l @ x # r"
    using list_update_split [OF j(1)] by blast
  have cb: "concat bs = concat l @ bs ! j @ concat r"
    by (subst lr(1)) simp
  have cn: "concat (bs[j := a # bs ! j]) = concat l @ a # bs ! j @ concat r" by (simp add: lr(2))
  show "set (concat (bs[j := a # bs ! j])) = insert a (set (concat bs))"
    "length (concat (bs[j := a # bs ! j])) = Suc (length (concat bs))"
    unfolding cn cb by auto
  have "distinct (concat (bs[j := a # bs ! j]))"
    using b a unfolding buckets_def cn cb by auto
  moreover have "list_all2 (chain (st(a \<mapsto> e))) (tab[j := Some a]) (bs[j := a # bs ! j])"
    using old e j len by (auto simp: list_all2_conv_all_nth nth_list_update j_def)
  moreover have "placed n (st(a \<mapsto> e)) (bs[j := a # bs ! j])"
    using b a j(1) unfolding buckets_def placed_def
    by (auto simp: nth_list_update key_at_def j_def split: if_splits)
  ultimately show "buckets n (st(a \<mapsto> e)) (tab[j := Some a]) (bs[j := a # bs ! j])"
    using b by (simp add: buckets_def)
qed

section \<open>Resizing\<close>

lemma move_chain_simps [simp]:
  "move_chain n m None = Some (Inr m)"
  by (simp add: move_chain.simps)

lemma move_chain_step:
  assumes "fst m a = Some e" and "slot n (pd_key e) < length (snd m)"
  shows "move_chain n m (Some a) =
    move_chain n ((fst m)(a \<mapsto> set_next e (snd m ! slot n (pd_key e))), (snd m)[slot n (pd_key e) := Some a])
      (pd_nextInObjectTable e)"
  using assms by (subst move_chain.simps) (simp add: slot_def)

lemma move_chain_moves:
  assumes "chain st p as" and "buckets n st nt bs" and "distinct as" and "set as \<inter> set (concat bs) = {}"
  shows "\<exists>st' nt' bs'. move_chain n (st, nt) p = Some (Inr (st', nt')) \<and> buckets n st' nt' bs' \<and>
    set (concat bs') = set as \<union> set (concat bs) \<and> same_but_links st st' \<and>
    (\<forall>a. a \<notin> set as \<longrightarrow> st' a = st a)"
  using assms
proof (induction as arbitrary: st p nt bs)
  case Nil
  then show ?case by auto
next
  case (Cons a as)
  then obtain e where p: "p = Some a" and e: "st a = Some e" "chain st (pd_nextInObjectTable e) as" by auto
  define e' where "e' = set_next e (nt ! slot n (pd_key e))"
  have e': "pd_key e' = pd_key e" "pd_nextInObjectTable e' = nt ! slot n (pd_key e')"
    by (simp_all add: e'_def set_next_def)
  let ?j = "slot n (pd_key e)"
  have a: "a \<notin> set (concat bs)" using Cons.prems(4) by auto
  note ins = buckets_insert [OF Cons.prems(2) a e'(2), unfolded e'(1)]
  have "chain (st(a \<mapsto> e')) (pd_nextInObjectTable e) as"
    using e(2) Cons.prems(3) by (subst chain_cong [of as _ st]) auto
  moreover have "distinct as" "set as \<inter> set (concat (bs[?j := a # bs ! ?j])) = {}"
    using Cons.prems(3,4) unfolding ins(2) by auto
  ultimately obtain st' nt' bs' where
    m: "move_chain n (st(a \<mapsto> e'), nt[?j := Some a]) (pd_nextInObjectTable e) = Some (Inr (st', nt'))"
    and b: "buckets n st' nt' bs'" and s: "set (concat bs') = set as \<union> set (concat (bs[?j := a # bs ! ?j]))"
    and sm: "same_but_links (st(a \<mapsto> e')) st'" and fr: "\<forall>b. b \<notin> set as \<longrightarrow> st' b = (st(a \<mapsto> e')) b"
    using Cons.IH [OF _ ins(1)] by blast
  have "move_chain n (st, nt) p = Some (Inr (st', nt'))"
    unfolding p using move_chain_step [of "(st, nt)" a e n] e(1) buckets_slot(3) [OF Cons.prems(2)] m
    by (simp add: e'_def)
  moreover have "same_but_links st st'"
    using same_but_links_trans [OF same_but_links_upd sm [unfolded e'_def]] e(1) by blast
  moreover have "set (concat bs') = set (a # as) \<union> set (concat bs)" unfolding s ins(2) by auto
  moreover have "\<forall>b. b \<notin> set (a # as) \<longrightarrow> st' b = st b" using fr by auto
  ultimately show ?case using b by blast
qed

lemma move_buckets_moves:
  assumes "list_all2 (chain st) ps as" and "buckets n st nt bs" and "distinct (concat as)"
    and "set (concat as) \<inter> set (concat bs) = {}"
  shows "\<exists>st' nt' bs'. move_buckets n (st, nt) ps = Inr (st', nt') \<and> buckets n st' nt' bs' \<and>
    set (concat bs') = set (concat as) \<union> set (concat bs) \<and> same_but_links st st' \<and>
    (\<forall>a. a \<notin> set (concat as) \<longrightarrow> st' a = st a)"
  using assms
proof (induction ps arbitrary: st nt bs as)
  case Nil
  then show ?case by auto
next
  case (Cons p ps)
  obtain x xs where as: "as = x # xs" and c: "chain st p x" "list_all2 (chain st) ps xs"
    using Cons.prems(1) by (auto simp: list_all2_Cons1)
  have dj: "distinct x" "set x \<inter> set (concat bs) = {}" "distinct (concat xs)"
    "set x \<inter> set (concat xs) = {}" "set (concat xs) \<inter> set (concat bs) = {}"
    using Cons.prems(3,4) unfolding as by auto
  obtain st1 nt1 bs1 where m: "move_chain n (st, nt) p = Some (Inr (st1, nt1))" and b1: "buckets n st1 nt1 bs1"
    and s1: "set (concat bs1) = set x \<union> set (concat bs)" and sm1: "same_but_links st st1"
    and fr1: "\<forall>a. a \<notin> set x \<longrightarrow> st1 a = st a"
    using move_chain_moves [OF c(1) Cons.prems(2) dj(1,2)] by blast
  have "chain st1 q y" if "chain st q y" "y \<in> set xs" for q y
  proof -
    have "st1 a = st a" if "a \<in> set y" for a using fr1 dj(4) that \<open>y \<in> set xs\<close> by auto
    with chain_cong [of y st1 st q] that(1) show ?thesis by simp
  qed
  then have "list_all2 (chain st1) ps xs"
    using c(2) by (auto simp: list_all2_conv_all_nth)
  moreover have "set (concat xs) \<inter> set (concat bs1) = {}" using dj(4,5) unfolding s1 by blast
  ultimately obtain st' nt' bs' where m': "move_buckets n (st1, nt1) ps = Inr (st', nt')" and b: "buckets n st' nt' bs'"
    and s: "set (concat bs') = set (concat xs) \<union> set (concat bs1)" and sm: "same_but_links st1 st'"
    and fr: "\<forall>a. a \<notin> set (concat xs) \<longrightarrow> st' a = st1 a"
    using Cons.IH [OF _ b1 dj(3)] by blast
  have "move_buckets n (st, nt) (p # ps) = Inr (st', nt')" using m m' by (simp add: returned_def)
  moreover have "set (concat bs') = set (concat as) \<union> set (concat bs)" unfolding s s1 as by auto
  moreover have "\<forall>a. a \<notin> set (concat as) \<longrightarrow> st' a = st a" using fr fr1 unfolding as by auto
  ultimately show ?case using b same_but_links_trans [OF sm1 sm] by blast
qed

text \<open>The sizes that a table that is resized can have.\<close>

definition table_size :: "nat \<Rightarrow> 32 word" where
  "table_size i = of_int (objTblSizes ! i)"

lemma table_size_pos: "i < 19 \<Longrightarrow> 0 < table_size i \<and> objTblSizes ! i \<noteq> - 1"
proof -
  have "list_all (\<lambda>i. 0 < table_size i \<and> objTblSizes ! i \<noteq> - 1) [0..<19]"
    by code_simp
  then show "i < 19 \<Longrightarrow> 0 < table_size i \<and> objTblSizes ! i \<noteq> - 1" by (simp add: list_all_iff)
qed

lemma buckets_empty: "0 < n \<Longrightarrow> buckets n st (replicate (unat n) None) (replicate (unat n) [])"
  by (simp add: buckets_def placed_def list_all2_conv_all_nth)

text \<open>When a table of size \<open>i\<close> is resized, the bounds of the new size hold the number of entries.\<close>

definition max_of :: "nat \<Rightarrow> 32 word" where
  "max_of i = table_size i * 2 div 3"

definition min_of :: "nat \<Rightarrow> 32 word" where
  "min_of i = (if i \<noteq> 0 then of_int (objTblSizes ! (i - 1) div 3) else 0)"

lemma size_steps:
  assumes "i < 18"
  shows "min_of (Suc i) \<le> max_of i" and "max_of i < max_of (Suc i)" and "min_of i < min_of (Suc i)"
proof -
  have "list_all (\<lambda>i. min_of (Suc i) \<le> max_of i \<and> max_of i < max_of (Suc i) \<and> min_of i < min_of (Suc i)) [0..<18]"
    by code_simp
  then show "min_of (Suc i) \<le> max_of i" and "max_of i < max_of (Suc i)" and "min_of i < min_of (Suc i)"
    using assms by (simp_all add: list_all_iff)
qed

lemma max_of_last: "max_of 18 < 2 ^ 31"
  by code_simp

section \<open>The load of the table\<close>

text \<open>The same entries in another arrangement.\<close>

definition rearranged :: "omniObjTable \<Rightarrow> addr list list \<Rightarrow> omniObjTable \<Rightarrow> addr list list \<Rightarrow> bool" where
  "rearranged t bs t' bs' \<longleftrightarrow> table_wf t' bs' \<and> set (concat bs') = set (concat bs) \<and>
     same_but_links (store t) (store t') \<and> pd_activations t' = pd_activations t \<and>
     numObjectsInTable t' = numObjectsInTable t \<and>
     (\<forall>a. a \<notin> set (concat bs) \<longrightarrow> store t' a = store t a)"

lemma resize_to_wf:
  assumes i: "i < 19" and wf: "table_wf t bs"
  shows "\<exists>t' bs'. resize_to t i = Inr t' \<and> rearranged t bs t' bs' \<and> objectTableSizeI t' = i \<and>
    objectTableSize t' = table_size i \<and> maxNumObjects t' = max_of i \<and> minNumObjects t' = min_of i"
proof -
  let ?n = "table_size i"
  have b: "buckets (objectTableSize t) (store t) (objectTable t) bs" using wf by (simp add: table_wf_def)
  have n: "0 < ?n" "objTblSizes ! i \<noteq> - 1" using table_size_pos [OF i] by auto
  have l: "list_all2 (chain (store t)) (objectTable t) bs" "distinct (concat bs)" using b by (auto simp: buckets_def)
  obtain st' nt' bs' where m: "move_buckets ?n (store t, replicate (unat ?n) None) (objectTable t) = Inr (st', nt')"
    and b': "buckets ?n st' nt' bs'" and s: "set (concat bs') = set (concat bs)"
    and sm: "same_but_links (store t) st'" and fr: "\<forall>a. a \<notin> set (concat bs) \<longrightarrow> st' a = store t a"
    using move_buckets_moves [OF l(1) buckets_empty [OF n(1)] l(2)] by auto
  have tk: "take (unat (objectTableSize t)) (objectTable t) = objectTable t" using b by (simp add: buckets_def)
  let ?t = "t\<lparr>store := st', objectTable := nt', objectTableSize := ?n, objectTableSizeI := i,
    maxNumObjects := max_of i, minNumObjects := min_of i\<rparr>"
  have "arr_get objTblSizes i = Inr (objTblSizes ! i)" using i by (simp add: arr_get_def objTblSizes_def)
  then have r: "resize_to t i = Inr ?t"
    using n(2) m tk by (simp add: resize_to_def Let_def table_size_def max_of_def min_of_def)
  have k: "key_at st' = key_at (store t)" using same_but_links_key [OF sm] by auto
  have "table_wf ?t bs'" using wf b' s k by (simp add: table_wf_def)
  then have "rearranged t bs ?t bs'" using s sm fr by (simp add: rearranged_def)
  with r show ?thesis by (intro exI [of _ ?t] exI [of _ bs']) simp
qed

text \<open>The size of the table and the bounds of the number of entries, for a fixed table and for one that
  is resized.\<close>

definition bounds_ok :: "omniObjTable \<Rightarrow> bool" where
  "bounds_ok t \<longleftrightarrow>
     (minNumObjects t = 0 \<and> maxNumObjects t = 2 ^ 31 \<and> objectTableSizeI t = 0) \<or>
     (objectTableSizeI t < 19 \<and> objectTableSize t = table_size (objectTableSizeI t) \<and>
      minNumObjects t = min_of (objectTableSizeI t) \<and>
      (maxNumObjects t = max_of (objectTableSizeI t) \<or>
       (objectTableSizeI t = 18 \<and> maxNumObjects t = 2 ^ 31)))"

definition load_ok :: "omniObjTable \<Rightarrow> bool" where
  "load_ok t \<longleftrightarrow> bounds_ok t \<and> minNumObjects t \<le> numObjectsInTable t \<and> numObjectsInTable t \<le> maxNumObjects t"

definition table_ok :: "omniObjTable \<Rightarrow> bool" where
  "table_ok t \<longleftrightarrow> load_ok t \<and> (\<exists>bs. table_wf t bs \<and> unat (numObjectsInTable t) = length (concat bs))"

lemma resize_grows:
  assumes wf: "table_wf t bs" and bd: "bounds_ok t" and mn: "minNumObjects t \<le> numObjectsInTable t"
    and num: "numObjectsInTable t = maxNumObjects t + 1" "numObjectsInTable t \<le> 2 ^ 31"
      "maxNumObjects t < numObjectsInTable t"
  shows "\<exists>t' bs'. resize t = Inr t' \<and> rearranged t bs t' bs' \<and> load_ok t'"
proof -
  let ?i = "objectTableSizeI t"
  have r: "resize t = resize_to t (?i + 1)" using num(3) by (simp add: resize_def)
  have "maxNumObjects t \<noteq> 2 ^ 31" using num by auto
  then have d: "?i < 19" "objectTableSize t = table_size ?i" "minNumObjects t = min_of ?i" "maxNumObjects t = max_of ?i"
    using bd by (auto simp: bounds_ok_def)
  show ?thesis
  proof (cases "?i = 18")
    case True
    let ?t = "t\<lparr>maxNumObjects := 2 ^ 31\<rparr>"
    have "resize_to t 19 = Inr (t\<lparr>objectTableSizeI := 18, maxNumObjects := 2 ^ 31\<rparr>)"
      by (simp add: resize_to_def arr_get_def objTblSizes_def)
    moreover have "t\<lparr>objectTableSizeI := 18, maxNumObjects := 2 ^ 31\<rparr> = ?t" using True by simp
    ultimately have "resize t = Inr ?t" using r True by simp
    moreover have "rearranged t bs ?t bs" using wf by (simp add: rearranged_def table_wf_def)
    moreover have "load_ok ?t" using d mn num(2) True by (simp add: load_ok_def bounds_ok_def)
    ultimately show ?thesis by blast
  next
    case False
    then have i: "?i < 18" using d(1) by simp
    obtain t' bs' where t': "resize_to t (?i + 1) = Inr t'" "rearranged t bs t' bs'" "objectTableSizeI t' = ?i + 1"
      "objectTableSize t' = table_size (?i + 1)" "maxNumObjects t' = max_of (?i + 1)" "minNumObjects t' = min_of (?i + 1)"
      using resize_to_wf [OF _ wf, of "?i + 1"] i by auto
    have n': "numObjectsInTable t' = max_of ?i + 1" using t'(2) num(1) d(4) by (simp add: rearranged_def)
    have "max_of ?i < max_of ?i + 1" using num d(4) by simp
    then have "min_of (Suc ?i) \<le> max_of ?i + 1" "max_of ?i + 1 \<le> max_of (Suc ?i)"
      using size_steps [OF i] by (auto intro: inc_le)
    then have "load_ok t'" using t'(3-6) i n' by (simp add: load_ok_def bounds_ok_def)
    with t'(1,2) r show ?thesis by auto
  qed
qed

lemma resize_shrinks:
  assumes wf: "table_wf t bs" and bd: "bounds_ok t" and mx: "numObjectsInTable t \<le> maxNumObjects t"
    and num: "numObjectsInTable t < minNumObjects t" "minNumObjects t \<le> numObjectsInTable t + 1"
  shows "\<exists>t' bs'. resize t = Inr t' \<and> rearranged t bs t' bs' \<and> load_ok t'"
proof -
  let ?i = "objectTableSizeI t"
  have "minNumObjects t \<noteq> 0" using num(1) by auto
  then have d: "?i < 19" "minNumObjects t = min_of ?i" using bd by (auto simp: bounds_ok_def)
  moreover have "?i \<noteq> 0" using \<open>minNumObjects t \<noteq> 0\<close> unfolding d(2) by (simp add: min_of_def split: if_splits)
  ultimately obtain j where j: "?i = Suc j" "j < 18" by (cases ?i) auto
  have "\<not> maxNumObjects t < numObjectsInTable t" using mx by simp
  then have r: "resize t = resize_to t j" using num(1) j by (simp add: resize_def)
  obtain t' bs' where t': "resize_to t j = Inr t'" "rearranged t bs t' bs'" "objectTableSizeI t' = j"
    "objectTableSize t' = table_size j" "maxNumObjects t' = max_of j" "minNumObjects t' = min_of j"
    using resize_to_wf [OF _ wf, of j] j by auto
  have n': "numObjectsInTable t' = numObjectsInTable t" using t'(2) by (simp add: rearranged_def)
  have "numObjectsInTable t \<le> max_of j" using num(1) size_steps(1) [OF j(2)] d(2) j(1) by simp
  moreover have "min_of j \<le> numObjectsInTable t"
  proof -
    have a: "min_of j < minNumObjects t" using size_steps(3) [OF j(2)] d(2) j(1) by simp
    have "unat (numObjectsInTable t + 1) \<le> unat (numObjectsInTable t) + 1"
      by (simp add: unat_word_ariths(1))
    then show ?thesis using a num(2) by (simp add: word_less_nat_alt word_le_nat_alt)
  qed
  ultimately have "load_ok t'" using t'(3-6) j n' by (simp add: load_ok_def bounds_ok_def)
  with t'(1,2) r show ?thesis by auto
qed

section \<open>Insertion\<close>

lemma rearranged_length:
  assumes "table_wf t bs" and "rearranged t bs t' bs'"
  shows "length (concat bs') = length (concat bs)"
proof -
  have "distinct (concat bs)" "distinct (concat bs')"
    using assms by (auto simp: rearranged_def table_wf_def buckets_def simp del: distinct_concat_iff)
  moreover have "set (concat bs') = set (concat bs)" using assms(2) by (simp only: rearranged_def)
  ultimately show ?thesis using distinct_card by metis
qed

lemma newEntry_present:
  assumes "table_ok t" and "entry_of t key \<noteq> None"
  shows "newEntry t key (hash key) a = Inr (None, t)"
  using assms lookup_entry_of by (auto simp: newEntry_def table_ok_def)

text \<open>The new entry at the head of its bucket, in a table with room for it.\<close>

lemma insert_wf:
  assumes wf: "table_wf t bs" and a: "store t a = None"
    and key: "\<forall>b \<in> set (concat bs). key_at (store t) b \<noteq> key"
  defines "i \<equiv> slot (objectTableSize t) key"
  defines "e \<equiv> set_next (omniObjTableEntry_new key) (objectTable t ! i)"
  shows "table_wf (t\<lparr>store := (store t)(a \<mapsto> e), objectTable := (objectTable t)[i := Some a]\<rparr>)
      (bs[i := a # bs ! i])"
    and "set (concat (bs[i := a # bs ! i])) = insert a (set (concat bs))"
    and "length (concat (bs[i := a # bs ! i])) = Suc (length (concat bs))"
    and "i < length (objectTable t)"
proof -
  have b: "buckets (objectTableSize t) (store t) (objectTable t) bs" using wf by (simp add: table_wf_def)
  have an: "a \<notin> set (concat bs)" using buckets_member(2) [OF b] a by blast
  have e: "pd_key e = key" "pd_nextInObjectTable e = objectTable t ! slot (objectTableSize t) (pd_key e)"
    by (simp_all add: e_def i_def omniObjTableEntry_new_def set_next_def)
  note ins = buckets_insert [OF b an e(2), unfolded e(1), folded i_def]
  show "set (concat (bs[i := a # bs ! i])) = insert a (set (concat bs))"
    "length (concat (bs[i := a # bs ! i])) = Suc (length (concat bs))" by (rule ins)+
  show "i < length (objectTable t)" unfolding i_def by (rule buckets_slot(3) [OF b])
  have k: "key_at ((store t)(a \<mapsto> e)) b = key_at (store t) b" if "b \<noteq> a" for b
    using that by (simp add: key_at_def)
  have ka: "key_at ((store t)(a \<mapsto> e)) a = key" using e(1) by (simp add: key_at_def)
  have "inj_on (key_at (store t)) (set (concat bs))" using wf by (simp add: table_wf_def)
  then have "inj_on (key_at ((store t)(a \<mapsto> e))) (insert a (set (concat bs)))"
    using k ka key an unfolding inj_on_def by (metis insertE)
  then show "table_wf (t\<lparr>store := (store t)(a \<mapsto> e), objectTable := (objectTable t)[i := Some a]\<rparr>)
      (bs[i := a # bs ! i])"
    unfolding table_wf_def omniObjTable.simps ins(2) using ins(1) by simp
qed

text \<open>The entries without the links, which a resize changes.\<close>

definition unlinked :: "omniObjTable \<Rightarrow> addr \<Rightarrow> omniObjTableEntry option" where
  "unlinked t a = map_option (\<lambda>e. set_next e None) (store t a)"

lemma unlinked_same: "same_but_links (store t) (store t') \<Longrightarrow> unlinked t' = unlinked t"
  by (auto simp: unlinked_def same_but_links_def)

lemma set_next_simps [simp]: "set_next (set_next e p) q = set_next e q" "pd_key (set_next e p) = pd_key e"
  by (simp_all add: set_next_def)

lemma key_new [simp]: "pd_key (omniObjTableEntry_new key) = key"
  by (simp add: omniObjTableEntry_new_def)

lemma set_next_new [simp]: "set_next (omniObjTableEntry_new key) None = omniObjTableEntry_new key"
  by (simp add: set_next_def omniObjTableEntry_new_def)

lemma word_succ_less: "(n :: 32 word) < 2 ^ 31 \<Longrightarrow> n < n + 1 \<and> n + 1 \<le> 2 ^ 31 \<and> unat (n + 1) = unat n + 1"
proof -
  assume "n < 2 ^ 31"
  then have "unat n < 2 ^ 31" by (simp add: word_less_nat_alt)
  then show ?thesis by (simp add: word_less_nat_alt word_le_nat_alt unat_word_ariths(1))
qed

lemma newEntry_absent:
  assumes ok: "table_ok t" and abs: "entry_of t key = None" and a: "store t a = None"
    and num: "numObjectsInTable t < 2 ^ 31"
  shows "\<exists>t'. newEntry t key (hash key) a = Inr (Some a, t') \<and> table_ok t' \<and>
    entry_of t' = (entry_of t)(key \<mapsto> a) \<and> unlinked t' = (unlinked t)(a \<mapsto> omniObjTableEntry_new key) \<and>
    pd_activations t' = pd_activations t \<and> numObjectsInTable t' = numObjectsInTable t + 1"
proof -
  obtain bs where wf: "table_wf t bs" and ld: "load_ok t" and len: "unat (numObjectsInTable t) = length (concat bs)"
    using ok by (auto simp: table_ok_def)
  let ?t = "t\<lparr>numObjectsInTable := numObjectsInTable t + 1\<rparr>"
  note n1 = word_succ_less [OF num]
  have wf': "table_wf ?t bs" using wf by (simp add: table_wf_def)
  have bd: "bounds_ok ?t" "minNumObjects ?t \<le> numObjectsInTable ?t"
    using ld n1 by (auto simp: load_ok_def bounds_ok_def)
  have "\<exists>t1 bs1. (if maxNumObjects ?t < numObjectsInTable ?t then resize ?t else Inr ?t) = Inr t1 \<and>
    rearranged ?t bs t1 bs1 \<and> load_ok t1"
  proof (cases "maxNumObjects ?t < numObjectsInTable ?t")
    case True
    have "numObjectsInTable ?t = maxNumObjects ?t + 1"
      using True ld n1 by (auto simp: load_ok_def word_less_nat_alt word_le_nat_alt intro!: word_unat_eq_iff [THEN iffD2])
    with resize_grows [OF wf' bd] True n1 show ?thesis by simp
  next
    case False
    then have "load_ok ?t" using bd by (simp add: load_ok_def)
    with False wf' show ?thesis by (auto simp: rearranged_def)
  qed
  then obtain t1 bs1 where t1: "(if maxNumObjects ?t < numObjectsInTable ?t then resize ?t else Inr ?t) = Inr t1"
    and ra: "rearranged ?t bs t1 bs1" and l1: "load_ok t1" by blast
  have w1: "table_wf t1 bs1" and s1: "set (concat bs1) = set (concat bs)" and sm: "same_but_links (store t) (store t1)"
    using ra by (simp_all add: rearranged_def)
  have an: "a \<notin> set (concat bs)"
    using buckets_member(2) [of "objectTableSize t" "store t" "objectTable t" bs a] wf a unfolding table_wf_def by blast
  then have a1: "store t1 a = None" using ra a unfolding rearranged_def by simp
  have k1: "key_at (store t1) b = key_at (store t) b" for b by (rule same_but_links_key [OF sm])
  have abs': "\<forall>b \<in> set (concat bs1). key_at (store t1) b \<noteq> key"
    using abs entry_of_None [OF wf] unfolding s1 k1 by blast
  let ?i = "slot (objectTableSize t1) key"
  let ?e = "set_next (omniObjTableEntry_new key) (objectTable t1 ! ?i)"
  let ?t2 = "t1\<lparr>store := (store t1)(a \<mapsto> ?e), objectTable := (objectTable t1)[?i := Some a]\<rparr>"
  note ins = insert_wf [OF w1 a1 abs']
  have r: "newEntry t key (hash key) a = Inr (Some a, ?t2)"
    using lookup_entry_of [OF wf, of key] abs t1 ins(4)
    by (simp add: newEntry_def Let_def slot_def set_next_def)
  have "unat (numObjectsInTable ?t2) = length (concat (bs1[?i := a # bs1 ! ?i]))"
    using ra rearranged_length [OF wf' ra] n1 len ins(3) by (simp add: rearranged_def)
  moreover have "load_ok ?t2" using l1 by (simp add: load_ok_def bounds_ok_def)
  ultimately have ok2: "table_ok ?t2" using ins(1) by (auto simp: table_ok_def)
  have "entry_of ?t2 k = Some b \<longleftrightarrow> ((entry_of t)(key \<mapsto> a)) k = Some b" for k b
  proof -
    have "key_at (store ?t2) b = (if b = a then key else key_at (store t) b)" using k1 by (simp add: key_at_def)
    then show ?thesis
      using an entry_of_Some [OF ins(1), of k b] entry_of_Some [OF wf, of k b] abs unfolding ins(2) s1 by auto
  qed
  then have "entry_of ?t2 = (entry_of t)(key \<mapsto> a)" by (intro ext) (metis not_None_eq)
  moreover have "unlinked ?t2 = (unlinked t)(a \<mapsto> omniObjTableEntry_new key)"
    using unlinked_same [OF sm] by (auto simp: unlinked_def fun_eq_iff)
  ultimately show ?thesis using r ok2 ra by (intro exI [of _ ?t2]) (simp add: rearranged_def)
qed

section \<open>Removal\<close>

lemma get_entry_Some [simp]: "store t a = Some e \<Longrightarrow> get_entry t a = Inr e"
  by (simp add: get_entry_def)

lemma get_entry_eq_Inr [err_simps]: "get_entry t a = Inr e \<longleftrightarrow> store t a = Some e"
  by (auto simp: get_entry_def split: option.splits)

lemma get_put [simp]: "get_entry (put_entry t a e) a = Inr e"
  by (simp add: get_entry_def put_entry_def)

lemma seek_chain:
  assumes "read_link t pid = Inr p" and "chain (store t) p (xs @ a # ys)" and "a \<notin> set xs"
  shows "seek t a pid = Some (Inr (Some (if xs = [] then pid else NextOf (last xs))))"
  using assms
proof (induction xs arbitrary: pid p)
  case Nil
  then show ?case by (subst seek.simps) auto
next
  case (Cons x xs)
  then obtain e where p: "p = Some x" "store t x = Some e" "chain (store t) (pd_nextInObjectTable e) (xs @ a # ys)"
    and n: "x \<noteq> a" "a \<notin> set xs" by auto
  have "read_link t (NextOf x) = Inr (pd_nextInObjectTable e)" using p(2) by (simp add: read_link_def)
  from Cons.IH [OF this p(3) n(2)] have "seek t a (NextOf x) = Some (Inr (Some (if xs = [] then NextOf x else NextOf (last xs))))" .
  with Cons.prems(1) p(1) n(1) show ?case by (subst seek.simps) auto
qed

lemma chain_remove:
  assumes "chain st p (xs @ b # a # ys)" and "distinct (xs @ b # a # ys)" and "st b = Some eb" and "st a = Some e"
  shows "chain (st(b \<mapsto> set_next eb (pd_nextInObjectTable e))) p (xs @ b # ys)"
  using assms
proof (induction xs arbitrary: p)
  case Nil
  have "chain (st(b \<mapsto> set_next eb (pd_nextInObjectTable e))) (pd_nextInObjectTable e) ys"
    using Nil by (subst chain_cong [of ys _ st]) auto
  moreover have "pd_nextInObjectTable (set_next eb (pd_nextInObjectTable e)) = pd_nextInObjectTable e"
    by (simp add: set_next_def)
  ultimately show ?case using Nil by (simp del: fun_upd_apply add: fun_upd_same)
next
  case (Cons x xs)
  then show ?case by auto
qed

lemma chain_split: "chain st p (xs @ a # ys) \<Longrightarrow> st a = Some e \<Longrightarrow> chain st (pd_nextInObjectTable e) ys"
  by (induction xs arbitrary: p) auto

lemma buckets_remove:
  assumes b: "buckets n st tab bs" and i: "i < length bs" and bi: "bs ! i = xs @ a # ys"
    and same: "same_but_links st st'" and frame: "\<forall>c. c \<notin> set xs \<longrightarrow> st' c = st c"
    and ch: "chain st' (tab' ! i) (xs @ ys)" and tab: "length tab' = length tab" "\<forall>j. j \<noteq> i \<longrightarrow> tab' ! j = tab ! j"
  shows "buckets n st' tab' (bs[i := xs @ ys])"
    and "set (concat (bs[i := xs @ ys])) = set (concat bs) - {a}"
    and "Suc (length (concat (bs[i := xs @ ys]))) = length (concat bs)"
proof -
  obtain l r where lr: "bs = l @ bs ! i # r" "\<And>x. bs[i := x] = l @ x # r"
    using list_update_split [OF i] by blast
  have cb: "concat bs = concat l @ (xs @ a # ys) @ concat r" using arg_cong [OF lr(1), of concat] bi by simp
  have cn: "concat (bs[i := xs @ ys]) = concat l @ (xs @ ys) @ concat r" by (simp add: lr(2))
  have d: "distinct (concat bs)" using b by (simp add: buckets_def)
  show s: "set (concat (bs[i := xs @ ys])) = set (concat bs) - {a}"
    using d unfolding cb cn by auto
  show "Suc (length (concat (bs[i := xs @ ys]))) = length (concat bs)" unfolding cb cn by simp
  have dn: "distinct (concat (bs[i := xs @ ys]))" using d unfolding cb cn by auto
  have len: "length tab = length bs" using b by (auto simp: buckets_def dest: list_all2_lengthD)
  have "chain st' (tab' ! j) (bs[i := xs @ ys] ! j)" if j: "j < length bs" for j
  proof (cases "j = i")
    case True
    with ch i show ?thesis by simp
  next
    case False
    have "slot n (key_at st c) = i" if "c \<in> set xs" for c
      using b i bi that unfolding buckets_def placed_def by auto
    moreover have "slot n (key_at st c) = j" if "c \<in> set (bs ! j)" for c
      using b j that unfolding buckets_def placed_def by auto
    ultimately have "set (bs ! j) \<inter> set xs = {}" using False by fastforce
    then have "chain st' (tab ! j) (bs ! j) = chain st (tab ! j) (bs ! j)"
      by (intro chain_cong) (use frame in auto)
    with b j False tab(2) show ?thesis by (simp add: buckets_def list_all2_conv_all_nth)
  qed
  then have "list_all2 (chain st') tab' (bs[i := xs @ ys])"
    using tab(1) len by (simp add: list_all2_conv_all_nth)
  moreover have "placed n st' (bs[i := xs @ ys])"
    using b i bi same_but_links_key [OF same] unfolding buckets_def placed_def
    by (auto simp: nth_list_update)
  ultimately show "buckets n st' tab' (bs[i := xs @ ys])" using b tab(1) dn by (simp add: buckets_def)
qed

lemma unlink_wf:
  assumes wf: "table_wf t bs" and a: "a \<in> set (concat bs)"
  shows "\<exists>t' bs'. unlink t a = Inr t' \<and> table_wf t' bs' \<and> set (concat bs') = set (concat bs) - {a} \<and>
    Suc (length (concat bs')) = length (concat bs) \<and> same_but_links (store t) (store t') \<and>
    (\<exists>st tab. t' = t\<lparr>store := st, objectTable := tab\<rparr>)"
proof -
  have b: "buckets (objectTableSize t) (store t) (objectTable t) bs" using wf by (simp add: table_wf_def)
  obtain e where e: "store t a = Some e" using buckets_member(2) [OF b a] by blast
  define i where "i = slot (objectTableSize t) (pd_key e)"
  have k: "key_at (store t) a = pd_key e" using e by (simp add: key_at_def)
  have "a \<in> set (bs ! i)" using buckets_member(1) [OF b a] unfolding k i_def .
  then obtain xs ys where bi: "bs ! i = xs @ a # ys" "a \<notin> set xs" by (metis split_list_first)
  have i: "i < length bs" "i < length (objectTable t)" "chain (store t) (objectTable t ! i) (xs @ a # ys)"
    using buckets_slot [OF b, of "pd_key e"] bi(1) by (simp_all add: i_def)
  have ys: "chain (store t) (pd_nextInObjectTable e) ys" by (rule chain_split [OF i(3) e])
  have d: "distinct (xs @ a # ys)"
  proof -
    have "distinct (concat bs)" using b by (simp add: buckets_def)
    then show ?thesis using i(1) bi(1) by (metis distinct_concat_iff in_set_conv_nth)
  qed
  have u: "unlink t a = ebind (returned (seek t a (Bucket i))) (\<lambda>pid.
      case pid of None \<Rightarrow> Inl AssertFail | Some pid \<Rightarrow> write_link t pid (pd_nextInObjectTable e))"
    using e by (simp add: unlink_def i_def slot_def)
  have "read_link t (Bucket i) = Inr (objectTable t ! i)" using i(2) by (simp add: read_link_def)
  note sk = seek_chain [OF this i(3) bi(2)]
  have inj: "inj_on (key_at (store t)) (set (concat bs))" using wf by (simp add: table_wf_def)
  have fin: ?thesis if w: "unlink t a = Inr t'" and t': "t' = t\<lparr>store := st, objectTable := tab\<rparr>"
    and same: "same_but_links (store t) st" and fr: "\<forall>c. c \<notin> set xs \<longrightarrow> st c = store t c"
    and ch: "chain st (tab ! i) (xs @ ys)" and tab: "length tab = length (objectTable t)"
      "\<forall>j. j \<noteq> i \<longrightarrow> tab ! j = objectTable t ! j" for t' st tab
  proof -
    note r = buckets_remove [OF b i(1) bi(1) same fr ch tab]
    have "key_at st = key_at (store t)" using same_but_links_key [OF same] by auto
    then have "inj_on (key_at st) (set (concat (bs[i := xs @ ys])))"
      unfolding r(2) using inj by (auto intro: inj_on_subset)
    then have "table_wf t' (bs[i := xs @ ys])" using r(1) by (simp add: table_wf_def t' del: set_concat)
    moreover have "same_but_links (store t) (store t')" using same t' by simp
    moreover have "\<exists>st tab. t' = t\<lparr>store := st, objectTable := tab\<rparr>" using t' by blast
    ultimately show ?thesis using w r(2,3) by blast
  qed
  show ?thesis
  proof (cases "xs = []")
    case True
    have "unlink t a = Inr (t\<lparr>objectTable := (objectTable t)[i := pd_nextInObjectTable e]\<rparr>)"
      using u sk True i(2) by (simp add: returned_def write_link_def)
    then show ?thesis
      by (rule fin [where st = "store t" and tab = "(objectTable t)[i := pd_nextInObjectTable e]"])
        (use True ys i(2) in auto)
  next
    case False
    then obtain zs c where xs: "xs = zs @ [c]" by (cases xs rule: rev_cases) auto
    have "c \<in> set (bs ! i)" using bi xs by simp
    then obtain ec where ec: "store t c = Some ec" using chain_in [OF i(3), of c] bi(1) by auto
    let ?st = "(store t)(c \<mapsto> set_next ec (pd_nextInObjectTable e))"
    have "unlink t a = Inr (t\<lparr>store := ?st\<rparr>)"
      using u sk False ec xs by (simp add: returned_def write_link_def put_entry_def set_next_def)
    moreover have "chain ?st (objectTable t ! i) (xs @ ys)"
      using chain_remove [of "store t" _ zs c a ys ec e] i(3) d ec e xs by simp
    moreover have "\<forall>d. d \<notin> set xs \<longrightarrow> ?st d = store t d" using xs by simp
    ultimately show ?thesis
      by (intro fin [where st = ?st and tab = "objectTable t"]) (use same_but_links_upd [of "store t" c ec] ec in auto)
  qed
qed

text \<open>Changing entries, but neither keys nor links.\<close>

definition same_shape :: "(addr \<Rightarrow> omniObjTableEntry option) \<Rightarrow> (addr \<Rightarrow> omniObjTableEntry option) \<Rightarrow> addr \<Rightarrow> bool" where
  "same_shape st st' a \<longleftrightarrow>
     map_option pd_key (st' a) = map_option pd_key (st a) \<and>
     map_option pd_nextInObjectTable (st' a) = map_option pd_nextInObjectTable (st a)"

lemma chain_shape: "(\<And>a. a \<in> set as \<Longrightarrow> same_shape st st' a) \<Longrightarrow> chain st p as \<Longrightarrow> chain st' p as"
proof (induction as arbitrary: p)
  case Nil then show ?case by simp
next
  case (Cons a as)
  then obtain e where p: "p = Some a" "st a = Some e" "chain st (pd_nextInObjectTable e) as" by auto
  have "same_shape st st' a" using Cons.prems(1) by simp
  then obtain e' where "st' a = Some e'" "pd_nextInObjectTable e' = pd_nextInObjectTable e"
    using p(2) by (auto simp: same_shape_def)
  moreover have "chain st' (pd_nextInObjectTable e) as" by (rule Cons.IH) (use Cons.prems(1) p(3) in auto)
  ultimately show ?case using p(1) by auto
qed

lemma key_at_shape: "same_shape st st' a \<Longrightarrow> st a \<noteq> None \<Longrightarrow> key_at st' a = key_at st a"
  by (auto simp: same_shape_def key_at_def)

lemma table_wf_shape:
  assumes wf: "table_wf t bs" and sh: "\<And>a. a \<in> set (concat bs) \<Longrightarrow> same_shape (store t) st a"
  shows "table_wf (t\<lparr>store := st\<rparr>) bs"
proof -
  have b: "buckets (objectTableSize t) (store t) (objectTable t) bs" using wf by (simp add: table_wf_def)
  have k: "key_at st a = key_at (store t) a" if "a \<in> set (concat bs)" for a
    by (rule key_at_shape [OF sh [OF that] buckets_member(2) [OF b that]])
  have "chain st (objectTable t ! i) (bs ! i)" if "i < length bs" for i
  proof (rule chain_shape [of "bs ! i" "store t"])
    fix a assume "a \<in> set (bs ! i)"
    with that show "same_shape (store t) st a" by (intro sh) (auto simp: in_concat_nth simp del: set_concat)
  qed (use b that in \<open>simp add: buckets_def list_all2_conv_all_nth\<close>)
  then have "list_all2 (chain st) (objectTable t) bs" using b by (simp add: buckets_def list_all2_conv_all_nth)
  moreover have "placed (objectTableSize t) st bs"
    using b k unfolding buckets_def placed_def by (metis in_concat_nth)
  moreover have "inj_on (key_at st) (set (concat bs))"
    using wf k by (simp only: table_wf_def) (metis (no_types, lifting) inj_on_cong)
  ultimately show ?thesis using b by (simp add: table_wf_def buckets_def)
qed

text \<open>The entries of the table.\<close>

definition entries :: "omniObjTable \<Rightarrow> addr set" where
  "entries t = ran (entry_of t)"

lemma entries_wf: "table_wf t bs \<Longrightarrow> entries t = set (concat bs)"
  using entry_of_Some by (fastforce simp: entries_def ran_def simp del: set_concat)

lemma entry_of_key: "table_ok t \<Longrightarrow> entry_of t key = Some a \<Longrightarrow> key_at (store t) a = key"
  using entry_of_Some by (auto simp: table_ok_def simp del: set_concat)

lemma entry_of_entries: "table_ok t \<Longrightarrow> a \<in> entries t \<Longrightarrow> entry_of t (key_at (store t) a) = Some a"
  using entry_of_key by (fastforce simp: entries_def ran_def)

lemma entries_stored: "table_ok t \<Longrightarrow> a \<in> entries t \<Longrightarrow> store t a \<noteq> None"
  using buckets_member(2) by (metis entries_wf table_ok_def table_wf_def)

lemma table_ok_shape:
  assumes ok: "table_ok t" and sh: "\<And>a. a \<in> entries t \<Longrightarrow> same_shape (store t) st a"
  shows "table_ok (t\<lparr>store := st, pd_activations := acts\<rparr>)"
    and "entry_of (t\<lparr>store := st, pd_activations := acts\<rparr>) = entry_of t"
proof -
  obtain bs where wf: "table_wf t bs" and ld: "load_ok t" and len: "unat (numObjectsInTable t) = length (concat bs)"
    using ok by (auto simp: table_ok_def)
  have e: "entries t = set (concat bs)" by (rule entries_wf [OF wf])
  have "table_wf (t\<lparr>store := st\<rparr>) bs" by (rule table_wf_shape [OF wf]) (use sh e in auto)
  then have w: "table_wf (t\<lparr>store := st, pd_activations := acts\<rparr>) bs" by (simp add: table_wf_def)
  with ld len show "table_ok (t\<lparr>store := st, pd_activations := acts\<rparr>)"
    by (auto simp: table_ok_def load_ok_def bounds_ok_def)
  show "entry_of (t\<lparr>store := st, pd_activations := acts\<rparr>) = entry_of t"
  proof (rule entry_of_cong [OF wf w refl])
    fix a assume "a \<in> set (concat bs)"
    with sh e entries_stored [OF ok] show "key_at (store (t\<lparr>store := st, pd_activations := acts\<rparr>)) a = key_at (store t) a"
      by (simp add: key_at_shape del: set_concat)
  qed
qed

text \<open>The part of \<^verbatim>\<open>setDead\<close> that concerns the table.\<close>

lemma remove_from_table:
  assumes ok: "table_ok t" and a: "a \<in> entries t"
  shows "\<exists>t'. setDead t a = become_dead t' a \<and> table_ok t' \<and>
    entry_of t' = (entry_of t)(key_at (store t) a := None) \<and> unlinked t' = unlinked t \<and>
    pd_activations t' = pd_activations t \<and> numObjectsInTable t' = numObjectsInTable t - 1"
proof -
  obtain bs where wf: "table_wf t bs" and ld: "load_ok t" and len: "unat (numObjectsInTable t) = length (concat bs)"
    using ok by (auto simp: table_ok_def)
  have am: "a \<in> set (concat bs)" using a entries_wf [OF wf] by simp
  obtain t1 bs1 where u: "unlink t a = Inr t1" and w1: "table_wf t1 bs1"
    and s1: "set (concat bs1) = set (concat bs) - {a}" and l1: "Suc (length (concat bs1)) = length (concat bs)"
    and sm1: "same_but_links (store t) (store t1)" and f1: "\<exists>st tab. t1 = t\<lparr>store := st, objectTable := tab\<rparr>"
    using unlink_wf [OF wf am] by blast
  let ?t = "t1\<lparr>numObjectsInTable := numObjectsInTable t1 - 1\<rparr>"
  have f: "bounds_ok t1" "numObjectsInTable t1 = numObjectsInTable t" "minNumObjects t1 = minNumObjects t"
    "maxNumObjects t1 = maxNumObjects t" "pd_activations t1 = pd_activations t"
    using f1 ld by (auto simp: load_ok_def bounds_ok_def)
  have "0 < unat (numObjectsInTable t)" unfolding len l1 [symmetric] by simp
  then have "numObjectsInTable t \<noteq> 0" by (auto simp: unat_gt_0)
  then have n1: "unat (numObjectsInTable t - 1) = unat (numObjectsInTable t) - 1" "numObjectsInTable t - 1 + 1 = numObjectsInTable t"
    "0 < unat (numObjectsInTable t)"
    by (simp_all add: unat_minus_one unat_gt_0)
  have wf': "table_wf ?t bs1" using w1 by (simp add: table_wf_def)
  have bd: "bounds_ok ?t" using f(1) by (simp add: bounds_ok_def)
  have "unat (numObjectsInTable t) \<le> unat (maxNumObjects t)" using ld by (simp add: load_ok_def word_le_nat_alt)
  then have mx: "numObjectsInTable ?t \<le> maxNumObjects ?t" using f n1(1) by (simp add: word_le_nat_alt)
  have "\<exists>t2 bs2. (if numObjectsInTable ?t < minNumObjects ?t then resize ?t else Inr ?t) = Inr t2 \<and>
    rearranged ?t bs1 t2 bs2 \<and> load_ok t2"
  proof (cases "numObjectsInTable ?t < minNumObjects ?t")
    case True
    have "minNumObjects ?t \<le> numObjectsInTable ?t + 1" using f ld n1(2) by (simp add: load_ok_def)
    with resize_shrinks [OF wf' bd mx True] True show ?thesis by simp
  next
    case False
    then have "load_ok ?t" using bd mx by (simp add: load_ok_def)
    with False wf' show ?thesis by (auto simp: rearranged_def)
  qed
  then obtain t2 bs2 where t2: "(if numObjectsInTable ?t < minNumObjects ?t then resize ?t else Inr ?t) = Inr t2"
    and ra: "rearranged ?t bs1 t2 bs2" and l2: "load_ok t2" by blast
  have d: "setDead t a = become_dead t2 a" using u t2 by (simp add: setDead_def Let_def)
  have w2: "table_wf t2 bs2" and s2: "set (concat bs2) = set (concat bs1)" and sm2: "same_but_links (store t1) (store t2)"
    using ra by (simp_all add: rearranged_def)
  have sm: "same_but_links (store t) (store t2)" by (rule same_but_links_trans [OF sm1 sm2])
  have "unat (numObjectsInTable t2) = length (concat bs2)"
    using ra rearranged_length [OF wf' ra] n1 len l1 f(2) by (simp add: rearranged_def)
  then have ok2: "table_ok t2" using w2 l2 by (auto simp: table_ok_def)
  have "entry_of t2 k = Some b \<longleftrightarrow> ((entry_of t)(key_at (store t) a := None)) k = Some b" for k b
    using entry_of_Some [OF w2, of k b] entry_of_Some [OF wf, of k b] wf am
    unfolding s2 s1 same_but_links_key [OF sm] table_wf_def
    by (auto dest: inj_onD simp del: set_concat)
  then have "entry_of t2 = (entry_of t)(key_at (store t) a := None)" by (intro ext) (metis not_None_eq)
  then show ?thesis using d ok2 unlinked_same [OF sm] ra f by (intro exI [of _ t2]) (simp add: rearranged_def)
qed

end
