(* ===== verification/Object_Life.thy ===== *)
theory Object_Life
  imports Object_Table_Inv
begin

unbundle bit_operations_syntax

text \<open>
  The life of a local object: the threads that locate it and wait for its state to change, the
  invocations on it (\<^verbatim>\<open>orbcore/localIdentity.cc\<close>), its deactivation by \<^verbatim>\<open>deactivate_object\<close> or by the
  destruction of its adapter (\<^verbatim>\<open>orbcore/poa.cc\<close>, \<^verbatim>\<open>orbcore/corbaBoa.cc\<close>), its etherealisation, and the
  references to it. Every critical section of \<^verbatim>\<open>omni::internalLock\<close> is an action; \<open>exec\<close> is what the
  code does in it and \<open>enabled\<close> what is known of the state where the code is called. The actions of
  all threads interleave freely.
\<close>

section \<open>Critical sections outside the table\<close>

definition add_invocation :: "omniObjTable \<Rightarrow> addr \<Rightarrow> omniObjTable result" where
  "add_invocation t a =
     ebind (get_entry t a) (\<lambda>e. Inr (put_entry t a (e\<lparr>pd_nInvocations := pd_nInvocations e + 1\<rparr>)))"

definition lastInvocationHasCompleted :: "omniObjTable \<Rightarrow> addr \<Rightarrow> omniObjTable result" where
  "lastInvocationHasCompleted t a =
     ebind (get_entry t a) (\<lambda>e.
     if pd_state e = DEACTIVATING_OA then Inr t else setEtherealising t a)"

definition drop_invocation :: "omniObjTable \<Rightarrow> addr \<Rightarrow> omniObjTable result" where
  "drop_invocation t a =
     ebind (get_entry t a) (\<lambda>e.
     let e = e\<lparr>pd_nInvocations := pd_nInvocations e - 1\<rparr>; t = put_entry t a e in
     if 0 < pd_nInvocations e then Inr t else lastInvocationHasCompleted t a)"

text \<open>\<^verbatim>\<open>deactivate_object\<close> once it has found the entry active.\<close>

definition deactivate_entry :: "omniObjTable \<Rightarrow> addr \<Rightarrow> omniObjTable result" where
  "deactivate_entry t a =
     ebind (setDeactivating t a) (\<lambda>t.
     ebind (get_entry t a) (\<lambda>e.
     if pd_nInvocations e = 0 then lastInvocationHasCompleted t a else Inr t))"

text \<open>\<^verbatim>\<open>complete_object_deactivation\<close>, for one entry.\<close>

definition complete_deactivation :: "omniObjTable \<Rightarrow> addr \<Rightarrow> omniObjTable result" where
  "complete_deactivation t a =
     ebind (get_entry t a) (\<lambda>e.
     ebind (if in_set (pd_state e) (state_bits DEACTIVATING) then setEtherealising t a else Inr t) (\<lambda>t.
     ebind (get_entry t a) (\<lambda>e.
     ebind (oassert (pd_nInvocations e = 0)) (\<lambda>_. Inr t))))"

section \<open>The system\<close>

text \<open>
  \<open>calls\<close> counts the invocations in progress (the objects of class \<^verbatim>\<open>omniLocalIdentity_RefHolder\<close>),
  \<open>holds\<close> the references without an object reference that \<^verbatim>\<open>createIdentity\<close> hands out, and \<open>waits\<close> says
  for which entry, and for which call, a thread is in \<^verbatim>\<open>wait\<close>.
\<close>

datatype caller = Locate "8 word list" "32 word" | LocateActive "8 word list" bool

record life =
  table :: omniObjTable
  calls :: "addr \<Rightarrow> nat"
  holds :: "addr \<Rightarrow> nat"
  waits :: "nat \<Rightarrow> (addr \<times> caller) option"

definition start :: "32 word \<Rightarrow> life" where
  "start param = \<lparr>table = attach param, calls = (\<lambda>_. 0), holds = (\<lambda>_. 0), waits = (\<lambda>_. None)\<rparr>"

datatype answer = Nothing | Blocked | Answer "addr option"

fun search :: "omniObjTable \<Rightarrow> caller \<Rightarrow> located result" where
  "search t (Locate key states) = locate t key (hash key) states"
| "search t (LocateActive key wait) = locateActive t key (hash key) wait"

fun again :: "omniObjTable \<Rightarrow> addr \<Rightarrow> caller \<Rightarrow> located result" where
  "again t a (Locate key states) = locate_again t a states"
| "again t a (LocateActive key wait) = locateActive_again t a wait"

fun wait_set :: "caller \<Rightarrow> 32 word" where
  "wait_set (Locate key states) = states"
| "wait_set (LocateActive key wait) =
     state_bits ACTIVE OR state_bits DEACTIVATING OR state_bits ETHEREALISING"

text \<open>
  What a look-up does with the entry it has found. A call of \<^verbatim>\<open>wait\<close> that does not block would leave
  everything as it is, and the loop around it would not end.
\<close>

definition follow :: "life \<Rightarrow> nat \<Rightarrow> caller \<Rightarrow> located \<Rightarrow> (answer \<times> life) result" where
  "follow s th c l =
     (case l of Returns r \<Rightarrow> Inr (Answer r, s)
      | WaitsFor a \<Rightarrow>
          ebind (wait_enter (table s) a (wait_set c) th) (\<lambda>(r, t).
          case r of None \<Rightarrow> Inr (Blocked, s\<lparr>table := t, waits := (waits s)(th \<mapsto> (a, c))\<rparr>)
          | Some _ \<Rightarrow> Inl NoReturn))"

definition call :: "life \<Rightarrow> nat \<Rightarrow> caller \<Rightarrow> (answer \<times> life) result" where
  "call s th c = ebind (search (table s) c) (follow s th c)"

definition wake :: "life \<Rightarrow> nat \<Rightarrow> addr \<Rightarrow> caller \<Rightarrow> (answer \<times> life) result" where
  "wake s th a c =
     ebind (wait_wake (table s) a (wait_set c) th) (\<lambda>(r, t).
     case r of None \<Rightarrow> Inr (Blocked, s\<lparr>table := t\<rparr>)
     | Some st \<Rightarrow>
         (let s = s\<lparr>table := t, waits := (waits s)(th := None)\<rparr> in
          if st = DEAD then call s th c
          else ebind (again t a c) (follow s th c)))"

datatype action =
    Call nat caller | Wake nat | Spurious nat
  | NewEntry "8 word list" addr | SetActive addr addr addr | Abandon addr
  | Enter addr | Leave addr
  | Deactivate addr | DeactivateOA addr | CompleteOA addr | Etherealised addr
  | GainRef addr addr | LoseRef addr addr | Hold addr | Release addr

definition quietly :: "life \<Rightarrow> omniObjTable result \<Rightarrow> (answer \<times> life) result" where
  "quietly s r = ebind r (\<lambda>t. Inr (Nothing, s\<lparr>table := t\<rparr>))"

fun exec :: "life \<Rightarrow> action \<Rightarrow> (answer \<times> life) result" where
  "exec s (Call th c) = call s th c"
| "exec s (Wake th) = (case waits s th of None \<Rightarrow> Inl Undefined | Some (a, c) \<Rightarrow> wake s th a c)"
| "exec s (Spurious th) =
     (case waits s th of None \<Rightarrow> Inl Undefined
      | Some (a, c) \<Rightarrow>
          quietly s (ebind (get_entry (table s) a) (\<lambda>e.
            Inr (put_entry (table s) a (e\<lparr>pd_cond := map_option (filter (\<lambda>x. x \<noteq> th)) (pd_cond e)\<rparr>)))))"
| "exec s (NewEntry key a) =
     ebind (newEntry (table s) key (hash key) a) (\<lambda>(r, t). Inr (Answer r, s\<lparr>table := t\<rparr>))"
| "exec s (SetActive a servant adapter) = quietly s (setActive (table s) a servant adapter)"
| "exec s (Abandon a) = quietly s (setDead (table s) a)"
| "exec s (Enter a) =
     ebind (add_invocation (table s) a) (\<lambda>t. Inr (Nothing, s\<lparr>table := t, calls := (calls s)(a := calls s a + 1)\<rparr>))"
| "exec s (Leave a) =
     ebind (drop_invocation (table s) a) (\<lambda>t. Inr (Nothing, s\<lparr>table := t, calls := (calls s)(a := calls s a - 1)\<rparr>))"
| "exec s (Deactivate a) = quietly s (deactivate_entry (table s) a)"
| "exec s (DeactivateOA a) = quietly s (setDeactivatingOA (table s) a)"
| "exec s (CompleteOA a) = quietly s (complete_deactivation (table s) a)"
| "exec s (Etherealised a) = quietly s (setDead (table s) a)"
| "exec s (GainRef a r) = quietly s (gainRef (table s) a (Some r))"
| "exec s (LoseRef a r) = quietly s (loseRef (table s) a (Some r))"
| "exec s (Hold a) =
     ebind (gainRef (table s) a None) (\<lambda>t. Inr (Nothing, s\<lparr>table := t, holds := (holds s)(a := holds s a + 1)\<rparr>))"
| "exec s (Release a) =
     ebind (loseRef (table s) a None) (\<lambda>t. Inr (Nothing, s\<lparr>table := t, holds := (holds s)(a := holds s a - 1)\<rparr>))"

text \<open>What an entry has to be like for the action to be taken.\<close>

definition entry_with :: "life \<Rightarrow> addr \<Rightarrow> (omniObjTableEntry \<Rightarrow> bool) \<Rightarrow> bool" where
  "entry_with s a P = (case store (table s) a of None \<Rightarrow> False | Some e \<Rightarrow> P e)"

definition blocked :: "omniObjTableEntry \<Rightarrow> nat list" where
  "blocked e = (case pd_cond e of None \<Rightarrow> [] | Some ths \<Rightarrow> ths)"

fun enabled :: "life \<Rightarrow> action \<Rightarrow> bool" where
  "enabled s (Call th c) = (waits s th = None)"
| "enabled s (Wake th) =
     (case waits s th of None \<Rightarrow> False | Some (a, c) \<Rightarrow> \<not> entry_with s a (\<lambda>e. th \<in> set (blocked e)))"
| "enabled s (Spurious th) = (waits s th \<noteq> None)"
| "enabled s (NewEntry key a) = (store (table s) a = None \<and> numObjectsInTable (table s) < 2 ^ 31)"
| "enabled s (SetActive a servant adapter) = entry_with s a (\<lambda>e. pd_state e = ACTIVATING)"
| "enabled s (Abandon a) = entry_with s a (\<lambda>e. pd_state e = ACTIVATING)"
| "enabled s (Enter a) =
     entry_with s a (\<lambda>e. in_set (pd_state e) (state_bits ACTIVE OR state_bits DEACTIVATING))"
| "enabled s (Leave a) = (0 < calls s a)"
| "enabled s (Deactivate a) = entry_with s a (\<lambda>e. pd_state e = ACTIVE)"
| "enabled s (DeactivateOA a) = entry_with s a (\<lambda>e. pd_state e = ACTIVE)"
| "enabled s (CompleteOA a) = (calls s a = 0 \<and> entry_with s a (\<lambda>e. pd_state e = DEACTIVATING_OA))"
| "enabled s (Etherealised a) = entry_with s a (\<lambda>e. pd_state e = ETHEREALISING)"
| "enabled s (GainRef a r) = entry_with s a (\<lambda>e. pd_state e \<noteq> DEAD \<or> 0 < holds s a \<or> pd_objRefs e \<noteq> [])"
| "enabled s (LoseRef a r) = entry_with s a (\<lambda>e. r \<in> set (pd_objRefs e))"
| "enabled s (Hold a) = entry_with s a (\<lambda>e. pd_state e \<noteq> DEAD)"
| "enabled s (Release a) = (0 < holds s a)"

inductive step :: "life \<Rightarrow> action \<Rightarrow> answer \<Rightarrow> life \<Rightarrow> bool" where
  step: "enabled s act \<Longrightarrow> exec s act = Inr (ans, s') \<Longrightarrow> step s act ans s'"

inductive_cases step_cases: "step s act ans s'"

inductive_simps step_simps: "step s act ans s'"

inductive reachable :: "32 word \<Rightarrow> life \<Rightarrow> bool" for param where
  start: "reachable param (start param)"
| step: "reachable param s \<Longrightarrow> step s act ans s' \<Longrightarrow> reachable param s'"

end
