(* ===== verification/Object_Life_Inv.thy ===== *)
theory Object_Life_Inv
  imports Object_Life
begin

unbundle bit_operations_syntax

text \<open>
  The invariant of the system of threads and entries, and that every enabled action keeps it and ends
  without a failed assertion, a dangling pointer or an endless walk.
\<close>

section \<open>The invariant\<close>

definition waiters_of :: "(nat \<Rightarrow> (addr \<times> caller) option) \<Rightarrow> addr \<Rightarrow> nat set" where
  "waiters_of w a = {th. \<exists>c. w th = Some (a, c)}"

text \<open>
  What holds of one entry: the table, the invocations, the references and the threads that use it. A
  thread is blocked only while the state of the entry is not one it waits for.
\<close>

fun key_of :: "caller \<Rightarrow> 8 word list" where
  "key_of (Locate key states) = key"
| "key_of (LocateActive key wait) = key"

definition sleeps_ok :: "(nat \<Rightarrow> (addr \<times> caller) option) \<Rightarrow> addr \<Rightarrow> omniObjTableEntry \<Rightarrow> bool" where
  "sleeps_ok w a e \<longleftrightarrow> (\<forall>th \<in> set (blocked e). \<exists>c. w th = Some (a, c) \<and>
     pd_state e \<noteq> DEAD \<and> \<not> in_set (pd_state e) (wait_set c)) \<and>
   (\<forall>th c. w th = Some (a, c) \<longrightarrow> pd_key e = key_of c)"

definition counts_ok :: "nat \<Rightarrow> nat \<Rightarrow> nat set \<Rightarrow> omniObjTableEntry \<Rightarrow> bool" where
  "counts_ok n h W e \<longleftrightarrow>
     pd_waiters e = int (card W) \<and> (pd_cond e = None \<longrightarrow> W = {}) \<and>
     pd_refCount e = (if pd_state e = DEAD then 0 else 1) + int h + pd_waiters e + int (length (pd_objRefs e)) \<and>
     0 < pd_refCount e \<and>
     (pd_state e \<noteq> DEAD \<longrightarrow>
      pd_nInvocations e = int n + (if pd_state e = ACTIVATING \<or> pd_state e = ACTIVE then 1 else 0))"

definition stage_ok :: "nat \<Rightarrow> (addr \<Rightarrow> addr list) \<Rightarrow> addr \<Rightarrow> omniObjTableEntry \<Rightarrow> bool" where
  "stage_ok n acts a e \<longleftrightarrow>
     (case pd_state e of
        ACTIVATING \<Rightarrow> n = 0 \<and> pd_servant e = None \<and> pd_adapter e = None
      | ACTIVE \<Rightarrow> \<exists>sv. pd_servant e = Some sv \<and> a \<in> set (acts sv)
      | DEACTIVATING \<Rightarrow> 0 < n \<and> (\<exists>sv. pd_servant e = Some sv \<and> a \<in> set (acts sv))
      | DEACTIVATING_OA \<Rightarrow> \<exists>sv. pd_servant e = Some sv \<and> a \<in> set (acts sv)
      | ETHEREALISING \<Rightarrow> n = 0
      | DEAD \<Rightarrow> n = 0)"

definition entry_ok :: "life \<Rightarrow> addr \<Rightarrow> bool" where
  "entry_ok s a =
     (case store (table s) a of
        None \<Rightarrow> calls s a = 0 \<and> holds s a = 0 \<and> waiters_of (waits s) a = {}
      | Some e \<Rightarrow>
          (a \<in> entries (table s) \<longleftrightarrow> pd_state e \<noteq> DEAD) \<and> sleeps_ok (waits s) a e \<and>
          counts_ok (calls s a) (holds s a) (waiters_of (waits s) a) e \<and>
          stage_ok (calls s a) (pd_activations (table s)) a e)"

definition life_ok :: "life \<Rightarrow> bool" where
  "life_ok s \<longleftrightarrow> table_ok (table s) \<and> finite (dom (waits s)) \<and> (\<forall>a. entry_ok s a)"

lemma life_ok_finite: "life_ok s \<Longrightarrow> finite (dom (waits s))"
  by (simp add: life_ok_def)

lemma entry_okD:
  assumes "life_ok s" and "store (table s) a = Some e"
  shows "a \<in> entries (table s) \<longleftrightarrow> pd_state e \<noteq> DEAD" and "sleeps_ok (waits s) a e"
    and "counts_ok (calls s a) (holds s a) (waiters_of (waits s) a) e"
    and "stage_ok (calls s a) (pd_activations (table s)) a e"
proof -
  have "entry_ok s a" using assms(1) by (simp add: life_ok_def)
  then show "a \<in> entries (table s) \<longleftrightarrow> pd_state e \<noteq> DEAD" and "sleeps_ok (waits s) a e"
    and "counts_ok (calls s a) (holds s a) (waiters_of (waits s) a) e"
    and "stage_ok (calls s a) (pd_activations (table s)) a e"
    using assms(2) by (simp_all add: entry_ok_def)
qed

lemma stored:
  assumes "life_ok s" and "0 < calls s a \<or> 0 < holds s a \<or> waits s th = Some (a, c) \<or> a \<in> entries (table s)"
  obtains e where "store (table s) a = Some e"
proof -
  have "entry_ok s a" "table_ok (table s)" using assms(1) by (simp_all add: life_ok_def)
  then have "store (table s) a \<noteq> None"
    using assms(2) entries_stored [of "table s" a] by (auto simp: entry_ok_def waiters_of_def split: option.splits)
  then show ?thesis using that by blast
qed

lemma finite_waiters: "finite (dom w) \<Longrightarrow> finite (waiters_of w a)"
  by (rule finite_subset [of _ "dom w"]) (auto simp: waiters_of_def)

subsection \<open>Links do not matter\<close>

lemma set_next_inv [simp]:
  "sleeps_ok w a (set_next e p) = sleeps_ok w a e" "counts_ok n h W (set_next e p) = counts_ok n h W e"
  "stage_ok n acts a (set_next e p) = stage_ok n acts a e" "pd_state (set_next e p) = pd_state e"
  by (simp_all add: sleeps_ok_def counts_ok_def stage_ok_def set_next_def blocked_def split: State.split)

lemma entry_ok_unlinked:
  assumes "entry_ok s a" and "unlinked (table s') a = unlinked (table s) a"
    and "a \<in> entries (table s') \<longleftrightarrow> a \<in> entries (table s)"
    and "calls s' a = calls s a" "holds s' a = holds s a"
    and "\<And>th c. waits s' th = Some (a, c) \<longleftrightarrow> waits s th = Some (a, c)"
    and "\<And>sv. a \<in> set (pd_activations (table s) sv) \<Longrightarrow> a \<in> set (pd_activations (table s') sv)"
  shows "entry_ok s' a"
proof -
  have w: "waiters_of (waits s') a = waiters_of (waits s) a" using assms(6) by (simp add: waiters_of_def)
  show ?thesis
  proof (cases "store (table s) a")
    case None
    with assms(2) have "store (table s') a = None" by (simp add: unlinked_def)
    with None assms w show ?thesis by (simp add: entry_ok_def)
  next
    case (Some e)
    with assms(2) obtain e' where e': "store (table s') a = Some e'" "set_next e' None = set_next e None"
      by (auto simp: unlinked_def)
    have eq: "P e' = P e" if "\<And>e p. P (set_next e p) = P e" for P :: "omniObjTableEntry \<Rightarrow> 'b"
      using that e'(2) by metis
    have "stage_ok (calls s a) (pd_activations (table s')) a e"
      using assms(1,7) Some by (auto simp: entry_ok_def stage_ok_def split: State.splits)
    moreover have "sleeps_ok (waits s') a e" using assms(1,6) Some by (simp add: entry_ok_def sleeps_ok_def)
    ultimately show ?thesis
      using assms(1,3-5) Some e'(1) w eq [of pd_state] eq [of "sleeps_ok (waits s') a"]
        eq [of "counts_ok (calls s a) (holds s a) (waiters_of (waits s) a)"]
        eq [of "stage_ok (calls s a) (pd_activations (table s')) a"]
      by (simp add: entry_ok_def)
  qed
qed

text \<open>An action that concerns one entry.\<close>

lemma life_ok_update:
  assumes ok: "life_ok s" and t: "table_ok (table s')" and w: "finite (dom (waits s'))"
    and a: "entry_ok s' a"
    and u: "\<And>b. b \<noteq> a \<Longrightarrow> unlinked (table s') b = unlinked (table s) b"
    and en: "\<And>b. b \<noteq> a \<Longrightarrow> b \<in> entries (table s') \<longleftrightarrow> b \<in> entries (table s)"
    and gh: "\<And>b. b \<noteq> a \<Longrightarrow> calls s' b = calls s b" "\<And>b. b \<noteq> a \<Longrightarrow> holds s' b = holds s b"
      "\<And>b th c. b \<noteq> a \<Longrightarrow> waits s' th = Some (b, c) \<longleftrightarrow> waits s th = Some (b, c)"
    and ac: "\<And>b sv. b \<noteq> a \<Longrightarrow> b \<in> set (pd_activations (table s) sv) \<Longrightarrow> b \<in> set (pd_activations (table s') sv)"
  shows "life_ok s'"
proof -
  have "entry_ok s' b" for b
  proof (cases "b = a")
    case True with a show ?thesis by simp
  next
    case False
    show ?thesis
      by (rule entry_ok_unlinked [of s]) (use ok False u en gh ac in \<open>auto simp: life_ok_def\<close>)
  qed
  with t w show ?thesis by (simp add: life_ok_def)
qed

text \<open>An action that writes one entry and leaves its key and its link.\<close>

lemma life_ok_put:
  assumes ok: "life_ok s" and e: "store (table s) a = Some e"
    and e': "pd_key e' = pd_key e" "pd_nextInObjectTable e' = pd_nextInObjectTable e"
    and s': "table s' = (table s)\<lparr>store := (store (table s))(a \<mapsto> e'), pd_activations := acts\<rparr>"
    and gh: "\<And>b. b \<noteq> a \<Longrightarrow> calls s' b = calls s b" "\<And>b. b \<noteq> a \<Longrightarrow> holds s' b = holds s b"
      "\<And>b th c. b \<noteq> a \<Longrightarrow> waits s' th = Some (b, c) \<longleftrightarrow> waits s th = Some (b, c)"
    and w: "finite (dom (waits s'))"
    and ac: "\<And>b sv. b \<noteq> a \<Longrightarrow> b \<in> set (pd_activations (table s) sv) \<Longrightarrow> b \<in> set (acts sv)"
    and st: "pd_state e' = DEAD \<longleftrightarrow> pd_state e = DEAD"
    and good: "sleeps_ok (waits s') a e'" "counts_ok (calls s' a) (holds s' a) (waiters_of (waits s') a) e'"
      "stage_ok (calls s' a) acts a e'"
  shows "life_ok s' \<and> entry_of (table s') = entry_of (table s)"
proof -
  have t: "table_ok (table s)" using ok by (simp add: life_ok_def)
  have sh: "same_shape (store (table s)) ((store (table s))(a \<mapsto> e')) b" for b
    using e e' by (simp add: same_shape_def)
  have t': "table_ok (table s')" "entry_of (table s') = entry_of (table s)"
    unfolding s' by (rule table_ok_shape [OF t sh])+
  have en: "entries (table s') = entries (table s)" using t'(2) by (simp add: entries_def)
  have "entry_ok s' a"
    using entry_okD(1) [OF ok e] good st en by (simp add: entry_ok_def s')
  then have "life_ok s'"
    by (rule life_ok_update [OF ok t'(1) w]) (use gh ac en in \<open>auto simp: s' unlinked_def\<close>)
  with t'(2) show ?thesis by simp
qed

lemma put_entry_acts: "put_entry t a e = t\<lparr>store := (store t)(a \<mapsto> e), pd_activations := pd_activations t\<rparr>"
  by (simp add: put_entry_def)

section \<open>Broadcasts\<close>

definition woken :: "omniObjTableEntry \<Rightarrow> omniObjTableEntry" where
  "woken e = (if pd_waiters e \<noteq> 0 then e\<lparr>pd_cond := Some []\<rparr> else e)"

lemma woken_simps [simp]:
  "pd_key (woken e) = pd_key e" "pd_nextInObjectTable (woken e) = pd_nextInObjectTable e"
  "pd_state (woken e) = pd_state e" "pd_nInvocations (woken e) = pd_nInvocations e"
  "pd_servant (woken e) = pd_servant e" "pd_refCount (woken e) = pd_refCount e"
  "pd_waiters (woken e) = pd_waiters e" "pd_objRefs (woken e) = pd_objRefs e"
  "pd_adapter (woken e) = pd_adapter e"
  by (simp_all add: woken_def)

text \<open>An entry whose condition variable and number of waiting threads agree can be broadcast.\<close>

definition cond_ok :: "omniObjTableEntry \<Rightarrow> bool" where
  "cond_ok e \<longleftrightarrow> (pd_waiters e \<noteq> 0 \<longrightarrow> pd_cond e \<noteq> None) \<and> (pd_waiters e = 0 \<longrightarrow> blocked e = [])"

lemma broadcast_ok: "cond_ok e \<Longrightarrow> broadcast e = Inr (woken e)"
  by (auto simp: cond_ok_def broadcast_def woken_def)

lemma blocked_woken: "cond_ok e \<Longrightarrow> blocked (woken e) = []"
  by (auto simp: cond_ok_def woken_def blocked_def)

lemma cond_woken: "pd_cond (woken e) = None \<Longrightarrow> pd_cond e = None"
  by (auto simp: woken_def split: if_splits)

lemma cond_ok_cong: "pd_waiters e' = pd_waiters e \<Longrightarrow> pd_cond e' = pd_cond e \<Longrightarrow> cond_ok e \<Longrightarrow> cond_ok e'"
  by (simp add: cond_ok_def blocked_def)

lemma cond_ok_woken [simp]: "cond_ok e \<Longrightarrow> cond_ok (woken e)"
  by (auto simp: cond_ok_def woken_def blocked_def)

lemma entry_cond_ok:
  assumes ok: "life_ok s" and e: "store (table s) a = Some e"
  shows "cond_ok e"
proof -
  have c: "pd_waiters e = int (card (waiters_of (waits s) a))" "pd_cond e = None \<longrightarrow> waiters_of (waits s) a = {}"
    using entry_okD(3) [OF ok e] by (simp_all add: counts_ok_def)
  have fin: "finite (waiters_of (waits s) a)" using ok by (intro finite_waiters) (simp add: life_ok_def)
  have "set (blocked e) \<subseteq> waiters_of (waits s) a"
    using entry_okD(2) [OF ok e] by (auto simp: sleeps_ok_def waiters_of_def)
  with c fin show ?thesis by (auto simp: cond_ok_def)
qed

section \<open>The states of an entry\<close>

text \<open>An entry goes to another state; nobody stays asleep.\<close>

lemma life_ok_transition:
  assumes ok: "life_ok s" and e: "store (table s) a = Some e"
    and e': "pd_key e' = pd_key e" "pd_nextInObjectTable e' = pd_nextInObjectTable e"
      "pd_waiters e' = pd_waiters e" "pd_refCount e' = pd_refCount e" "pd_objRefs e' = pd_objRefs e"
      "blocked e' = []" "pd_cond e' = None \<Longrightarrow> pd_cond e = None"
    and alive: "pd_state e \<noteq> DEAD" "pd_state e' \<noteq> DEAD"
    and s': "table s' = (table s)\<lparr>store := (store (table s))(a \<mapsto> e'), pd_activations := acts\<rparr>"
      "calls s' = (calls s)(a := n)" "holds s' = holds s" "waits s' = waits s"
    and ac: "\<And>b sv. b \<noteq> a \<Longrightarrow> b \<in> set (pd_activations (table s) sv) \<Longrightarrow> b \<in> set (acts sv)"
    and inv: "pd_nInvocations e' = int n + (if pd_state e' = ACTIVATING \<or> pd_state e' = ACTIVE then 1 else 0)"
    and st: "stage_ok n acts a e'"
  shows "life_ok s' \<and> entry_of (table s') = entry_of (table s)"
proof -
  have "counts_ok (calls s a) (holds s a) (waiters_of (waits s) a) e" by (rule entry_okD(3) [OF ok e])
  then have "counts_ok n (holds s a) (waiters_of (waits s) a) e'"
    using e' alive inv by (auto simp: counts_ok_def)
  moreover have "sleeps_ok (waits s) a e'" using e'(1,6) entry_okD(2) [OF ok e] by (simp add: sleeps_ok_def)
  ultimately show ?thesis
    by (intro life_ok_put [OF ok e e'(1,2) s'(1)]) (use ok ac st alive s'(2-4) in \<open>simp_all add: life_ok_def\<close>)
qed

lemma entry_withE:
  assumes "entry_with s a P"
  obtains e where "store (table s) a = Some e" "P e"
  using assms by (auto simp: entry_with_def split: option.splits)

lemma quietly_Inr [simp]: "quietly s (Inr t) = Inr (Nothing, s\<lparr>table := t\<rparr>)"
  by (simp add: quietly_def)

text \<open>A section that ends without an error, keeps the invariant and the objects of the table.\<close>

definition goes_on :: "life \<Rightarrow> (answer \<times> life) result \<Rightarrow> bool" where
  "goes_on s r \<longleftrightarrow> (\<exists>ans s'. r = Inr (ans, s') \<and> life_ok s' \<and> entry_of (table s') = entry_of (table s))"

lemma SetActive_ok:
  assumes ok: "life_ok s" and en: "enabled s (SetActive a sv ad)"
  shows "goes_on s (exec s (SetActive a sv ad))"
proof -
  obtain e where e: "store (table s) a = Some e" "pd_state e = ACTIVATING" using en by (auto elim: entry_withE)
  have n: "calls s a = 0" "pd_servant e = None" "pd_adapter e = None"
    using entry_okD(4) [OF ok e(1)] e(2) by (simp_all add: stage_ok_def)
  let ?e = "e\<lparr>pd_servant := Some sv, pd_adapter := Some ad, pd_state := ACTIVE\<rparr>"
  have c: "cond_ok ?e" by (rule cond_ok_cong [OF _ _ entry_cond_ok [OF ok e(1)]]) simp_all
  let ?acts = "(pd_activations (table s))(sv := pd_activations (table s) sv @ [a])"
  let ?t = "(table s)\<lparr>store := (store (table s))(a \<mapsto> woken ?e), pd_activations := ?acts\<rparr>"
  have "setActive (table s) a sv ad = Inr ?t"
    using e n broadcast_ok [OF c] by (simp add: setActive_def setServant_def addActivation_def put_entry_def)
  moreover have "life_ok (s\<lparr>table := ?t\<rparr>) \<and> entry_of (table (s\<lparr>table := ?t\<rparr>)) = entry_of (table s)"
  proof (rule life_ok_transition [OF ok e(1), where n = 0 and acts = ?acts])
    show "pd_nInvocations (woken ?e) = int 0 + (if pd_state (woken ?e) = ACTIVATING \<or> pd_state (woken ?e) = ACTIVE then 1 else 0)"
      using entry_okD(3) [OF ok e(1)] e(2) n by (simp add: counts_ok_def)
  qed (use c e(2) n cond_woken [of ?e] in \<open>auto simp: blocked_woken stage_ok_def\<close>)
  ultimately show ?thesis by (simp add: goes_on_def)
qed

lemma setEtherealising_eq:
  assumes "store t a = Some e" and "in_set (pd_state e) (state_bits DEACTIVATING)" and "pd_servant e = Some sv"
    and "a \<in> set (pd_activations t sv)" and "cond_ok e"
  shows "setEtherealising t a = Inr (t\<lparr>
    store := (store t)(a \<mapsto> woken (e\<lparr>pd_state := ETHEREALISING, pd_deactivated := True\<rparr>)),
    pd_activations := (pd_activations t)(sv := remove1 a (pd_activations t sv))\<rparr>)"
proof -
  let ?e = "e\<lparr>pd_state := ETHEREALISING, pd_deactivated := True\<rparr>"
  have "cond_ok ?e" by (rule cond_ok_cong [OF _ _ assms(5)]) simp_all
  from broadcast_ok [OF this] show ?thesis
    using assms by (simp add: setEtherealising_def removeActivation_def put_entry_def)
qed

lemma DeactivateOA_ok:
  assumes ok: "life_ok s" and en: "enabled s (DeactivateOA a)"
  shows "goes_on s (exec s (DeactivateOA a))"
proof -
  obtain e where e: "store (table s) a = Some e" "pd_state e = ACTIVE" using en by (auto elim: entry_withE)
  note st = entry_okD(4) [OF ok e(1)] and cn = entry_okD(3) [OF ok e(1)]
  let ?e = "e\<lparr>pd_state := DEACTIVATING_OA, pd_nInvocations := pd_nInvocations e - 1\<rparr>"
  have c: "cond_ok ?e" by (rule cond_ok_cong [OF _ _ entry_cond_ok [OF ok e(1)]]) simp_all
  let ?t = "(table s)\<lparr>store := (store (table s))(a \<mapsto> woken ?e), pd_activations := pd_activations (table s)\<rparr>"
  have "0 < pd_nInvocations e" using cn e(2) by (simp add: counts_ok_def)
  then have "setDeactivatingOA (table s) a = Inr ?t"
    using e broadcast_ok [OF c] by (simp add: setDeactivatingOA_def put_entry_acts)
  moreover have "life_ok (s\<lparr>table := ?t\<rparr>) \<and> entry_of (table (s\<lparr>table := ?t\<rparr>)) = entry_of (table s)"
    by (rule life_ok_transition [OF ok e(1), where n = "calls s a"])
      (use c e(2) st cn cond_woken [of ?e] in \<open>auto simp: blocked_woken stage_ok_def counts_ok_def\<close>)
  ultimately show ?thesis by (simp add: goes_on_def)
qed

lemma Deactivate_ok:
  assumes ok: "life_ok s" and en: "enabled s (Deactivate a)"
  shows "goes_on s (exec s (Deactivate a))"
proof -
  obtain e where e: "store (table s) a = Some e" "pd_state e = ACTIVE" using en by (auto elim: entry_withE)
  note st = entry_okD(4) [OF ok e(1)] and cn = entry_okD(3) [OF ok e(1)]
  obtain sv where sv: "pd_servant e = Some sv" "a \<in> set (pd_activations (table s) sv)"
    using st e(2) by (auto simp: stage_ok_def)
  let ?e = "e\<lparr>pd_state := DEACTIVATING, pd_nInvocations := pd_nInvocations e - 1\<rparr>"
  have c: "cond_ok ?e" by (rule cond_ok_cong [OF _ _ entry_cond_ok [OF ok e(1)]]) simp_all
  let ?t = "(table s)\<lparr>store := (store (table s))(a \<mapsto> woken ?e), pd_activations := pd_activations (table s)\<rparr>"
  have n: "pd_nInvocations e = int (calls s a) + 1" using cn e(2) by (simp add: counts_ok_def)
  then have d: "setDeactivating (table s) a = Inr ?t"
    using e broadcast_ok [OF c] by (simp add: setDeactivating_def put_entry_acts)
  show ?thesis
  proof (cases "calls s a = 0")
    case False
    have "deactivate_entry (table s) a = Inr ?t"
      using d n False by (simp add: deactivate_entry_def)
    moreover have "life_ok (s\<lparr>table := ?t\<rparr>) \<and> entry_of (table (s\<lparr>table := ?t\<rparr>)) = entry_of (table s)"
      by (rule life_ok_transition [OF ok e(1), where n = "calls s a"])
        (use c e(2) sv n False cond_woken [of ?e] in \<open>auto simp: blocked_woken stage_ok_def\<close>)
    ultimately show ?thesis by (simp add: goes_on_def)
  next
    case True
    let ?e2 = "woken ((woken ?e)\<lparr>pd_state := ETHEREALISING, pd_deactivated := True\<rparr>)"
    let ?acts = "(pd_activations (table s))(sv := remove1 a (pd_activations (table s) sv))"
    let ?t2 = "(table s)\<lparr>store := (store (table s))(a \<mapsto> ?e2), pd_activations := ?acts\<rparr>"
    have c2: "cond_ok ((woken ?e)\<lparr>pd_state := ETHEREALISING, pd_deactivated := True\<rparr>)"
      by (rule cond_ok_cong [OF _ _ cond_ok_woken [OF c]]) simp_all
    have "deactivate_entry (table s) a = Inr ?t2"
      using d n True setEtherealising_eq [of ?t a "woken ?e" sv] sv c
      by (simp add: deactivate_entry_def lastInvocationHasCompleted_def in_set_def)
    moreover have "life_ok (s\<lparr>table := ?t2\<rparr>) \<and> entry_of (table (s\<lparr>table := ?t2\<rparr>)) = entry_of (table s)"
    proof (rule life_ok_transition [OF ok e(1), where n = "calls s a" and acts = ?acts])
      show "pd_cond ?e2 = None \<Longrightarrow> pd_cond e = None"
        using cond_woken [of "(woken ?e)\<lparr>pd_state := ETHEREALISING, pd_deactivated := True\<rparr>"] cond_woken [of ?e] by simp
    qed (use c2 e(2) n True in \<open>auto simp: blocked_woken stage_ok_def\<close>)
    ultimately show ?thesis by (simp add: goes_on_def)
  qed
qed

lemma CompleteOA_ok:
  assumes ok: "life_ok s" and en: "enabled s (CompleteOA a)"
  shows "goes_on s (exec s (CompleteOA a))"
proof -
  obtain e where e: "store (table s) a = Some e" "pd_state e = DEACTIVATING_OA" and n: "calls s a = 0"
    using en by (auto elim: entry_withE)
  note st = entry_okD(4) [OF ok e(1)] and cn = entry_okD(3) [OF ok e(1)]
  obtain sv where sv: "pd_servant e = Some sv" "a \<in> set (pd_activations (table s) sv)"
    using st e(2) by (auto simp: stage_ok_def)
  let ?e = "e\<lparr>pd_state := ETHEREALISING, pd_deactivated := True\<rparr>"
  have c: "cond_ok e" by (rule entry_cond_ok [OF ok e(1)])
  have c': "cond_ok ?e" by (rule cond_ok_cong [OF _ _ c]) simp_all
  have i: "pd_nInvocations e = 0" using cn e(2) n by (simp add: counts_ok_def)
  let ?acts = "(pd_activations (table s))(sv := remove1 a (pd_activations (table s) sv))"
  let ?t = "(table s)\<lparr>store := (store (table s))(a \<mapsto> woken ?e), pd_activations := ?acts\<rparr>"
  have "complete_deactivation (table s) a = Inr ?t"
    using e setEtherealising_eq [OF e(1) _ sv c] i by (simp add: complete_deactivation_def in_set_def)
  moreover have "life_ok (s\<lparr>table := ?t\<rparr>) \<and> entry_of (table (s\<lparr>table := ?t\<rparr>)) = entry_of (table s)"
    by (rule life_ok_transition [OF ok e(1), where n = "calls s a" and acts = ?acts])
      (use c' e(2) n i cond_woken [of ?e] in \<open>auto simp: blocked_woken stage_ok_def\<close>)
  ultimately show ?thesis by (simp add: goes_on_def)
qed

section \<open>Invocations\<close>

lemma Enter_ok:
  assumes ok: "life_ok s" and en: "enabled s (Enter a)"
  shows "goes_on s (exec s (Enter a))"
proof -
  obtain e where e: "store (table s) a = Some e"
    and st: "pd_state e = ACTIVE \<or> pd_state e = DEACTIVATING \<or> pd_state e = DEACTIVATING_OA"
    using en by (auto elim!: entry_withE) (rename_tac e, case_tac "pd_state e", simp_all add: in_set_def)
  let ?e = "e\<lparr>pd_nInvocations := pd_nInvocations e + 1\<rparr>"
  let ?t = "(table s)\<lparr>store := (store (table s))(a \<mapsto> ?e), pd_activations := pd_activations (table s)\<rparr>"
  let ?s = "s\<lparr>table := ?t, calls := (calls s)(a := calls s a + 1)\<rparr>"
  have b: "blocked ?e = blocked e" by (simp add: blocked_def)
  have ex: "exec s (Enter a) = Inr (Nothing, ?s)" using e by (simp add: add_invocation_def put_entry_acts)
  moreover have "sleeps_ok (waits s) a ?e" using entry_okD(2) [OF ok e] b by (simp add: sleeps_ok_def)
  moreover have "counts_ok (calls s a + 1) (holds s a) (waiters_of (waits s) a) ?e"
    using entry_okD(3) [OF ok e] st by (auto simp: counts_ok_def)
  moreover have "stage_ok (calls s a + 1) (pd_activations (table s)) a ?e"
    using entry_okD(4) [OF ok e] st by (auto simp: stage_ok_def)
  moreover note fin = life_ok_finite [OF ok]
  ultimately have "life_ok ?s \<and> entry_of (table ?s) = entry_of (table s)"
    by (intro life_ok_put [OF ok e, where acts = "pd_activations (table s)" and e' = ?e]) simp_all
  with ex show ?thesis by (simp add: goes_on_def)
qed

text \<open>The last invocation of an object that is being deactivated starts its etherealisation.\<close>

lemma Leave_ok:
  assumes ok: "life_ok s" and en: "enabled s (Leave a)"
  shows "goes_on s (exec s (Leave a))"
proof -
  have n0: "0 < calls s a" using en by simp
  then obtain e where e: "store (table s) a = Some e" using stored [OF ok] by blast
  note st = entry_okD(4) [OF ok e(1)] and cn = entry_okD(3) [OF ok e(1)] and sl = entry_okD(2) [OF ok e(1)]
  let ?n = "calls s a - 1"
  let ?e = "e\<lparr>pd_nInvocations := pd_nInvocations e - 1\<rparr>"
  have b: "blocked ?e = blocked e" by (simp add: blocked_def)
  have stages: "pd_state e = ACTIVE \<or> pd_state e = DEACTIVATING \<or> pd_state e = DEACTIVATING_OA"
    using st n0 by (auto simp: stage_ok_def split: State.splits)
  then obtain sv where sv: "pd_servant e = Some sv" "a \<in> set (pd_activations (table s) sv)"
    using st by (auto simp: stage_ok_def)
  have inv: "pd_nInvocations e = int (calls s a) + (if pd_state e = ACTIVE then 1 else 0)"
    using cn stages by (auto simp: counts_ok_def)
  have c: "cond_ok ?e" by (rule cond_ok_cong [OF _ _ entry_cond_ok [OF ok e(1)]]) simp_all
  show ?thesis
  proof (cases "pd_state e = DEACTIVATING \<and> calls s a = 1")
    case False
    let ?t = "(table s)\<lparr>store := (store (table s))(a \<mapsto> ?e), pd_activations := pd_activations (table s)\<rparr>"
    let ?s = "s\<lparr>table := ?t, calls := (calls s)(a := ?n)\<rparr>"
    have "drop_invocation (table s) a = Inr ?t"
      using e inv False stages n0
      by (auto simp: drop_invocation_def put_entry_acts Let_def lastInvocationHasCompleted_def)
    then have ex: "exec s (Leave a) = Inr (Nothing, ?s)" by simp
    have "sleeps_ok (waits s) a ?e" using sl b by (simp add: sleeps_ok_def)
    moreover have "counts_ok ?n (holds s a) (waiters_of (waits s) a) ?e"
      using cn stages n0 by (auto simp: counts_ok_def)
    moreover have "stage_ok ?n (pd_activations (table s)) a ?e"
      using st stages False n0 by (auto simp: stage_ok_def)
    moreover note fin = life_ok_finite [OF ok]
    ultimately have "life_ok ?s \<and> entry_of (table ?s) = entry_of (table s)"
      by (intro life_ok_put [OF ok e, where acts = "pd_activations (table s)" and e' = ?e]) simp_all
    with ex show ?thesis by (simp add: goes_on_def)
  next
    case True
    let ?e2 = "woken (?e\<lparr>pd_state := ETHEREALISING, pd_deactivated := True\<rparr>)"
    let ?acts = "(pd_activations (table s))(sv := remove1 a (pd_activations (table s) sv))"
    let ?t2 = "(table s)\<lparr>store := (store (table s))(a \<mapsto> ?e2), pd_activations := ?acts\<rparr>"
    let ?s = "s\<lparr>table := ?t2, calls := (calls s)(a := ?n)\<rparr>"
    have c2: "cond_ok (?e\<lparr>pd_state := ETHEREALISING, pd_deactivated := True\<rparr>)" by (rule cond_ok_cong [OF _ _ c]) simp_all
    have "drop_invocation (table s) a = Inr ?t2"
      using e inv True setEtherealising_eq [of "put_entry (table s) a ?e" a ?e sv] sv c
      by (simp add: drop_invocation_def Let_def lastInvocationHasCompleted_def in_set_def put_entry_def)
    then have "exec s (Leave a) = Inr (Nothing, ?s)" by simp
    moreover have "life_ok ?s \<and> entry_of (table ?s) = entry_of (table s)"
    proof (rule life_ok_transition [OF ok e(1), where n = ?n and acts = ?acts])
      show "pd_cond ?e2 = None \<Longrightarrow> pd_cond e = None"
        using cond_woken [of "?e\<lparr>pd_state := ETHEREALISING, pd_deactivated := True\<rparr>"] by simp
    qed (use c2 True inv in \<open>auto simp: blocked_woken stage_ok_def\<close>)
    ultimately show ?thesis by (simp add: goes_on_def)
  qed
qed

section \<open>References\<close>

lemma stage_ok_cong:
  "pd_state e' = pd_state e \<Longrightarrow> pd_servant e' = pd_servant e \<Longrightarrow> pd_adapter e' = pd_adapter e \<Longrightarrow>
   stage_ok n acts a e' = stage_ok n acts a e"
  by (simp add: stage_ok_def split: State.split)

lemma life_ok_free:
  assumes ok: "life_ok s" and e: "store (table s) a = Some e" "pd_state e = DEAD"
    and s': "table s' = (table s)\<lparr>store := (store (table s))(a := None)\<rparr>"
    and gone: "calls s' a = 0" "holds s' a = 0" "waiters_of (waits s') a = {}"
    and gh: "\<And>b. b \<noteq> a \<Longrightarrow> calls s' b = calls s b" "\<And>b. b \<noteq> a \<Longrightarrow> holds s' b = holds s b"
      "\<And>b th c. b \<noteq> a \<Longrightarrow> waits s' th = Some (b, c) \<longleftrightarrow> waits s th = Some (b, c)"
    and w: "finite (dom (waits s'))"
  shows "life_ok s' \<and> entry_of (table s') = entry_of (table s)"
proof -
  have t: "table_ok (table s)" using ok by (simp add: life_ok_def)
  have an: "a \<notin> entries (table s)" using entry_okD(1) [OF ok e(1)] e(2) by simp
  have eq: "table s' = (table s)\<lparr>store := (store (table s))(a := None), pd_activations := pd_activations (table s)\<rparr>"
    using s' by simp
  have sh: "same_shape (store (table s)) ((store (table s))(a := None)) b" if "b \<in> entries (table s)" for b
    using an that by (auto simp: same_shape_def)
  have t': "table_ok (table s')" "entry_of (table s') = entry_of (table s)"
    unfolding eq by (rule table_ok_shape [OF t sh], assumption)+
  have en: "entries (table s') = entries (table s)" using t'(2) by (simp add: entries_def)
  have "entry_ok s' a" using gone by (simp add: entry_ok_def s')
  then have "life_ok s'"
    by (rule life_ok_update [OF ok t'(1) w]) (use gh en in \<open>auto simp: s' unlinked_def\<close>)
  with t'(2) show ?thesis by simp
qed

lemma waiters_empty:
  assumes "life_ok s" and "store (table s) a = Some e" and "pd_waiters e = 0"
  shows "waiters_of (waits s) a = {}"
  using entry_okD(3) [OF assms(1,2)] assms(3) finite_waiters [OF life_ok_finite [OF assms(1)], of a]
  by (simp add: counts_ok_def)

lemma GainRef_ok:
  assumes ok: "life_ok s" and en: "enabled s (GainRef a r)"
  shows "goes_on s (exec s (GainRef a r))"
proof -
  obtain e where e: "store (table s) a = Some e" using en by (auto elim: entry_withE)
  let ?e = "e\<lparr>pd_refCount := pd_refCount e + 1, pd_objRefs := pd_objRefs e @ [r]\<rparr>"
  let ?s = "s\<lparr>table := (table s)\<lparr>store := (store (table s))(a \<mapsto> ?e), pd_activations := pd_activations (table s)\<rparr>\<rparr>"
  have ex: "exec s (GainRef a r) = Inr (Nothing, ?s)" using e by (simp add: gainRef_def put_entry_acts)
  have "sleeps_ok (waits s) a ?e" using entry_okD(2) [OF ok e] by (simp add: sleeps_ok_def blocked_def)
  moreover have "counts_ok (calls s a) (holds s a) (waiters_of (waits s) a) ?e"
    using entry_okD(3) [OF ok e] by (simp add: counts_ok_def)
  moreover have "stage_ok (calls s a) (pd_activations (table s)) a ?e"
    using entry_okD(4) [OF ok e] by (subst stage_ok_cong) simp_all
  moreover note fin = life_ok_finite [OF ok]
  ultimately have "life_ok ?s \<and> entry_of (table ?s) = entry_of (table s)"
    by (intro life_ok_put [OF ok e, where acts = "pd_activations (table s)" and e' = ?e]) simp_all
  with ex show ?thesis by (simp add: goes_on_def)
qed

lemma Hold_ok:
  assumes ok: "life_ok s" and en: "enabled s (Hold a)"
  shows "goes_on s (exec s (Hold a))"
proof -
  obtain e where e: "store (table s) a = Some e" using en by (auto elim: entry_withE)
  let ?e = "e\<lparr>pd_refCount := pd_refCount e + 1, pd_objRefs := pd_objRefs e\<rparr>"
  let ?s = "s\<lparr>table := (table s)\<lparr>store := (store (table s))(a \<mapsto> ?e), pd_activations := pd_activations (table s)\<rparr>,
    holds := (holds s)(a := holds s a + 1)\<rparr>"
  have ex: "exec s (Hold a) = Inr (Nothing, ?s)" using e by (simp add: gainRef_def put_entry_acts)
  have "sleeps_ok (waits s) a ?e" using entry_okD(2) [OF ok e] by (simp add: sleeps_ok_def blocked_def)
  moreover have "counts_ok (calls s a) (holds s a + 1) (waiters_of (waits s) a) ?e"
    using entry_okD(3) [OF ok e] by (simp add: counts_ok_def)
  moreover have "stage_ok (calls s a) (pd_activations (table s)) a ?e"
    using entry_okD(4) [OF ok e] by (subst stage_ok_cong) simp_all
  moreover note fin = life_ok_finite [OF ok]
  ultimately have "life_ok ?s \<and> entry_of (table ?s) = entry_of (table s)"
    by (intro life_ok_put [OF ok e, where acts = "pd_activations (table s)" and e' = ?e]) simp_all
  with ex show ?thesis by (simp add: goes_on_def)
qed

text \<open>Dropping a reference: the entry stays, or the last reference to a dead entry frees it.\<close>

lemma loseRef_eq:
  assumes "store t a = Some e" and "case r of None \<Rightarrow> refs = pd_objRefs e
    | Some x \<Rightarrow> x \<in> set (pd_objRefs e) \<and> refs = remove1 x (pd_objRefs e)"
  shows "1 < pd_refCount e \<Longrightarrow> loseRef t a r = Inr (put_entry t a (e\<lparr>pd_objRefs := refs, pd_refCount := pd_refCount e - 1\<rparr>))"
    and "pd_refCount e = 1 \<Longrightarrow> pd_waiters e = 0 \<Longrightarrow> refs = [] \<Longrightarrow>
      loseRef t a r = Inr (t\<lparr>store := (store t)(a := None)\<rparr>)"
  using assms by (auto simp: loseRef_def split: option.splits)

lemma LoseRef_ok:
  assumes ok: "life_ok s" and en: "enabled s (LoseRef a r)"
  shows "goes_on s (exec s (LoseRef a r))"
proof -
  obtain e where e: "store (table s) a = Some e" and r: "r \<in> set (pd_objRefs e)" using en by (auto elim: entry_withE)
  note st = entry_okD(4) [OF ok e] and cn = entry_okD(3) [OF ok e]
  note fin = life_ok_finite [OF ok]
  let ?refs = "remove1 r (pd_objRefs e)"
  have lr: "0 < length (pd_objRefs e)" "int (length ?refs) = int (length (pd_objRefs e)) - 1"
    using r length_pos_if_in_set [OF r] by (simp_all add: length_remove1 of_nat_diff Suc_le_eq)
  have cs: "case Some r of None \<Rightarrow> ?refs = pd_objRefs e
    | Some x \<Rightarrow> x \<in> set (pd_objRefs e) \<and> ?refs = remove1 x (pd_objRefs e)" using r by simp
  note lq = loseRef_eq [of "table s" a e, OF e cs]
  show ?thesis
  proof (cases "pd_refCount e = 1")
    case False
    let ?e = "e\<lparr>pd_objRefs := ?refs, pd_refCount := pd_refCount e - 1\<rparr>"
    let ?s = "s\<lparr>table := (table s)\<lparr>store := (store (table s))(a \<mapsto> ?e), pd_activations := pd_activations (table s)\<rparr>\<rparr>"
    have "1 < pd_refCount e" using cn False by (simp add: counts_ok_def)
    then have ex: "exec s (LoseRef a r) = Inr (Nothing, ?s)" using lq(1) by (simp add: put_entry_acts)
    have "sleeps_ok (waits s) a ?e" using entry_okD(2) [OF ok e] by (simp add: sleeps_ok_def blocked_def)
    moreover have "counts_ok (calls s a) (holds s a) (waiters_of (waits s) a) ?e"
      using cn lr False by (auto simp: counts_ok_def)
    moreover have "stage_ok (calls s a) (pd_activations (table s)) a ?e"
      using st by (subst stage_ok_cong) simp_all
    ultimately have "life_ok ?s \<and> entry_of (table ?s) = entry_of (table s)" using fin
      by (intro life_ok_put [OF ok e, where acts = "pd_activations (table s)" and e' = ?e]) simp_all
    with ex show ?thesis by (simp add: goes_on_def)
  next
    case True
    have w: "pd_waiters e = int (card (waiters_of (waits s) a))"
      and k: "pd_refCount e = (if pd_state e = DEAD then 0 else 1) + int (holds s a) + pd_waiters e + int (length (pd_objRefs e))"
      using cn by (simp_all add: counts_ok_def)
    have dd: "pd_state e = DEAD"
    proof (rule ccontr)
      assume "pd_state e \<noteq> DEAD"
      then have "pd_refCount e = 1 + int (holds s a) + pd_waiters e + int (length (pd_objRefs e))" using k by simp
      with True w lr(1) show False by linarith
    qed
    then have "int (holds s a) + int (card (waiters_of (waits s) a)) + int (length (pd_objRefs e)) = 1"
      using k w True by simp
    then have "holds s a = 0" "card (waiters_of (waits s) a) = 0" "length ?refs = 0" using lr by linarith+
    then have d: "pd_state e = DEAD" "pd_waiters e = 0" "?refs = []" "holds s a = 0"
      using w dd by simp_all
    let ?s = "s\<lparr>table := (table s)\<lparr>store := (store (table s))(a := None)\<rparr>\<rparr>"
    have ex: "exec s (LoseRef a r) = Inr (Nothing, ?s)" using lq(2) True d by simp
    have "calls s a = 0" using st d(1) by (simp add: stage_ok_def)
    then have "life_ok ?s \<and> entry_of (table ?s) = entry_of (table s)"
      using waiters_empty [OF ok e d(2)] d fin
      by (intro life_ok_free [OF ok e d(1)]) simp_all
    with ex show ?thesis by (simp add: goes_on_def)
  qed
qed

lemma Release_ok:
  assumes ok: "life_ok s" and en: "enabled s (Release a)"
  shows "goes_on s (exec s (Release a))"
proof -
  have h: "0 < holds s a" using en by simp
  then obtain e where e: "store (table s) a = Some e" using stored [OF ok] by blast
  note st = entry_okD(4) [OF ok e] and cn = entry_okD(3) [OF ok e]
  note fin = life_ok_finite [OF ok]
  have cs: "case None of None \<Rightarrow> pd_objRefs e = pd_objRefs e
    | Some x \<Rightarrow> x \<in> set (pd_objRefs e) \<and> pd_objRefs e = remove1 x (pd_objRefs e)" by simp
  note lq = loseRef_eq [of "table s" a e, OF e cs]
  show ?thesis
  proof (cases "pd_refCount e = 1")
    case False
    let ?e = "e\<lparr>pd_objRefs := pd_objRefs e, pd_refCount := pd_refCount e - 1\<rparr>"
    let ?s = "s\<lparr>table := (table s)\<lparr>store := (store (table s))(a \<mapsto> ?e), pd_activations := pd_activations (table s)\<rparr>,
      holds := (holds s)(a := holds s a - 1)\<rparr>"
    have "1 < pd_refCount e" using cn False by (simp add: counts_ok_def)
    then have ex: "exec s (Release a) = Inr (Nothing, ?s)" using lq(1) by (simp add: put_entry_acts)
    have "sleeps_ok (waits s) a ?e" using entry_okD(2) [OF ok e] by (simp add: sleeps_ok_def blocked_def)
    moreover have "counts_ok (calls s a) (holds s a - 1) (waiters_of (waits s) a) ?e"
      using cn h False by (auto simp: counts_ok_def)
    moreover have "stage_ok (calls s a) (pd_activations (table s)) a ?e"
      using st by (subst stage_ok_cong) simp_all
    ultimately have "life_ok ?s \<and> entry_of (table ?s) = entry_of (table s)" using fin
      by (intro life_ok_put [OF ok e, where acts = "pd_activations (table s)" and e' = ?e]) simp_all
    with ex show ?thesis by (simp add: goes_on_def)
  next
    case True
    then have "int (holds s a) + int (card (waiters_of (waits s) a)) + int (length (pd_objRefs e)) \<le> 1"
      and w: "pd_waiters e = int (card (waiters_of (waits s) a))" and dd: "pd_state e = DEAD"
      using cn h by (auto simp: counts_ok_def split: if_splits)
    then have "holds s a = 1" "card (waiters_of (waits s) a) = 0" "length (pd_objRefs e) = 0" using h by linarith+
    then have d: "pd_state e = DEAD" "pd_waiters e = 0" "pd_objRefs e = []" "holds s a = 1"
      using w dd by simp_all
    let ?s = "s\<lparr>table := (table s)\<lparr>store := (store (table s))(a := None)\<rparr>, holds := (holds s)(a := holds s a - 1)\<rparr>"
    have ex: "exec s (Release a) = Inr (Nothing, ?s)" using lq(2) True d by simp
    have "calls s a = 0" using st d(1) by (simp add: stage_ok_def)
    then have "life_ok ?s \<and> entry_of (table ?s) = entry_of (table s)"
      using waiters_empty [OF ok e d(2)] d fin
      by (intro life_ok_free [OF ok e d(1)]) simp_all
    with ex show ?thesis by (simp add: goes_on_def)
  qed
qed

end
