(* ===== verification/Object_Wait.thy ===== *)
theory Object_Wait
  imports Object_Life_Inv
begin

unbundle bit_operations_syntax

text \<open>
  The threads that wait for an entry, the look-ups they are in, the insertion and the removal of
  entries: these actions keep the invariant, and a look-up gives the right answer in the state in
  which it returns.
\<close>

section \<open>Waiting\<close>

lemma not_dead_entry:
  assumes "life_ok s" and "a \<in> entries (table s)"
  obtains e where "store (table s) a = Some e" "pd_state e \<noteq> DEAD"
  using stored [OF assms(1), of a] entry_okD(1) [OF assms(1)] assms(2) by metis

lemma waiters_add: "w th = None \<Longrightarrow> waiters_of (w(th \<mapsto> (a, c))) a = insert th (waiters_of w a) \<and> th \<notin> waiters_of w a"
  by (auto simp: waiters_of_def)

lemma waiters_del: "w th = Some (a, c) \<Longrightarrow> waiters_of (w(th := None)) a = waiters_of w a - {th} \<and> th \<in> waiters_of w a"
  by (auto simp: waiters_of_def)

lemma waits_other: "b \<noteq> a \<Longrightarrow> w th = None \<or> w th = Some (a, c) \<Longrightarrow>
    (w(th := x)) t = Some (b, d) \<longleftrightarrow> w t = Some (b, d)" if "x = None \<or> x = Some (a, c')"
  using that by auto

text \<open>The start of a wait.\<close>

lemma wait_enter_ok:
  assumes ok: "life_ok s" and e: "store (table s) a = Some e" and st: "pd_state e \<noteq> DEAD"
    "\<not> in_set (pd_state e) (wait_set c)" and th: "waits s th = None" and k: "pd_key e = key_of c"
  shows "\<exists>t. wait_enter (table s) a (wait_set c) th = Inr (None, t) \<and>
    life_ok (s\<lparr>table := t, waits := (waits s)(th \<mapsto> (a, c))\<rparr>) \<and> entry_of t = entry_of (table s)"
proof -
  let ?e = "e\<lparr>pd_refCount := pd_refCount e + 1, pd_waiters := pd_waiters e + 1, pd_cond := Some (blocked e @ [th])\<rparr>"
  let ?t = "(table s)\<lparr>store := (store (table s))(a \<mapsto> ?e), pd_activations := pd_activations (table s)\<rparr>"
  let ?w = "(waits s)(th \<mapsto> (a, c))"
  let ?s = "s\<lparr>table := ?t, waits := ?w\<rparr>"
  note cn = entry_okD(3) [OF ok e] and sl = entry_okD(2) [OF ok e] and fin = life_ok_finite [OF ok]
  have w: "waiters_of ?w a = insert th (waiters_of (waits s) a)" "th \<notin> waiters_of (waits s) a"
    using waiters_add [of "waits s" th a c] th by simp_all
  have card: "card (waiters_of ?w a) = Suc (card (waiters_of (waits s) a))"
    unfolding w(1) using w(2) finite_waiters [OF fin] by simp
  have en: "wait_enter (table s) a (wait_set c) th = Inr (None, ?t)"
    using e st by (simp add: wait_enter_def gainRef_def put_entry_def Let_def block_on_def blocked_def split: option.split)
  have "th \<notin> set (blocked e)" using sl th by (auto simp: sleeps_ok_def)
  then have "sleeps_ok ?w a ?e" using sl st k by (auto simp: sleeps_ok_def blocked_def)
  moreover have "counts_ok (calls s a) (holds s a) (waiters_of ?w a) ?e"
    unfolding counts_ok_def card using cn by (simp add: counts_ok_def)
  moreover have "stage_ok (calls s a) (pd_activations (table s)) a ?e"
    using entry_okD(4) [OF ok e] by (subst stage_ok_cong) simp_all
  ultimately have "life_ok ?s \<and> entry_of (table ?s) = entry_of (table s)"
    using fin th by (intro life_ok_put [OF ok e, where acts = "pd_activations (table s)" and e' = ?e]) auto
  with en show ?thesis by auto
qed

text \<open>The end of a wait: the thread blocks again, or leaves with the state it waited for.\<close>

lemma wait_wake_ok:
  assumes ok: "life_ok s" and th: "waits s th = Some (a, c)" and aw: "\<not> entry_with s a (\<lambda>e. th \<in> set (blocked e))"
  shows "(\<exists>t. wait_wake (table s) a (wait_set c) th = Inr (None, t) \<and> life_ok (s\<lparr>table := t\<rparr>) \<and>
      entry_of t = entry_of (table s) \<and> entry_of t (key_of c) = Some a) \<or>
    (\<exists>st t. wait_wake (table s) a (wait_set c) th = Inr (Some st, t) \<and>
      life_ok (s\<lparr>table := t, waits := (waits s)(th := None)\<rparr>) \<and> entry_of t = entry_of (table s) \<and>
      (st = DEAD \<or> entry_of t (key_of c) = Some a))"
proof -
  obtain e where e: "store (table s) a = Some e" using stored [OF ok] th by blast
  note cn = entry_okD(3) [OF ok e] and sl = entry_okD(2) [OF ok e] and fin = life_ok_finite [OF ok]
    and sg = entry_okD(4) [OF ok e] and en = entry_okD(1) [OF ok e]
  have nb: "th \<notin> set (blocked e)" using aw e by (simp add: entry_with_def)
  have k: "pd_key e = key_of c" using sl th by (auto simp: sleeps_ok_def)
  have "table_ok (table s)" using ok by (simp add: life_ok_def)
  from entry_of_entries [OF this, of a]
  have here: "pd_state e \<noteq> DEAD \<Longrightarrow> entry_of (table s) (key_of c) = Some a"
    using en e k by (simp add: key_at_def)
  show ?thesis
  proof (cases "pd_state e \<noteq> DEAD \<and> \<not> in_set (pd_state e) (wait_set c)")
    case True
    let ?e = "block_on e th"
    let ?t = "(table s)\<lparr>store := (store (table s))(a \<mapsto> ?e), pd_activations := pd_activations (table s)\<rparr>"
    have b: "blocked ?e = blocked e @ [th]" by (simp add: block_on_def blocked_def split: option.split)
    have f: "pd_key ?e = pd_key e" "pd_nextInObjectTable ?e = pd_nextInObjectTable e" "pd_state ?e = pd_state e"
      "pd_servant ?e = pd_servant e" "pd_adapter ?e = pd_adapter e" "pd_waiters ?e = pd_waiters e"
      "pd_refCount ?e = pd_refCount e" "pd_objRefs ?e = pd_objRefs e" "pd_nInvocations ?e = pd_nInvocations e"
      "pd_cond ?e \<noteq> None"
      by (simp_all add: block_on_def)
    have "wait_wake (table s) a (wait_set c) th = Inr (None, ?t)"
      using e True by (simp add: wait_wake_def put_entry_acts)
    moreover have "\<forall>th c. waits s th = Some (a, c) \<longrightarrow> pd_key ?e = key_of c" using sl f(1) by (simp add: sleeps_ok_def)
    then have "sleeps_ok (waits s) a ?e" using sl True th b f(3) by (auto simp: sleeps_ok_def)
    moreover have "counts_ok (calls s a) (holds s a) (waiters_of (waits s) a) ?e" using cn f by (auto simp: counts_ok_def)
    moreover have "stage_ok (calls s a) (pd_activations (table s)) a ?e" using sg f by (subst stage_ok_cong) simp_all
    moreover have "life_ok (s\<lparr>table := ?t\<rparr>) \<and> entry_of (table (s\<lparr>table := ?t\<rparr>)) = entry_of (table s)"
      using fin f calculation(2-) \<open>sleeps_ok (waits s) a ?e\<close>
      by (intro life_ok_put [OF ok e, where acts = "pd_activations (table s)" and e' = ?e]) simp_all
    moreover have "entry_of (table s) (key_of c) = Some a" using here True by simp
    ultimately show ?thesis by auto
  next
    case False
    let ?w = "(waits s)(th := None)"
    have w: "waiters_of ?w a = waiters_of (waits s) a - {th}" "th \<in> waiters_of (waits s) a"
      using waiters_del [of "waits s" th a c] th by simp_all
    have card: "int (card (waiters_of ?w a)) = int (card (waiters_of (waits s) a)) - 1"
      unfolding w(1) using w(2) finite_waiters [OF fin, of a] card_gt_0_iff [of "waiters_of (waits s) a"]
      by (auto simp: card_Diff_singleton of_nat_diff Suc_le_eq)
    let ?e = "e\<lparr>pd_waiters := pd_waiters e - 1, pd_objRefs := pd_objRefs e, pd_refCount := pd_refCount e - 1\<rparr>"
    have c1: "pd_waiters e = int (card (waiters_of (waits s) a))"
      "pd_refCount e = (if pd_state e = DEAD then 0 else 1) + int (holds s a) + pd_waiters e + int (length (pd_objRefs e))"
      using cn by (simp_all add: counts_ok_def)
    let ?t0 = "put_entry (table s) a (e\<lparr>pd_waiters := pd_waiters e - 1\<rparr>)"
    have wk: "wait_wake (table s) a (wait_set c) th = ebind (loseRef ?t0 a None) (\<lambda>t. Inr (Some (pd_state e), t))"
      using e False by (simp only: wait_wake_def get_entry_Some ebind_Inr if_False)
    have lq: "1 < pd_refCount e \<Longrightarrow> loseRef ?t0 a None = Inr ((table s)\<lparr>store := (store (table s))(a \<mapsto> ?e)\<rparr>)"
      "pd_refCount e = 1 \<Longrightarrow> pd_waiters e = 1 \<Longrightarrow> pd_objRefs e = [] \<Longrightarrow>
        loseRef ?t0 a None = Inr ((table s)\<lparr>store := (store (table s))(a := None)\<rparr>)"
      by (simp_all add: loseRef_def put_entry_def)
    have sl': "sleeps_ok ?w a ?e" using sl nb by (auto simp: sleeps_ok_def blocked_def)
    show ?thesis
    proof (cases "pd_refCount e = 1")
      case one: False
      let ?t = "(table s)\<lparr>store := (store (table s))(a \<mapsto> ?e), pd_activations := pd_activations (table s)\<rparr>"
      let ?s = "s\<lparr>table := ?t, waits := ?w\<rparr>"
      have "1 < pd_refCount e" using cn one by (simp add: counts_ok_def)
      then have ex: "wait_wake (table s) a (wait_set c) th = Inr (Some (pd_state e), ?t)" using wk lq(1) by simp
      have "counts_ok (calls s a) (holds s a) (waiters_of ?w a) ?e"
        using cn one card w(2) by (auto simp: counts_ok_def)
      moreover have "stage_ok (calls s a) (pd_activations (table s)) a ?e" using sg by (subst stage_ok_cong) simp_all
      ultimately have l: "life_ok ?s \<and> entry_of (table ?s) = entry_of (table s)"
        using fin sl' th
        by (intro life_ok_put [OF ok e, where acts = "pd_activations (table s)" and e' = ?e]) (auto intro: finite_subset)
      with l ex here show ?thesis by (intro disjI2) auto
    next
      case one: True
      have "int (holds s a) + int (length (pd_objRefs e)) + (if pd_state e = DEAD then 0 else 1) = 0 \<and> pd_waiters e = 1"
        using c1 one w(2) finite_waiters [OF fin, of a] card by (auto split: if_splits)
      then have dd: "pd_state e = DEAD" "pd_waiters e = 1" "int (holds s a) + int (length (pd_objRefs e)) = 0"
        by (auto split: if_splits)
      then have "holds s a = 0" "length (pd_objRefs e) = 0" by linarith+
      with dd have d: "holds s a = 0" "pd_objRefs e = []" "pd_state e = DEAD" "pd_waiters e = 1" by simp_all
      let ?s = "s\<lparr>table := (table s)\<lparr>store := (store (table s))(a := None)\<rparr>, waits := ?w\<rparr>"
      have "finite (waiters_of ?w a)" unfolding w(1) using finite_waiters [OF fin] by simp
      then have "waiters_of ?w a = {}" using card c1(1) d(4) by simp
      moreover have "calls s a = 0" using sg d(3) by (simp add: stage_ok_def)
      ultimately have "life_ok ?s \<and> entry_of (table ?s) = entry_of (table s)"
        using d fin th by (intro life_ok_free [OF ok e d(3)]) (auto intro: finite_subset)
      then show ?thesis using wk lq(2) one d by (intro disjI2) auto
    qed
  qed
qed

section \<open>Looking up\<close>

lemma search_eq:
  "search t c = ebind (lookup t (case c of Locate key _ \<Rightarrow> key | LocateActive key _ \<Rightarrow> key)
       (hash (case c of Locate key _ \<Rightarrow> key | LocateActive key _ \<Rightarrow> key)))
     (\<lambda>r. case r of None \<Rightarrow> Inr (Returns None) | Some a \<Rightarrow> again t a c)"
  by (cases c) (simp_all add: locate_def locateActive_def cong: option.case_cong)

text \<open>The answer of a look-up, in the state in which it is given.\<close>

definition right_answer :: "life \<Rightarrow> caller \<Rightarrow> addr option \<Rightarrow> bool" where
  "right_answer s c r \<longleftrightarrow>
     (case r of
        Some a \<Rightarrow> entry_of (table s) (key_of c) = Some a \<and>
          entry_with s a (\<lambda>e. pd_state e \<noteq> DEAD \<and> pd_key e = key_of c \<and> (case c of
            Locate _ states \<Rightarrow> in_set (pd_state e) states
          | LocateActive _ _ \<Rightarrow> in_set (pd_state e) (state_bits ACTIVE OR state_bits DEACTIVATING)))
      | None \<Rightarrow>
          (case entry_of (table s) (key_of c) of None \<Rightarrow> True
           | Some a \<Rightarrow> (case c of Locate _ _ \<Rightarrow> False
               | LocateActive _ wait \<Rightarrow> entry_with s a (\<lambda>e.
                   \<not> in_set (pd_state e) (state_bits ACTIVE OR state_bits DEACTIVATING) \<and>
                   (wait \<longrightarrow> pd_state e \<noteq> ACTIVATING)))))"

text \<open>\<open>answered\<close>: the call returns the right answer, or the thread sleeps in \<^verbatim>\<open>wait\<close>.\<close>

definition answered :: "life \<Rightarrow> nat \<Rightarrow> caller \<Rightarrow> (answer \<times> life) result \<Rightarrow> bool" where
  "answered s th c r \<longleftrightarrow> (\<exists>s'. life_ok s' \<and> entry_of (table s') = entry_of (table s) \<and>
     ((\<exists>x. r = Inr (Answer x, s') \<and> right_answer s' c x \<and> waits s' = (waits s)(th := None)) \<or>
      (\<exists>a. r = Inr (Blocked, s') \<and> waits s' = (waits s)(th \<mapsto> (a, c)) \<and>
        entry_of (table s') (key_of c) = Some a)))"

lemma answered_goes_on: "answered s th c r \<Longrightarrow> goes_on s r"
  by (auto simp: answered_def goes_on_def)

lemma state_set_simps [simp]:
  "in_set DEAD x \<longleftrightarrow> False"
  by (simp add: in_set_def)

lemma again_follow:
  assumes ok: "life_ok s" and a: "entry_of (table s) (key_of c) = Some a" and th: "waits s th = None"
  shows "answered s th c (ebind (again (table s) a c) (follow s th c))"
proof -
  have ae: "a \<in> entries (table s)" using a by (auto simp: entries_def ran_def)
  obtain e where e: "store (table s) a = Some e" "pd_state e \<noteq> DEAD" using not_dead_entry [OF ok ae] .
  have t: "table_ok (table s)" using ok by (simp add: life_ok_def)
  have k: "pd_key e = key_of c" using entry_of_key [OF t a] e(1) by (simp add: key_at_def)
  have id: "(waits s)(th := None) = waits s" using th by (simp add: fun_upd_idem)
  have waiting: "answered s th c (follow s th c (WaitsFor a))" if ns: "\<not> in_set (pd_state e) (wait_set c)"
  proof -
    obtain t' where "wait_enter (table s) a (wait_set c) th = Inr (None, t')"
      "life_ok (s\<lparr>table := t', waits := (waits s)(th \<mapsto> (a, c))\<rparr>)" "entry_of t' = entry_of (table s)"
      using wait_enter_ok [OF ok e(1,2) ns th k] by blast
    then show ?thesis using a
      by (auto simp: answered_def follow_def intro!: exI [of _ "s\<lparr>table := t', waits := (waits s)(th \<mapsto> (a, c))\<rparr>"])
  qed
  have returning: "answered s th c (Inr (Answer x, s))" if "right_answer s c x" for x
    using ok that id by (auto simp: answered_def)
  show ?thesis
  proof (cases c)
    case (Locate key states)
    show ?thesis
    proof (cases "in_set (pd_state e) states")
      case True
      then have "right_answer s c (Some a)" using Locate a e k by (simp add: right_answer_def entry_with_def)
      with returning True Locate e show ?thesis by (simp add: locate_again_def follow_def)
    next
      case False
      with waiting Locate e show ?thesis by (simp add: locate_again_def)
    qed
  next
    case (LocateActive key wait)
    show ?thesis
    proof (cases "wait \<and> pd_state e = ACTIVATING")
      case True
      have "\<not> in_set (pd_state e) (wait_set c)" using True LocateActive by (simp add: in_set_def)
      from waiting [OF this] True LocateActive e show ?thesis by (simp add: locateActive_again_def)
    next
      case False
      show ?thesis
      proof (cases "in_set (pd_state e) (state_bits ACTIVE OR state_bits DEACTIVATING)")
        case True
        then have "right_answer s c (Some a)" using LocateActive a e k by (simp add: right_answer_def entry_with_def)
        from returning [OF this] True False LocateActive e show ?thesis
          by (auto simp: locateActive_again_def follow_def)
      next
        case n: False
        then have "right_answer s c None" using LocateActive a e k False by (auto simp: right_answer_def entry_with_def)
        from returning [OF this] n False LocateActive e show ?thesis
          by (auto simp: locateActive_again_def follow_def)
      qed
    qed
  qed
qed

lemma call_answered:
  assumes ok: "life_ok s" and th: "waits s th = None"
  shows "answered s th c (call s th c)"
proof -
  have t: "table_ok (table s)" using ok by (simp add: life_ok_def)
  then have l: "lookup (table s) (key_of c) (hash (key_of c)) = Inr (entry_of (table s) (key_of c))"
    using lookup_entry_of by (auto simp: table_ok_def)
  have kc: "(case c of Locate key _ \<Rightarrow> key | LocateActive key _ \<Rightarrow> key) = key_of c" by (cases c) simp_all
  have sr: "search (table s) c = (case entry_of (table s) (key_of c) of
      None \<Rightarrow> Inr (Returns None) | Some a \<Rightarrow> again (table s) a c)"
    unfolding search_eq kc l by simp
  show ?thesis
  proof (cases "entry_of (table s) (key_of c)")
    case None
    then have "right_answer s c None" by (simp add: right_answer_def)
    then show ?thesis using None sr ok th
      by (auto simp: call_def follow_def answered_def fun_upd_idem)
  next
    case (Some a)
    with again_follow [OF ok Some th] sr show ?thesis by (simp add: call_def)
  qed
qed

lemma Call_answered:
  assumes ok: "life_ok s" and en: "enabled s (Call th c)"
  shows "answered s th c (exec s (Call th c))"
  using call_answered [OF ok] en by simp

text \<open>After a wait, the state that the thread waited for makes the look-up return.\<close>

lemma Wake_answered:
  assumes ok: "life_ok s" and en: "enabled s (Wake th)" and th: "waits s th = Some (a, c)"
  shows "answered s th c (exec s (Wake th))"
proof -
  have aw: "\<not> entry_with s a (\<lambda>e. th \<in> set (blocked e))" using en th by simp
  consider
      (sleeps) t where "wait_wake (table s) a (wait_set c) th = Inr (None, t)" "life_ok (s\<lparr>table := t\<rparr>)"
        "entry_of t = entry_of (table s)" "entry_of t (key_of c) = Some a"
    | (leaves) st t where "wait_wake (table s) a (wait_set c) th = Inr (Some st, t)"
        "life_ok (s\<lparr>table := t, waits := (waits s)(th := None)\<rparr>)" "entry_of t = entry_of (table s)"
        "st = DEAD \<or> entry_of t (key_of c) = Some a"
    using wait_wake_ok [OF ok th aw] by blast
  then show ?thesis
  proof cases
    case (sleeps t)
    note w = sleeps
    moreover have "waits s = (waits s)(th \<mapsto> (a, c))" using th by (simp add: fun_upd_idem)
    moreover have "exec s (Wake th) = Inr (Blocked, s\<lparr>table := t\<rparr>)" using w th by (simp add: wake_def)
    ultimately show ?thesis unfolding answered_def
      by (intro exI [of _ "s\<lparr>table := t\<rparr>"] conjI disjI2 exI [of _ a]) simp_all
  next
    case (leaves st t)
    note w = leaves(1) and l = leaves(2) and en = leaves(3) and st = leaves(4)
    let ?s = "s\<lparr>table := t, waits := (waits s)(th := None)\<rparr>"
    have dead: "exec s (Wake th) = call ?s th c" if "st = DEAD" using w th that by (simp add: wake_def)
    have alive: "exec s (Wake th) = ebind (again t a c) (follow ?s th c)" if "st \<noteq> DEAD"
      using w th that by (simp add: wake_def)
    have same: "answered s th c r" if "answered ?s th c r" for r
      using that en by (simp add: answered_def)
    show ?thesis
    proof (cases "st = DEAD")
      case True
      show ?thesis unfolding dead [OF True] by (rule same) (rule call_answered [OF l], simp)
    next
      case False
      then have "entry_of (table ?s) (key_of c) = Some a" using st by simp
      from again_follow [OF l this] show ?thesis unfolding alive [OF False] by (intro same) simp
    qed
  qed
qed

section \<open>New and dead entries\<close>

lemma unlinkedD: "unlinked t' b = unlinked t b \<Longrightarrow> store t b = Some e \<Longrightarrow> \<exists>p. store t' b = Some (set_next e p)"
proof -
  assume "unlinked t' b = unlinked t b" "store t b = Some e"
  then obtain e' where e': "store t' b = Some e'" "set_next e' None = set_next e None" by (auto simp: unlinked_def)
  have "e' = set_next (set_next e' None) (pd_nextInObjectTable e')" by (simp add: set_next_def)
  also have "\<dots> = set_next e (pd_nextInObjectTable e')" unfolding e'(2) by simp
  finally show ?thesis using e'(1) by auto
qed

lemma NewEntry_ok:
  assumes ok: "life_ok s" and en: "enabled s (NewEntry key a)"
  shows "\<exists>s'. exec s (NewEntry key a) = Inr (Answer (if entry_of (table s) key = None then Some a else None), s') \<and>
    life_ok s' \<and> entry_of (table s') =
      (if entry_of (table s) key = None then (entry_of (table s))(key \<mapsto> a) else entry_of (table s))"
proof (cases "entry_of (table s) key")
  case (Some b)
  have "table_ok (table s)" using ok by (simp add: life_ok_def)
  from newEntry_present [OF this, of key a] Some ok show ?thesis by (intro exI [of _ s]) simp
next
  case None
  have t: "table_ok (table s)" and an: "store (table s) a = None" and num: "numObjectsInTable (table s) < 2 ^ 31"
    using ok en by (simp_all add: life_ok_def)
  obtain t' where t': "newEntry (table s) key (hash key) a = Inr (Some a, t')" "table_ok t'"
    "entry_of t' = (entry_of (table s))(key \<mapsto> a)" "unlinked t' = (unlinked (table s))(a \<mapsto> omniObjTableEntry_new key)"
    "pd_activations t' = pd_activations (table s)"
    using newEntry_absent [OF t None an num] by blast
  let ?s = "s\<lparr>table := t'\<rparr>"
  have en': "entries t' = insert a (entries (table s))"
    using None unfolding entries_def t'(3) by (simp add: ran_map_upd)
  obtain e where e: "store t' a = Some e" "set_next e None = omniObjTableEntry_new key"
    using fun_cong [OF t'(4), of a] by (auto simp: unlinked_def)
  have "entry_ok s a" using ok by (simp add: life_ok_def)
  then have z: "calls s a = 0" "holds s a = 0" "waiters_of (waits s) a = {}" using an by (simp_all add: entry_ok_def)
  then have zw: "waits s th \<noteq> Some (a, c)" for th c by (auto simp: waiters_of_def)
  have f: "sleeps_ok (waits s) a (omniObjTableEntry_new key)"
    "counts_ok 0 0 {} (omniObjTableEntry_new key)" "stage_ok 0 (pd_activations t') a (omniObjTableEntry_new key)"
    "pd_state (omniObjTableEntry_new key) \<noteq> DEAD"
    using zw by (simp_all add: sleeps_ok_def counts_ok_def stage_ok_def omniObjTableEntry_new_def blocked_def)
  have "entry_ok ?s a"
    using f [folded e(2)] e(1) en' z by (simp add: entry_ok_def)
  then have "life_ok ?s"
    by (rule life_ok_update [OF ok, rotated 2])
      (use t' en' life_ok_finite [OF ok] in \<open>simp_all\<close>)
  with t' None show ?thesis by (intro exI [of _ ?s]) simp
qed

text \<open>Removing an entry that has no invocations, and no servant or one that is being etherealised.\<close>

lemma setDead_ok:
  assumes ok: "life_ok s" and e: "store (table s) a = Some e" and st: "pd_state e = ACTIVATING \<or> pd_state e = ETHEREALISING"
  shows "\<exists>t'. setDead (table s) a = Inr t' \<and> life_ok (s\<lparr>table := t'\<rparr>) \<and>
    entry_of t' = (entry_of (table s))(pd_key e := None)"
proof -
  note cn = entry_okD(3) [OF ok e] and sl = entry_okD(2) [OF ok e] and fin = life_ok_finite [OF ok]
    and sg = entry_okD(4) [OF ok e]
  have t: "table_ok (table s)" and ae: "a \<in> entries (table s)"
    using ok entry_okD(1) [OF ok e] st by (auto simp: life_ok_def)
  have k: "key_at (store (table s)) a = pd_key e" using e by (simp add: key_at_def)
  obtain t1 where d: "setDead (table s) a = become_dead t1 a" and t1: "table_ok t1"
    "entry_of t1 = (entry_of (table s))(pd_key e := None)" "unlinked t1 = unlinked (table s)"
    "pd_activations t1 = pd_activations (table s)"
    using remove_from_table [OF t ae] unfolding k by blast
  obtain p where e1: "store t1 a = Some (set_next e p)" using unlinkedD [OF fun_cong [OF t1(3)] e] by blast
  let ?e1 = "set_next e p"
  have en1: "entries t1 = entries (table s) - {a}"
  proof -
    have a: "entry_of (table s) (pd_key e) = Some a" using entry_of_entries [OF t ae] k by simp
    have i: "k' = pd_key e" if "entry_of (table s) k' = Some a" for k'
      using entry_of_key [OF t that] k by simp
    have e1: "b \<in> entries t1 \<longleftrightarrow> (\<exists>k'. k' \<noteq> pd_key e \<and> entry_of (table s) k' = Some b)" for b
      by (simp add: entries_def t1(2) ran_def) blast
    have e0: "b \<in> entries (table s) \<longleftrightarrow> (\<exists>k'. entry_of (table s) k' = Some b)" for b
      by (simp add: entries_def ran_def)
    have "b \<in> entries t1 \<longleftrightarrow> b \<in> entries (table s) \<and> b \<noteq> a" for b
    proof
      assume "b \<in> entries t1"
      then show "b \<in> entries (table s) \<and> b \<noteq> a" unfolding e1 e0 using i by blast
    next
      assume "b \<in> entries (table s) \<and> b \<noteq> a"
      then obtain k' where k': "entry_of (table s) k' = Some b" "b \<noteq> a" unfolding e0 by blast
      then have "k' \<noteq> pd_key e" using a by auto
      with k' show "b \<in> entries t1" unfolding e1 by blast
    qed
    then show ?thesis by blast
  qed
  have f1: "pd_state ?e1 = pd_state e" "pd_servant ?e1 = pd_servant e" "pd_waiters ?e1 = pd_waiters e"
    "pd_cond ?e1 = pd_cond e" "pd_refCount ?e1 = pd_refCount e" "pd_objRefs ?e1 = pd_objRefs e"
    "pd_key ?e1 = pd_key e" "pd_nInvocations ?e1 = pd_nInvocations e" "pd_adapter ?e1 = pd_adapter e"
    by (simp_all add: set_next_def)
  have sv: "pd_servant e = None \<or> pd_state e = ETHEREALISING" using st sg by (auto simp: stage_ok_def)
  let ?e2 = "woken (?e1\<lparr>pd_state := DEAD\<rparr>)"
  have c: "cond_ok (?e1\<lparr>pd_state := DEAD\<rparr>)"
    by (rule cond_ok_cong [OF _ _ entry_cond_ok [OF ok e]]) (simp_all add: f1)
  have bd: "become_dead t1 a = loseRef (put_entry t1 a ?e2) a None"
    using e1 sv f1 broadcast_ok [OF c] by (auto simp: become_dead_def split: option.splits)
  let ?e3 = "?e2\<lparr>pd_refCount := pd_refCount e - 1\<rparr>"
  have n: "calls s a = 0" using st sg by (auto simp: stage_ok_def)
  have kc: "waits s th = Some (a, c) \<Longrightarrow> pd_key e = key_of c" for th c using sl by (auto simp: sleeps_ok_def)
  have others: "unlinked t2 b = unlinked (table s) b" "b \<in> entries t1 \<longleftrightarrow> b \<in> entries (table s)"
    if "b \<noteq> a" "store t2 b = store t1 b" for b t2
    using that fun_cong [OF t1(3), of b] en1 by (auto simp: unlinked_def)
  have goal: ?thesis
    if l: "loseRef (put_entry t1 a ?e2) a None = Inr t2" and t2: "t2 = t1\<lparr>store := (store t1)(a := x)\<rparr>"
      and x: "case x of None \<Rightarrow> holds s a = 0 \<and> waiters_of (waits s) a = {} | Some e3 \<Rightarrow> e3 = ?e3 \<and> 1 < pd_refCount e"
    for t2 x
  proof -
    have eq: "t2 = t1\<lparr>store := (store t1)(a := x), pd_activations := pd_activations t1\<rparr>" using t2 by simp
    have sh: "same_shape (store t1) ((store t1)(a := x)) b" if "b \<in> entries t1" for b
      using that en1 by (auto simp: same_shape_def)
    have ok2: "table_ok t2" "entry_of t2 = entry_of t1"
      unfolding eq by (rule table_ok_shape [OF t1(1) sh], assumption)+
    have en2: "entries t2 = entries t1" using ok2(2) by (simp add: entries_def)
    let ?s = "s\<lparr>table := t2\<rparr>"
    have "entry_ok ?s a"
    proof (cases x)
      case None
      with x n t2 show ?thesis by (simp add: entry_ok_def)
    next
      case (Some e3)
      have "e3 = ?e3" "1 < pd_refCount e" using x Some by simp_all
      have b: "blocked ?e3 = []" using blocked_woken [OF c] by (simp add: blocked_def)
      have "pd_cond ?e3 = None \<Longrightarrow> waiters_of (waits s) a = {}"
        using cond_woken [of "?e1\<lparr>pd_state := DEAD\<rparr>"] cn f1 by (simp add: counts_ok_def)
      then have "counts_ok 0 (holds s a) (waiters_of (waits s) a) ?e3"
        using cn st n f1 \<open>1 < pd_refCount e\<close> by (auto simp: counts_ok_def)
      moreover have "sleeps_ok (waits s) a ?e3" using b kc f1 by (simp add: sleeps_ok_def)
      moreover have "stage_ok 0 (pd_activations t2) a ?e3" by (simp add: stage_ok_def)
      moreover have "store t2 a = Some ?e3" using t2 Some \<open>e3 = ?e3\<close> by simp
      moreover have "a \<notin> entries t2" using en1 en2 by simp
      ultimately show ?thesis using n by (simp add: entry_ok_def)
    qed
    then have "life_ok ?s"
      by (rule life_ok_update [OF ok, rotated 2])
        (use ok2 fin others t2 en2 t1 in \<open>simp_all\<close>)
    with l d bd ok2(2) t1(2) show ?thesis by (intro exI [of _ t2]) simp
  qed
  show ?thesis
  proof (cases "pd_refCount e = 1")
    case False
    then have r: "1 < pd_refCount e" using cn by (simp add: counts_ok_def)
    then have "loseRef (put_entry t1 a ?e2) a None = Inr (t1\<lparr>store := (store t1)(a := Some ?e3)\<rparr>)"
      using f1 by (simp add: loseRef_def put_entry_def)
    then show ?thesis by (rule goal [OF _ refl]) (use r in simp)
  next
    case True
    have k: "pd_refCount e = 1 + int (holds s a) + int (card (waiters_of (waits s) a)) + int (length (pd_objRefs e))"
      "pd_waiters e = int (card (waiters_of (waits s) a))"
      using cn st by (auto simp: counts_ok_def)
    then have "holds s a = 0" "length (pd_objRefs e) = 0" "card (waiters_of (waits s) a) = 0" using True by linarith+
    then have z: "holds s a = 0" "pd_objRefs e = []" "waiters_of (waits s) a = {}" "pd_waiters e = 0"
      using finite_waiters [OF fin, of a] k(2) by simp_all
    then have "loseRef (put_entry t1 a ?e2) a None = Inr (t1\<lparr>store := (store t1)(a := None)\<rparr>)"
      using f1 True by (simp add: loseRef_def put_entry_def)
    then show ?thesis by (rule goal [OF _ refl]) (use z in simp)
  qed
qed

end
