(* ===== verification/Object_Claims.thy ===== *)
theory Object_Claims
  imports Object_Wait
begin

unbundle bit_operations_syntax

text \<open>
  What holds in every state that the threads can reach, whatever order their critical sections come
  in: nothing fails, no wake-up is lost, no object is etherealised under an invocation, and the hash
  table is the map from keys to live objects.
\<close>

section \<open>Every action keeps the invariant\<close>

lemma attach_ok: "table_ok (attach param)"
proof -
  let ?t = "attach param"
  have n: "0 < objectTableSize ?t"
    using table_size_pos [of 0] by (auto simp: attach_def Let_def table_size_def word_gt_0)
  have "buckets (objectTableSize ?t) (store ?t) (objectTable ?t) (replicate (unat (objectTableSize ?t)) [])"
    using buckets_empty [OF n] by (simp add: attach_def Let_def)
  then have "table_wf ?t (replicate (unat (objectTableSize ?t)) [])" by (simp add: table_wf_def)
  moreover have "load_ok ?t"
    by (simp add: load_ok_def bounds_ok_def attach_def Let_def table_size_def max_of_def min_of_def)
  moreover have "unat (numObjectsInTable ?t) = length (concat (replicate (unat (objectTableSize ?t)) []))"
    by (simp add: attach_def Let_def)
  ultimately show ?thesis by (auto simp: table_ok_def)
qed

lemma start_ok: "life_ok (start param)"
  using attach_ok by (simp add: life_ok_def start_def entry_ok_def waiters_of_def attach_def Let_def)

lemma entry_of_start: "entry_of (table (start param)) = (\<lambda>_. None)"
proof
  fix key
  have "table_ok (attach param)" by (rule attach_ok)
  from entry_of_entries [OF this] entries_stored [OF this]
  have "entries (attach param) = {}" by (auto simp: attach_def Let_def)
  then show "entry_of (table (start param)) key = None"
    by (cases "entry_of (attach param) key") (auto simp: start_def entries_def ran_def)
qed

lemma Spurious_ok:
  assumes ok: "life_ok s" and en: "enabled s (Spurious th)"
  shows "goes_on s (exec s (Spurious th))"
proof -
  obtain a c where th: "waits s th = Some (a, c)" using en by auto
  obtain e where e: "store (table s) a = Some e" using stored [OF ok] th by blast
  let ?e = "e\<lparr>pd_cond := map_option (filter (\<lambda>x. x \<noteq> th)) (pd_cond e)\<rparr>"
  let ?s = "s\<lparr>table := (table s)\<lparr>store := (store (table s))(a \<mapsto> ?e), pd_activations := pd_activations (table s)\<rparr>\<rparr>"
  have ex: "exec s (Spurious th) = Inr (Nothing, ?s)" using e th by (simp add: put_entry_acts)
  have "set (blocked ?e) \<subseteq> set (blocked e)" by (auto simp: blocked_def split: option.splits)
  then have "sleeps_ok (waits s) a ?e" using entry_okD(2) [OF ok e] by (auto simp: sleeps_ok_def)
  moreover have "counts_ok (calls s a) (holds s a) (waiters_of (waits s) a) ?e"
    using entry_okD(3) [OF ok e] by (simp add: counts_ok_def)
  moreover have "stage_ok (calls s a) (pd_activations (table s)) a ?e"
    using entry_okD(4) [OF ok e] by (subst stage_ok_cong) simp_all
  moreover note fin = life_ok_finite [OF ok]
  ultimately have "life_ok ?s \<and> entry_of (table ?s) = entry_of (table s)"
    by (intro life_ok_put [OF ok e, where acts = "pd_activations (table s)" and e' = ?e]) simp_all
  with ex show ?thesis by (simp add: goes_on_def)
qed

lemma exec_goes_on:
  assumes "life_ok s" and "enabled s act"
  shows "goes_on s (exec s act) \<or> (\<exists>key a. act = NewEntry key a) \<or> (\<exists>a. act = Abandon a \<or> act = Etherealised a)"
proof (cases act)
  case (Call th c)
  with assms Call_answered show ?thesis by (blast intro: answered_goes_on)
next
  case (Wake th)
  then obtain a c where "waits s th = Some (a, c)" using assms(2) by (auto split: option.splits)
  with assms Wake Wake_answered show ?thesis by (blast intro: answered_goes_on)
qed (use assms SetActive_ok Deactivate_ok DeactivateOA_ok CompleteOA_ok Enter_ok Leave_ok GainRef_ok LoseRef_ok
      Hold_ok Release_ok Spurious_ok in \<open>simp_all del: exec.simps enabled.simps\<close>)

lemma Dead_ok:
  assumes "life_ok s" and "enabled s act" and "act = Abandon a \<or> act = Etherealised a"
  shows "\<exists>e s'. store (table s) a = Some e \<and> exec s act = Inr (Nothing, s') \<and> life_ok s' \<and>
    entry_of (table s) (pd_key e) = Some a \<and> entry_of (table s') = (entry_of (table s))(pd_key e := None)"
proof -
  obtain e where e: "store (table s) a = Some e" "pd_state e = ACTIVATING \<or> pd_state e = ETHEREALISING"
    using assms(2,3) by (auto simp: entry_with_def split: option.splits)
  have t: "table_ok (table s)" using assms(1) by (simp add: life_ok_def)
  have "a \<in> entries (table s)" using entry_okD(1) [OF assms(1) e(1)] e(2) by auto
  from entry_of_entries [OF t this] have k: "entry_of (table s) (pd_key e) = Some a" using e(1) by (simp add: key_at_def)
  obtain t' where "setDead (table s) a = Inr t'" "life_ok (s\<lparr>table := t'\<rparr>)" "entry_of t' = (entry_of (table s))(pd_key e := None)"
    using setDead_ok [OF assms(1) e] by blast
  with e k assms(3) show ?thesis by auto
qed

section \<open>The map from keys to objects\<close>

text \<open>
  The specification of the table: the objects that there are, by key. A new entry is refused when
  there is one with its key, an object that is abandoned or etherealised goes away, and nothing else
  has an effect on the map.
\<close>

fun directory_step ::
    "(8 word list \<Rightarrow> addr option) \<Rightarrow> action \<Rightarrow> answer \<Rightarrow> (8 word list \<Rightarrow> addr option) \<Rightarrow> bool" where
  "directory_step m (NewEntry key a) ans m' \<longleftrightarrow>
     (case m key of Some b \<Rightarrow> ans = Answer None \<and> m' = m
      | None \<Rightarrow> ans = Answer (Some a) \<and> m' = m(key \<mapsto> a) \<and> a \<notin> ran m)"
| "directory_step m (Abandon a) ans m' \<longleftrightarrow> (\<exists>key. m key = Some a \<and> m' = m(key := None))"
| "directory_step m (Etherealised a) ans m' \<longleftrightarrow> (\<exists>key. m key = Some a \<and> m' = m(key := None))"
| "directory_step m (Call th c) ans m' \<longleftrightarrow> m' = m \<and>
     (\<forall>a. ans = Answer (Some a) \<longrightarrow> m (key_of c) = Some a) \<and>
     (\<forall>key states. c = Locate key states \<and> ans = Answer None \<longrightarrow> m key = None)"
| "directory_step m act ans m' \<longleftrightarrow> m' = m"

lemma directory_step_other:
  "\<lbrakk>\<nexists>key a. act = NewEntry key a; \<nexists>a. act = Abandon a \<or> act = Etherealised a; \<nexists>th c. act = Call th c\<rbrakk>
   \<Longrightarrow> directory_step m act ans m"
  by (cases act) auto

lemma exec_directory:
  assumes ok: "life_ok s" and en: "enabled s act"
  shows "\<exists>ans s'. exec s act = Inr (ans, s') \<and> life_ok s' \<and>
    directory_step (entry_of (table s)) act ans (entry_of (table s'))"
proof -
  consider (new) key a where "act = NewEntry key a" | (dead) a where "act = Abandon a \<or> act = Etherealised a"
    | (call) th c where "act = Call th c"
    | (other) "\<nexists>key a. act = NewEntry key a" "\<nexists>a. act = Abandon a \<or> act = Etherealised a" "\<nexists>th c. act = Call th c"
    by blast
  then show ?thesis
  proof cases
    case (new key a)
    have "a \<notin> ran (entry_of (table s))"
      using en new entries_stored [of "table s" a] ok by (auto simp: life_ok_def entries_def)
    with NewEntry_ok [OF ok en [unfolded new]] show ?thesis unfolding new
      by (auto simp del: exec.simps split: option.splits if_splits)
  next
    case (dead a)
    from Dead_ok [OF ok en dead] dead show ?thesis by (auto simp del: exec.simps)
  next
    case (call th c)
    have "answered s th c (exec s act)" using Call_answered [OF ok] en call by simp
    then show ?thesis unfolding call answered_def
      by (auto simp: right_answer_def simp del: exec.simps split: option.splits)
  next
    case other
    with exec_goes_on [OF ok en] obtain ans s' where
      "exec s act = Inr (ans, s')" "life_ok s'" "entry_of (table s') = entry_of (table s)"
      by (auto simp: goes_on_def simp del: exec.simps enabled.simps)
    with directory_step_other [OF other] show ?thesis by auto
  qed
qed

lemma step_ok: "life_ok s \<Longrightarrow> step s act ans s' \<Longrightarrow> life_ok s'"
  using exec_directory by (fastforce simp: step_simps simp del: exec.simps enabled.simps)

lemma reachable_ok: "reachable param s \<Longrightarrow> life_ok s"
  by (induction rule: reachable.induct) (auto intro: start_ok step_ok)

section \<open>Properties\<close>

text \<open>C9. Whatever order the critical sections of the threads come in, nothing in them fails: no
  assertion of the library fails, no freed entry is read, no walk along a bucket and no loop around a
  wait runs for ever, no condition variable is used before it exists.\<close>

theorem object_actions_succeed:
  assumes "reachable param s" and "enabled s act"
  shows "\<exists>ans s'. exec s act = Inr (ans, s')"
  using exec_directory [OF reachable_ok [OF assms(1)] assms(2)] by blast

theorem object_actions_succeed_witness:
  "\<exists>ans s'. exec (start 0) (NewEntry [1, 2, 3] 7) = Inr (ans, s')"
  by (rule object_actions_succeed [OF reachable.start]) (simp add: start_def attach_def Let_def)

text \<open>C4. The hash table implements the map from object keys to the entries that are not dead: every
  action of every thread has on it the effect that the map prescribes, resizes included, a look-up
  computes it, and an entry is in it from its creation until it is dead.\<close>

theorem object_table_refinement:
  assumes "reachable param s" and "step s act ans s'"
  shows "directory_step (entry_of (table s)) act ans (entry_of (table s')) \<and>
    lookup (table s') key (hash key) = Inr (entry_of (table s') key) \<and>
    (entry_of (table s') key = Some a \<longleftrightarrow> entry_with s' a (\<lambda>e. pd_key e = key \<and> pd_state e \<noteq> DEAD))"
proof -
  have ok: "life_ok s" by (rule reachable_ok [OF assms(1)])
  have ok': "life_ok s'" by (rule step_ok [OF ok assms(2)])
  then have t: "table_ok (table s')" by (simp add: life_ok_def)
  have "enabled s act" "exec s act = Inr (ans, s')" using assms(2) by (simp_all add: step_simps)
  with exec_directory [OF ok] have "directory_step (entry_of (table s)) act ans (entry_of (table s'))" by fastforce
  moreover have "lookup (table s') key (hash key) = Inr (entry_of (table s') key)"
    using t lookup_entry_of by (auto simp: table_ok_def)
  moreover have "entry_of (table s') key = Some a \<longleftrightarrow> entry_with s' a (\<lambda>e. pd_key e = key \<and> pd_state e \<noteq> DEAD)"
  proof
    assume a: "entry_of (table s') key = Some a"
    then have ae: "a \<in> entries (table s')" by (auto simp: entries_def ran_def)
    obtain e where e: "store (table s') a = Some e" "pd_state e \<noteq> DEAD" using not_dead_entry [OF ok' ae] .
    with entry_of_key [OF t a] show "entry_with s' a (\<lambda>e. pd_key e = key \<and> pd_state e \<noteq> DEAD)"
      by (simp add: entry_with_def key_at_def)
  next
    assume "entry_with s' a (\<lambda>e. pd_key e = key \<and> pd_state e \<noteq> DEAD)"
    then obtain e where e: "store (table s') a = Some e" "pd_key e = key" "pd_state e \<noteq> DEAD" by (auto elim: entry_withE)
    with entry_okD(1) [OF ok' e(1)] entry_of_entries [OF t, of a] show "entry_of (table s') key = Some a"
      by (simp add: key_at_def)
  qed
  ultimately show ?thesis by blast
qed

text \<open>C5. No wake-up is lost: a thread that is in \<^verbatim>\<open>wait\<close> for an entry has that entry, of the key it
  looks for, still in memory, and it can run unless the entry is alive and in a state that the thread
  does not wait for.\<close>

theorem no_lost_wakeup:
  assumes "reachable param s" and "waits s th = Some (a, c)"
  shows "entry_with s a (\<lambda>e. pd_key e = key_of c \<and>
    (enabled s (Wake th) \<or> (pd_state e \<noteq> DEAD \<and> \<not> in_set (pd_state e) (wait_set c))))"
proof -
  have ok: "life_ok s" by (rule reachable_ok [OF assms(1)])
  obtain e where e: "store (table s) a = Some e" using stored [OF ok] assms(2) by blast
  have "pd_key e = key_of c" "th \<in> set (blocked e) \<Longrightarrow> pd_state e \<noteq> DEAD \<and> \<not> in_set (pd_state e) (wait_set c)"
    using entry_okD(2) [OF ok e] assms(2) by (auto simp: sleeps_ok_def)
  with e assms(2) show ?thesis by (auto simp: entry_with_def)
qed

text \<open>C10. An object on which an invocation is in progress is neither etherealised nor dead: its entry is
  in the table and the servant still has it among its activations.\<close>

theorem no_etherealisation_under_call:
  assumes "reachable param s" and "0 < calls s a"
  shows "entry_with s a (\<lambda>e. in_set (pd_state e) (state_bits ACTIVE OR state_bits DEACTIVATING) \<and>
    entry_of (table s) (pd_key e) = Some a \<and>
    (\<exists>servant. pd_servant e = Some servant \<and> a \<in> set (pd_activations (table s) servant)))"
proof -
  have ok: "life_ok s" by (rule reachable_ok [OF assms(1)])
  then have t: "table_ok (table s)" by (simp add: life_ok_def)
  obtain e where e: "store (table s) a = Some e" using stored [OF ok] assms(2) by blast
  have st: "pd_state e = ACTIVE \<or> pd_state e = DEACTIVATING \<or> pd_state e = DEACTIVATING_OA"
    and sv: "\<exists>servant. pd_servant e = Some servant \<and> a \<in> set (pd_activations (table s) servant)"
    using entry_okD(4) [OF ok e] assms(2) by (auto simp: stage_ok_def split: State.splits)
  then have "a \<in> entries (table s)" using entry_okD(1) [OF ok e] by auto
  from entry_of_entries [OF t this] have "entry_of (table s) (pd_key e) = Some a" using e by (simp add: key_at_def)
  with e st sv show ?thesis by (auto simp: entry_with_def in_set_def)
qed

text \<open>C13. A look-up gives the right answer in the state in which it returns, at once or after a wait: an
  entry of the key in one of the states asked for, or none when there is none to be had.\<close>

theorem locate_answer:
  assumes "reachable param s" and "step s act (Answer r) s'"
    and "act = Call th c \<or> (act = Wake th \<and> waits s th = Some (a, c))"
  shows "right_answer s' c r \<and> waits s' th = None"
proof -
  have ok: "life_ok s" by (rule reachable_ok [OF assms(1)])
  have en: "enabled s act" and ex: "exec s act = Inr (Answer r, s')" using assms(2) by (simp_all add: step_simps)
  have "answered s th c (exec s act)"
    using assms(3) Call_answered [OF ok] Wake_answered [OF ok] en by blast
  then show ?thesis using ex by (auto simp: answered_def)
qed

text \<open>The table that resizes itself stays within its bounds: the number of entries counts the map,
  it is at most two thirds of the size of the table and at least a third of the next smaller size.\<close>

theorem object_table_load:
  assumes "reachable param s"
  shows "unat (numObjectsInTable (table s)) = card (dom (entry_of (table s))) \<and>
    length (objectTable (table s)) = unat (objectTableSize (table s)) \<and>
    minNumObjects (table s) \<le> numObjectsInTable (table s) \<and> numObjectsInTable (table s) \<le> maxNumObjects (table s)"
proof -
  have ok: "table_ok (table s)" using reachable_ok [OF assms] by (simp add: life_ok_def)
  then obtain bs where wf: "table_wf (table s) bs" and ld: "load_ok (table s)"
    and n: "unat (numObjectsInTable (table s)) = length (concat bs)" by (auto simp: table_ok_def)
  have d: "distinct (concat bs)" using wf by (simp add: table_wf_def buckets_def)
  have "bij_betw (key_at (store (table s))) (set (concat bs)) (dom (entry_of (table s)))"
  proof (rule bij_betw_imageI)
    show "inj_on (key_at (store (table s))) (set (concat bs))" using wf by (simp add: table_wf_def)
    show "key_at (store (table s)) ` set (concat bs) = dom (entry_of (table s))"
      using entry_of_Some [OF wf] by (force simp: dom_def simp del: set_concat)
  qed
  then have "card (dom (entry_of (table s))) = card (set (concat bs))" by (metis bij_betw_same_card)
  also have "\<dots> = length (concat bs)" by (rule distinct_card [OF d])
  finally show ?thesis using n ld wf by (simp add: load_ok_def table_wf_def buckets_def)
qed

text \<open>C23. The walks along the chains of the table come to an end in every state that can be reached: every
  look-up returns, every insertion (with fewer than $2^{31}$ objects) returns, resizing included, and the
  search for the pointer to an entry that is being removed finds it.\<close>

theorem table_walks_return:
  assumes "reachable param s"
  shows "(\<forall>key. \<exists>r. lookup (table s) key (hash key) = Inr r) \<and>
    (numObjectsInTable (table s) < 2 ^ 31 \<longrightarrow>
      (\<forall>key a. store (table s) a = None \<longrightarrow> (\<exists>r. newEntry (table s) key (hash key) a = Inr r))) \<and>
    (\<forall>a \<in> entries (table s). \<exists>t'. unlink (table s) a = Inr t')"
proof -
  have ok: "table_ok (table s)" using reachable_ok [OF assms] by (simp add: life_ok_def)
  then obtain bs where wf: "table_wf (table s) bs" by (auto simp: table_ok_def)
  have "\<exists>r. newEntry (table s) key (hash key) a = Inr r"
    if "store (table s) a = None" "numObjectsInTable (table s) < 2 ^ 31" for key a
    using newEntry_absent [OF ok _ that] newEntry_present [OF ok] by (cases "entry_of (table s) key = None") blast+
  then show ?thesis using lookup_entry_of [OF wf] unlink_wf [OF wf] entries_wf [OF wf] by blast
qed

section \<open>Threads that wait for a dead entry\<close>

text \<open>An execution, and a scheduler that lets every thread run that can.\<close>

definition execution :: "32 word \<Rightarrow> (nat \<Rightarrow> life) \<Rightarrow> (nat \<Rightarrow> action) \<Rightarrow> bool" where
  "execution param ss as \<longleftrightarrow> reachable param (ss 0) \<and> (\<forall>i. \<exists>ans. step (ss i) (as i) ans (ss (Suc i)))"

definition fair :: "(nat \<Rightarrow> life) \<Rightarrow> (nat \<Rightarrow> action) \<Rightarrow> bool" where
  "fair ss as \<longleftrightarrow> (\<forall>th i. (\<forall>j \<ge> i. enabled (ss j) (Wake th)) \<longrightarrow> (\<exists>j \<ge> i. as j = Wake th))"

lemma execution_reachable: "execution param ss as \<Longrightarrow> reachable param (ss i)"
  by (induction i) (auto simp: execution_def intro: reachable.step)

lemma waits_exec:
  assumes ok: "life_ok s" and st: "step s act ans s'" and w: "waits s' th = Some (a, c)"
  shows "waits s th = Some (a, c) \<or> entry_of (table s') (key_of c) = Some a"
proof -
  have en: "enabled s act" and ex: "exec s act = Inr (ans, s')" using st by (simp_all add: step_simps)
  show ?thesis
  proof (cases "(\<exists>t d. act = Call t d) \<or> (\<exists>t. act = Wake t)")
    case True
    then obtain t d where ans: "answered s t d (exec s act)"
    proof (elim disjE exE)
      fix t d assume "act = Call t d"
      then show thesis using Call_answered [OF ok] en that by blast
    next
      fix t assume act: "act = Wake t"
      with en obtain a' c' where "waits s t = Some (a', c')" by (auto split: option.splits)
      with Wake_answered [OF ok] en act that show thesis by blast
    qed
    then have "waits s' = (waits s)(t := None) \<or>
        (\<exists>a. waits s' = (waits s)(t \<mapsto> (a, d)) \<and> entry_of (table s') (key_of d) = Some a)"
      unfolding answered_def ex by auto
    with w show ?thesis by (auto split: if_splits)
  next
    case False
    then have "waits s' = waits s" using ex
      by (cases act) (auto simp: quietly_def err_simps split: option.splits prod.splits)
    with w show ?thesis by simp
  qed
qed

text \<open>What is dead stays dead, until its memory is freed; nobody starts to wait for it.\<close>

lemma dead_step:
  assumes ok: "life_ok s" and st: "step s act ans s'" and d: "entry_with s a (\<lambda>e. pd_state e = DEAD)"
  shows "waiters_of (waits s') a \<subseteq> waiters_of (waits s) a"
    and "waiters_of (waits s') a = {} \<or> entry_with s' a (\<lambda>e. pd_state e = DEAD)"
proof -
  have ok': "life_ok s'" by (rule step_ok [OF ok st])
  obtain e where e: "store (table s) a = Some e" "pd_state e = DEAD" using d by (auto elim: entry_withE)
  have an: "a \<notin> ran (entry_of (table s))" using entry_okD(1) [OF ok e(1)] e(2) by (simp add: entries_def)
  have en: "enabled s act" and ex: "exec s act = Inr (ans, s')" using st by (simp_all add: step_simps)
  have "directory_step (entry_of (table s)) act ans (entry_of (table s'))" using exec_directory [OF ok en] ex by auto
  moreover have "act \<noteq> NewEntry key a" for key using en e(1) by auto
  ultimately have an': "a \<notin> ran (entry_of (table s'))"
    using an by (cases act) (auto simp: ran_def split: option.splits if_splits)
  show "waiters_of (waits s') a \<subseteq> waiters_of (waits s) a"
    using waits_exec [OF ok st] an' by (fastforce simp: waiters_of_def ran_def)
  show "waiters_of (waits s') a = {} \<or> entry_with s' a (\<lambda>e. pd_state e = DEAD)"
  proof (cases "store (table s') a")
    case None
    then have "waiters_of (waits s') a = {}" using ok' by (auto simp: life_ok_def entry_ok_def dest: spec [of _ a])
    then show ?thesis by simp
  next
    case (Some e')
    with entry_okD(1) [OF ok' Some] an' show ?thesis by (simp add: entry_with_def entries_def)
  qed
qed

text \<open>A fair scheduler does not let a thread wait for a dead entry for ever.\<close>

lemma waiter_gets_out:
  assumes ex: "execution param ss as" and fair: "fair ss as"
    and dead: "\<And>j. i \<le> j \<Longrightarrow> entry_with (ss j) a (\<lambda>e. pd_state e = DEAD)"
    and w: "\<And>j. i \<le> j \<Longrightarrow> \<exists>c. waits (ss j) th = Some (a, c)"
  shows False
proof -
  note ok = reachable_ok [OF execution_reachable [OF ex]]
  have "enabled (ss j) (Wake th)" if ij: "i \<le> j" for j
  proof -
    obtain c where c: "waits (ss j) th = Some (a, c)" using w [OF ij] by blast
    obtain e where e: "store (table (ss j)) a = Some e" "pd_state e = DEAD"
      using dead [OF ij] by (auto elim: entry_withE)
    have "th \<notin> set (blocked e)" using entry_okD(2) [OF ok e(1)] e(2) by (auto simp: sleeps_ok_def)
    with c e show ?thesis by (simp add: entry_with_def)
  qed
  with fair obtain j where j: "i \<le> j" "as j = Wake th" unfolding fair_def by blast
  obtain c where c: "waits (ss j) th = Some (a, c)" using w [OF j(1)] by blast
  obtain ans where s: "step (ss j) (Wake th) ans (ss (Suc j))" using ex j(2) unfolding execution_def by metis
  have ij: "i \<le> Suc j" using j(1) by simp
  obtain c' where c': "waits (ss (Suc j)) th = Some (a, c')" using w [OF ij] by blast
  have en: "enabled (ss j) (Wake th)" and exj: "exec (ss j) (Wake th) = Inr (ans, ss (Suc j))"
    using s by (simp_all add: step_simps)
  have "answered (ss j) th c (exec (ss j) (Wake th))" by (rule Wake_answered [OF ok en c])
  then have "entry_of (table (ss (Suc j))) (key_of c) = Some a"
    using exj c' by (auto simp: answered_def)
  then have "a \<in> entries (table (ss (Suc j)))" by (auto simp: entries_def ran_def)
  moreover have "entry_with (ss (Suc j)) a (\<lambda>e. pd_state e = DEAD)" by (rule dead [OF ij])
  ultimately show False using entry_okD(1) [OF ok] by (auto elim!: entry_withE)
qed

text \<open>C24. Every thread that waits for an entry that has died gets out of \<^verbatim>\<open>wait\<close>, as long as the
  scheduler is fair: after finitely many steps nobody waits for the dead entry any more.\<close>

theorem dead_entry_is_left:
  assumes ex: "execution param ss as" and fair: "fair ss as"
    and dead: "entry_with (ss i) a (\<lambda>e. pd_state e = DEAD)"
  shows "\<exists>j \<ge> i. waiters_of (waits (ss j)) a = {}"
  using dead
proof (induction "card (waiters_of (waits (ss i)) a)" arbitrary: i rule: less_induct)
  case less
  note ok = reachable_ok [OF execution_reachable [OF ex]]
  have st: "\<exists>ans. step (ss j) (as j) ans (ss (Suc j))" for j using ex by (simp add: execution_def)
  show ?case
  proof (rule ccontr)
    assume never: "\<not> ?case"
    have stays: "entry_with (ss (i + n)) a (\<lambda>e. pd_state e = DEAD) \<and>
        waiters_of (waits (ss (i + n))) a \<subseteq> waiters_of (waits (ss i)) a" for n
    proof (induction n)
      case 0
      with less.prems show ?case by simp
    next
      case (Suc n)
      obtain ans where s: "step (ss (i + n)) (as (i + n)) ans (ss (Suc (i + n)))" using st by blast
      have "waiters_of (waits (ss (Suc (i + n)))) a \<noteq> {}" using never le_add1 [of i "Suc n"] by auto
      with dead_step [OF ok s] Suc show ?case by auto
    qed
    have all: "waiters_of (waits (ss (i + n))) a = waiters_of (waits (ss i)) a" for n
    proof (rule ccontr)
      assume "waiters_of (waits (ss (i + n))) a \<noteq> waiters_of (waits (ss i)) a"
      then have "card (waiters_of (waits (ss (i + n))) a) < card (waiters_of (waits (ss i)) a)"
        using stays [of n] by (intro psubset_card_mono finite_waiters [OF life_ok_finite [OF ok]]) auto
      from less.hyps [OF this] stays [of n] obtain j where "i + n \<le> j" "waiters_of (waits (ss j)) a = {}" by blast
      moreover have "i \<le> j" using \<open>i + n \<le> j\<close> by simp
      ultimately show False using never by blast
    qed
    obtain th where th: "th \<in> waiters_of (waits (ss i)) a" using never by blast
    then have w: "\<exists>c. waits (ss (i + n)) th = Some (a, c)" for n using all [of n] by (auto simp: waiters_of_def)
    have d: "entry_with (ss j) a (\<lambda>e. pd_state e = DEAD)" "\<exists>c. waits (ss j) th = Some (a, c)" if ij: "i \<le> j" for j
      using le_Suc_ex [OF ij] stays w by auto
    from waiter_gets_out [OF ex fair d] show False .
  qed
qed

section \<open>Concrete runs\<close>

fun run :: "life \<Rightarrow> action list \<Rightarrow> life option" where
  "run s [] = Some s"
| "run s (act # acts) =
     (if enabled s act then (case exec s act of Inl _ \<Rightarrow> None | Inr (ans, s') \<Rightarrow> run s' acts) else None)"

lemma run_reachable: "reachable param s \<Longrightarrow> run s acts = Some s' \<Longrightarrow> reachable param s'"
proof (induction acts arbitrary: s)
  case (Cons act acts)
  then obtain ans s1 where "enabled s act" "exec s act = Inr (ans, s1)" "run s1 acts = Some s'"
    by (auto simp del: exec.simps enabled.simps split: if_splits sum.splits prod.splits)
  moreover from this have "reachable param s1" using Cons.prems(1) by (auto intro: reachable.step step.intros)
  ultimately show ?case using Cons.IH by blast
qed simp

lemma seek_simps:
  "seek t a pid =
     (if read_link t pid = Inr (Some a) then Some (Inr (Some pid))
      else (case read_link t pid of Inl err \<Rightarrow> Some (Inl err) | Inr None \<Rightarrow> Some (Inr None)
            | Inr (Some b) \<Rightarrow> seek t a (NextOf b)))"
  by (subst seek.simps) (auto split: sum.splits option.splits)

lemmas eval_simps = seek_simps start_def attach_def Let_def newEntry_def lookup_def find_entry_simps returned_def
  arr_get_def locate_def locate_again_def call_def follow_def wait_enter_def get_entry_def put_entry_def
  in_set_def gainRef_def block_on_def loseRef_def omniObjTableEntry_new_def quietly_def setDead_def unlink_def
  read_link_def write_link_def arr_set_def become_dead_def broadcast_def
  setActive_def setServant_def addActivation_def add_invocation_def oassert_def entry_with_def wake_def
  wait_wake_def blocked_def

text \<open>Thread 0 waits for an entry, which dies, which the thread finds out; an object in use.\<close>

definition creating :: "action list" where
  "creating = [NewEntry [] 1, Call 0 (Locate [] 2)]"

definition sleeping :: life where
  "sleeping = the (run (start 1) creating)"

definition dying :: life where
  "dying = the (run (start 1) (creating @ [Abandon 1]))"

definition gone :: life where
  "gone = the (run (start 1) (creating @ [Abandon 1, Wake 0]))"

definition busy :: life where
  "busy = the (run (start 1) [NewEntry [] 1, SetActive 1 5 6, Enter 1])"

lemma run_sleeping: "run (start 1) creating = Some sleeping"
  by (simp add: sleeping_def creating_def eval_simps)

lemma run_dying: "run (start 1) (creating @ [Abandon 1]) = Some dying"
  by (simp add: dying_def creating_def eval_simps)

lemma run_gone: "run (start 1) (creating @ [Abandon 1, Wake 0]) = Some gone"
  by (simp add: gone_def creating_def eval_simps)

lemma run_busy: "run (start 1) [NewEntry [] 1, SetActive 1 5 6, Enter 1] = Some busy"
  by (simp add: busy_def eval_simps)

lemmas runs_reachable =
  run_reachable [OF reachable.start run_sleeping] run_reachable [OF reachable.start run_dying]
  run_reachable [OF reachable.start run_gone] run_reachable [OF reachable.start run_busy]

lemma abandon_step: "step sleeping (Abandon 1) Nothing dying"
  by (simp add: step_simps sleeping_def dying_def creating_def eval_simps)

lemma wake_step: "step dying (Wake 0) (Answer None) gone"
  by (simp add: step_simps gone_def dying_def creating_def eval_simps)

lemma idle_step: "step gone (Call 1 (Locate [] 2)) (Answer None) gone"
  by (simp add: step_simps gone_def creating_def eval_simps)

lemma dying_dead: "entry_with dying 1 (\<lambda>e. pd_state e = DEAD)"
  by (simp add: dying_def creating_def eval_simps)

lemma gone_idle: "waits gone th = None"
  by (simp add: gone_def creating_def eval_simps)

theorem object_table_refinement_witness:
  "directory_step (entry_of (table sleeping)) (Abandon 1) Nothing (entry_of (table dying)) \<and>
    (entry_of (table dying) [] = Some 1 \<longleftrightarrow> entry_with dying 1 (\<lambda>e. pd_key e = [] \<and> pd_state e \<noteq> DEAD))"
  using object_table_refinement [OF runs_reachable(1) abandon_step, of "[]" 1] by blast

theorem no_lost_wakeup_witness:
  "entry_with dying 1 (\<lambda>e. pd_key e = [] \<and>
    (enabled dying (Wake 0) \<or> (pd_state e \<noteq> DEAD \<and> \<not> in_set (pd_state e) 2)))"
proof -
  have "waits dying 0 = Some (1, Locate [] 2)" by (simp add: dying_def creating_def eval_simps)
  from no_lost_wakeup [OF runs_reachable(2) this] show ?thesis by simp
qed

theorem no_etherealisation_under_call_witness:
  "entry_with busy 1 (\<lambda>e. in_set (pd_state e) (state_bits ACTIVE OR state_bits DEACTIVATING) \<and>
    entry_of (table busy) (pd_key e) = Some 1 \<and>
    (\<exists>servant. pd_servant e = Some servant \<and> 1 \<in> set (pd_activations (table busy) servant)))"
  by (rule no_etherealisation_under_call [OF runs_reachable(4)]) (simp add: busy_def eval_simps)

theorem locate_answer_witness:
  "right_answer gone (Locate [] 2) None \<and> waits gone 0 = None"
proof -
  have "waits dying 0 = Some (1, Locate [] 2)" by (simp add: dying_def creating_def eval_simps)
  with locate_answer [OF runs_reachable(2) wake_step] show ?thesis by blast
qed

theorem object_table_load_witness:
  "unat (numObjectsInTable (table sleeping)) = card (dom (entry_of (table sleeping))) \<and>
    length (objectTable (table sleeping)) = unat (objectTableSize (table sleeping)) \<and>
    minNumObjects (table sleeping) \<le> numObjectsInTable (table sleeping) \<and>
    numObjectsInTable (table sleeping) \<le> maxNumObjects (table sleeping)"
  by (rule object_table_load [OF runs_reachable(1)])

theorem table_walks_return_witness:
  "(\<exists>r. lookup (table sleeping) [] (hash []) = Inr r) \<and> (\<exists>r. newEntry (table sleeping) [7] (hash [7]) 5 = Inr r)"
proof -
  note w = table_walks_return [OF runs_reachable(1)]
  have "store (table sleeping) 5 = None" "numObjectsInTable (table sleeping) < 2 ^ 31"
    by (simp_all add: sleeping_def creating_def eval_simps)
  with w show ?thesis by blast
qed

theorem dead_entry_is_left_witness:
  "\<exists>j \<ge> (0::nat). waiters_of (waits (if j = 0 then dying else gone)) 1 = {}"
proof -
  let ?ss = "\<lambda>i::nat. if i = 0 then dying else gone"
  let ?as = "\<lambda>i::nat. if i = 0 then Wake 0 else Call 1 (Locate [] 2)"
  have e: "execution 1 ?ss ?as" unfolding execution_def
    using runs_reachable(2) wake_step idle_step by auto
  have f: "fair ?ss ?as" unfolding fair_def
  proof (intro allI impI)
    fix th i assume a: "\<forall>j \<ge> i. enabled (?ss j) (Wake th)"
    have "enabled gone (Wake th)" using mp [OF spec [OF a, of "Suc i"]] by (simp del: enabled.simps)
    then show "\<exists>j \<ge> i. ?as j = Wake th" by (simp add: gone_idle)
  qed
  have d: "entry_with (?ss 0) 1 (\<lambda>e. pd_state e = DEAD)" using dying_dead by simp
  show ?thesis by (rule dead_entry_is_left [where i = 0, OF e f d])
qed

end
