(* ===== verification/Adapter.thy ===== *)
theory Adapter
  imports Prelude
begin

text \<open>
  The requests in an object adapter (\<^verbatim>\<open>internal/objectAdapter.h\<close>, \<^verbatim>\<open>orbcore/objectAdapter.cc\<close>,
  \<^verbatim>\<open>orbcore/poa.cc\<close>): the two counters of requests, the state that the POA manager gives to the
  adapter, the requests that are held while it is \<^verbatim>\<open>HOLDING\<close>, the threads that wait for the requests to
  complete, and the destruction of the adapter.

  The counters are protected by \<^verbatim>\<open>omni::internalLock\<close>. Every critical section of that lock is an action,
  and so is every call of \<^verbatim>\<open>pd_signal->broadcast()\<close> that is made without it.
\<close>

section \<open>The adapter\<close>

datatype PM_State = HOLDING | ACTIVE | DISCARDING | INACTIVE

text \<open>
  \<open>pd_signal\<close> is the condition variable with the threads that are blocked on it; \<^verbatim>\<open>adapterDestroyed\<close>
  deletes it.
\<close>

record adapter =
  pd_nReqInThis :: int
  pd_nReqActive :: int
  pd_signalOnZeroInvocations :: int
  pd_rq_state :: PM_State
  pd_signal :: "nat list option"

definition omniOrbPOA_new :: adapter where
  "omniOrbPOA_new =
     \<lparr>pd_nReqInThis = 0, pd_nReqActive = 0, pd_signalOnZeroInvocations = 0,
      pd_rq_state = HOLDING, pd_signal = Some []\<rparr>"

definition broadcast_signal :: "adapter \<Rightarrow> adapter result" where
  "broadcast_signal a =
     (case pd_signal a of None \<Rightarrow> Inl Undefined | Some _ \<Rightarrow> Inr (a\<lparr>pd_signal := Some []\<rparr>))"

definition wait_signal :: "adapter \<Rightarrow> nat \<Rightarrow> adapter result" where
  "wait_signal a th =
     (case pd_signal a of None \<Rightarrow> Inl Undefined | Some ths \<Rightarrow> Inr (a\<lparr>pd_signal := Some (ths @ [th])\<rparr>))"

section \<open>Counting requests\<close>

definition enterAdapter :: "adapter \<Rightarrow> adapter result" where
  "enterAdapter a =
     ebind (oassert (0 \<le> pd_nReqInThis a)) (\<lambda>_.
     Inr (a\<lparr>pd_nReqInThis := pd_nReqInThis a + 1\<rparr>))"

definition startRequest :: "adapter \<Rightarrow> adapter result" where
  "startRequest a =
     ebind (oassert (0 \<le> pd_nReqActive a)) (\<lambda>_.
     Inr (a\<lparr>pd_nReqActive := pd_nReqActive a + 1\<rparr>))"

definition leaveAdapter :: "adapter \<Rightarrow> adapter result" where
  "leaveAdapter a =
     ebind (oassert (0 < pd_nReqInThis a)) (\<lambda>_.
     ebind (oassert (0 < pd_nReqActive a)) (\<lambda>_.
     let a = a\<lparr>pd_nReqInThis := pd_nReqInThis a - 1, pd_nReqActive := pd_nReqActive a - 1\<rparr> in
     if pd_nReqActive a = 0 \<and> pd_signalOnZeroInvocations a \<noteq> 0 then broadcast_signal a else Inr a))"

text \<open>\<^verbatim>\<open>exitAdapter\<close> up to the broadcast, which comes after the lock is released or, with \<^verbatim>\<open>loexit\<close>, before.\<close>

definition exit_section :: "adapter \<Rightarrow> (bool \<times> adapter) result" where
  "exit_section a =
     ebind (oassert (0 < pd_nReqInThis a)) (\<lambda>_.
     let a = a\<lparr>pd_nReqInThis := pd_nReqInThis a - 1\<rparr> in
     Inr (pd_nReqInThis a = 0 \<and> pd_signalOnZeroInvocations a \<noteq> 0, a))"

definition exitAdapter_locked :: "adapter \<Rightarrow> adapter result" where
  "exitAdapter_locked a =
     ebind (exit_section a) (\<lambda>(do_signal, a). if do_signal then broadcast_signal a else Inr a)"

section \<open>Waiting for requests to complete\<close>

text \<open>
  The three loops that wait on \<^verbatim>\<open>pd_signal\<close>: \<^verbatim>\<open>waitForAllRequestsToComplete\<close>,
  \<^verbatim>\<open>waitForActiveRequestsToComplete\<close> and \<^verbatim>\<open>pm_waitForReqCmpltnOrSttChnge\<close>. \<open>await_enter\<close> runs up to the point
  where the thread blocks (\<open>False\<close>) or returns (\<open>True\<close>), \<open>await_again\<close> from where it has been woken.
\<close>

datatype completion = AllRequests | ActiveRequests | ActiveRequestsOrChange PM_State

fun pending :: "adapter \<Rightarrow> completion \<Rightarrow> bool" where
  "pending a AllRequests \<longleftrightarrow> pd_nReqInThis a \<noteq> 0"
| "pending a ActiveRequests \<longleftrightarrow> pd_nReqActive a \<noteq> 0"
| "pending a (ActiveRequestsOrChange st) \<longleftrightarrow> pd_rq_state a = st \<and> pd_nReqActive a \<noteq> 0"

fun await_check :: "adapter \<Rightarrow> completion \<Rightarrow> bool" where
  "await_check a AllRequests \<longleftrightarrow> 0 \<le> pd_nReqInThis a"
| "await_check a ActiveRequests \<longleftrightarrow> 0 \<le> pd_nReqActive a"
| "await_check a (ActiveRequestsOrChange st) \<longleftrightarrow> True"

definition await_again :: "adapter \<Rightarrow> completion \<Rightarrow> nat \<Rightarrow> (bool \<times> adapter) result" where
  "await_again a c th =
     (if pending a c then ebind (wait_signal a th) (\<lambda>a. Inr (False, a))
      else Inr (True, a\<lparr>pd_signalOnZeroInvocations := pd_signalOnZeroInvocations a - 1\<rparr>))"

definition await_enter :: "adapter \<Rightarrow> completion \<Rightarrow> nat \<Rightarrow> (bool \<times> adapter) result" where
  "await_enter a c th =
     ebind (oassert (await_check a c)) (\<lambda>_.
     await_again (a\<lparr>pd_signalOnZeroInvocations := pd_signalOnZeroInvocations a + 1\<rparr>) c th)"

section \<open>Dispatching a request\<close>

text \<open>What a request goes on with when it releases the lock: the upcall, or an exception.\<close>

datatype outcome = Upcall | Throws sysex minor

text \<open>
  \<^verbatim>\<open>synchronise_request\<close>; \<open>deactivated\<close> is what the identity says about itself. \<open>None\<close>: the request is held.
\<close>

definition throwing :: "adapter \<Rightarrow> sysex \<Rightarrow> minor \<Rightarrow> (outcome option \<times> adapter) result" where
  "throwing a ex m = ebind (startRequest a) (\<lambda>a. Inr (Some (Throws ex m), a))"

definition synchronise_request :: "adapter \<Rightarrow> nat \<Rightarrow> bool \<Rightarrow> (outcome option \<times> adapter) result" where
  "synchronise_request a th deactivated =
     (case pd_rq_state a of
        HOLDING \<Rightarrow> ebind (wait_signal a th) (\<lambda>a. Inr (None, a))
      | DISCARDING \<Rightarrow> throwing a TRANSIENT TRANSIENT_POANoResource
      | INACTIVE \<Rightarrow> throwing a OBJ_ADAPTER OBJ_ADAPTER_POAUnknownAdapter
      | ACTIVE \<Rightarrow>
          if deactivated then throwing a TRANSIENT TRANSIENT_ObjDeactivatedWhileHolding
          else Inr (Some Upcall, a))"

text \<open>The rest of \<^verbatim>\<open>dispatch\<close> up to the release of the lock.\<close>

definition started :: "outcome option \<times> adapter \<Rightarrow> (outcome option \<times> adapter) result" where
  "started r =
     (case r of (Some Upcall, a) \<Rightarrow> ebind (startRequest a) (\<lambda>a. Inr (Some Upcall, a)) | _ \<Rightarrow> Inr r)"

definition dispatch :: "adapter \<Rightarrow> nat \<Rightarrow> bool \<Rightarrow> (outcome option \<times> adapter) result" where
  "dispatch a th deactivated =
     ebind (enterAdapter a) (\<lambda>a.
     if pd_rq_state a \<noteq> ACTIVE then ebind (synchronise_request a th deactivated) started
     else started (Some Upcall, a))"

text \<open>\<^verbatim>\<open>timedwait\<close> has run out of time; \<open>transient\<close> is the parameter \<^verbatim>\<open>throwTransientOnTimeOut\<close>.\<close>

definition hold_timeout :: "adapter \<Rightarrow> bool \<Rightarrow> (outcome option \<times> adapter) result" where
  "hold_timeout a transient =
     (if transient then throwing a TRANSIENT TRANSIENT_CallTimedout
      else throwing a TIMEOUT TIMEOUT_CallTimedOutOnServer)"

section \<open>State changes\<close>

text \<open>\<^verbatim>\<open>pm_change_state\<close>, and the state change at the start of \<^verbatim>\<open>destroy\<close>, up to their broadcasts.\<close>

definition change_section :: "adapter \<Rightarrow> PM_State \<Rightarrow> adapter" where
  "change_section a st = a\<lparr>pd_rq_state := st\<rparr>"

definition destroy_section :: "adapter \<Rightarrow> bool \<times> adapter" where
  "destroy_section a =
     (pd_rq_state a = HOLDING, if pd_rq_state a = HOLDING then a\<lparr>pd_rq_state := DISCARDING\<rparr> else a)"

text \<open>The critical section in \<^verbatim>\<open>do_destroy\<close>, up to the wait for the requests.\<close>

definition do_destroy_section :: "adapter \<Rightarrow> nat \<Rightarrow> (bool \<times> adapter) result" where
  "do_destroy_section a th = await_enter (a\<lparr>pd_rq_state := INACTIVE\<rparr>) AllRequests th"

text \<open>A condition variable must not be deleted while threads are blocked on it.\<close>

definition adapterDestroyed :: "adapter \<Rightarrow> adapter result" where
  "adapterDestroyed a =
     ebind (oassert (pd_signal a \<noteq> None)) (\<lambda>_.
     if pd_signal a = Some [] then Inr (a\<lparr>pd_signal := None\<rparr>) else Inl Undefined)"

end
