(* ===== verification/Adapter_Threads.thy ===== *)
theory Adapter_Threads
  imports Adapter
begin

text \<open>
  The threads of a server around one object adapter: each is at some point of \<^verbatim>\<open>dispatch\<close>,
  \<^verbatim>\<open>dispatch_to_sl\<close> or \<^verbatim>\<open>dispatch_to_sa\<close>, of a state change by the POA manager, of a wait for the requests
  to complete, or of \<^verbatim>\<open>destroy\<close>. Every action of a thread is one critical section of
  \<^verbatim>\<open>omni::internalLock\<close>, or a broadcast without it.
\<close>

section \<open>Threads\<close>

text \<open>
  \<open>Entered\<close>: between \<^verbatim>\<open>enterAdapter\<close> and \<^verbatim>\<open>exitAdapter\<close> in \<^verbatim>\<open>dispatch_to_sl\<close> or \<^verbatim>\<open>dispatch_to_sa\<close>.
  \<open>Held\<close> and \<open>Busy\<close>: in \<^verbatim>\<open>synchronise_request\<close> and past it; the flag is set when the request came through
  \<^verbatim>\<open>dispatch_to_sl\<close> and its \<^verbatim>\<open>exitAdapter\<close> is still to come. \<open>Signalling\<close>: about to broadcast.
  \<open>Destroying\<close>: \<^verbatim>\<open>destroy\<close> before and after the adapter has left its manager; \<open>Completed\<close>: \<^verbatim>\<open>do_destroy\<close> once
  the requests have completed.
\<close>

datatype pc =
    Idle | Entered | Held bool | Busy bool outcome
  | Waiting completion pc | Signalling pc
  | Destroying bool | Completed

text \<open>
  \<open>owned\<close>: the adapter is in the list of its manager. \<open>dying\<close>: \<^verbatim>\<open>pd_dying\<close>. \<open>closed\<close>: \<^verbatim>\<open>do_destroy\<close> has set
  the state to \<^verbatim>\<open>INACTIVE\<close>; \<open>finished\<close>: it has seen all requests complete. The last three only record
  what has happened: no action but those of \<^verbatim>\<open>destroy\<close> and of the manager depends on them.
\<close>

record server =
  oa :: adapter
  pcs :: "nat \<Rightarrow> pc"
  owned :: bool
  dying :: bool
  closed :: bool
  finished :: bool

definition server_start :: server where
  "server_start = \<lparr>oa = omniOrbPOA_new, pcs = (\<lambda>_. Idle), owned = True, dying = False, closed = False,
     finished = False\<rparr>"

section \<open>Actions\<close>

datatype request_action =
    Dispatch nat bool | Resume nat bool | HoldTimeout nat bool | Leave nat
  | Enter nat | DispatchEntered nat bool | ExitLocked nat | Exit nat | PostInvoke nat
  | ChangeState nat PM_State | Broadcast nat
  | Await nat completion | AwaitAgain nat | Spurious nat
  | Destroy nat | LosePoa nat | DoDestroy nat | Destroyed nat

definition move :: "server \<Rightarrow> nat \<Rightarrow> pc \<Rightarrow> adapter \<Rightarrow> server" where
  "move s th p a = s\<lparr>oa := a, pcs := (pcs s)(th := p), finished := finished s \<or> p = Completed\<rparr>"

definition then_move :: "server \<Rightarrow> nat \<Rightarrow> pc \<Rightarrow> adapter result \<Rightarrow> server result" where
  "then_move s th p r = ebind r (\<lambda>a. Inr (move s th p a))"

text \<open>Where a request is after \<^verbatim>\<open>synchronise_request\<close>.\<close>

definition requested :: "server \<Rightarrow> nat \<Rightarrow> bool \<Rightarrow> (outcome option \<times> adapter) result \<Rightarrow> server result" where
  "requested s th hook r =
     ebind r (\<lambda>(out, a). Inr (move s th (case out of None \<Rightarrow> Held hook | Some x \<Rightarrow> Busy hook x) a))"

definition awaited :: "server \<Rightarrow> nat \<Rightarrow> completion \<Rightarrow> pc \<Rightarrow> (bool \<times> adapter) result \<Rightarrow> server result" where
  "awaited s th c p r = ebind r (\<lambda>(done, a). Inr (move s th (if done then p else Waiting c p) a))"

definition exited :: "server \<Rightarrow> nat \<Rightarrow> pc \<Rightarrow> server result" where
  "exited s th p =
     ebind (exit_section (oa s)) (\<lambda>(do_signal, a). Inr (move s th (if do_signal then Signalling p else p) a))"

fun request_exec :: "server \<Rightarrow> request_action \<Rightarrow> server result" where
  "request_exec s (Dispatch th d) = requested s th False (dispatch (oa s) th d)"
| "request_exec s (Resume th d) =
     (case pcs s th of Held hook \<Rightarrow> requested s th hook (ebind (synchronise_request (oa s) th d) started)
      | _ \<Rightarrow> Inl Undefined)"
| "request_exec s (HoldTimeout th transient) =
     (case pcs s th of Held hook \<Rightarrow>
        requested s th hook (hold_timeout
          ((oa s)\<lparr>pd_signal := map_option (filter (\<lambda>x. x \<noteq> th)) (pd_signal (oa s))\<rparr>) transient)
      | _ \<Rightarrow> Inl Undefined)"
| "request_exec s (Leave th) =
     (case pcs s th of Busy hook _ \<Rightarrow> then_move s th (if hook then Entered else Idle) (leaveAdapter (oa s))
      | _ \<Rightarrow> Inl Undefined)"
| "request_exec s (Enter th) = then_move s th Entered (enterAdapter (oa s))"
| "request_exec s (DispatchEntered th d) = requested s th True (dispatch (oa s) th d)"
| "request_exec s (ExitLocked th) = then_move s th Idle (exitAdapter_locked (oa s))"
| "request_exec s (Exit th) = exited s th Idle"
| "request_exec s (PostInvoke th) =
     (case pcs s th of Busy _ out \<Rightarrow> exited s th (Busy False out) | _ \<Rightarrow> Inl Undefined)"
| "request_exec s (ChangeState th st) = Inr (move s th (Signalling (pcs s th)) (change_section (oa s) st))"
| "request_exec s (Broadcast th) =
     (case pcs s th of Signalling p \<Rightarrow> then_move s th p (broadcast_signal (oa s)) | _ \<Rightarrow> Inl Undefined)"
| "request_exec s (Await th c) = awaited s th c (pcs s th) (await_enter (oa s) c th)"
| "request_exec s (AwaitAgain th) =
     (case pcs s th of Waiting c p \<Rightarrow> awaited s th c p (await_again (oa s) c th) | _ \<Rightarrow> Inl Undefined)"
| "request_exec s (Spurious th) =
     Inr (s\<lparr>oa := (oa s)\<lparr>pd_signal := map_option (filter (\<lambda>x. x \<noteq> th)) (pd_signal (oa s))\<rparr>\<rparr>)"
| "request_exec s (Destroy th) =
     (case destroy_section (oa s) of (do_signal, a) \<Rightarrow>
        Inr (move s th (if do_signal then Signalling (Destroying True) else Destroying True) a\<lparr>dying := True\<rparr>))"
| "request_exec s (LosePoa th) = Inr (move s th (Destroying False) (oa s)\<lparr>owned := False\<rparr>)"
| "request_exec s (DoDestroy th) =
     ebind (awaited s th AllRequests Completed (do_destroy_section (oa s) th)) (\<lambda>s. Inr (s\<lparr>closed := True\<rparr>))"
| "request_exec s (Destroyed th) = then_move s th Idle (adapterDestroyed (oa s))"

text \<open>
  When an action is taken. Requests can reach the adapter at any time, even when it has been destroyed:
  \<^verbatim>\<open>dispatch_to_sa\<close> enters it before it looks at \<^verbatim>\<open>pd_dying\<close>, \<^verbatim>\<open>dispatch_to_ds\<close> has taken the default servant
  before, and nothing is locked between the search for an adapter and the dispatch to it. Likewise a thread
  can begin to wait at any time: \<^verbatim>\<open>hold_requests\<close> and \<^verbatim>\<open>discard_requests\<close> wait for an adapter that may have left
  the manager in the meantime, and \<^verbatim>\<open>pm_deactivate\<close> tests \<^verbatim>\<open>pd_dying\<close> long before it waits.
\<close>

definition asleep :: "server \<Rightarrow> nat \<Rightarrow> bool" where
  "asleep s th = (case pd_signal (oa s) of None \<Rightarrow> False | Some ths \<Rightarrow> th \<in> set ths)"

fun may_await :: "completion \<Rightarrow> bool" where
  "may_await (ActiveRequestsOrChange st) = (st = HOLDING \<or> st = DISCARDING)"
| "may_await c = True"

fun request_enabled :: "server \<Rightarrow> request_action \<Rightarrow> bool" where
  "request_enabled s (Dispatch th d) = (pcs s th = Idle)"
| "request_enabled s (Resume th d) = (\<not> asleep s th \<and> (case pcs s th of Held _ \<Rightarrow> True | _ \<Rightarrow> False))"
| "request_enabled s (HoldTimeout th t) = (case pcs s th of Held _ \<Rightarrow> True | _ \<Rightarrow> False)"
| "request_enabled s (Leave th) = (case pcs s th of Busy _ _ \<Rightarrow> True | _ \<Rightarrow> False)"
| "request_enabled s (Enter th) = (pcs s th = Idle)"
| "request_enabled s (DispatchEntered th d) = (pcs s th = Entered)"
| "request_enabled s (ExitLocked th) = (pcs s th = Entered)"
| "request_enabled s (Exit th) = (pcs s th = Entered)"
| "request_enabled s (PostInvoke th) = (case pcs s th of Busy hook _ \<Rightarrow> hook | _ \<Rightarrow> False)"
| "request_enabled s (ChangeState th st) = (pcs s th = Idle \<and> owned s)"
| "request_enabled s (Broadcast th) = (case pcs s th of Signalling _ \<Rightarrow> True | _ \<Rightarrow> False)"
| "request_enabled s (Await th c) = (pcs s th = Idle \<and> may_await c)"
| "request_enabled s (AwaitAgain th) = (\<not> asleep s th \<and> (case pcs s th of Waiting _ _ \<Rightarrow> True | _ \<Rightarrow> False))"
| "request_enabled s (Spurious th) = True"
| "request_enabled s (Destroy th) = (pcs s th = Idle \<and> \<not> dying s)"
| "request_enabled s (LosePoa th) = (pcs s th = Destroying True)"
| "request_enabled s (DoDestroy th) = (pcs s th = Destroying False)"
| "request_enabled s (Destroyed th) = (pcs s th = Completed)"

inductive request_step :: "server \<Rightarrow> request_action \<Rightarrow> server \<Rightarrow> bool" where
  "request_enabled s act \<Longrightarrow> request_exec s act = Inr s' \<Longrightarrow> request_step s act s'"

inductive_simps request_step_simps: "request_step s act s'"

inductive served :: "server \<Rightarrow> bool" where
  start: "served server_start"
| step: "served s \<Longrightarrow> request_step s act s' \<Longrightarrow> served s'"

end
