(* ===== verification/Adapter_Inv.thy ===== *)
theory Adapter_Inv
  imports Adapter_Threads
begin

text \<open>
  The invariant of the threads around an adapter: the counters count the threads, and a thread that is
  blocked on \<^verbatim>\<open>pd_signal\<close> has a reason to be, or a broadcast is on its way.
\<close>

section \<open>Sums over threads\<close>

definition total :: "(pc \<Rightarrow> int) \<Rightarrow> (nat \<Rightarrow> pc) \<Rightarrow> int" where
  "total f ps = (\<Sum>th | ps th \<noteq> Idle. f (ps th))"

lemma finite_upd: "finite {th. ps th \<noteq> Idle} \<Longrightarrow> finite {x. (ps(th := p)) x \<noteq> Idle}"
  by (rule finite_subset [of _ "insert th {th. ps th \<noteq> Idle}"]) auto

lemma total_over:
  assumes "finite T" and "{th. ps th \<noteq> Idle} \<subseteq> T" and "f Idle = 0"
  shows "total f ps = (\<Sum>th\<in>T. f (ps th))"
  unfolding total_def by (rule sum.mono_neutral_left) (use assms in auto)

lemma total_upd:
  assumes "finite {th. ps th \<noteq> Idle}" and "f Idle = 0"
  shows "total f (ps(th := p)) = total f ps - f (ps th) + f p"
proof -
  let ?T = "insert th {th. ps th \<noteq> Idle}"
  have T: "finite ?T" using assms(1) by simp
  have "total f (ps(th := p)) = (\<Sum>x\<in>?T. f ((ps(th := p)) x))" by (rule total_over [OF T]) (use assms in auto)
  also have "\<dots> = f p + (\<Sum>x\<in>?T - {th}. f (ps x))" using T by (subst sum.remove [of _ th]) auto
  also have "(\<Sum>x\<in>?T - {th}. f (ps x)) = (\<Sum>x\<in>?T. f (ps x)) - f (ps th)" using T by (subst (2) sum.remove [of _ th]) auto
  also have "(\<Sum>x\<in>?T. f (ps x)) = total f ps" by (rule total_over [OF T, symmetric]) (use assms in auto)
  finally show ?thesis by linarith
qed

lemma total_member:
  assumes "finite {th. ps th \<noteq> Idle}" and "f Idle = 0" and "\<And>p. 0 \<le> f p"
  shows "f (ps th) \<le> total f ps" and "0 \<le> total f ps"
proof -
  show "0 \<le> total f ps" unfolding total_def by (rule sum_nonneg) (rule assms(3))
  show "f (ps th) \<le> total f ps"
  proof (cases "ps th = Idle")
    case True
    with \<open>0 \<le> total f ps\<close> assms(2) show ?thesis by simp
  next
    case False
    with assms(1,3) show ?thesis unfolding total_def by (intro member_le_sum) auto
  qed
qed

section \<open>What the threads account for\<close>

fun in_this :: "pc \<Rightarrow> int" where
  "in_this Entered = 1"
| "in_this (Held hook) = (if hook then 2 else 1)"
| "in_this (Busy hook out) = (if hook then 2 else 1)"
| "in_this (Waiting c p) = in_this p"
| "in_this (Signalling p) = in_this p"
| "in_this p = 0"

fun active :: "pc \<Rightarrow> int" where
  "active (Busy hook out) = 1"
| "active (Waiting c p) = active p"
| "active (Signalling p) = active p"
| "active p = 0"

fun awaiting :: "pc \<Rightarrow> int" where
  "awaiting (Waiting c p) = 1 + awaiting p"
| "awaiting (Signalling p) = awaiting p"
| "awaiting p = 0"

fun destroying :: "pc \<Rightarrow> int" where
  "destroying (Destroying d) = 1"
| "destroying Completed = 1"
| "destroying (Waiting c p) = destroying p"
| "destroying (Signalling p) = destroying p"
| "destroying p = 0"

text \<open>A request that is held or calls the servant; one that has been refused only has to leave.\<close>

fun serving :: "pc \<Rightarrow> bool" where
  "serving (Held hook) \<longleftrightarrow> True"
| "serving (Busy hook out) \<longleftrightarrow> out = Upcall"
| "serving (Waiting c p) \<longleftrightarrow> serving p"
| "serving (Signalling p) \<longleftrightarrow> serving p"
| "serving p \<longleftrightarrow> False"

text \<open>What a thread goes on with after a wait and after a broadcast.\<close>

fun wf_pc :: "pc \<Rightarrow> bool" where
  "wf_pc (Waiting c p) \<longleftrightarrow> p = Idle \<or> (p = Completed \<and> c = AllRequests)"
| "wf_pc (Signalling p) \<longleftrightarrow> p = Idle \<or> (\<exists>h x. p = Busy h x) \<or> p = Destroying True"
| "wf_pc p \<longleftrightarrow> True"

lemma accounts_nonneg: "0 \<le> in_this p" "0 \<le> active p" "0 \<le> awaiting p" "0 \<le> destroying p"
  by (induction p) simp_all

lemma active_in_this: "active p \<le> in_this p"
  by (induction p) simp_all

lemma serving_in_this: "serving p \<Longrightarrow> 0 < in_this p"
  by (induction p) simp_all

lemma total_active_le: "total active ps \<le> total in_this ps"
  unfolding total_def by (rule sum_mono) (rule active_in_this)

section \<open>The invariant\<close>

definition signalling :: "server \<Rightarrow> bool" where
  "signalling s \<longleftrightarrow> (\<exists>th p. pcs s th = Signalling p)"

text \<open>Why a thread may be blocked.\<close>

fun still_pending :: "server \<Rightarrow> completion \<Rightarrow> bool" where
  "still_pending s AllRequests \<longleftrightarrow> pd_nReqInThis (oa s) \<noteq> 0"
| "still_pending s ActiveRequests \<longleftrightarrow> pd_nReqActive (oa s) \<noteq> 0"
| "still_pending s (ActiveRequestsOrChange st) \<longleftrightarrow>
     pd_nReqActive (oa s) \<noteq> 0 \<and> (pd_rq_state (oa s) = st \<or> closed s)"

definition rests :: "server \<Rightarrow> nat \<Rightarrow> bool" where
  "rests s th =
     (case pcs s th of
        Held hook \<Rightarrow> pd_rq_state (oa s) = HOLDING \<or> closed s \<or> signalling s
      | Waiting c p \<Rightarrow> still_pending s c \<or> signalling s
      | _ \<Rightarrow> False)"

text \<open>How far the destruction of the adapter has come when a thread is at some point of it.\<close>

fun destruction_ok :: "server \<Rightarrow> pc \<Rightarrow> bool" where
  "destruction_ok s (Waiting c p) \<longleftrightarrow> (p = Completed \<longrightarrow> closed s)"
| "destruction_ok s (Destroying managed) \<longleftrightarrow> managed \<or> \<not> owned s"
| "destruction_ok s Completed \<longleftrightarrow> finished s"
| "destruction_ok s p \<longleftrightarrow> True"

definition server_ok :: "server \<Rightarrow> bool" where
  "server_ok s \<longleftrightarrow>
     finite {th. pcs s th \<noteq> Idle} \<and>
     pd_nReqInThis (oa s) = total in_this (pcs s) \<and>
     pd_nReqActive (oa s) = total active (pcs s) \<and>
     pd_signalOnZeroInvocations (oa s) = total awaiting (pcs s) \<and>
     (\<forall>th. wf_pc (pcs s th) \<and> destruction_ok s (pcs s th) \<and> (asleep s th \<longrightarrow> rests s th)) \<and>
     (closed s \<longrightarrow> pd_rq_state (oa s) = INACTIVE \<and> \<not> owned s) \<and>
     (finished s \<longrightarrow> closed s \<and> (\<forall>th. \<not> serving (pcs s th))) \<and>
     total destroying (pcs s) \<le> 1 \<and>
     (\<not> dying s \<longrightarrow> total destroying (pcs s) = 0 \<and> \<not> finished s) \<and>
     (pd_signal (oa s) = None \<longrightarrow> total destroying (pcs s) = 0 \<and> finished s)"

lemma server_okD:
  assumes "server_ok s"
  shows "finite {th. pcs s th \<noteq> Idle}"
    and "pd_nReqInThis (oa s) = total in_this (pcs s)"
    and "pd_nReqActive (oa s) = total active (pcs s)"
    and "pd_signalOnZeroInvocations (oa s) = total awaiting (pcs s)"
    and "asleep s th \<Longrightarrow> rests s th"
    and "finished s \<Longrightarrow> closed s \<and> \<not> serving (pcs s th)"
    and "total destroying (pcs s) \<le> 1"
    and "\<not> dying s \<Longrightarrow> total destroying (pcs s) = 0 \<and> \<not> finished s"
    and "pd_signal (oa s) = None \<Longrightarrow> total destroying (pcs s) = 0 \<and> finished s"
    and "wf_pc (pcs s th)"
    and "destruction_ok s (pcs s th)"
    and "closed s \<Longrightarrow> pd_rq_state (oa s) = INACTIVE \<and> \<not> owned s"
  using assms by (auto simp: server_ok_def)

lemma server_ok_counts:
  assumes "server_ok s"
  shows "0 \<le> pd_nReqActive (oa s)" and "pd_nReqActive (oa s) \<le> pd_nReqInThis (oa s)"
    and "in_this (pcs s th) \<le> pd_nReqInThis (oa s)" and "active (pcs s th) \<le> pd_nReqActive (oa s)"
    and "awaiting (pcs s th) \<le> pd_signalOnZeroInvocations (oa s)"
    and "destroying (pcs s th) \<le> total destroying (pcs s)"
  using total_member [OF server_okD(1) [OF assms], of in_this] total_member [OF server_okD(1) [OF assms], of active]
    total_member [OF server_okD(1) [OF assms], of awaiting] total_member [OF server_okD(1) [OF assms], of destroying]
    total_active_le [of "pcs s"]
  by (simp_all add: server_okD(2,3,4) [OF assms] accounts_nonneg)

text \<open>The general step: one thread moves on, and the counters follow it.\<close>

definition allowed :: "server \<Rightarrow> pc \<Rightarrow> adapter \<Rightarrow> bool" where
  "allowed s p a \<longleftrightarrow>
     wf_pc p \<and> (finished s \<longrightarrow> \<not> serving p) \<and> (p = Completed \<longrightarrow> closed s \<and> pd_nReqInThis a = 0) \<and>
     ((\<exists>c. p = Waiting c Completed) \<longrightarrow> closed s) \<and> (p = Destroying False \<longrightarrow> \<not> owned s) \<and>
     (closed s \<longrightarrow> pd_rq_state a = INACTIVE)"

lemma move_ok:
  assumes ok: "server_ok s" and v: "allowed s p a"
    and n: "pd_nReqInThis a = pd_nReqInThis (oa s) - in_this (pcs s th) + in_this p"
    and m: "pd_nReqActive a = pd_nReqActive (oa s) - active (pcs s th) + active p"
    and w: "pd_signalOnZeroInvocations a = pd_signalOnZeroInvocations (oa s) - awaiting (pcs s th) + awaiting p"
    and d: "destroying p = destroying (pcs s th) \<or> (total destroying (pcs s) = 0 \<and> dying s \<and> destroying p \<le> 1 \<and> pd_signal a \<noteq> None)"
    and g: "pd_signal a = None \<longleftrightarrow> pd_signal (oa s) = None"
    and r: "\<And>x. asleep (move s th p a) x \<Longrightarrow> rests (move s th p a) x"
  shows "server_ok (move s th p a)"
proof -
  have fin: "finite {th. pcs s th \<noteq> Idle}" by (rule server_okD(1) [OF ok])
  have c: "p = Completed \<Longrightarrow> dying s"
    using d server_okD(8) [OF ok] server_ok_counts(6) [OF ok, of th] by fastforce
  have t: "pd_nReqInThis a = total in_this ((pcs s)(th := p))"
    using n by (simp add: total_upd [OF fin] server_okD(2) [OF ok])
  have "total destroying ((pcs s)(th := p)) \<le> 1 \<and>
      (\<not> dying s \<longrightarrow> total destroying ((pcs s)(th := p)) = 0) \<and>
      (pd_signal a = None \<longrightarrow> total destroying ((pcs s)(th := p)) = 0)"
    using d server_okD(7,8,9) [OF ok] g server_ok_counts(6) [OF ok, of th] accounts_nonneg(4) [of "pcs s th"]
    by (auto simp: total_upd [OF fin])
  moreover have "pd_signal a = None \<Longrightarrow> finished s" using g server_okD(9) [OF ok] by simp
  moreover have "\<not> dying s \<Longrightarrow> \<not> finished s \<and> p \<noteq> Completed" using c server_okD(8) [OF ok] by blast
  moreover have "closed s \<and> \<not> serving (((pcs s)(th := p)) x)" if "finished s \<or> p = Completed" for x
  proof (cases "finished s")
    case True
    then show ?thesis using server_okD(6) [OF ok, of x] v by (simp add: allowed_def)
  next
    case False
    then have "closed s" "total in_this ((pcs s)(th := p)) = 0" using that v t by (simp_all add: allowed_def)
    then show ?thesis
      using total_member(1) [OF finite_upd [OF fin], of in_this th p x] accounts_nonneg(1) serving_in_this by fastforce
  qed
  moreover have "destruction_ok (move s th p a) (((pcs s)(th := p)) x)" for x
    using server_okD(11) [OF ok, of x] v by (cases "((pcs s)(th := p)) x") (auto simp: move_def allowed_def split: if_splits)
  ultimately show ?thesis
    using finite_upd [OF fin] m w r v server_okD(10,12) [OF ok] t
    by (auto simp: server_ok_def move_def total_upd [OF fin] server_okD(3,4) [OF ok] allowed_def)
qed

lemma flags_simps:
  "asleep (s\<lparr>owned := b\<rparr>) = asleep s" "asleep (s\<lparr>dying := b\<rparr>) = asleep s" "asleep (s\<lparr>closed := b\<rparr>) = asleep s"
  "rests (s\<lparr>owned := b\<rparr>) = rests s" "rests (s\<lparr>dying := b\<rparr>) = rests s"
proof -
  have "still_pending (s\<lparr>owned := b\<rparr>) c = still_pending s c" "still_pending (s\<lparr>dying := b\<rparr>) c = still_pending s c"
    for c by (cases c; simp)+
  then show "asleep (s\<lparr>owned := b\<rparr>) = asleep s" "asleep (s\<lparr>dying := b\<rparr>) = asleep s"
      "asleep (s\<lparr>closed := b\<rparr>) = asleep s"
      "rests (s\<lparr>owned := b\<rparr>) = rests s" "rests (s\<lparr>dying := b\<rparr>) = rests s"
    by (auto simp: asleep_def rests_def signalling_def fun_eq_iff split: pc.split)
qed

lemma server_ok_flags:
  "server_ok s \<Longrightarrow> server_ok (s\<lparr>owned := False\<rparr>)"
  "server_ok s \<Longrightarrow> server_ok (s\<lparr>dying := True\<rparr>)"
proof -
  have "destruction_ok s p \<Longrightarrow> destruction_ok (s\<lparr>owned := False\<rparr>) p"
    "destruction_ok (s\<lparr>dying := True\<rparr>) p = destruction_ok s p" for p by (cases p; simp)+
  then show "server_ok s \<Longrightarrow> server_ok (s\<lparr>owned := False\<rparr>)" "server_ok s \<Longrightarrow> server_ok (s\<lparr>dying := True\<rparr>)"
    by (auto simp: server_ok_def flags_simps)
qed

text \<open>\<^verbatim>\<open>do_destroy\<close> closes an adapter that has left its manager.\<close>

lemma server_ok_closed:
  assumes ok: "server_ok s" and "\<not> owned s"
  shows "server_ok (s\<lparr>closed := True, oa := (oa s)\<lparr>pd_rq_state := INACTIVE\<rparr>\<rparr>)" (is "server_ok ?s")
proof -
  have "still_pending s c \<Longrightarrow> still_pending ?s c" for c by (cases c) auto
  then have "rests s th \<Longrightarrow> rests ?s th" for th by (auto simp: rests_def signalling_def split: pc.splits)
  moreover have "asleep ?s th = asleep s th" for th by (simp add: asleep_def)
  moreover have "destruction_ok s p \<Longrightarrow> destruction_ok ?s p" for p by (cases p) auto
  ultimately show ?thesis using assms by (auto simp: server_ok_def)
qed

end
