(* ===== verification/Adapter_Steps.thy ===== *)
theory Adapter_Steps
  imports Adapter_Inv
begin

text \<open>
  Every action of the threads around an adapter keeps the invariant.
\<close>

section \<open>The threads that stay where they are\<close>

lemma rests_others:
  assumes ok: "server_ok s" and x: "asleep s x" "x \<noteq> th"
    and keep: "(\<exists>q. p = Signalling q) \<or>
      (\<not> (\<exists>q. pcs s th = Signalling q) \<and> (pd_rq_state a = pd_rq_state (oa s) \<or> closed s) \<and>
       (pd_signalOnZeroInvocations (oa s) \<noteq> 0 \<longrightarrow>
          (pd_nReqInThis (oa s) \<noteq> 0 \<longrightarrow> pd_nReqInThis a \<noteq> 0) \<and>
          (pd_nReqActive (oa s) \<noteq> 0 \<longrightarrow> pd_nReqActive a \<noteq> 0)))"
  shows "rests (move s th p a) x"
proof (cases "\<exists>q. p = Signalling q")
  case True
  then have "signalling (move s th p a)" by (auto simp: signalling_def move_def)
  with server_okD(5) [OF ok x(1)] x(2) show ?thesis
    by (auto simp: rests_def move_def split: pc.splits)
next
  case False
  with keep have q: "\<not> (\<exists>q. pcs s th = Signalling q)" and st: "pd_rq_state a = pd_rq_state (oa s) \<or> closed s"
    and n: "pd_signalOnZeroInvocations (oa s) \<noteq> 0 \<Longrightarrow>
          (pd_nReqInThis (oa s) \<noteq> 0 \<longrightarrow> pd_nReqInThis a \<noteq> 0) \<and>
          (pd_nReqActive (oa s) \<noteq> 0 \<longrightarrow> pd_nReqActive a \<noteq> 0)" by blast+
  have sig: "signalling (move s th p a)" if "signalling s"
    using that q by (force simp: signalling_def move_def)
  have r: "rests s x" by (rule server_okD(5) [OF ok x(1)])
  show ?thesis
  proof (cases "pcs s x")
    case (Waiting c p')
    have "pd_signalOnZeroInvocations (oa s) \<noteq> 0"
      using server_ok_counts(5) [OF ok, of x] Waiting accounts_nonneg(3) [of p'] by simp
    from n [OF this] have "still_pending s c \<Longrightarrow> still_pending (move s th p a) c"
      using st by (cases c) (auto simp: move_def)
    then show ?thesis using r Waiting sig x(2) by (auto simp: rests_def move_def)
  qed (use r st sig x(2) in \<open>auto simp: rests_def move_def\<close>)
qed

definition good :: "server result \<Rightarrow> bool" where
  "good r \<longleftrightarrow> (\<exists>s. r = Inr s \<and> server_ok s)"

lemma goodI: "server_ok s \<Longrightarrow> good (Inr s)"
  by (simp add: good_def)

lemma not_asleep:
  assumes "server_ok s" and "pcs s th = Idle \<or> pcs s th = Entered \<or> (\<exists>h x. pcs s th = Busy h x) \<or>
    (\<exists>q. pcs s th = Signalling q) \<or> (\<exists>d. pcs s th = Destroying d) \<or> pcs s th = Completed"
  shows "\<not> asleep s th"
  using server_okD(5) [OF assms(1), of th] assms(2) by (auto simp: rests_def)

lemma asleep_move: "asleep (move s th p a) x \<longleftrightarrow> (\<exists>ths. pd_signal a = Some ths \<and> x \<in> set ths)"
  by (auto simp: asleep_def move_def split: option.splits)

lemma asleep_iff: "asleep s x \<longleftrightarrow> (\<exists>ths. pd_signal (oa s) = Some ths \<and> x \<in> set ths)"
  by (auto simp: asleep_def split: option.splits)

lemma asleep_Some: "pd_signal (oa s) = Some ths \<Longrightarrow> asleep s x \<longleftrightarrow> x \<in> set ths"
  by (simp add: asleep_def)

section \<open>Requests\<close>

lemma synchronised:
  assumes "pd_rq_state a = HOLDING \<Longrightarrow> pd_signal a = Some ths" and "0 \<le> pd_nReqActive a"
  shows "ebind (synchronise_request a th d) started =
    (if pd_rq_state a = HOLDING then Inr (None, a\<lparr>pd_signal := Some (ths @ [th])\<rparr>)
     else Inr (Some (case pd_rq_state a of
        DISCARDING \<Rightarrow> Throws TRANSIENT TRANSIENT_POANoResource
      | INACTIVE \<Rightarrow> Throws OBJ_ADAPTER OBJ_ADAPTER_POAUnknownAdapter
      | _ \<Rightarrow> if d then Throws TRANSIENT TRANSIENT_ObjDeactivatedWhileHolding else Upcall),
      a\<lparr>pd_nReqActive := pd_nReqActive a + 1\<rparr>))"
  using assms
  by (cases "pd_rq_state a")
    (simp_all add: synchronise_request_def wait_signal_def throwing_def startRequest_def started_def)

lemma open_signal:
  assumes "server_ok s" and "pd_rq_state (oa s) \<noteq> INACTIVE"
  obtains ths where "pd_signal (oa s) = Some ths"
  using server_okD(6,9,12) [OF assms(1)] assms(2) that by (cases "pd_signal (oa s)") auto

lemma requested_ok:
  assumes ok: "server_ok s"
    and aw: "\<And>zs x. pd_signal a = Some zs \<Longrightarrow> x \<in> set zs \<Longrightarrow> asleep s x \<and> x \<noteq> th"
    and g: "pd_signal a = None \<longleftrightarrow> pd_signal (oa s) = None"
    and pc: "active (pcs s th) = 0" "awaiting (pcs s th) = 0" "destroying (pcs s th) = 0"
      "\<not> (\<exists>q. pcs s th = Signalling q)"
    and n: "pd_nReqInThis a = pd_nReqInThis (oa s) - in_this (pcs s th) + in_this (Held hook)"
    and same: "pd_nReqActive a = pd_nReqActive (oa s)" "pd_rq_state a = pd_rq_state (oa s)"
      "pd_signalOnZeroInvocations a = pd_signalOnZeroInvocations (oa s)"
    and r: "(\<exists>ths. r = Inr (None, a\<lparr>pd_signal := Some (ths @ [th])\<rparr>) \<and> pd_signal a = Some ths \<and> pd_rq_state a = HOLDING) \<or>
      (\<exists>out. r = Inr (Some out, a\<lparr>pd_nReqActive := pd_nReqActive a + 1\<rparr>) \<and> (pd_rq_state a = INACTIVE \<longrightarrow> out \<noteq> Upcall))"
  shows "good (requested s th hook r)"
proof -
  have pos: "0 < pd_nReqInThis a" using server_ok_counts(3) [OF ok, of th] n by (auto split: if_splits)
  have act: "0 \<le> pd_nReqActive (oa s)" by (rule server_ok_counts(1) [OF ok])
  note shut = server_okD(6) [OF ok] server_okD(12) [OF ok]
  have others: "rests (move s th p b) x" if "asleep s x" "x \<noteq> th" "pd_nReqInThis b = pd_nReqInThis a"
    "pd_nReqActive a \<le> pd_nReqActive b" "pd_rq_state b = pd_rq_state a" for p b x
    by (rule rests_others [OF ok that(1,2)]) (use that same pc(4) pos act in auto)
  from r show ?thesis
  proof (elim disjE exE conjE)
    fix ths
    assume h: "r = Inr (None, a\<lparr>pd_signal := Some (ths @ [th])\<rparr>)" "pd_signal a = Some ths" "pd_rq_state a = HOLDING"
    then have nc: "\<not> closed s" "\<not> finished s" using shut same(2) by auto
    have "server_ok (move s th (Held hook) (a\<lparr>pd_signal := Some (ths @ [th])\<rparr>))"
    proof (rule move_ok [OF ok])
      fix x assume "asleep (move s th (Held hook) (a\<lparr>pd_signal := Some (ths @ [th])\<rparr>)) x"
      then consider "x = th" | "asleep s x" "x \<noteq> th" using aw [OF h(2)] by (auto simp: asleep_move)
      then show "rests (move s th (Held hook) (a\<lparr>pd_signal := Some (ths @ [th])\<rparr>)) x"
      proof cases
        case 1
        with h show ?thesis by (simp add: rests_def move_def)
      next
        case 2
        then show ?thesis by (rule others) simp_all
      qed
    qed (use n same pc nc g h in \<open>auto simp: allowed_def\<close>)
    with h show ?thesis by (auto simp: requested_def intro: goodI)
  next
    fix out
    assume h: "r = Inr (Some out, a\<lparr>pd_nReqActive := pd_nReqActive a + 1\<rparr>)" "pd_rq_state a = INACTIVE \<longrightarrow> out \<noteq> Upcall"
    have "server_ok (move s th (Busy hook out) (a\<lparr>pd_nReqActive := pd_nReqActive a + 1\<rparr>))"
    proof (rule move_ok [OF ok])
      fix x assume "asleep (move s th (Busy hook out) (a\<lparr>pd_nReqActive := pd_nReqActive a + 1\<rparr>)) x"
      then have "asleep s x" "x \<noteq> th" using aw by (auto simp: asleep_move)
      then show "rests (move s th (Busy hook out) (a\<lparr>pd_nReqActive := pd_nReqActive a + 1\<rparr>)) x"
        by (rule others) simp_all
    qed (use n same pc g h shut in \<open>auto simp: allowed_def\<close>)
    with h show ?thesis by (auto simp: requested_def intro: goodI)
  qed
qed

lemma dispatched:
  assumes "0 \<le> pd_nReqActive a" and "0 \<le> pd_nReqInThis a"
  shows "dispatch a th d = (let b = a\<lparr>pd_nReqInThis := pd_nReqInThis a + 1\<rparr> in
    if pd_rq_state a = ACTIVE then Inr (Some Upcall, b\<lparr>pd_nReqActive := pd_nReqActive a + 1\<rparr>)
    else ebind (synchronise_request b th d) started)"
  using assms by (simp add: dispatch_def enterAdapter_def started_def startRequest_def Let_def)

text \<open>\<^verbatim>\<open>synchronise_request\<close> in a state that is allowed.\<close>

lemma synchronised_request:
  assumes "server_ok s" and "pd_signal a = pd_signal (oa s)" and "pd_rq_state a = pd_rq_state (oa s)"
    and "0 \<le> pd_nReqActive a" and "r = ebind (synchronise_request a th d) started"
  shows "(\<exists>ths. r = Inr (None, a\<lparr>pd_signal := Some (ths @ [th])\<rparr>) \<and> pd_signal a = Some ths \<and> pd_rq_state a = HOLDING) \<or>
    (\<exists>out. r = Inr (Some out, a\<lparr>pd_nReqActive := pd_nReqActive a + 1\<rparr>) \<and> (pd_rq_state a = INACTIVE \<longrightarrow> out \<noteq> Upcall))"
proof (cases "pd_rq_state a = HOLDING")
  case True
  with open_signal [OF assms(1)] assms(2,3) obtain ths where "pd_signal a = Some ths" by auto
  then show ?thesis using True assms(4,5) by (simp add: synchronised [of a ths])
next
  case False
  then show ?thesis using synchronised [of a "[]" th d] assms(4,5) by (cases "pd_rq_state a") auto
qed

lemma Dispatch_ok:
  assumes ok: "server_ok s" and pc: "pcs s th = Idle \<or> pcs s th = Entered" and hook: "hook = (pcs s th = Entered)"
  shows "good (requested s th hook (dispatch (oa s) th d))"
proof -
  have th: "\<not> asleep s th" using not_asleep [OF ok, of th] pc by blast
  note c = server_ok_counts(1,2) [OF ok]
  let ?b = "(oa s)\<lparr>pd_nReqInThis := pd_nReqInThis (oa s) + 1\<rparr>"
  have "(\<exists>ths. dispatch (oa s) th d = Inr (None, ?b\<lparr>pd_signal := Some (ths @ [th])\<rparr>) \<and> pd_signal ?b = Some ths \<and> pd_rq_state ?b = HOLDING) \<or>
    (\<exists>out. dispatch (oa s) th d = Inr (Some out, ?b\<lparr>pd_nReqActive := pd_nReqActive ?b + 1\<rparr>) \<and> (pd_rq_state ?b = INACTIVE \<longrightarrow> out \<noteq> Upcall))"
  proof (cases "pd_rq_state (oa s) = ACTIVE")
    case True
    then show ?thesis using c by (simp add: dispatched Let_def)
  next
    case False
    then show ?thesis using c by (intro synchronised_request [OF ok, of ?b]) (simp_all add: dispatched Let_def)
  qed
  then show ?thesis
    by (intro requested_ok [OF ok, where a = ?b]) (use th pc hook in \<open>auto simp: asleep_iff\<close>)
qed

lemma Resume_ok:
  assumes ok: "server_ok s" and pc: "pcs s th = Held hook" and aw: "\<not> asleep s th"
  shows "good (requested s th hook (ebind (synchronise_request (oa s) th d) started))"
  by (rule requested_ok [OF ok _ _ _ _ _ _ _ _ _ _ synchronised_request [OF ok]])
    (use pc aw server_ok_counts(1) [OF ok] in \<open>auto simp: asleep_iff\<close>)

lemma HoldTimeout_ok:
  assumes ok: "server_ok s" and pc: "pcs s th = Held hook"
  shows "good (requested s th hook (hold_timeout
    ((oa s)\<lparr>pd_signal := map_option (filter (\<lambda>x. x \<noteq> th)) (pd_signal (oa s))\<rparr>) t))"
  by (rule requested_ok [OF ok, where a = "(oa s)\<lparr>pd_signal := map_option (filter (\<lambda>x. x \<noteq> th)) (pd_signal (oa s))\<rparr>"])
    (use pc server_ok_counts(1) [OF ok] in \<open>auto simp: hold_timeout_def throwing_def startRequest_def asleep_iff\<close>)

section \<open>Actions that do not block\<close>

definition keeps :: "server \<Rightarrow> nat \<Rightarrow> pc \<Rightarrow> adapter \<Rightarrow> bool" where
  "keeps s th p a \<longleftrightarrow> (\<exists>q. p = Signalling q) \<or> pd_signal a = Some [] \<or>
      (\<not> (\<exists>q. pcs s th = Signalling q) \<and> (pd_rq_state a = pd_rq_state (oa s) \<or> closed s) \<and>
       (pd_signalOnZeroInvocations (oa s) \<noteq> 0 \<longrightarrow>
          (pd_nReqInThis (oa s) \<noteq> 0 \<longrightarrow> pd_nReqInThis a \<noteq> 0) \<and>
          (pd_nReqActive (oa s) \<noteq> 0 \<longrightarrow> pd_nReqActive a \<noteq> 0)))"

lemma moved_ok:
  assumes ok: "server_ok s" and aw: "\<not> asleep s th" and v: "allowed s p a"
    and n: "pd_nReqInThis a = pd_nReqInThis (oa s) - in_this (pcs s th) + in_this p"
    and m: "pd_nReqActive a = pd_nReqActive (oa s) - active (pcs s th) + active p"
    and w: "pd_signalOnZeroInvocations a = pd_signalOnZeroInvocations (oa s) - awaiting (pcs s th) + awaiting p"
    and d: "destroying p = destroying (pcs s th) \<or> (total destroying (pcs s) = 0 \<and> dying s \<and> destroying p \<le> 1 \<and> pd_signal a \<noteq> None)"
    and g: "pd_signal a = pd_signal (oa s) \<or> (pd_signal a = Some [] \<and> pd_signal (oa s) \<noteq> None)"
    and k: "keeps s th p a"
  shows "server_ok (move s th p a)"
proof (rule move_ok [OF ok v n m w d])
  show "pd_signal a = None \<longleftrightarrow> pd_signal (oa s) = None" using g by auto
  fix x assume "asleep (move s th p a) x"
  then obtain ths where ths: "pd_signal a = Some ths" "x \<in> set ths" by (auto simp: asleep_move)
  then have x: "asleep s x" "pd_signal a \<noteq> Some []" using g by (auto simp: asleep_iff dest: sym)
  show "rests (move s th p a) x"
  proof (rule rests_others [OF ok x(1)])
    show "x \<noteq> th" using x(1) aw by blast
  qed (use k x(2) in \<open>auto simp: keeps_def\<close>)
qed

lemma broadcast_signal_Some:
  "pd_signal a \<noteq> None \<Longrightarrow> broadcast_signal a = Inr (a\<lparr>pd_signal := Some []\<rparr>)"
  by (auto simp: broadcast_signal_def)

text \<open>
  An action is sound if it goes on well, or, where \<open>late\<close> allows it, uses a condition variable that has been
  deleted.
\<close>

definition sound :: "bool \<Rightarrow> server result \<Rightarrow> bool" where
  "sound late r \<longleftrightarrow> good r \<or> (late \<and> r = Inl Undefined)"

lemma soundI: "good r \<Longrightarrow> sound late r" "late \<Longrightarrow> sound late (Inl Undefined)"
  by (simp_all add: sound_def)

lemma broadcast_sound:
  assumes "pd_signal a = pd_signal (oa s)"
    and "pd_signal (oa s) \<noteq> None \<Longrightarrow> server_ok (move s th p (a\<lparr>pd_signal := Some []\<rparr>))"
  shows "sound (pd_signal (oa s) = None) (then_move s th p (broadcast_signal a))"
  using assms by (cases "pd_signal (oa s)") (auto simp: then_move_def broadcast_signal_def intro: soundI goodI)

lemmas keeps_allowed = keeps_def allowed_def

text \<open>Facts about the state that the closing of the adapter and its end give.\<close>

lemma server_ok_shut:
  assumes "server_ok s"
  shows "finished s \<Longrightarrow> closed s" and "closed s \<Longrightarrow> pd_rq_state (oa s) = INACTIVE" and "closed s \<Longrightarrow> \<not> owned s"
    and "finished s \<Longrightarrow> \<not> serving (pcs s th)"
  using server_okD(6,12) [OF assms] by auto

lemma Leave_request_ok:
  assumes ok: "server_ok s" and pc: "pcs s th = Busy hook out"
  shows "sound (pd_signal (oa s) = None) (then_move s th (if hook then Entered else Idle) (leaveAdapter (oa s)))"
proof -
  note c = server_ok_counts(1,2) [OF ok] server_ok_counts(3,4) [OF ok, of th] and sh = server_ok_shut [OF ok]
  have aw: "\<not> asleep s th" by (rule not_asleep [OF ok]) (auto simp: pc)
  let ?a = "(oa s)\<lparr>pd_nReqInThis := pd_nReqInThis (oa s) - 1, pd_nReqActive := pd_nReqActive (oa s) - 1\<rparr>"
  have pos: "0 < pd_nReqInThis (oa s)" "0 < pd_nReqActive (oa s)" using c pc by (auto split: if_splits)
  have loud: "server_ok (move s th (if hook then Entered else Idle) (?a\<lparr>pd_signal := Some []\<rparr>))"
    if "pd_signal (oa s) \<noteq> None"
    by (rule moved_ok [OF ok aw]) (use that pc sh in \<open>auto simp: keeps_allowed split: if_splits\<close>)
  show ?thesis
  proof (cases "pd_nReqActive ?a = 0 \<and> pd_signalOnZeroInvocations ?a \<noteq> 0")
    case True
    then have "leaveAdapter (oa s) = broadcast_signal ?a" using pos by (simp add: leaveAdapter_def Let_def)
    then show ?thesis using broadcast_sound [of ?a s, OF _ loud] by simp
  next
    case False
    then have "leaveAdapter (oa s) = Inr ?a" using pos by (auto simp: leaveAdapter_def Let_def)
    moreover have "server_ok (move s th (if hook then Entered else Idle) ?a)"
      by (rule moved_ok [OF ok aw]) (use pc sh False c in \<open>auto simp: keeps_allowed split: if_splits\<close>)
    ultimately show ?thesis by (simp add: then_move_def goodI soundI)
  qed
qed

lemma Enter_request_ok:
  assumes ok: "server_ok s" and pc: "pcs s th = Idle"
  shows "good (then_move s th Entered (enterAdapter (oa s)))"
proof -
  note c = server_ok_counts(1,2) [OF ok]
  have aw: "\<not> asleep s th" by (rule not_asleep [OF ok]) (auto simp: pc)
  have "server_ok (move s th Entered ((oa s)\<lparr>pd_nReqInThis := pd_nReqInThis (oa s) + 1\<rparr>))"
    by (rule moved_ok [OF ok aw]) (use pc c server_ok_shut [OF ok] in \<open>auto simp: keeps_allowed\<close>)
  then show ?thesis using c by (simp add: then_move_def enterAdapter_def goodI)
qed

text \<open>The three ways to take a request out of the adapter that has not been started.\<close>

lemma exit_section_ok:
  assumes ok: "server_ok s" and n: "in_this (pcs s th) = in_this p + 1" and q: "\<not> (\<exists>q. pcs s th = Signalling q)"
    and aw: "\<not> asleep s th" and same: "active p = active (pcs s th)" "awaiting p = awaiting (pcs s th)"
      "destroying p = destroying (pcs s th)" "serving p = serving (pcs s th)" "p = Idle \<or> (\<exists>x. p = Busy False x)"
  shows "good (exited s th p)" and "sound (pd_signal (oa s) = None) (then_move s th p (exitAdapter_locked (oa s)))"
proof -
  note c = server_ok_counts(1,2) [OF ok] server_ok_counts(3) [OF ok, of th] accounts_nonneg(1) [of p]
    and sh = server_ok_shut(1-3) [OF ok] server_ok_shut(4) [OF ok, of th]
  have i: "0 < in_this (pcs s th)" using n c by linarith
  have pos: "0 < pd_nReqInThis (oa s)" using c i by linarith
  let ?a = "(oa s)\<lparr>pd_nReqInThis := pd_nReqInThis (oa s) - 1\<rparr>"
  let ?b = "pd_nReqInThis ?a = 0 \<and> pd_signalOnZeroInvocations ?a \<noteq> 0"
  have ex: "exit_section (oa s) = Inr (?b, ?a)" using pos by (simp add: exit_section_def Let_def)
  have quiet: "server_ok (move s th p ?a)" if "\<not> ?b"
    by (rule moved_ok [OF ok aw]) (use that n same sh q in \<open>auto simp: keeps_allowed\<close>)
  have sigl: "server_ok (move s th (Signalling p) ?a)"
    by (rule moved_ok [OF ok aw]) (use n same sh q in \<open>auto simp: keeps_allowed\<close>)
  have loud: "server_ok (move s th p (?a\<lparr>pd_signal := Some []\<rparr>))" if "pd_signal (oa s) \<noteq> None"
    by (rule moved_ok [OF ok aw]) (use that n same sh q in \<open>auto simp: keeps_allowed\<close>)
  show "good (exited s th p)" using quiet sigl by (auto simp: exited_def ex intro!: goodI)
  show "sound (pd_signal (oa s) = None) (then_move s th p (exitAdapter_locked (oa s)))"
  proof (cases ?b)
    case True
    then have "exitAdapter_locked (oa s) = broadcast_signal ?a" by (simp add: exitAdapter_locked_def ex)
    then show ?thesis using broadcast_sound [of ?a s, OF _ loud] by simp
  next
    case False
    then have "exitAdapter_locked (oa s) = Inr ?a" unfolding exitAdapter_locked_def ex by auto
    then show ?thesis using quiet [OF False] by (simp add: then_move_def goodI soundI)
  qed
qed

lemma ChangeState_ok:
  assumes ok: "server_ok s" and pc: "pcs s th = Idle" and own: "owned s"
  shows "server_ok (move s th (Signalling (pcs s th)) (change_section (oa s) st))"
proof -
  have aw: "\<not> asleep s th" by (rule not_asleep [OF ok]) (auto simp: pc)
  show ?thesis
    by (rule moved_ok [OF ok aw])
      (use pc own server_ok_shut [OF ok] in \<open>auto simp: keeps_allowed change_section_def\<close>)
qed

lemma Broadcast_ok:
  assumes ok: "server_ok s" and pc: "pcs s th = Signalling p"
  shows "sound (pd_signal (oa s) = None) (then_move s th p (broadcast_signal (oa s)))"
proof -
  have p: "wf_pc p" "p \<noteq> Completed" "\<forall>c. p \<noteq> Waiting c Completed" "p \<noteq> Destroying False"
    using server_okD(10) [OF ok, of th] pc by auto
  have aw: "\<not> asleep s th" by (rule not_asleep [OF ok]) (auto simp: pc)
  have "server_ok (move s th p ((oa s)\<lparr>pd_signal := Some []\<rparr>))" if "pd_signal (oa s) \<noteq> None"
    by (rule moved_ok [OF ok aw])
      (use that pc p server_ok_shut(1-3) [OF ok] server_ok_shut(4) [OF ok, of th] in \<open>auto simp: keeps_allowed\<close>)
  from broadcast_sound [of "oa s" s, OF refl this] show ?thesis .
qed

lemma Destroy_ok:
  assumes ok: "server_ok s" and pc: "pcs s th = Idle" and nd: "\<not> dying s"
  shows "good (request_exec s (Destroy th))"
proof -
  let ?s = "s\<lparr>dying := True\<rparr>"
  have ok': "server_ok ?s" by (rule server_ok_flags(2) [OF ok])
  have nf: "\<not> finished s" and t: "total destroying (pcs s) = 0" using server_okD(8) [OF ok nd] by simp_all
  then have sig: "pd_signal (oa s) \<noteq> None" using server_okD(9) [OF ok] by auto
  have aw: "\<not> asleep ?s th" by (rule not_asleep [OF ok']) (auto simp: pc)
  have m: "move s th p a\<lparr>dying := True\<rparr> = move ?s th p a" for p a by (simp add: move_def)
  have "server_ok (move ?s th (Signalling (Destroying True)) ((oa s)\<lparr>pd_rq_state := DISCARDING\<rparr>))"
    if "pd_rq_state (oa s) = HOLDING"
    by (rule moved_ok [OF ok' aw]) (use pc t nf sig that server_ok_shut [OF ok] in \<open>auto simp: keeps_allowed\<close>)
  moreover have "server_ok (move ?s th (Destroying True) (oa s))"
    by (rule moved_ok [OF ok' aw]) (use pc t nf sig server_ok_shut [OF ok] in \<open>auto simp: keeps_allowed\<close>)
  ultimately show ?thesis by (auto simp: destroy_section_def m intro!: goodI)
qed

section \<open>Waiting for requests\<close>

lemma awaited_ok:
  assumes ok: "server_ok s" and aw: "\<not> asleep s th" and v: "wf_pc (Waiting c p)" "destruction_ok s (Waiting c p)"
    and pc: "in_this (pcs s th) = 0" "active (pcs s th) = 0" "destroying p = destroying (pcs s th)"
      "\<not> (\<exists>q. pcs s th = Signalling q)"
    and same: "pd_nReqInThis a = pd_nReqInThis (oa s)" "pd_nReqActive a = pd_nReqActive (oa s)"
      "pd_signal a = pd_signal (oa s)" "pd_rq_state a = pd_rq_state (oa s)"
    and w: "pd_signalOnZeroInvocations a = pd_signalOnZeroInvocations (oa s) - awaiting (pcs s th) + 1"
  shows "sound (pd_signal (oa s) = None) (awaited s th c p (await_again a c th))"
proof (cases "pending a c")
  case True
  have p: "p = Idle \<or> p = Completed \<and> closed s" using v by auto
  show ?thesis
  proof (cases "pd_signal (oa s)")
    case None
    then show ?thesis using True same by (simp add: awaited_def await_again_def wait_signal_def soundI)
  next
    case (Some ths)
    let ?a = "a\<lparr>pd_signal := Some (ths @ [th])\<rparr>"
    have "server_ok (move s th (Waiting c p) ?a)"
    proof (rule move_ok [OF ok])
      fix x assume "asleep (move s th (Waiting c p) ?a) x"
      then consider "x = th" | "x \<noteq> th" "asleep s x" using asleep_Some [OF Some] by (auto simp: asleep_move)
      then show "rests (move s th (Waiting c p) ?a) x"
      proof cases
        case 1
        have "still_pending (move s th (Waiting c p) ?a) c" using True by (cases c) (auto simp: move_def)
        with 1 show ?thesis by (simp add: rests_def move_def)
      next
        case 2
        show ?thesis by (rule rests_others [OF ok 2(2,1)]) (use pc same in auto)
      qed
    qed (use pc same v p Some w server_ok_shut [OF ok] in \<open>auto simp: allowed_def\<close>)
    then show ?thesis using True Some same by (simp add: awaited_def await_again_def wait_signal_def goodI soundI)
  qed
next
  case False
  let ?a = "a\<lparr>pd_signalOnZeroInvocations := pd_signalOnZeroInvocations a - 1\<rparr>"
  have "server_ok (move s th p ?a)"
    by (rule moved_ok [OF ok aw]) (use pc same v w False server_ok_shut [OF ok] in \<open>auto simp: keeps_allowed\<close>)
  then show ?thesis using False by (simp add: awaited_def await_again_def goodI soundI)
qed

lemma Await_ok:
  assumes ok: "server_ok s" and pc: "pcs s th = Idle"
  shows "sound (pd_signal (oa s) = None) (awaited s th c (pcs s th) (await_enter (oa s) c th))"
proof -
  have aw: "\<not> asleep s th" by (rule not_asleep [OF ok]) (auto simp: pc)
  have "await_check (oa s) c" using server_ok_counts(1,2) [OF ok] by (cases c) auto
  then show ?thesis unfolding await_enter_def
    by (simp, intro awaited_ok [OF ok aw]) (use pc in auto)
qed

lemma AwaitAgain_ok:
  assumes ok: "server_ok s" and pc: "pcs s th = Waiting c p" and aw: "\<not> asleep s th"
  shows "sound (pd_signal (oa s) = None) (awaited s th c p (await_again (oa s) c th))"
  by (rule awaited_ok [OF ok aw]) (use server_okD(10,11) [OF ok, of th] pc in auto)

lemma DoDestroy_ok:
  assumes ok: "server_ok s" and pc: "pcs s th = Destroying False"
  shows "sound (pd_signal (oa s) = None) (request_exec s (DoDestroy th))"
proof -
  let ?a = "(oa s)\<lparr>pd_rq_state := INACTIVE\<rparr>"
  let ?s = "s\<lparr>closed := True, oa := ?a\<rparr>"
  have "\<not> owned s" using server_okD(11) [OF ok, of th] pc by simp
  then have ok': "server_ok ?s" by (rule server_ok_closed [OF ok])
  have aw: "\<not> asleep ?s th" by (rule not_asleep [OF ok']) (auto simp: pc)
  have "sound (pd_signal (oa ?s) = None) (awaited ?s th AllRequests Completed
      (await_again (?a\<lparr>pd_signalOnZeroInvocations := pd_signalOnZeroInvocations ?a + 1\<rparr>) AllRequests th))"
    by (rule awaited_ok [OF ok' aw]) (use pc in auto)
  moreover have "0 \<le> pd_nReqInThis (oa s)" using server_ok_counts(1,2) [OF ok] by linarith
  moreover have "ebind (awaited s th c p r) (\<lambda>s. Inr (s\<lparr>closed := True\<rparr>)) = awaited ?s th c p r" for c p r
    by (cases r) (auto simp: awaited_def move_def)
  ultimately show ?thesis by (simp add: do_destroy_section_def await_enter_def)
qed

lemma Spurious_request_ok:
  assumes ok: "server_ok s"
  shows "good (request_exec s (Spurious th))"
proof -
  let ?s = "s\<lparr>oa := (oa s)\<lparr>pd_signal := map_option (filter (\<lambda>x. x \<noteq> th)) (pd_signal (oa s))\<rparr>\<rparr>"
  have "still_pending ?s c = still_pending s c" for c by (cases c) simp_all
  then have r: "rests ?s x = rests s x" for x by (simp add: rests_def signalling_def split: pc.split)
  have "asleep ?s x \<Longrightarrow> asleep s x" for x by (auto simp: asleep_def split: option.splits)
  moreover have "destruction_ok ?s p = destruction_ok s p" for p by (cases p) simp_all
  ultimately have "server_ok ?s" using ok r by (auto simp: server_ok_def)
  then show ?thesis by (simp add: goodI)
qed

lemma Destroyed_ok:
  assumes ok: "server_ok s" and pc: "pcs s th = Completed"
  shows "sound (finished s) (request_exec s (Destroyed th))"
proof -
  note t = server_ok_counts(6) [OF ok, of th] server_okD(7) [OF ok]
  have one: "total destroying (pcs s) = 1" using t pc by simp
  then have sig: "pd_signal (oa s) \<noteq> None" and dy: "dying s" using server_okD(8,9) [OF ok] by auto
  have fin: "finished s" using server_okD(11) [OF ok, of th] pc by simp
  show ?thesis
  proof (cases "pd_signal (oa s) = Some []")
    case True
    let ?a = "(oa s)\<lparr>pd_signal := None\<rparr>"
    have f: "finite {th. pcs s th \<noteq> Idle}" by (rule server_okD(1) [OF ok])
    have "destruction_ok (move s th Idle ?a) p = destruction_ok s p" for p by (cases p) (auto simp: move_def)
    then have "server_ok (move s th Idle ?a)"
      using ok one fin pc dy finite_upd [OF f]
      by (auto simp: server_ok_def move_def total_upd [OF f] asleep_def)
    then show ?thesis using True by (simp add: then_move_def adapterDestroyed_def goodI soundI)
  next
    case False
    then show ?thesis using sig fin by (simp add: then_move_def adapterDestroyed_def soundI)
  qed
qed

section \<open>All actions\<close>

text \<open>An action goes on, or the destruction of the adapter is over and the condition variable is gone, or still in use.\<close>

definition too_late :: "server \<Rightarrow> request_action \<Rightarrow> bool" where
  "too_late s act \<longleftrightarrow> finished s \<and> (pd_signal (oa s) = None \<or> (\<exists>th. act = Destroyed th))"

lemma sound_late:
  assumes "server_ok s"
  shows "good r \<Longrightarrow> sound (too_late s act) r" and "sound (pd_signal (oa s) = None) r \<Longrightarrow> sound (too_late s act) r"
  using server_okD(9) [OF assms] by (auto simp: sound_def too_late_def)

lemma request_exec_sound:
  assumes ok: "server_ok s" and en: "request_enabled s act"
  shows "sound (too_late s act) (request_exec s act)"
proof -
  note late = sound_late [OF ok, of _ act]
  have aw: "\<not> asleep s th" if "pcs s th = Entered \<or> pcs s th = Destroying True \<or> (\<exists>h x. pcs s th = Busy h x)" for th
    by (rule not_asleep [OF ok]) (use that in blast)
  show ?thesis
  proof (cases act)
    case (Dispatch th d)
    with en late(1) [OF Dispatch_ok [OF ok, of th False d]] show ?thesis by simp
  next
    case (Resume th d)
    then obtain hook where "pcs s th = Held hook" "\<not> asleep s th" using en by (auto split: pc.splits)
    with late(1) [OF Resume_ok [OF ok]] Resume show ?thesis by simp
  next
    case (HoldTimeout th t)
    then obtain hook where "pcs s th = Held hook" using en by (auto split: pc.splits)
    with late(1) [OF HoldTimeout_ok [OF ok]] HoldTimeout show ?thesis by simp
  next
    case (Leave th)
    then obtain hook out where "pcs s th = Busy hook out" using en by (auto split: pc.splits)
    with late(2) [OF Leave_request_ok [OF ok]] Leave show ?thesis by simp
  next
    case (Enter th)
    with en late(1) [OF Enter_request_ok [OF ok]] show ?thesis by simp
  next
    case (DispatchEntered th d)
    with en late(1) [OF Dispatch_ok [OF ok, of th True d]] show ?thesis by simp
  next
    case (ExitLocked th)
    with en have pc: "pcs s th = Entered" by simp
    with late(2) [OF exit_section_ok(2) [OF ok, of th Idle]] aw [of th] ExitLocked show ?thesis by simp
  next
    case (Exit th)
    with en have pc: "pcs s th = Entered" by simp
    with late(1) [OF exit_section_ok(1) [OF ok, of th Idle]] aw [of th] Exit show ?thesis by simp
  next
    case (PostInvoke th)
    then obtain out where pc: "pcs s th = Busy True out" using en by (auto split: pc.splits)
    then have "\<not> asleep s th" using aw by blast
    with late(1) [OF exit_section_ok(1) [OF ok, of th "Busy False out"]] pc PostInvoke show ?thesis by simp
  next
    case (ChangeState th st)
    with en late(1) [OF goodI [OF ChangeState_ok [OF ok]]] show ?thesis by auto
  next
    case (Broadcast th)
    then obtain p where "pcs s th = Signalling p" using en by (auto split: pc.splits)
    with late(2) [OF Broadcast_ok [OF ok]] Broadcast show ?thesis by simp
  next
    case (Await th c)
    with en late(2) [OF Await_ok [OF ok]] show ?thesis by simp
  next
    case (AwaitAgain th)
    then obtain c p where "pcs s th = Waiting c p" "\<not> asleep s th" using en by (auto split: pc.splits)
    with late(2) [OF AwaitAgain_ok [OF ok]] AwaitAgain show ?thesis by simp
  next
    case (Spurious th)
    with late(1) [OF Spurious_request_ok [OF ok]] show ?thesis by simp
  next
    case (Destroy th)
    with en late(1) [OF Destroy_ok [OF ok]] show ?thesis by simp
  next
    case (LosePoa th)
    with en have pc: "pcs s th = Destroying True" by simp
    let ?s = "s\<lparr>owned := False\<rparr>"
    have ok': "server_ok ?s" by (rule server_ok_flags(1) [OF ok])
    have "server_ok (move ?s th (Destroying False) (oa s))"
      by (rule moved_ok [OF ok']) (use pc aw [of th] server_ok_shut [OF ok] in \<open>auto simp: keeps_allowed flags_simps\<close>)
    moreover have "(move s th (Destroying False) (oa s))\<lparr>owned := False\<rparr> = move ?s th (Destroying False) (oa s)"
      by (simp add: move_def)
    ultimately show ?thesis using late(1) LosePoa by (simp add: goodI)
  next
    case (DoDestroy th)
    with en late(2) [OF DoDestroy_ok [OF ok]] show ?thesis by simp
  next
    case (Destroyed th)
    then have "sound (finished s) (request_exec s act)" using en Destroyed_ok [OF ok, of th] by simp
    then show ?thesis using Destroyed by (auto simp: sound_def too_late_def)
  qed
qed

lemma server_start_ok: "server_ok server_start"
  by (simp add: server_ok_def server_start_def omniOrbPOA_new_def total_def asleep_def)

lemma served_ok: "served s \<Longrightarrow> server_ok s"
proof (induction rule: served.induct)
  case start
  show ?case by (rule server_start_ok)
next
  case (step s act s')
  then have "request_enabled s act" "request_exec s act = Inr s'" by (auto simp: request_step_simps)
  with request_exec_sound [OF step.IH, of act] show ?case by (auto simp: sound_def good_def)
qed

end
