(* ===== verification/Adapter_Claims.thy ===== *)
theory Adapter_Claims
  imports Adapter_Steps
begin

text \<open>
  What the threads around an object adapter can rely on, and two orders of their critical sections in
  which they cannot: the destruction of an adapter whose manager starts to hold requests meanwhile, and
  the broadcast of \<^verbatim>\<open>exitAdapter\<close> after the adapter is gone.
\<close>

section \<open>Properties\<close>




text \<open>C11. The counters of an adapter are never wrong: in any order of the critical sections, also when requests
  and waits reach an adapter that is being destroyed or has been destroyed, no assertion on them fails,
  and every action can be taken until \<^verbatim>\<open>do_destroy\<close> has seen all requests complete. After that an action can go
  wrong in two ways only: it uses the condition variable when \<^verbatim>\<open>adapterDestroyed\<close> has deleted it, or it is
  \<^verbatim>\<open>adapterDestroyed\<close> itself, which deletes it under a thread that is blocked on it.\<close>

theorem adapter_actions_succeed:
  assumes "served s" and "request_enabled s act"
  shows "(\<exists>s'. request_exec s act = Inr s') \<or>
    request_exec s act = Inl Undefined \<and> finished s \<and> (pd_signal (oa s) = None \<or> (\<exists>th. act = Destroyed th))"
  using request_exec_sound [OF served_ok [OF assms(1)] assms(2)]
  by (auto simp: sound_def good_def too_late_def simp del: request_exec.simps)

text \<open>C7. Nobody sleeps on \<^verbatim>\<open>pd_signal\<close> without a reason: when no broadcast is on its way, a request that is
  held is held by the state \<^verbatim>\<open>HOLDING\<close>, unless \<^verbatim>\<open>do_destroy\<close> has closed the adapter, and a thread that
  waits for requests to complete still has requests to wait for.\<close>

theorem adapter_sleepers_have_reason:
  assumes "served s" and "asleep s th" and "\<not> signalling s"
  shows "case pcs s th of
      Held hook \<Rightarrow> pd_rq_state (oa s) = HOLDING \<or> closed s
    | Waiting c p \<Rightarrow> still_pending s c
    | _ \<Rightarrow> False"
  using server_okD(5) [OF served_ok [OF assms(1)] assms(2)] assms(3) by (auto simp: rests_def split: pc.splits)


section \<open>Concrete runs\<close>

fun serve :: "server \<Rightarrow> request_action list \<Rightarrow> server option" where
  "serve s [] = Some s"
| "serve s (act # acts) =
     (if request_enabled s act then (case request_exec s act of Inl _ \<Rightarrow> None | Inr s' \<Rightarrow> serve s' acts) else None)"

lemma serve_served: "served s \<Longrightarrow> serve s acts = Some s' \<Longrightarrow> served s'"
proof (induction acts arbitrary: s)
  case (Cons act acts)
  then obtain s1 where "request_enabled s act" "request_exec s act = Inr s1" "serve s1 acts = Some s'"
    by (auto simp del: request_exec.simps request_enabled.simps split: if_splits sum.splits)
  moreover from this have "served s1" using Cons.prems(1) by (auto intro: served.step request_step.intros)
  ultimately show ?case using Cons.IH by blast
qed simp

lemmas serve_simps = server_start_def omniOrbPOA_new_def move_def then_move_def requested_def awaited_def exited_def
  dispatch_def enterAdapter_def startRequest_def started_def synchronise_request_def throwing_def wait_signal_def
  leaveAdapter_def exit_section_def broadcast_signal_def await_enter_def await_again_def destroy_section_def
  do_destroy_section_def change_section_def adapterDestroyed_def asleep_def oassert_def Let_def

text \<open>
  \<open>closing\<close>: the adapter is destroyed while a request of thread 1 is held. \<open>hanging\<close>: thread 0 destroys the
  adapter and thread 1 is in \<^verbatim>\<open>hold_requests\<close>, which reaches the adapter after it is marked as dying and
  before it leaves the manager; thread 2 has a request. \<open>abandoned\<close>: thread 1 runs \<^verbatim>\<open>dispatch_to_sl\<close> while
  thread 0 destroys the adapter.
\<close>

definition closing :: "request_action list" where
  "closing = [Dispatch 1 False, Destroy 0, Broadcast 0, LosePoa 0, Resume 1 False, DoDestroy 0]"

definition hanging :: "request_action list" where
  "hanging =
     [ChangeState 1 ACTIVE, Broadcast 1, Destroy 0, ChangeState 1 HOLDING, Broadcast 1, Dispatch 2 False,
      LosePoa 0, DoDestroy 0]"

text \<open>
  \<open>outlived\<close>: the adapter has no requests and is destroyed, while thread 1 is in \<^verbatim>\<open>pm_deactivate\<close>, past its test of
  \<^verbatim>\<open>pd_dying\<close>, and thread 2 has found the adapter and comes to \<^verbatim>\<open>dispatch_to_sa\<close>. \<open>undermined\<close>: the same, but thread 1
  waits before the condition variable is deleted.
\<close>

definition outlived :: "request_action list" where
  "outlived =
     [ChangeState 1 INACTIVE, Broadcast 1, Destroy 0, LosePoa 0, DoDestroy 0, Destroyed 0, Enter 2]"

definition undermined :: "request_action list" where
  "undermined =
     [ChangeState 1 INACTIVE, Broadcast 1, Destroy 0, LosePoa 0, DoDestroy 0, Enter 2, Await 1 AllRequests]"

definition abandoned :: "request_action list" where
  "abandoned =
     [Destroy 0, Broadcast 0, Enter 1, LosePoa 0, DoDestroy 0, DispatchEntered 1 False, Leave 1, Exit 1,
      AwaitAgain 0, Destroyed 0]"

lemma serve_closing: "\<exists>s. serve server_start closing = Some s \<and> pcs s 1 = Busy False (Throws TRANSIENT TRANSIENT_POANoResource) \<and>
    pcs s 0 = Waiting AllRequests Completed \<and> asleep s 0 \<and> pd_signal (oa s) = Some [0] \<and>
    \<not> signalling s \<and> \<not> finished s"
  by (auto simp: closing_def serve_simps signalling_def)

text \<open>What can still happen by itself: that a new request comes, a time-out, a spurious wake-up.\<close>

fun from_outside :: "request_action \<Rightarrow> bool" where
  "from_outside (Dispatch th d) = True"
| "from_outside (Enter th) = True"
| "from_outside (Await th c) = True"
| "from_outside (HoldTimeout th t) = True"
| "from_outside (Spurious th) = True"
| "from_outside act = False"

definition stuck :: "server \<Rightarrow> bool" where
  "stuck s \<longleftrightarrow> (\<forall>act. request_enabled s act \<longrightarrow> from_outside act)"

text \<open>C36. The destruction of an adapter can hang: when its manager starts to hold requests between the
  beginning of \<^verbatim>\<open>destroy\<close> and \<^verbatim>\<open>lose_poa\<close>, a request that is held is not woken by \<^verbatim>\<open>do_destroy\<close>, which sets
  \<^verbatim>\<open>INACTIVE\<close> without a broadcast and waits for that request. Neither thread can go on unless another
  request happens to come, the hold times out, or the system wakes a thread for no reason.\<close>

theorem destroy_can_hang:
  "\<exists>s. served s \<and> pd_rq_state (oa s) = INACTIVE \<and> pcs s 2 = Held False \<and> asleep s 2 \<and>
    pcs s 0 = Waiting AllRequests Completed \<and> asleep s 0 \<and> stuck s"
proof -
  define s where "s = the (serve server_start hanging)"
  have run: "serve server_start hanging = Some s"
    by (simp add: s_def hanging_def serve_simps)
  have p: "pcs s = (\<lambda>_. Idle)(1 := Idle, 2 := Held False, 0 := Waiting AllRequests Completed)"
    and a: "asleep s 2" "asleep s 0" and r: "pd_rq_state (oa s) = INACTIVE" "dying s" "\<not> owned s"
    by (simp_all add: s_def hanging_def serve_simps)
  have "from_outside act" if "request_enabled s act" for act
    using that p a r by (cases act) (auto split: if_splits)
  then have "stuck s" by (simp add: stuck_def)
  then show ?thesis using serve_served [OF served.start run] p a r by (intro exI [of _ s]) simp
qed

text \<open>The broadcast of \<^verbatim>\<open>exitAdapter\<close> comes after the lock has been released, and can come after the
  condition variable has been deleted.\<close>

theorem exit_signals_deleted:
  "\<exists>s. served s \<and> request_enabled s (Broadcast 1) \<and> request_exec s (Broadcast 1) = Inl Undefined"
proof -
  define s where "s = the (serve server_start abandoned)"
  have "serve server_start abandoned = Some s" by (simp add: s_def abandoned_def serve_simps)
  then have "served s" by (rule serve_served [OF served.start])
  moreover have "request_enabled s (Broadcast 1) \<and> request_exec s (Broadcast 1) = Inl Undefined"
    by (simp add: s_def abandoned_def serve_simps)
  ultimately show ?thesis by blast
qed

text \<open>A thread in \<^verbatim>\<open>pm_deactivate\<close> can wait on the condition variable after it has been deleted, or be blocked on
  it when it is deleted, if a request comes to \<^verbatim>\<open>dispatch_to_sa\<close> when the adapter has been destroyed.\<close>

theorem deactivation_outlives_adapter:
  "\<exists>s. served s \<and> request_enabled s (Await 1 AllRequests) \<and> request_exec s (Await 1 AllRequests) = Inl Undefined"
  "\<exists>s. served s \<and> asleep s 1 \<and> request_enabled s (Destroyed 0) \<and> request_exec s (Destroyed 0) = Inl Undefined"
proof -
  define s where "s = the (serve server_start outlived)"
  have "serve server_start outlived = Some s" by (simp add: s_def outlived_def serve_simps)
  then have "served s" by (rule serve_served [OF served.start])
  moreover have "request_enabled s (Await 1 AllRequests) \<and> request_exec s (Await 1 AllRequests) = Inl Undefined"
    by (simp add: s_def outlived_def serve_simps)
  ultimately show "\<exists>s. served s \<and> request_enabled s (Await 1 AllRequests) \<and> request_exec s (Await 1 AllRequests) = Inl Undefined"
    by blast
next
  define s where "s = the (serve server_start undermined)"
  have "serve server_start undermined = Some s" by (simp add: s_def undermined_def serve_simps)
  then have "served s" by (rule serve_served [OF served.start])
  moreover have "asleep s 1 \<and> request_enabled s (Destroyed 0) \<and> request_exec s (Destroyed 0) = Inl Undefined"
    by (simp add: s_def undermined_def serve_simps)
  ultimately show "\<exists>s. served s \<and> asleep s 1 \<and> request_enabled s (Destroyed 0) \<and> request_exec s (Destroyed 0) = Inl Undefined"
    by blast
qed

theorem adapter_actions_succeed_witness:
  "\<exists>s'. request_exec (the (serve server_start closing)) (Leave 1) = Inr s'"
proof -
  obtain s where s: "serve server_start closing = Some s" "\<not> finished s"
    and p: "pcs s 1 = Busy False (Throws TRANSIENT TRANSIENT_POANoResource)" using serve_closing by blast
  have "request_enabled s (Leave 1)" using p by simp
  from adapter_actions_succeed [OF serve_served [OF served.start s(1)] this] s show ?thesis by simp
qed

theorem adapter_sleepers_have_reason_witness:
  "still_pending (the (serve server_start closing)) AllRequests"
proof -
  obtain s where s: "serve server_start closing = Some s" "asleep s 0" "\<not> signalling s"
    and p: "pcs s 0 = Waiting AllRequests Completed" using serve_closing by blast
  from adapter_sleepers_have_reason [OF serve_served [OF served.start s(1)] s(2,3)] p s(1) show ?thesis by simp
qed


end
