(* ===== verification/Poa_Manager.thy ===== *)
theory Poa_Manager
  imports Adapter
begin

text \<open>
  The POA manager (\<^verbatim>\<open>orbcore/poamanager.cc\<close>): the list of its adapters and the state that it gives them.
  The operations run under \<^verbatim>\<open>pm_lock\<close>, so each is one step, and so is the critical section in which an
  adapter that is destroyed changes its own state; waiting for the requests of an adapter and
  deactivating it come after the lock has been released. The end of \<^verbatim>\<open>deactivate_thread_fn\<close> does not
  take the lock, and is modelled on its own.
\<close>

section \<open>The manager and its operations\<close>

record omniOrbPOAManager =
  pd_state :: PM_State
  pd_poas :: "nat list"
  pd_deactivated :: bool

definition omniOrbPOAManager_new :: omniOrbPOAManager where
  "omniOrbPOAManager_new = \<lparr>pd_state = HOLDING, pd_poas = [], pd_deactivated = False\<rparr>"

type_synonym adapters = "nat \<Rightarrow> adapter"

text \<open>\<^verbatim>\<open>pm_change_state\<close> on every adapter of the list.\<close>

fun change_all :: "nat list \<Rightarrow> PM_State \<Rightarrow> adapters \<Rightarrow> adapters" where
  "change_all [] st ads = ads"
| "change_all (p # ps) st ads = change_all ps st (ads(p := change_section (ads p) st))"

definition AdapterInactive :: error where
  "AdapterInactive = UserException ''AdapterInactive''"

definition activate :: "omniOrbPOAManager \<Rightarrow> adapters \<Rightarrow> (omniOrbPOAManager \<times> adapters) result" where
  "activate m ads =
     (if pd_state m = INACTIVE then Inl AdapterInactive
      else if pd_state m = ACTIVE then Inr (m, ads)
      else Inr (m\<lparr>pd_state := ACTIVE\<rparr>, change_all (pd_poas m) ACTIVE ads))"

text \<open>
  The check against waiting inside an operation invocation, \<open>in_call\<close>. The adapters that the caller then
  waits for, with \<^verbatim>\<open>pm_waitForReqCmpltnOrSttChnge\<close>, come with the result.
\<close>

definition no_dead_lock :: "bool \<Rightarrow> bool \<Rightarrow> unit result" where
  "no_dead_lock wait in_call =
     (if wait \<and> in_call then Inl (Throw BAD_INV_ORDER BAD_INV_ORDER_WouldDeadLock) else Inr ())"

definition hold_requests ::
    "omniOrbPOAManager \<Rightarrow> adapters \<Rightarrow> bool \<Rightarrow> bool \<Rightarrow> (nat list \<times> omniOrbPOAManager \<times> adapters) result" where
  "hold_requests m ads wait in_call =
     ebind (no_dead_lock wait in_call) (\<lambda>_.
     if pd_state m = INACTIVE then Inl AdapterInactive
     else if pd_state m = HOLDING then Inr ([], m, ads)
     else Inr (if wait then pd_poas m else [], m\<lparr>pd_state := HOLDING\<rparr>, change_all (pd_poas m) HOLDING ads))"

definition discard_requests ::
    "omniOrbPOAManager \<Rightarrow> adapters \<Rightarrow> bool \<Rightarrow> bool \<Rightarrow> (nat list \<times> omniOrbPOAManager \<times> adapters) result" where
  "discard_requests m ads wait in_call =
     ebind (no_dead_lock wait in_call) (\<lambda>_.
     if pd_state m = INACTIVE then Inl AdapterInactive
     else if pd_state m = DISCARDING then Inr ([], m, ads)
     else Inr (if wait then pd_poas m else [], m\<lparr>pd_state := DISCARDING\<rparr>, change_all (pd_poas m) DISCARDING ads))"

text \<open>
  \<^verbatim>\<open>deactivate\<close> up to the deactivation of the adapters, which are returned. \<open>None\<close>: the manager is inactive
  already, and the caller waits until \<open>pd_deactivated\<close> is set.
\<close>

definition deactivate ::
    "omniOrbPOAManager \<Rightarrow> adapters \<Rightarrow> bool \<Rightarrow> bool \<Rightarrow> (nat list option \<times> omniOrbPOAManager \<times> adapters) result" where
  "deactivate m ads wait in_call =
     ebind (no_dead_lock wait in_call) (\<lambda>_.
     if pd_state m = INACTIVE then Inr (None, m, ads)
     else Inr (Some (pd_poas m), m\<lparr>pd_state := INACTIVE\<rparr>, change_all (pd_poas m) INACTIVE ads))"

definition gain_poa :: "omniOrbPOAManager \<Rightarrow> adapters \<Rightarrow> nat \<Rightarrow> omniOrbPOAManager \<times> adapters" where
  "gain_poa m ads poa =
     (m\<lparr>pd_poas := pd_poas m @ [poa]\<rparr>,
      if pd_state m = HOLDING then ads else ads(poa := change_section (ads poa) (pd_state m)))"

text \<open>The loops of \<^verbatim>\<open>lose_poa\<close>: the position of the adapter, and the moving up of those behind it.\<close>

fun poa_index :: "nat list \<Rightarrow> nat \<Rightarrow> nat" where
  "poa_index [] poa = 0"
| "poa_index (p # ps) poa = (if p = poa then 0 else 1 + poa_index ps poa)"

fun move_up :: "nat list \<Rightarrow> nat \<Rightarrow> nat list" where
  "move_up [] i = []"
| "move_up [p] i = []"
| "move_up (p # q # ps) 0 = q # move_up (q # ps) 0"
| "move_up (p # q # ps) (Suc i) = p # move_up (q # ps) i"

definition lose_poa :: "omniOrbPOAManager \<Rightarrow> nat \<Rightarrow> omniOrbPOAManager result" where
  "lose_poa m poa =
     (let i = poa_index (pd_poas m) poa in
      if i = length (pd_poas m) then Inl (UserException ''fatalException'')
      else Inr (m\<lparr>pd_poas := move_up (pd_poas m) i\<rparr>))"

lemma poa_index_less: "poa_index ps poa < length ps \<longleftrightarrow> poa \<in> set ps"
  by (induction ps) auto

lemma poa_index_length: "poa_index ps poa = length ps \<longleftrightarrow> poa \<notin> set ps"
  by (induction ps) auto

lemma move_up_first: "move_up (p # ps) 0 = ps"
  by (induction ps arbitrary: p) auto

lemma move_up_remove: "poa \<in> set ps \<Longrightarrow> move_up ps (poa_index ps poa) = remove1 poa ps"
proof (induction ps)
  case (Cons p ps)
  then show ?case
    by (cases "p = poa"; cases ps) (auto simp: move_up_first)
qed simp

section \<open>What the manager guarantees\<close>

text \<open>
  What changes the state of a manager and of its adapters: the operations, adapters that come and go, and
  an adapter that begins to destroy itself (\<^verbatim>\<open>omniOrbPOA::destroy\<close>), which changes its own state before it
  leaves the manager. \<open>dying\<close> are the adapters whose \<^verbatim>\<open>pd_dying\<close> is set; a second \<^verbatim>\<open>destroy\<close> changes nothing.
\<close>

datatype manager_action =
    Activate | HoldRequests bool bool | DiscardRequests bool bool | Deactivate bool bool
  | GainPoa nat | DestroyBegins nat | LoseOf nat

record managed =
  manager :: omniOrbPOAManager
  adapter_of :: adapters
  dying :: "nat set"

definition managed_new :: "adapters \<Rightarrow> managed" where
  "managed_new ads = \<lparr>manager = omniOrbPOAManager_new, adapter_of = ads, dying = {}\<rparr>"

definition managed_by :: "managed \<Rightarrow> (omniOrbPOAManager \<times> adapters) result \<Rightarrow> managed result" where
  "managed_by s r = ebind r (\<lambda>(m, ads). Inr (s\<lparr>manager := m, adapter_of := ads\<rparr>))"

fun manager_exec :: "managed \<Rightarrow> manager_action \<Rightarrow> managed result" where
  "manager_exec s Activate = managed_by s (activate (manager s) (adapter_of s))"
| "manager_exec s (HoldRequests w c) =
     managed_by s (ebind (hold_requests (manager s) (adapter_of s) w c) (\<lambda>(_, r). Inr r))"
| "manager_exec s (DiscardRequests w c) =
     managed_by s (ebind (discard_requests (manager s) (adapter_of s) w c) (\<lambda>(_, r). Inr r))"
| "manager_exec s (Deactivate w c) =
     managed_by s (ebind (deactivate (manager s) (adapter_of s) w c) (\<lambda>(_, r). Inr r))"
| "manager_exec s (GainPoa poa) =
     (if poa \<in> set (pd_poas (manager s)) then Inl Undefined
      else managed_by (s\<lparr>dying := dying s - {poa}\<rparr>)
        (Inr (gain_poa (manager s) ((adapter_of s)(poa := omniOrbPOA_new)) poa)))"
| "manager_exec s (DestroyBegins poa) =
     (if poa \<in> dying s then Inr s
      else Inr (s\<lparr>dying := insert poa (dying s),
             adapter_of := (adapter_of s)(poa := snd (destroy_section (adapter_of s poa)))\<rparr>))"
| "manager_exec s (LoseOf poa) = managed_by s (ebind (lose_poa (manager s) poa) (\<lambda>m. Inr (m, adapter_of s)))"

text \<open>A failed operation leaves manager and adapters as they were.\<close>

definition manager_step :: "managed \<Rightarrow> manager_action \<Rightarrow> managed" where
  "manager_step s act = (case manager_exec s act of Inl _ \<Rightarrow> s | Inr s' \<Rightarrow> s')"

definition manager_run :: "managed \<Rightarrow> manager_action list \<Rightarrow> managed" where
  "manager_run s acts = foldl manager_step s acts"

text \<open>An adapter that has begun to destroy itself may discard requests that the manager would hold.\<close>

definition in_step :: "managed \<Rightarrow> nat \<Rightarrow> bool" where
  "in_step s p \<longleftrightarrow>
     pd_rq_state (adapter_of s p) = pd_state (manager s) \<or>
     p \<in> dying s \<and> pd_state (manager s) = HOLDING \<and> pd_rq_state (adapter_of s p) = DISCARDING"

definition manages :: "managed \<Rightarrow> bool" where
  "manages s \<longleftrightarrow> distinct (pd_poas (manager s)) \<and> (\<forall>p \<in> set (pd_poas (manager s)). in_step s p)"

lemma change_all_apply:
  "change_all ps st ads p = (if p \<in> set ps then change_section (ads p) st else ads p)"
  by (induction ps arbitrary: ads) (auto simp: change_section_def)

text \<open>The operations of the manager itself.\<close>

definition sets_state :: "managed \<Rightarrow> PM_State \<Rightarrow> managed" where
  "sets_state s st =
     s\<lparr>manager := (manager s)\<lparr>pd_state := st\<rparr>, adapter_of := change_all (pd_poas (manager s)) st (adapter_of s)\<rparr>"

lemma sets_state_manages: "manages s \<Longrightarrow> manages (sets_state s st)"
  by (simp add: manages_def in_step_def sets_state_def change_all_apply change_section_def)

lemma operation_exec:
  assumes "manager_exec s act = Inr s'" and "\<forall>p. act \<noteq> GainPoa p \<and> act \<noteq> DestroyBegins p \<and> act \<noteq> LoseOf p"
  shows "s' = s \<or> pd_state (manager s) \<noteq> INACTIVE \<and> (\<exists>st. s' = sets_state s st)"
  using assms
  by (cases act) (auto simp: activate_def hold_requests_def discard_requests_def deactivate_def no_dead_lock_def
      managed_by_def sets_state_def err_simps split: if_splits)

lemma manager_exec_manages:
  assumes "manages s" and "manager_exec s act = Inr s'"
  shows "manages s' \<and> (pd_state (manager s) = INACTIVE \<longrightarrow> pd_state (manager s') = INACTIVE)"
proof (cases act)
  case (GainPoa poa)
  then show ?thesis using assms
    by (auto simp: manages_def in_step_def gain_poa_def omniOrbPOA_new_def change_section_def managed_by_def
        split: if_splits)
next
  case (DestroyBegins poa)
  then have m: "manager s' = manager s" using assms(2) by (auto split: if_splits)
  have "in_step s' p" if p: "in_step s p" for p
  proof (cases "poa \<in> dying s")
    case True
    then show ?thesis using DestroyBegins assms(2) p by simp
  next
    case False
    then have "s' = s\<lparr>dying := insert poa (dying s),
        adapter_of := (adapter_of s)(poa := snd (destroy_section (adapter_of s poa)))\<rparr>"
      using DestroyBegins assms(2) by simp
    then show ?thesis using p by (cases "p = poa"; cases "pd_rq_state (adapter_of s p)") (auto simp: in_step_def destroy_section_def)
  qed
  then show ?thesis using assms(1) m by (simp add: manages_def)
next
  case (LoseOf poa)
  then have "s' = s\<lparr>manager := (manager s)\<lparr>pd_poas := remove1 poa (pd_poas (manager s))\<rparr>\<rparr>"
    using assms(2) by (auto simp: lose_poa_def managed_by_def Let_def poa_index_length move_up_remove err_simps split: if_splits)
  then show ?thesis using assms(1) by (auto simp: manages_def in_step_def dest: notin_set_remove1)
qed (use assms operation_exec [OF assms(2)] sets_state_manages [OF assms(1)] in auto)

lemma manager_step_manages:
  "manages s \<Longrightarrow> manages (manager_step s act) \<and>
     (pd_state (manager s) = INACTIVE \<longrightarrow> pd_state (manager (manager_step s act)) = INACTIVE)"
  using manager_exec_manages [of s act] by (auto simp: manager_step_def split: sum.split)

lemma manager_run_manages:
  "manages s \<Longrightarrow> manages (manager_run s acts) \<and>
     (pd_state (manager s) = INACTIVE \<longrightarrow> pd_state (manager (manager_run s acts)) = INACTIVE)"
proof (induction acts arbitrary: s)
  case (Cons act acts)
  then show ?case using manager_step_manages [of s act] by (simp add: manager_run_def)
qed (simp add: manager_run_def)

text \<open>C8. Every adapter of a manager is in the state of the manager, whatever operations have been called
  on it, and adapters added, destroyed or removed in between, with one exception: an adapter that has begun
  to destroy itself while the manager holds requests discards them until the manager changes its state.
  And a manager that has been deactivated stays so, whatever comes after.\<close>

theorem manager_state_agrees:
  assumes "s = manager_run (managed_new ads) acts" and "poa \<in> set (pd_poas (manager s))"
  shows "(pd_rq_state (adapter_of s poa) = pd_state (manager s) \<or>
       poa \<in> dying s \<and> pd_state (manager s) = HOLDING \<and> pd_rq_state (adapter_of s poa) = DISCARDING) \<and>
    (pd_state (manager s) = INACTIVE \<longrightarrow> pd_state (manager (manager_run s acts')) = INACTIVE)"
proof -
  have "manages (managed_new ads)" by (simp add: manages_def managed_new_def omniOrbPOAManager_new_def)
  then have "manages s" using manager_run_manages assms(1) by blast
  then show ?thesis using manager_run_manages [of s acts'] assms(2) by (auto simp: manages_def in_step_def)
qed

theorem manager_state_agrees_witness:
  "pd_rq_state (adapter_of (manager_run (managed_new (\<lambda>_. omniOrbPOA_new))
      [GainPoa 1, GainPoa 2, DestroyBegins 1, DiscardRequests True False, LoseOf 1]) 2) = DISCARDING"
  using manager_state_agrees [where ads = "\<lambda>_. omniOrbPOA_new" and poa = 2
      and acts = "[GainPoa 1, GainPoa 2, DestroyBegins 1, DiscardRequests True False, LoseOf 1]", OF refl]
  by (simp add: manager_run_def manager_step_def managed_new_def managed_by_def omniOrbPOAManager_new_def gain_poa_def
      discard_requests_def no_dead_lock_def lose_poa_def Let_def)

section \<open>The end of a deactivation\<close>

text \<open>
  One thread runs the last two statements of \<^verbatim>\<open>deactivate_thread_fn\<close>, without \<^verbatim>\<open>pm_lock\<close>; others call
  \<^verbatim>\<open>deactivate\<close> on the inactive manager: they take \<^verbatim>\<open>pm_lock\<close>, test \<^verbatim>\<open>pd_deactivated\<close>, and block on \<^verbatim>\<open>pm_cond\<close>,
  which releases the lock, or return.
\<close>

datatype finisher = F_Set | F_Broadcast | F_Done

datatype waiter = W_Lock | W_Test | W_Wait | W_Blocked | W_Done

record deactivation =
  d_deactivated :: bool
  d_lock :: "nat option"
  d_finisher :: finisher
  d_waiters :: "nat \<Rightarrow> waiter"

definition deactivation_start :: deactivation where
  "deactivation_start =
     \<lparr>d_deactivated = False, d_lock = None, d_finisher = F_Set, d_waiters = (\<lambda>_. W_Lock)\<rparr>"

text \<open>\<^verbatim>\<open>*deactivated = 1; pm_cond.broadcast();\<close>; a thread that is woken takes the lock and tests again.\<close>

fun finish_step :: "deactivation \<Rightarrow> deactivation option" where
  "finish_step d =
     (case d_finisher d of
        F_Set \<Rightarrow> Some (d\<lparr>d_deactivated := True, d_finisher := F_Broadcast\<rparr>)
      | F_Broadcast \<Rightarrow>
          Some (d\<lparr>d_finisher := F_Done,
            d_waiters := (\<lambda>th. if d_waiters d th = W_Blocked then W_Lock else d_waiters d th)\<rparr>)
      | F_Done \<Rightarrow> None)"

text \<open>\<^verbatim>\<open>while( !pd_deactivated ) pm_cond.wait();\<close> under the lock.\<close>

fun waiter_step :: "deactivation \<Rightarrow> nat \<Rightarrow> deactivation option" where
  "waiter_step d th =
     (case d_waiters d th of
        W_Lock \<Rightarrow>
          if d_lock d = None then Some (d\<lparr>d_lock := Some th, d_waiters := (d_waiters d)(th := W_Test)\<rparr>) else None
      | W_Test \<Rightarrow>
          if d_deactivated d then Some (d\<lparr>d_lock := None, d_waiters := (d_waiters d)(th := W_Done)\<rparr>)
          else Some (d\<lparr>d_waiters := (d_waiters d)(th := W_Wait)\<rparr>)
      | W_Wait \<Rightarrow> Some (d\<lparr>d_lock := None, d_waiters := (d_waiters d)(th := W_Blocked)\<rparr>)
      | _ \<Rightarrow> None)"

inductive deactivating :: "deactivation \<Rightarrow> bool" where
  start: "deactivating deactivation_start"
| finish: "deactivating d \<Longrightarrow> finish_step d = Some d' \<Longrightarrow> deactivating d'"
| waiter: "deactivating d \<Longrightarrow> waiter_step d th = Some d' \<Longrightarrow> deactivating d'"

text \<open>C37. A wake-up can be lost at the end of a deactivation: the flag is set and the condition variable
  signalled without \<^verbatim>\<open>pm_lock\<close>, between the test of the flag and the wait of another thread, which then
  stays blocked although the deactivation is over and nobody holds the lock.\<close>

theorem deactivate_wakeup_lost:
  "\<exists>d. deactivating d \<and> d_deactivated d \<and> d_finisher d = F_Done \<and> d_lock d = None \<and>
    d_waiters d th = W_Blocked"
proof -
  let ?d = "\<lambda>f fin l w. \<lparr>d_deactivated = f, d_lock = l, d_finisher = fin, d_waiters = (\<lambda>_. W_Lock)(th := w)\<rparr>"
  have "deactivating (?d False F_Set (Some th) W_Test)"
    by (rule deactivating.waiter [OF deactivating.start, of th]) (simp add: deactivation_start_def)
  then have "deactivating (?d False F_Set (Some th) W_Wait)"
    by (rule deactivating.waiter [of _ th]) simp
  then have "deactivating (?d True F_Broadcast (Some th) W_Wait)"
    by (rule deactivating.finish) simp
  then have "deactivating (?d True F_Done (Some th) W_Wait)"
    by (rule deactivating.finish) (auto simp: fun_eq_iff)
  then have "deactivating (?d True F_Done None W_Blocked)"
    by (rule deactivating.waiter [of _ th]) simp
  then show ?thesis by (intro exI [of _ "?d True F_Done None W_Blocked"]) simp
qed

end
