(* ===== verification/Giop_Output.thy ===== *)
theory Giop_Output
  imports Cdr_Memory
begin

text \<open>
  The output of GIOP 1.2 messages: the functions of \<^verbatim>\<open>orbcore/giopImpl12.cc\<close> behind the virtual functions
  of \<^verbatim>\<open>giopStream\<close> (\<^verbatim>\<open>orbcore/giopStream.cc\<close>, \<^verbatim>\<open>include/omniORB4/internal/giopStream.h\<close>). A message is
  composed in a buffer and goes out as a first message and fragments of it, when the buffer is full or
  when a large array is sent past the buffer. Pointers into the buffer are offsets from its start, which
  \<^verbatim>\<open>alignStart(omni::ALIGN_8)\<close> has aligned. \<open>ob\<close> is the buffer from its start to \<^verbatim>\<open>pd_outb_mkr\<close>; an octet
  that holds what an earlier use of the buffer left is \<open>None\<close>. No compressor is set.
\<close>

section \<open>State\<close>

text \<open>
  The static members of \<^verbatim>\<open>giopStream\<close>, the parameter \<^verbatim>\<open>giopMaxMsgSize\<close>, the host's byte order, and the
  transport: \<open>conn k n\<close> is what call \<open>k\<close> of \<^verbatim>\<open>giopConnection::Send\<close> returns when asked to send \<open>n\<close> octets.
\<close>

record giopEnv =
  ge_le :: bool
  giopMaxMsgSize :: "64 word"
  bufferSize :: nat
  directSendCutOff :: nat
  minChunkBeforeDirectSend :: nat
  conn :: "nat \<Rightarrow> nat \<Rightarrow> int"

text \<open>The values of the members as the library starts, and the default of the parameter.\<close>

definition giopMaxMsgSize_default :: "64 word" where
  "giopMaxMsgSize_default = 2048 * 1024"

definition omniORB_env :: "bool \<Rightarrow> 64 word \<Rightarrow> (nat \<Rightarrow> nat \<Rightarrow> int) \<Rightarrow> giopEnv" where
  "omniORB_env le maxsize c =
     \<lparr>ge_le = le, giopMaxMsgSize = maxsize, bufferSize = 8192, directSendCutOff = 16384,
      minChunkBeforeDirectSend = 1024, conn = c\<rparr>"

text \<open>\<^verbatim>\<open>giopMaxMsgSizeHandler::visit\<close>, of the number given (\<^verbatim>\<open>LONG_MAX\<close> where a long has 64 bits).\<close>

definition giopMaxMsgSize_visit :: "64 word \<Rightarrow> 64 word option" where
  "giopMaxMsgSize_visit v =
     (if v \<noteq> 0 \<and> v < 8192 then None else if v \<noteq> 0 then Some v else Some 0x7fffffffffffffff)"

record giopOut =
  ob :: "8 word option list"
  ob_end :: nat
  pd_outputFragmentSize :: "64 word"
  pd_outputMessageSize :: "64 word"
  pd_request_id :: "32 word"
  on_wire :: "8 word option list"
  send_calls :: nat

section \<open>Sending\<close>

text \<open>
  The loop of \<^verbatim>\<open>sendChunk\<close> and of \<^verbatim>\<open>sendCopyChunk\<close>. A transport that claims to have sent more than it was
  given makes the length left wrap round.
\<close>

function send_loop :: "(nat \<Rightarrow> nat \<Rightarrow> int) \<Rightarrow> giopOut \<Rightarrow> 8 word option list \<Rightarrow> giopOut result" where
  "send_loop c s data =
     (if data = [] then Inr s
      else if c (send_calls s) (length data) \<le> 0 then Inl CommFailure
      else if int (length data) < c (send_calls s) (length data) then Inl Undefined
      else send_loop c
             (s\<lparr>on_wire := on_wire s @ take (nat (c (send_calls s) (length data))) data, send_calls := Suc (send_calls s)\<rparr>)
             (drop (nat (c (send_calls s) (length data))) data))"
  by pat_completeness auto

termination by (relation "measure (\<lambda>(c, s, data). length data)") auto

declare send_loop.simps [simp del]

definition sendChunk :: "giopEnv \<Rightarrow> giopOut \<Rightarrow> giopOut result" where
  "sendChunk env s = send_loop (conn env) s (ob s)"

definition sendCopyChunk :: "giopEnv \<Rightarrow> giopOut \<Rightarrow> 8 word list \<Rightarrow> giopOut result" where
  "sendCopyChunk env s b = send_loop (conn env) s (map Some b)"

section \<open>The header in the buffer\<close>

definition host_order :: "giopEnv \<Rightarrow> 8 word" where
  "host_order env = (if ge_le env then 1 else 0)"

text \<open>The \<^verbatim>\<open>CORBA::ULong\<close> at offset 8 of the buffer.\<close>

definition put_size :: "giopEnv \<Rightarrow> 32 word \<Rightarrow> giopOut \<Rightarrow> giopOut" where
  "put_size env w s = s\<lparr>ob := take 8 (ob s) @ map Some (in_memory (ge_le env) 4 w) @ drop 12 (ob s)\<rparr>"

definition get_size :: "giopEnv \<Rightarrow> giopOut \<Rightarrow> 32 word result" where
  "get_size env s =
     (if None \<in> set (take 4 (drop 8 (ob s))) \<or> length (ob s) < 12 then Inl Undefined
      else Inr (from_memory (ge_le env) (map the (take 4 (drop 8 (ob s))))))"

definition outputHasReachedLimit :: "giopOut \<Rightarrow> bool" where
  "outputHasReachedLimit s = (ob_end s = 12)"

definition out_align :: "giopOut \<Rightarrow> nat \<Rightarrow> giopOut" where
  "out_align s align = s\<lparr>ob := ob s @ replicate (align_to (length (ob s)) align - length (ob s)) None\<rparr>"

definition out_store :: "giopOut \<Rightarrow> 8 word list \<Rightarrow> giopOut" where
  "out_store s b = s\<lparr>ob := ob s @ map Some b\<rparr>"

definition exceedsLimit :: "'a result" where
  "exceedsLimit = Inl (Throw MARSHAL MARSHAL_MessageSizeExceedLimitOnClient)"

definition outputSetFragmentSize :: "giopEnv \<Rightarrow> giopOut \<Rightarrow> 64 word \<Rightarrow> giopOut result" where
  "outputSetFragmentSize env s msz =
     (if giopMaxMsgSize env < msz then exceedsLimit else Inr (s\<lparr>pd_outputFragmentSize := msz\<rparr>))"

text \<open>\<^verbatim>\<open>outputNewMessage\<close>: the octet of the message type is not written, the size is a mark.\<close>

definition outputNewMessage :: "giopEnv \<Rightarrow> giopOut \<Rightarrow> giopOut" where
  "outputNewMessage env s =
     s\<lparr>ob := map Some [0x47, 0x49, 0x4f, 0x50, 1, 2, host_order env] @ [None] @
          map Some (in_memory (ge_le env) 4 (0xffffffff :: 32 word)),
       ob_end := bufferSize env, pd_outputFragmentSize := 0, pd_outputMessageSize := 0\<rparr>"

section \<open>Flushing the buffer\<close>

text \<open>
  The first part of \<^verbatim>\<open>outputFlush\<close>. \<^verbatim>\<open>msz\<close> is a \<^verbatim>\<open>CORBA::Long\<close>: the sums are computed in 32 bits.
\<close>

definition count_fragment :: "giopEnv \<Rightarrow> bool \<Rightarrow> giopOut \<Rightarrow> giopOut result" where
  "count_fragment env knownFragmentSize s =
     (let fsz = of_nat (length (ob s)) :: 32 word;
          msz = ucast (pd_outputMessageSize s) :: 32 word in
      if pd_outputFragmentSize s = 0 then
        let s = s\<lparr>ob := (ob s)[6 := map_option (\<lambda>f. f OR 2) (ob s ! 6)]\<rparr>;
            s = (if \<not> knownFragmentSize then put_size env (fsz - 12) s else s) in
        ebind (if \<not> knownFragmentSize then Inr (fsz - 12) else get_size env s) (\<lambda>sz.
        let s = s\<lparr>pd_outputMessageSize := (if msz \<noteq> 0 then ucast (msz + sz - 4) else ucast sz)\<rparr>
        in if giopMaxMsgSize env < pd_outputMessageSize s then exceedsLimit else Inr s)
      else Inr (s\<lparr>pd_outputMessageSize :=
                   (if msz \<noteq> 0 then ucast (msz + fsz - 16) else ucast (fsz - 12))\<rparr>))"

text \<open>The octets of the size field are those of the buffer's last use.\<close>

definition fragment_header :: "giopEnv \<Rightarrow> giopOut \<Rightarrow> 8 word option list" where
  "fragment_header env s =
     map Some [0x47, 0x49, 0x4f, 0x50, 1, 2, host_order env, 7] @ replicate 4 None @
     map Some (in_memory (ge_le env) 4 (pd_request_id s))"

text \<open>
  The last part of \<^verbatim>\<open>outputFlush\<close>. An end that would wrap round the address space is beyond the end of
  the buffer, and neither is taken.
\<close>

definition next_fragment :: "giopEnv \<Rightarrow> giopOut \<Rightarrow> giopOut" where
  "next_fragment env s =
     (if pd_outputFragmentSize s = 0 then
        let avail = giopMaxMsgSize env - pd_outputMessageSize s;
            avail = push_bit 3 (drop_bit 3 (avail + 7));
            newmkr = 16 + unat avail
        in s\<lparr>ob := fragment_header env s,
             ob_end := (if newmkr < bufferSize env then newmkr else bufferSize env)\<rparr>
      else s\<lparr>ob := [], ob_end := bufferSize env\<rparr>)"

definition outputFlush :: "giopEnv \<Rightarrow> bool \<Rightarrow> giopOut \<Rightarrow> giopOut result" where
  "outputFlush env knownFragmentSize s =
     ebind (count_fragment env knownFragmentSize s) (\<lambda>s.
     ebind (sendChunk env s) (\<lambda>s. Inr (next_fragment env s)))"

section \<open>Writing\<close>

definition getReserveSpace :: "giopEnv \<Rightarrow> giopOut \<Rightarrow> nat \<Rightarrow> nat \<Rightarrow> giopOut result" where
  "getReserveSpace env s align sz =
     (if outputHasReachedLimit s then exceedsLimit
      else
        let s = out_align s align in
        if sz = 0 then Inr s
        else if length (ob s) < ob_end s then
          (if length (ob s) + sz \<le> ob_end s then Inr s else Inl AssertFail)
        else ebind (outputFlush env False s) (\<lambda>s.
               if \<not> outputHasReachedLimit s then Inr s else exceedsLimit))"

text \<open>
  The inline stores of \<^verbatim>\<open>cdrStream.h\<close> and the functions \<^verbatim>\<open>reserveAndMarshal\<close> of \<^verbatim>\<open>cdrStream.cc\<close>, which call
  each other until there is space, and \<^verbatim>\<open>alignOutput\<close>.
\<close>

partial_function (option) marshal_prim :: "giopEnv \<Rightarrow> giopOut \<Rightarrow> 8 word list \<Rightarrow> giopOut result option" where
  "marshal_prim env s b =
     (if length (ob (out_align s (length b))) + length b \<le> ob_end s
      then Some (Inr (out_store (out_align s (length b)) b))
      else (case getReserveSpace env s (length b) (length b) of
              Inl e \<Rightarrow> Some (Inl e) | Inr s \<Rightarrow> marshal_prim env s b))"

partial_function (option) align_output :: "giopEnv \<Rightarrow> giopOut \<Rightarrow> nat \<Rightarrow> giopOut result option" where
  "align_output env s align =
     (if length (ob (out_align s align)) \<le> ob_end s then Some (Inr (out_align s align))
      else (case getReserveSpace env s align 0 of
              Inl e \<Rightarrow> Some (Inl e) | Inr s \<Rightarrow> align_output env s align))"

text \<open>One round of the loop of \<^verbatim>\<open>copyOutputData\<close>, and the loop.\<close>

definition copy_round :: "giopEnv \<Rightarrow> giopOut \<Rightarrow> 8 word list \<Rightarrow> (giopOut \<times> 8 word list) result" where
  "copy_round env s b =
     (if ob_end s < length (ob s) then Inl Undefined
      else
        let avail = min (ob_end s - length (ob s)) (length b);
            s = out_store s (take avail b);
            b = drop avail b in
        if length (ob s) = ob_end s then
          ebind (outputFlush env False s) (\<lambda>s.
            if b \<noteq> [] \<and> outputHasReachedLimit s then exceedsLimit else Inr (s, b))
        else Inr (s, b))"

partial_function (option) copy_loop :: "giopEnv \<Rightarrow> giopOut \<Rightarrow> 8 word list \<Rightarrow> giopOut result option" where
  "copy_loop env s b =
     (if b = [] then Some (Inr s)
      else (case copy_round env s b of
              Inl e \<Rightarrow> Some (Inl e) | Inr x \<Rightarrow> copy_loop env (fst x) (snd x)))"

text \<open>
  The part of \<^verbatim>\<open>copyOutputData\<close> for large arrays: the buffer goes out with a size that includes the octets
  sent after it from the array itself; 0 to 7 octets are left for the next fragment. An array with fewer
  octets than are to be left over would make the size wrap round.
\<close>

definition fill_chunk :: "giopEnv \<Rightarrow> giopOut \<Rightarrow> nat" where
  "fill_chunk env s =
     (if length (ob s) < minChunkBeforeDirectSend env
      then min (minChunkBeforeDirectSend env - length (ob s)) (ob_end s - length (ob s)) else 0)"

definition direct_send :: "giopEnv \<Rightarrow> giopOut \<Rightarrow> 8 word list \<Rightarrow> (giopOut \<times> 8 word list) result" where
  "direct_send env s b =
     (let filler = fill_chunk env s;
          s = out_store s (take filler b);
          b = drop filler b;
          leftover = (length (ob s) + length b) mod 8;
          body = take (length b - leftover) b;
          b = drop (length b - leftover) b;
          s = (if pd_outputFragmentSize s = 0
               then put_size env (of_nat (length (ob s) + length body) - 12) s else s) in
      if length b \<noteq> leftover then Inl Undefined
      else ebind (outputFlush env True s) (\<lambda>s.
           ebind (sendCopyChunk env s body) (\<lambda>s.
           if b \<noteq> [] \<and> outputHasReachedLimit s then exceedsLimit else Inr (s, b))))"

definition copyOutputData ::
    "giopEnv \<Rightarrow> giopOut \<Rightarrow> 8 word list \<Rightarrow> nat \<Rightarrow> giopOut result option" where
  "copyOutputData env s b align =
     (if outputHasReachedLimit s then Some exceedsLimit
      else if ob_end s < length (ob (out_align s align)) then Some (Inl AssertFail)
      else if directSendCutOff env \<le> length b then
        (case direct_send env (out_align s align) b of
           Inl e \<Rightarrow> Some (Inl e) | Inr x \<Rightarrow> copy_loop env (fst x) (snd x))
      else copy_loop env (out_align s align) b)"

definition put_small_octet_array ::
    "giopEnv \<Rightarrow> giopOut \<Rightarrow> 8 word list \<Rightarrow> giopOut result option" where
  "put_small_octet_array env s b =
     (if length (ob s) + length b \<le> ob_end s then Some (Inr (out_store s b))
      else copyOutputData env s b 1)"

text \<open>
  The stream as the marshalling functions see it. An output buffer is never byte swapped. The reading
  half of a \<^verbatim>\<open>giopStream\<close> is that of \<open>input\<close>.
\<close>

definition terminated :: "'a result option \<Rightarrow> 'a result" where
  "terminated r = (case r of None \<Rightarrow> Inl NoReturn | Some r \<Rightarrow> r)"

definition giop_ops :: "giopEnv \<Rightarrow> giopOut cdrOps \<Rightarrow> giopOut cdrOps" where
  "giop_ops env input =
     input\<lparr>put_octet_array := (\<lambda>s b align. terminated (copyOutputData env s b align)),
           put_prim := (\<lambda>s b. terminated (marshal_prim env s b)),
           marshal_byte_swap := (\<lambda>_. False), host_le := ge_le env\<rparr>"

section \<open>Positions and limits\<close>

text \<open>\<^verbatim>\<open>currentOutputPtr\<close> and \<^verbatim>\<open>outputRemaining\<close>, in the 64 bits of a \<^verbatim>\<open>size_t\<close>.\<close>

definition g_currentOutputPtr :: "giopOut \<Rightarrow> 64 word" where
  "g_currentOutputPtr s =
     (let fsz = of_nat (length (ob s)); msz = pd_outputMessageSize s
      in if msz \<noteq> 0 then msz + fsz - 16 else fsz - 12)"

definition outputRemaining :: "giopEnv \<Rightarrow> giopOut \<Rightarrow> 64 word" where
  "outputRemaining env s =
     (if pd_outputFragmentSize s = 0 then
        let avail = giopMaxMsgSize env - g_currentOutputPtr s;
            avail = push_bit 3 (drop_bit 3 (avail + 4))
        in (if avail \<noteq> 0 then avail - 4 else 0)
      else pd_outputFragmentSize s - g_currentOutputPtr s)"

text \<open>\<^verbatim>\<open>giopStream::checkOutputOverrun\<close>; the product of the \<^verbatim>\<open>CORBA::ULong\<close> values has 32 bits.\<close>

definition g_checkOutputOverrun :: "giopEnv \<Rightarrow> giopOut \<Rightarrow> 32 word \<Rightarrow> 32 word \<Rightarrow> nat \<Rightarrow> bool" where
  "g_checkOutputOverrun env s itemSize nItems align =
     (let avail = outputRemaining env s in
      if avail \<noteq> 0xffffffffffffffff then
        \<not> unat avail < align_to (length (ob s)) align + unat (itemSize * nItems) - length (ob s)
      else True)"

section \<open>Whole messages\<close>

text \<open>
  \<^verbatim>\<open>outputMessageBegin\<close> for any \<^verbatim>\<open>marshalHeader\<close>, and \<^verbatim>\<open>outputMessageEnd\<close>: the offset of the end of the
  header, which the size field keeps until then, tells whether anything follows its padding.
\<close>

definition outputMessageBegin :: "giopEnv \<Rightarrow> giopOut \<Rightarrow> (giopOut \<Rightarrow> giopOut result) \<Rightarrow> giopOut result" where
  "outputMessageBegin env s marshalHeader = marshalHeader (outputNewMessage env s)"

definition trim_header :: "giopEnv \<Rightarrow> giopOut \<Rightarrow> giopOut result" where
  "trim_header env s =
     (let sz = of_nat (length (ob s)) - 12 :: 32 word in
      if pd_outputMessageSize s = 0 then
        ebind (get_size env s) (\<lambda>hdrsz.
        ebind (oassert (hdrsz \<noteq> 0xffffffff)) (\<lambda>_.
        if align_to (unat hdrsz) 8 = unat (sz + 12)
        then Inr (put_size env (hdrsz - 12) (s\<lparr>ob := take (unat hdrsz) (ob s)\<rparr>))
        else Inr (put_size env sz s)))
      else Inr (put_size env sz s))"

definition outputMessageEnd :: "giopEnv \<Rightarrow> giopOut \<Rightarrow> giopOut result" where
  "outputMessageEnd env s =
     (if ob s \<noteq> [] then
        ebind (if pd_outputFragmentSize s = 0 then trim_header env s else Inr s) (sendChunk env)
      else Inr s)"

end
