(* ===== verification/Giop_Output_Props.thy ===== *)
theory Giop_Output_Props
  imports Giop_Output
begin

text \<open>
  What is on the wire while a message of GIOP 1.2 is composed, and after it: a first message and
  fragments whose bodies, put together, are what has been marshalled.
\<close>

section \<open>Messages on the wire\<close>

definition frame_start :: "giopEnv \<Rightarrow> bool \<Rightarrow> 8 word \<Rightarrow> 8 word option list" where
  "frame_start env mf tp =
     map Some [0x47, 0x49, 0x4f, 0x50, 1, 2, if mf then host_order env OR 2 else host_order env, tp]"

definition size_octets :: "giopEnv \<Rightarrow> 32 word \<Rightarrow> 8 word option list" where
  "size_octets env w = map Some (in_memory (ge_le env) 4 w)"

definition frame :: "giopEnv \<Rightarrow> bool \<Rightarrow> 8 word \<Rightarrow> 8 word option list \<Rightarrow> 8 word option list" where
  "frame env mf tp body = frame_start env mf tp @ size_octets env (of_nat (length body)) @ body"

text \<open>The first frame has the type of the message; the body of a Fragment begins with the request id.\<close>

definition frame_at :: "giopEnv \<Rightarrow> 8 word \<Rightarrow> 32 word \<Rightarrow> bool \<Rightarrow> bool \<Rightarrow> 8 word option list \<Rightarrow> 8 word option list" where
  "frame_at env tp rid mf first b =
     (if first then frame env mf tp b else frame env mf 7 (size_octets env rid @ b))"

fun frames :: "giopEnv \<Rightarrow> 8 word \<Rightarrow> 32 word \<Rightarrow> bool \<Rightarrow> 8 word option list list \<Rightarrow> 8 word option list" where
  "frames env tp rid first [] = []"
| "frames env tp rid first (b # bs) = frame_at env tp rid True first b @ frames env tp rid False bs"

text \<open>A complete message: every frame but the last says that more follow.\<close>

definition message :: "giopEnv \<Rightarrow> 8 word \<Rightarrow> 32 word \<Rightarrow> 8 word option list list \<Rightarrow> 8 word option list" where
  "message env tp rid parts =
     frames env tp rid True (butlast parts) @
     frame_at env tp rid False (length parts = 1) (last parts)"

lemma frames_append:
  "frames env tp rid first (xs @ ys) =
   frames env tp rid first xs @ frames env tp rid (first \<and> xs = []) ys"
  by (induction xs arbitrary: first) auto

text \<open>
  The sizes of the parts: with its header of 12 octets, or of 16 for a Fragment, each ends on a multiple
  of eight.
\<close>

fun aligned_parts :: "8 word option list list \<Rightarrow> bool" where
  "aligned_parts [] \<longleftrightarrow> True"
| "aligned_parts (p # ps) \<longleftrightarrow> length p mod 8 = 4 \<and> (\<forall>q \<in> set ps. length q mod 8 = 0)"

lemma concat_mod_8: "(\<And>q. q \<in> set ps \<Longrightarrow> length q mod 8 = 0) \<Longrightarrow> length (concat ps) mod 8 = 0"
  by (induction ps) (simp_all add: mod_add_eq [symmetric])

lemma aligned_parts_length: "aligned_parts ps \<Longrightarrow> ps \<noteq> [] \<Longrightarrow> length (concat ps) mod 8 = 4"
proof (cases ps)
  case (Cons p qs)
  assume "aligned_parts ps"
  then show ?thesis using concat_mod_8 [of qs] Cons by (simp add: mod_add_eq [symmetric])
qed simp

lemma aligned_parts_snoc:
  "aligned_parts (ps @ [q]) \<longleftrightarrow> aligned_parts ps \<and> length q mod 8 = (if ps = [] then 4 else 0)"
  by (cases ps) auto

section \<open>A message in progress\<close>

text \<open>
  A limit from the size of the buffer, the least that the option \<^verbatim>\<open>giopMaxMsgSize\<close> accepts, up to \<open>2\<^sup>3\<^sup>0\<close>. The
  option accepts larger ones, and takes 0 for \<^verbatim>\<open>LONG_MAX\<close>; there the sizes of 32 bits in \<^verbatim>\<open>outputFlush\<close> could
  overflow, and nothing is claimed.
\<close>

definition giop_env :: "giopEnv \<Rightarrow> bool" where
  "giop_env env \<longleftrightarrow>
     8 dvd bufferSize env \<and> 24 \<le> bufferSize env \<and> bufferSize env \<le> unat (giopMaxMsgSize env) \<and>
     unat (giopMaxMsgSize env) < 2 ^ 30 \<and> minChunkBeforeDirectSend env + 8 \<le> directSendCutOff env \<and>
     (\<forall>k n. conn env k n \<le> int n)"

text \<open>Where the space of a fragment ends, when \<open>n\<close> octets have been sent.\<close>

definition space_end :: "giopEnv \<Rightarrow> nat \<Rightarrow> nat" where
  "space_end env n =
     min (bufferSize env) (16 + (unat (giopMaxMsgSize env) - n + 7) div 8 * 8)"

text \<open>
  A message: its type, its request id, what was on the wire before it, and the size that its header has
  in the buffer while the header is the only thing that is known.
\<close>

record giopMsg =
  m_type :: "8 word"
  m_rid :: "32 word"
  m_base :: "8 word option list"
  m_hdr :: "32 word"

definition composing ::
    "giopEnv \<Rightarrow> giopMsg \<Rightarrow> 8 word option list list \<Rightarrow> 8 word option list \<Rightarrow> giopOut \<Rightarrow> bool" where
  "composing env M parts cur s \<longleftrightarrow>
     on_wire s = m_base M @ frames env (m_type M) (m_rid M) True parts \<and>
     pd_request_id s = m_rid M \<and> pd_outputFragmentSize s = 0 \<and> unat (pd_outputMessageSize s) = length (concat parts) \<and>
     (\<exists>sz. length sz = 4 \<and> (parts = [] \<longrightarrow> sz = size_octets env (m_hdr M)) \<and>
        ob s = (if parts = [] then frame_start env False (m_type M) @ sz @ cur
                else frame_start env False 7 @ sz @ size_octets env (m_rid M) @ cur)) \<and>
     length (ob s) \<le> ob_end s \<and>
     ob_end s = (if parts = [] then bufferSize env else space_end env (length (concat parts))) \<and>
     length (concat parts) \<le> unat (giopMaxMsgSize env) \<and>
     aligned_parts parts"

lemma length_frame_start [simp]: "length (frame_start env mf tp) = 8"
  by (simp add: frame_start_def)

lemma length_size_octets [simp]: "length (size_octets env w) = 4"
  by (simp add: size_octets_def)

lemma composing_length:
  "composing env M parts cur s \<Longrightarrow>
   length (ob s) = (if parts = [] then 12 else 16) + length cur"
  by (auto simp: composing_def)

lemma space_end_dvd: "giop_env env \<Longrightarrow> 8 dvd space_end env n"
  by (auto simp: space_end_def giop_env_def min_def intro: dvd_add)

lemma space_end_bounds: "giop_env env \<Longrightarrow> 16 \<le> space_end env n \<and> space_end env n \<le> bufferSize env"
  by (auto simp: space_end_def giop_env_def)

lemma composing_ob_end:
  "composing env M parts cur s \<Longrightarrow>
   ob_end s = (if parts = [] then bufferSize env else space_end env (length (concat parts)))"
  by (simp add: composing_def)

lemma giop_env_buffer:
  "giop_env env \<Longrightarrow> 8 dvd bufferSize env" "giop_env env \<Longrightarrow> 24 \<le> bufferSize env"
  "giop_env env \<Longrightarrow> bufferSize env < 2 ^ 30"
  by (auto simp: giop_env_def)

lemma composing_end:
  assumes "giop_env env" and "composing env M parts cur s"
  shows "8 dvd ob_end s" and "16 \<le> ob_end s" and "ob_end s \<le> bufferSize env"
    and "\<not> outputHasReachedLimit s" and "ob_end s < 2 ^ 30"
proof -
  note e = composing_ob_end [OF assms(2)]
  show "8 dvd ob_end s"
    using giop_env_buffer(1) [OF assms(1)] space_end_dvd [OF assms(1)] by (simp add: e)
  show l: "16 \<le> ob_end s" and u: "ob_end s \<le> bufferSize env"
    using giop_env_buffer(2) [OF assms(1)] space_end_bounds [OF assms(1)] by (simp_all add: e)
  show "\<not> outputHasReachedLimit s" using l by (simp add: outputHasReachedLimit_def)
  show "ob_end s < 2 ^ 30" using u giop_env_buffer(3) [OF assms(1)] by linarith
qed

text \<open>The offset in the buffer and the offset in the message are aligned alike.\<close>

definition gap_at :: "8 word option list \<Rightarrow> nat \<Rightarrow> nat" where
  "gap_at v a = align_to (12 + length v) a - (12 + length v)"

lemma composing_gap:
  assumes "composing env M parts cur s" and "alignment a"
  shows "align_to (length (ob s)) a - length (ob s) = gap_at (concat parts @ cur) a"
proof (cases "parts = []")
  case True
  then show ?thesis using composing_length [OF assms(1)] by (simp add: gap_at_def)
next
  case False
  then have m: "length (concat parts) mod 8 = 4" using assms(1) by (simp add: composing_def aligned_parts_length)
  then have "(12 + length (concat parts)) mod 8 = 0" by (simp add: mod_add_eq [symmetric])
  then show ?thesis
    using composing_length [OF assms(1)] False
      align_to_add [OF assms(2), of "12 + length (concat parts)" "length cur"]
      align_to_add [OF assms(2), of 16 "length cur"]
    by (simp add: gap_at_def add.assoc)
qed

lemma composing_extend:
  assumes "composing env M parts cur s" and "length (ob s) + length ext \<le> ob_end s"
  shows "composing env M parts (cur @ ext) (s\<lparr>ob := ob s @ ext\<rparr>)"
  using assms unfolding composing_def by auto


section \<open>Sending\<close>

lemma send_loop_Nil: "\<exists>k. send_loop c s [] = Inr (s\<lparr>on_wire := on_wire s @ [], send_calls := k\<rparr>)"
  by (rule exI [of _ "send_calls s"]) (simp add: send_loop.simps)

lemma send_loop_cases:
  assumes "\<And>k n. c k n \<le> int n"
  shows "send_loop c s data = Inl CommFailure \<or>
    (\<exists>k. send_loop c s data = Inr (s\<lparr>on_wire := on_wire s @ data, send_calls := k\<rparr>))"
using assms
proof (induction c s data rule: send_loop.induct)
  case (1 c s data)
  show ?case
  proof (cases "data = []")
    case True
    then show ?thesis using send_loop_Nil [of c s] by simp
  next
    case False
    have "\<not> int (length data) < c (send_calls s) (length data)"
      unfolding not_less by (rule "1.prems")
    with 1 False show ?thesis
      by (cases "c (send_calls s) (length data) \<le> 0") (simp_all add: send_loop.simps [of c s data] not_le)
  qed
qed

lemma send_loop_sends:
  assumes "\<And>k n. c k n \<le> int n" and "\<And>k n. 0 < n \<Longrightarrow> 0 < c k n"
  shows "\<exists>k. send_loop c s data = Inr (s\<lparr>on_wire := on_wire s @ data, send_calls := k\<rparr>)"
proof (induction "length data" arbitrary: s data rule: less_induct)
  case less
  show ?case
  proof (cases "data = []")
    case True
    then show ?thesis using send_loop_Nil [of c s] by simp
  next
    case False
    have "\<not> int (length data) < c (send_calls s) (length data)"
      unfolding not_less by (rule assms(1))
    moreover have "0 < c (send_calls s) (length data)" using False assms(2) by simp
    moreover from this False have "length (drop (nat (c (send_calls s) (length data))) data) < length data"
      by simp
    ultimately show ?thesis
      using False less [of "drop (nat (c (send_calls s) (length data))) data"
        "s\<lparr>on_wire := on_wire s @ take (nat (c (send_calls s) (length data))) data,
           send_calls := Suc (send_calls s)\<rparr>"]
      by (auto simp: send_loop.simps [of c s data])
  qed
qed


section \<open>Flushing\<close>

text \<open>The frame of the part that is in the buffer, when \<open>e\<close> octets will follow it from elsewhere.\<close>

definition out_frame ::
    "giopEnv \<Rightarrow> 8 word \<Rightarrow> 32 word \<Rightarrow> bool \<Rightarrow> 8 word option list \<Rightarrow> nat \<Rightarrow> 8 word option list" where
  "out_frame env tp rid first cur e =
     (if first then frame_start env True tp @ size_octets env (of_nat (length cur + e)) @ cur
      else frame_start env True 7 @ size_octets env (of_nat (4 + length cur + e)) @
           size_octets env rid @ cur)"

lemma out_frame_at:
  "out_frame env tp rid first cur (length ext) @ ext = frame_at env tp rid True first (cur @ ext)"
  by (simp add: out_frame_def frame_at_def frame_def add.assoc)

lemma frame_start_more:
  "(frame_start env False t @ xs)[6 := map_option (\<lambda>f. f OR 2) ((frame_start env False t @ xs) ! 6)] =
   frame_start env True t @ xs"
  by (simp add: frame_start_def numeral_eq_Suc)

lemma ucast_of_nat_small:
  "n < 2 ^ 32 \<Longrightarrow> (ucast (of_nat n :: 64 word) :: 32 word) = of_nat n"
  "n < 2 ^ 32 \<Longrightarrow> (ucast (of_nat n :: 32 word) :: 64 word) = of_nat n"
  by (simp_all add: unsigned_of_nat take_bit_nat_eq_self)

lemma put_size_frame:
  "ob s = frame_start env False t @ sz @ rest \<Longrightarrow> length sz = 4 \<Longrightarrow>
   put_size env w s = s\<lparr>ob := frame_start env False t @ size_octets env w @ rest\<rparr>"
  by (simp add: put_size_def size_octets_def)

lemma get_size_frame:
  "get_size env (s\<lparr>ob := frame_start env b t @ size_octets env w @ rest\<rparr>) = Inr w"
  by (simp add: get_size_def size_octets_def from_memory_in_memory comp_def)

lemma of_nat_32_eq_0: "n < 2 ^ 32 \<Longrightarrow> (of_nat n :: 32 word) = 0 \<longleftrightarrow> n = 0"
  by (simp add: word_unat_eq_iff unat_of_nat take_bit_nat_eq_self)

lemma composing_buffer:
  assumes "composing env M parts cur s"
  obtains sz where "length sz = 4" and
    "ob s = frame_start env False (if parts = [] then m_type M else 7) @ sz @
       ((if parts = [] then [] else size_octets env (m_rid M)) @ cur)"
proof -
  obtain sz where "length sz = 4" and
    "ob s = (if parts = [] then frame_start env False (m_type M) @ sz @ cur
             else frame_start env False 7 @ sz @ size_octets env (m_rid M) @ cur)"
    using assms by (auto simp only: composing_def)
  then show ?thesis using assms by (intro that [of sz]) (simp_all add: composing_def)
qed

lemma count_fragment_known:
  assumes "giop_env env" and c: "composing env M parts cur s" and e: "length cur + e < 3 * 2 ^ 30"
  defines "n \<equiv> length (concat parts) + length cur + e"
  shows "count_fragment env True (put_size env (of_nat (length (ob s) + e) - 12) s) =
    (if unat (giopMaxMsgSize env) < n then exceedsLimit
     else Inr (s\<lparr>ob := out_frame env (m_type M) (m_rid M) (parts = []) cur e,
                 pd_outputMessageSize := of_nat n\<rparr>))"
proof -
  let ?len = "length (concat parts)" and ?rid = "if parts = [] then [] else size_octets env (m_rid M)"
  obtain sz where sz: "length sz = 4" and
    b: "ob s = frame_start env False (if parts = [] then m_type M else 7) @ sz @ ?rid @ cur"
    by (rule composing_buffer [OF c])
  have max: "unat (giopMaxMsgSize env) < 2 ^ 30" using assms(1) by (simp add: giop_env_def)
  have len: "?len \<le> unat (giopMaxMsgSize env)" and m: "unat (pd_outputMessageSize s) = ?len"
    and f: "pd_outputFragmentSize s = 0" and m4: "parts \<noteq> [] \<longrightarrow> ?len mod 8 = 4"
    using c by (simp_all add: composing_def aligned_parts_length)
  have m': "pd_outputMessageSize s = of_nat ?len" using m by (metis of_nat_unat ucast_id)
  define w where "w = (of_nat (length (ob s) + e) - 12 :: 32 word)"
  have w: "w = of_nat (length ?rid + length cur + e)" using sz by (simp add: b w_def)
  have p: "put_size env w s = s\<lparr>ob := frame_start env False (if parts = [] then m_type M else 7) @
      size_octets env w @ ?rid @ cur\<rparr>"
    by (rule put_size_frame [OF b sz])
  have l32: "?len < 2 ^ 32" and n32: "n < 2 ^ 32" using len max e by (simp_all add: n_def)
  have "parts \<noteq> [] \<Longrightarrow> ?len \<noteq> 0" using m4 by (metis mod_0 zero_neq_numeral)
  then have z: "(of_nat ?len :: 32 word) = 0 \<longleftrightarrow> parts = []"
    unfolding of_nat_32_eq_0 [OF l32] by auto
  have new: "(if (ucast (pd_outputMessageSize s) :: 32 word) = 0 then ucast w
      else ucast (ucast (pd_outputMessageSize s) + w - 4)) = (of_nat n :: 64 word)"
  proof (cases "parts = []")
    case True
    then show ?thesis
      using ucast_of_nat_small [OF n32] unfolding m' ucast_of_nat_small(1) [OF l32] z w by (simp add: n_def)
  next
    case False
    then have "(of_nat ?len :: 32 word) + w - 4 = of_nat n" unfolding w by (simp add: n_def)
    then show ?thesis
      using False ucast_of_nat_small(2) [OF n32] unfolding m' ucast_of_nat_small(1) [OF l32] z by simp
  qed
  have le: "giopMaxMsgSize env < of_nat n \<longleftrightarrow> unat (giopMaxMsgSize env) < n"
    using n32 by (simp add: word_less_nat_alt unat_of_nat take_bit_nat_eq_self)
  have fr: "frame_start env True (if parts = [] then m_type M else 7) @ size_octets env w @ ?rid @ cur =
      out_frame env (m_type M) (m_rid M) (parts = []) cur e"
    unfolding w by (simp add: out_frame_def)
  have g: "get_size env (s\<lparr>ob := out_frame env (m_type M) (m_rid M) (parts = []) cur e\<rparr>) = Inr w"
    unfolding fr [symmetric] by (rule get_size_frame)
  show ?thesis
    unfolding count_fragment_def w_def [symmetric] p
    using f new
    by (cases "(ucast (pd_outputMessageSize s) :: 32 word) = 0")
       (simp_all add: frame_start_more g le fr Let_def)
qed


lemma unat_round_down:
  fixes x :: "64 word"
  assumes "unat x < 2 ^ 32"
  shows "unat (push_bit 3 (drop_bit 3 x)) = unat x div 8 * 8"
  using assms by (simp add: push_bit_eq_mult drop_bit_eq_div unat_word_ariths unat_div_distrib take_bit_nat_eq_self)

lemma next_fragment_space:
  assumes "giop_env env" and "n \<le> unat (giopMaxMsgSize env)" and "pd_outputFragmentSize s = 0"
    and "pd_outputMessageSize s = of_nat n"
  shows "next_fragment env s =
    s\<lparr>ob := frame_start env False 7 @ replicate 4 None @ size_octets env (pd_request_id s),
      ob_end := space_end env n\<rparr>"
proof -
  have b: "unat (giopMaxMsgSize env) < 2 ^ 30" using assms(1) by (simp add: giop_env_def)
  have n: "unat (of_nat n :: 64 word) = n"
    using b assms(2) by (simp add: unat_of_nat take_bit_nat_eq_self)
  have d: "unat (giopMaxMsgSize env - of_nat n) = unat (giopMaxMsgSize env) - n"
    using assms(2) n by (simp add: unat_sub word_le_nat_alt)
  have a: "unat (giopMaxMsgSize env - of_nat n + 7) = unat (giopMaxMsgSize env) - n + 7"
    using b unfolding unat_word_ariths d by (simp add: take_bit_nat_eq_self)
  have "unat (push_bit 3 (drop_bit 3 (giopMaxMsgSize env - of_nat n + 7))) =
      (unat (giopMaxMsgSize env) - n + 7) div 8 * 8"
    using b unat_round_down [of "giopMaxMsgSize env - of_nat n + 7"] unfolding a by simp
  then show ?thesis
    using assms(3,4)
    by (simp add: next_fragment_def Let_def fragment_header_def frame_start_def size_octets_def
        space_end_def min_def)
qed


text \<open>
  How an operation ends that has to bring a message to \<open>n\<close> octets: a state with \<open>P\<close>, the exception when
  \<open>n\<close> is over the limit, or a failure of the transport.
\<close>

definition reliable :: "giopEnv \<Rightarrow> bool" where
  "reliable env \<longleftrightarrow> (\<forall>k n. 0 < n \<longrightarrow> 0 < conn env k n)"

definition send_outcome :: "giopEnv \<Rightarrow> nat \<Rightarrow> ('a \<Rightarrow> bool) \<Rightarrow> 'a result \<Rightarrow> bool" where
  "send_outcome env n P r \<longleftrightarrow>
     (\<exists>x. r = Inr x \<and> P x) \<or> r = exceedsLimit \<and> unat (giopMaxMsgSize env) < n \<or>
     r = Inl CommFailure \<and> \<not> reliable env"

lemma outcome_intros:
  "P x \<Longrightarrow> send_outcome env n P (Inr x)"
  "unat (giopMaxMsgSize env) < n \<Longrightarrow> send_outcome env n P exceedsLimit"
  by (auto simp: send_outcome_def)

lemma outcome_bind:
  assumes "send_outcome env m P r" and "m \<le> n" and "\<And>x. P x \<Longrightarrow> send_outcome env n Q (f x)"
  shows "send_outcome env n Q (ebind r f)"
  using assms unfolding send_outcome_def exceedsLimit_def by fastforce

lemma outcome_mono:
  "send_outcome env m P r \<Longrightarrow> m \<le> n \<Longrightarrow> (\<And>x. P x \<Longrightarrow> Q x) \<Longrightarrow> send_outcome env n Q r"
  unfolding send_outcome_def by fastforce

lemma send_loop_outcome:
  assumes "giop_env env"
  shows "send_outcome env n (\<lambda>s'. \<exists>k. s' = s\<lparr>on_wire := on_wire s @ data, send_calls := k\<rparr>)
    (send_loop (conn env) s data)"
proof (cases "reliable env")
  case True
  then show ?thesis
    using send_loop_sends [of "conn env" s data] assms
    by (auto simp: send_outcome_def giop_env_def reliable_def)
next
  case False
  then show ?thesis
    using send_loop_cases [of "conn env" s data] assms by (auto simp: send_outcome_def giop_env_def)
qed

lemma composing_new:
  assumes "giop_env env" and "pd_request_id s = m_rid M" and "pd_outputFragmentSize s = 0"
    and "unat (pd_outputMessageSize s) = n" and "length (concat parts) = n"
    and "n \<le> unat (giopMaxMsgSize env)" and "aligned_parts parts" and "parts \<noteq> []"
    and "ob s = frame_start env False 7 @ replicate 4 None @ size_octets env (m_rid M)"
    and "m_base M @ frames env (m_type M) (m_rid M) True parts = on_wire s" and "ob_end s = space_end env n"
  shows "composing env M parts [] s"
  using assms space_end_bounds [OF assms(1), of n] unfolding composing_def
  by (intro conjI exI [of _ "replicate 4 None"]) simp_all

lemma mod_8_four: "(4 + n) mod 8 = 0 \<Longrightarrow> n mod 8 = (4 :: nat)"
  by arith

lemma flush_direct:
  fixes b :: "8 word list"
  assumes env: "giop_env env" and c: "composing env M parts cur s"
    and e: "length b < 2 ^ 31" and d: "(length (ob s) + length b) mod 8 = 0"
  defines "w \<equiv> of_nat (length (ob s) + length b) - 12"
  shows "send_outcome env (length (concat parts) + length cur + length b)
    (composing env M (parts @ [cur @ map Some b]) [])
    (ebind (outputFlush env True (put_size env w s)) (\<lambda>s. sendCopyChunk env s b))"
proof -
  define n where "n = length (concat parts) + length cur + length b"
  have "length (ob s) \<le> ob_end s" using c by (simp add: composing_def)
  then have lc: "length cur + length b < 3 * 2 ^ 30"
    using composing_length [OF c] composing_end(5) [OF env c] e by (auto split: if_splits)
  note cf = count_fragment_known [OF env c lc, folded w_def n_def]
  show ?thesis unfolding n_def [symmetric]
  proof (cases "unat (giopMaxMsgSize env) < n")
    case True
    then show "send_outcome env n (composing env M (parts @ [cur @ map Some b]) [])
        (ebind (outputFlush env True (put_size env w s)) (\<lambda>s. sendCopyChunk env s b))"
      by (simp add: outputFlush_def cf exceedsLimit_def send_outcome_def)
  next
    case False
    let ?s = "s\<lparr>ob := out_frame env (m_type M) (m_rid M) (parts = []) cur (length b),
                pd_outputMessageSize := of_nat n\<rparr>"
    have f: "pd_outputFragmentSize s = 0" "pd_request_id s = m_rid M" using c by (simp_all add: composing_def)
    have "length (cur @ map Some b) mod 8 = (if parts = [] then 4 else 0)"
    proof (cases "parts = []")
      case True
      then have "(4 + (length cur + length b)) mod 8 = 0"
        using d composing_length [OF c] mod_add_left_eq [of 12 8 "length cur + length b"]
        by (simp add: add.assoc)
      then show ?thesis using True mod_8_four by simp
    next
      case False
      then show ?thesis
        using d composing_length [OF c] mod_add_left_eq [of 16 8 "length cur + length b"]
        by (simp add: add.assoc)
    qed
    then have m: "aligned_parts (parts @ [cur @ map Some b])"
      using c unfolding aligned_parts_snoc by (simp add: composing_def)
    have n64: "unat (of_nat n :: 64 word) = n"
      using False env by (simp add: giop_env_def unat_of_nat take_bit_nat_eq_self)
    have s1: "send_outcome env n (\<lambda>s'. \<exists>k. s' = ?s\<lparr>on_wire := on_wire s @ ob ?s, send_calls := k\<rparr>)
        (send_loop (conn env) ?s (ob ?s))"
      using send_loop_outcome [OF env, of n ?s "ob ?s"] by simp
    have nf: "next_fragment env (?s\<lparr>on_wire := x, send_calls := k\<rparr>) =
        ?s\<lparr>on_wire := x, send_calls := k,
           ob := frame_start env False 7 @ replicate 4 None @ size_octets env (m_rid M),
           ob_end := space_end env n\<rparr>" for x k
      using next_fragment_space [OF env, of n "?s\<lparr>on_wire := x, send_calls := k\<rparr>"] False f by simp
    have nc: "length (concat (parts @ [cur @ map Some b])) = n" by (simp add: n_def)
    have fr: "m_base M @ frames env (m_type M) (m_rid M) True (parts @ [cur @ map Some b]) =
        (on_wire s @ ob ?s) @ map Some b"
      using c out_frame_at [of env "m_type M" "m_rid M" "parts = []" cur "map Some b"]
      by (simp add: composing_def frames_append)
    have fin: "composing env M (parts @ [cur @ map Some b]) []
        (?s\<lparr>ob := frame_start env False 7 @ replicate 4 None @ size_octets env (m_rid M),
            ob_end := space_end env n, on_wire := (on_wire s @ ob ?s) @ map Some b, send_calls := k\<rparr>)" for k
      by (rule composing_new [OF env, where n=n]) (use False m f n64 nc fr in simp_all)
    show "send_outcome env n (composing env M (parts @ [cur @ map Some b]) [])
        (ebind (outputFlush env True (put_size env w s)) (\<lambda>s. sendCopyChunk env s b))"
      unfolding outputFlush_def cf ebind_assoc sendChunk_def sendCopyChunk_def if_not_P [OF False] ebind_Inr
    proof (rule outcome_bind [OF s1 order_refl], elim exE)
      fix x k
      assume x: "x = ?s\<lparr>on_wire := on_wire s @ ob ?s, send_calls := k\<rparr>"
      show "send_outcome env n (composing env M (parts @ [cur @ map Some b]) [])
          (send_loop (conn env) (next_fragment env x) (map Some b))"
        unfolding x nf using fin by (auto intro!: outcome_mono [OF send_loop_outcome [OF env] order_refl])
    qed
  qed
qed


lemma outputFlush_unknown:
  assumes "pd_outputFragmentSize s = 0" and "12 \<le> length (ob s)"
  shows "outputFlush env False s = outputFlush env True (put_size env (of_nat (length (ob s)) - 12) s)"
proof -
  let ?w = "of_nat (length (ob s)) - 12 :: 32 word"
  let ?m = "\<lambda>s. s\<lparr>ob := (ob s)[6 := map_option (\<lambda>f. f OR 2) (ob s ! 6)]\<rparr>"
  have c: "put_size env ?w (?m s) = ?m (put_size env ?w s)"
    using assms(2) by (simp add: put_size_def take_update_swap nth_append list_update_append)
  have g: "get_size env (put_size env w (?m s)) = Inr w" for w
    using assms(2) by (simp add: put_size_def get_size_def from_memory_in_memory comp_def)
  have "length (ob (put_size env ?w s)) = length (ob s)" using assms(2) by (simp add: put_size_def)
  then show ?thesis
    using assms(1) unfolding outputFlush_def count_fragment_def
    by (simp add: Let_def c [symmetric] g) (simp add: put_size_def)
qed

lemma flush_unknown:
  assumes "giop_env env" and "composing env M parts cur s" and "length (ob s) mod 8 = 0"
  shows "send_outcome env (length (concat parts) + length cur) (composing env M (parts @ [cur]) [])
    (outputFlush env False s)"
proof -
  have r: "ebind r (\<lambda>s. sendCopyChunk env s []) = r" for r
  proof (cases r)
    case (Inr x)
    then show ?thesis by (simp add: sendCopyChunk_def send_loop.simps)
  qed simp
  have "pd_outputFragmentSize s = 0" "12 \<le> length (ob s)"
    using assms(2) composing_length [OF assms(2)] by (simp_all add: composing_def)
  then show ?thesis
    using flush_direct [OF assms(1,2), of "[]"] assms(3) by (simp add: outputFlush_unknown r)
qed

end
