(* ===== verification/Giop_Messages.thy ===== *)
theory Giop_Messages
  imports Giop_Output
begin

text \<open>
  The messages that GIOP 1.2 sends: the headers and the short messages of \<^verbatim>\<open>orbcore/giopImpl12.cc\<close>, and
  the invocation of \<^verbatim>\<open>orbcore/GIOP_C.cc\<close>. Each function is the sequence of the calls it makes on the
  stream, after the same calls on a \<^verbatim>\<open>cdrCountingStream\<close> where the code counts first. Arguments, results
  and exceptions are the calls that their stubs make. Of the states of \<^verbatim>\<open>GIOP_S\<close> only
  whether a reply is being composed matters here. The interceptors (which give the service contexts) and the addressing by a whole reference are not modelled.
\<close>

section \<open>Calls on a stream\<close>

datatype stream_call = Value cdr_value | SmallArray "8 word list" | Align nat

fun out_call :: "giopEnv \<Rightarrow> giopOut cdrOps \<Rightarrow> giopOut \<Rightarrow> stream_call \<Rightarrow> giopOut result" where
  "out_call env input s (Value v) = marshal_value (giop_ops env input) s v"
| "out_call env input s (SmallArray b) = terminated (put_small_octet_array env s b)"
| "out_call env input s (Align a) = terminated (align_output env s a)"

fun out_calls :: "giopEnv \<Rightarrow> giopOut cdrOps \<Rightarrow> giopOut \<Rightarrow> stream_call list \<Rightarrow> giopOut result" where
  "out_calls env input s [] = Inr s"
| "out_calls env input s (c # cs) = ebind (out_call env input s c) (\<lambda>s. out_calls env input s cs)"

text \<open>
  The same calls on a counting stream. Both its output pointers are null: \<^verbatim>\<open>put_small_octet_array\<close> of
  something takes \<^verbatim>\<open>put_octet_array\<close>, and \<^verbatim>\<open>alignOutput\<close> finds the null pointer aligned and not beyond the
  end, and counts nothing.
\<close>

fun count_call :: "bool \<Rightarrow> nat \<Rightarrow> stream_call \<Rightarrow> nat result" where
  "count_call le n (Value v) = marshal_value (cs_ops le) n v"
| "count_call le n (SmallArray b) = (if length b \<le> 0 then Inr n else cs_put_octet_array n b 1)"
| "count_call le n (Align a) = Inr n"

fun count_calls :: "bool \<Rightarrow> nat \<Rightarrow> stream_call list \<Rightarrow> nat result" where
  "count_calls le n [] = Inr n"
| "count_calls le n (c # cs) = ebind (count_call le n c) (\<lambda>n. count_calls le n cs)"

definition put_type :: "8 word \<Rightarrow> giopOut \<Rightarrow> giopOut" where
  "put_type tp s = s\<lparr>ob := (ob s)[7 := Some tp]\<rparr>"

section \<open>Addresses and service contexts\<close>

text \<open>\<^verbatim>\<open>_CORBA_Sequence_Octet::operator>>=\<close> and \<^verbatim>\<open>IOP::ServiceContext::operator>>=\<close>.\<close>

definition octet_seq_calls :: "8 word list \<Rightarrow> stream_call list" where
  "octet_seq_calls b =
     Value (VULong (of_nat (length b))) # (if length b = 0 then [] else [Value (VOctets b)])"

type_synonym ServiceContext = "32 word \<times> 8 word list"

definition ServiceContext_calls :: "ServiceContext \<Rightarrow> stream_call list" where
  "ServiceContext_calls c = Value (VULong (fst c)) # octet_seq_calls (snd c)"

definition ServiceContexts_calls :: "ServiceContext list \<Rightarrow> stream_call list" where
  "ServiceContexts_calls cs =
     Value (VULong (of_nat (length cs))) # concat (map ServiceContext_calls cs)"

text \<open>The object key, or the profile that \<^verbatim>\<open>marshalIORAddressingInfo\<close> has selected.\<close>

datatype addressing = KeyAddr "8 word list" | ProfileAddr "32 word" "8 word list"

fun marshalIORAddressingInfo :: "addressing \<Rightarrow> stream_call list" where
  "marshalIORAddressingInfo (KeyAddr key) = Value (VUShort 0) # octet_seq_calls key"
| "marshalIORAddressingInfo (ProfileAddr tag data) =
     Value (VUShort 1) # Value (VULong tag) # octet_seq_calls data"

section \<open>Requests\<close>

record giopRequest =
  rq_response_expected :: bool
  rq_address :: addressing
  rq_op :: "8 word list"
  rq_contexts :: "ServiceContext list"

text \<open>
  The size of the header up to its padding: for the simple case computed in 32 bits, otherwise counted
  from the offset of the address.
\<close>

definition key_header_size :: "8 word list \<Rightarrow> 8 word list \<Rightarrow> 32 word" where
  "key_header_size key op_name =
     (let total = 12 + 4 + 1 + 3 + 2 + 2 + 4 + of_nat (length key);
          total = (total + 3) AND NOT 3;
          total = (total + 4 + of_nat (length op_name) + 3) AND NOT 3
      in total + 4)"

definition operation_calls :: "giopRequest \<Rightarrow> stream_call list" where
  "operation_calls rq = [Value (VULong (of_nat (length (rq_op rq)))), SmallArray (rq_op rq)]"

definition request_header_size :: "giopEnv \<Rightarrow> giopRequest \<Rightarrow> 32 word result" where
  "request_header_size env rq =
     (case rq_address rq of
        KeyAddr key \<Rightarrow>
          if length (rq_contexts rq) = 0 then Inr (key_header_size key (rq_op rq))
          else ebind (count_calls (ge_le env) (12 + 4 + 1 + 3)
                 ([Value (VUShort 0), Value (VULong (of_nat (length key))), Value (VOctets key),
                   Value (VULong (of_nat (length (rq_op rq)))), Value (VOctets (rq_op rq))] @
                  ServiceContexts_calls (rq_contexts rq))) (\<lambda>n. Inr (of_nat n))
      | ProfileAddr tag data \<Rightarrow>
          ebind (count_calls (ge_le env) (12 + 4 + 1 + 3)
            (marshalIORAddressingInfo (ProfileAddr tag data) @
             [Value (VULong (of_nat (length (rq_op rq)))), Value (VOctets (rq_op rq))] @
             ServiceContexts_calls (rq_contexts rq))) (\<lambda>n. Inr (of_nat n)))"

definition address_calls :: "addressing \<Rightarrow> stream_call list" where
  "address_calls addr =
     (case addr of
        KeyAddr key \<Rightarrow> [Value (VUShort 0), Value (VULong (of_nat (length key))), SmallArray key]
      | ProfileAddr tag data \<Rightarrow> marshalIORAddressingInfo addr)"

definition request_header_calls :: "32 word \<Rightarrow> giopRequest \<Rightarrow> stream_call list" where
  "request_header_calls requestId rq =
     [Value (VULong requestId), Value (VOctet (if rq_response_expected rq then 3 else 0)),
      Value (VOctet 0), Value (VOctet 0), Value (VOctet 0)] @
     address_calls (rq_address rq) @ operation_calls rq @
     (if length (rq_contexts rq) \<noteq> 0 then ServiceContexts_calls (rq_contexts rq) else [Value (VULong 0)])"

definition marshalRequestHeader ::
    "giopEnv \<Rightarrow> giopOut cdrOps \<Rightarrow> giopRequest \<Rightarrow> giopOut \<Rightarrow> giopOut result" where
  "marshalRequestHeader env input rq s =
     (let s = put_type 0 s in
      ebind (request_header_size env rq) (\<lambda>hdrsz.
      let s = put_size env hdrsz s in
      out_calls env input s (request_header_calls (pd_request_id s) rq @ [Align 8])))"

text \<open>\<^verbatim>\<open>GIOP_C::InitialiseRequest\<close>.\<close>

definition InitialiseRequest ::
    "giopEnv \<Rightarrow> giopOut cdrOps \<Rightarrow> giopRequest \<Rightarrow> stream_call list \<Rightarrow> giopOut \<Rightarrow> giopOut result" where
  "InitialiseRequest env input rq arguments s =
     ebind (outputMessageBegin env s (marshalRequestHeader env input rq)) (\<lambda>s.
     ebind (out_calls env input s arguments) (outputMessageEnd env))"

section \<open>Replies\<close>

definition reply_header_calls :: "32 word \<Rightarrow> 32 word \<Rightarrow> ServiceContext list \<Rightarrow> stream_call list" where
  "reply_header_calls requestId rc contexts =
     [Value (VULong requestId), Value (VULong rc)] @
     (if length contexts \<noteq> 0 then ServiceContexts_calls contexts else [Value (VULong 0)])"

definition marshalReplyHeader ::
    "giopEnv \<Rightarrow> giopOut cdrOps \<Rightarrow> ServiceContext list \<Rightarrow> giopOut \<Rightarrow> giopOut result" where
  "marshalReplyHeader env input contexts s =
     (let s = put_type 1 s in
      ebind (if length contexts = 0 then Inr (12 + 4 + 4 + 4)
             else ebind (count_calls (ge_le env) 12
                    ([Value (VULong 0), Value (VULong 0)] @ ServiceContexts_calls contexts)) (\<lambda>n. Inr (of_nat n)))
        (\<lambda>hdrsz.
      let s = put_size env hdrsz s in
      out_calls env input s (reply_header_calls (pd_request_id s) 0 contexts @ [Align 8])))"

text \<open>\<^verbatim>\<open>GIOP_S::SendReply\<close>.\<close>

definition SendReply ::
    "giopEnv \<Rightarrow> giopOut cdrOps \<Rightarrow> bool \<Rightarrow> ServiceContext list \<Rightarrow> stream_call list \<Rightarrow> giopOut \<Rightarrow>
     giopOut result" where
  "SendReply env input response_expected contexts results s =
     (if \<not> response_expected then Inr s else
     ebind (outputMessageBegin env s (marshalReplyHeader env input contexts)) (\<lambda>s.
     ebind (out_calls env input s results) (outputMessageEnd env)))"

section \<open>Messages of a size known in advance\<close>

text \<open>The block that counts the message, sets the fragment size and writes the size field.\<close>

definition count_message ::
    "giopEnv \<Rightarrow> stream_call list \<Rightarrow> giopOut \<Rightarrow> giopOut result" where
  "count_message env counted s =
     ebind (count_calls (ge_le env) 12 counted) (\<lambda>total.
     ebind (outputSetFragmentSize env s (of_nat total - 12)) (\<lambda>s.
     Inr (put_size env (of_nat total - 12) s)))"

definition sendUserException ::
    "giopEnv \<Rightarrow> giopOut cdrOps \<Rightarrow> ServiceContext list \<Rightarrow> 8 word list \<Rightarrow> stream_call list \<Rightarrow>
     giopOut \<Rightarrow> giopOut result" where
  "sendUserException env input contexts repoid ex s =
     (let s = put_type 1 (outputNewMessage env s) in
      ebind (count_message env
        ([Value (VULong 0), Value (VULong 0)] @ ServiceContexts_calls contexts @ [Align 8] @
         [Value (VULong (of_nat (length repoid))), Value (VOctets repoid)] @ ex) s) (\<lambda>s.
      ebind (out_calls env input s
        ([Value (VULong (pd_request_id s)), Value (VULong 1)] @ ServiceContexts_calls contexts @ [Align 8] @
         [Value (VULong (of_nat (length repoid))), SmallArray repoid] @ ex))
        (outputMessageEnd env)))"

text \<open>
  \<^verbatim>\<open>sendSystemException\<close>: while a reply is being composed the connection is given up, with a message error
  in place of the exception (\<open>sendMsgErrorMessage\<close>, below).
\<close>

definition sendSystemException ::
    "giopEnv \<Rightarrow> giopOut cdrOps \<Rightarrow> bool \<Rightarrow> ServiceContext list \<Rightarrow> 8 word list \<Rightarrow> 32 word \<Rightarrow> 32 word \<Rightarrow>
     giopOut \<Rightarrow> giopOut result" where
  "sendSystemException env input reply_being_composed contexts repoid minor completed s =
     (if reply_being_composed then Inl CommFailure else
      let s = put_type 1 (outputNewMessage env s) in
      ebind (if 0 < length contexts
             then count_message env
               ([Value (VULong 0), Value (VULong 0)] @ ServiceContexts_calls contexts @ [Align 8] @
                [Value (VULong (of_nat (length repoid))), Value (VOctets repoid), Value (VULong minor),
                 Value (VULong 0)]) s
             else Inr s) (\<lambda>s.
      ebind (out_calls env input s
        ([Value (VULong (pd_request_id s)), Value (VULong 2)] @ ServiceContexts_calls contexts)) (\<lambda>s.
      let s = (if length contexts = 0 then put_size env (of_nat (length (ob s)) - 12) s else s) in
      ebind (out_calls env input s
        ([Align 8, Value (VULong (of_nat (length repoid))), SmallArray repoid, Value (VULong minor),
          Value (VULong completed)]))
        (outputMessageEnd env))))"

definition sendLocateRequest ::
    "giopEnv \<Rightarrow> giopOut cdrOps \<Rightarrow> addressing \<Rightarrow> giopOut \<Rightarrow> giopOut result" where
  "sendLocateRequest env input addr s =
     (let s = put_type 3 (outputNewMessage env s) in
      ebind (count_message env (Value (VULong 0) # marshalIORAddressingInfo addr) s) (\<lambda>s.
      ebind (out_calls env input s (Value (VULong (pd_request_id s)) # marshalIORAddressingInfo addr))
        (outputMessageEnd env)))"

text \<open>
  \<^verbatim>\<open>objref\<close> are the calls that marshal the reference a reply forwards to (\<^verbatim>\<open>_marshalObjRef\<close>).
\<close>

definition sendLocationForwardReply ::
    "giopEnv \<Rightarrow> giopOut cdrOps \<Rightarrow> stream_call list \<Rightarrow> bool \<Rightarrow> giopOut \<Rightarrow> giopOut result" where
  "sendLocationForwardReply env input objref permanent s =
     (let s = put_type 1 (outputNewMessage env s) in
      ebind (count_message env
        ([Value (VULong 0), Value (VULong 0), Value (VULong 0)] @ objref) s) (\<lambda>s.
      ebind (out_calls env input s
        ([Value (VULong (pd_request_id s)), Value (VULong (if permanent then 4 else 3)), Value (VULong 0)] @
         objref))
        (outputMessageEnd env)))"

datatype locate_status =
    UNKNOWN_OBJECT | OBJECT_HERE | OBJECT_FORWARD | OBJECT_FORWARD_PERM | LOC_SYSTEM_EXCEPTION
  | LOC_NEEDS_ADDRESSING_MODE

fun locate_code :: "locate_status \<Rightarrow> 32 word" where
  "locate_code UNKNOWN_OBJECT = 0"
| "locate_code OBJECT_HERE = 1"
| "locate_code OBJECT_FORWARD = 2"
| "locate_code OBJECT_FORWARD_PERM = 3"
| "locate_code LOC_SYSTEM_EXCEPTION = 4"
| "locate_code LOC_NEEDS_ADDRESSING_MODE = 5"

text \<open>\<open>obj\<close> is \<open>None\<close> for a nil reference; the exception is its repository id, minor code and status.\<close>

definition sendLocateReply ::
    "giopEnv \<Rightarrow> giopOut cdrOps \<Rightarrow> locate_status \<Rightarrow> stream_call list option \<Rightarrow>
     (8 word list \<times> 32 word \<times> 32 word) \<Rightarrow> giopOut \<Rightarrow> giopOut result" where
  "sendLocateReply env input rc obj p s =
     (let s = put_type 4 (outputNewMessage env s);
          extra = (if rc = OBJECT_FORWARD \<or> rc = OBJECT_FORWARD_PERM then obj else None);
          repoid = fst p in
      if rc = LOC_NEEDS_ADDRESSING_MODE then Inl AssertFail
      else
      ebind (count_message env
        ([Value (VULong 0), Value (VULong 0)] @
         (case extra of Some objref \<Rightarrow> objref
          | None \<Rightarrow> if rc = LOC_SYSTEM_EXCEPTION
                    then [Value (VULong 0), Value (VOctets repoid), Value (VULong 0), Value (VULong 0)]
                    else [])) s) (\<lambda>s.
      ebind (out_calls env input s
        ([Value (VULong (pd_request_id s)), Value (VULong (locate_code rc))] @
         (case extra of Some objref \<Rightarrow> objref
          | None \<Rightarrow> if rc = LOC_SYSTEM_EXCEPTION
                    then [Value (VULong (of_nat (length repoid))), SmallArray repoid,
                          Value (VULong (fst (snd p))), Value (VULong (snd (snd p)))]
                    else [])))
        (outputMessageEnd env)))"

text \<open>\<^verbatim>\<open>sendMsgErrorMessage\<close> makes one call of \<^verbatim>\<open>Send\<close> and does not look at its result.\<close>

definition sendMsgErrorMessage :: "giopEnv \<Rightarrow> giopOut \<Rightarrow> giopOut" where
  "sendMsgErrorMessage env s =
     (let hdr = map Some ([0x47, 0x49, 0x4f, 0x50, 1, 2, host_order env, 6] @ replicate 4 0);
          n = conn env (send_calls s) 12
      in s\<lparr>ob := hdr, ob_end := bufferSize env, pd_outputFragmentSize := 0, pd_outputMessageSize := 0,
           on_wire := on_wire s @ take (nat n) hdr, send_calls := Suc (send_calls s)\<rparr>)"

end
