(* ===== verification/Giop_Contract.thy ===== *)
theory Giop_Contract
  imports Giop_Output_Props Giop_Messages
begin

text \<open>
  What the marshalling functions rely on, as a locale over the output operations: each ends and extends the
  contents of the message by its padding and its octets. The operations have it in both of their modes, in
  fragments and in a message of known size.
\<close>

section \<open>Contents and endings\<close>

text \<open>The contents of a message after a write, which is aligned from the beginning of the header on.\<close>

definition vput :: "8 word option list \<Rightarrow> nat \<Rightarrow> 8 word option list \<Rightarrow> 8 word option list" where
  "vput v a b = v @ replicate (gap_at v a) None @ b"

lemma vput_length: "length (vput v a b) = length v + gap_at v a + length b"
  by (simp add: vput_def)

text \<open>\<open>ends env n P r\<close>: the operation ends, and with \<open>send_outcome\<close> for a message of \<open>n\<close> octets.\<close>

definition ends :: "giopEnv \<Rightarrow> nat \<Rightarrow> ('a \<Rightarrow> bool) \<Rightarrow> 'a result option \<Rightarrow> bool" where
  "ends env n P r \<longleftrightarrow> (\<exists>x. r = Some x \<and> send_outcome env n P x)"

lemma ends_Some: "ends env n P (Some x) \<longleftrightarrow> send_outcome env n P x"
  by (simp add: ends_def)

lemma ends_case:
  assumes "send_outcome env m P r" and "m \<le> n" and "\<And>x. P x \<Longrightarrow> ends env n Q (f x)"
  shows "ends env n Q (case r of Inl e \<Rightarrow> Some (Inl e) | Inr x \<Rightarrow> f x)"
  using assms unfolding send_outcome_def exceedsLimit_def ends_def by fastforce

section \<open>The contents that calls give\<close>

fun value_put :: "bool \<Rightarrow> cdr_value \<Rightarrow> nat \<times> 8 word list" where
  "value_put le (VOctet a) = (1, [a])"
| "value_put le (VBoolean b) = (1, [if b then 1 else 0])"
| "value_put le (VUShort w) = (2, in_memory le 2 w)"
| "value_put le (VULong w) = (4, in_memory le 4 w)"
| "value_put le (VULongLong w) = (8, in_memory le 8 w)"
| "value_put le (VOctets bs) = (1, bs)"

fun call_put :: "bool \<Rightarrow> stream_call \<Rightarrow> nat \<times> 8 word list" where
  "call_put le (Value v) = value_put le v"
| "call_put le (SmallArray b) = (1, b)"
| "call_put le (Align a) = (a, [])"

text \<open>The sizes of arrays are numbers of the type \<^verbatim>\<open>int\<close>.\<close>

fun sized_call :: "stream_call \<Rightarrow> bool" where
  "sized_call (Value (VOctets bs)) \<longleftrightarrow> length bs < 2 ^ 31"
| "sized_call (SmallArray b) \<longleftrightarrow> length b < 2 ^ 31"
| "sized_call (Align a) \<longleftrightarrow> alignment a"
| "sized_call _ \<longleftrightarrow> True"

definition call_contents :: "bool \<Rightarrow> stream_call \<Rightarrow> 8 word option list \<Rightarrow> 8 word option list" where
  "call_contents le c v = vput v (fst (call_put le c)) (map Some (snd (call_put le c)))"

definition contents :: "bool \<Rightarrow> stream_call list \<Rightarrow> 8 word option list \<Rightarrow> 8 word option list" where
  "contents le cs v = fold (call_contents le) cs v"

lemma contents_simps [simp]:
  "contents le [] v = v" "contents le (c # cs) v = contents le cs (call_contents le c v)"
  "contents le (cs @ ds) v = contents le ds (contents le cs v)"
  by (simp_all add: contents_def)

lemma call_contents_extends: "\<exists>e. call_contents le c v = v @ e"
  by (simp add: call_contents_def vput_def)

lemma contents_extends: "\<exists>e. contents le cs v = v @ e"
proof (induction cs arbitrary: v)
  case (Cons c cs)
  obtain d where d: "call_contents le c v = v @ d" using call_contents_extends by blast
  then show ?case using Cons [of "v @ d"] by auto
qed simp

lemma contents_longer: "length v \<le> length (contents le cs v)"
  using contents_extends [of le cs v] by auto

section \<open>The contract\<close>

locale giop_output =
  fixes env :: giopEnv and holds :: "8 word option list \<Rightarrow> giopOut \<Rightarrow> bool"
  assumes prim: "holds v s \<Longrightarrow> alignment (length b) \<Longrightarrow>
      ends env (length (vput v (length b) (map Some b))) (holds (vput v (length b) (map Some b)))
        (marshal_prim env s b)"
    and array: "holds v s \<Longrightarrow> alignment a \<Longrightarrow> length b < 2 ^ 31 \<Longrightarrow>
      ends env (length (vput v a (map Some b))) (holds (vput v a (map Some b))) (copyOutputData env s b a)"
    and small: "holds v s \<Longrightarrow> length b < 2 ^ 31 \<Longrightarrow>
      ends env (length (vput v 1 (map Some b))) (holds (vput v 1 (map Some b))) (put_small_octet_array env s b)"
    and align: "holds v s \<Longrightarrow> alignment a \<Longrightarrow>
      ends env (length (vput v a [])) (holds (vput v a [])) (align_output env s a)"
begin

lemma terminated_ends: "ends env n P r \<Longrightarrow> send_outcome env n P (terminated r)"
  by (auto simp: ends_def terminated_def)

lemma value_ends:
  assumes "holds v s" and "sized_call (Value x)"
  shows "send_outcome env (length (call_contents (ge_le env) (Value x) v)) (holds (call_contents (ge_le env) (Value x) v))
    (marshal_value (giop_ops env input) s x)"
proof (cases "\<exists>bs. x = VOctets bs")
  case True
  then obtain bs where x: "x = VOctets bs" ..
  then have "length bs < 2 ^ 31" using assms(2) by simp
  from terminated_ends [OF array [OF assms(1) _ this, of 1]] show ?thesis
    by (simp add: x giop_ops_def call_contents_def)
next
  case False
  let ?b = "snd (value_put (ge_le env) x)"
  have "marshal_value (giop_ops env input) s x = terminated (marshal_prim env s ?b)"
    "fst (value_put (ge_le env) x) = length ?b" "alignment (length ?b)"
    using False
    by (cases x; simp add: marshalOctet_def marshalBoolean_def marshalUShort_def marshalULong_def
        marshalULongLong_def giop_ops_def)+
  then show ?thesis
    using terminated_ends [OF prim [OF assms(1), of ?b]] by (simp add: call_contents_def)
qed

lemma call_ends:
  assumes "holds v s" and "sized_call c"
  shows "send_outcome env (length (call_contents (ge_le env) c v)) (holds (call_contents (ge_le env) c v))
    (out_call env input s c)"
proof (cases c)
  case (Value x)
  then show ?thesis using value_ends [OF assms(1)] assms(2) by simp
next
  case (SmallArray b)
  then show ?thesis
    using terminated_ends [OF small [OF assms(1), of b]] assms(2) by (simp add: call_contents_def)
next
  case (Align a)
  then show ?thesis
    using terminated_ends [OF align [OF assms(1), of a]] assms(2) by (simp add: call_contents_def)
qed

lemma calls_end:
  assumes "holds v s" and "\<forall>c \<in> set cs. sized_call c"
  shows "send_outcome env (length (contents (ge_le env) cs v)) (holds (contents (ge_le env) cs v))
    (out_calls env input s cs)"
  using assms
proof (induction cs arbitrary: v s)
  case Nil
  then show ?case by (simp add: outcome_intros)
next
  case (Cons c cs)
  show ?case
    unfolding out_calls.simps contents_simps
    by (rule outcome_bind [OF call_ends [OF Cons.prems(1)] contents_longer]) (use Cons in auto)
qed

end

end
