(* ===== verification/Giop_Buffer.thy ===== *)
theory Giop_Buffer
  imports Giop_Contract
begin

text \<open>
  The operations of the output stream, over what they rely on: that the buffer can be extended, and that a
  flush sends it and makes room. They give the contract of the output stream, once for both modes.
\<close>

lemma align_to_below:
  assumes "alignment a" and "8 dvd e" and "p \<le> e"
  shows "align_to p a = e \<or> align_to p a + a \<le> e"
proof -
  have "a dvd 8" using assms(1) by (auto simp: alignment_def)
  then obtain k where k: "e = a * k" using assms(2) by (meson dvd_def dvd_trans)
  obtain j where j: "align_to p a = a * j" using align_to_dvd [of a p] by (auto elim: dvdE)
  have "a * j < a * (k + 1)" using align_to_less [OF assms(1), of p] assms(3) by (simp add: j k)
  then have "j < k + 1" by (simp only: mult_less_cancel1)
  then consider "j = k" | "j + 1 \<le> k" by linarith
  then show ?thesis
  proof cases
    case 2
    then have "a * (j + 1) \<le> a * k" by (rule mult_le_mono2)
    then show ?thesis by (simp add: j k)
  qed (simp add: j k)
qed


text \<open>
  \<open>holds v s\<close>: the message has the contents \<open>v\<close>. After a flush there is room for any primitive value in the
  buffer, at an offset that is a multiple of eight.
\<close>

definition roomy :: "giopOut \<Rightarrow> bool" where
  "roomy s \<longleftrightarrow> length (ob s) mod 8 = 0 \<and> length (ob s) + 8 \<le> ob_end s"

definition sized_for :: "giopEnv \<Rightarrow> nat \<Rightarrow> giopOut \<Rightarrow> giopOut" where
  "sized_for env n s =
     (if pd_outputFragmentSize s = 0 then put_size env (of_nat (length (ob s) + n) - 12) s else s)"

locale giop_buffer =
  fixes env :: giopEnv and holds :: "8 word option list \<Rightarrow> giopOut \<Rightarrow> bool"
  assumes space: "holds v s \<Longrightarrow> length (ob s) \<le> ob_end s \<and> 8 dvd ob_end s \<and> \<not> outputHasReachedLimit s"
    and gap: "holds v s \<Longrightarrow> alignment a \<Longrightarrow> align_to (length (ob s)) a - length (ob s) = gap_at v a"
    and extend: "holds v s \<Longrightarrow> length (ob s) + length e \<le> ob_end s \<Longrightarrow> holds (v @ e) (s\<lparr>ob := ob s @ e\<rparr>)"
    and flush: "holds v s \<Longrightarrow> length (ob s) mod 8 = 0 \<Longrightarrow>
      send_outcome env (length v) (\<lambda>s. holds v s \<and> roomy s) (outputFlush env False s)"
    and flush_sends: "holds v s \<Longrightarrow> length b < 2 ^ 31 \<Longrightarrow> (length (ob s) + length b) mod 8 = 0 \<Longrightarrow>
      send_outcome env (length v + length b) (\<lambda>s. holds (v @ map Some b) s \<and> roomy s)
        (ebind (outputFlush env True (sized_for env (length b) s)) (\<lambda>s. sendCopyChunk env s b))"
    and chunks: "holds v s \<Longrightarrow> minChunkBeforeDirectSend env + 8 \<le> directSendCutOff env"
begin

lemma not_reached: "holds v s \<Longrightarrow> \<not> outputHasReachedLimit s"
  using space by blast

lemma out_align_holds:
  assumes "holds v s" and "alignment a"
  shows "holds (v @ replicate (gap_at v a) None) (out_align s a)"
    and "length (ob (out_align s a)) = align_to (length (ob s)) a"
    and "length (ob (out_align s a)) \<le> ob_end s" and "ob_end (out_align s a) = ob_end s"
proof -
  note sp = space [OF assms(1)]
  show l: "length (ob (out_align s a)) = align_to (length (ob s)) a"
    using align_to_ge [OF assms(2), of "length (ob s)"] by (simp add: out_align_def)
  then show le': "length (ob (out_align s a)) \<le> ob_end s"
    using align_to_below [OF assms(2), of "ob_end s" "length (ob s)"] sp by linarith
  then show "holds (v @ replicate (gap_at v a) None) (out_align s a)"
    unfolding out_align_def gap [OF assms] by (intro extend [OF assms(1)])
      (simp add: out_align_def gap [OF assms])
qed (simp add: out_align_def)

lemma store_holds:
  assumes "holds v s" and "length (ob s) + length b \<le> ob_end s"
  shows "holds (v @ map Some b) (out_store s b)"
  unfolding out_store_def using assms(2) by (intro extend [OF assms(1)]) simp

lemma store_aligned:
  assumes "holds v s" and "alignment a" and "length (ob (out_align s a)) + length b \<le> ob_end s"
  shows "holds (vput v a (map Some b)) (out_store (out_align s a) b)"
  using store_holds [OF out_align_holds(1) [OF assms(1,2)], of b] assms(3) out_align_holds(4) [OF assms(1,2)]
  by (simp add: vput_def)

lemma reserve_flushes:
  assumes h: "holds v s" and a: "alignment a" and full: "\<not> length (ob (out_align s a)) + a \<le> ob_end s"
  defines "v' \<equiv> v @ replicate (gap_at v a) None"
  shows "send_outcome env (length v') (\<lambda>s. holds v' s \<and> roomy s) (getReserveSpace env s a a)"
proof -
  note oa = out_align_holds [OF h a, folded v'_def]
  have e: "length (ob (out_align s a)) = ob_end s"
    using align_to_below [OF a, of "ob_end s" "length (ob s)"] space [OF h] full by (simp add: oa(2))
  have o: "send_outcome env (length v') (\<lambda>s. holds v' s \<and> roomy s) (outputFlush env False (out_align s a))"
    by (rule flush [OF oa(1)]) (use space [OF h] e in auto)
  have "a \<noteq> 0" using a by (auto simp: alignment_def)
  then have g: "getReserveSpace env s a a =
      ebind (outputFlush env False (out_align s a)) (\<lambda>s. if \<not> outputHasReachedLimit s then Inr s else exceedsLimit)"
    using space [OF h] e oa(4) by (simp add: getReserveSpace_def Let_def)
  show ?thesis
    unfolding g by (rule outcome_bind [OF o order_refl]) (auto dest: not_reached intro!: outcome_intros(1))
qed

lemma roomy_fits:
  assumes "roomy s" and "alignment a"
  shows "out_align s a = s" and "length (ob (out_align s a)) + a \<le> ob_end s"
proof -
  obtain k where k: "length (ob s) = 8 * k" using assms(1) by (auto simp: roomy_def)
  have al: "align_to (length (ob s)) a = length (ob s)" and "a \<le> 8"
    using assms(2) align_to_add [OF assms(2), of "8 * k" 0] by (auto simp: k alignment_def align_to_def)
  show "out_align s a = s" by (simp add: out_align_def al)
  then show "length (ob (out_align s a)) + a \<le> ob_end s" using assms(1) \<open>a \<le> 8\<close> by (simp add: roomy_def)
qed

lemma marshal_prim_ends:
  assumes h: "holds v s" and a: "alignment (length b)"
  shows "ends env (length (vput v (length b) (map Some b))) (holds (vput v (length b) (map Some b)))
    (marshal_prim env s b)"
proof (cases "length (ob (out_align s (length b))) + length b \<le> ob_end s")
  case True
  then show ?thesis
    using store_aligned [OF h a True] by (simp add: marshal_prim.simps [of env s b] ends_Some outcome_intros)
next
  case False
  let ?w = "v @ replicate (gap_at v (length b)) None"
  have "ends env (length (vput v (length b) (map Some b))) (holds (vput v (length b) (map Some b)))
      (case getReserveSpace env s (length b) (length b) of
         Inl e \<Rightarrow> Some (Inl e) | Inr s \<Rightarrow> marshal_prim env s b)"
  proof (rule ends_case [OF reserve_flushes [OF h a False]], goal_cases)
    case (2 x)
    note r = roomy_fits [OF conjunct2 [OF 2] a]
    have "holds (?w @ map Some b) (out_store x b)"
      using store_holds [OF conjunct1 [OF 2], of b] r by simp
    then show ?case
      using r by (simp add: marshal_prim.simps [of env x b] ends_Some vput_def outcome_intros)
  qed (simp add: vput_length)
  then show ?thesis using False by (simp add: marshal_prim.simps [of env s b])
qed

lemma copy_round_fits:
  assumes "length (ob s) + length b < ob_end s"
  shows "copy_round env s b = Inr (out_store s b, [])"
  using assms by (simp add: copy_round_def Let_def out_store_def)


lemma copy_round_fills:
  assumes h: "holds v s" and full: "ob_end s \<le> length (ob s) + length b"
  defines "k \<equiv> ob_end s - length (ob s)"
  shows "send_outcome env (length v + k)
    (\<lambda>x. snd x = drop k b \<and> holds (v @ map Some (take k b)) (fst x) \<and> roomy (fst x)) (copy_round env s b)"
proof -
  have le: "length (ob s) \<le> ob_end s" using space [OF h] by simp
  have c: "holds (v @ map Some (take k b)) (out_store s (take k b))"
    using le by (intro store_holds [OF h]) (simp add: k_def)
  have l: "length (ob (out_store s (take k b))) = ob_end s" and kb: "k \<le> length b"
    using le full by (simp_all add: out_store_def k_def)
  have f: "send_outcome env (length v + k) (\<lambda>s. holds (v @ map Some (take k b)) s \<and> roomy s)
      (outputFlush env False (out_store s (take k b)))"
    using flush [OF c] l kb space [OF h] by simp
  have r: "copy_round env s b =
      ebind (outputFlush env False (out_store s (take k b))) (\<lambda>s.
        if drop k b \<noteq> [] \<and> outputHasReachedLimit s then exceedsLimit else Inr (s, drop k b))"
    using le l kb unfolding copy_round_def k_def by (simp add: Let_def min_def out_store_def)
  show ?thesis
    unfolding r by (rule outcome_bind [OF f order_refl]) (auto dest: not_reached intro!: outcome_intros(1))
qed

lemma copy_loop_ends:
  "holds v s \<Longrightarrow> ends env (length (v @ map Some b)) (holds (v @ map Some b)) (copy_loop env s b)"
proof (induction "2 * length b + (if length (ob s) = ob_end s then 1 else 0)"
    arbitrary: s b v rule: less_induct)
  case less
  have le: "length (ob s) \<le> ob_end s" using space [OF less.prems] by simp
  consider "b = []" | "b \<noteq> []" "length (ob s) + length b < ob_end s"
    | "b \<noteq> []" "ob_end s \<le> length (ob s) + length b" by linarith
  then show ?case
  proof cases
    case 1
    then show ?thesis using less.prems by (simp add: copy_loop.simps ends_Some outcome_intros)
  next
    case 2
    then show ?thesis
      using store_holds [OF less.prems, of b]
      by (simp add: copy_loop.simps [of env s b] copy_round_fits copy_loop.simps [of env _ "[]"] ends_Some
          outcome_intros)
  next
    case 3
    let ?k = "ob_end s - length (ob s)"
    have "ends env (length (v @ map Some b)) (holds (v @ map Some b))
        (case copy_round env s b of Inl e \<Rightarrow> Some (Inl e) | Inr x \<Rightarrow> copy_loop env (fst x) (snd x))"
    proof (rule ends_case [OF copy_round_fills [OF less.prems 3(2)]], goal_cases)
      case (2 x)
      have e: "(v @ map Some (take ?k b)) @ map Some (snd x) = v @ map Some b"
        unfolding append_assoc map_append [symmetric] using 2 by simp
      have "length (ob (fst x)) \<noteq> ob_end (fst x)" using 2 by (auto simp: roomy_def)
      moreover have "length (snd x) \<le> length b" "?k \<noteq> 0 \<Longrightarrow> length (snd x) < length b"
        using 2 3 by auto
      ultimately have "2 * length (snd x) + (if length (ob (fst x)) = ob_end (fst x) then 1 else 0) <
          2 * length b + (if length (ob s) = ob_end s then 1 else 0)"
        using le by (cases "?k = 0") auto
      from less.hyps [OF this, of "v @ map Some (take ?k b)"] 2 show ?case unfolding e by simp
    qed (use 3 in simp)
    with 3 show ?thesis by (simp add: copy_loop.simps [of env s b])
  qed
qed

lemma direct_send_ends:
  assumes h: "holds v s" and b: "directSendCutOff env \<le> length b" "length b < 2 ^ 31"
  shows "send_outcome env (length (v @ map Some b))
    (\<lambda>x. \<exists>v'. holds v' (fst x) \<and> v' @ map Some (snd x) = v @ map Some b) (direct_send env s b)"
proof -
  let ?f = "fill_chunk env s"
  define s1 where "s1 = out_store s (take ?f b)"
  define b1 where "b1 = drop ?f b"
  define v1 where "v1 = v @ map Some (take ?f b)"
  define k where "k = length b1 - (length (ob s1) + length b1) mod 8"
  have f: "length (ob s) + ?f \<le> ob_end s" "?f + 8 \<le> length b"
    using b(1) chunks [OF h] space [OF h] by (auto simp: fill_chunk_def)
  have h1: "holds v1 s1" unfolding s1_def v1_def using f by (intro store_holds [OF h]) simp
  have b1: "8 \<le> length b1" "length b1 < 2 ^ 31" using f(2) b(2) by (simp_all add: b1_def)
  have r: "length b1 = k + (length (ob s1) + length b1) mod 8"
    using b1(1) mod_less_divisor [of 8 "length (ob s1) + length b1"] unfolding k_def by linarith
  then have k: "length (take k b1) = k" "k < 2 ^ 31" "length (drop k b1) = (length (ob s1) + length b1) mod 8"
    using b1(2) by simp_all
  have d: "(length (ob s1) + length (take k b1)) mod 8 = 0"
    unfolding k(1) using r by (metis add_diff_cancel_right' add.assoc minus_mod_eq_mult_div mod_mult_self1_is_0)
  have ds: "direct_send env s b =
      ebind (ebind (outputFlush env True (sized_for env (length (take k b1)) s1))
        (\<lambda>s. sendCopyChunk env s (take k b1))) (\<lambda>s.
        if drop k b1 \<noteq> [] \<and> outputHasReachedLimit s then exceedsLimit else Inr (s, drop k b1))"
    using k(3) unfolding direct_send_def ebind_assoc Let_def s1_def [symmetric] b1_def [symmetric]
      k_def [symmetric] sized_for_def by simp
  have p: "(v1 @ map Some (take k b1)) @ map Some (drop k b1) = v @ map Some b"
    unfolding v1_def append_assoc map_append [symmetric] append_take_drop_id by (simp add: b1_def)
  have le: "length v1 + length (take k b1) \<le> length (v @ map Some b)"
    unfolding p [symmetric] by simp
  show ?thesis
    unfolding ds
    by (rule outcome_bind [OF flush_sends [OF h1 _ d] le])
       (use k p space in \<open>auto intro!: outcome_intros exI\<close>)
qed

lemma copyOutputData_ends:
  assumes h: "holds v s" and a: "alignment a" and b: "length b < 2 ^ 31"
  shows "ends env (length (vput v a (map Some b))) (holds (vput v a (map Some b))) (copyOutputData env s b a)"
proof -
  let ?w = "v @ replicate (gap_at v a) None"
  note oa = out_align_holds [OF h a]
  have vp: "vput v a (map Some b) = ?w @ map Some b" by (simp add: vput_def)
  have start: "\<not> outputHasReachedLimit s" "\<not> ob_end s < length (ob (out_align s a))"
    using space [OF h] oa(3) by simp_all
  show ?thesis
  proof (cases "directSendCutOff env \<le> length b")
    case True
    have "ends env (length (vput v a (map Some b))) (holds (vput v a (map Some b)))
        (case direct_send env (out_align s a) b of
           Inl e \<Rightarrow> Some (Inl e) | Inr x \<Rightarrow> copy_loop env (fst x) (snd x))"
      unfolding vp
    proof (rule ends_case [OF direct_send_ends [OF oa(1) True b] order_refl], elim exE conjE)
      fix x v'
      assume "holds v' (fst x)" and e: "v' @ map Some (snd x) = ?w @ map Some b"
      from copy_loop_ends [OF this(1), of "snd x"]
      show "ends env (length (?w @ map Some b)) (holds (?w @ map Some b)) (copy_loop env (fst x) (snd x))"
        unfolding e .
    qed
    with start True show ?thesis by (simp add: copyOutputData_def)
  next
    case False
    with start copy_loop_ends [OF oa(1), of b] show ?thesis by (simp add: copyOutputData_def vp)
  qed
qed

lemma align_output_ends:
  assumes h: "holds v s" and a: "alignment a"
  shows "ends env (length (vput v a [])) (holds (vput v a [])) (align_output env s a)"
  using out_align_holds [OF h a]
  by (simp add: align_output.simps [of env s a] ends_Some outcome_intros vput_def)

lemma put_small_octet_array_ends:
  assumes h: "holds v s" and b: "length b < 2 ^ 31"
  shows "ends env (length (vput v 1 (map Some b))) (holds (vput v 1 (map Some b)))
    (put_small_octet_array env s b)"
proof (cases "length (ob s) + length b \<le> ob_end s")
  case True
  then show ?thesis
    using store_holds [OF h True]
    by (simp add: put_small_octet_array_def ends_Some vput_def gap_at_def outcome_intros)
next
  case False
  then show ?thesis
    using copyOutputData_ends [OF h _ b, of 1] by (simp add: put_small_octet_array_def)
qed

end

sublocale giop_buffer \<subseteq> giop_output
  by unfold_locales
     (rule marshal_prim_ends copyOutputData_ends put_small_octet_array_ends align_output_ends; assumption)+

end
