(* ===== verification/Giop_Modes.thy ===== *)
theory Giop_Modes
  imports Giop_Buffer
begin

text \<open>
  The two modes of the output stream, and how a message ends in each. A message in fragments: its limit
  must not be one that leaves a fragment without space. A message of known size: it goes out as it is,
  whenever the buffer is full, after the one header.
\<close>

section \<open>Messages in fragments\<close>

definition writing ::
    "giopEnv \<Rightarrow> giopMsg \<Rightarrow> 8 word option list \<Rightarrow> giopOut \<Rightarrow> bool" where
  "writing env M v s \<longleftrightarrow>
     (\<exists>parts cur. composing env M parts cur s \<and> v = concat parts @ cur)"

definition advances :: "giopEnv \<Rightarrow> bool" where
  "advances env \<longleftrightarrow> giop_env env \<and> unat (giopMaxMsgSize env) mod 8 \<noteq> 4"

lemma new_fragment_space:
  assumes "advances env" and "composing env M parts [] s" and "parts \<noteq> []"
  shows "length (ob s) = 16" and "24 \<le> ob_end s"
proof -
  show "length (ob s) = 16" using composing_length [OF assms(2)] assms(3) by simp
  have "length (concat parts) \<le> unat (giopMaxMsgSize env)" "length (concat parts) mod 8 = 4"
    "24 \<le> bufferSize env" "unat (giopMaxMsgSize env) mod 8 \<noteq> 4"
    using assms by (auto simp: composing_def advances_def giop_env_def aligned_parts_length)
  moreover from this have "8 \<le> (unat (giopMaxMsgSize env) - length (concat parts) + 7) div 8 * 8"
    by (cases "length (concat parts) = unat (giopMaxMsgSize env)") auto
  ultimately show "24 \<le> ob_end s"
    using composing_ob_end [OF assms(2)] assms(3) by (simp add: space_end_def)
qed

lemma composing_writing:
  "composing env M parts cur s \<Longrightarrow> v = concat parts @ cur \<Longrightarrow> writing env M v s"
  by (auto simp: writing_def)

lemma writing_composing:
  assumes "writing env M v s"
  obtains parts cur where "composing env M parts cur s" and "v = concat parts @ cur"
  using assms by (auto simp: writing_def)

interpretation fragments: giop_buffer env "\<lambda>v s. advances env \<and> writing env M v s" for env M
proof
  fix v s
  assume h: "advances env \<and> writing env M v s"
  then have env: "giop_env env" by (simp add: advances_def)
  from h obtain parts cur where c: "composing env M parts cur s" and v: "v = concat parts @ cur"
    by (blast elim: writing_composing)
  have f: "pd_outputFragmentSize s = 0" using c by (simp add: composing_def)
  have new: "advances env \<and> writing env M (concat ps) s' \<and> roomy s'"
    if "composing env M ps [] s'" "ps \<noteq> []" for ps s'
    using h new_fragment_space [OF _ that] composing_writing [OF that(1)] by (auto simp: roomy_def)
  show "length (ob s) \<le> ob_end s \<and> 8 dvd ob_end s \<and> \<not> outputHasReachedLimit s"
    using c composing_end [OF env c] by (simp add: composing_def)
  show "align_to (length (ob s)) a - length (ob s) = gap_at v a" if "alignment a" for a
    unfolding v by (rule composing_gap [OF c that])
  show "advances env \<and> writing env M (v @ e) (s\<lparr>ob := ob s @ e\<rparr>)"
    if "length (ob s) + length e \<le> ob_end s" for e
    using h composing_writing [OF composing_extend [OF c that]] by (simp add: v)
  show "minChunkBeforeDirectSend env + 8 \<le> directSendCutOff env"
    using env by (simp add: giop_env_def)
  show "send_outcome env (length v) (\<lambda>s. (advances env \<and> writing env M v s) \<and> roomy s) (outputFlush env False s)"
    if "length (ob s) mod 8 = 0"
    by (rule outcome_mono [OF flush_unknown [OF env c that]]) (use new [of "parts @ [cur]"] in \<open>auto simp: v\<close>)
  show "send_outcome env (length v + length b)
      (\<lambda>s. (advances env \<and> writing env M (v @ map Some b) s) \<and> roomy s)
      (ebind (outputFlush env True (sized_for env (length b) s)) (\<lambda>s. sendCopyChunk env s b))"
    if "length b < 2 ^ 31" "(length (ob s) + length b) mod 8 = 0" for b :: "8 word list"
    unfolding sized_for_def f if_P [OF refl]
    by (rule outcome_mono [OF flush_direct [OF env c that]])
       (use new [of "parts @ [cur @ map Some b]"] in \<open>auto simp: v\<close>)
qed

section \<open>Messages of known size\<close>

definition known_size :: "giopEnv \<Rightarrow> giopMsg \<Rightarrow> 8 word option list \<Rightarrow> giopOut \<Rightarrow> bool" where
  "known_size env M v s \<longleftrightarrow>
     giop_env env \<and> pd_outputFragmentSize s \<noteq> 0 \<and> pd_request_id s = m_rid M \<and>
     on_wire s @ ob s = m_base M @ frame_start env False (m_type M) @ size_octets env (m_hdr M) @ v \<and>
     ob_end s = bufferSize env \<and> length (ob s) \<le> ob_end s \<and>
     (\<exists>k. 12 + length v = 8 * k + length (ob s))"

lemma flush_known_size:
  assumes k: "known_size env M v s" and d: "(length (ob s) + length b) mod 8 = 0"
  shows "send_outcome env n (\<lambda>s. known_size env M (v @ map Some b) s \<and> roomy s)
    (ebind (outputFlush env known s) (\<lambda>s. sendCopyChunk env s b))"
proof -
  have env: "giop_env env" and f: "pd_outputFragmentSize s \<noteq> 0" using k by (simp_all add: known_size_def)
  obtain m where m: "count_fragment env known s = Inr (s\<lparr>pd_outputMessageSize := m\<rparr>)"
    using f by (simp add: count_fragment_def Let_def)
  let ?s = "s\<lparr>pd_outputMessageSize := m\<rparr>"
  have nf: "next_fragment env (?s\<lparr>on_wire := x, send_calls := j\<rparr>) =
      ?s\<lparr>ob := [], ob_end := bufferSize env, on_wire := x, send_calls := j\<rparr>" for x j
    using f by (simp add: next_fragment_def)
  obtain j where j: "12 + length v = 8 * j + length (ob s)" using k by (auto simp: known_size_def)
  then have "12 + length (v @ map Some b) = 8 * j + (length (ob s) + length b)" by simp
  then have "(12 + length (v @ map Some b)) mod 8 = 0"
    using d by (simp only: mod_mult_self4)
  then have e: "\<exists>j. 12 + length (v @ map Some b) = 8 * j" by (auto elim: dvdE)
  have fin: "known_size env M (v @ map Some b)
      (?s\<lparr>ob := [], ob_end := bufferSize env, on_wire := (on_wire s @ ob s) @ map Some b, send_calls := i\<rparr>)
    \<and> roomy (?s\<lparr>ob := [], ob_end := bufferSize env, on_wire := (on_wire s @ ob s) @ map Some b,
        send_calls := i\<rparr>)" for i
    using k e giop_env_buffer(2) [OF env] by (simp add: known_size_def roomy_def)
  have "send_outcome env n (\<lambda>s'. \<exists>i. s' = ?s\<lparr>on_wire := on_wire s @ ob ?s, send_calls := i\<rparr>)
      (send_loop (conn env) ?s (ob ?s))"
    using send_loop_outcome [OF env, of n ?s "ob ?s"] by simp
  then show ?thesis
    unfolding outputFlush_def m ebind_assoc ebind_Inr sendChunk_def sendCopyChunk_def
  proof (rule outcome_bind [OF _ order_refl], elim exE)
    fix x i
    assume x: "x = ?s\<lparr>on_wire := on_wire s @ ob ?s, send_calls := i\<rparr>"
    show "send_outcome env n (\<lambda>s. known_size env M (v @ map Some b) s \<and> roomy s)
        (send_loop (conn env) (next_fragment env x) (map Some b))"
      unfolding x nf using fin by (auto intro!: outcome_mono [OF send_loop_outcome [OF env] order_refl])
  qed
qed

lemma sendCopyChunk_Nil: "ebind r (\<lambda>s. sendCopyChunk env s []) = r"
  by (cases r) (simp_all add: sendCopyChunk_def send_loop.simps)

interpretation whole: giop_buffer env "known_size env M" for env M
proof
  fix v s
  assume k: "known_size env M v s"
  then have env: "giop_env env" and f: "pd_outputFragmentSize s \<noteq> 0" by (simp_all add: known_size_def)
  show "length (ob s) \<le> ob_end s \<and> 8 dvd ob_end s \<and> \<not> outputHasReachedLimit s"
    using k giop_env_buffer [OF env] by (simp add: known_size_def outputHasReachedLimit_def)
  show "align_to (length (ob s)) a - length (ob s) = gap_at v a" if "alignment a" for a
  proof -
    obtain j where j: "12 + length v = 8 * j + length (ob s)" using k by (auto simp: known_size_def)
    show ?thesis unfolding gap_at_def j using align_to_add [OF that, of "8 * j" "length (ob s)"] by simp
  qed
  show "known_size env M (v @ e) (s\<lparr>ob := ob s @ e\<rparr>)"
    if "length (ob s) + length e \<le> ob_end s" for e
    using k that by (auto simp: known_size_def simp flip: append_assoc)
  show "minChunkBeforeDirectSend env + 8 \<le> directSendCutOff env" using env by (simp add: giop_env_def)
  show "send_outcome env (length v) (\<lambda>s. known_size env M v s \<and> roomy s) (outputFlush env False s)"
    if "length (ob s) mod 8 = 0"
    using flush_known_size [OF k, of "[]"] that by (simp add: sendCopyChunk_Nil)
  show "send_outcome env (length v + length b) (\<lambda>s. known_size env M (v @ map Some b) s \<and> roomy s)
      (ebind (outputFlush env True (sized_for env (length b) s)) (\<lambda>s. sendCopyChunk env s b))"
    if "length b < 2 ^ 31" "(length (ob s) + length b) mod 8 = 0" for b :: "8 word list"
    using flush_known_size [OF k that(2)] f by (simp add: sized_for_def)
qed

end
