(* ===== verification/Giop_Sizes.thy ===== *)
theory Giop_Sizes
  imports Giop_Modes
begin

text \<open>
  The sizes that the code computes before it marshals: what a counting stream counts is what the output
  stream takes, except for an alignment, and the simple formula for the header of a request gives its size.
\<close>

definition call_size :: "bool \<Rightarrow> stream_call \<Rightarrow> nat \<Rightarrow> nat" where
  "call_size le c n = align_to n (fst (call_put le c)) + length (snd (call_put le c))"

definition calls_size :: "bool \<Rightarrow> stream_call list \<Rightarrow> nat \<Rightarrow> nat" where
  "calls_size le cs n = fold (call_size le) cs n"

lemma calls_size_simps [simp]:
  "calls_size le [] n = n" "calls_size le (c # cs) n = calls_size le cs (call_size le c n)"
  "calls_size le (cs @ ds) n = calls_size le ds (calls_size le cs n)"
  by (simp_all add: calls_size_def)

lemma value_put_alignment: "alignment (fst (value_put le x))"
  by (cases x) auto

lemma call_put_alignment: "sized_call c \<Longrightarrow> alignment (fst (call_put le c))"
  by (cases c) (auto simp: value_put_alignment)

lemma call_contents_size: "sized_call c \<Longrightarrow> 12 + length (call_contents le c v) = call_size le c (12 + length v)"
  using align_to_ge [OF call_put_alignment, of c "12 + length v" le]
  by (simp add: call_contents_def call_size_def vput_length gap_at_def)

lemma contents_size:
  "\<forall>c \<in> set cs. sized_call c \<Longrightarrow> 12 + length (contents le cs v) = calls_size le cs (12 + length v)"
  by (induction cs arbitrary: v) (simp_all add: call_contents_size)

fun no_align :: "stream_call \<Rightarrow> bool" where
  "no_align (Align a) \<longleftrightarrow> False"
| "no_align _ \<longleftrightarrow> True"

lemma count_call_size: "no_align c \<Longrightarrow> count_call le n c = Inr (call_size le c n)"
proof (cases c)
  case (Value x)
  then show ?thesis
    by (cases x) (simp_all add: call_size_def marshalOctet_def marshalBoolean_def marshalUShort_def
        marshalULong_def marshalULongLong_def cs_ops_def cs_put_prim_def cs_put_octet_array_def)
qed (simp_all add: call_size_def cs_put_octet_array_def)

lemma count_calls_size: "\<forall>c \<in> set cs. no_align c \<Longrightarrow> count_calls le n cs = Inr (calls_size le cs n)"
  by (induction cs arbitrary: n) (simp_all add: count_call_size)

text \<open>The rounding of the formula.\<close>

lemma round_up_word:
  assumes "n + 3 < 2 ^ 32"
  shows "(of_nat n + 3) AND NOT (3 :: 32 word) = of_nat (align_to n 4)"
proof -
  have three: "(3 :: 32 word) = mask 2" by (simp add: mask_eq_exp_minus_1)
  have two: "2 \<le> n \<Longrightarrow> Suc (Suc (n - 2)) = n" for n :: nat by simp
  have a: "x AND NOT 3 = push_bit 2 (drop_bit 2 x)" for x :: "32 word"
    unfolding three by (rule bit_word_eqI) (auto simp: bit_simps two not_less)
  have u: "unat (of_nat n + 3 :: 32 word) = n + 3"
    using assms by (simp add: unat_word_ariths unat_of_nat take_bit_nat_eq_self)
  have "unat ((of_nat n + 3) AND NOT (3 :: 32 word)) = (n + 3) div 4 * 4"
    using assms u unfolding a
    by (simp add: push_bit_eq_mult drop_bit_eq_div unat_word_ariths unat_div_distrib take_bit_nat_eq_self)
  also have "\<dots> = align_to n 4" by (simp add: align_to_def minus_mod_eq_div_mult)
  finally show ?thesis by (metis of_nat_unat ucast_id)
qed


section \<open>Sizes of headers\<close>

text \<open>The octets of a call that says how many octets it takes.\<close>

lemma small_array_call: "call_size le (SmallArray b) = call_size le (Value (VOctets b))"
  by (rule ext) (simp add: call_size_def)

definition sized_request :: "giopRequest \<Rightarrow> bool" where
  "sized_request rq \<longleftrightarrow>
     (\<forall>c \<in> set (request_header_calls 0 rq). sized_call c)"

lemma sized_request_calls: "sized_request rq \<Longrightarrow> \<forall>c \<in> set (request_header_calls rid rq). sized_call c"
  by (auto simp: sized_request_def request_header_calls_def)

lemma no_align_lists:
  "c \<in> set (octet_seq_calls b) \<Longrightarrow> no_align c"
  "c \<in> set (ServiceContext_calls sc) \<Longrightarrow> no_align c"
  "c \<in> set (ServiceContexts_calls scs) \<Longrightarrow> no_align c"
  by (auto simp: octet_seq_calls_def ServiceContext_calls_def ServiceContexts_calls_def split: if_splits)

lemma request_prefix_size:
  "calls_size le [Value (VULong rid), Value (VOctet f), Value (VOctet 0), Value (VOctet 0), Value (VOctet 0)] 12 = 20"
  by (simp add: call_size_def align_to_def)

lemma key_calls_size:
  "calls_size le
     [Value (VUShort 0), Value (VULong (of_nat (length key))), SmallArray key,
      Value (VULong (of_nat (length op_name))), SmallArray op_name, Value (VULong 0)] 20 =
   align_to (align_to (28 + length key) 4 + 4 + length op_name) 4 + 4"
  by (simp add: call_size_def align_to_def [of 20] align_to_def [of 22])

lemma key_header_size_eq:
  assumes "20 + length key + length op_name < 2 ^ 31"
  shows "key_header_size key op_name =
    of_nat (calls_size le
      [Value (VUShort 0), Value (VULong (of_nat (length key))), SmallArray key,
       Value (VULong (of_nat (length op_name))), SmallArray op_name, Value (VULong 0)] 20)"
proof -
  let ?t = "align_to (28 + length key) 4"
  have k: "?t < 28 + length key + 4" by (rule align_to_less) simp
  have "(12 + 4 + 1 + 3 + 2 + 2 + 4 + of_nat (length key) + 3) AND NOT (3 :: 32 word) = of_nat ?t"
    using round_up_word [of "28 + length key"] assms by simp
  moreover have "(of_nat ?t + 4 + of_nat (length op_name) + 3) AND NOT (3 :: 32 word) =
      of_nat (align_to (?t + 4 + length op_name) 4)"
    using round_up_word [of "?t + 4 + length op_name"] k assms by simp
  ultimately show ?thesis unfolding key_header_size_def Let_def key_calls_size by simp
qed

lemma request_header_size_eq:
  assumes "length (contents (ge_le env) (request_header_calls rid rq) []) < 2 ^ 30" and "sized_request rq"
  shows "request_header_size env rq =
    Inr (of_nat (12 + length (contents (ge_le env) (request_header_calls rid rq) [])))"
proof -
  let ?le = "ge_le env" and ?pre = "[Value (VULong rid), Value (VOctet (if rq_response_expected rq then 3 else 0)),
      Value (VOctet 0), Value (VOctet 0), Value (VOctet 0)]"
  define rest where "rest = address_calls (rq_address rq) @ operation_calls rq @
     (if length (rq_contexts rq) \<noteq> 0 then ServiceContexts_calls (rq_contexts rq) else [Value (VULong 0)])"
  have "12 + length (contents ?le (request_header_calls rid rq) []) =
      calls_size ?le (request_header_calls rid rq) 12"
    using contents_size [OF sized_request_calls [OF assms(2)], of ?le rid "[]"] by simp
  then have n: "12 + length (contents ?le (request_header_calls rid rq) []) = calls_size ?le rest 20"
    unfolding request_header_calls_def rest_def [symmetric] calls_size_simps(3) request_prefix_size .
  have cnt: "count_calls ?le 20 cs = Inr (calls_size ?le cs 20)" if "\<forall>c \<in> set cs. no_align c" for cs
    using that by (rule count_calls_size)
  show ?thesis
  proof (cases "rq_address rq")
    case (KeyAddr key)
    show ?thesis
    proof (cases "rq_contexts rq = []")
      case True
      have r: "rest = [Value (VUShort 0), Value (VULong (of_nat (length key))), SmallArray key,
          Value (VULong (of_nat (length (rq_op rq)))), SmallArray (rq_op rq), Value (VULong 0)]"
        using True by (simp add: rest_def KeyAddr address_calls_def operation_calls_def)
      have "28 + length key \<le> align_to (28 + length key) 4"
        "align_to (28 + length key) 4 + 4 + length (rq_op rq) \<le>
           align_to (align_to (28 + length key) 4 + 4 + length (rq_op rq)) 4"
        by (rule align_to_ge; simp)+
      moreover have "calls_size ?le rest 20 < 2 ^ 30 + 12" using assms(1) unfolding n [symmetric] by simp
      ultimately have "20 + length key + length (rq_op rq) < 2 ^ 31" unfolding r key_calls_size by simp
      from key_header_size_eq [OF this, of ?le] show ?thesis
        using True unfolding n r by (simp add: request_header_size_def KeyAddr)
    next
      case False
      let ?c = "[Value (VUShort 0), Value (VULong (of_nat (length key))), Value (VOctets key),
          Value (VULong (of_nat (length (rq_op rq)))), Value (VOctets (rq_op rq))] @
          ServiceContexts_calls (rq_contexts rq)"
      have "calls_size ?le rest 20 = calls_size ?le ?c 20"
        using False by (simp add: rest_def KeyAddr address_calls_def operation_calls_def small_array_call)
      moreover have "count_calls ?le 20 ?c = Inr (calls_size ?le ?c 20)"
        by (rule cnt) (auto simp: no_align_lists)
      ultimately show ?thesis
        using False unfolding n by (simp add: request_header_size_def KeyAddr del: count_calls.simps)
    qed
  next
    case (ProfileAddr tag data)
    let ?c = "marshalIORAddressingInfo (ProfileAddr tag data) @
        [Value (VULong (of_nat (length (rq_op rq)))), Value (VOctets (rq_op rq))] @
        ServiceContexts_calls (rq_contexts rq)"
    have "calls_size ?le rest 20 = calls_size ?le ?c 20"
      by (cases "rq_contexts rq")
         (simp_all add: rest_def ProfileAddr address_calls_def operation_calls_def small_array_call
           ServiceContexts_calls_def)
    moreover have "count_calls ?le 20 ?c = Inr (calls_size ?le ?c 20)"
      by (rule cnt) (auto simp: no_align_lists)
    ultimately show ?thesis
      unfolding n by (simp add: request_header_size_def ProfileAddr del: count_calls.simps)
  qed
qed

end
