(* ===== verification/Giop_Ends.thy ===== *)
theory Giop_Ends
  imports Giop_Sizes
begin

text \<open>
  How messages begin and end: from \<^verbatim>\<open>outputNewMessage\<close> on the message holds nothing but its header, and
  \<^verbatim>\<open>outputMessageEnd\<close> completes what is on the wire to a message whose parts are the contents.
\<close>

section \<open>The beginning\<close>

definition new_msg :: "giopOut \<Rightarrow> 8 word \<Rightarrow> 32 word \<Rightarrow> giopMsg" where
  "new_msg s tp w = \<lparr>m_type = tp, m_rid = pd_request_id s, m_base = on_wire s, m_hdr = w\<rparr>"

lemma new_buffer:
  "ob (put_size env w (put_type tp (outputNewMessage env s))) = frame_start env False tp @ size_octets env w"
  by (simp add: put_size_def put_type_def outputNewMessage_def frame_start_def size_octets_def numeral_eq_Suc)

lemma writing_new:
  assumes "giop_env env"
  shows "writing env (new_msg s tp w) [] (put_size env w (put_type tp (outputNewMessage env s)))"
proof (rule composing_writing)
  show "composing env (new_msg s tp w) [] [] (put_size env w (put_type tp (outputNewMessage env s)))"
    unfolding composing_def new_buffer using giop_env_buffer(2) [OF assms]
    by (simp add: new_msg_def) (simp add: put_size_def put_type_def outputNewMessage_def)
qed simp

lemma known_size_new:
  assumes "giop_env env" and "n \<noteq> 0"
  shows "known_size env (new_msg s tp w) []
    (put_size env w ((put_type tp (outputNewMessage env s))\<lparr>pd_outputFragmentSize := n\<rparr>))"
proof -
  have "put_size env w (x\<lparr>pd_outputFragmentSize := n\<rparr>) = (put_size env w x)\<lparr>pd_outputFragmentSize := n\<rparr>" for x
    by (simp add: put_size_def)
  then show ?thesis
    unfolding known_size_def using assms giop_env_buffer(2) [OF assms(1)]
    by (simp add: new_buffer) (simp add: put_size_def put_type_def outputNewMessage_def new_msg_def)
qed

section \<open>The end\<close>

text \<open>
  What \<^verbatim>\<open>outputMessageEnd\<close> leaves out: the padding of a header that nothing follows, when the message is
  still in the buffer.
\<close>

definition trimmed :: "giopMsg \<Rightarrow> 8 word option list \<Rightarrow> 8 word option list" where
  "trimmed M v = (if align_to (unat (m_hdr M)) 8 = 12 + length v then take (unat (m_hdr M) - 12) v else v)"

definition sent_as ::
    "giopEnv \<Rightarrow> giopMsg \<Rightarrow> 8 word option list \<Rightarrow> giopOut \<Rightarrow> bool" where
  "sent_as env M v s \<longleftrightarrow>
     (\<exists>parts. on_wire s = m_base M @ message env (m_type M) (m_rid M) parts \<and> parts \<noteq> [] \<and>
        aligned_parts (butlast parts) \<and> concat parts = v)"

lemma sendChunk_outcome:
  assumes "giop_env env" and "on_wire s @ ob s = w"
  shows "send_outcome env n (\<lambda>s. on_wire s = w) (sendChunk env s)"
  unfolding sendChunk_def assms(2) [symmetric]
  by (rule outcome_mono [OF send_loop_outcome [OF assms(1)] order_refl]) auto

lemma trim_header_first:
  assumes "giop_env env" and c: "composing env M [] cur s"
    and h: "12 \<le> unat (m_hdr M)" "m_hdr M \<noteq> 0xffffffff"
  shows "\<exists>s'. trim_header env s = Inr s' \<and> on_wire s' = m_base M \<and>
    ob s' = frame env False (m_type M) (trimmed M cur)"
proof -
  have b: "ob s = frame_start env False (m_type M) @ size_octets env (m_hdr M) @ cur"
    and m: "pd_outputMessageSize s = 0" and w: "on_wire s = m_base M"
    using c by (auto simp: composing_def unat_eq_0)
  have "12 + length cur < 2 ^ 30"
    using composing_end(5) [OF assms(1) c] composing_length [OF c] c by (simp add: composing_def)
  then have l: "unat (of_nat (12 + length cur) :: 32 word) = 12 + length cur"
    by (subst unat_of_nat) (simp add: take_bit_nat_eq_self)
  have l2: "unat (of_nat (length cur) + 12 :: 32 word) = 12 + length cur"
    using l by (simp add: add.commute)
  have "s\<lparr>ob := frame_start env False (m_type M) @ size_octets env (m_hdr M) @ cur\<rparr> = s" using b by simp
  then have g: "get_size env s = Inr (m_hdr M)"
    using get_size_frame [where env = env and s = s and b = False and t = "m_type M" and w = "m_hdr M" and rest = cur]
    by simp
  show ?thesis
  proof (cases "align_to (unat (m_hdr M)) 8 = 12 + length cur")
    case True
    then have le: "unat (m_hdr M) \<le> 12 + length cur"
      using align_to_ge [of 8 "unat (m_hdr M)"] by simp
    have sz: "of_nat (length (trimmed M cur)) = m_hdr M - 12"
      using True le h(1) by (simp add: trimmed_def of_nat_diff)
    have "take (unat (m_hdr M)) (ob s) =
        frame_start env False (m_type M) @ size_octets env (m_hdr M) @ trimmed M cur"
      using True h(1) by (simp add: b trimmed_def)
    then show ?thesis
      using True l2 h(2) w sz
      by (auto simp: trim_header_def Let_def m g b frame_def put_size_def size_octets_def)
  next
    case False
    then show ?thesis
      using l2 h(2) w
      by (auto simp: trim_header_def Let_def m g b frame_def put_size_def size_octets_def trimmed_def)
  qed
qed

lemma trim_header_later:
  assumes "giop_env env" and c: "composing env M parts cur s" and "parts \<noteq> []"
  shows "\<exists>s'. trim_header env s = Inr s' \<and> on_wire s' = on_wire s \<and>
    ob s' = frame_at env (m_type M) (m_rid M) False False cur"
proof -
  obtain sz where sz: "length sz = 4"
    and b: "ob s = frame_start env False 7 @ sz @ (size_octets env (m_rid M) @ cur)"
    by (rule composing_buffer [OF c]) (use assms(3) in simp)
  have "length (concat parts) mod 8 = 4" using c assms(3) by (simp add: composing_def aligned_parts_length)
  moreover have "unat (pd_outputMessageSize s) = length (concat parts)" using c by (simp add: composing_def)
  ultimately have m: "pd_outputMessageSize s \<noteq> 0" by (metis mod_0 unat_0 zero_neq_numeral)
  then show ?thesis
    unfolding trim_header_def Let_def if_not_P [OF m] put_size_frame [OF b sz]
    using sz by (simp add: b frame_at_def frame_def)
qed

lemma message_end:
  assumes env: "giop_env env" and w: "writing env M v s"
    and h: "12 \<le> unat (m_hdr M)" "m_hdr M \<noteq> 0xffffffff"
  shows "send_outcome env n (\<lambda>s. sent_as env M v s \<or> sent_as env M (trimmed M v) s) (outputMessageEnd env s)"
proof -
  obtain parts cur where c: "composing env M parts cur s" and v: "v = concat parts @ cur"
    using w by (rule writing_composing)
  have f: "pd_outputFragmentSize s = 0" and ow: "on_wire s = m_base M @ frames env (m_type M) (m_rid M) True parts"
    using c by (simp_all add: composing_def)
  have ne: "ob s \<noteq> []" using composing_length [OF c] by (auto split: if_splits)
  show ?thesis
  proof (cases "parts = []")
    case True
    with trim_header_first [OF env _ h] c v obtain s' where
      s: "trim_header env s = Inr s'" "on_wire s' = m_base M" "ob s' = frame env False (m_type M) (trimmed M v)"
      by auto
    have "send_outcome env n (\<lambda>s. on_wire s = m_base M @ message env (m_type M) (m_rid M) [trimmed M v]) (sendChunk env s')"
      using sendChunk_outcome [OF env refl, of n s'] s by (simp add: message_def frame_at_def)
    then show ?thesis
      unfolding outputMessageEnd_def if_P [OF ne] f if_P [OF refl] s(1) ebind_Inr
      by (rule outcome_mono) (auto simp: sent_as_def intro!: exI [of _ "[trimmed M v]"])
  next
    case False
    with trim_header_later [OF env c] obtain s' where
      s: "trim_header env s = Inr s'" "on_wire s' = on_wire s"
        "ob s' = frame_at env (m_type M) (m_rid M) False False cur"
      by auto
    have "send_outcome env n (\<lambda>s. on_wire s = m_base M @ message env (m_type M) (m_rid M) (parts @ [cur])) (sendChunk env s')"
      using sendChunk_outcome [OF env refl, of n s'] s ow False by (simp add: message_def)
    moreover have "aligned_parts parts" using c by (simp add: composing_def)
    ultimately show ?thesis
      unfolding outputMessageEnd_def if_P [OF ne] f if_P [OF refl] s(1) ebind_Inr
      by (elim outcome_mono) (auto simp: sent_as_def v intro!: exI [of _ "parts @ [cur]"])
  qed
qed

lemma known_size_end:
  assumes k: "known_size env M v s"
  shows "send_outcome env n (\<lambda>s. on_wire s = m_base M @ frame_start env False (m_type M) @ size_octets env (m_hdr M) @ v)
    (outputMessageEnd env s)"
proof -
  have env: "giop_env env" and f: "pd_outputFragmentSize s \<noteq> 0"
    and o: "on_wire s @ ob s = m_base M @ frame_start env False (m_type M) @ size_octets env (m_hdr M) @ v"
    using k by (simp_all add: known_size_def)
  show ?thesis
    using sendChunk_outcome [OF env o] f o
    by (cases "ob s = []") (simp_all add: outputMessageEnd_def outcome_intros)
qed


section \<open>Requests and replies\<close>

lemma exact_extension: "\<exists>e. v = u @ e \<Longrightarrow> length v = length u \<Longrightarrow> v = u"
  by auto

lemma trimmed_contents:
  assumes "m_hdr M = of_nat (12 + length h)" and "length h < 2 ^ 30"
  shows "trimmed M (contents le args (vput h 8 [])) = contents le args (vput h 8 []) \<or>
    trimmed M (contents le args (vput h 8 [])) = h \<and> contents le args (vput h 8 []) = vput h 8 []"
proof -
  have u: "unat (m_hdr M) = 12 + length h"
    unfolding assms(1) by (subst unat_of_nat) (use assms(2) in \<open>simp add: take_bit_nat_eq_self\<close>)
  have a: "align_to (12 + length h) 8 = 12 + length (vput h 8 [])"
    using align_to_ge [of 8 "12 + length h"] by (simp add: vput_length gap_at_def)
  show ?thesis
  proof (cases "length (contents le args (vput h 8 [])) = length (vput h 8 [])")
    case True
    with contents_extends [of le args "vput h 8 []"] exact_extension
    have "contents le args (vput h 8 []) = vput h 8 []" by blast
    then show ?thesis by (simp add: trimmed_def u a) (simp add: vput_def)
  next
    case False
    then show ?thesis by (simp add: trimmed_def u a)
  qed
qed

lemma writing_bound:
  assumes "giop_env env" and "writing env M v s"
  shows "length v \<le> unat (giopMaxMsgSize env) + 7"
proof -
  obtain parts cur where c: "composing env M parts cur s" and v: "v = concat parts @ cur"
    using assms(2) by (rule writing_composing)
  have "length (ob s) \<le> ob_end s" "length (concat parts) \<le> unat (giopMaxMsgSize env)"
    using c by (simp_all add: composing_def)
  then show ?thesis
    using composing_length [OF c] composing_ob_end [OF c] assms(1)
    by (cases "parts = []") (auto simp: v space_end_def giop_env_def)
qed

text \<open>The whole body, or the header alone when nothing follows it.\<close>

definition sent_message ::
    "giopEnv \<Rightarrow> giopMsg \<Rightarrow> 8 word option list \<Rightarrow> 8 word option list \<Rightarrow> giopOut \<Rightarrow> bool" where
  "sent_message env M h b s \<longleftrightarrow>
     length b \<le> unat (giopMaxMsgSize env) + 7 \<and>
     (sent_as env M b s \<or> b = vput h 8 [] \<and> sent_as env M h s)"

text \<open>A message of header and body, when the size in the buffer is that of the header.\<close>

lemma header_and_body_ends:
  assumes adv: "advances env" and w: "writing env M [] s" and h: "contents (ge_le env) hcalls [] = h"
    and hs: "m_hdr M = of_nat (12 + length h)" "length h < 2 ^ 30"
    and sized: "\<forall>c \<in> set hcalls. sized_call c" "\<forall>c \<in> set args. sized_call c"
  defines "b \<equiv> contents (ge_le env) args (vput h 8 [])"
  shows "send_outcome env (length b) (sent_message env M h b)
    (ebind (out_calls env input s (hcalls @ [Align 8])) (\<lambda>s.
     ebind (out_calls env input s args) (outputMessageEnd env)))"
proof -
  have env: "giop_env env" using adv by (simp add: advances_def)
  have u: "unat (m_hdr M) = 12 + length h"
    unfolding hs(1) by (subst unat_of_nat) (use hs(2) in \<open>simp add: take_bit_nat_eq_self\<close>)
  then have g: "12 \<le> unat (m_hdr M)" "m_hdr M \<noteq> 0xffffffff" using hs(2) by auto
  have c: "contents (ge_le env) (hcalls @ [Align 8]) [] = vput h 8 []"
    by (simp add: h call_contents_def)
  have al: "\<forall>c \<in> set (hcalls @ [Align 8]). sized_call c" using sized(1) by simp
  note hd = fragments.calls_end [OF conjI [OF adv w] al, of input, unfolded c]
  show ?thesis
  proof (rule outcome_bind [OF hd])
    show "length (vput h 8 []) \<le> length b" unfolding b_def by (rule contents_longer)
    fix s1
    assume "advances env \<and> writing env M (vput h 8 []) s1"
    from fragments.calls_end [OF this sized(2), of input, folded b_def]
    show "send_outcome env (length b) (sent_message env M h b)
        (ebind (out_calls env input s1 args) (outputMessageEnd env))"
    proof (rule outcome_bind [OF _ order_refl], elim conjE)
      fix s2
      assume "writing env M b s2"
      from message_end [OF env this g, of "length b"]
      show "send_outcome env (length b) (sent_message env M h b)
          (outputMessageEnd env s2)"
        using trimmed_contents [OF hs, of "ge_le env" args, folded b_def]
          writing_bound [OF env \<open>writing env M b s2\<close>]
        by (elim outcome_mono [OF _ order_refl]) (auto simp: sent_message_def)
    qed
  qed
qed

lemma InitialiseRequest_outcome:
  assumes adv: "advances env" and sized: "sized_request rq" "\<forall>c \<in> set args. sized_call c"
    and h: "h = contents (ge_le env) (request_header_calls (pd_request_id s) rq) []" "length h < 2 ^ 30"
  defines "b \<equiv> contents (ge_le env) args (vput h 8 [])" and "M \<equiv> new_msg s 0 (of_nat (12 + length h))"
  shows "send_outcome env (length b) (sent_message env M h b)
    (InitialiseRequest env input rq args s)"
proof -
  have env: "giop_env env" using adv by (simp add: advances_def)
  let ?s = "put_size env (of_nat (12 + length h)) (put_type 0 (outputNewMessage env s))"
  have i: "pd_request_id ?s = pd_request_id s"
    by (simp add: put_size_def put_type_def outputNewMessage_def)
  have r: "request_header_size env rq = Inr (of_nat (12 + length h))"
    unfolding h(1) by (rule request_header_size_eq) (use h sized in auto)
  have e: "InitialiseRequest env input rq args s =
      ebind (out_calls env input ?s (request_header_calls (pd_request_id s) rq @ [Align 8])) (\<lambda>s.
      ebind (out_calls env input s args) (outputMessageEnd env))"
    unfolding InitialiseRequest_def outputMessageBegin_def marshalRequestHeader_def Let_def r ebind_Inr
    by (simp only: i)
  have w: "writing env M [] ?s" unfolding M_def by (rule writing_new [OF env])
  have hdr: "m_hdr M = of_nat (12 + length h)" by (simp only: M_def new_msg_def giopMsg.simps)
  show ?thesis
    unfolding e b_def
    by (rule header_and_body_ends [OF adv w h(1) [symmetric] hdr h(2)])
       (use sized sized_request_calls in auto)
qed


lemma reply_calls_sized:
  assumes "\<forall>c \<in> set (ServiceContexts_calls contexts). sized_call c"
  shows "\<forall>c \<in> set (reply_header_calls rid rc contexts). sized_call c"
  using assms by (simp add: reply_header_calls_def)

lemma SendReply_outcome:
  assumes adv: "advances env" and sized: "\<forall>c \<in> set (ServiceContexts_calls contexts). sized_call c"
    "\<forall>c \<in> set results. sized_call c"
    and h: "h = contents (ge_le env) (reply_header_calls (pd_request_id s) 0 contexts) []" "length h < 2 ^ 30"
  defines "b \<equiv> contents (ge_le env) results (vput h 8 [])" and "M \<equiv> new_msg s 1 (of_nat (12 + length h))"
  shows "send_outcome env (length b) (sent_message env M h b) (SendReply env input True contexts results s)"
proof -
  have env: "giop_env env" using adv by (simp add: advances_def)
  let ?s = "put_size env (of_nat (12 + length h)) (put_type 1 (outputNewMessage env s))"
  note rs = reply_calls_sized [OF sized(1)]
  have i: "pd_request_id ?s = pd_request_id s"
    by (simp add: put_size_def put_type_def outputNewMessage_def)
  have n: "12 + length h = calls_size (ge_le env) (reply_header_calls (pd_request_id s) 0 contexts) 12"
    using contents_size [OF rs, of "ge_le env" _ _ "[]"] by (simp add: h(1))
  have r: "(if length contexts = 0 then Inr (12 + 4 + 4 + 4)
      else ebind (count_calls (ge_le env) 12
        ([Value (VULong 0), Value (VULong 0)] @ ServiceContexts_calls contexts)) (\<lambda>n. Inr (of_nat n))) =
      Inr (of_nat (12 + length h) :: 32 word)"
  proof (cases "length contexts = 0")
    case True
    then show ?thesis unfolding n by (simp add: reply_header_calls_def call_size_def align_to_def)
  next
    case False
    have "count_calls (ge_le env) 12 ([Value (VULong 0), Value (VULong 0)] @ ServiceContexts_calls contexts) =
        Inr (calls_size (ge_le env) ([Value (VULong 0), Value (VULong 0)] @ ServiceContexts_calls contexts) 12)"
      by (rule count_calls_size) (auto simp: no_align_lists)
    moreover have "calls_size (ge_le env) ([Value (VULong 0), Value (VULong 0)] @ ServiceContexts_calls contexts) 12
        = calls_size (ge_le env) (reply_header_calls (pd_request_id s) 0 contexts) 12"
      using False by (simp add: reply_header_calls_def call_size_def)
    ultimately show ?thesis using False unfolding n by (simp del: count_calls.simps)
  qed
  have e: "SendReply env input True contexts results s =
      ebind (out_calls env input ?s (reply_header_calls (pd_request_id s) 0 contexts @ [Align 8])) (\<lambda>s.
      ebind (out_calls env input s results) (outputMessageEnd env))"
    unfolding SendReply_def outputMessageBegin_def marshalReplyHeader_def Let_def r ebind_Inr
    by (simp only: i not_True_eq_False if_False)
  have w: "writing env M [] ?s" unfolding M_def by (rule writing_new [OF env])
  have hdr: "m_hdr M = of_nat (12 + length h)" by (simp only: M_def new_msg_def giopMsg.simps)
  show ?thesis
    unfolding e b_def
    by (rule header_and_body_ends [OF adv w h(1) [symmetric] hdr h(2)]) (use sized rs in auto)
qed

section \<open>Messages of known size\<close>

lemma count_message_new:
  fixes s :: giopOut and tp :: "8 word"
  assumes env: "giop_env env" and c: "count_calls (ge_le env) 12 counted = Inr (12 + n)"
    and n: "0 < n" "n < 2 ^ 62"
  defines "x \<equiv> put_type tp (outputNewMessage env s)"
  shows "send_outcome env n
    (\<lambda>s'. known_size env (new_msg s tp (of_nat n)) [] s' \<and> pd_request_id s' = pd_request_id s)
    (count_message env counted x)"
proof -
  have u: "unat (of_nat n :: 64 word) = n" using n(2) by (simp add: unat_of_nat take_bit_nat_eq_self)
  then have z: "(of_nat n :: 64 word) \<noteq> 0" using n(1) by auto
  have cm: "count_message env counted x =
      (if unat (giopMaxMsgSize env) < n then exceedsLimit
       else Inr (put_size env (of_nat n) (x\<lparr>pd_outputFragmentSize := of_nat n\<rparr>)))"
    by (simp add: count_message_def c outputSetFragmentSize_def word_less_nat_alt u exceedsLimit_def)
  have k: "known_size env (new_msg s tp (of_nat n)) [] (put_size env (of_nat n) (x\<lparr>pd_outputFragmentSize := of_nat n\<rparr>))"
    unfolding x_def by (rule known_size_new [OF env z])
  then have "pd_request_id (put_size env (of_nat n) (x\<lparr>pd_outputFragmentSize := of_nat n\<rparr>)) = pd_request_id s"
    by (simp add: known_size_def new_msg_def)
  then show ?thesis unfolding cm using k by (auto intro!: outcome_intros)
qed

lemma whole_message_ends:
  assumes k: "known_size env M [] s" and "\<forall>c \<in> set cs. sized_call c"
  defines "v \<equiv> contents (ge_le env) cs []"
  shows "send_outcome env (length v)
    (\<lambda>s. on_wire s = m_base M @ frame_start env False (m_type M) @ size_octets env (m_hdr M) @ v)
    (ebind (out_calls env input s cs) (outputMessageEnd env))"
  by (rule outcome_bind [OF whole.calls_end [OF k assms(2), of input] _ known_size_end])
     (simp_all add: v_def)

end
