(* ===== verification/Giop_Limits.thy ===== *)
theory Giop_Limits
  imports Giop_Ends
begin

text \<open>
  User exceptions, whose size is counted in advance, and the values of \<^verbatim>\<open>giopMaxMsgSize\<close> for which a message
  that grows to the limit leaves a fragment without space.
\<close>

section \<open>Exceptions\<close>

definition exception_calls :: "32 word \<Rightarrow> ServiceContext list \<Rightarrow> 8 word list \<Rightarrow> stream_call list \<Rightarrow> stream_call list" where
  "exception_calls rid contexts repoid ex =
     [Value (VULong rid), Value (VULong 1)] @ ServiceContexts_calls contexts @ [Align 8] @
     [Value (VULong (of_nat (length repoid))), SmallArray repoid] @ ex"

lemma sendUserException_outcome:
  fixes s :: giopOut
  assumes env: "giop_env env" and sized: "\<forall>c \<in> set (exception_calls 0 contexts repoid ex). sized_call c"
    and ex: "\<forall>c \<in> set ex. no_align c"
    and n: "12 + n = calls_size (ge_le env) ([Value (VULong 0), Value (VULong 0)] @ ServiceContexts_calls contexts @
      [Value (VULong (of_nat (length repoid))), Value (VOctets repoid)] @ ex) 12" "0 < n" "n < 2 ^ 62"
  defines "v \<equiv> contents (ge_le env) (exception_calls (pd_request_id s) contexts repoid ex) []"
  shows "send_outcome env (max n (length v))
    (\<lambda>s'. on_wire s' = on_wire s @ frame_start env False 1 @ size_octets env (of_nat n) @ v)
    (sendUserException env input contexts repoid ex s)"
proof -
  define pre where "pre = [Value (VULong 0), Value (VULong 0)] @ ServiceContexts_calls contexts"
  define post where "post = [Value (VULong (of_nat (length repoid))), Value (VOctets repoid)] @ ex"
  have split: "count_calls le k (cs @ ds) = ebind (count_calls le k cs) (\<lambda>k. count_calls le k ds)" for le k cs ds
    by (induction cs arbitrary: k) (simp_all add: ebind_assoc)
  have "count_calls (ge_le env) 12 pre = Inr (calls_size (ge_le env) pre 12)"
    by (rule count_calls_size) (auto simp: no_align_lists pre_def)
  moreover have "count_calls (ge_le env) k post = Inr (calls_size (ge_le env) post k)" for k
    by (rule count_calls_size) (use ex in \<open>auto simp: post_def\<close>)
  moreover have "count_calls le k [Align 8] = Inr k" for le k by simp
  moreover have "12 + n = calls_size (ge_le env) post (calls_size (ge_le env) pre 12)"
    using n(1) by (simp add: pre_def post_def)
  ultimately have "count_calls (ge_le env) 12 (pre @ [Align 8] @ post) = Inr (12 + n)"
    unfolding split by simp
  then have c: "count_calls (ge_le env) 12
      ([Value (VULong 0), Value (VULong 0)] @ ServiceContexts_calls contexts @ [Align 8] @
       [Value (VULong (of_nat (length repoid))), Value (VOctets repoid)] @ ex) = Inr (12 + n)"
    by (simp add: pre_def post_def)
  have sz: "\<forall>c \<in> set (exception_calls (pd_request_id s) contexts repoid ex). sized_call c"
    using sized by (auto simp: exception_calls_def)
  show ?thesis
    unfolding sendUserException_def Let_def
  proof (rule outcome_bind [OF count_message_new [OF env c n(2,3)]])
    fix s1
    assume k: "known_size env (new_msg s 1 (of_nat n)) [] s1 \<and> pd_request_id s1 = pd_request_id s"
    have e: "[Value (VULong (pd_request_id s1)), Value (VULong 1)] @ ServiceContexts_calls contexts @ [Align 8] @
        [Value (VULong (of_nat (length repoid))), SmallArray repoid] @ ex =
        exception_calls (pd_request_id s) contexts repoid ex"
      using k by (simp add: exception_calls_def)
    show "send_outcome env (max n (length v))
        (\<lambda>s'. on_wire s' = on_wire s @ frame_start env False 1 @ size_octets env (of_nat n) @ v)
        (ebind (out_calls env input s1 ([Value (VULong (pd_request_id s1)), Value (VULong 1)] @
           ServiceContexts_calls contexts @ [Align 8] @
           [Value (VULong (of_nat (length repoid))), SmallArray repoid] @ ex)) (outputMessageEnd env))"
      unfolding e
      by (rule outcome_mono [OF whole_message_ends [OF conjunct1 [OF k] sz]]) (simp_all add: v_def new_msg_def)
  qed simp
qed


section \<open>A limit that leaves no space\<close>

text \<open>The message is as long as the limit, and the fragment begun has no space.\<close>

definition full_message :: "giopEnv \<Rightarrow> giopMsg \<Rightarrow> giopOut \<Rightarrow> bool" where
  "full_message env M s \<longleftrightarrow>
     (\<exists>parts. composing env M parts [] s \<and> parts \<noteq> [] \<and>
        length (concat parts) = unat (giopMaxMsgSize env))"

lemma flush_delivers:
  assumes "giop_env env" and "reliable env" and "composing env M parts cur s" and "length (ob s) mod 8 = 0"
    and "length (concat parts) + length cur \<le> unat (giopMaxMsgSize env)"
  shows "\<exists>s'. outputFlush env False s = Inr s' \<and> composing env M (parts @ [cur]) [] s'"
  using flush_unknown [OF assms(1,3,4)] assms(2,5) by (auto simp: send_outcome_def)

lemma full_message_state:
  assumes "giop_env env" and "full_message env M s"
  shows "length (ob s) = 16" and "ob_end s = 16" and "\<not> outputHasReachedLimit s"
proof -
  obtain parts where c: "composing env M parts [] s" "parts \<noteq> []" "length (concat parts) = unat (giopMaxMsgSize env)"
    using assms(2) by (auto simp: full_message_def)
  show "length (ob s) = 16" using composing_length [OF c(1)] c(2) by simp
  show "ob_end s = 16"
    using composing_ob_end [OF c(1)] c giop_env_buffer(2) [OF assms(1)] by (simp add: space_end_def)
  show "\<not> outputHasReachedLimit s" by (rule composing_end(4) [OF assms(1) c(1)])
qed

lemma full_message_flush:
  assumes "giop_env env" and "reliable env" and "full_message env M s"
  shows "\<exists>s'. outputFlush env False s = Inr s' \<and> full_message env M s'"
proof -
  obtain parts where c: "composing env M parts [] s" "parts \<noteq> []" "length (concat parts) = unat (giopMaxMsgSize env)"
    using assms(3) by (auto simp: full_message_def)
  have "length (ob s) mod 8 = 0" using full_message_state(1) [OF assms(1,3)] by simp
  from flush_delivers [OF assms(1,2) c(1) this] c(3) obtain s' where
    "outputFlush env False s = Inr s'" "composing env M (parts @ [[]]) [] s'" by auto
  then show ?thesis using c(3) by (auto simp: full_message_def intro!: exI [of _ "parts @ [[]]"])
qed

lemma full_message_loops:
  assumes env: "giop_env env" "reliable env" and a: "alignment (length b)" and f: "full_message env M s"
  shows "marshal_prim env s b = None"
proof -
  have "e = env \<longrightarrow> full_message env M t \<longrightarrow> alignment (length c) \<longrightarrow> False"
    if "marshal_prim e t c = Some r" for e t c r
    using that
  proof (rule marshal_prim.raw_induct [where P = "\<lambda>e t c r.
      e = env \<longrightarrow> full_message env M t \<longrightarrow> alignment (length c) \<longrightarrow> False", rotated], goal_cases)
    case (1 f e t c r)
    show ?case
    proof (intro impI)
      assume e: "e = env" and f: "full_message env M t" and c: "alignment (length c)"
      note st = full_message_state [OF env(1) f]
      have n: "align_to 16 (length c) = 16" "length c \<noteq> 0" using c by (auto simp: alignment_def align_to_def)
      then have o: "out_align t (length c) = t" using st(1) by (simp add: out_align_def)
      from full_message_flush [OF env f] obtain t' where
        t': "outputFlush env False t = Inr t'" "full_message env M t'" by blast
      have "getReserveSpace env t (length c) (length c) = Inr t'"
        using st n o t' full_message_state(3) [OF env(1) t'(2)] by (simp add: getReserveSpace_def Let_def)
      with 1(2) have "f env t' c = Some r" using st n o by (simp add: e)
      from 1(1) [OF this] t'(2) c show False by simp
    qed
  qed
  then show ?thesis using a f by (cases "marshal_prim env s b") auto
qed


lemma out_align_composing:
  assumes "giop_env env" and "composing env M parts cur s" and "alignment a"
  shows "composing env M parts (cur @ replicate (gap_at (concat parts @ cur) a) None) (out_align s a)"
    and "length (ob (out_align s a)) = align_to (length (ob s)) a"
    and "length (ob (out_align s a)) \<le> ob_end s" and "ob_end (out_align s a) = ob_end s"
proof -
  have le: "length (ob s) \<le> ob_end s" using assms(2) by (simp add: composing_def)
  show l: "length (ob (out_align s a)) = align_to (length (ob s)) a"
    using align_to_ge [OF assms(3), of "length (ob s)"] by (simp add: out_align_def)
  then show le': "length (ob (out_align s a)) \<le> ob_end s"
    using align_to_below [OF assms(3) composing_end(1) [OF assms(1,2)] le] by linarith
  then show "composing env M parts (cur @ replicate (gap_at (concat parts @ cur) a) None) (out_align s a)"
    unfolding out_align_def composing_gap [OF assms(2,3)]
    by (intro composing_extend [OF assms(2)])
       (simp add: out_align_def composing_gap [OF assms(2,3)])
qed (simp add: out_align_def)

lemma leftover_space:
  assumes "length (concat parts) mod 8 = 4" and "unat (giopMaxMsgSize env) mod 8 = 4"
    and "length (concat parts) \<le> unat (giopMaxMsgSize env)"
  shows "(unat (giopMaxMsgSize env) - length (concat parts) + 7) div 8 * 8 =
    unat (giopMaxMsgSize env) - length (concat parts)"
proof -
  have "8 dvd unat (giopMaxMsgSize env) - length (concat parts)"
    using assms mod_eq_dvd_iff_nat [OF assms(3), of 8] by simp
  then obtain k where "unat (giopMaxMsgSize env) - length (concat parts) = 8 * k" by (auto elim: dvdE)
  then show ?thesis by simp
qed

text \<open>With such a limit, whatever is in the message fits below the limit.\<close>

lemma full_limit_bound:
  assumes "giop_env env" and "unat (giopMaxMsgSize env) mod 8 = 4" and "composing env M parts cur s"
    and "length (ob s) + k \<le> ob_end s"
  shows "length (concat parts @ cur) + k \<le> unat (giopMaxMsgSize env)"
proof (cases "parts = []")
  case True
  then show ?thesis
    using assms(1,4) composing_length [OF assms(3)] composing_ob_end [OF assms(3)] by (simp add: giop_env_def)
next
  case False
  then have "length (concat parts) mod 8 = 4" "length (concat parts) \<le> unat (giopMaxMsgSize env)"
    using assms(3) by (simp_all add: composing_def aligned_parts_length)
  then show ?thesis
    using False assms(4) composing_length [OF assms(3)] composing_ob_end [OF assms(3)]
      leftover_space [OF _ assms(2), of parts]
    by (simp add: space_end_def) linarith
qed

lemma limit_loops:
  assumes env: "giop_env env" "reliable env" and m: "unat (giopMaxMsgSize env) mod 8 = 4"
    and w: "writing env M v s" and a: "alignment (length b)"
    and big: "unat (giopMaxMsgSize env) < length (vput v (length b) (map Some b))"
  shows "marshal_prim env s b = None"
proof -
  obtain parts cur where c: "composing env M parts cur s" and v: "v = concat parts @ cur"
    using w by (rule writing_composing)
  let ?n = "length b" and ?s = "out_align s (length b)"
  let ?cur = "cur @ replicate (gap_at (concat parts @ cur) ?n) None"
  have al: "composing env M parts ?cur ?s" and e: "ob_end ?s = ob_end s" and le: "length (ob ?s) \<le> ob_end s"
    using out_align_composing [OF env(1) c a] by simp_all
  have full: "\<not> length (ob ?s) + ?n \<le> ob_end s"
    using full_limit_bound [OF env(1) m al, of ?n] big by (auto simp: e v vput_def)
  have l: "length (ob ?s) = ob_end s"
    using align_to_below [OF a composing_end(1) [OF env(1) c], of "length (ob s)"] full c
      out_align_composing(2) [OF env(1) c a] by (auto simp: composing_def)
  have m8: "length (ob ?s) mod 8 = 0" using l composing_end(1) [OF env(1) c] by simp
  have tot: "length (concat parts) + length ?cur \<le> unat (giopMaxMsgSize env)"
    using full_limit_bound [OF env(1) m al, of 0] l e by simp
  from flush_delivers [OF env al m8 tot] obtain s' where
    s': "outputFlush env False ?s = Inr s'" "composing env M (parts @ [?cur]) [] s'"
    by (elim exE conjE) (rule that)
  have "length (concat (parts @ [?cur])) = unat (giopMaxMsgSize env)"
  proof (rule ccontr)
    define L where "L = length (concat (parts @ [?cur]))"
    assume "length (concat (parts @ [?cur])) \<noteq> unat (giopMaxMsgSize env)"
    moreover have le: "L \<le> unat (giopMaxMsgSize env)" using tot by (simp add: L_def)
    ultimately have ne: "unat (giopMaxMsgSize env) - L \<noteq> 0" by (simp add: L_def)
    have m4: "L mod 8 = 4"
      using s'(2) unfolding L_def by (simp add: composing_def aligned_parts_length del: concat_append)
    note ls = leftover_space [OF m4 [unfolded L_def] m le [unfolded L_def], folded L_def]
    obtain q where "unat (giopMaxMsgSize env) - L = q * 8" using ls by metis
    with ne have "8 \<le> unat (giopMaxMsgSize env) - L" by (cases q) simp_all
    moreover have "ob_end s' = min (bufferSize env) (16 + (unat (giopMaxMsgSize env) - L))"
      using composing_ob_end [OF s'(2)] ls by (simp add: space_end_def flip: L_def del: concat_append)
    ultimately have "24 \<le> ob_end s'" using giop_env_buffer(2) [OF env(1)] by simp
    then have "length (ob s') + ?n \<le> ob_end s'"
      using composing_length [OF s'(2)] a by (auto simp: alignment_def)
    from full_limit_bound [OF env(1) m s'(2) this] big show False by (simp add: v vput_def)
  qed
  then have f: "full_message env M s'" using s'(2) by (auto simp: full_message_def)
  have "?n \<noteq> 0" using a by (auto simp: alignment_def)
  then have "getReserveSpace env s ?n ?n = Inr s'"
    using l e s'(1) composing_end(4) [OF env(1) c] composing_end(4) [OF env(1) s'(2)]
    by (simp add: getReserveSpace_def Let_def)
  then show ?thesis
    using full full_message_loops [OF env a f] by (simp add: marshal_prim.simps [of env s b])
qed

end
