(* ===== verification/Giop_Claims.thy ===== *)
theory Giop_Claims
  imports Giop_Limits
begin

text \<open>
  The properties of the messages that GIOP 1.2 sends: requests and replies in fragments, messages of known
  size, and where the code goes wrong.
\<close>

section \<open>Requests and replies\<close>

definition request_header :: "bool \<Rightarrow> 32 word \<Rightarrow> giopRequest \<Rightarrow> 8 word option list" where
  "request_header le rid rq = contents le (request_header_calls rid rq) []"

definition reply_header :: "bool \<Rightarrow> 32 word \<Rightarrow> ServiceContext list \<Rightarrow> 8 word option list" where
  "reply_header le rid contexts = contents le (reply_header_calls rid 0 contexts) []"

text \<open>Header, padding to a multiple of eight, and what follows.\<close>

definition message_body :: "bool \<Rightarrow> 8 word option list \<Rightarrow> stream_call list \<Rightarrow> 8 word option list" where
  "message_body le h calls = contents le calls (vput h 8 [])"

lemma header_below_body: "length h \<le> length (message_body le h calls)"
  using contents_longer [of "vput h 8 []" le calls] by (simp add: message_body_def vput_length)

lemma message_body_size:
  assumes "\<forall>c \<in> set calls. sized_call c"
  shows "12 + length (message_body le h calls) = calls_size le calls (align_to (12 + length h) 8)"
  unfolding message_body_def contents_size [OF assms]
  using align_to_ge [of 8 "12 + length h"] by (simp add: vput_length gap_at_def)

lemma request_header_length:
  "sized_request rq \<Longrightarrow> 12 + length (request_header le rid rq) = calls_size le (request_header_calls rid rq) 12"
  using contents_size [OF sized_request_calls, of rq le rid "[]"] by (simp add: request_header_def)

lemma giop_limit: "advances env \<Longrightarrow> unat (giopMaxMsgSize env) < 2 ^ 30"
  by (simp add: advances_def giop_env_def)

definition on_the_wire ::
    "giopEnv \<Rightarrow> 8 word \<Rightarrow> 8 word option list \<Rightarrow> 8 word option list \<Rightarrow> giopOut \<Rightarrow> giopOut \<Rightarrow> bool" where
  "on_the_wire env tp h body s s' \<longleftrightarrow>
     (\<exists>parts. on_wire s' = on_wire s @ message env tp (pd_request_id s) parts \<and> parts \<noteq> [] \<and>
        aligned_parts (butlast parts) \<and>
        (concat parts = body \<or> concat parts = h \<and> body = vput h 8 []))"

lemma sent_message_on_the_wire:
  "sent_message env (new_msg s tp w) h b s' \<Longrightarrow> on_the_wire env tp h b s s'"
  unfolding sent_message_def sent_as_def on_the_wire_def new_msg_def giopMsg.simps by blast

text \<open>C1. A request goes out whole, in any number of fragments: on a transport that accepts at least an octet at
  a time, for a \<^verbatim>\<open>giopMaxMsgSize\<close> of at least the size of the buffer and less than \<open>2\<^sup>3\<^sup>0\<close> that is not 4 modulo 8,
  and when header and arguments together do not exceed it, \<^verbatim>\<open>GIOP_C::InitialiseRequest\<close>
  appends to what is on the wire one message and its fragments. Every one but the last says that more
  follow and ends on a multiple of eight, every size field is right, each fragment carries the request
  id, and the parts put together are the header, padded to eight, and the arguments, aligned as if the
  message had never been cut; when no arguments follow and nothing has been sent before the end, the
  padding is left out. Arrays of 16,384 octets and more take the same way as far as the receiver can
  see.\<close>

theorem requests_reach_the_wire:
  assumes "advances env" and "reliable env" and "sized_request rq" and "\<forall>c \<in> set arguments. sized_call c"
    and "h = request_header (ge_le env) (pd_request_id s) rq"
    and "length (message_body (ge_le env) h arguments) \<le> unat (giopMaxMsgSize env)"
  shows "\<exists>s'. InitialiseRequest env input rq arguments s = Inr s' \<and>
    on_the_wire env 0 h (message_body (ge_le env) h arguments) s s'"
proof -
  have l: "length h < 2 ^ 30" using header_below_body [of h] assms(6) giop_limit [OF assms(1)] by (meson le_less_trans le_trans)
  show ?thesis
    using InitialiseRequest_outcome [OF assms(1,3,4) assms(5) [unfolded request_header_def] l, of input] assms(2,6)
    by (auto simp: send_outcome_def message_body_def intro: sent_message_on_the_wire)
qed


lemma default_env:
  "(\<And>k n. c k n \<le> int n) \<Longrightarrow> advances (omniORB_env le giopMaxMsgSize_default c)"
  by (simp add: advances_def giop_env_def omniORB_env_def giopMaxMsgSize_default_def)

lemma lossless_env: "reliable (omniORB_env le maxsize (\<lambda>k n. int n))"
  by (simp add: reliable_def omniORB_env_def)

definition example_out :: giopOut where
  "example_out =
     \<lparr>ob = [], ob_end = 0, pd_outputFragmentSize = 0, pd_outputMessageSize = 0, pd_request_id = 5,
      on_wire = [], send_calls = 0\<rparr>"

lemma lossless_advances: "advances (omniORB_env le giopMaxMsgSize_default (\<lambda>k n. int n))"
  by (rule default_env) simp

lemma example_simps:
  "ge_le (omniORB_env le m c) = le" "unat (giopMaxMsgSize (omniORB_env le giopMaxMsgSize_default c)) = 2097152"
  "pd_request_id example_out = 5" "on_wire example_out = []"
  by (simp_all add: omniORB_env_def giopMaxMsgSize_default_def example_out_def)

definition example_request :: giopRequest where
  "example_request =
     \<lparr>rq_response_expected = True, rq_address = KeyAddr [1, 2, 3], rq_op = [104, 105, 0], rq_contexts = []\<rparr>"

lemma example_request_sized: "sized_request example_request"
  by (simp add: sized_request_def request_header_calls_def address_calls_def operation_calls_def
      example_request_def)

lemma example_body:
  "length (message_body True (request_header True 5 example_request) [Value (VULong 7)]) = 40"
proof -
  have "12 + length (request_header True 5 example_request) = 44"
    unfolding request_header_length [OF example_request_sized]
    by (simp add: request_header_calls_def address_calls_def operation_calls_def example_request_def
        call_size_def align_to_def)
  then show ?thesis
    using message_body_size [of "[Value (VULong 7)]" True "request_header True 5 example_request"]
    by (simp add: call_size_def align_to_def)
qed

theorem requests_reach_the_wire_witness:
  "\<forall>input. \<exists>s'. InitialiseRequest (omniORB_env True giopMaxMsgSize_default (\<lambda>k n. int n)) input example_request
      [Value (VULong 7)] example_out = Inr s' \<and>
    on_the_wire (omniORB_env True giopMaxMsgSize_default (\<lambda>k n. int n)) 0
      (request_header True 5 example_request)
      (message_body True (request_header True 5 example_request) [Value (VULong 7)]) example_out s'"
  by (intro allI, rule requests_reach_the_wire [OF lossless_advances lossless_env example_request_sized _ refl,
        where s = example_out, unfolded example_simps]) (simp_all add: example_body)

text \<open>C2. Marshalling a request ends, on any transport that sends no more than it is given, for every
  \<^verbatim>\<open>giopMaxMsgSize\<close> that is at least the size of the buffer, less than \<open>2\<^sup>3\<^sup>0\<close> and not 4 modulo 8, and for every
  request whose header is smaller than \<open>2\<^sup>3\<^sup>0\<close> octets (larger limits, and 0, which stands for \<^verbatim>\<open>LONG_MAX\<close>, are not
  covered, and for 4 modulo 8 it may not end, see \<open>limit_never_reached\<close>): the request is sent, or
  \<^verbatim>\<open>MARSHAL_MessageSizeExceedLimitOnClient\<close> is raised, and only for a message that is over the limit, or
  the transport has failed. What is sent exceeds the limit by at most 7 octets.\<close>

theorem requests_end:
  assumes "advances env" and "sized_request rq" and "\<forall>c \<in> set arguments. sized_call c"
    and "h = request_header (ge_le env) (pd_request_id s) rq" and "length h < 2 ^ 30"
    and "b = message_body (ge_le env) h arguments"
  shows "(\<exists>s'. InitialiseRequest env input rq arguments s = Inr s') \<and>
      length b \<le> unat (giopMaxMsgSize env) + 7 \<or>
    InitialiseRequest env input rq arguments s =
      Inl (Throw MARSHAL MARSHAL_MessageSizeExceedLimitOnClient) \<and> unat (giopMaxMsgSize env) < length b \<or>
    InitialiseRequest env input rq arguments s = Inl CommFailure \<and> \<not> reliable env"
  using InitialiseRequest_outcome [OF assms(1-3) assms(4) [unfolded request_header_def] assms(5), of input]
  unfolding send_outcome_def exceedsLimit_def sent_message_def assms(6) message_body_def by blast

theorem requests_end_witness:
  "\<forall>input. (\<exists>s'. InitialiseRequest (omniORB_env True giopMaxMsgSize_default (\<lambda>k n. int n - 1)) input example_request
      [Value (VULong 7)] example_out = Inr s') \<and>
      length (message_body True (request_header True 5 example_request) [Value (VULong 7)]) \<le> 2097159 \<or>
    InitialiseRequest (omniORB_env True giopMaxMsgSize_default (\<lambda>k n. int n - 1)) input example_request
      [Value (VULong 7)] example_out =
      Inl (Throw MARSHAL MARSHAL_MessageSizeExceedLimitOnClient) \<and>
      2097152 < length (message_body True (request_header True 5 example_request) [Value (VULong 7)]) \<or>
    InitialiseRequest (omniORB_env True giopMaxMsgSize_default (\<lambda>k n. int n - 1)) input example_request
      [Value (VULong 7)] example_out = Inl CommFailure"
  using requests_end [of "omniORB_env True giopMaxMsgSize_default (\<lambda>k n. int n - 1)" example_request
      "[Value (VULong 7)]" "request_header True 5 example_request" example_out
      "message_body True (request_header True 5 example_request) [Value (VULong 7)]"]
    default_env [of "\<lambda>k n. int n - 1" True] example_request_sized example_body
    header_below_body [of "request_header True 5 example_request" True "[Value (VULong 7)]"]
  unfolding example_simps by auto

text \<open>A reply goes out whole, in the same way: \<^verbatim>\<open>GIOP_S::SendReply\<close> puts one message of type Reply and
  its fragments on the wire, with the service contexts in the header and the results in the body.\<close>

theorem replies_reach_the_wire:
  assumes "advances env" and "reliable env" and "\<forall>c \<in> set (ServiceContexts_calls contexts). sized_call c"
    and "\<forall>c \<in> set results. sized_call c" and "h = reply_header (ge_le env) (pd_request_id s) contexts"
    and "length (message_body (ge_le env) h results) \<le> unat (giopMaxMsgSize env)"
  shows "\<exists>s'. SendReply env input True contexts results s = Inr s' \<and>
    on_the_wire env 1 h (message_body (ge_le env) h results) s s'"
proof -
  have l: "length h < 2 ^ 30" using header_below_body [of h] assms(6) giop_limit [OF assms(1)] by (meson le_less_trans le_trans)
  show ?thesis
    using SendReply_outcome [OF assms(1,3,4) assms(5) [unfolded reply_header_def] l, of input] assms(2,6)
    by (auto simp: send_outcome_def message_body_def intro: sent_message_on_the_wire)
qed

theorem replies_reach_the_wire_witness:
  "\<forall>input. \<exists>s'. SendReply (omniORB_env True giopMaxMsgSize_default (\<lambda>k n. int n)) input True [(5, [1, 2, 3])]
      [SmallArray [9]] example_out = Inr s' \<and>
    on_the_wire (omniORB_env True giopMaxMsgSize_default (\<lambda>k n. int n)) 1
      (reply_header True 5 [(5, [1, 2, 3])])
      (message_body True (reply_header True 5 [(5, [1, 2, 3])]) [SmallArray [9]]) example_out s'"
  using replies_reach_the_wire [of "omniORB_env True giopMaxMsgSize_default (\<lambda>k n. int n)" "[(5, [1, 2, 3])]"
      "[SmallArray [9]]" "reply_header True 5 [(5, [1, 2, 3])]" example_out]
    lossless_advances [of True] lossless_env [of True giopMaxMsgSize_default]
  by (simp add: example_simps ServiceContexts_calls_def ServiceContext_calls_def octet_seq_calls_def
      message_body_def reply_header_def reply_header_calls_def call_contents_def vput_length gap_at_def
      align_to_def)

section \<open>Messages of known size\<close>

definition exception_body :: "bool \<Rightarrow> 32 word \<Rightarrow> ServiceContext list \<Rightarrow> 8 word list \<Rightarrow> stream_call list \<Rightarrow> 8 word option list" where
  "exception_body le rid contexts repoid ex = contents le (exception_calls rid contexts repoid ex) []"

lemma exception_body_size:
  assumes "\<forall>c \<in> set (exception_calls 0 contexts repoid ex). sized_call c"
  shows "12 + length (exception_body le rid contexts repoid ex) =
    calls_size le ([Value (VULong (of_nat (length repoid))), SmallArray repoid] @ ex)
      (align_to (calls_size le (ServiceContexts_calls contexts) 20) 8)"
proof -
  have s: "\<forall>c \<in> set (exception_calls rid contexts repoid ex). sized_call c"
    using assms by (auto simp: exception_calls_def)
  show ?thesis
    unfolding exception_body_def
    using contents_size [OF s, of le "[]"]
    by (simp add: exception_calls_def call_size_def align_to_def [of 12 4] align_to_def [of 16 4])
qed

text \<open>C38. For a \<^verbatim>\<open>giopMaxMsgSize\<close> of less than \<open>2\<^sup>3\<^sup>0\<close>, a user exception without service contexts is one message of GIOP 1.2 whose size field is its size,
  however many times the buffer is flushed: \<^verbatim>\<open>sendUserException\<close> counts it first, and what a
  \<^verbatim>\<open>cdrCountingStream\<close> counts is what the stream then takes.\<close>

theorem user_exceptions_sent_whole:
  assumes "giop_env env" and "reliable env" and "\<forall>c \<in> set (exception_calls 0 [] repoid ex). sized_call c"
    and "\<forall>c \<in> set ex. no_align c" and "b = exception_body (ge_le env) (pd_request_id s) [] repoid ex"
    and "length b \<le> unat (giopMaxMsgSize env)"
  shows "\<exists>s'. sendUserException env input [] repoid ex s = Inr s' \<and>
    on_wire s' = on_wire s @ frame env False 1 b"
proof -
  note sz = exception_body_size [OF assms(3), of "ge_le env" "pd_request_id s", folded assms(5)]
  have ctx: "calls_size (ge_le env) (ServiceContexts_calls []) 20 = 24" "align_to 24 8 = 24"
    by (simp_all add: ServiceContexts_calls_def call_size_def align_to_def)
  have n: "12 + length b = calls_size (ge_le env) ([Value (VULong 0), Value (VULong 0)] @
      ServiceContexts_calls [] @ [Value (VULong (of_nat (length repoid))), Value (VOctets repoid)] @ ex) 12"
    using sz ctx by (simp add: small_array_call call_size_def align_to_def [of 12 4] align_to_def [of 16 4])
  have "length b < 2 ^ 30" using assms(1,6) by (simp add: giop_env_def)
  moreover have "4 \<le> length b"
    using contents_longer [of "contents (ge_le env) [Value (VULong (pd_request_id s))] []" "ge_le env"
        "tl (exception_calls (pd_request_id s) [] repoid ex)"]
    by (simp add: assms(5) exception_body_def exception_calls_def call_contents_def vput_length)
  ultimately have "0 < length b" "length b < 2 ^ 62" by (linarith, simp)
  from sendUserException_outcome [OF assms(1,3,4) n this, of s input] show ?thesis
    using assms(2,6) by (auto simp: send_outcome_def assms(5) exception_body_def frame_def)
qed

theorem user_exceptions_sent_whole_witness:
  "\<forall>input. \<exists>s'. sendUserException (omniORB_env True giopMaxMsgSize_default (\<lambda>k n. int n)) input [] [73, 0]
      [Value (VULongLong 1)] example_out = Inr s' \<and>
    on_wire s' = frame (omniORB_env True giopMaxMsgSize_default (\<lambda>k n. int n)) False 1
      (exception_body True 5 [] [73, 0] [Value (VULongLong 1)])"
  using user_exceptions_sent_whole [of "omniORB_env True giopMaxMsgSize_default (\<lambda>k n. int n)" "[73, 0]"
      "[Value (VULongLong 1)]" "exception_body True 5 [] [73, 0] [Value (VULongLong 1)]" example_out]
    lossless_advances [of True] lossless_env [of True giopMaxMsgSize_default]
  by (simp add: example_simps exception_calls_def ServiceContexts_calls_def advances_def exception_body_def
      call_contents_def vput_length gap_at_def align_to_def)





section \<open>Positions and limits\<close>

text \<open>C40. A limit of less than \<open>2\<^sup>3\<^sup>0\<close> that is 4 modulo 8 does not stop a message: instead of raising
  \<^verbatim>\<open>MARSHAL_MessageSizeExceedLimitOnClient\<close>, a value that would bring the message over such a
  \<^verbatim>\<open>giopMaxMsgSize\<close> is never stored, and the stream sends empty fragments for ever. The test for the limit
  compares the end of the space with the start of the buffer and 12, the length of a header of GIOP 1.1,
  where a fragment of GIOP 1.2 starts at 16.\<close>

theorem limit_never_reached:
  assumes "giop_env env" and "reliable env" and "unat (giopMaxMsgSize env) mod 8 = 4"
    and "writing env M v s" and "alignment (length b)"
    and "unat (giopMaxMsgSize env) < length (vput v (length b) (map Some b))"
  shows "marshal_prim env s b = None"
  using assms by (rule limit_loops)

definition example_full :: giopOut where
  "example_full =
     \<lparr>ob = frame_start (omniORB_env True 8196 (\<lambda>k n. int n)) False 7 @ replicate 4 None @
        size_octets (omniORB_env True 8196 (\<lambda>k n. int n)) 5,
      ob_end = 16, pd_outputFragmentSize = 0, pd_outputMessageSize = 8196, pd_request_id = 5,
      on_wire = frame_at (omniORB_env True 8196 (\<lambda>k n. int n)) 0 5 True True (replicate 8196 None),
      send_calls = 1\<rparr>"

lemma example_full_writing:
  "writing (omniORB_env True 8196 (\<lambda>k n. int n)) \<lparr>m_type = 0, m_rid = 5, m_base = [], m_hdr = 0\<rparr>
     (replicate 8196 None) example_full"
proof (rule composing_writing)
  have e: "unat (giopMaxMsgSize (omniORB_env True 8196 c)) = 8196" "bufferSize (omniORB_env True 8196 c) = 8192"
    for c by (simp_all add: omniORB_env_def)
  show "composing (omniORB_env True 8196 (\<lambda>k n. int n)) \<lparr>m_type = 0, m_rid = 5, m_base = [], m_hdr = 0\<rparr>
      [replicate 8196 None] [] example_full"
    unfolding composing_def space_end_def e
    by (intro conjI exI [of _ "replicate 4 None"]) (simp_all add: example_full_def)
qed simp

theorem limit_never_reached_witness:
  "marshal_prim (omniORB_env True 8196 (\<lambda>k n. int n)) example_full [1] = None"
proof (rule limit_never_reached [OF _ lossless_env _ example_full_writing])
  show "giop_env (omniORB_env True 8196 (\<lambda>k n. int n))" by (simp add: giop_env_def omniORB_env_def)
qed (simp_all add: omniORB_env_def vput_length)

text \<open>The position of a message of known size is lost when the buffer is flushed: \<^verbatim>\<open>outputFlush\<close> takes
  away 16 octets of a header of a fragment that such a message does not have. The position falls back by
  16, and the offset of an indirection in a valuetype, which is a difference of two positions, is wrong
  when there is a flush between them. Before the first flush it is the length of the contents.\<close>

theorem position_lost_on_flush:
  assumes "known_size env M v s" and "pd_outputMessageSize s = 0" and "length (ob s) = 12 + length v"
    and "0 < length v" and "length v < 2 ^ 30" and "outputFlush env False s = Inr s'"
  shows "g_currentOutputPtr s = of_nat (length v) \<and> g_currentOutputPtr s' = of_nat (length v) - 16"
proof
  show "g_currentOutputPtr s = of_nat (length v)"
    using assms(2,3) by (simp add: g_currentOutputPtr_def)
  have f: "pd_outputFragmentSize s \<noteq> 0" and c: "\<And>k n. conn env k n \<le> int n"
    using assms(1) by (simp_all add: known_size_def giop_env_def)
  have "count_fragment env False s = Inr (s\<lparr>pd_outputMessageSize := of_nat (length v)\<rparr>)"
    using f assms(2,3) ucast_of_nat_small(2) [of "length v"] assms(5) by (simp add: count_fragment_def Let_def)
  then obtain k where "s' = next_fragment env (s\<lparr>pd_outputMessageSize := of_nat (length v),
      on_wire := on_wire s @ ob s, send_calls := k\<rparr>)"
    using assms(6) send_loop_cases [of "conn env" "s\<lparr>pd_outputMessageSize := of_nat (length v)\<rparr>" "ob s", OF c]
    by (auto simp: outputFlush_def sendChunk_def)
  then have "ob s' = []" "pd_outputMessageSize s' = of_nat (length v)"
    using f by (simp_all add: next_fragment_def)
  moreover have "unat (of_nat (length v) :: 64 word) = length v"
    using assms(5) by (simp add: unat_of_nat take_bit_nat_eq_self)
  then have "(of_nat (length v) :: 64 word) \<noteq> 0" using assms(4) by (metis less_irrefl unat_0)
  ultimately show "g_currentOutputPtr s' = of_nat (length v) - 16"
    by (simp add: g_currentOutputPtr_def)
qed

definition example_known :: giopOut where
  "example_known =
     \<lparr>ob = frame_start (omniORB_env True giopMaxMsgSize_default (\<lambda>k n. int n)) False 1 @
        size_octets (omniORB_env True giopMaxMsgSize_default (\<lambda>k n. int n)) 9000 @ replicate 4 None,
      ob_end = 8192, pd_outputFragmentSize = 9000, pd_outputMessageSize = 0, pd_request_id = 5,
      on_wire = [], send_calls = 0\<rparr>"

theorem position_lost_on_flush_witness:
  "\<exists>s'. outputFlush (omniORB_env True giopMaxMsgSize_default (\<lambda>k n. int n)) False example_known = Inr s' \<and>
     g_currentOutputPtr example_known = 4 \<and> g_currentOutputPtr s' = 4 - 16"
proof -
  let ?env = "omniORB_env True giopMaxMsgSize_default (\<lambda>k n. int n)"
  have g: "giop_env ?env" using lossless_advances by (simp add: advances_def)
  have k: "known_size ?env \<lparr>m_type = 1, m_rid = 5, m_base = [], m_hdr = 9000\<rparr> (replicate 4 None) example_known"
    using g by (simp add: known_size_def example_known_def omniORB_env_def)
  have "(length (ob example_known) + length []) mod 8 = 0" by (simp add: example_known_def)
  from flush_known_size [OF k this, of 0 False] lossless_env [of True giopMaxMsgSize_default] obtain s' where
    s': "outputFlush ?env False example_known = Inr s'"
    by (auto simp: sendCopyChunk_Nil send_outcome_def exceedsLimit_def)
  from position_lost_on_flush [OF k _ _ _ _ s'] s' show ?thesis by (simp add: example_known_def)
qed

text \<open>Within a message in fragments the position is the length of the contents, across fragments.\<close>

lemma fragment_position:
  assumes "writing env M v s"
  shows "g_currentOutputPtr s = of_nat (length v)"
proof -
  obtain parts cur where c: "composing env M parts cur s" and v: "v = concat parts @ cur"
    using assms by (rule writing_composing)
  have m: "pd_outputMessageSize s = of_nat (length (concat parts))"
    using c unfolding composing_def by (metis of_nat_unat ucast_id)
  show ?thesis
  proof (cases "parts = []")
    case True
    then show ?thesis using composing_length [OF c] m by (simp add: g_currentOutputPtr_def v)
  next
    case False
    then have "length (concat parts) \<noteq> 0"
      using c aligned_parts_length [of parts] by (metis composing_def mod_0 zero_neq_numeral)
    then have "pd_outputMessageSize s \<noteq> 0" using c by (metis composing_def unat_0)
    then show ?thesis using composing_length [OF c] m False by (simp add: g_currentOutputPtr_def v)
  qed
qed

end
