(* ===== verification/Spec2Isabelle.thy ===== *)
theory Spec2Isabelle
  imports Fixed_Mul Fixed_Text_Props Fixed_Wire Cdr_Claims Utf8_Validate Code_Set_Claims Wide_Claims
    Code_Set_Select_Claims Object_Claims Adapter_Claims Poa_Manager Giop_Claims
begin

text \<open>
  Parts of the CORBA object request broker omniORB, as it is under \<^verbatim>\<open>src/omniORB\<close> of this repository:
  the marshalling streams, the type \<^verbatim>\<open>CORBA::Fixed\<close>, the conversion of characters and strings between
  code sets and the choice of the code sets for a connection, the table of local objects with the life
  cycle of its entries, and the requests in an object adapter with its POA manager. Below,
  \<^verbatim>\<open>orbcore\<close> is \<^verbatim>\<open>src/omniORB/src/lib/omniORB/orbcore\<close>, \<^verbatim>\<open>codesets\<close> the directory of that name beside it,
  and \<^verbatim>\<open>include\<close> is \<^verbatim>\<open>src/omniORB/include/omniORB4\<close>.

  \<^bold>\<open>How the parts interact.\<close> A client writes a request into a stream; integers, octets and raw strings go
  there directly, fixed point numbers as half-octets, and strings through a native and a transmission code
  set. The transmission code sets of a connection are chosen by the client from a component of the IOR and
  told to the server in a service context; component and context are encapsulations, that is, memory
  streams with a byte order of their own. In the server, a request finds its object in the object table,
  is held, discarded or let through by the adapter as its manager says, and is counted by the adapter and
  by the entry of the object, so that deactivation and destruction can wait for it.

  \<^bold>\<open>Conventions\<close> (\<open>Prelude\<close>). An operation that can fail returns \<open>error + 'a\<close>: a system exception with its
  minor code, a failed \<^verbatim>\<open>OMNIORB_ASSERT\<close>, or \<open>Undefined\<close> for what C++ leaves undefined, so that a theorem
  that gives a result also excludes undefined behaviour. Integers have their width (\<open>32 word\<close> for
  \<^verbatim>\<open>CORBA::ULong\<close>); pointers are addresses or options. The byte order of the host, the addresses that
  \<^verbatim>\<open>new\<close> returns and those of inline buffers are parameters. Collections: \<open>err_simps\<close> opens and inverts
  sequences of fallible operations, \<open>dig_simps\<close> evaluates digit lists.

  \<^bold>\<open>CORBA::Fixed\<close> (\<^verbatim>\<open>orbcore/corbaFixed.cc\<close>, \<^verbatim>\<open>include/CORBA_Fixed.h\<close>). \<open>Fixed_Type\<close>: the record of 31
  digits, constructors, conversions, rounding; \<open>Fixed_Arith\<close>: comparison and the digit loops of
  \<^verbatim>\<open>realAdd\<close>, \<^verbatim>\<open>realSub\<close>, \<^verbatim>\<open>realMul\<close>, \<^verbatim>\<open>realDiv\<close>; \<open>Fixed_Text\<close>: \<^verbatim>\<open>to_string\<close> and \<^verbatim>\<open>NP_fromString\<close>;
  \<open>Fixed_Marshal\<close>: the stream operators. The lemmas give every operation in terms of the value of its
  operands and keep the invariant of the type (\<open>Fixed_Round\<close>, \<open>Fixed_Arith_Props\<close>, \<open>Fixed_Sub\<close>, \<open>Fixed_Mul\<close>,
  \<open>Fixed_Text_Props\<close>, \<open>Fixed_Wire\<close>). The inner loop of \<^verbatim>\<open>realDiv\<close> has eleven units of fuel:
  they let it count to ten, one more than the assertion after the loop accepts, and a digit of a quotient of
  well-formed numbers is at most 9.

  \<^bold>\<open>Streams\<close> (\<^verbatim>\<open>include/cdrStream.h\<close>, \<^verbatim>\<open>orbcore/cdrMemoryStream.cc\<close>, \<^verbatim>\<open>orbcore/cdrStream.cc\<close>,
  \<^verbatim>\<open>orbcore/corbaString.cc\<close>, \<^verbatim>\<open>include/seqTemplatedefns.h\<close>). \<open>Cdr_Stream\<close>: the integers of \<^verbatim>\<open>cdrStream\<close> over
  its virtual functions (the record \<open>cdrOps\<close>), and the contract of these functions as the locale
  \<open>cdr_stream\<close>, in which reading back is proved once (\<open>carries\<close>). \<open>Cdr_Memory\<close>: memory, encapsulation and
  counting streams with their buffers; \<open>Cdr_Memory_Props\<close> interprets the locale on the memory stream.
  \<open>Cdr_RawString\<close>: raw strings; \<open>Cdr_Encaps\<close>: the octets of an encapsulation, sequences of \<^verbatim>\<open>CORBA::ULong\<close>,
  and a simulation (\<open>agrees\<close>) by which a host of the other byte order reads from the octets, in place or
  copied, what the writer would read; \<open>Cdr_Claims\<close>: the properties.

  \<^bold>\<open>Code sets\<close> (\<^verbatim>\<open>include/codeSets.h\<close>, \<^verbatim>\<open>orbcore/cs-8bit.cc\<close>, \<^verbatim>\<open>cs-UTF-8.cc\<close>, \<^verbatim>\<open>cs-16bit.cc\<close>,
  \<^verbatim>\<open>cs-UTF-16.cc\<close>, \<^verbatim>\<open>cs-8859-1.cc\<close>, \<^verbatim>\<open>codesets/*.cc\<close>). \<open>Code_Sets\<close> models the classes of \<^verbatim>\<open>cs-8bit.cc\<close>; the
  virtual functions of a transmission code set are a record of functions over a stream (\<open>str_io\<close>).
  \<open>Code_Set_Laws\<close> has the stream contract \<open>str_stream\<close>, \<open>Code_Set_Contract\<close> what a native set relies on in a
  transmission set (\<open>tcs_contract\<close>) with its interpretation for single-byte sets. \<open>Utf8\<close> models
  \<^verbatim>\<open>cs-UTF-8.cc\<close>; \<open>Utf8_Spec\<close> is the reference (octets and UTF-16 units of a code point by arithmetic),
  \<open>Utf8_Codec\<close> and \<open>Utf8_Contract\<close> compare the loops with it, \<open>Utf8_Validate\<close> shows that validation accepts
  exactly the encodings of scalar values. \<open>Cs_Iso_A\<close> to \<open>Cs_Ebcdic\<close> hold the tables of 27 code sets, each
  checked by the kernel with \<open>Cs_Check\<close>; \<open>Code_Set_Tables\<close> concludes that they are inverse to each other.
  \<open>Wide_Sets\<close>, \<open>Wide_Contract\<close>, \<open>Wide_Claims\<close> do the same for wide characters: 16-bit sets, with their tables
  as parameters, and UTF-16 with its byte order marks. \<open>Code_Set_Claims\<close>: strings through a connection.

  \<^bold>\<open>Choice of the code sets\<close> (\<^verbatim>\<open>orbcore/codeSets.cc\<close>). \<open>Code_Set_Select\<close>: the registered sets, the options,
  the component of the IOR and the choice from it, and the two interceptors with what the strand keeps;
  \<open>Code_Set_Select_Claims\<close>: the component crosses hosts of different byte order, and both ends of a
  connection use the same sets in every request.

  \<^bold>\<open>Messages of GIOP 1.2\<close> (\<^verbatim>\<open>orbcore/giopImpl12.cc\<close>, \<^verbatim>\<open>giopStream.cc\<close>, \<^verbatim>\<open>GIOP_C.cc\<close>, \<^verbatim>\<open>GIOP_S.cc\<close>,
  \<^verbatim>\<open>omniIOR.cc\<close>, \<^verbatim>\<open>include/internal/giopStream.h\<close>). \<open>Giop_Output\<close>: the output buffer, its flushes into fragments,
  large arrays sent past it, whole messages; the loops are partial functions. \<open>Giop_Messages\<close>: requests,
  replies, exceptions and locate messages as sequences of calls on the stream, and the sizes counted in
  advance. \<open>Giop_Output_Props\<close>: what is on the wire during a message. \<open>Giop_Contract\<close>, \<open>Giop_Buffer\<close>: the
  locales \<open>giop_output\<close> (what marshalling relies on) and \<open>giop_buffer\<close> (what the operations rely on), the
  second giving the first; \<open>Giop_Modes\<close> interprets them for messages in fragments and messages of known
  size. \<open>Giop_Sizes\<close>, \<open>Giop_Ends\<close>, \<open>Giop_Limits\<close>: sizes of headers, the end of a message, the limits.
  \<open>Giop_Claims\<close>: messages reach the wire whole, marshalling ends, and three ways in which the code goes wrong.

  \<^bold>\<open>Object table\<close> (\<^verbatim>\<open>orbcore/omniInternal.cc\<close>, \<^verbatim>\<open>localIdentity.cc\<close>, \<^verbatim>\<open>omniServant.cc\<close>, \<^verbatim>\<open>poa.cc\<close>,
  \<^verbatim>\<open>include/internal/objectTable.h\<close>, \<^verbatim>\<open>localIdentity.h\<close>). \<open>Object_Table\<close>: the resizing hash table and the
  state changes of an entry, each critical section of \<^verbatim>\<open>omni::internalLock\<close> one function; its walks along
  chains are partial functions, shown to return. \<open>Object_Life\<close>: the threads that locate, wait, invoke,
  deactivate and etherealise, as actions and a step relation. \<open>Object_Table_Inv\<close>, \<open>Object_Life_Inv\<close>,
  \<open>Object_Wait\<close>: the invariants; the table refines a map from keys to live entries. \<open>Object_Claims\<close>: what
  holds in every reachable state, and that waiters of a dead entry leave under a fair scheduler.

  \<^bold>\<open>Adapters\<close> (\<^verbatim>\<open>orbcore/objectAdapter.cc\<close>, \<^verbatim>\<open>include/internal/objectAdapter.h\<close>, \<^verbatim>\<open>orbcore/poa.cc\<close>,
  \<^verbatim>\<open>poamanager.cc\<close>). \<open>Adapter\<close>: the request counters, holding and discarding, the waits for completion;
  \<open>Adapter_Threads\<close>: the threads around one adapter as a step relation; \<open>Adapter_Inv\<close>, \<open>Adapter_Steps\<close>: the
  invariant; \<open>Adapter_Claims\<close>: no assertion fails, a sleeping thread has a reason to sleep, destruction goes
  on only in an empty adapter, and the schedules in which the code goes wrong: a destruction that hangs, and
  uses of the condition variable of an adapter that has been destroyed, which requests and waits can reach.
  \<open>Poa_Manager\<close>: the state of a manager and of its adapters, also of those that destroy themselves.

  \<^bold>\<open>Not modelled.\<close> Floating point (marshalling and the conversions of \<^verbatim>\<open>Fixed\<close>), which has no faithful
  counterpart in the libraries used; the multi-byte code set of \<^verbatim>\<open>cs-GBK.cc\<close> (tables of
  24,576 entries) and the wide one of \<^verbatim>\<open>cs-UCS-4.cc\<close>; the chunks of valuetypes; the active object map, the policies and the servant managers of \<^verbatim>\<open>poa.cc\<close>; the
  input side of GIOP, its versions 1.0 and 1.1, and the scheduling of the strands; IORs and URIs; type codes, \<^verbatim>\<open>Any\<close> and \<^verbatim>\<open>DynAny\<close>; transports and sockets, TLS and
  HTTP, which are system calls; the threads package, which wraps the system's; the IDL compiler, of which
  scanner and parser are generated and the preprocessor is third-party code; the services and tools on top
  of the ORB; the Python binding.
\<close>

end
